(* ===== verification/Dm_Prelude.thy ===== *)
theory Dm_Prelude
  imports Main "HOL-Library.Word" "HOL-Library.Char_ord" "HOL-Library.List_Lexorder"
begin

text \<open>
  Shared vocabulary of the development: the parts of the C++ standard library the service
  uses (string search, decimal printing, \<open>strtoul\<close>/\<open>strtoll\<close>, \<open>getline\<close>, token splitting,
  \<open>std::map\<close>), the error codes of \<^verbatim>\<open>common/include/disk_manager_errno.h\<close>, and the generic
  lemmas about them that the component theories use. A C++ string is a \<^typ>\<open>string\<close>: a list of
  bytes. \<open>unsigned long\<close> has 64 bits (the LP64 targets the service is built for).
\<close>

unbundle bit_operations_syntax

named_theorems string_simps "evaluation rules of the string operations"
named_theorems omap_simps "lookup and update laws of ordered maps"

section \<open>Error codes\<close>

type_synonym errno = int

abbreviation (input) E_OK :: errno where "E_OK \<equiv> 0"
abbreviation (input) DISK_MGR_ERR :: errno where "DISK_MGR_ERR \<equiv> - 1"
abbreviation (input) E_DISK_NOT_FOUND :: errno where "E_DISK_NOT_FOUND \<equiv> 20"
abbreviation (input) E_VOLUME_NOT_FOUND :: errno where "E_VOLUME_NOT_FOUND \<equiv> 21"
abbreviation (input) E_UEVENT_PARSE_FAILED :: errno where "E_UEVENT_PARSE_FAILED \<equiv> 22"
abbreviation (input) E_DISK_HAS_EXIST :: errno where "E_DISK_HAS_EXIST \<equiv> 24"
abbreviation (input) E_DESTROY_DEVICE_NODE :: errno where "E_DESTROY_DEVICE_NODE \<equiv> 25"
abbreviation (input) E_STORAGE_VALID_NODE :: errno where "E_STORAGE_VALID_NODE \<equiv> 26"
abbreviation (input) E_SA_IS_UNLOADING :: errno where "E_SA_IS_UNLOADING \<equiv> 27"
abbreviation (input) E_PERMISSION_DENIED :: errno where "E_PERMISSION_DENIED \<equiv> 13600001"
abbreviation (input) E_PARAMS_INVALID :: errno where "E_PARAMS_INVALID \<equiv> 13600002"
abbreviation (input) E_NON_EXIST :: errno where "E_NON_EXIST \<equiv> 13600004"
abbreviation (input) E_NOT_SUPPORT :: errno where "E_NOT_SUPPORT \<equiv> 13600007"
abbreviation (input) E_SYS_APP_PERMISSION_DENIED :: errno where "E_SYS_APP_PERMISSION_DENIED \<equiv> 13600025"
abbreviation (input) E_STATVFS :: errno where "E_STATVFS \<equiv> 13601204"
abbreviation (input) E_VOL_STATE :: errno where "E_VOL_STATE \<equiv> 13601701"
abbreviation (input) E_VOL_MOUNT_ERR :: errno where "E_VOL_MOUNT_ERR \<equiv> 13601702"
abbreviation (input) E_VOL_UMOUNT_ERR :: errno where "E_VOL_UMOUNT_ERR \<equiv> 13601703"
abbreviation (input) E_UMOUNT_BUSY :: errno where "E_UMOUNT_BUSY \<equiv> 13601704"
abbreviation (input) E_VOL_NEED_FIX :: errno where "E_VOL_NEED_FIX \<equiv> 13601730"
abbreviation (input) E_GET_PARTITION_ERROR :: errno where "E_GET_PARTITION_ERROR \<equiv> 13601739"
abbreviation (input) E_CREATE_PARTITION_NOT_SUPPORT :: errno where "E_CREATE_PARTITION_NOT_SUPPORT \<equiv> 13601740"
abbreviation (input) E_CREATE_PARTITION_ERROR :: errno where "E_CREATE_PARTITION_ERROR \<equiv> 13601742"
abbreviation (input) E_DELETE_PARTITION_NOT_SUPPORT :: errno where "E_DELETE_PARTITION_NOT_SUPPORT \<equiv> 13601743"
abbreviation (input) E_DELETE_PARTITION_ERROR :: errno where "E_DELETE_PARTITION_ERROR \<equiv> 13601745"
abbreviation (input) E_FORMAT_PARTITION_NOT_SUPPORT :: errno where "E_FORMAT_PARTITION_NOT_SUPPORT \<equiv> 13601748"
abbreviation (input) E_FORMAT_PARTITION_ERROR :: errno where "E_FORMAT_PARTITION_ERROR \<equiv> 13601750"
abbreviation (input) E_QUERY_VOLUME_IN_USE_ERROR :: errno where "E_QUERY_VOLUME_IN_USE_ERROR \<equiv> 13601751"
abbreviation (input) E_BUSY :: errno where "E_BUSY \<equiv> 13601907"
abbreviation (input) E_EMPTY_DISC :: errno where "E_EMPTY_DISC \<equiv> 13601801"
abbreviation (input) E_ISO_WRITE_FAILED :: errno where "E_ISO_WRITE_FAILED \<equiv> 13601802"
abbreviation (input) E_ERASE_FAILED :: errno where "E_ERASE_FAILED \<equiv> 13601803"
abbreviation (input) E_EJECT_FAILED :: errno where "E_EJECT_FAILED \<equiv> 13601804"
abbreviation (input) E_BURN_FAILED :: errno where "E_BURN_FAILED \<equiv> 13601805"
abbreviation (input) E_BURN_NOSPC :: errno where "E_BURN_NOSPC \<equiv> 13601806"
abbreviation (input) E_BIND_LOOP_DEV_FAILED :: errno where "E_BIND_LOOP_DEV_FAILED \<equiv> 13601901"
abbreviation (input) E_CREATE_DM_CRYPT_VOLUME_FAILED :: errno where "E_CREATE_DM_CRYPT_VOLUME_FAILED \<equiv> 13601902"
abbreviation (input) E_DESTROY_DM_CRYPT_VOLUME_FAILED :: errno where "E_DESTROY_DM_CRYPT_VOLUME_FAILED \<equiv> 13601903"
abbreviation (input) E_UNBIND_LOOP_DEV_FAILED :: errno where "E_UNBIND_LOOP_DEV_FAILED \<equiv> 13601904"
abbreviation (input) E_MOUNT_VOL_BY_PATH_FAILED :: errno where "E_MOUNT_VOL_BY_PATH_FAILED \<equiv> 13601905"
abbreviation (input) E_UMOUNT_VOL_BY_PATH_FAILED :: errno where "E_UMOUNT_VOL_BY_PATH_FAILED \<equiv> 13601906"

section \<open>Strings: the operations of \<open>std::string\<close> the service calls\<close>

abbreviation (input) NL :: char where "NL \<equiv> CHR 0x0A"
abbreviation (input) NUL :: char where "NUL \<equiv> CHR 0x00"
abbreviation (input) SLASH :: char where "SLASH \<equiv> CHR ''/''"
abbreviation (input) BACKSLASH :: char where "BACKSLASH \<equiv> CHR 0x5C"

text \<open>\<open>s.compare(0, p.size(), p) == 0\<close>, also \<open>s.find(p) == 0\<close>.\<close>

definition starts_with :: "string \<Rightarrow> string \<Rightarrow> bool" where
  "starts_with p s \<longleftrightarrow> take (length p) s = p"

lemma starts_with_simps [simp, string_simps]:
  "starts_with [] s"
  "\<not> starts_with (c # p) []"
  "starts_with (c # p) (d # s) \<longleftrightarrow> c = d \<and> starts_with p s"
  by (auto simp: starts_with_def)

lemma starts_with_append [simp]: "starts_with p (p @ s)"
  by (simp add: starts_with_def)

lemma starts_with_iff: "starts_with p s \<longleftrightarrow> (\<exists>t. s = p @ t)"
proof
  assume "starts_with p s"
  then show "\<exists>t. s = p @ t" unfolding starts_with_def by (metis append_take_drop_id)
qed (auto simp: starts_with_def)

text \<open>\<open>s.find(p)\<close>: the least position where \<open>p\<close> occurs; \<open>None\<close> is \<open>npos\<close>.\<close>

fun str_find :: "string \<Rightarrow> string \<Rightarrow> nat option" where
  "str_find [] p = (if p = [] then Some 0 else None)"
| "str_find (c # s) p = (if starts_with p (c # s) then Some 0 else map_option Suc (str_find s p))"

text \<open>\<open>s.find(p, pos)\<close>.\<close>

definition str_find_from :: "string \<Rightarrow> string \<Rightarrow> nat \<Rightarrow> nat option" where
  "str_find_from s p pos =
     (if length s < pos then None else map_option (\<lambda>i. pos + i) (str_find (drop pos s) p))"

text \<open>\<open>s.rfind(p)\<close>: the greatest position.\<close>

fun str_rfind :: "string \<Rightarrow> string \<Rightarrow> nat option" where
  "str_rfind [] p = (if p = [] then Some 0 else None)"
| "str_rfind (c # s) p =
     (case str_rfind s p of
        Some i \<Rightarrow> Some (Suc i)
      | None \<Rightarrow> if starts_with p (c # s) then Some 0 else None)"

text \<open>\<open>s.find(p) != npos\<close>.\<close>

definition contains :: "string \<Rightarrow> string \<Rightarrow> bool" where
  "contains s p \<longleftrightarrow> str_find s p \<noteq> None"

lemma str_find_None_iff: "str_find s p = None \<longleftrightarrow> (\<forall>i \<le> length s. \<not> starts_with p (drop i s))"
proof (induction s)
  case (Cons c s)
  have "(\<forall>i \<le> length (c # s). \<not> starts_with p (drop i (c # s))) \<longleftrightarrow>
        \<not> starts_with p (c # s) \<and> (\<forall>i \<le> length s. \<not> starts_with p (drop i s))"
    by (auto dest: spec[where x = 0] spec[where x = "Suc i" for i] simp: drop_Cons' split: if_splits)
  with Cons show ?case by simp
qed (cases p; simp)

lemma str_find_SomeD:
  "str_find s p = Some i \<Longrightarrow> i \<le> length s \<and> starts_with p (drop i s) \<and> (\<forall>j < i. \<not> starts_with p (drop j s))"
proof (induction s arbitrary: i)
  case Nil
  then show ?case by (cases p) (auto split: if_splits)
next
  case (Cons c s)
  show ?case
  proof (cases "starts_with p (c # s)")
    case True
    with Cons.prems show ?thesis by simp
  next
    case False
    with Cons.prems obtain k where k: "str_find s p = Some k" "i = Suc k" by auto
    from Cons.IH[OF k(1)] False k(2) show ?thesis by (auto simp: less_Suc_eq_0_disj)
  qed
qed

lemma contains_iff: "contains s p \<longleftrightarrow> (\<exists>a b. s = a @ p @ b)"
proof
  assume "contains s p"
  then obtain i where "str_find s p = Some i" by (auto simp: contains_def)
  from str_find_SomeD[OF this] obtain t where "drop i s = p @ t" by (auto simp: starts_with_iff)
  then show "\<exists>a b. s = a @ p @ b" by (metis append_take_drop_id)
next
  assume "\<exists>a b. s = a @ p @ b"
  then obtain a b where "s = a @ p @ b" by blast
  then have "length a \<le> length s" "starts_with p (drop (length a) s)" by auto
  then show "contains s p" unfolding contains_def using str_find_None_iff by blast
qed

lemma str_rfind_None_iff: "str_rfind s p = None \<longleftrightarrow> str_find s p = None"
  by (induction s) (auto split: option.splits)

lemma str_rfind_SomeD:
  "str_rfind s p = Some i \<Longrightarrow>
     i \<le> length s \<and> starts_with p (drop i s) \<and> (\<forall>j. i < j \<and> j \<le> length s \<longrightarrow> \<not> starts_with p (drop j s))"
proof (induction s arbitrary: i)
  case Nil
  then show ?case by (cases p) (auto split: if_splits)
next
  case (Cons c s)
  show ?case
  proof (cases "str_rfind s p")
    case (Some k)
    with Cons.prems have "i = Suc k" by simp
    have "\<not> starts_with p (drop j (c # s))" if j: "i < j" "j \<le> length (c # s)" for j
    proof -
      from j \<open>i = Suc k\<close> obtain m where "j = Suc m" "k < m" "m \<le> length s" by (cases j) auto
      with Cons.IH[OF Some] show ?thesis by simp
    qed
    with Cons.IH[OF Some] \<open>i = Suc k\<close> show ?thesis by auto
  next
    case None
    with Cons.prems have "starts_with p (c # s)" "i = 0" by (auto split: if_splits)
    moreover from None have "\<forall>j \<le> length s. \<not> starts_with p (drop j s)"
      by (simp add: str_rfind_None_iff str_find_None_iff)
    ultimately show ?thesis by (auto simp: drop_Cons' Suc_le_eq split: if_splits)
  qed
qed

lemma str_find_char_append: "c \<notin> set x \<Longrightarrow> str_find (x @ c # y) [c] = Some (length x)"
  by (induction x) auto

lemma str_find_char_None: "str_find x [c] = None \<longleftrightarrow> c \<notin> set x"
  by (induction x) auto

lemma str_find_char_split:
  "str_find s [c] = Some i \<Longrightarrow> s = take i s @ c # drop (Suc i) s \<and> c \<notin> set (take i s)"
proof (induction s arbitrary: i)
  case (Cons d s)
  then show ?case by (cases "d = c") auto
qed simp

section \<open>Loops over a list\<close>

lemma fold_inv: "(\<And>x s. I s \<Longrightarrow> I (f x s)) \<Longrightarrow> I s \<Longrightarrow> I (fold f xs s)"
  by (induction xs arbitrary: s) auto

lemma fold_inv_mem: "(\<And>x s. x \<in> set xs \<Longrightarrow> I s \<Longrightarrow> I (f x s)) \<Longrightarrow> I s \<Longrightarrow> I (fold f xs s)"
  by (induction xs arbitrary: s) auto

section \<open>Dictionaries\<close>

text \<open>
  The contract of the dictionaries the service keeps (\<open>std::map\<close> for disks and volumes,
  \<open>std::unordered_map\<close> for the UUID slots): what a look-up returns after each operation, and that the
  operations keep the representation invariant. The lemmas of the locale are what the clients use for
  the loops that erase or overwrite several keys.
\<close>

locale dictionary =
  fixes lookup :: "'m \<Rightarrow> 'k \<Rightarrow> 'v option"
    and put :: "'k \<Rightarrow> 'v \<Rightarrow> 'm \<Rightarrow> 'm"
    and erase :: "'k \<Rightarrow> 'm \<Rightarrow> 'm"
    and empty :: "'m"
    and wf :: "'m \<Rightarrow> bool"
  assumes lookup_empty: "lookup empty k = None"
    and lookup_put: "wf m \<Longrightarrow> lookup (put a v m) k = (if k = a then Some v else lookup m k)"
    and lookup_erase: "wf m \<Longrightarrow> lookup (erase a m) k = (if k = a then None else lookup m k)"
    and wf_empty: "wf empty"
    and wf_put: "wf m \<Longrightarrow> wf (put a v m)"
    and wf_erase: "wf m \<Longrightarrow> wf (erase a m)"
begin

definition erase_all :: "'k list \<Rightarrow> 'm \<Rightarrow> 'm" where
  "erase_all ks m = fold erase ks m"

definition put_all :: "('k \<times> 'v) list \<Rightarrow> 'm \<Rightarrow> 'm" where
  "put_all kvs m = fold (\<lambda>(k, v). put k v) kvs m"

lemma wf_erase_all: "wf m \<Longrightarrow> wf (erase_all ks m)"
  unfolding erase_all_def by (induction ks arbitrary: m) (auto intro: wf_erase)

lemma lookup_erase_all:
  "wf m \<Longrightarrow> lookup (erase_all ks m) k = (if k \<in> set ks then None else lookup m k)"
  unfolding erase_all_def by (induction ks arbitrary: m) (auto simp: wf_erase lookup_erase)

lemma wf_put_all: "wf m \<Longrightarrow> wf (put_all kvs m)"
  unfolding put_all_def by (induction kvs arbitrary: m) (auto intro: wf_put)

lemma lookup_put_all:
  "wf m \<Longrightarrow> lookup (put_all kvs m) k = (case map_of (rev kvs) k of Some v \<Rightarrow> Some v | None \<Rightarrow> lookup m k)"
proof (induction kvs arbitrary: m)
  case (Cons kv kvs)
  obtain a v where kv: "kv = (a, v)" by fastforce
  have "put_all (kv # kvs) m = put_all kvs (put a v m)" by (simp add: put_all_def kv)
  with Cons kv show ?case
    by (auto simp: wf_put lookup_put map_add_def split: option.splits)
qed (simp add: put_all_def)

lemma erase_put: "wf m \<Longrightarrow> lookup (erase a (put a v m)) k = lookup (erase a m) k"
  by (simp add: lookup_erase lookup_put wf_put)

end

subsection \<open>Ordered maps\<close>

text \<open>
  \<open>std::map\<close> as the list of its entries in key order, which is the order the code iterates it in.
  \<open>om_put\<close> is \<open>m[k] = v\<close>, \<open>om_erase\<close> is \<open>m.erase(k)\<close>, \<open>om_mod\<close> writes through an iterator.
\<close>

type_synonym ('k, 'v) omap = "('k \<times> 'v) list"

abbreviation (input) om_get :: "('k, 'v) omap \<Rightarrow> 'k \<Rightarrow> 'v option" where "om_get m k \<equiv> map_of m k"

definition om_wf :: "('k :: linorder, 'v) omap \<Rightarrow> bool" where
  "om_wf m \<longleftrightarrow> sorted_wrt (<) (map fst m)"

fun om_put :: "'k :: linorder \<Rightarrow> 'v \<Rightarrow> ('k, 'v) omap \<Rightarrow> ('k, 'v) omap" where
  "om_put k v [] = [(k, v)]"
| "om_put k v ((a, b) # m) =
     (if k < a then (k, v) # (a, b) # m else if k = a then (k, v) # m else (a, b) # om_put k v m)"

definition om_erase :: "'k \<Rightarrow> ('k, 'v) omap \<Rightarrow> ('k, 'v) omap" where
  "om_erase k m = filter (\<lambda>(a, b). a \<noteq> k) m"

definition om_mod :: "'k \<Rightarrow> ('v \<Rightarrow> 'v) \<Rightarrow> ('k, 'v) omap \<Rightarrow> ('k, 'v) omap" where
  "om_mod k f m = map (\<lambda>(a, b). (a, if a = k then f b else b)) m"

lemma om_keys_put: "fst ` set (om_put k v m) = insert k (fst ` set m)"
  by (induction k v m rule: om_put.induct) auto

lemma om_wf_Nil [simp, omap_simps]: "om_wf []"
  by (simp add: om_wf_def)

lemma om_wf_put [simp, omap_simps]: "om_wf m \<Longrightarrow> om_wf (om_put k v m)"
proof (induction k v m rule: om_put.induct)
  case (2 k v a b m)
  then show ?case using om_keys_put[of k v m] by (fastforce simp: om_wf_def)
qed (simp add: om_wf_def)

lemma om_wf_erase [simp, omap_simps]: "om_wf m \<Longrightarrow> om_wf (om_erase k m)"
  by (auto simp: om_wf_def om_erase_def sorted_wrt_map intro: sorted_wrt_filter)

lemma om_wf_mod [simp, omap_simps]: "om_wf (om_mod k f m) = om_wf m"
  by (simp add: om_wf_def om_mod_def comp_def split_def)

lemma om_get_put [simp, omap_simps]: "om_get (om_put k v m) a = (if a = k then Some v else om_get m a)"
  by (induction k v m rule: om_put.induct) auto

lemma om_get_erase [simp, omap_simps]: "om_get (om_erase k m) a = (if a = k then None else om_get m a)"
  by (induction m) (auto simp: om_erase_def)

lemma om_get_mod [simp, omap_simps]:
  "om_get (om_mod k f m) a = (if a = k then map_option f (om_get m a) else om_get m a)"
  by (induction m) (auto simp: om_mod_def)

lemma om_wf_distinct: "om_wf m \<Longrightarrow> distinct (map fst m)"
  unfolding om_wf_def by (metis strict_sorted_iff)

lemma om_get_iff: "om_wf m \<Longrightarrow> om_get m k = Some v \<longleftrightarrow> (k, v) \<in> set m"
  by (simp add: om_wf_distinct)

interpretation om: dictionary om_get om_put om_erase "[]" om_wf
  by unfold_locales (auto simp: omap_simps)

end
