(* ===== verification/Dm_Text.thy ===== *)
theory Dm_Text
  imports Dm_Prelude
begin

text \<open>
  Text conversions of the C and C++ libraries: \<open>std::to_string\<close>, \<open>strtoul\<close>, \<open>strtoll\<close>,
  \<open>tolower\<close>, \<open>isspace\<close>, \<open>std::getline\<close> over a string stream, and \<open>stream >> token\<close>. The
  lemmas are the printing/parsing round trips and the shape facts (length, digits) that the
  identifier and path validators rely on.
\<close>

section \<open>Characters\<close>

definition c_isdigit :: "char \<Rightarrow> bool" where
  "c_isdigit c \<longleftrightarrow> (48 :: nat) \<le> of_char c \<and> of_char c \<le> (57 :: nat)"

definition c_isspace :: "char \<Rightarrow> bool" where
  "c_isspace c \<longleftrightarrow> of_char c = (32 :: nat) \<or> (9 :: nat) \<le> of_char c \<and> of_char c \<le> (13 :: nat)"

definition c_tolower :: "char \<Rightarrow> char" where
  "c_tolower c = (if (65 :: nat) \<le> of_char c \<and> of_char c \<le> (90 :: nat)
                  then char_of (of_char c + (32 :: nat)) else c)"

definition str_tolower :: "string \<Rightarrow> string" where
  "str_tolower = map c_tolower"

lemma c_tolower_idem [simp]: "c_tolower (c_tolower c) = c_tolower c"
  by (simp add: c_tolower_def of_char_of)

lemma str_tolower_idem [simp]: "str_tolower (str_tolower s) = str_tolower s"
  by (simp add: str_tolower_def comp_def)

lemma length_str_tolower [simp]: "length (str_tolower s) = length s"
  by (simp add: str_tolower_def)

section \<open>Decimal printing\<close>

definition dec_char :: "nat \<Rightarrow> char" where
  "dec_char d = char_of (48 + d)"

fun to_string :: "nat \<Rightarrow> string" where
  "to_string n = (if n < 10 then [dec_char n] else to_string (n div 10) @ [dec_char (n mod 10)])"

declare to_string.simps [simp del]

text \<open>\<open>std::to_string\<close> of a signed integer.\<close>

definition int_to_string :: "int \<Rightarrow> string" where
  "int_to_string i = (if i < 0 then CHR ''-'' # to_string (nat (- i)) else to_string (nat i))"

definition digit_val :: "nat \<Rightarrow> char \<Rightarrow> nat option" where
  "digit_val base c =
     (let n = of_char c :: nat;
          d = (if 48 \<le> n \<and> n \<le> 57 then n - 48
               else if 97 \<le> n \<and> n \<le> 122 then n - 87
               else if 65 \<le> n \<and> n \<le> 90 then n - 55 else base)
      in if d < base then Some d else None)"

definition num_of :: "nat \<Rightarrow> string \<Rightarrow> nat" where
  "num_of base ds = foldl (\<lambda>a c. a * base + the (digit_val base c)) 0 ds"

lemma digit_val_dec_char [simp]: "d < 10 \<Longrightarrow> digit_val 10 (dec_char d) = Some d"
  by (simp add: digit_val_def dec_char_def of_char_of)

lemma c_isdigit_dec_char [simp]: "d < 10 \<Longrightarrow> c_isdigit (dec_char d)"
  by (simp add: c_isdigit_def dec_char_def of_char_of)

lemma digit_val_10_iff: "digit_val 10 c \<noteq> None \<longleftrightarrow> c_isdigit c"
  by (auto simp: digit_val_def c_isdigit_def Let_def)

lemma digit_val_10_ex: "(\<exists>y. digit_val 10 c = Some y) \<longleftrightarrow> c_isdigit c"
  using digit_val_10_iff[of c] by auto

lemma num_of_Nil [simp]: "num_of b [] = 0"
  by (simp add: num_of_def)

lemma num_of_snoc [simp]: "num_of b (ds @ [c]) = num_of b ds * b + the (digit_val b c)"
  by (simp add: num_of_def)

lemma to_string_not_Nil [simp]: "to_string n \<noteq> []"
  by (subst to_string.simps) simp

lemma num_of_to_string [simp]: "num_of 10 (to_string n) = n"
proof (induction n rule: to_string.induct)
  case (1 n)
  show ?case
  proof (cases "n < 10")
    case True
    then show ?thesis by (subst to_string.simps) (simp add: num_of_def)
  next
    case False
    with "1" show ?thesis by (subst to_string.simps) simp
  qed
qed

lemma to_string_inject [simp]: "to_string m = to_string n \<longleftrightarrow> m = n"
  by (metis num_of_to_string)

lemma to_string_digits: "\<forall>c \<in> set (to_string n). c_isdigit c"
proof (induction n rule: to_string.induct)
  case (1 n)
  then show ?case by (subst to_string.simps) auto
qed

lemma to_string_digit [dest]: "c \<in> set (to_string n) \<Longrightarrow> c_isdigit c"
  using to_string_digits by blast

lemma length_to_string_le: "length (to_string n) \<le> Suc k \<longleftrightarrow> n < 10 ^ Suc k"
proof (induction n arbitrary: k rule: to_string.induct)
  case (1 n)
  show ?case
  proof (cases "n < 10")
    case True
    moreover from True have "n < 10 ^ Suc k" by (simp add: less_le_trans)
    ultimately show ?thesis by (subst to_string.simps) simp
  next
    case False
    show ?thesis
    proof (cases k)
      case 0
      from False have "length (to_string n) = Suc (length (to_string (n div 10)))"
        by (subst to_string.simps) simp
      with False 0 show ?thesis by (simp add: le_Suc_eq)
    next
      case (Suc m)
      from False have "length (to_string n) = Suc (length (to_string (n div 10)))"
        by (subst to_string.simps) simp
      then have "length (to_string n) \<le> Suc k \<longleftrightarrow> n div 10 < 10 ^ Suc m"
        using "1"[OF False, of m] Suc by simp
      also have "\<dots> \<longleftrightarrow> n < 10 ^ Suc k"
        using Suc by (simp add: less_mult_imp_div_less div_less_iff_less_mult mult.commute)
      finally show ?thesis .
    qed
  qed
qed

section \<open>\<open>strtoul\<close> and \<open>strtoll\<close>\<close>

text \<open>
  The C library skips white space, takes an optional sign, for base 16 an optional \<open>0x\<close>, and
  then the longest run of digits. \<open>st_conv\<close> is false when there is no digit (\<open>endptr\<close> is the
  start), \<open>st_rest\<close> is the text at \<open>endptr\<close>, \<open>st_range\<close> is \<open>errno == ERANGE\<close>. The argument
  is the C string (up to the first NUL).
\<close>

record strto_result =
  st_val :: int
  st_conv :: bool
  st_rest :: string
  st_range :: bool

definition c_str :: "string \<Rightarrow> string" where
  "c_str s = takeWhile (\<lambda>c. c \<noteq> NUL) s"

definition strto_scan :: "nat \<Rightarrow> string \<Rightarrow> bool \<times> string \<times> string" where
  "strto_scan base s =
     (let t = dropWhile c_isspace s;
          neg = (t \<noteq> [] \<and> hd t = CHR ''-'');
          u = (if t \<noteq> [] \<and> (hd t = CHR ''-'' \<or> hd t = CHR ''+'') then tl t else t);
          v = (if base = 16 \<and> 2 < length u \<and> u ! 0 = CHR ''0'' \<and> u ! 1 \<in> {CHR ''x'', CHR ''X''}
                  \<and> digit_val 16 (u ! 2) \<noteq> None then drop 2 u else u);
          ds = takeWhile (\<lambda>c. digit_val base c \<noteq> None) v
      in (neg, ds, drop (length ds) v))"

definition ULONG_MAX :: int where "ULONG_MAX = 2 ^ 64 - 1"
definition LLONG_MAX :: int where "LLONG_MAX = 2 ^ 63 - 1"
definition LLONG_MIN :: int where "LLONG_MIN = - (2 ^ 63)"

definition strtoul :: "nat \<Rightarrow> string \<Rightarrow> strto_result" where
  "strtoul base s =
     (case strto_scan base (c_str s) of (neg, ds, rest) \<Rightarrow>
        if ds = [] then \<lparr>st_val = 0, st_conv = False, st_rest = c_str s, st_range = False\<rparr>
        else let n = int (num_of base ds) in
          if ULONG_MAX < n
          then \<lparr>st_val = ULONG_MAX, st_conv = True, st_rest = rest, st_range = True\<rparr>
          else \<lparr>st_val = (if neg then (- n) mod 2 ^ 64 else n), st_conv = True, st_rest = rest,
                st_range = False\<rparr>)"

definition strtoll :: "nat \<Rightarrow> string \<Rightarrow> strto_result" where
  "strtoll base s =
     (case strto_scan base (c_str s) of (neg, ds, rest) \<Rightarrow>
        if ds = [] then \<lparr>st_val = 0, st_conv = False, st_rest = c_str s, st_range = False\<rparr>
        else let n = (if neg then - int (num_of base ds) else int (num_of base ds)) in
          if LLONG_MAX < n
          then \<lparr>st_val = LLONG_MAX, st_conv = True, st_rest = rest, st_range = True\<rparr>
          else if n < LLONG_MIN
          then \<lparr>st_val = LLONG_MIN, st_conv = True, st_rest = rest, st_range = True\<rparr>
          else \<lparr>st_val = n, st_conv = True, st_rest = rest, st_range = False\<rparr>)"

lemma strtoul_bounds: "0 \<le> st_val (strtoul b s)" "st_val (strtoul b s) \<le> ULONG_MAX"
  by (auto simp: strtoul_def ULONG_MAX_def Let_def split: prod.splits)

lemma strtoll_bounds: "LLONG_MIN \<le> st_val (strtoll b s)" "st_val (strtoll b s) \<le> LLONG_MAX"
  by (auto simp: strtoll_def LLONG_MIN_def LLONG_MAX_def Let_def split: prod.splits)

lemma c_isdigit_not_space: "c_isdigit c \<Longrightarrow> \<not> c_isspace c"
  by (auto simp: c_isdigit_def c_isspace_def)

lemma c_isdigit_not_special:
  "c_isdigit c \<Longrightarrow> c \<noteq> CHR ''-'' \<and> c \<noteq> CHR ''+'' \<and> c \<noteq> NUL \<and> c \<noteq> CHR ''/'' \<and> c \<noteq> CHR ''_''
     \<and> c \<noteq> CHR ''.'' \<and> c \<noteq> CHR 0x5C \<and> c \<noteq> CHR ''%'' \<and> c \<noteq> NL"
  by (auto simp: c_isdigit_def)

lemma c_str_digits: "\<forall>c \<in> set s. c_isdigit c \<Longrightarrow> c_str s = s"
  unfolding c_str_def by (rule takeWhile_eq_all_conv[THEN iffD2]) (auto dest: c_isdigit_not_special)

lemma strto_scan_digits:
  assumes "\<forall>c \<in> set s. c_isdigit c"
  shows "strto_scan 10 s = (False, s, [])"
proof -
  from assms have "dropWhile c_isspace s = s"
    by (cases s) (auto dest: c_isdigit_not_space)
  moreover from assms have "takeWhile (\<lambda>c. digit_val 10 c \<noteq> None) s = s"
    by (simp add: takeWhile_eq_all_conv digit_val_10_ex)
  ultimately show ?thesis
    using assms by (cases s) (auto simp: strto_scan_def Let_def dest: c_isdigit_not_special)
qed

text \<open>\<open>strtoul\<close> inverts \<open>std::to_string\<close> on every value that fits.\<close>

lemma strtoul_to_string:
  assumes "int n \<le> ULONG_MAX"
  shows "strtoul 10 (to_string n) = \<lparr>st_val = int n, st_conv = True, st_rest = [], st_range = False\<rparr>"
  using assms by (simp add: strtoul_def c_str_digits to_string_digits strto_scan_digits)

section \<open>Lines and tokens\<close>

text \<open>\<open>while (std::getline(ss, line))\<close>: a trailing newline does not start a further line.\<close>

lemma dropWhile_shorter [termination_simp]: "length (dropWhile P s) - n < Suc (length s)"
  using length_dropWhile_le[of P s] by simp

fun getlines :: "string \<Rightarrow> string list" where
  "getlines [] = []"
| "getlines (c # s) =
     takeWhile (\<lambda>x. x \<noteq> NL) (c # s) # getlines (drop 1 (dropWhile (\<lambda>x. x \<noteq> NL) (c # s)))"

declare getlines.simps(2) [simp del]

lemma split_ws_decreases:
  assumes "dropWhile P s \<noteq> []"
  shows "length (dropWhile (\<lambda>c. \<not> P c) (dropWhile P s)) < length s"
proof -
  from assms obtain d ds where ds: "dropWhile P s = d # ds" by (cases "dropWhile P s") auto
  then have "\<not> P d" using hd_dropWhile[of P s] by simp
  then have "length (dropWhile (\<lambda>c. \<not> P c) (d # ds)) < length (d # ds)"
    using length_dropWhile_le[of "\<lambda>c. \<not> P c" ds] by simp
  also have "\<dots> \<le> length s" using length_dropWhile_le[of P s] ds by simp
  finally show ?thesis using ds by simp
qed

text \<open>\<open>while (iss >> tok)\<close>: maximal runs of non-space characters.\<close>

function split_ws :: "string \<Rightarrow> string list" where
  "split_ws s =
     (let t = dropWhile c_isspace s in
      if t = [] then []
      else takeWhile (\<lambda>c. \<not> c_isspace c) t # split_ws (dropWhile (\<lambda>c. \<not> c_isspace c) t))"
  by pat_completeness auto

termination
  by (relation "measure length") (auto intro: split_ws_decreases)

declare split_ws.simps [simp del]

lemma getlines_no_NL: "l \<in> set (getlines s) \<Longrightarrow> NL \<notin> set l"
proof (induction s rule: getlines.induct)
  case (2 c s)
  then show ?case by (auto simp: getlines.simps(2) dest: set_takeWhileD)
qed simp

lemma split_ws_token: "t \<in> set (split_ws s) \<Longrightarrow> t \<noteq> [] \<and> (\<forall>c \<in> set t. \<not> c_isspace c)"
proof (induction s rule: split_ws.induct)
  case (1 s)
  show ?case
  proof (cases "dropWhile c_isspace s")
    case Nil
    with "1.prems" show ?thesis by (simp add: split_ws.simps[of s])
  next
    case (Cons d ds)
    then have "\<not> c_isspace d" using hd_dropWhile[of c_isspace s] by simp
    then have first: "takeWhile (\<lambda>c. \<not> c_isspace c) (d # ds) \<noteq> []" by simp
    have "split_ws s = takeWhile (\<lambda>c. \<not> c_isspace c) (d # ds) #
            split_ws (dropWhile (\<lambda>c. \<not> c_isspace c) (d # ds))"
      by (subst split_ws.simps) (simp add: Cons)
    with "1.prems" consider "t = takeWhile (\<lambda>c. \<not> c_isspace c) (d # ds)"
      | "t \<in> set (split_ws (dropWhile (\<lambda>c. \<not> c_isspace c) (d # ds)))" by auto
    then show ?thesis
    proof cases
      case 1
      have "\<forall>c \<in> set t. \<not> c_isspace c" unfolding 1 by (blast dest: set_takeWhileD)
      with first 1 show ?thesis by metis
    next
      case 2
      have "dropWhile c_isspace s \<noteq> []" by (simp add: Cons)
      from "1.IH"[OF refl this] 2 show ?thesis unfolding Cons by blast
    qed
  qed
qed

text \<open>A line written out and followed by a newline is read back as the first line.\<close>

lemma span_line:
  assumes "NL \<notin> set l"
  shows "takeWhile (\<lambda>x. x \<noteq> NL) (l @ NL # r) = l" "dropWhile (\<lambda>x. x \<noteq> NL) (l @ NL # r) = NL # r"
  using assms by (induction l) auto

lemma getlines_append:
  assumes "NL \<notin> set l"
  shows "getlines (l @ NL # r) = l # getlines r"
proof -
  have "getlines (l @ NL # r) = takeWhile (\<lambda>x. x \<noteq> NL) (l @ NL # r) #
          getlines (drop 1 (dropWhile (\<lambda>x. x \<noteq> NL) (l @ NL # r)))"
    by (cases l) (simp_all only: append.simps getlines.simps(2))
  with assms show ?thesis by (simp add: span_line)
qed

section \<open>Narrowing\<close>

text \<open>\<open>static_cast<int32_t>(x)\<close>.\<close>

definition to_int32 :: "int \<Rightarrow> int" where
  "to_int32 x = (x + 2 ^ 31) mod 2 ^ 32 - 2 ^ 31"

lemma to_int32_id: "- (2 ^ 31) \<le> x \<Longrightarrow> x < 2 ^ 31 \<Longrightarrow> to_int32 x = x"
  by (simp add: to_int32_def)

lemma to_int32_word: "to_int32 x = sint (word_of_int x :: 32 word)"
  unfolding to_int32_def by transfer (simp add: signed_take_bit_eq_take_bit_shift take_bit_eq_mod)

definition to_int64 :: "int \<Rightarrow> int" where
  "to_int64 x = (x + 2 ^ 63) mod 2 ^ 64 - 2 ^ 63"

lemma to_int64_id: "- (2 ^ 63) \<le> x \<Longrightarrow> x < 2 ^ 63 \<Longrightarrow> to_int64 x = x"
  by (simp add: to_int64_def)

end
