(* ===== verification/Dm_Utils.thy ===== *)
theory Dm_Utils
  imports Dm_Text
begin

text \<open>
  The validators of \<^verbatim>\<open>utils/src/disk_manager_utils.cpp\<close>: log anonymisation, path-traversal
  detection, mount path, volume id, disk id and file-system UUID validation, and the random
  UUID given to blank discs. \<open>path_components\<close> is the specification the traversal check is
  measured against: the kernel splits a path at every slash.
\<close>

section \<open>Definitions\<close>

subsection \<open>Log anonymisation\<close>

definition GetAnonyString :: "string \<Rightarrow> string" where
  "GetAnonyString value =
     (let strLen = length value in
      if strLen < 3 then ''******''
      else if strLen \<le> 20 then [value ! 0] @ ''******'' @ [value ! (strLen - 1)]
      else take 4 value @ ''******'' @ drop (strLen - 4) value)"

subsection \<open>Path traversal\<close>

text \<open>The first loop: every \<open>../\<close> at the start or after a slash.\<close>

lemma str_find_from_bounds:
  assumes "str_find_from s p pos = Some i"
  shows "pos \<le> i \<and> i \<le> length s"
proof -
  from assms obtain k where "str_find (drop pos s) p = Some k" "i = pos + k" "pos \<le> length s"
    by (auto simp: str_find_from_def split: if_splits)
  with str_find_SomeD[of "drop pos s" p k] show ?thesis by auto
qed

function scan_dotdot :: "string \<Rightarrow> nat \<Rightarrow> bool" where
  "scan_dotdot s pos =
     (case str_find_from s ''../'' pos of
        None \<Rightarrow> False
      | Some p \<Rightarrow> p = 0 \<or> s ! (p - 1) = SLASH \<or> scan_dotdot s (p + 3))"
  by pat_completeness auto

termination
proof (relation "measure (\<lambda>(s, pos). Suc (length s) - pos)")
  fix s :: string and pos p
  assume "str_find_from s ''../'' pos = Some p"
  then have "pos \<le> p" "p \<le> length s" using str_find_from_bounds by blast+
  then show "((s, p + 3), s, pos) \<in> measure (\<lambda>(s, pos). Suc (length s) - pos)" by auto
qed simp

declare scan_dotdot.simps [simp del]

text \<open>The third loop: every backslash preceded by two dots.\<close>

function scan_backslash :: "string \<Rightarrow> nat \<Rightarrow> bool" where
  "scan_backslash s pos =
     (case str_find_from s [BACKSLASH] pos of
        None \<Rightarrow> False
      | Some p \<Rightarrow> (2 \<le> p \<and> s ! (p - 1) = CHR ''.'' \<and> s ! (p - 2) = CHR ''.'') \<or> scan_backslash s (p + 1))"
  by pat_completeness auto

termination
proof (relation "measure (\<lambda>(s, pos). Suc (length s) - pos)")
  fix s :: string and pos p
  assume "str_find_from s [BACKSLASH] pos = Some p"
  then have "pos \<le> p" "p \<le> length s" using str_find_from_bounds by blast+
  then show "((s, p + 1), s, pos) \<in> measure (\<lambda>(s, pos). Suc (length s) - pos)" by auto
qed simp

declare scan_backslash.simps [simp del]

definition urlTraversalPatterns :: "string list" where
  "urlTraversalPatterns =
     [''%2f'', ''%2F'', ''%5c'', ''%5C'', ''%2e'', ''%2E'', ''%252e'', ''%252E'', ''%252f'', ''%252F'',
      ''%255c'', ''%255C'']"

definition IsFilePathInvalid :: "string \<Rightarrow> bool" where
  "IsFilePathInvalid filePath \<longleftrightarrow>
     filePath = []
   \<or> scan_dotdot filePath 0
   \<or> (case str_rfind filePath ''/..'' of None \<Rightarrow> False | Some pos \<Rightarrow> length filePath - pos = 3)
   \<or> scan_backslash filePath 0
   \<or> list_ex (contains filePath) urlTraversalPatterns
   \<or> contains filePath ''%00'' \<or> contains filePath [NUL]"

subsection \<open>Identifiers\<close>

definition IsPureDigitsInRange :: "string \<Rightarrow> nat \<Rightarrow> nat \<Rightarrow> bool" where
  "IsPureDigitsInRange s minLen maxLen \<longleftrightarrow>
     minLen \<le> length s \<and> length s \<le> maxLen \<and> list_all c_isdigit s"

definition IsMountPathValid :: "string \<Rightarrow> bool" where
  "IsMountPathValid mountPath \<longleftrightarrow>
     \<not> IsFilePathInvalid mountPath \<and> str_find mountPath ''/mnt/data'' = Some 0"

text \<open>
  The tail of \<open>IsVolumeIdValid\<close> and \<open>IsDiskIdValid\<close>: after a prefix of \<open>n\<close> characters there is
  exactly one dash, with one to four digits on both sides.
\<close>

definition IsDashSeparatedPair :: "string \<Rightarrow> nat \<Rightarrow> bool" where
  "IsDashSeparatedPair s n =
     (case str_find_from s ''-'' n of
        None \<Rightarrow> False
      | Some firstDash \<Rightarrow>
          str_find_from s ''-'' (firstDash + 1) = None
          \<and> IsPureDigitsInRange (take (firstDash - n) (drop n s)) 1 4
          \<and> IsPureDigitsInRange (drop (firstDash + 1) s) 1 4)"

definition IsVolumeIdValid :: "string \<Rightarrow> bool" where
  "IsVolumeIdValid volumeId =
     (if IsFilePathInvalid volumeId then False
      else if starts_with ''mtp-'' volumeId \<or> starts_with ''ptp-'' volumeId then True
      else if starts_with ''vol-crypt-'' volumeId then True
      else if \<not> starts_with ''vol-'' volumeId then False
      else IsDashSeparatedPair volumeId 4)"

definition IsDiskIdValid :: "string \<Rightarrow> bool" where
  "IsDiskIdValid diskId =
     (if IsFilePathInvalid diskId then False
      else if \<not> starts_with ''disk-'' diskId then False
      else IsDashSeparatedPair diskId 5)"

definition UUID_MAX_LEN :: nat where "UUID_MAX_LEN = 128"

definition IsUuidValid :: "string \<Rightarrow> bool" where
  "IsUuidValid uuid =
     (if IsFilePathInvalid uuid then False
      else case str_rfind uuid ''_'' of
             Some sep \<Rightarrow> IsPureDigitsInRange (drop (sep + 1) uuid) 1 4 \<and> sep \<le> UUID_MAX_LEN
           | None \<Rightarrow> length uuid \<le> UUID_MAX_LEN)"

subsection \<open>The UUID of a blank disc\<close>

text \<open>
  \<open>GenerateRandomUuid\<close> seeds \<open>std::mt19937_64\<close> with \<open>std::hash\<close> of the disk id and draws two
  64-bit values. Hash and generator are implementation-defined; they are the argument \<open>draw\<close>.
\<close>

definition HEX_CHARS :: string where "HEX_CHARS = ''0123456789abcdef''"

definition hex_byte :: "8 word \<Rightarrow> string" where
  "hex_byte b = [HEX_CHARS ! unat (drop_bit 4 b), HEX_CHARS ! unat (b AND 0x0F)]"

definition uuid_bytes :: "64 word \<Rightarrow> 64 word \<Rightarrow> 8 word list" where
  "uuid_bytes a b =
     (let buf = map (\<lambda>i. ucast (drop_bit (i * 8) a)) [0..<8] @ map (\<lambda>i. ucast (drop_bit (i * 8) b)) [0..<8];
          buf1 = buf[6 := (buf ! 6 AND 0x0F) OR 0x40]
      in buf1[8 := (buf1 ! 8 AND 0x3F) OR 0x80])"

fun uuid_fields :: "nat list \<Rightarrow> 8 word list \<Rightarrow> string" where
  "uuid_fields [] buf = []"
| "uuid_fields [n] buf = concat (map hex_byte (take n buf))"
| "uuid_fields (n # ns) buf = concat (map hex_byte (take n buf)) @ ''-'' @ uuid_fields ns (drop n buf)"

definition GenerateRandomUuid :: "(string \<Rightarrow> 64 word \<times> 64 word) \<Rightarrow> string \<Rightarrow> string" where
  "GenerateRandomUuid draw diskId =
     (case draw diskId of (a, b) \<Rightarrow> uuid_fields [4, 2, 2, 2, 6] (uuid_bytes a b))"

section \<open>Specification: path components\<close>

fun path_components :: "string \<Rightarrow> string list" where
  "path_components [] = [[]]"
| "path_components (c # s) =
     (if c = SLASH then [] # path_components s
      else (case path_components s of x # xs \<Rightarrow> (c # x) # xs | [] \<Rightarrow> [[c]]))"

lemma path_components_not_Nil [simp]: "path_components s \<noteq> []"
  by (cases s) (auto split: list.splits)

lemma path_components_append_slash [simp]:
  "path_components (a @ SLASH # b) = path_components a @ path_components b"
  by (induction a) (auto split: list.splits simp: Cons_eq_append_conv)

lemma path_components_no_slash: "SLASH \<notin> set s \<Longrightarrow> path_components s = [s]"
  by (induction s) auto

text \<open>A component is delimited by a slash or an end of the string on either side.\<close>

lemma path_components_split:
  "path_components s = xs @ x # ys \<Longrightarrow>
     \<exists>a b. s = a @ x @ b \<and> (if xs = [] then a = [] else a \<noteq> [] \<and> last a = SLASH) \<and> (b = [] \<or> hd b = SLASH)"
proof (induction s arbitrary: xs x ys)
  case Nil
  then show ?case by (auto simp: Cons_eq_append_conv)
next
  case (Cons c s)
  obtain y zs where s: "path_components s = y # zs" by (cases "path_components s") auto
  show ?case
  proof (cases xs)
    case Nil
    show ?thesis
    proof (cases "c = SLASH")
      case True
      with Nil Cons.prems show ?thesis by auto
    next
      case False
      with Nil Cons.prems s have "x = c # y" by simp
      with Cons.IH[of "[]" y] s Nil show ?thesis by auto
    qed
  next
    case (Cons w ws)
    let ?us = "if c = SLASH then ws else y # ws"
    from Cons.prems Cons s have "path_components s = ?us @ x # ys" by (auto split: if_splits)
    from Cons.IH[OF this] obtain a b where "s = a @ x @ b" "b = [] \<or> hd b = SLASH"
      "if ?us = [] then a = [] else a \<noteq> [] \<and> last a = SLASH" by blast
    then have "c # s = (c # a) @ x @ b \<and> last (c # a) = SLASH \<and> (b = [] \<or> hd b = SLASH)"
      by (auto split: if_splits)
    with Cons show ?thesis by (intro exI[of _ "c # a"] exI[of _ b]) simp
  qed
qed

lemma dotdot_component_iff:
  "''..'' \<in> set (path_components s) \<longleftrightarrow>
     (\<exists>a b. s = a @ ''..'' @ b \<and> (a = [] \<or> last a = SLASH) \<and> (b = [] \<or> hd b = SLASH))"
proof
  assume "''..'' \<in> set (path_components s)"
  then obtain xs ys where "path_components s = xs @ ''..'' # ys" by (auto dest: split_list)
  from path_components_split[OF this] show
    "\<exists>a b. s = a @ ''..'' @ b \<and> (a = [] \<or> last a = SLASH) \<and> (b = [] \<or> hd b = SLASH)"
    by (auto split: if_splits)
next
  have one: "path_components ''..'' = [''..'']" by simp
  assume "\<exists>a b. s = a @ ''..'' @ b \<and> (a = [] \<or> last a = SLASH) \<and> (b = [] \<or> hd b = SLASH)"
  then obtain a b where s: "s = a @ ''..'' @ b"
    and a: "a = [] \<or> (\<exists>a'. a = a' @ [SLASH])" and b: "b = [] \<or> (\<exists>b'. b = SLASH # b')"
    by (metis append_butlast_last_id list.collapse)
  have tail: "''..'' \<in> set (path_components (''..'' @ b))"
    using b path_components_append_slash[of "''..''"] one by auto
  from a show "''..'' \<in> set (path_components s)"
  proof
    assume "a = []"
    with s tail show ?thesis by simp
  next
    assume "\<exists>a'. a = a' @ [SLASH]"
    then obtain a' where "s = a' @ SLASH # (''..'' @ b)" using s by auto
    with tail show ?thesis by (metis Un_iff path_components_append_slash set_append)
  qed
qed

section \<open>Correctness of the traversal check\<close>

lemma str_find_from_SomeD:
  assumes "str_find_from s p pos = Some i"
  shows "starts_with p (drop i s)" "\<And>j. pos \<le> j \<Longrightarrow> j < i \<Longrightarrow> \<not> starts_with p (drop j s)"
proof -
  from assms obtain k where k: "str_find (drop pos s) p = Some k" "i = pos + k"
    by (auto simp: str_find_from_def split: if_splits)
  from str_find_SomeD[OF k(1)] k(2) show "starts_with p (drop i s)" by (simp add: add.commute)
  fix j assume "pos \<le> j" "j < i"
  then obtain m where "j = pos + m" "m < k" using k(2) by (metis le_Suc_ex nat_add_left_cancel_less)
  with str_find_SomeD[OF k(1)] show "\<not> starts_with p (drop j s)" by (simp add: add.commute)
qed

lemma starts_with_bound: "starts_with p (drop j s) \<Longrightarrow> p \<noteq> [] \<Longrightarrow> j < length s"
  by (cases "j < length s") (auto simp: starts_with_def)

lemma str_find_from_NoneD:
  assumes "str_find_from s p pos = None" "p \<noteq> []" "pos \<le> j"
  shows "\<not> starts_with p (drop j s)"
proof
  assume sw: "starts_with p (drop j s)"
  then have j: "j < length s" using assms(2) by (rule starts_with_bound)
  with assms have "str_find (drop pos s) p = None" by (auto simp: str_find_from_def split: if_splits)
  then have "\<not> starts_with p (drop (j - pos) (drop pos s))"
    using j assms(3) by (metis length_drop less_imp_le diff_le_mono str_find_None_iff)
  with assms(3) sw show False by simp
qed

text \<open>Two occurrences of \<open>../\<close> do not overlap, so that skipping three characters misses none.\<close>

lemma dotdot_no_overlap:
  assumes "starts_with ''../'' (drop q s)" "starts_with ''../'' (drop p s)" "q < p"
  shows "q + 3 \<le> p"
proof (rule ccontr)
  assume "\<not> q + 3 \<le> p"
  with assms(3) consider "p = q + 1" | "p = q + 2" by linarith
  then have "drop p s = drop 1 (drop q s) \<or> drop p s = drop 2 (drop q s)"
    by cases (simp_all add: add.commute)
  moreover from assms(1) obtain t where "drop q s = ''../'' @ t" by (auto simp: starts_with_iff)
  ultimately show False using assms(2) by auto
qed

lemma scan_dotdot_iff:
  "scan_dotdot s pos \<longleftrightarrow> (\<exists>p \<ge> pos. starts_with ''../'' (drop p s) \<and> (p = 0 \<or> s ! (p - 1) = SLASH))"
proof (induction s pos rule: scan_dotdot.induct)
  case (1 s pos)
  show ?case
  proof (cases "str_find_from s ''../'' pos")
    case None
    then show ?thesis
      by (subst scan_dotdot.simps) (auto dest: str_find_from_NoneD)
  next
    case (Some q)
    note q = str_find_from_SomeD[OF Some] str_find_from_bounds[OF Some]
    have "(\<exists>p \<ge> pos. starts_with ''../'' (drop p s) \<and> (p = 0 \<or> s ! (p - 1) = SLASH)) \<longleftrightarrow>
          (q = 0 \<or> s ! (q - 1) = SLASH) \<or>
          (\<exists>p \<ge> q + 3. starts_with ''../'' (drop p s) \<and> (p = 0 \<or> s ! (p - 1) = SLASH))"
      (is "?L \<longleftrightarrow> ?R")
    proof
      assume ?L
      then obtain p where p: "pos \<le> p" "starts_with ''../'' (drop p s)" "p = 0 \<or> s ! (p - 1) = SLASH" by blast
      with q(2) have "q \<le> p" by (meson not_le)
      then consider "p = q" | "q < p" by linarith
      then show ?R
      proof cases
        case 1
        with p show ?thesis by blast
      next
        case 2
        with dotdot_no_overlap[OF q(1) p(2)] p show ?thesis by blast
      qed
    next
      assume ?R
      then consider "q = 0 \<or> s ! (q - 1) = SLASH"
        | p where "q + 3 \<le> p" "starts_with ''../'' (drop p s)" "p = 0 \<or> s ! (p - 1) = SLASH" by blast
      then show ?L
      proof cases
        case 1
        with q(1,3) show ?thesis by blast
      next
        case (2 p)
        moreover from this q(3) have "pos \<le> p" by linarith
        ultimately show ?thesis by blast
      qed
    qed
    moreover have "scan_dotdot s pos \<longleftrightarrow> q = 0 \<or> s ! (q - 1) = SLASH \<or> scan_dotdot s (q + 3)"
      by (subst scan_dotdot.simps) (simp add: Some)
    ultimately show ?thesis using "1"[OF Some] by blast
  qed
qed

lemma scan_backslash_iff:
  "scan_backslash s pos \<longleftrightarrow>
     (\<exists>p \<ge> pos. starts_with [BACKSLASH] (drop p s) \<and> 2 \<le> p \<and> s ! (p - 1) = CHR ''.'' \<and> s ! (p - 2) = CHR ''.'')"
proof (induction s pos rule: scan_backslash.induct)
  case (1 s pos)
  show ?case
  proof (cases "str_find_from s [BACKSLASH] pos")
    case None
    then show ?thesis
      by (subst scan_backslash.simps) (auto dest: str_find_from_NoneD)
  next
    case (Some q)
    note q = str_find_from_SomeD[OF Some] str_find_from_bounds[OF Some]
    let ?D = "\<lambda>p. starts_with [BACKSLASH] (drop p s) \<and> 2 \<le> p \<and> s ! (p - 1) = CHR ''.'' \<and> s ! (p - 2) = CHR ''.''"
    have "(\<exists>p \<ge> pos. ?D p) \<longleftrightarrow> ?D q \<or> (\<exists>p \<ge> q + 1. ?D p)"
    proof
      assume "\<exists>p \<ge> pos. ?D p"
      then obtain p where p: "pos \<le> p" "?D p" by blast
      with q(2) have "q \<le> p" by (meson not_le)
      then have "p = q \<or> q + 1 \<le> p" by linarith
      with p show "?D q \<or> (\<exists>p \<ge> q + 1. ?D p)" by blast
    next
      assume "?D q \<or> (\<exists>p \<ge> q + 1. ?D p)"
      then consider "?D q" | p where "q + 1 \<le> p" "?D p" by blast
      then show "\<exists>p \<ge> pos. ?D p"
      proof cases
        case 1
        with q(3) show ?thesis by blast
      next
        case (2 p)
        moreover from this q(3) have "pos \<le> p" by linarith
        ultimately show ?thesis by blast
      qed
    qed
    moreover have "scan_backslash s pos \<longleftrightarrow>
        2 \<le> q \<and> s ! (q - 1) = CHR ''.'' \<and> s ! (q - 2) = CHR ''.'' \<or> scan_backslash s (q + 1)"
      by (subst scan_backslash.simps) (simp add: Some)
    ultimately show ?thesis using "1"[OF Some] q(1) by blast
  qed
qed

lemma nth_before: "a \<noteq> [] \<Longrightarrow> (a @ t) ! (length a - 1) = last a"
  by (simp add: last_conv_nth nth_append)

lemma scan_dotdot_0_iff:
  "scan_dotdot s 0 \<longleftrightarrow> (\<exists>a b. s = a @ ''../'' @ b \<and> (a = [] \<or> last a = SLASH))"
proof
  assume "scan_dotdot s 0"
  then obtain p where p: "starts_with ''../'' (drop p s)" "p = 0 \<or> s ! (p - 1) = SLASH"
    by (auto simp: scan_dotdot_iff)
  then obtain b where b: "drop p s = ''../'' @ b" by (auto simp: starts_with_iff)
  from p(1) have "p < length s" by (rule starts_with_bound) simp
  then have "take p s = [] \<or> last (take p s) = SLASH"
    using p(2) by (cases p) (auto simp: take_Suc_conv_app_nth)
  with b show "\<exists>a b. s = a @ ''../'' @ b \<and> (a = [] \<or> last a = SLASH)"
    by (metis append_take_drop_id)
next
  assume "\<exists>a b. s = a @ ''../'' @ b \<and> (a = [] \<or> last a = SLASH)"
  then obtain a b where s: "s = a @ ''../'' @ b" "a = [] \<or> last a = SLASH" by blast
  then have "starts_with ''../'' (drop (length a) s)" by simp
  moreover have "length a = 0 \<or> s ! (length a - 1) = SLASH"
    using s nth_before[of a "''../'' @ b"] by (metis length_0_conv)
  ultimately show "scan_dotdot s 0" unfolding scan_dotdot_iff by blast
qed

lemma scan_backslash_0_iff: "scan_backslash s 0 \<longleftrightarrow> contains s [CHR ''.'', CHR ''.'', BACKSLASH]"
proof
  assume "scan_backslash s 0"
  then obtain p where p: "starts_with [BACKSLASH] (drop p s)" "2 \<le> p"
    "s ! (p - 1) = CHR ''.''" "s ! (p - 2) = CHR ''.''"
    by (auto simp: scan_backslash_iff)
  then obtain b where b: "drop p s = BACKSLASH # b" by (auto simp: starts_with_iff)
  from p(1) have "p < length s" by (rule starts_with_bound) simp
  obtain q where q: "p = Suc (Suc q)" using p(2) by (metis Suc_le_D numeral_2_eq_2 Suc_le_mono)
  with \<open>p < length s\<close> have "drop q s = s ! q # s ! Suc q # drop p s"
    by (simp add: Cons_nth_drop_Suc)
  with p(3,4) q b have "drop q s = [CHR ''.'', CHR ''.'', BACKSLASH] @ b" by simp
  then have "s = take q s @ [CHR ''.'', CHR ''.'', BACKSLASH] @ b"
    using append_take_drop_id[of q s] by simp
  then show "contains s [CHR ''.'', CHR ''.'', BACKSLASH]" unfolding contains_iff by blast
next
  assume "contains s [CHR ''.'', CHR ''.'', BACKSLASH]"
  then obtain a b where "s = a @ [CHR ''.'', CHR ''.'', BACKSLASH] @ b" by (auto simp: contains_iff)
  then have "starts_with [BACKSLASH] (drop (length a + 2) s) \<and> 2 \<le> length a + 2 \<and>
    s ! (length a + 2 - 1) = CHR ''.'' \<and> s ! (length a + 2 - 2) = CHR ''.''"
    by (simp add: nth_append)
  then show "scan_backslash s 0" unfolding scan_backslash_iff by blast
qed

lemma rfind_tail_iff:
  "(case str_rfind s ''/..'' of None \<Rightarrow> False | Some pos \<Rightarrow> length s - pos = 3) \<longleftrightarrow> (\<exists>a. s = a @ ''/..'')"
proof
  assume "case str_rfind s ''/..'' of None \<Rightarrow> False | Some pos \<Rightarrow> length s - pos = 3"
  then obtain pos where pos: "str_rfind s ''/..'' = Some pos" "length s - pos = 3"
    by (auto split: option.splits)
  from str_rfind_SomeD[OF pos(1)] obtain t where t: "drop pos s = ''/..'' @ t"
    by (auto simp: starts_with_iff)
  then have "length (drop pos s) = 3 + length t" by simp
  with pos(2) have "t = []" by simp
  with t show "\<exists>a. s = a @ ''/..''" by (metis append_Nil2 append_take_drop_id)
next
  assume "\<exists>a. s = a @ ''/..''"
  then obtain a where s: "s = a @ ''/..''" by blast
  then have here: "starts_with ''/..'' (drop (length a) s)" by simp
  have "str_rfind s ''/..'' \<noteq> None"
    unfolding str_rfind_None_iff using s contains_iff[of s "''/..''"] by (auto simp: contains_def)
  then obtain pos where pos: "str_rfind s ''/..'' = Some pos" by blast
  note r = str_rfind_SomeD[OF pos]
  from r here have "length a \<le> pos" by (metis length_append le_add1 not_le s)
  moreover from r obtain t where "drop pos s = ''/..'' @ t" by (auto simp: starts_with_iff)
  then have "length s - pos = 3 + length t" by (metis length_append length_drop One_nat_def length_Cons list.size(3) numeral_3_eq_3)
  moreover have "length s = length a + 3" by (simp add: s)
  ultimately have "length s - pos = 3" by linarith
  with pos show "case str_rfind s ''/..'' of None \<Rightarrow> False | Some pos \<Rightarrow> length s - pos = 3" by simp
qed

lemma dotdot_component_cases:
  "''..'' \<in> set (path_components s) \<and> s \<noteq> ''..'' \<longleftrightarrow>
     (\<exists>a b. s = a @ ''../'' @ b \<and> (a = [] \<or> last a = SLASH)) \<or> (\<exists>a. s = a @ ''/..'')"
proof
  assume L: "''..'' \<in> set (path_components s) \<and> s \<noteq> ''..''"
  then obtain a b where s: "s = a @ ''..'' @ b" and a: "a = [] \<or> last a = SLASH"
    and b: "b = [] \<or> hd b = SLASH"
    by (auto simp: dotdot_component_iff)
  show "(\<exists>a b. s = a @ ''../'' @ b \<and> (a = [] \<or> last a = SLASH)) \<or> (\<exists>a. s = a @ ''/..'')"
  proof (cases b)
    case Nil
    with s L have "a \<noteq> []" by auto
    with a have "a = butlast a @ [SLASH]" by (metis append_butlast_last_id)
    with s Nil have "s = butlast a @ ''/..''" by (metis append.assoc append_Cons append_Nil append_Nil2)
    then show ?thesis by blast
  next
    case (Cons c b')
    with b s have "s = a @ ''../'' @ b'" by simp
    with a show ?thesis by blast
  qed
next
  assume R: "(\<exists>a b. s = a @ ''../'' @ b \<and> (a = [] \<or> last a = SLASH)) \<or> (\<exists>a. s = a @ ''/..'')"
  then have "SLASH \<in> set s" by auto
  then have "s \<noteq> ''..''" by auto
  moreover from R have "\<exists>a b. s = a @ ''..'' @ b \<and> (a = [] \<or> last a = SLASH) \<and> (b = [] \<or> hd b = SLASH)"
  proof (elim disjE exE)
    fix a b assume "s = a @ ''../'' @ b \<and> (a = [] \<or> last a = SLASH)"
    then show ?thesis by (intro exI[of _ a] exI[of _ "SLASH # b"]) simp
  next
    fix a assume "s = a @ ''/..''"
    then show ?thesis by (intro exI[of _ "a @ [SLASH]"] exI[of _ "[]"]) simp
  qed
  ultimately show "''..'' \<in> set (path_components s) \<and> s \<noteq> ''..''"
    by (simp add: dotdot_component_iff)
qed

lemma contains_single: "contains s [c] \<longleftrightarrow> c \<in> set s"
  by (auto simp: contains_iff dest: split_list)

lemmas IsFilePathInvalid_parts =
  scan_dotdot_0_iff rfind_tail_iff scan_backslash_0_iff dotdot_component_cases contains_single

text \<open>
  The three scanning loops together are equivalent to splitting the path at its slashes:
  \<open>IsFilePathInvalid\<close> rejects exactly the empty path, every path that has a \<open>..\<close> component
  (other than the two-character path \<open>..\<close> itself), a \<open>..\<close> before a backslash, one of the twelve
  percent-encoded separators and dots, \<open>%00\<close>, or a NUL byte.
\<close>

lemma path_invalid_iff:
  "IsFilePathInvalid s \<longleftrightarrow>
     s = [] \<or> (''..'' \<in> set (path_components s) \<and> s \<noteq> ''..'') \<or> contains s [CHR ''.'', CHR ''.'', BACKSLASH]
     \<or> (\<exists>p \<in> set urlTraversalPatterns. contains s p) \<or> contains s ''%00'' \<or> NUL \<in> set s"
  unfolding IsFilePathInvalid_def IsFilePathInvalid_parts list_ex_iff by blast

section \<open>Identifiers\<close>

text \<open>A non-empty string without separators, percent signs and NUL passes the traversal check.\<close>

lemma contains_subset: "contains s p \<Longrightarrow> set p \<subseteq> set s"
  by (auto simp: contains_iff)

lemma IsFilePathInvalid_plain:
  assumes "s \<noteq> []" "SLASH \<notin> set s" "BACKSLASH \<notin> set s" "CHR ''%'' \<notin> set s" "NUL \<notin> set s"
  shows "\<not> IsFilePathInvalid s"
proof -
  have "\<not> scan_dotdot s 0" "\<not> (\<exists>a. s = a @ ''/..'')" using assms(2) by (auto simp: scan_dotdot_0_iff)
  moreover have "\<not> scan_backslash s 0"
    using assms(3) contains_subset by (fastforce simp: scan_backslash_0_iff)
  moreover have "\<not> contains s p" if "CHR ''%'' \<in> set p" for p
    using assms(4) contains_subset that by blast
  moreover from this have "\<not> list_ex (contains s) urlTraversalPatterns"
    by (simp add: urlTraversalPatterns_def)
  ultimately show ?thesis
    using assms(1,5) by (simp add: IsFilePathInvalid_def rfind_tail_iff contains_single)
qed

lemma IsPureDigitsInRange_digits: "IsPureDigitsInRange s m n \<Longrightarrow> c \<in> set s \<Longrightarrow> c_isdigit c"
  by (auto simp: IsPureDigitsInRange_def list_all_iff)

lemma IsPureDigitsInRange_to_string:
  "IsPureDigitsInRange (to_string n) 1 (Suc k) \<longleftrightarrow> n < 10 ^ Suc k"
proof -
  have "1 \<le> length (to_string n)" by (metis One_nat_def Suc_leI length_greater_0_conv to_string_not_Nil)
  then show ?thesis
    by (simp add: IsPureDigitsInRange_def list_all_iff to_string_digits length_to_string_le)
qed

lemma IsDashSeparatedPair_iff:
  assumes "n \<le> length s"
  shows "IsDashSeparatedPair s n \<longleftrightarrow>
    (\<exists>x y. drop n s = x @ ''-'' @ y \<and> IsPureDigitsInRange x 1 4 \<and> IsPureDigitsInRange y 1 4)"
proof
  assume "IsDashSeparatedPair s n"
  then obtain d where d: "str_find (drop n s) ''-'' = Some d"
    and x: "IsPureDigitsInRange (take d (drop n s)) 1 4" and y: "IsPureDigitsInRange (drop (n + d + 1) s) 1 4"
    using assms by (auto simp: IsDashSeparatedPair_def str_find_from_def split: option.splits)
  from str_find_char_split[OF d] have "drop n s = take d (drop n s) @ ''-'' @ drop (n + d + 1) s"
    by (simp add: add.commute)
  with x y show "\<exists>x y. drop n s = x @ ''-'' @ y \<and> IsPureDigitsInRange x 1 4 \<and> IsPureDigitsInRange y 1 4"
    by blast
next
  assume "\<exists>x y. drop n s = x @ ''-'' @ y \<and> IsPureDigitsInRange x 1 4 \<and> IsPureDigitsInRange y 1 4"
  then obtain x y where xy: "drop n s = x @ CHR ''-'' # y" "IsPureDigitsInRange x 1 4" "IsPureDigitsInRange y 1 4"
    by auto
  then have nx: "CHR ''-'' \<notin> set x" and ny: "CHR ''-'' \<notin> set y"
    by (auto dest: IsPureDigitsInRange_digits c_isdigit_not_special)
  have first: "str_find_from s ''-'' n = Some (n + length x)"
    using assms nx xy(1) by (simp add: str_find_from_def str_find_char_append)
  have dy: "drop (n + length x + 1) s = y"
    using xy(1) by (metis (no_types) add.assoc add.commute append_Cons append_eq_conv_conj append_Nil append_assoc
        drop_drop length_append_singleton Suc_eq_plus1)
  have "str_find_from s ''-'' (n + length x + 1) = None"
    unfolding str_find_from_def dy using ny by (simp add: str_find_char_None)
  with first dy xy show "IsDashSeparatedPair s n" by (simp add: IsDashSeparatedPair_def)
qed

lemma pair_id_plain:
  assumes "IsPureDigitsInRange x 1 4" "IsPureDigitsInRange y 1 4"
    and "SLASH \<notin> set p" "BACKSLASH \<notin> set p" "CHR ''%'' \<notin> set p" "NUL \<notin> set p"
  shows "\<not> IsFilePathInvalid (p @ x @ ''-'' @ y)"
  using assms(3-) by (intro IsFilePathInvalid_plain)
    (auto dest!: IsPureDigitsInRange_digits[OF assms(1)] IsPureDigitsInRange_digits[OF assms(2)] dest: c_isdigit_not_special)

lemma DiskIdValid_iff:
  "IsDiskIdValid d \<longleftrightarrow>
     (\<exists>x y. d = ''disk-'' @ x @ ''-'' @ y \<and> IsPureDigitsInRange x 1 4 \<and> IsPureDigitsInRange y 1 4)"
proof
  assume "IsDiskIdValid d"
  then have "starts_with ''disk-'' d" and pair: "IsDashSeparatedPair d 5"
    by (auto simp: IsDiskIdValid_def split: if_splits)
  then obtain t where d: "d = ''disk-'' @ t" by (auto simp: starts_with_iff)
  with pair show "\<exists>x y. d = ''disk-'' @ x @ ''-'' @ y \<and> IsPureDigitsInRange x 1 4 \<and> IsPureDigitsInRange y 1 4"
    by (auto simp: IsDashSeparatedPair_iff)
next
  assume "\<exists>x y. d = ''disk-'' @ x @ ''-'' @ y \<and> IsPureDigitsInRange x 1 4 \<and> IsPureDigitsInRange y 1 4"
  then obtain x y where d: "d = ''disk-'' @ x @ ''-'' @ y"
    and xy: "IsPureDigitsInRange x 1 4" "IsPureDigitsInRange y 1 4" by blast
  from pair_id_plain[OF xy, of "''disk-''"] d have "\<not> IsFilePathInvalid d" by simp
  moreover have "IsDashSeparatedPair d 5" using d xy by (subst IsDashSeparatedPair_iff) auto
  ultimately show "IsDiskIdValid d" using d by (simp add: IsDiskIdValid_def)
qed

text \<open>A disk id is accepted exactly when it is \<open>disk-<maj>-<min>\<close> with one to four digits each.\<close>

theorem IsDiskIdValid_iff:
  "IsDiskIdValid d \<longleftrightarrow>
     (\<exists>x y. d = ''disk-'' @ x @ ''-'' @ y \<and> IsPureDigitsInRange x 1 4 \<and> IsPureDigitsInRange y 1 4)"
  by (rule DiskIdValid_iff)

section \<open>File-system UUIDs\<close>

lemma contains_appendD:
  assumes "contains (u @ c # v) p" "c \<notin> set p"
  shows "contains u p \<or> contains v p"
proof -
  from assms(1) obtain a b where "u @ c # v = a @ p @ b" by (auto simp: contains_iff)
  then consider us where "u = a @ us" "us @ c # v = p @ b" | us where "a = u @ us" "c # v = us @ p @ b"
    by (auto simp: append_eq_append_conv2)
  then show ?thesis
  proof cases
    case (1 us)
    then consider us' where "us = p @ us'" | us' where "us @ us' = p" "c # v = us' @ b"
      by (auto simp: append_eq_append_conv2)
    then show ?thesis
    proof cases
      case (1 us')
      with \<open>u = a @ us\<close> show ?thesis unfolding contains_iff by blast
    next
      case (2 us')
      with assms(2) have "us' = []" by (cases us') auto
      with 2 have "u = a @ p @ []" using \<open>u = a @ us\<close> by simp
      then show ?thesis unfolding contains_iff by blast
    qed
  next
    case (2 us)
    show ?thesis
    proof (cases us)
      case Nil
      with 2 assms(2) have "p = []" by (cases p) auto
      then have "u = [] @ p @ u" by simp
      then show ?thesis unfolding contains_iff by blast
    next
      case (Cons d ds)
      with 2 have "v = ds @ p @ b" by simp
      then show ?thesis unfolding contains_iff by blast
    qed
  qed
qed

lemma str_rfind_append: "c \<notin> set t \<Longrightarrow> str_rfind (u @ c # t) [c] = Some (length u)"
proof (induction u)
  case Nil
  then have "str_rfind t [c] = None" by (simp add: str_rfind_None_iff str_find_char_None)
  with Nil show ?case by simp
qed simp

lemma path_components_app: "path_components (u @ v) =
   butlast (path_components u) @ (last (path_components u) @ hd (path_components v)) # tl (path_components v)"
proof (induction u)
  case Nil
  then show ?case by (cases "path_components v") auto
next
  case (Cons c u)
  obtain y ys where y: "path_components u = y # ys" by (cases "path_components u") auto
  with Cons show ?case by (cases ys) auto
qed

text \<open>
  Appending \<open>_<seq>\<close> to a valid UUID of at most 128 bytes, as the de-duplication of volume
  UUIDs does, gives a valid UUID again for every sequence number below 10000.
\<close>

theorem IsUuidValid_dedup:
  assumes valid: "IsUuidValid u" and len: "length u \<le> UUID_MAX_LEN" and seq: "seq < 10000"
  shows "IsUuidValid (u @ ''_'' @ to_string seq)"
proof -
  let ?t = "to_string seq" and ?w = "u @ CHR ''_'' # to_string seq"
  have t: "\<And>c. c \<in> set ?t \<Longrightarrow> c_isdigit c" by blast
  from valid have inv: "\<not> IsFilePathInvalid u" by (simp add: IsUuidValid_def split: if_splits)
  have comps: "path_components ?w = butlast (path_components u) @ [last (path_components u) @ CHR ''_'' # ?t]"
  proof -
    have "path_components (CHR ''_'' # ?t) = [CHR ''_'' # ?t]"
      by (rule path_components_no_slash) (auto dest: t c_isdigit_not_special)
    then show ?thesis by (simp add: path_components_app)
  qed
  have none: "\<not> contains ?w p" if "\<not> contains u p" "CHR ''_'' \<notin> set p" "\<exists>c \<in> set p. \<not> c_isdigit c" for p
    using contains_appendD[of u "CHR ''_''" ?t p] that contains_subset[of ?t p] t by blast
  have "\<not> IsFilePathInvalid ?w"
    unfolding path_invalid_iff
  proof (intro notI, elim disjE conjE bexE)
    assume "''..'' \<in> set (path_components ?w)" "?w \<noteq> ''..''"
    moreover have "''..'' \<noteq> x @ CHR ''_'' # y" for x y
      by (rule notI) (drule arg_cong[of _ _ set], auto)
    ultimately have "''..'' \<in> set (butlast (path_components u))" using comps by auto
    moreover from this have "u \<noteq> ''..''" by auto
    ultimately show False using inv by (auto simp: path_invalid_iff dest: in_set_butlastD)
  next
    assume "contains ?w [CHR ''.'', CHR ''.'', BACKSLASH]"
    with none inv show False by (auto simp: path_invalid_iff c_isdigit_def)
  next
    fix p assume "p \<in> set urlTraversalPatterns" "contains ?w p"
    moreover from this(1) have "CHR ''_'' \<notin> set p \<and> (\<exists>c \<in> set p. \<not> c_isdigit c)"
      by (auto simp: urlTraversalPatterns_def c_isdigit_def)
    ultimately show False using none inv by (auto simp: path_invalid_iff)
  next
    assume "contains ?w ''%00''"
    with none inv show False by (auto simp: path_invalid_iff c_isdigit_def)
  next
    assume "NUL \<in> set ?w"
    with inv t show False by (auto simp: path_invalid_iff dest: c_isdigit_not_special)
  qed simp
  moreover have "str_rfind ?w ''_'' = Some (length u)"
    by (rule str_rfind_append) (auto dest: t c_isdigit_not_special)
  moreover have "IsPureDigitsInRange ?t 1 4"
    using IsPureDigitsInRange_to_string[of seq 3] seq by simp
  ultimately show ?thesis using len by (simp add: IsUuidValid_def)
qed

theorem IsUuidValid_dedup_witness:
  "IsUuidValid ''1A2B-3C4D'' \<and> IsUuidValid (''1A2B-3C4D'' @ ''_'' @ to_string 12)"
proof -
  have v: "IsUuidValid ''1A2B-3C4D''" by code_simp
  have "length ''1A2B-3C4D'' \<le> UUID_MAX_LEN" by (simp add: UUID_MAX_LEN_def)
  from IsUuidValid_dedup[OF v this, of 12] v show ?thesis by simp
qed

lemma IsUuidValid_plain: "IsUuidValid u \<Longrightarrow> \<not> IsFilePathInvalid u"
  by (simp add: IsUuidValid_def split: if_splits)

text \<open>
  A volume is mounted below \<open>/mnt/data/external\<close> at its UUID. A UUID that passes the validator adds no
  component \<open>..\<close> to that path, with the single exception of the UUID \<open>..\<close> itself: \<open>IsFilePathInvalid\<close>
  looks for the component at the end only after a slash, and so accepts it.
\<close>

lemma mount_path_components:
  "path_components (''/mnt/data/external/'' @ u) = ['''', ''mnt'', ''data'', ''external''] @ path_components u"
  by simp

text \<open>A valid UUID other than \<open>..\<close> keeps the mount path below the external root.\<close>

theorem IsUuidValid_mount_path:
  assumes "IsUuidValid u"
  shows "(''..'' \<in> set (path_components (''/mnt/data/external/'' @ u)) \<longleftrightarrow> u = ''..'') \<and> u \<noteq> [] \<and> NUL \<notin> set u"
  using IsUuidValid_plain[OF assms] unfolding mount_path_components by (auto simp: path_invalid_iff)

theorem IsUuidValid_mount_path_witness:
  "IsUuidValid ''..'' \<and> ''..'' \<in> set (path_components (''/mnt/data/external/'' @ ''..''))"
proof -
  have "IsUuidValid ''..''" by code_simp
  with IsUuidValid_mount_path[OF this] show ?thesis by blast
qed

text \<open>C37: the traversal check is exact.\<close>

theorem IsFilePathInvalid_iff:
  "IsFilePathInvalid s \<longleftrightarrow>
     s = [] \<or> (''..'' \<in> set (path_components s) \<and> s \<noteq> ''..'') \<or> contains s [CHR ''.'', CHR ''.'', BACKSLASH]
     \<or> (\<exists>p \<in> set urlTraversalPatterns. contains s p) \<or> contains s ''%00'' \<or> NUL \<in> set s"
  by (rule path_invalid_iff)

section \<open>The UUID of a blank disc\<close>

lemma hex_byte_length [simp]: "length (hex_byte b) = 2"
  by (simp add: hex_byte_def)

lemma unat_drop_bit_div: "unat (drop_bit n w) = unat w div 2 ^ n"
  unfolding unat_drop_bit_eq by (simp add: drop_bit_eq_div)

lemma nibble_bounds: "unat (drop_bit 4 (b :: 8 word)) < 16" "unat (b AND 0x0F) < 16"
proof -
  have "unat b < 256" using unsigned_less[of b, where ?'a = nat] by simp
  then show "unat (drop_bit 4 b) < 16" by (simp add: unat_drop_bit_div)
  have "b AND 0x0F = take_bit 4 b" by (simp add: take_bit_eq_mask mask_eq_exp_minus_1)
  then have "unat (b AND 0x0F) = take_bit 4 (unat b)" by (simp only: unsigned_take_bit_eq)
  then show "unat (b AND 0x0F) < 16" by (simp add: take_bit_eq_mod)
qed

lemma hex_byte_chars: "set (hex_byte b) \<subseteq> set HEX_CHARS"
proof -
  have "length HEX_CHARS = 16" by (simp add: HEX_CHARS_def)
  then show ?thesis using nibble_bounds[of b] by (auto simp: hex_byte_def intro!: nth_mem)
qed

lemma length_uuid_bytes: "length (uuid_bytes a b) = 16"
  by (simp add: uuid_bytes_def Let_def)

lemma uuid_fields_chars: "set (uuid_fields ns buf) \<subseteq> insert (CHR ''-'') (set HEX_CHARS)"
proof (induction ns buf rule: uuid_fields.induct)
  case (2 n buf)
  then show ?case using hex_byte_chars by fastforce
next
  case (3 n m ns buf)
  then show ?case using hex_byte_chars by fastforce
qed simp

lemma length_hex_bytes: "length (concat (map hex_byte bs)) = 2 * length bs"
  by (induction bs) auto

lemma version_nibble: "drop_bit 4 ((x AND 0x0F) OR 0x40 :: 8 word) = 4"
proof -
  have "drop_bit 4 (x AND 0x0F) = (0 :: 8 word)" by (simp add: drop_bit_and)
  then show ?thesis by (simp add: drop_bit_or)
qed

lemma variant_nibble: "drop_bit 6 ((x AND 0x3F) OR 0x80 :: 8 word) = 2"
proof -
  have "drop_bit 6 (x AND 0x3F) = (0 :: 8 word)" by (simp add: drop_bit_and)
  then show ?thesis by (simp add: drop_bit_or)
qed

text \<open>
  The five fields of the UUID: 8-4-4-4-12 characters with four dashes, so that the version digit
  stands at position 14 and the variant digit at position 19.
\<close>

lemma uuid_fields_16:
  assumes "length buf = 16"
  shows "length (uuid_fields [4, 2, 2, 2, 6] buf) = 36"
    and "uuid_fields [4, 2, 2, 2, 6] buf ! 14 = hex_byte (buf ! 6) ! 0"
    and "uuid_fields [4, 2, 2, 2, 6] buf ! 19 = hex_byte (buf ! 8) ! 0"
proof -
  show "length (uuid_fields [4, 2, 2, 2, 6] buf) = 36"
    using assms by (simp add: length_hex_bytes)
  from assms obtain b0 b1 b2 b3 b4 b5 b6 b7 b8 bs
    where b: "buf = [b0, b1, b2, b3, b4, b5, b6, b7, b8] @ bs" and "length bs = 7"
    by (auto simp: length_Suc_conv numeral_eq_Suc)
  then show "uuid_fields [4, 2, 2, 2, 6] buf ! 14 = hex_byte (buf ! 6) ! 0"
    and "uuid_fields [4, 2, 2, 2, 6] buf ! 19 = hex_byte (buf ! 8) ! 0"
    by (simp_all add: hex_byte_def numeral_eq_Suc)
qed

lemma uuid_bytes_version: "\<exists>x. uuid_bytes a b ! 6 = (x AND 0x0F) OR 0x40"
  and uuid_bytes_variant: "\<exists>x. uuid_bytes a b ! 8 = (x AND 0x3F) OR 0x80"
  by (auto simp: uuid_bytes_def Let_def)

lemma variant_digit:
  assumes "drop_bit 6 (w :: 8 word) = 2"
  shows "hex_byte w ! 0 \<in> set ''89ab''"
proof -
  from assms have "unat (drop_bit 6 w) = 2" by simp
  then have "unat w div 64 = 2" by (simp add: unat_drop_bit_div)
  then have "unat w div 16 \<in> {8, 9, 10, 11}" by auto
  then have "unat (drop_bit 4 w) \<in> {8, 9, 10, 11}" by (simp add: unat_drop_bit_div)
  then show ?thesis by (auto simp: hex_byte_def HEX_CHARS_def)
qed

text \<open>
  Whatever the generator draws, the UUID given to a blank disc has 36 characters, carries the
  version digit 4 and an RFC 4122 variant digit, and passes the UUID validator.
\<close>

theorem GenerateRandomUuid_valid:
  "length (GenerateRandomUuid draw diskId) = 36
   \<and> GenerateRandomUuid draw diskId ! 14 = CHR ''4''
   \<and> GenerateRandomUuid draw diskId ! 19 \<in> set ''89ab''
   \<and> IsUuidValid (GenerateRandomUuid draw diskId)"
proof -
  obtain a b where ab: "draw diskId = (a, b)" by fastforce
  let ?buf = "uuid_bytes a b" and ?u = "GenerateRandomUuid draw diskId"
  have u: "?u = uuid_fields [4, 2, 2, 2, 6] ?buf" by (simp add: GenerateRandomUuid_def ab)
  note fields = uuid_fields_16[OF length_uuid_bytes[of a b], folded u]
  obtain x y where x: "?buf ! 6 = (x AND 0x0F) OR 0x40" and y: "?buf ! 8 = (y AND 0x3F) OR 0x80"
    using uuid_bytes_version uuid_bytes_variant by blast
  have v: "?u ! 14 = CHR ''4''"
    using fields(2) version_nibble[of x] by (simp add: x hex_byte_def HEX_CHARS_def)
  have chars: "set ?u \<subseteq> insert (CHR ''-'') (set HEX_CHARS)" unfolding u by (rule uuid_fields_chars)
  then have "\<not> IsFilePathInvalid ?u"
    using fields(1) by (intro IsFilePathInvalid_plain) (auto simp: HEX_CHARS_def)
  moreover have "str_rfind ?u ''_'' = None"
    using chars by (auto simp: str_rfind_None_iff str_find_char_None HEX_CHARS_def)
  ultimately have "IsUuidValid ?u" using fields(1) by (simp add: IsUuidValid_def UUID_MAX_LEN_def)
  with fields(1,3) v variant_digit[OF variant_nibble[of y]] show ?thesis by (simp add: y)
qed

end
