(* ===== verification/Dm_Types.thy ===== *)
theory Dm_Types
  imports Dm_Prelude
begin

text \<open>
  The data model of \<^verbatim>\<open>interfaces/innerkits\<close>: volumes, disks, partitions and the request
  parameters, as records with the fields of the C++ classes, and the enumerations with their numeric
  codes. \<open>int32_t\<close>, \<open>int64_t\<close> and \<open>uint64_t\<close> fields are integers here; the places where the code does
  arithmetic on them write the wrap-around out. The second part is the operations of \<open>Disk\<close> and
  \<open>VolumeExternal\<close> that compute something: the classification of a disk from its sysfs path and the
  file-system name table.
\<close>

section \<open>Enumerations\<close>

datatype VolumeState =
    UNMOUNTED | CHECKING | MOUNTED | EJECTING | REMOVED | BAD_REMOVAL | DAMAGED | FUSE_REMOVED
  | DAMAGED_MOUNTED | ENCRYPTING | ENCRYPTED_AND_LOCKED | ENCRYPTED_AND_UNLOCKED | DECRYPTING
  | REPAIR_FINISH_FAIL | REPAIR_FINISH_SUCCESS | FORMAT_FINISH_FAIL | REPAIR_START | REPAIRING

primrec vs_code :: "VolumeState \<Rightarrow> int" where
  "vs_code UNMOUNTED = 0"
| "vs_code CHECKING = 1"
| "vs_code MOUNTED = 2"
| "vs_code EJECTING = 3"
| "vs_code REMOVED = 4"
| "vs_code BAD_REMOVAL = 5"
| "vs_code DAMAGED = 6"
| "vs_code FUSE_REMOVED = 7"
| "vs_code DAMAGED_MOUNTED = 8"
| "vs_code ENCRYPTING = 9"
| "vs_code ENCRYPTED_AND_LOCKED = 10"
| "vs_code ENCRYPTED_AND_UNLOCKED = 11"
| "vs_code DECRYPTING = 12"
| "vs_code REPAIR_FINISH_FAIL = 13"
| "vs_code REPAIR_FINISH_SUCCESS = 14"
| "vs_code FORMAT_FINISH_FAIL = 15"
| "vs_code REPAIR_START = 16"
| "vs_code REPAIRING = 17"

datatype AbnormalReason =
    PARTITION_TABLE_READ_FAILED | METADATA_READ_FAILED | FSTYPE_UNSUPPORTED | MOUNT_FAILED

primrec reason_code :: "AbnormalReason \<Rightarrow> int" where
  "reason_code PARTITION_TABLE_READ_FAILED = 1"
| "reason_code METADATA_READ_FAILED = 2"
| "reason_code FSTYPE_UNSUPPORTED = 3"
| "reason_code MOUNT_FAILED = 4"

datatype DiskType = SD_FLAG | USB_FLAG | CD_FLAG | DATA_DISK_SSD | DATA_DISK_HDD | DVR_USB | DISK_TYPE_UNKNOWN

primrec dt_code :: "DiskType \<Rightarrow> int" where
  "dt_code SD_FLAG = 1"
| "dt_code USB_FLAG = 2"
| "dt_code CD_FLAG = 3"
| "dt_code DATA_DISK_SSD = 4"
| "dt_code DATA_DISK_HDD = 5"
| "dt_code DVR_USB = 6"
| "dt_code DISK_TYPE_UNKNOWN = 255"

datatype CdromState = NO_DISC | EMPTY_DISC | NON_EMPTY_DISC | QUERY_FAILED

datatype FsType = FS_UNDEFINED | NTFS | EXFAT | VFAT | HMFS | F2FS | MTP | UDF | ISO9660 | PTP | EXT4

primrec fs_code :: "FsType \<Rightarrow> int" where
  "fs_code FS_UNDEFINED = -1"
| "fs_code NTFS = 0"
| "fs_code EXFAT = 1"
| "fs_code VFAT = 2"
| "fs_code HMFS = 3"
| "fs_code F2FS = 4"
| "fs_code MTP = 5"
| "fs_code UDF = 6"
| "fs_code ISO9660 = 7"
| "fs_code PTP = 8"
| "fs_code EXT4 = 9"

abbreviation (input) VOLUME_TYPE_EXTERNAL :: int where "VOLUME_TYPE_EXTERNAL \<equiv> 2"

lemma vs_code_inject [simp]: "vs_code a = vs_code b \<longleftrightarrow> a = b"
  by (cases a; cases b) simp_all

lemma dt_code_inject [simp]: "dt_code a = dt_code b \<longleftrightarrow> a = b"
  by (cases a; cases b) simp_all

lemma fs_code_inject [simp]: "fs_code a = fs_code b \<longleftrightarrow> a = b"
  by (cases a; cases b) simp_all

section \<open>Records\<close>

record VolumeCore =
  vc_id :: string
  vc_type :: int
  vc_diskId :: string
  vc_state :: int
  vc_errorFlag :: bool
  vc_fsType :: string
  vc_extraInfo :: string

record VolumeExternal = VolumeCore +
  ve_fsType :: int
  ve_flags :: int
  ve_fsUuid :: string
  ve_path :: string
  ve_description :: string
  ve_isUserData :: bool
  ve_umountResult :: string
  ve_partitionNum :: int
  ve_freeSize :: int
  ve_mountFlag :: bool
  ve_loopPath :: string
  ve_mapperPath :: string
  ve_offset :: int
  ve_sizeLimit :: int

record VolumeInfoStr =
  vi_volumeId :: string
  vi_fsTypeStr :: string
  vi_fsUuid :: string
  vi_path :: string
  vi_description :: string
  vi_isDamaged :: bool

record Disk =
  d_diskId :: string
  d_sizeBytes :: int
  d_diskType :: int
  d_removable :: bool
  d_volumeIds :: "string list"
  d_extraInfo :: string
  d_cdromState :: CdromState
  d_isUsbBus :: bool
  d_sysPath :: string
  d_devName :: string
  d_vendor :: string
  d_partitionType :: string
  d_vendorId :: int
  d_productId :: int
  d_serialNumber :: string
  d_busnum :: int
  d_devAddress :: int

record PartitionInfo =
  pi_partitionNum :: int
  pi_diskId :: string
  pi_startSector :: int
  pi_endSector :: int
  pi_sizeBytes :: int
  pi_fsType :: string

record PartitionTableInfo =
  pt_diskId :: string
  pt_tableType :: string
  pt_partitionCount :: int
  pt_totalSector :: int
  pt_sectorSize :: int
  pt_alignSector :: int
  pt_lastUsableSector :: int
  pt_partitions :: "PartitionInfo list"

record PartitionParams =
  pp_partitionNum :: int
  pp_startSector :: int
  pp_endSector :: int
  pp_typeCode :: string

record FormatParams =
  fp_fsType :: string
  fp_quickFormat :: bool
  fp_volumeName :: string

record CryptParam =
  cp_type :: string
  cp_cipher :: string
  cp_keySize :: int
  cp_keyFile :: string

record MountParam =
  mp_readOnly :: bool
  mp_fromEdmMount :: bool

record ExternalVolumeInfo =
  ev_volumeId :: string
  ev_uuid :: string
  ev_diskId :: string
  ev_description :: string
  ev_state :: int
  ev_totalSize :: int
  ev_freeSize :: int
  ev_path :: string
  ev_fsType :: string

record ExternalDiskInfo =
  ed_diskId :: string
  ed_diskType :: int
  ed_volumeIds :: "string list"
  ed_vendorId :: int
  ed_productId :: int

section \<open>Constructors\<close>

definition VolumeCore_default :: VolumeCore where
  "VolumeCore_default = \<lparr>vc_id = [], vc_type = 0, vc_diskId = [], vc_state = vs_code UNMOUNTED,
     vc_errorFlag = False, vc_fsType = [], vc_extraInfo = []\<rparr>"

definition VolumeCore_ctor3 :: "string \<Rightarrow> int \<Rightarrow> string \<Rightarrow> VolumeCore" where
  "VolumeCore_ctor3 volId ty diskId = VolumeCore_default\<lparr>vc_id := volId, vc_type := ty, vc_diskId := diskId\<rparr>"

definition VolumeCore_ctor4 :: "string \<Rightarrow> int \<Rightarrow> string \<Rightarrow> int \<Rightarrow> VolumeCore" where
  "VolumeCore_ctor4 volId ty diskId state =
     VolumeCore_default\<lparr>vc_id := volId, vc_type := ty, vc_diskId := diskId, vc_state := state\<rparr>"

definition VolumeCore_ctor6 :: "string \<Rightarrow> int \<Rightarrow> string \<Rightarrow> int \<Rightarrow> string \<Rightarrow> string \<Rightarrow> VolumeCore" where
  "VolumeCore_ctor6 volId ty diskId state fsType extraInfo =
     VolumeCore_default\<lparr>vc_id := volId, vc_type := ty, vc_diskId := diskId, vc_state := state,
       vc_fsType := fsType, vc_extraInfo := extraInfo\<rparr>"

text \<open>
  \<open>VolumeExternal(VolumeCore vc)\<close> rebuilds the base object from the getters of \<open>vc\<close>, which leave
  \<open>errorFlag_\<close> at its default.
\<close>

definition VolumeExternal_defaults :: "VolumeExternal" where
  "VolumeExternal_defaults = VolumeCore.extend VolumeCore_default
     (VolumeExternal.fields (fs_code FS_UNDEFINED) (dt_code DISK_TYPE_UNKNOWN) [] [] [] False [] 0 0 False [] [] 0 0)"

definition VolumeExternal_ctor :: "VolumeCore \<Rightarrow> VolumeExternal" where
  "VolumeExternal_ctor vc = VolumeCore.extend
     (VolumeCore_ctor6 (vc_id vc) (vc_type vc) (vc_diskId vc) (vc_state vc) (vc_fsType vc) (vc_extraInfo vc))
     (VolumeExternal.fields (fs_code FS_UNDEFINED) (dt_code DISK_TYPE_UNKNOWN) [] [] [] False [] 0 0 False [] [] 0 0)"

definition IsInternalDataDiskType :: "int \<Rightarrow> bool" where
  "IsInternalDataDiskType diskType \<longleftrightarrow> diskType = dt_code DATA_DISK_SSD \<or> diskType = dt_code DATA_DISK_HDD"

definition UpdateRemovableFromDiskType :: "Disk \<Rightarrow> Disk" where
  "UpdateRemovableFromDiskType d = d\<lparr>d_removable := \<not> IsInternalDataDiskType (d_diskType d)\<rparr>"

definition Disk_ctor0 :: Disk where
  "Disk_ctor0 = UpdateRemovableFromDiskType
     \<lparr>d_diskId = [], d_sizeBytes = 0, d_diskType = dt_code DISK_TYPE_UNKNOWN, d_removable = True, d_volumeIds = [],
      d_extraInfo = [], d_cdromState = NO_DISC, d_isUsbBus = False, d_sysPath = [], d_devName = [], d_vendor = [],
      d_partitionType = [], d_vendorId = 0, d_productId = 0, d_serialNumber = [], d_busnum = 0, d_devAddress = 0\<rparr>"

definition Disk_ctor :: "string \<Rightarrow> int \<Rightarrow> string \<Rightarrow> int \<Rightarrow> Disk" where
  "Disk_ctor diskId sizeBytes devName diskType = UpdateRemovableFromDiskType
     (Disk_ctor0\<lparr>d_diskId := diskId, d_sizeBytes := sizeBytes, d_diskType := diskType, d_devName := devName,
        d_sysPath := ''/dev/block/'' @ devName\<rparr>)"

definition Disk_SetDiskType :: "int \<Rightarrow> Disk \<Rightarrow> Disk" where
  "Disk_SetDiskType diskType d = UpdateRemovableFromDiskType (d\<lparr>d_diskType := diskType\<rparr>)"

definition Disk_IsInternalDataDisk :: "Disk \<Rightarrow> bool" where
  "Disk_IsInternalDataDisk d = IsInternalDataDiskType (d_diskType d)"

section \<open>Classification of a disk\<close>

definition SysPathHasOpticalBlock :: "string \<Rightarrow> bool" where
  "SysPathHasOpticalBlock p = contains p ''/block/sr''"

definition SysPathHasNvme :: "string \<Rightarrow> bool" where
  "SysPathHasNvme p = contains p ''/nvme''"

definition SysPathHasDirectSata :: "string \<Rightarrow> bool" where
  "SysPathHasDirectSata p \<longleftrightarrow> contains p ''/ata/'' \<or> contains p ''.sata/''"

definition SysPathHasUsbTopology :: "string \<Rightarrow> bool" where
  "SysPathHasUsbTopology p =
     (if contains p ''/usb'' \<or> contains p ''usbhost'' then True
      else if contains p ''/hiusb/'' \<or> contains p ''platform/hiusb'' then True
      else if contains p ''.ehci'' \<or> contains p ''/ehci'' \<or> contains p ''ehci/'' then True
      else if contains p ''xhci'' \<or> contains p ''.dwc3'' \<or> contains p ''/dwc3/'' then True
      else False)"

definition SysPathHasMmcHost :: "string \<Rightarrow> bool" where
  "SysPathHasMmcHost p \<longleftrightarrow>
     contains p ''mmc_host'' \<or> contains p ''dwmmc'' \<or> contains p ''hi_mci'' \<or> contains p ''dw_mmc''"

definition RefreshClassificationFromSysfs :: "string \<Rightarrow> int \<Rightarrow> Disk \<Rightarrow> Disk" where
  "RefreshClassificationFromSysfs p rotational d =
     (if d_diskType d = dt_code DVR_USB then UpdateRemovableFromDiskType d
      else
        let usb = (if p \<noteq> [] then SysPathHasUsbTopology p else d_isUsbBus d);
            classified =
              (if p \<noteq> [] then
                 if d_diskType d = dt_code CD_FLAG \<or> SysPathHasOpticalBlock p then CD_FLAG
                 else if SysPathHasNvme p \<or> (SysPathHasDirectSata p \<and> rotational = 0) then DATA_DISK_SSD
                 else if SysPathHasDirectSata p then DATA_DISK_HDD
                 else if usb then USB_FLAG
                 else if SysPathHasMmcHost p then SD_FLAG
                 else DISK_TYPE_UNKNOWN
               else DISK_TYPE_UNKNOWN);
            final =
              (if classified = DISK_TYPE_UNKNOWN then
                 if d_diskType d \<in> {dt_code SD_FLAG, dt_code USB_FLAG, dt_code CD_FLAG} then d_diskType d
                 else dt_code DISK_TYPE_UNKNOWN
               else dt_code classified)
        in UpdateRemovableFromDiskType (d\<lparr>d_isUsbBus := usb, d_diskType := final\<rparr>))"

section \<open>File-system names\<close>

definition FS_TYPE_MAP :: "(int, string) omap" where
  "FS_TYPE_MAP =
     [(fs_code NTFS, ''ntfs''), (fs_code EXFAT, ''exfat''), (fs_code VFAT, ''vfat''), (fs_code HMFS, ''hmfs''),
      (fs_code F2FS, ''f2fs''), (fs_code MTP, ''mtp''), (fs_code UDF, ''udf''), (fs_code ISO9660, ''iso9660''),
      (fs_code PTP, ''ptp''), (fs_code EXT4, ''ext4'')]"

definition GetFsTypeString :: "VolumeExternal \<Rightarrow> string" where
  "GetFsTypeString v = (case om_get FS_TYPE_MAP (ve_fsType v) of None \<Rightarrow> ''undefined'' | Some s \<Rightarrow> s)"

definition GetFsTypeByStr :: "string \<Rightarrow> int" where
  "GetFsTypeByStr s = (case find (\<lambda>(k, n). n = s) FS_TYPE_MAP of Some (k, n) \<Rightarrow> k | None \<Rightarrow> -1)"

definition VolumeExternal_Reset :: "VolumeExternal \<Rightarrow> VolumeExternal" where
  "VolumeExternal_Reset v = v\<lparr>ve_path := []\<rparr>"

section \<open>Lemmas\<close>

lemma FS_TYPE_MAP_wf: "om_wf FS_TYPE_MAP"
  by (simp add: om_wf_def FS_TYPE_MAP_def)

lemma GetFsTypeByStr_roundtrip_aux:
  "om_get FS_TYPE_MAP k = Some n \<Longrightarrow> GetFsTypeByStr n = k"
  by (auto simp: FS_TYPE_MAP_def GetFsTypeByStr_def split: if_splits)

lemma GetFsTypeByStr_lookup:
  assumes "GetFsTypeByStr s \<noteq> -1"
  shows "om_get FS_TYPE_MAP (GetFsTypeByStr s) = Some s"
  using assms by (auto simp: GetFsTypeByStr_def FS_TYPE_MAP_def split: if_splits)

lemma UpdateRemovable_sel [simp]:
  "d_diskType (UpdateRemovableFromDiskType d) = d_diskType d"
  "d_diskId (UpdateRemovableFromDiskType d) = d_diskId d"
  "d_volumeIds (UpdateRemovableFromDiskType d) = d_volumeIds d"
  "d_removable (UpdateRemovableFromDiskType d) \<longleftrightarrow> \<not> IsInternalDataDiskType (d_diskType d)"
  by (simp_all add: UpdateRemovableFromDiskType_def)

text \<open>The class invariant of \<open>Disk\<close>: only SSD and HDD data disks are not removable.\<close>

definition disk_wf :: "Disk \<Rightarrow> bool" where
  "disk_wf d \<longleftrightarrow> (d_removable d \<longleftrightarrow> \<not> Disk_IsInternalDataDisk d)"

lemma disk_wf_update [simp]: "disk_wf (UpdateRemovableFromDiskType d)"
  by (simp add: disk_wf_def Disk_IsInternalDataDisk_def)

lemma disk_wf_ctor [simp]: "disk_wf (Disk_ctor diskId sizeBytes devName diskType)"
  by (simp add: Disk_ctor_def)

lemma disk_wf_set [simp]: "disk_wf (Disk_SetDiskType t d)"
  by (simp add: Disk_SetDiskType_def)

lemma disk_wf_refresh [simp]: "disk_wf (RefreshClassificationFromSysfs p r d)"
  by (simp add: RefreshClassificationFromSysfs_def Let_def)

lemma Refresh_diskId [simp]: "d_diskId (RefreshClassificationFromSysfs p r d) = d_diskId d"
  by (simp add: RefreshClassificationFromSysfs_def Let_def)

lemma RefreshClassification_typed:
  "disk_wf (RefreshClassificationFromSysfs p r d) \<and> (\<exists>t. d_diskType (RefreshClassificationFromSysfs p r d) = dt_code t)"
  by (auto simp: RefreshClassificationFromSysfs_def Let_def simp del: dt_code.simps)

text \<open>
  Classification keeps the invariant that a disk is removable unless it is an internal data disk,
  its result is always a known disk type, and a second classification with the same inputs changes
  nothing more.
\<close>

theorem RefreshClassification_idem:
  "let d' = RefreshClassificationFromSysfs p r d in
     disk_wf d'
     \<and> (\<exists>t. d_diskType d' = dt_code t)
     \<and> RefreshClassificationFromSysfs p r d' = d'"
proof -
  have "\<exists>t. d_diskType (RefreshClassificationFromSysfs p r d) = dt_code t"
    by (auto simp: RefreshClassificationFromSysfs_def Let_def simp del: dt_code.simps)
  moreover have "RefreshClassificationFromSysfs p r (RefreshClassificationFromSysfs p r d)
      = RefreshClassificationFromSysfs p r d"
    by (simp add: RefreshClassificationFromSysfs_def Let_def UpdateRemovableFromDiskType_def)
  ultimately show ?thesis by (simp add: Let_def)
qed

text \<open>
  The file-system name table is a bijection on the ten supported types: the name of a type parses
  back to the type, and a name that parses prints back as itself.
\<close>

theorem FsType_roundtrip:
  "(GetFsTypeString v \<noteq> ''undefined'' \<longrightarrow> GetFsTypeByStr (GetFsTypeString v) = ve_fsType v)
   \<and> (GetFsTypeByStr s \<noteq> -1 \<longrightarrow> GetFsTypeString (v\<lparr>ve_fsType := GetFsTypeByStr s\<rparr>) = s)"
  by (auto simp: GetFsTypeString_def GetFsTypeByStr_roundtrip_aux GetFsTypeByStr_lookup split: option.splits)

theorem FsType_roundtrip_witness:
  "GetFsTypeByStr ''exfat'' = 1 \<and> GetFsTypeString (VolumeExternal_defaults\<lparr>ve_fsType := GetFsTypeByStr ''exfat''\<rparr>) = ''exfat''"
proof -
  have "GetFsTypeByStr ''exfat'' = 1" by code_simp
  with FsType_roundtrip[of VolumeExternal_defaults "''exfat''"] show ?thesis by simp
qed

end
