(* ===== verification/Dm_Parcel.thy ===== *)
theory Dm_Parcel
  imports Dm_Types
begin

text \<open>
  Marshalling and unmarshalling of the data model of \<^verbatim>\<open>interfaces/innerkits/src\<close>. The parcel itself
  (\<open>OHOS::Parcel\<close>) is a library outside the repository: its read and write primitives are the record
  \<open>parcel_ops\<close>, an argument of every function here. \<open>parcel_fifo ops cells\<close> is the documented behaviour
  relied upon: a write that reports success appends its value, a read takes the value at the read
  position; \<open>cells\<close> is the sequence of values not yet read (interface tokens, UTF-16 strings and file
  descriptors occur in the messages to the storage daemon). The locale \<open>parcelable\<close> is the contract a
  class of the data model keeps with the IPC layer.
\<close>

section \<open>The parcel interface\<close>

datatype cell = CInt32 int | CInt64 int | CUint32 nat | CUint64 int | CBool bool | CString string
  | CToken string | CString16 "16 word list" | CFd int

record 'p parcel_ops =
  WriteInt32 :: "int \<Rightarrow> 'p \<Rightarrow> bool \<times> 'p"
  WriteInt64 :: "int \<Rightarrow> 'p \<Rightarrow> bool \<times> 'p"
  WriteUint32 :: "nat \<Rightarrow> 'p \<Rightarrow> bool \<times> 'p"
  WriteUint64 :: "int \<Rightarrow> 'p \<Rightarrow> bool \<times> 'p"
  WriteBool :: "bool \<Rightarrow> 'p \<Rightarrow> bool \<times> 'p"
  WriteString :: "string \<Rightarrow> 'p \<Rightarrow> bool \<times> 'p"
  ReadInt32 :: "'p \<Rightarrow> int \<times> 'p"
  ReadInt64 :: "'p \<Rightarrow> int \<times> 'p"
  ReadUint32 :: "'p \<Rightarrow> nat \<times> 'p"
  ReadUint64 :: "'p \<Rightarrow> int \<times> 'p"
  ReadBool :: "'p \<Rightarrow> bool \<times> 'p"
  ReadString :: "'p \<Rightarrow> string \<times> 'p"

text \<open>\<open>writes\<close>: the write appends these cells if it succeeds. \<open>reads\<close>: the read takes this cell.\<close>

definition writes :: "('p \<Rightarrow> cell list) \<Rightarrow> ('p \<Rightarrow> bool \<times> 'p) \<Rightarrow> cell list \<Rightarrow> bool" where
  "writes cells w c \<longleftrightarrow> (\<forall>p p'. w p = (True, p') \<longrightarrow> cells p' = cells p @ c)"

definition reads :: "('p \<Rightarrow> cell list) \<Rightarrow> ('p \<Rightarrow> 'a \<times> 'p) \<Rightarrow> cell \<Rightarrow> 'a \<Rightarrow> bool" where
  "reads cells r c x \<longleftrightarrow> (\<forall>p cs. cells p = c # cs \<longrightarrow> fst (r p) = x \<and> cells (snd (r p)) = cs)"

definition parcel_fifo :: "'p parcel_ops \<Rightarrow> ('p \<Rightarrow> cell list) \<Rightarrow> bool" where
  "parcel_fifo ops cells \<longleftrightarrow>
     (\<forall>i. writes cells (WriteInt32 ops i) [CInt32 i] \<and> reads cells (ReadInt32 ops) (CInt32 i) i)
   \<and> (\<forall>i. writes cells (WriteInt64 ops i) [CInt64 i] \<and> reads cells (ReadInt64 ops) (CInt64 i) i)
   \<and> (\<forall>n. writes cells (WriteUint32 ops n) [CUint32 n] \<and> reads cells (ReadUint32 ops) (CUint32 n) n)
   \<and> (\<forall>i. writes cells (WriteUint64 ops i) [CUint64 i] \<and> reads cells (ReadUint64 ops) (CUint64 i) i)
   \<and> (\<forall>b. writes cells (WriteBool ops b) [CBool b] \<and> reads cells (ReadBool ops) (CBool b) b)
   \<and> (\<forall>s. writes cells (WriteString ops s) [CString s] \<and> reads cells (ReadString ops) (CString s) s)"

text \<open>
  \<open>write_all\<close> is the chain of \<open>if (!parcel.Write...) return false;\<close>, \<open>wr_check\<close> a guard within it. A reader
  returns the object or \<open>nullptr\<close>: \<open>rd\<close> reads a field, \<open>rd_lim\<close> a string with the length check that
  follows it, \<open>rd_sub\<close> calls another \<open>Unmarshalling\<close> and gives up when that gave up.
\<close>

fun write_all :: "('p \<Rightarrow> bool \<times> 'p) list \<Rightarrow> 'p \<Rightarrow> bool \<times> 'p" where
  "write_all [] p = (True, p)"
| "write_all (w # ws) p = (case w p of (True, p') \<Rightarrow> write_all ws p' | (False, p') \<Rightarrow> (False, p'))"

definition wr_check :: "bool \<Rightarrow> 'p \<Rightarrow> bool \<times> 'p" where
  "wr_check b p = (b, p)"

definition rd :: "('p \<Rightarrow> 'a \<times> 'p) \<Rightarrow> ('a \<Rightarrow> 'p \<Rightarrow> 'b option \<times> 'p) \<Rightarrow> 'p \<Rightarrow> 'b option \<times> 'p" where
  "rd r k p = (case r p of (x, p') \<Rightarrow> k x p')"

definition rd_ret :: "'b \<Rightarrow> 'p \<Rightarrow> 'b option \<times> 'p" where
  "rd_ret x p = (Some x, p)"

definition rd_fail :: "'p \<Rightarrow> 'b option \<times> 'p" where
  "rd_fail p = (None, p)"

definition rd_sub :: "('p \<Rightarrow> 'a option \<times> 'p) \<Rightarrow> ('a \<Rightarrow> 'p \<Rightarrow> 'b option \<times> 'p) \<Rightarrow> 'p \<Rightarrow> 'b option \<times> 'p" where
  "rd_sub m k p = (case m p of (Some x, p') \<Rightarrow> k x p' | (None, p') \<Rightarrow> (None, p'))"

definition PARCEL_STRING_MAX_LEN :: nat where "PARCEL_STRING_MAX_LEN = 4096"

definition rd_lim :: "'p parcel_ops \<Rightarrow> (string \<Rightarrow> 'p \<Rightarrow> 'b option \<times> 'p) \<Rightarrow> 'p \<Rightarrow> 'b option \<times> 'p" where
  "rd_lim ops k = rd (ReadString ops) (\<lambda>s. if PARCEL_STRING_MAX_LEN < length s then rd_fail else k s)"

fun rd_times :: "nat \<Rightarrow> ('p \<Rightarrow> 'a option \<times> 'p) \<Rightarrow> 'p \<Rightarrow> 'a list option \<times> 'p" where
  "rd_times 0 m p = (Some [], p)"
| "rd_times (Suc n) m p = rd_sub m (\<lambda>x. rd_sub (rd_times n m) (\<lambda>xs. rd_ret (x # xs))) p"

section \<open>Reasoning about writers and readers\<close>

definition yields :: "('p \<Rightarrow> cell list) \<Rightarrow> ('p \<Rightarrow> 'b option \<times> 'p) \<Rightarrow> cell list \<Rightarrow> 'b \<Rightarrow> bool" where
  "yields cells m c y \<longleftrightarrow> (\<forall>p cs. cells p = c @ cs \<longrightarrow> (\<exists>q. m p = (Some y, q) \<and> cells q = cs))"

named_theorems parcel_intros

lemma writes_all:
  assumes "list_all2 (writes cells) ws cs"
  shows "writes cells (write_all ws) (concat cs)"
  using assms
proof (induction ws cs rule: list_all2_induct)
  case (Cons w ws c cs)
  then show ?case by (fastforce simp: writes_def split: prod.splits bool.splits)
qed (simp add: writes_def)

lemma writes_check [parcel_intros]: "writes cells (wr_check b) []"
  by (simp add: writes_def wr_check_def)

lemma writes_chain_Nil [parcel_intros]: "writes cells (write_all []) []"
  by (simp add: writes_def)

lemma writes_chain:
  "writes cells w c \<Longrightarrow> writes cells (write_all ws) cs \<Longrightarrow> writes cells (write_all (w # ws)) (c @ cs)"
  by (fastforce simp: writes_def split: prod.splits bool.splits)

lemma writes_chain_check [parcel_intros]:
  "writes cells (write_all ws) cs \<Longrightarrow> writes cells (write_all (wr_check b # ws)) cs"
  using writes_chain[OF writes_check] by fastforce

lemma yields_ret [parcel_intros]: "x = y \<Longrightarrow> yields cells (rd_ret x) [] y"
  by (simp add: yields_def rd_ret_def)

lemma yields_rd:
  assumes "reads cells r c x" "yields cells (k x) cs y"
  shows "yields cells (rd r k) (c # cs) y"
  using assms unfolding yields_def reads_def rd_def
  by (metis (no_types, lifting) append_Cons case_prod_beta)

lemma yields_sub:
  assumes "yields cells m c x" "yields cells (k x) cs y"
  shows "yields cells (rd_sub m k) (c @ cs) y"
  unfolding yields_def
proof (intro allI impI)
  fix p ds assume "cells p = (c @ cs) @ ds"
  with assms(1) obtain q where "m p = (Some x, q)" "cells q = cs @ ds" unfolding yields_def by fastforce
  with assms(2) show "\<exists>q. rd_sub m k p = (Some y, q) \<and> cells q = ds"
    unfolding yields_def rd_sub_def by fastforce
qed

lemma yields_times:
  assumes "list_all2 (yields cells m) cs xs"
  shows "yields cells (rd_times (length xs) m) (concat cs) xs"
  using assms
proof (induction cs xs rule: list_all2_induct)
  case (Cons c cs x xs)
  have "yields cells (rd_sub m (\<lambda>x. rd_sub (rd_times (length xs) m) (\<lambda>xs. rd_ret (x # xs)))) (c @ concat cs @ []) (x # xs)"
    using Cons by (intro yields_sub yields_ret) auto
  then show ?case by (simp add: yields_def)
qed (simp add: yields_def)

lemma fifo_writes:
  assumes "parcel_fifo ops cells"
  shows "writes cells (WriteInt32 ops i) [CInt32 i]" "writes cells (WriteInt64 ops i) [CInt64 i]"
    "writes cells (WriteUint32 ops n) [CUint32 n]" "writes cells (WriteUint64 ops i) [CUint64 i]"
    "writes cells (WriteBool ops b) [CBool b]" "writes cells (WriteString ops s) [CString s]"
  using assms unfolding parcel_fifo_def by blast+

lemma fifo_yields:
  assumes "parcel_fifo ops cells"
  shows "yields cells (ki i) cs y \<Longrightarrow> yields cells (rd (ReadInt32 ops) ki) (CInt32 i # cs) y"
    "yields cells (ki i) cs y \<Longrightarrow> yields cells (rd (ReadInt64 ops) ki) (CInt64 i # cs) y"
    "yields cells (kn n) cs y \<Longrightarrow> yields cells (rd (ReadUint32 ops) kn) (CUint32 n # cs) y"
    "yields cells (ki i) cs y \<Longrightarrow> yields cells (rd (ReadUint64 ops) ki) (CUint64 i # cs) y"
    "yields cells (kb b) cs y \<Longrightarrow> yields cells (rd (ReadBool ops) kb) (CBool b # cs) y"
    "yields cells (ks s) cs y \<Longrightarrow> yields cells (rd (ReadString ops) ks) (CString s # cs) y"
    "length s \<le> PARCEL_STRING_MAX_LEN \<Longrightarrow> yields cells (ks s) cs y \<Longrightarrow> yields cells (rd_lim ops ks) (CString s # cs) y"
  using assms unfolding parcel_fifo_def by (auto simp: rd_lim_def intro!: yields_rd)

declare write_all.simps [simp del]

lemma fifo_writes_chain:
  assumes "parcel_fifo ops cells"
  shows "writes cells (write_all ws) cs \<Longrightarrow> writes cells (write_all (WriteInt32 ops i # ws)) (CInt32 i # cs)"
    "writes cells (write_all ws) cs \<Longrightarrow> writes cells (write_all (WriteInt64 ops i # ws)) (CInt64 i # cs)"
    "writes cells (write_all ws) cs \<Longrightarrow> writes cells (write_all (WriteUint32 ops n # ws)) (CUint32 n # cs)"
    "writes cells (write_all ws) cs \<Longrightarrow> writes cells (write_all (WriteUint64 ops i # ws)) (CUint64 i # cs)"
    "writes cells (write_all ws) cs \<Longrightarrow> writes cells (write_all (WriteBool ops b # ws)) (CBool b # cs)"
    "writes cells (write_all ws) cs \<Longrightarrow> writes cells (write_all (WriteString ops s # ws)) (CString s # cs)"
  using fifo_writes[OF assms] writes_chain by fastforce+

lemma fifo_strings:
  assumes "parcel_fifo ops cells"
  shows "writes cells (write_all (map (WriteString ops) xs)) (map CString xs)"
  by (induction xs) (auto intro: fifo_writes_chain[OF assms] writes_chain_Nil)

text \<open>A reader rejects an encoding when it returns \<open>nullptr\<close> on it.\<close>

definition rejects :: "('p \<Rightarrow> cell list) \<Rightarrow> ('p \<Rightarrow> 'b option \<times> 'p) \<Rightarrow> cell list \<Rightarrow> bool" where
  "rejects cells m c \<longleftrightarrow> (\<forall>p cs. cells p = c @ cs \<longrightarrow> fst (m p) = None)"

lemma rejects_fail [parcel_intros]: "rejects cells rd_fail c"
  by (simp add: rejects_def rd_fail_def)

lemma rejects_rd: "reads cells r c x \<Longrightarrow> rejects cells (k x) cs \<Longrightarrow> rejects cells (rd r k) (c # cs)"
  by (auto simp: rejects_def reads_def rd_def case_prod_beta)

lemma rejects_sub: "rejects cells m c \<Longrightarrow> rejects cells (rd_sub m k) (c @ cs)"
  by (fastforce simp: rejects_def rd_sub_def split: prod.splits option.splits)

lemma rejects_sub_yields: "yields cells m c x \<Longrightarrow> rejects cells (k x) cs \<Longrightarrow> rejects cells (rd_sub m k) (c @ cs)"
  by (fastforce simp: rejects_def yields_def rd_sub_def)

lemma fifo_rejects:
  assumes "parcel_fifo ops cells"
  shows "rejects cells (ki i) cs \<Longrightarrow> rejects cells (rd (ReadInt32 ops) ki) (CInt32 i # cs)"
    "rejects cells (ki i) cs \<Longrightarrow> rejects cells (rd (ReadInt64 ops) ki) (CInt64 i # cs)"
    "rejects cells (kn n) cs \<Longrightarrow> rejects cells (rd (ReadUint32 ops) kn) (CUint32 n # cs)"
    "rejects cells (kb b) cs \<Longrightarrow> rejects cells (rd (ReadBool ops) kb) (CBool b # cs)"
    "(length s \<le> PARCEL_STRING_MAX_LEN \<Longrightarrow> rejects cells (ks s) cs) \<Longrightarrow> rejects cells (rd_lim ops ks) (CString s # cs)"
  using assms unfolding parcel_fifo_def by (auto simp: rd_lim_def intro!: rejects_rd rejects_fail)

text \<open>A reader is bounded by a predicate when every object it returns satisfies it, whatever the parcel does.\<close>

definition returns :: "('p \<Rightarrow> 'b option \<times> 'p) \<Rightarrow> ('b \<Rightarrow> bool) \<Rightarrow> bool" where
  "returns m P \<longleftrightarrow> (\<forall>p x q. m p = (Some x, q) \<longrightarrow> P x)"

lemma returns_ret [parcel_intros]: "P x \<Longrightarrow> returns (rd_ret x) P"
  by (simp add: returns_def rd_ret_def)

lemma returns_fail [parcel_intros]: "returns rd_fail P"
  by (simp add: returns_def rd_fail_def)

lemma returns_rd [parcel_intros]: "(\<And>x. returns (k x) P) \<Longrightarrow> returns (rd r k) P"
  by (auto simp: returns_def rd_def split: prod.splits)

lemma returns_lim [parcel_intros]:
  "(\<And>s. length s \<le> PARCEL_STRING_MAX_LEN \<Longrightarrow> returns (k s) P) \<Longrightarrow> returns (rd_lim ops k) P"
  unfolding rd_lim_def by (intro returns_rd) (auto intro: returns_fail)

lemma returns_sub: "returns m Q \<Longrightarrow> (\<And>x. Q x \<Longrightarrow> returns (k x) P) \<Longrightarrow> returns (rd_sub m k) P"
  by (fastforce simp: returns_def rd_sub_def split: prod.splits option.splits)

lemma returns_times: "returns m P \<Longrightarrow> returns (rd_times n m) (\<lambda>xs. length xs = n \<and> list_all P xs)"
proof (induction n)
  case (Suc n)
  then have "returns (rd_sub m (\<lambda>x. rd_sub (rd_times n m) (\<lambda>xs. rd_ret (x # xs)))) (\<lambda>xs. length xs = Suc n \<and> list_all P xs)"
    by (intro returns_sub[where Q = P] returns_sub[where Q = "\<lambda>xs. length xs = n \<and> list_all P xs"] returns_ret) auto
  then show ?case by (simp add: returns_def)
qed (simp add: returns_def)

section \<open>The contract of a parcelable class\<close>

locale parcelable =
  fixes marshalling :: "'p parcel_ops \<Rightarrow> 'a \<Rightarrow> 'p \<Rightarrow> bool \<times> 'p"
    and unmarshalling :: "'p parcel_ops \<Rightarrow> 'p \<Rightarrow> 'a option \<times> 'p"
    and enc :: "'a \<Rightarrow> cell list"
    and ok :: "'a \<Rightarrow> bool"
    and view :: "'a \<Rightarrow> 'a"
  assumes marshalling_enc: "parcel_fifo ops cells \<Longrightarrow> ok x \<Longrightarrow> writes cells (marshalling ops x) (enc x)"
    and unmarshalling_enc: "parcel_fifo ops cells \<Longrightarrow> ok x \<Longrightarrow> yields cells (unmarshalling ops) (enc x) (view x)"
begin

text \<open>What is marshalled behind other values is read back, up to the fields that do not travel.\<close>

lemma roundtrip:
  assumes fifo: "parcel_fifo ops cells" and "ok x" and empty: "cells p = []"
    and m: "marshalling ops x p = (True, p')"
  shows "\<exists>q. unmarshalling ops p' = (Some (view x), q) \<and> cells q = []"
proof -
  from marshalling_enc[OF fifo \<open>ok x\<close>] m empty have "cells p' = enc x @ []" by (simp add: writes_def)
  with unmarshalling_enc[OF fifo \<open>ok x\<close>] show ?thesis unfolding yields_def by blast
qed

text \<open>The same for a sequence of objects written one behind the other.\<close>

lemma seq_writes:
  "parcel_fifo ops cells \<Longrightarrow> list_all ok xs \<Longrightarrow>
     writes cells (write_all (map (marshalling ops) xs)) (concat (map enc xs))"
  by (rule writes_all) (auto simp: list_all2_conv_all_nth list_all_length intro: marshalling_enc)

lemma seq_yields:
  assumes "parcel_fifo ops cells" "list_all ok xs"
  shows "yields cells (rd_times (length xs) (unmarshalling ops)) (concat (map enc xs)) (map view xs)"
  using yields_times[of cells "unmarshalling ops" "map enc xs" "map view xs"] assms
  by (auto simp: list_all2_conv_all_nth list_all_length intro: unmarshalling_enc)

end

section \<open>Marshalling and unmarshalling\<close>

subsection \<open>Volumes\<close>

definition VolumeCore_Marshalling :: "'p parcel_ops \<Rightarrow> 'z VolumeCore_scheme \<Rightarrow> 'p \<Rightarrow> bool \<times> 'p" where
  "VolumeCore_Marshalling ops v = write_all
     [WriteString ops (vc_id v),
      WriteInt32 ops (vc_type v),
      WriteString ops (vc_diskId v),
      WriteInt32 ops (vc_state v),
      WriteBool ops (vc_errorFlag v),
      WriteString ops (vc_fsType v),
      WriteString ops (vc_extraInfo v)]"

definition VolumeCore_Unmarshalling :: "'p parcel_ops \<Rightarrow> 'p \<Rightarrow> VolumeCore option \<times> 'p" where
  "VolumeCore_Unmarshalling ops =
     rd_lim ops (\<lambda>i.
     rd (ReadInt32 ops) (\<lambda>ty.
     rd_lim ops (\<lambda>di.
     rd (ReadInt32 ops) (\<lambda>st.
     rd (ReadBool ops) (\<lambda>ef.
     rd_lim ops (\<lambda>fs.
     rd_lim ops (\<lambda>ei.
     rd_ret \<lparr>vc_id = i, vc_type = ty, vc_diskId = di, vc_state = st, vc_errorFlag = ef, vc_fsType = fs,
             vc_extraInfo = ei\<rparr>)))))))"

definition VolumeInfoStr_Marshalling :: "'p parcel_ops \<Rightarrow> VolumeInfoStr \<Rightarrow> 'p \<Rightarrow> bool \<times> 'p" where
  "VolumeInfoStr_Marshalling ops v = write_all
     [WriteString ops (vi_volumeId v),
      WriteString ops (vi_fsTypeStr v),
      WriteString ops (vi_fsUuid v),
      WriteString ops (vi_path v),
      WriteString ops (vi_description v),
      WriteBool ops (vi_isDamaged v)]"

definition VolumeInfoStr_Unmarshalling :: "'p parcel_ops \<Rightarrow> 'p \<Rightarrow> VolumeInfoStr option \<times> 'p" where
  "VolumeInfoStr_Unmarshalling ops =
     rd_lim ops (\<lambda>i.
     rd_lim ops (\<lambda>fs.
     rd_lim ops (\<lambda>uu.
     rd_lim ops (\<lambda>pa.
     rd_lim ops (\<lambda>de.
     rd (ReadBool ops) (\<lambda>da.
     rd_ret \<lparr>vi_volumeId = i, vi_fsTypeStr = fs, vi_fsUuid = uu, vi_path = pa, vi_description = de,
             vi_isDamaged = da\<rparr>))))))"

definition VolumeExternal_Marshalling :: "'p parcel_ops \<Rightarrow> VolumeExternal \<Rightarrow> 'p \<Rightarrow> bool \<times> 'p" where
  "VolumeExternal_Marshalling ops v = write_all
     [VolumeCore_Marshalling ops v,
      WriteInt32 ops (ve_flags v),
      WriteInt32 ops (ve_fsType v),
      WriteString ops (ve_fsUuid v),
      WriteString ops (ve_path v),
      WriteString ops (ve_description v),
      WriteInt32 ops (ve_partitionNum v),
      WriteString ops (ve_loopPath v),
      WriteString ops (ve_mapperPath v),
      WriteBool ops (ve_mountFlag v),
      WriteUint64 ops (ve_offset v),
      WriteUint64 ops (ve_sizeLimit v)]"

definition VolumeExternal_Unmarshalling :: "'p parcel_ops \<Rightarrow> 'p \<Rightarrow> VolumeExternal option \<times> 'p" where
  "VolumeExternal_Unmarshalling ops =
     rd_sub (VolumeCore_Unmarshalling ops) (\<lambda>vc.
     rd (ReadInt32 ops) (\<lambda>fl.
     rd (ReadInt32 ops) (\<lambda>fs.
     rd (ReadString ops) (\<lambda>uu.
     rd (ReadString ops) (\<lambda>pa.
     rd (ReadString ops) (\<lambda>de.
     rd (ReadInt32 ops) (\<lambda>pn.
     rd (ReadString ops) (\<lambda>lp.
     rd (ReadString ops) (\<lambda>mp.
     rd (ReadBool ops) (\<lambda>mf.
     rd (ReadUint64 ops) (\<lambda>ofs.
     rd (ReadUint64 ops) (\<lambda>sl.
     rd_ret ((VolumeExternal_ctor vc)\<lparr>ve_flags := fl, ve_fsType := fs, ve_fsUuid := uu, ve_path := pa,
        ve_description := de, ve_partitionNum := pn, ve_loopPath := lp, ve_mapperPath := mp, ve_mountFlag := mf,
        ve_offset := ofs, ve_sizeLimit := sl\<rparr>)))))))))))))"

subsection \<open>Disks\<close>

definition DISK_VOLUME_IDS_PARCEL_MAX :: nat where "DISK_VOLUME_IDS_PARCEL_MAX = 256"

definition uint32_size :: "'a list \<Rightarrow> nat" where
  "uint32_size xs = nat (int (length xs) mod 2 ^ 32)"

definition rd_strings :: "'p parcel_ops \<Rightarrow> nat \<Rightarrow> 'p \<Rightarrow> string list option \<times> 'p" where
  "rd_strings ops n = rd_times n (rd_lim ops rd_ret)"

definition Disk_Marshalling :: "'p parcel_ops \<Rightarrow> Disk \<Rightarrow> 'p \<Rightarrow> bool \<times> 'p" where
  "Disk_Marshalling ops d = write_all
     [WriteString ops (d_diskId d),
      WriteInt64 ops (d_sizeBytes d),
      WriteInt32 ops (d_diskType d),
      WriteBool ops (d_removable d),
      WriteUint32 ops (uint32_size (d_volumeIds d)),
      write_all (map (WriteString ops) (d_volumeIds d)),
      WriteString ops (d_extraInfo d),
      WriteInt32 ops (d_vendorId d),
      WriteInt32 ops (d_productId d),
      WriteString ops (d_serialNumber d),
      WriteInt32 ops (d_busnum d),
      WriteInt32 ops (d_devAddress d)]"

definition Disk_Unmarshalling :: "'p parcel_ops \<Rightarrow> 'p \<Rightarrow> Disk option \<times> 'p" where
  "Disk_Unmarshalling ops =
     rd_lim ops (\<lambda>i.
     rd (ReadInt64 ops) (\<lambda>sz.
     rd (ReadInt32 ops) (\<lambda>ty.
     rd (ReadBool ops) (\<lambda>rem.
     rd (ReadUint32 ops) (\<lambda>n.
     if DISK_VOLUME_IDS_PARCEL_MAX < n then rd_fail
     else rd_sub (rd_strings ops n) (\<lambda>vids.
     rd_lim ops (\<lambda>ei.
     rd (ReadInt32 ops) (\<lambda>vid.
     rd (ReadInt32 ops) (\<lambda>pid.
     rd_lim ops (\<lambda>sn.
     rd (ReadInt32 ops) (\<lambda>bn.
     rd (ReadInt32 ops) (\<lambda>da.
     rd_ret (Disk_ctor0\<lparr>d_diskId := i, d_sizeBytes := sz, d_diskType := ty, d_removable := rem, d_volumeIds := vids,
        d_extraInfo := ei, d_vendorId := vid, d_productId := pid, d_serialNumber := sn, d_busnum := bn,
        d_devAddress := da\<rparr>)))))))))))))"

definition ExternalDiskInfo_Marshalling :: "'p parcel_ops \<Rightarrow> ExternalDiskInfo \<Rightarrow> 'p \<Rightarrow> bool \<times> 'p" where
  "ExternalDiskInfo_Marshalling ops d = write_all
     [WriteString ops (ed_diskId d),
      WriteInt32 ops (ed_diskType d),
      WriteUint32 ops (uint32_size (ed_volumeIds d)),
      write_all (map (WriteString ops) (ed_volumeIds d)),
      WriteInt32 ops (ed_vendorId d),
      WriteInt32 ops (ed_productId d)]"

definition ExternalDiskInfo_Unmarshalling :: "'p parcel_ops \<Rightarrow> 'p \<Rightarrow> ExternalDiskInfo option \<times> 'p" where
  "ExternalDiskInfo_Unmarshalling ops =
     rd_lim ops (\<lambda>i.
     rd (ReadInt32 ops) (\<lambda>ty.
     rd (ReadUint32 ops) (\<lambda>n.
     if DISK_VOLUME_IDS_PARCEL_MAX < n then rd_fail
     else rd_sub (rd_strings ops n) (\<lambda>vids.
     rd (ReadInt32 ops) (\<lambda>vid.
     rd (ReadInt32 ops) (\<lambda>pid.
     rd_ret \<lparr>ed_diskId = i, ed_diskType = ty, ed_volumeIds = vids, ed_vendorId = vid, ed_productId = pid\<rparr>))))))"

definition ExternalVolumeInfo_Marshalling :: "'p parcel_ops \<Rightarrow> ExternalVolumeInfo \<Rightarrow> 'p \<Rightarrow> bool \<times> 'p" where
  "ExternalVolumeInfo_Marshalling ops v = write_all
     [WriteString ops (ev_volumeId v),
      WriteString ops (ev_uuid v),
      WriteString ops (ev_diskId v),
      WriteString ops (ev_description v),
      WriteInt32 ops (ev_state v),
      WriteInt64 ops (ev_totalSize v),
      WriteInt64 ops (ev_freeSize v),
      WriteString ops (ev_path v),
      WriteString ops (ev_fsType v)]"

definition ExternalVolumeInfo_Unmarshalling :: "'p parcel_ops \<Rightarrow> 'p \<Rightarrow> ExternalVolumeInfo option \<times> 'p" where
  "ExternalVolumeInfo_Unmarshalling ops =
     rd_lim ops (\<lambda>i.
     rd_lim ops (\<lambda>uu.
     rd_lim ops (\<lambda>di.
     rd_lim ops (\<lambda>de.
     rd (ReadInt32 ops) (\<lambda>st.
     rd (ReadInt64 ops) (\<lambda>ts.
     rd (ReadInt64 ops) (\<lambda>fr.
     rd_lim ops (\<lambda>pa.
     rd_lim ops (\<lambda>fs.
     rd_ret \<lparr>ev_volumeId = i, ev_uuid = uu, ev_diskId = di, ev_description = de, ev_state = st, ev_totalSize = ts,
             ev_freeSize = fr, ev_path = pa, ev_fsType = fs\<rparr>)))))))))"

subsection \<open>Partitions and parameters\<close>

definition PartitionInfo_Marshalling :: "'p parcel_ops \<Rightarrow> PartitionInfo \<Rightarrow> 'p \<Rightarrow> bool \<times> 'p" where
  "PartitionInfo_Marshalling ops x = write_all
     [WriteInt32 ops (pi_partitionNum x),
      WriteString ops (pi_diskId x),
      WriteInt64 ops (pi_startSector x),
      WriteInt64 ops (pi_endSector x),
      WriteInt64 ops (pi_sizeBytes x),
      WriteString ops (pi_fsType x)]"

definition PartitionInfo_Unmarshalling :: "'p parcel_ops \<Rightarrow> 'p \<Rightarrow> PartitionInfo option \<times> 'p" where
  "PartitionInfo_Unmarshalling ops =
     rd (ReadInt32 ops) (\<lambda>pn.
     rd_lim ops (\<lambda>di.
     rd (ReadInt64 ops) (\<lambda>ss.
     rd (ReadInt64 ops) (\<lambda>es.
     rd (ReadInt64 ops) (\<lambda>sz.
     rd_lim ops (\<lambda>fs.
     rd_ret \<lparr>pi_partitionNum = pn, pi_diskId = di, pi_startSector = ss, pi_endSector = es, pi_sizeBytes = sz,
             pi_fsType = fs\<rparr>))))))"

definition PARTITION_COUNT_MAX :: nat where "PARTITION_COUNT_MAX = 256"

definition PartitionTableInfo_default :: PartitionTableInfo where
  "PartitionTableInfo_default = \<lparr>pt_diskId = [], pt_tableType = [], pt_partitionCount = 0, pt_totalSector = 0,
     pt_sectorSize = 512, pt_alignSector = 2048, pt_lastUsableSector = 0, pt_partitions = []\<rparr>"

definition PartitionTableInfo_Marshalling :: "'p parcel_ops \<Rightarrow> PartitionTableInfo \<Rightarrow> 'p \<Rightarrow> bool \<times> 'p" where
  "PartitionTableInfo_Marshalling ops x = write_all
     [WriteString ops (pt_diskId x),
      WriteString ops (pt_tableType x),
      WriteInt32 ops (pt_partitionCount x),
      WriteInt64 ops (pt_totalSector x),
      WriteInt32 ops (pt_sectorSize x),
      WriteInt32 ops (pt_alignSector x),
      wr_check (uint32_size (pt_partitions x) \<le> PARTITION_COUNT_MAX),
      WriteUint32 ops (uint32_size (pt_partitions x)),
      write_all (map (PartitionInfo_Marshalling ops) (pt_partitions x))]"

definition PartitionTableInfo_Unmarshalling :: "'p parcel_ops \<Rightarrow> 'p \<Rightarrow> PartitionTableInfo option \<times> 'p" where
  "PartitionTableInfo_Unmarshalling ops =
     rd_lim ops (\<lambda>di.
     rd_lim ops (\<lambda>tt.
     rd (ReadInt32 ops) (\<lambda>pc.
     rd (ReadInt64 ops) (\<lambda>ts.
     rd (ReadInt32 ops) (\<lambda>ss.
     rd (ReadInt32 ops) (\<lambda>al.
     rd (ReadUint32 ops) (\<lambda>n.
     if PARTITION_COUNT_MAX < n then rd_fail
     else rd_sub (rd_times n (PartitionInfo_Unmarshalling ops)) (\<lambda>ps.
     rd_ret (PartitionTableInfo_default\<lparr>pt_diskId := di, pt_tableType := tt, pt_partitionCount := pc, pt_totalSector := ts,
        pt_sectorSize := ss, pt_alignSector := al, pt_partitions := ps\<rparr>)))))))))"

definition PartitionParams_Marshalling :: "'p parcel_ops \<Rightarrow> PartitionParams \<Rightarrow> 'p \<Rightarrow> bool \<times> 'p" where
  "PartitionParams_Marshalling ops x = write_all
     [WriteInt32 ops (pp_partitionNum x),
      WriteInt64 ops (pp_startSector x),
      WriteInt64 ops (pp_endSector x),
      WriteString ops (pp_typeCode x)]"

definition PartitionParams_Unmarshalling :: "'p parcel_ops \<Rightarrow> 'p \<Rightarrow> PartitionParams option \<times> 'p" where
  "PartitionParams_Unmarshalling ops =
     rd (ReadInt32 ops) (\<lambda>pn.
     rd (ReadInt64 ops) (\<lambda>ss.
     rd (ReadInt64 ops) (\<lambda>es.
     rd_lim ops (\<lambda>tc.
     rd_ret \<lparr>pp_partitionNum = pn, pp_startSector = ss, pp_endSector = es, pp_typeCode = tc\<rparr>))))"

definition FormatParams_Marshalling :: "'p parcel_ops \<Rightarrow> FormatParams \<Rightarrow> 'p \<Rightarrow> bool \<times> 'p" where
  "FormatParams_Marshalling ops x = write_all
     [WriteString ops (fp_fsType x), WriteBool ops (fp_quickFormat x), WriteString ops (fp_volumeName x)]"

definition FormatParams_Unmarshalling :: "'p parcel_ops \<Rightarrow> 'p \<Rightarrow> FormatParams option \<times> 'p" where
  "FormatParams_Unmarshalling ops =
     rd_lim ops (\<lambda>fs.
     rd (ReadBool ops) (\<lambda>qf.
     rd_lim ops (\<lambda>vn.
     rd_ret \<lparr>fp_fsType = fs, fp_quickFormat = qf, fp_volumeName = vn\<rparr>)))"

definition CryptParam_Marshalling :: "'p parcel_ops \<Rightarrow> CryptParam \<Rightarrow> 'p \<Rightarrow> bool \<times> 'p" where
  "CryptParam_Marshalling ops x = write_all
     [WriteString ops (cp_type x), WriteString ops (cp_cipher x), WriteInt32 ops (cp_keySize x),
      WriteString ops (cp_keyFile x)]"

definition CryptParam_Unmarshalling :: "'p parcel_ops \<Rightarrow> 'p \<Rightarrow> CryptParam option \<times> 'p" where
  "CryptParam_Unmarshalling ops =
     rd_lim ops (\<lambda>ty.
     rd_lim ops (\<lambda>ci.
     rd (ReadInt32 ops) (\<lambda>ks.
     rd_lim ops (\<lambda>kf.
     rd_ret \<lparr>cp_type = ty, cp_cipher = ci, cp_keySize = ks, cp_keyFile = kf\<rparr>))))"

definition MountParam_Marshalling :: "'p parcel_ops \<Rightarrow> MountParam \<Rightarrow> 'p \<Rightarrow> bool \<times> 'p" where
  "MountParam_Marshalling ops x = write_all [WriteBool ops (mp_readOnly x), WriteBool ops (mp_fromEdmMount x)]"

definition MountParam_Unmarshalling :: "'p parcel_ops \<Rightarrow> 'p \<Rightarrow> MountParam option \<times> 'p" where
  "MountParam_Unmarshalling ops =
     rd (ReadBool ops) (\<lambda>ro.
     rd (ReadBool ops) (\<lambda>ed.
     rd_ret \<lparr>mp_readOnly = ro, mp_fromEdmMount = ed\<rparr>))"

section \<open>The classes keep the contract\<close>

text \<open>
  For each class: the sequence of values it puts on the wire, the objects that fit the reader's
  limits, and the object the other side sees, which differs from the original exactly in the fields that
  are process-local.
\<close>

abbreviation short :: "string \<Rightarrow> bool" where "short s \<equiv> length s \<le> PARCEL_STRING_MAX_LEN"

definition VolumeCore_enc :: "'z VolumeCore_scheme \<Rightarrow> cell list" where
  "VolumeCore_enc v = [CString (vc_id v), CInt32 (vc_type v), CString (vc_diskId v), CInt32 (vc_state v),
     CBool (vc_errorFlag v), CString (vc_fsType v), CString (vc_extraInfo v)]"

definition VolumeCore_ok :: "'z VolumeCore_scheme \<Rightarrow> bool" where
  "VolumeCore_ok v \<longleftrightarrow> short (vc_id v) \<and> short (vc_diskId v) \<and> short (vc_fsType v) \<and> short (vc_extraInfo v)"

definition VolumeExternal_enc :: "VolumeExternal \<Rightarrow> cell list" where
  "VolumeExternal_enc v = VolumeCore_enc v @ [CInt32 (ve_flags v), CInt32 (ve_fsType v), CString (ve_fsUuid v),
     CString (ve_path v), CString (ve_description v), CInt32 (ve_partitionNum v), CString (ve_loopPath v),
     CString (ve_mapperPath v), CBool (ve_mountFlag v), CUint64 (ve_offset v), CUint64 (ve_sizeLimit v)]"

definition VolumeExternal_view :: "VolumeExternal \<Rightarrow> VolumeExternal" where
  "VolumeExternal_view v = v\<lparr>vc_errorFlag := False, ve_isUserData := False, ve_umountResult := [], ve_freeSize := 0\<rparr>"

definition VolumeInfoStr_enc :: "VolumeInfoStr \<Rightarrow> cell list" where
  "VolumeInfoStr_enc v = [CString (vi_volumeId v), CString (vi_fsTypeStr v), CString (vi_fsUuid v),
     CString (vi_path v), CString (vi_description v), CBool (vi_isDamaged v)]"

definition VolumeInfoStr_ok :: "VolumeInfoStr \<Rightarrow> bool" where
  "VolumeInfoStr_ok v \<longleftrightarrow> short (vi_volumeId v) \<and> short (vi_fsTypeStr v) \<and> short (vi_fsUuid v) \<and> short (vi_path v)
     \<and> short (vi_description v)"

definition Disk_enc :: "Disk \<Rightarrow> cell list" where
  "Disk_enc d = [CString (d_diskId d), CInt64 (d_sizeBytes d), CInt32 (d_diskType d), CBool (d_removable d),
     CUint32 (length (d_volumeIds d))] @ map CString (d_volumeIds d) @ [CString (d_extraInfo d), CInt32 (d_vendorId d),
     CInt32 (d_productId d), CString (d_serialNumber d), CInt32 (d_busnum d), CInt32 (d_devAddress d)]"

definition Disk_ok :: "Disk \<Rightarrow> bool" where
  "Disk_ok d \<longleftrightarrow> short (d_diskId d) \<and> length (d_volumeIds d) \<le> DISK_VOLUME_IDS_PARCEL_MAX
     \<and> list_all short (d_volumeIds d) \<and> short (d_extraInfo d) \<and> short (d_serialNumber d)"

definition Disk_view :: "Disk \<Rightarrow> Disk" where
  "Disk_view d = d\<lparr>d_cdromState := NO_DISC, d_isUsbBus := False, d_sysPath := [], d_devName := [], d_vendor := [],
     d_partitionType := []\<rparr>"

definition ExternalDiskInfo_enc :: "ExternalDiskInfo \<Rightarrow> cell list" where
  "ExternalDiskInfo_enc d = [CString (ed_diskId d), CInt32 (ed_diskType d), CUint32 (length (ed_volumeIds d))]
     @ map CString (ed_volumeIds d) @ [CInt32 (ed_vendorId d), CInt32 (ed_productId d)]"

definition ExternalDiskInfo_ok :: "ExternalDiskInfo \<Rightarrow> bool" where
  "ExternalDiskInfo_ok d \<longleftrightarrow> short (ed_diskId d) \<and> length (ed_volumeIds d) \<le> DISK_VOLUME_IDS_PARCEL_MAX
     \<and> list_all short (ed_volumeIds d)"

definition ExternalVolumeInfo_enc :: "ExternalVolumeInfo \<Rightarrow> cell list" where
  "ExternalVolumeInfo_enc v = [CString (ev_volumeId v), CString (ev_uuid v), CString (ev_diskId v),
     CString (ev_description v), CInt32 (ev_state v), CInt64 (ev_totalSize v), CInt64 (ev_freeSize v),
     CString (ev_path v), CString (ev_fsType v)]"

definition ExternalVolumeInfo_ok :: "ExternalVolumeInfo \<Rightarrow> bool" where
  "ExternalVolumeInfo_ok v \<longleftrightarrow> short (ev_volumeId v) \<and> short (ev_uuid v) \<and> short (ev_diskId v)
     \<and> short (ev_description v) \<and> short (ev_path v) \<and> short (ev_fsType v)"

definition PartitionInfo_enc :: "PartitionInfo \<Rightarrow> cell list" where
  "PartitionInfo_enc x = [CInt32 (pi_partitionNum x), CString (pi_diskId x), CInt64 (pi_startSector x),
     CInt64 (pi_endSector x), CInt64 (pi_sizeBytes x), CString (pi_fsType x)]"

definition PartitionInfo_ok :: "PartitionInfo \<Rightarrow> bool" where
  "PartitionInfo_ok x \<longleftrightarrow> short (pi_diskId x) \<and> short (pi_fsType x)"

definition PartitionTableInfo_enc :: "PartitionTableInfo \<Rightarrow> cell list" where
  "PartitionTableInfo_enc x = [CString (pt_diskId x), CString (pt_tableType x), CInt32 (pt_partitionCount x),
     CInt64 (pt_totalSector x), CInt32 (pt_sectorSize x), CInt32 (pt_alignSector x),
     CUint32 (length (pt_partitions x))] @ concat (map PartitionInfo_enc (pt_partitions x)) @ []"

definition PartitionTableInfo_ok :: "PartitionTableInfo \<Rightarrow> bool" where
  "PartitionTableInfo_ok x \<longleftrightarrow> short (pt_diskId x) \<and> short (pt_tableType x)
     \<and> length (pt_partitions x) \<le> PARTITION_COUNT_MAX \<and> list_all PartitionInfo_ok (pt_partitions x)"

definition PartitionTableInfo_view :: "PartitionTableInfo \<Rightarrow> PartitionTableInfo" where
  "PartitionTableInfo_view x = x\<lparr>pt_lastUsableSector := 0\<rparr>"

definition PartitionParams_enc :: "PartitionParams \<Rightarrow> cell list" where
  "PartitionParams_enc x = [CInt32 (pp_partitionNum x), CInt64 (pp_startSector x), CInt64 (pp_endSector x),
     CString (pp_typeCode x)]"

definition FormatParams_enc :: "FormatParams \<Rightarrow> cell list" where
  "FormatParams_enc x = [CString (fp_fsType x), CBool (fp_quickFormat x), CString (fp_volumeName x)]"

definition CryptParam_enc :: "CryptParam \<Rightarrow> cell list" where
  "CryptParam_enc x = [CString (cp_type x), CString (cp_cipher x), CInt32 (cp_keySize x), CString (cp_keyFile x)]"

definition MountParam_enc :: "MountParam \<Rightarrow> cell list" where
  "MountParam_enc x = [CBool (mp_readOnly x), CBool (mp_fromEdmMount x)]"

lemma uint32_size_exact: "length xs < 2 ^ 32 \<Longrightarrow> uint32_size xs = length xs"
  by (simp add: uint32_size_def mod_pos_pos_trivial)

lemma uint32_size_small: "length xs \<le> 256 \<Longrightarrow> uint32_size xs = length xs"
  by (rule uint32_size_exact) simp

lemma yields_strings:
  assumes "parcel_fifo ops cells" "list_all short xs" "n = length xs"
  shows "yields cells (rd_strings ops n) (map CString xs) xs"
proof -
  have "list_all2 (yields cells (rd_lim ops rd_ret)) (map (\<lambda>s. [CString s]) xs) xs"
    using assms(2) by (auto simp: list_all2_conv_all_nth list_all_length
        intro!: fifo_yields[OF assms(1)] parcel_intros)
  from yields_times[OF this] show ?thesis
    by (simp add: rd_strings_def assms(3) concat_map_singleton)
qed

interpretation core: parcelable VolumeCore_Marshalling VolumeCore_Unmarshalling VolumeCore_enc VolumeCore_ok id
  by unfold_locales
    (auto simp: VolumeCore_Marshalling_def VolumeCore_Unmarshalling_def VolumeCore_enc_def VolumeCore_ok_def
      intro!: fifo_writes_chain fifo_yields parcel_intros)

interpretation vinfo: parcelable VolumeInfoStr_Marshalling VolumeInfoStr_Unmarshalling VolumeInfoStr_enc VolumeInfoStr_ok id
  by unfold_locales
    (auto simp: VolumeInfoStr_Marshalling_def VolumeInfoStr_Unmarshalling_def VolumeInfoStr_enc_def VolumeInfoStr_ok_def
      intro!: fifo_writes_chain fifo_yields parcel_intros)

interpretation evi: parcelable ExternalVolumeInfo_Marshalling ExternalVolumeInfo_Unmarshalling
  ExternalVolumeInfo_enc ExternalVolumeInfo_ok id
  by unfold_locales
    (auto simp: ExternalVolumeInfo_Marshalling_def ExternalVolumeInfo_Unmarshalling_def ExternalVolumeInfo_enc_def
      ExternalVolumeInfo_ok_def intro!: fifo_writes_chain fifo_yields parcel_intros)

interpretation part: parcelable PartitionInfo_Marshalling PartitionInfo_Unmarshalling PartitionInfo_enc PartitionInfo_ok id
  by unfold_locales
    (auto simp: PartitionInfo_Marshalling_def PartitionInfo_Unmarshalling_def PartitionInfo_enc_def PartitionInfo_ok_def
      intro!: fifo_writes_chain fifo_yields parcel_intros)

interpretation pparams: parcelable PartitionParams_Marshalling PartitionParams_Unmarshalling PartitionParams_enc
  "\<lambda>x. short (pp_typeCode x)" id
  by unfold_locales
    (auto simp: PartitionParams_Marshalling_def PartitionParams_Unmarshalling_def PartitionParams_enc_def
      intro!: fifo_writes_chain fifo_yields parcel_intros)

interpretation fparams: parcelable FormatParams_Marshalling FormatParams_Unmarshalling FormatParams_enc
  "\<lambda>x. short (fp_fsType x) \<and> short (fp_volumeName x)" id
  by unfold_locales
    (auto simp: FormatParams_Marshalling_def FormatParams_Unmarshalling_def FormatParams_enc_def
      intro!: fifo_writes_chain fifo_yields parcel_intros)

interpretation cparam: parcelable CryptParam_Marshalling CryptParam_Unmarshalling CryptParam_enc
  "\<lambda>x. short (cp_type x) \<and> short (cp_cipher x) \<and> short (cp_keyFile x)" id
  by unfold_locales
    (auto simp: CryptParam_Marshalling_def CryptParam_Unmarshalling_def CryptParam_enc_def
      intro!: fifo_writes_chain fifo_yields parcel_intros)

interpretation mparam: parcelable MountParam_Marshalling MountParam_Unmarshalling MountParam_enc "\<lambda>x. True" id
  by unfold_locales
    (auto simp: MountParam_Marshalling_def MountParam_Unmarshalling_def MountParam_enc_def
      intro!: fifo_writes_chain fifo_yields parcel_intros)

lemma VolumeCore_Marshalling_ext:
  assumes "parcel_fifo ops cells"
  shows "writes cells (VolumeCore_Marshalling ops v) (VolumeCore_enc v)"
  unfolding VolumeCore_Marshalling_def VolumeCore_enc_def
  by (intro fifo_writes_chain[OF assms] parcel_intros)

lemma VolumeCore_Unmarshalling_ext:
  assumes "parcel_fifo ops cells" "VolumeCore_ok v"
  shows "yields cells (VolumeCore_Unmarshalling ops) (VolumeCore_enc v) (VolumeCore.truncate v)"
  using assms unfolding VolumeCore_Unmarshalling_def VolumeCore_enc_def VolumeCore_ok_def
  by (auto intro!: fifo_yields[OF assms(1)] parcel_intros simp: VolumeCore.defs)

lemma VolumeExternal_view_ctor:
  "VolumeExternal_view v = (VolumeExternal_ctor (VolumeCore.truncate v))\<lparr>ve_flags := ve_flags v, ve_fsType := ve_fsType v,
     ve_fsUuid := ve_fsUuid v, ve_path := ve_path v, ve_description := ve_description v,
     ve_partitionNum := ve_partitionNum v, ve_loopPath := ve_loopPath v, ve_mapperPath := ve_mapperPath v,
     ve_mountFlag := ve_mountFlag v, ve_offset := ve_offset v, ve_sizeLimit := ve_sizeLimit v\<rparr>"
  by (cases v) (simp add: VolumeExternal_view_def VolumeExternal_ctor_def VolumeCore_ctor6_def VolumeCore_default_def
      VolumeCore.defs VolumeExternal.defs)

interpretation vext: parcelable VolumeExternal_Marshalling VolumeExternal_Unmarshalling VolumeExternal_enc
  VolumeCore_ok VolumeExternal_view
proof unfold_locales
  fix ops :: "'p parcel_ops" and cells and x :: VolumeExternal
  assume fifo: "parcel_fifo ops cells" and ok: "VolumeCore_ok x"
  show "writes cells (VolumeExternal_Marshalling ops x) (VolumeExternal_enc x)"
    unfolding VolumeExternal_Marshalling_def VolumeExternal_enc_def
    by (intro writes_chain[OF VolumeCore_Marshalling_ext] fifo_writes_chain fifo parcel_intros)
  show "yields cells (VolumeExternal_Unmarshalling ops) (VolumeExternal_enc x) (VolumeExternal_view x)"
    unfolding VolumeExternal_Unmarshalling_def VolumeExternal_enc_def VolumeExternal_view_ctor
    by (intro yields_sub[OF VolumeCore_Unmarshalling_ext] fifo_yields fifo ok parcel_intros refl)
qed

lemma rejects_strings:
  assumes "parcel_fifo ops cells"
  shows "\<not> list_all short xs \<Longrightarrow> rejects cells (rd_strings ops (length xs)) (map CString xs)"
proof (induction xs)
  case (Cons x xs)
  let ?k = "\<lambda>s. rd_sub (rd_times (length xs) (rd_lim ops rd_ret)) (\<lambda>xs. rd_ret (s # xs))"
  have eq: "rd_strings ops (length (x # xs)) = rd_sub (rd_lim ops rd_ret) ?k"
    by (simp add: rd_strings_def fun_eq_iff)
  show ?case
  proof (cases "short x")
    case True
    then have "yields cells (rd_lim ops rd_ret) [CString x] x" by (intro fifo_yields[OF assms] parcel_intros refl)
    moreover have "rejects cells (?k x) (map CString xs)"
      using Cons True rejects_sub[of cells _ "map CString xs" _ "[]"] by (simp add: rd_strings_def)
    ultimately show ?thesis unfolding eq using rejects_sub_yields[of cells _ "[CString x]"] by fastforce
  next
    case False
    then have "rejects cells (rd_lim ops rd_ret) [CString x]" by (intro fifo_rejects[OF assms]) simp
    then show ?thesis unfolding eq using rejects_sub[of cells _ "[CString x]"] by fastforce
  qed
qed simp

lemma Disk_rejects:
  assumes fifo: "parcel_fifo ops cells" and bad: "\<not> Disk_ok d"
  shows "rejects cells (Disk_Unmarshalling ops) (Disk_enc d)"
proof (cases "list_all short (d_volumeIds d)")
  case True
  then show ?thesis
    using bad yields_strings[OF fifo _ refl, of "d_volumeIds d"]
    unfolding Disk_Unmarshalling_def Disk_enc_def append_Cons append_Nil Disk_ok_def
    by (auto intro!: rejects_sub_yields[where x = "d_volumeIds d"] fifo_rejects[OF fifo] parcel_intros)
next
  case False
  then show ?thesis
    using rejects_strings[OF fifo]
    unfolding Disk_Unmarshalling_def Disk_enc_def append_Cons append_Nil
    by (auto intro!: rejects_sub fifo_rejects[OF fifo] parcel_intros)
qed

lemma Disk_writes:
  assumes fifo: "parcel_fifo ops cells" and n: "length (d_volumeIds x) < 2 ^ 32"
  shows "writes cells (Disk_Marshalling ops x) (Disk_enc x)"
  unfolding Disk_Marshalling_def Disk_enc_def uint32_size_exact[OF n] append_Cons append_Nil
  by (intro writes_chain[OF fifo_strings] fifo_writes_chain fifo parcel_intros)

lemma Disk_view_ctor:
  "Disk_view d = Disk_ctor0\<lparr>d_diskId := d_diskId d, d_sizeBytes := d_sizeBytes d, d_diskType := d_diskType d,
     d_removable := d_removable d, d_volumeIds := d_volumeIds d, d_extraInfo := d_extraInfo d,
     d_vendorId := d_vendorId d, d_productId := d_productId d, d_serialNumber := d_serialNumber d,
     d_busnum := d_busnum d, d_devAddress := d_devAddress d\<rparr>"
  by (cases d) (simp add: Disk_view_def Disk_ctor0_def UpdateRemovableFromDiskType_def)

interpretation dsk: parcelable Disk_Marshalling Disk_Unmarshalling Disk_enc Disk_ok Disk_view
proof unfold_locales
  fix ops :: "'p parcel_ops" and cells and x :: Disk
  assume fifo: "parcel_fifo ops cells" and ok: "Disk_ok x"
  show "writes cells (Disk_Marshalling ops x) (Disk_enc x)"
    using ok by (intro Disk_writes[OF fifo]) (simp add: Disk_ok_def DISK_VOLUME_IDS_PARCEL_MAX_def)
  show "yields cells (Disk_Unmarshalling ops) (Disk_enc x) (Disk_view x)"
    using ok yields_strings[OF fifo _ refl, of "d_volumeIds x"]
    unfolding Disk_Unmarshalling_def Disk_enc_def Disk_view_ctor append_Cons append_Nil Disk_ok_def
    by (auto intro!: yields_sub[where x = "d_volumeIds x"] fifo_yields[OF fifo] parcel_intros)
qed

interpretation edi: parcelable ExternalDiskInfo_Marshalling ExternalDiskInfo_Unmarshalling ExternalDiskInfo_enc
  ExternalDiskInfo_ok id
proof unfold_locales
  fix ops :: "'p parcel_ops" and cells and x :: ExternalDiskInfo
  assume fifo: "parcel_fifo ops cells" and ok: "ExternalDiskInfo_ok x"
  then have n: "uint32_size (ed_volumeIds x) = length (ed_volumeIds x)"
    by (simp add: uint32_size_small ExternalDiskInfo_ok_def DISK_VOLUME_IDS_PARCEL_MAX_def)
  show "writes cells (ExternalDiskInfo_Marshalling ops x) (ExternalDiskInfo_enc x)"
    unfolding ExternalDiskInfo_Marshalling_def ExternalDiskInfo_enc_def n append_Cons append_Nil
    by (intro writes_chain[OF fifo_strings] fifo_writes_chain fifo parcel_intros)
  show "yields cells (ExternalDiskInfo_Unmarshalling ops) (ExternalDiskInfo_enc x) (id x)"
    using ok yields_strings[OF fifo _ refl, of "ed_volumeIds x"]
    unfolding ExternalDiskInfo_Unmarshalling_def ExternalDiskInfo_enc_def append_Cons append_Nil ExternalDiskInfo_ok_def
    by (auto intro!: yields_sub[where x = "ed_volumeIds x"] fifo_yields[OF fifo] parcel_intros)
qed

interpretation ptab: parcelable PartitionTableInfo_Marshalling PartitionTableInfo_Unmarshalling PartitionTableInfo_enc
  PartitionTableInfo_ok PartitionTableInfo_view
proof unfold_locales
  fix ops :: "'p parcel_ops" and cells and x :: PartitionTableInfo
  assume fifo: "parcel_fifo ops cells" and ok: "PartitionTableInfo_ok x"
  then have n: "uint32_size (pt_partitions x) = length (pt_partitions x)"
    by (simp add: uint32_size_small PartitionTableInfo_ok_def PARTITION_COUNT_MAX_def)
  from ok have parts: "list_all PartitionInfo_ok (pt_partitions x)" by (simp add: PartitionTableInfo_ok_def)
  show "writes cells (PartitionTableInfo_Marshalling ops x) (PartitionTableInfo_enc x)"
    unfolding PartitionTableInfo_Marshalling_def PartitionTableInfo_enc_def n append_Cons append_Nil
    by (intro writes_chain[OF part.seq_writes] fifo_writes_chain fifo parts parcel_intros)
  have "yields cells (rd_times (length (pt_partitions x)) (PartitionInfo_Unmarshalling ops))
      (concat (map PartitionInfo_enc (pt_partitions x))) (pt_partitions x)"
    using part.seq_yields[OF fifo parts] by simp
  then show "yields cells (PartitionTableInfo_Unmarshalling ops) (PartitionTableInfo_enc x) (PartitionTableInfo_view x)"
    using ok unfolding PartitionTableInfo_Unmarshalling_def PartitionTableInfo_enc_def append_Cons append_Nil PartitionTableInfo_ok_def
    by (auto intro!: yields_sub[where x = "pt_partitions x"] fifo_yields[OF fifo] parcel_intros
        simp: PartitionTableInfo_view_def PartitionTableInfo_default_def simp del: append_Nil2)
qed

section \<open>Properties\<close>

text \<open>The parcel as a list of values: every write succeeds, a read of another type gives the zero value.\<close>

definition list_ops :: "cell list parcel_ops" where
  "list_ops = \<lparr>
     WriteInt32 = (\<lambda>i p. (True, p @ [CInt32 i])), WriteInt64 = (\<lambda>i p. (True, p @ [CInt64 i])),
     WriteUint32 = (\<lambda>n p. (True, p @ [CUint32 n])), WriteUint64 = (\<lambda>i p. (True, p @ [CUint64 i])),
     WriteBool = (\<lambda>b p. (True, p @ [CBool b])), WriteString = (\<lambda>s p. (True, p @ [CString s])),
     ReadInt32 = (\<lambda>p. case p of CInt32 i # cs \<Rightarrow> (i, cs) | _ \<Rightarrow> (0, p)),
     ReadInt64 = (\<lambda>p. case p of CInt64 i # cs \<Rightarrow> (i, cs) | _ \<Rightarrow> (0, p)),
     ReadUint32 = (\<lambda>p. case p of CUint32 i # cs \<Rightarrow> (i, cs) | _ \<Rightarrow> (0, p)),
     ReadUint64 = (\<lambda>p. case p of CUint64 i # cs \<Rightarrow> (i, cs) | _ \<Rightarrow> (0, p)),
     ReadBool = (\<lambda>p. case p of CBool i # cs \<Rightarrow> (i, cs) | _ \<Rightarrow> (False, p)),
     ReadString = (\<lambda>p. case p of CString i # cs \<Rightarrow> (i, cs) | _ \<Rightarrow> ([], p))\<rparr>"

lemma list_ops_fifo: "parcel_fifo list_ops id"
  by (simp add: parcel_fifo_def list_ops_def writes_def reads_def)

text \<open>
  C38: What becomes of a disk that was marshalled successfully (with fewer than $2^{32}$ volume identifiers, which is the
  range of the count). If its strings have at most 4096 characters and it has at most 256 volumes,
  unmarshalling returns the disk, with only the process-local fields (optical state, bus flag, device path and
  name, vendor, partition table type) reset, and consumes exactly what was written. Otherwise unmarshalling
  returns \<open>nullptr\<close> although marshalling reported success: the writer does not check the limits of the reader.
\<close>

theorem Disk_roundtrip:
  assumes "parcel_fifo ops cells" "length (d_volumeIds d) < 2 ^ 32" "cells p = []" "Disk_Marshalling ops d p = (True, p')"
  shows "if short (d_diskId d) \<and> short (d_extraInfo d) \<and> short (d_serialNumber d) \<and>
            list_all short (d_volumeIds d) \<and> length (d_volumeIds d) \<le> 256
    then \<exists>q. Disk_Unmarshalling ops p' = (Some (Disk_view d), q) \<and> cells q = []
    else fst (Disk_Unmarshalling ops p') = None"
proof -
  have "cells p' = Disk_enc d" using Disk_writes[OF assms(1,2)] assms(3,4) by (auto simp: writes_def)
  then have bad: "\<not> Disk_ok d \<Longrightarrow> fst (Disk_Unmarshalling ops p') = None"
    using Disk_rejects[OF assms(1), of d] by (simp add: rejects_def)
  have fits: "(short (d_diskId d) \<and> short (d_extraInfo d) \<and> short (d_serialNumber d) \<and>
      list_all short (d_volumeIds d) \<and> length (d_volumeIds d) \<le> 256) = Disk_ok d"
    unfolding Disk_ok_def DISK_VOLUME_IDS_PARCEL_MAX_def by blast
  show ?thesis unfolding fits
  proof (cases "Disk_ok d")
    case True
    from dsk.roundtrip[OF assms(1) True assms(3,4)] True
    show "if Disk_ok d then \<exists>q. Disk_Unmarshalling ops p' = (Some (Disk_view d), q) \<and> cells q = []
      else fst (Disk_Unmarshalling ops p') = None" by (simp only: if_True)
  qed (simp add: bad)
qed

definition sample_disk :: Disk where
  "sample_disk = (Disk_ctor ''disk-8-0'' 64000000000 ''sda'' (dt_code USB_FLAG))\<lparr>d_volumeIds := [''vol-8-1'', ''vol-8-2'']\<rparr>"

theorem Disk_roundtrip_witness:
  "(\<exists>q. Disk_Unmarshalling list_ops (snd (Disk_Marshalling list_ops sample_disk [])) = (Some (Disk_view sample_disk), q)
     \<and> id q = []) \<and>
   fst (Disk_Unmarshalling list_ops (snd (Disk_Marshalling list_ops
     (sample_disk\<lparr>d_volumeIds := replicate 257 ''vol-8-1''\<rparr>) []))) = None"
proof
  have m: "Disk_Marshalling list_ops d [] = (True, snd (Disk_Marshalling list_ops d []))" for d
  proof -
    have "fst (write_all ws q)" if "\<forall>w \<in> set ws. \<forall>q. fst (w q)" for ws :: "(cell list \<Rightarrow> bool \<times> cell list) list" and q
      using that by (induction ws arbitrary: q) (auto simp: write_all.simps split: prod.splits bool.splits, metis fst_conv)
    then have "fst (Disk_Marshalling list_ops d [])" unfolding Disk_Marshalling_def by (auto simp: list_ops_def)
    then show ?thesis by (simp add: prod_eq_iff)
  qed
  have ok: "short (d_diskId sample_disk) \<and> short (d_extraInfo sample_disk) \<and> short (d_serialNumber sample_disk) \<and>
      list_all short (d_volumeIds sample_disk) \<and> length (d_volumeIds sample_disk) \<le> 256" by code_simp
  show "\<exists>q. Disk_Unmarshalling list_ops (snd (Disk_Marshalling list_ops sample_disk [])) = (Some (Disk_view sample_disk), q) \<and> id q = []"
    using Disk_roundtrip[OF list_ops_fifo, of sample_disk "[]", OF _ _ m, unfolded if_P[OF ok]]
    by (simp add: sample_disk_def)
  show "fst (Disk_Unmarshalling list_ops (snd (Disk_Marshalling list_ops
     (sample_disk\<lparr>d_volumeIds := replicate 257 ''vol-8-1''\<rparr>) []))) = None"
    using Disk_roundtrip[OF list_ops_fifo, of "sample_disk\<lparr>d_volumeIds := replicate 257 ''vol-8-1''\<rparr>" "[]", OF _ _ m] by simp
qed

text \<open>
  A volume survives the trip through a parcel up to its process-local fields (error flag, user-data
  flag, unmount result, free size).
\<close>

theorem VolumeExternal_roundtrip:
  assumes "parcel_fifo ops cells" "VolumeCore_ok v" "cells p = []" "VolumeExternal_Marshalling ops v p = (True, p')"
  shows "\<exists>q. VolumeExternal_Unmarshalling ops p' = (Some (VolumeExternal_view v), q) \<and> cells q = []"
  using assms by (rule vext.roundtrip)

definition sample_volume :: VolumeExternal where
  "sample_volume = (VolumeExternal_ctor (VolumeCore_ctor3 ''vol-8-1'' VOLUME_TYPE_EXTERNAL ''disk-8-0''))
     \<lparr>ve_fsUuid := ''1A2B-3C4D'', ve_fsType := fs_code EXFAT, ve_freeSize := 42\<rparr>"

theorem VolumeExternal_roundtrip_witness:
  "\<exists>q. VolumeExternal_Unmarshalling list_ops (snd (VolumeExternal_Marshalling list_ops sample_volume []))
       = (Some (VolumeExternal_view sample_volume), q) \<and> id q = []"
proof -
  have "VolumeCore_ok sample_volume" by code_simp
  moreover have "fst (VolumeExternal_Marshalling list_ops sample_volume [])" by code_simp
  then have "VolumeExternal_Marshalling list_ops sample_volume []
      = (True, snd (VolumeExternal_Marshalling list_ops sample_volume []))"
    by (simp add: prod_eq_iff)
  ultimately show ?thesis using VolumeExternal_roundtrip[OF list_ops_fifo, of sample_volume "[]"] by simp
qed

text \<open>
  A partition table survives the trip through a parcel with all its partitions, except for its last
  usable sector, which is never written and arrives as zero.
\<close>

theorem PartitionTableInfo_roundtrip:
  assumes "parcel_fifo ops cells" "PartitionTableInfo_ok x" "cells p = []"
    and "PartitionTableInfo_Marshalling ops x p = (True, p')"
  shows "\<exists>q. PartitionTableInfo_Unmarshalling ops p' = (Some (x\<lparr>pt_lastUsableSector := 0\<rparr>), q) \<and> cells q = []"
  using ptab.roundtrip[OF assms] by (simp add: PartitionTableInfo_view_def)

definition sample_table :: PartitionTableInfo where
  "sample_table = PartitionTableInfo_default\<lparr>pt_diskId := ''disk-8-0'', pt_lastUsableSector := 2014,
     pt_partitions := [\<lparr>pi_partitionNum = 1, pi_diskId = ''disk-8-0'', pi_startSector = 34, pi_endSector = 2014,
       pi_sizeBytes = 1013760, pi_fsType = ''exfat''\<rparr>]\<rparr>"

theorem PartitionTableInfo_roundtrip_witness:
  "\<exists>q. PartitionTableInfo_Unmarshalling list_ops (snd (PartitionTableInfo_Marshalling list_ops sample_table []))
       = (Some (sample_table\<lparr>pt_lastUsableSector := 0\<rparr>), q) \<and> id q = []"
proof -
  have "PartitionTableInfo_ok sample_table" by code_simp
  moreover have "fst (PartitionTableInfo_Marshalling list_ops sample_table [])" by code_simp
  then have "PartitionTableInfo_Marshalling list_ops sample_table []
      = (True, snd (PartitionTableInfo_Marshalling list_ops sample_table []))"
    by (simp add: prod_eq_iff)
  ultimately show ?thesis using PartitionTableInfo_roundtrip[OF list_ops_fifo, of sample_table "[]"] by simp
qed

text \<open>
  Whatever bytes a peer sends, a disk accepted by the reader has at most 256 volume ids and no
  string above 4096 bytes: a hostile parcel cannot make the service hold an unbounded object.
\<close>

theorem Disk_Unmarshalling_bounded:
  assumes "Disk_Unmarshalling ops p = (Some d, q)"
  shows "Disk_ok d"
proof -
  have strs: "returns (rd_strings ops n) (\<lambda>xs. length xs = n \<and> list_all short xs)" for n
    unfolding rd_strings_def by (intro returns_times parcel_intros)
  have "returns (Disk_Unmarshalling ops) Disk_ok"
    unfolding Disk_Unmarshalling_def
    by (auto simp: Disk_ok_def intro!: parcel_intros returns_sub[OF strs])
  with assms show ?thesis unfolding returns_def by blast
qed

theorem Disk_Unmarshalling_bounded_witness:
  "Disk_ok (the (fst (Disk_Unmarshalling list_ops (Disk_enc sample_disk))))"
proof -
  have "fst (Disk_Unmarshalling list_ops (Disk_enc sample_disk)) \<noteq> None" by code_simp
  then show ?thesis
    using Disk_Unmarshalling_bounded[of list_ops "Disk_enc sample_disk"] by (metis option.collapse prod.collapse)
qed

end
