(* ===== verification/Dm_PartTable.thy ===== *)
theory Dm_PartTable
  imports Dm_Text
begin

text \<open>
  The partition table parser of \<^verbatim>\<open>services/disk_manager/src/disk/partition_table_parser.cpp\<close>. It reads
  the text the storage daemon returns for a disk: one \<open>DISK <table>\<close> line and one \<open>PART <n> [<type>]\<close> line
  per partition. Proved: what every returned record satisfies, for any input text, and that a printed
  table is read back exactly.
\<close>

section \<open>Definitions\<close>

record PartitionRecord =
  pr_diskId :: string
  pr_partitionNumber :: nat
  pr_startSector :: nat
  pr_endSector :: nat
  pr_sizeBytes :: nat
  pr_partitionType :: string
  pr_fsTypeRaw :: string

definition PartitionRecord_default :: PartitionRecord where
  "PartitionRecord_default = \<lparr>pr_diskId = [], pr_partitionNumber = 0, pr_startSector = 0, pr_endSector = 0,
     pr_sizeBytes = 0, pr_partitionType = [], pr_fsTypeRaw = []\<rparr>"

definition is_blank :: "char \<Rightarrow> bool" where
  "is_blank c \<longleftrightarrow> c = CHR '' '' \<or> c = CHR 0x09 \<or> c = CHR 0x0D"

definition Trim :: "string \<Rightarrow> string" where
  "Trim s = rev (dropWhile is_blank (rev (dropWhile is_blank s)))"

definition IsMbrTypeSupportedForVolume :: "string \<Rightarrow> bool" where
  "IsMbrTypeSupportedForVolume mbrTypeHex =
     (let h = (if 2 \<le> length mbrTypeHex \<and> mbrTypeHex ! 0 = CHR ''0''
                  \<and> (mbrTypeHex ! 1 = CHR ''x'' \<or> mbrTypeHex ! 1 = CHR ''X'')
               then drop 2 mbrTypeHex else mbrTypeHex)
      in st_val (strtoul 16 h) \<in> {0x06, 0x07, 0x0b, 0x0c, 0x0e, 0x1b, 0x83})"

text \<open>
  One iteration of the loop over the lines: \<open>table\<close> is the local variable, \<open>tableTypeOut\<close> and \<open>partsOut\<close>
  are the output parameters.
\<close>

type_synonym parse_state = "string \<times> string \<times> PartitionRecord list"

definition parse_line :: "string \<Rightarrow> string \<Rightarrow> parse_state \<Rightarrow> parse_state" where
  "parse_line diskId rawLine st =
     (case st of (table, tableTypeOut, partsOut) \<Rightarrow>
      let line = Trim rawLine; tok = split_ws line in
      if line = [] then st
      else if tok = [] then st
      else if tok ! 0 = ''DISK'' \<and> 2 \<le> length tok
      then (str_tolower (tok ! 1), str_tolower (tok ! 1), partsOut)
      else if tok ! 0 \<noteq> ''PART'' \<or> length tok < 2 then st
      else
        let partNum = nat (st_val (strtoul 10 (tok ! 1)) mod 2 ^ 32) in
        if partNum < 1 then st
        else
          let rec = PartitionRecord_default\<lparr>pr_diskId := diskId, pr_partitionNumber := partNum\<rparr> in
          if table = ''mbr'' \<and> 3 \<le> length tok
          then if \<not> IsMbrTypeSupportedForVolume (tok ! 2) then st
               else (table, tableTypeOut, partsOut @ [rec\<lparr>pr_partitionType := ''mbr'', pr_fsTypeRaw := tok ! 2\<rparr>])
          else if table = ''gpt''
          then (table, tableTypeOut, partsOut @ [rec\<lparr>pr_partitionType := ''gpt''\<rparr>])
          else st)"

definition ParseSgdiskDump :: "string \<Rightarrow> string \<Rightarrow> bool \<times> string \<times> PartitionRecord list" where
  "ParseSgdiskDump rawDump diskId =
     (case fold (parse_line diskId) (getlines rawDump) ([], [], []) of
        (table, tableTypeOut, partsOut) \<Rightarrow> (tableTypeOut \<noteq> [], tableTypeOut, partsOut))"

section \<open>What a record satisfies\<close>

definition record_ok :: "string \<Rightarrow> PartitionRecord \<Rightarrow> bool" where
  "record_ok diskId r \<longleftrightarrow>
     pr_diskId r = diskId \<and> 1 \<le> pr_partitionNumber r \<and> int (pr_partitionNumber r) < 2 ^ 32
   \<and> (pr_partitionType r = ''gpt'' \<and> pr_fsTypeRaw r = []
      \<or> pr_partitionType r = ''mbr'' \<and> IsMbrTypeSupportedForVolume (pr_fsTypeRaw r))"

definition parse_inv :: "string \<Rightarrow> parse_state \<Rightarrow> bool" where
  "parse_inv diskId st \<longleftrightarrow>
     (case st of (table, out, parts) \<Rightarrow>
        out = table \<and> list_all (record_ok diskId) parts \<and> (table = [] \<longrightarrow> parts = []) \<and> str_tolower table = table)"

lemma parse_line_inv:
  assumes "parse_inv diskId st"
  shows "parse_inv diskId (parse_line diskId l st)"
proof -
  obtain table out parts where st: "st = (table, out, parts)" by (cases st) auto
  have num: "int (nat (z mod 2 ^ 32)) < 2 ^ 32" for z :: int by simp
  have nonempty: "str_tolower (split_ws (Trim l) ! 1) \<noteq> []" if "2 \<le> length (split_ws (Trim l))"
    using split_ws_token[of "split_ws (Trim l) ! 1" "Trim l"] that by (simp add: str_tolower_def)
  show ?thesis using assms st nonempty num
    by (auto simp: parse_inv_def parse_line_def record_ok_def PartitionRecord_default_def Let_def)
qed



text \<open>
  For every text the daemon may return, each partition record carries the requested disk id, a
  partition number from 1 to \<open>2^32 - 1\<close>, and either the GPT tag or the MBR tag with a whitelisted type
  byte; the reported table type is lower case; and a failed parse reports no partition.
\<close>

theorem ParseSgdiskDump_sound:
  assumes "ParseSgdiskDump dump diskId = (ok, table, parts)"
  shows "list_all (record_ok diskId) parts \<and> str_tolower table = table \<and> (ok \<longleftrightarrow> table \<noteq> []) \<and> (\<not> ok \<longrightarrow> parts = [])"
proof -
  have "parse_inv diskId (fold (parse_line diskId) (getlines dump) ([], [], []))"
  proof (rule fold_inv)
    show "parse_inv diskId ([], [], [])" by (simp add: parse_inv_def str_tolower_def)
  qed (rule parse_line_inv)
  with assms show ?thesis by (auto simp: ParseSgdiskDump_def parse_inv_def split: prod.splits)
qed

section \<open>Reading back a printed table\<close>

definition print_gpt :: "nat list \<Rightarrow> string" where
  "print_gpt ns = ''DISK gpt'' @ [NL] @ concat (map (\<lambda>n. ''PART '' @ to_string n @ [NL]) ns)"

definition gpt_record :: "string \<Rightarrow> nat \<Rightarrow> PartitionRecord" where
  "gpt_record diskId n = PartitionRecord_default\<lparr>pr_diskId := diskId, pr_partitionNumber := n, pr_partitionType := ''gpt''\<rparr>"

lemma span_no_space:
  assumes "\<forall>c \<in> set t. \<not> P c"
  shows "takeWhile (\<lambda>c. \<not> P c) (t @ r) = t @ takeWhile (\<lambda>c. \<not> P c) r"
    and "dropWhile (\<lambda>c. \<not> P c) (t @ r) = dropWhile (\<lambda>c. \<not> P c) r"
  using assms by (auto simp: takeWhile_append dropWhile_append)

lemma split_ws_Cons:
  assumes "t \<noteq> []" "\<forall>c \<in> set t. \<not> c_isspace c"
  shows "split_ws (t @ CHR '' '' # r) = t # split_ws r" and "split_ws t = [t]"
proof -
  have sp: "c_isspace (CHR '' '')" by (simp add: c_isspace_def)
  obtain d ds where t: "t = d # ds" using assms(1) by (cases t) auto
  have drop: "dropWhile c_isspace (t @ x) = t @ x" for x using assms(2) t by simp
  have "split_ws (t @ CHR '' '' # r) = t # split_ws (CHR '' '' # r)"
    using assms sp by (subst split_ws.simps) (simp add: drop span_no_space)
  also have "split_ws (CHR '' '' # r) = split_ws r"
    by (subst (1 2) split_ws.simps) (simp add: sp)
  finally show "split_ws (t @ CHR '' '' # r) = t # split_ws r" .
  have "dropWhile (\<lambda>c. \<not> c_isspace c) t = []" using assms(2) by (induction t) auto
  moreover have "takeWhile (\<lambda>c. \<not> c_isspace c) t = t" using assms(2) by (induction t) auto
  moreover have "split_ws t = takeWhile (\<lambda>c. \<not> c_isspace c) t # split_ws (dropWhile (\<lambda>c. \<not> c_isspace c) t)"
    using assms(1) drop[of "[]"] by (subst split_ws.simps) simp
  ultimately show "split_ws t = [t]" by (simp add: split_ws.simps[of "[]"] del: dropWhile_eq_Nil_conv)
qed

lemma Trim_id:
  assumes "s = [] \<or> (\<not> is_blank (hd s) \<and> \<not> is_blank (last s))"
  shows "Trim s = s"
proof (cases s)
  case (Cons c cs)
  then have "dropWhile is_blank s = s" using assms by simp
  moreover have "dropWhile is_blank (rev s) = rev s"
    using assms Cons by (cases "rev s") (auto simp: hd_rev[symmetric] simp del: hd_rev)
  ultimately show ?thesis by (simp add: Trim_def)
qed (simp add: Trim_def)

lemma digit_not_blank: "c_isdigit c \<Longrightarrow> \<not> is_blank c"
  by (auto simp: c_isdigit_def is_blank_def)

lemma part_line:
  "Trim (''PART '' @ to_string n) = ''PART '' @ to_string n"
  "split_ws (''PART '' @ to_string n) = [''PART'', to_string n]"
proof -
  have "last (''PART '' @ to_string n) = last (to_string n)" by simp
  moreover have "c_isdigit (last (to_string n))" by (meson last_in_set to_string_digits to_string_not_Nil)
  ultimately show "Trim (''PART '' @ to_string n) = ''PART '' @ to_string n"
    using digit_not_blank by (intro Trim_id) (auto simp: is_blank_def)
  have "split_ws (''PART'' @ CHR '' '' # to_string n) = ''PART'' # split_ws (to_string n)"
    by (rule split_ws_Cons) (auto simp: c_isspace_def)
  moreover have "split_ws (to_string n) = [to_string n]"
    by (rule split_ws_Cons) (auto dest: c_isdigit_not_space)
  ultimately show "split_ws (''PART '' @ to_string n) = [''PART'', to_string n]" by simp
qed

lemma parse_part_line:
  assumes "1 \<le> n" "n < 2 ^ 32"
  shows "parse_line diskId (''PART '' @ to_string n) (''gpt'', out, parts) = (''gpt'', out, parts @ [gpt_record diskId n])"
proof -
  have "int n \<le> ULONG_MAX" using assms by (simp add: ULONG_MAX_def)
  then have "st_val (strtoul 10 (to_string n)) = int n" by (simp add: strtoul_to_string)
  moreover have "nat (int n mod 2 ^ 32) = n" using assms by simp
  ultimately show ?thesis using assms part_line[of n]
    by (simp add: parse_line_def gpt_record_def)
qed

lemma parse_part_lines:
  "list_all (\<lambda>n. 1 \<le> n \<and> n < 2 ^ 32) ns \<Longrightarrow>
     fold (parse_line diskId) (getlines (concat (map (\<lambda>n. ''PART '' @ to_string n @ [NL]) ns))) (''gpt'', out, parts)
     = (''gpt'', out, parts @ map (gpt_record diskId) ns)"
proof (induction ns arbitrary: parts)
  case (Cons n ns)
  have "NL \<notin> set (''PART '' @ to_string n)" by (auto dest: c_isdigit_not_special)
  then have "getlines (concat (map (\<lambda>n. ''PART '' @ to_string n @ [NL]) (n # ns)))
      = (''PART '' @ to_string n) # getlines (concat (map (\<lambda>n. ''PART '' @ to_string n @ [NL]) ns))"
    using getlines_append[of "''PART '' @ to_string n"] by simp
  with Cons show ?case by (simp add: parse_part_line del: append_Cons append_Nil)
qed simp

text \<open>
  A printed GPT table is read back exactly: the table type and every partition number, in order.
\<close>

theorem ParseSgdiskDump_print:
  assumes "list_all (\<lambda>n. 1 \<le> n \<and> n < 2 ^ 32) ns"
  shows "ParseSgdiskDump (print_gpt ns) diskId = (True, ''gpt'', map (gpt_record diskId) ns)"
proof -
  have "parse_line diskId ''DISK gpt'' ([], [], []) = (''gpt'', ''gpt'', [])" by code_simp
  moreover have "getlines (print_gpt ns) = ''DISK gpt'' # getlines (concat (map (\<lambda>n. ''PART '' @ to_string n @ [NL]) ns))"
    using getlines_append[of "''DISK gpt''"] by (simp add: print_gpt_def)
  ultimately show ?thesis
    using parse_part_lines[OF assms, of diskId "''gpt''" "[]"] by (simp add: ParseSgdiskDump_def)
qed

theorem ParseSgdiskDump_print_witness:
  "ParseSgdiskDump (print_gpt [1, 5]) ''disk-8-0'' = (True, ''gpt'', [gpt_record ''disk-8-0'' 1, gpt_record ''disk-8-0'' 5])"
  using ParseSgdiskDump_print[of "[1, 5]" "''disk-8-0''"] by simp

theorem ParseSgdiskDump_sound_witness:
  "list_all (record_ok ''disk-8-0'') (snd (snd (ParseSgdiskDump (''DISK MBR'' @ [NL] @ ''PART 1 0b'' @ [NL] @ ''PART 2 ef'') ''disk-8-0'')))
   \<and> length (snd (snd (ParseSgdiskDump (''DISK MBR'' @ [NL] @ ''PART 1 0b'' @ [NL] @ ''PART 2 ef'') ''disk-8-0''))) = 1"
proof -
  let ?r = "ParseSgdiskDump (''DISK MBR'' @ [NL] @ ''PART 1 0b'' @ [NL] @ ''PART 2 ef'') ''disk-8-0''"
  have "length (snd (snd ?r)) = 1" by code_simp
  moreover have "?r = (fst ?r, fst (snd ?r), snd (snd ?r))" by simp
  ultimately show ?thesis using ParseSgdiskDump_sound by blast
qed

end
