(* ===== verification/Dm_UeventEnv.thy ===== *)
theory Dm_UeventEnv
  imports Dm_Text
begin

text \<open>
  The uevent text parser of \<^verbatim>\<open>services/disk_manager/src/disk/uevent_env_parser.cpp\<close>: lines
  \<open>KEY=value\<close>, the key lower-cased and dispatched by its 32-bit FNV-1a hash. Proved: the hash separates
  the eight known keys, so that the dispatch is the one by name on them; a printed event is read back;
  and what an unknown key that collides with a known one does.
\<close>

unbundle bit_operations_syntax

section \<open>Definitions\<close>

record UeventEnv =
  ue_action :: string
  ue_subsystem :: string
  ue_devType :: string
  ue_major :: nat
  ue_minor :: nat
  ue_devPath :: string
  ue_sysPath :: string
  ue_devName :: string
  ue_ejectRequest :: bool

definition UeventEnv_default :: UeventEnv where
  "UeventEnv_default = \<lparr>ue_action = [], ue_subsystem = [], ue_devType = [], ue_major = 0, ue_minor = 0,
     ue_devPath = [], ue_sysPath = [], ue_devName = [], ue_ejectRequest = False\<rparr>"

definition KeyHash :: "string \<Rightarrow> 32 word" where
  "KeyHash sv = foldl (\<lambda>h c. (h XOR of_char c) * 16777619) 2166136261 sv"

definition IsBlockDiskEvent :: "UeventEnv \<Rightarrow> bool" where
  "IsBlockDiskEvent e \<longleftrightarrow> ue_subsystem e = ''block'' \<and> ue_devType e = ''disk''"

definition uint_of_strtoul :: "string \<Rightarrow> nat" where
  "uint_of_strtoul val = nat (st_val (strtoul 10 val) mod 2 ^ 32)"

definition ApplyEnvValue :: "UeventEnv \<Rightarrow> 32 word \<Rightarrow> string \<Rightarrow> UeventEnv" where
  "ApplyEnvValue e keyHash val =
     (if keyHash = KeyHash ''action'' then e\<lparr>ue_action := str_tolower val\<rparr>
      else if keyHash = KeyHash ''subsystem'' then e\<lparr>ue_subsystem := str_tolower val\<rparr>
      else if keyHash = KeyHash ''devtype'' then e\<lparr>ue_devType := str_tolower val\<rparr>
      else if keyHash = KeyHash ''major'' then e\<lparr>ue_major := uint_of_strtoul val\<rparr>
      else if keyHash = KeyHash ''minor'' then e\<lparr>ue_minor := uint_of_strtoul val\<rparr>
      else if keyHash = KeyHash ''devpath'' then e\<lparr>ue_devPath := val, ue_sysPath := ''/sys'' @ val\<rparr>
      else if keyHash = KeyHash ''devname'' then e\<lparr>ue_devName := val\<rparr>
      else if keyHash = KeyHash ''disk_eject_request'' then e\<lparr>ue_ejectRequest := (val = ''1'')\<rparr>
      else e)"

definition env_line :: "string \<Rightarrow> UeventEnv \<Rightarrow> UeventEnv" where
  "env_line line e =
     (case str_find line ''='' of
        None \<Rightarrow> e
      | Some pos \<Rightarrow> ApplyEnvValue e (KeyHash (str_tolower (take pos line))) (drop (pos + 1) line))"

definition UeventEnv_Parse :: "string \<Rightarrow> bool \<times> UeventEnv" where
  "UeventEnv_Parse raw =
     (let e = fold env_line (getlines raw) UeventEnv_default in
      (\<not> (ue_action e = [] \<or> ue_subsystem e = [] \<or> ue_devType e = []), e))"

section \<open>The hash separates the keys\<close>

definition known_keys :: "string list" where
  "known_keys = [''action'', ''subsystem'', ''devtype'', ''major'', ''minor'', ''devpath'', ''devname'', ''disk_eject_request'']"

lemma KeyHash_values:
  "KeyHash ''action'' = 0xc4642eff" "KeyHash ''subsystem'' = 0xfedbb0ec" "KeyHash ''devtype'' = 0xcc077054"
  "KeyHash ''major'' = 0x473ec6e2" "KeyHash ''minor'' = 0xff3062ae" "KeyHash ''devpath'' = 0x1ad731db"
  "KeyHash ''devname'' = 0x9b8a0eb7" "KeyHash ''disk_eject_request'' = 0x73f059b8"
  by (simp_all add: KeyHash_def)

lemma ApplyEnvValue_simps:
  "ApplyEnvValue e (KeyHash ''action'') val = e\<lparr>ue_action := str_tolower val\<rparr>"
  "ApplyEnvValue e (KeyHash ''subsystem'') val = e\<lparr>ue_subsystem := str_tolower val\<rparr>"
  "ApplyEnvValue e (KeyHash ''devtype'') val = e\<lparr>ue_devType := str_tolower val\<rparr>"
  "ApplyEnvValue e (KeyHash ''major'') val = e\<lparr>ue_major := uint_of_strtoul val\<rparr>"
  "ApplyEnvValue e (KeyHash ''minor'') val = e\<lparr>ue_minor := uint_of_strtoul val\<rparr>"
  "ApplyEnvValue e (KeyHash ''devpath'') val = e\<lparr>ue_devPath := val, ue_sysPath := ''/sys'' @ val\<rparr>"
  "ApplyEnvValue e (KeyHash ''devname'') val = e\<lparr>ue_devName := val\<rparr>"
  "ApplyEnvValue e (KeyHash ''disk_eject_request'') val = e\<lparr>ue_ejectRequest := (val = ''1'')\<rparr>"
  unfolding ApplyEnvValue_def by (simp_all only: KeyHash_values) simp_all

section \<open>Reading back a printed event\<close>

definition print_env :: "UeventEnv \<Rightarrow> string" where
  "print_env e = concat (map (\<lambda>(k, v). k @ ''='' @ v @ [NL])
     [(''ACTION'', ue_action e), (''DEVPATH'', ue_devPath e), (''SUBSYSTEM'', ue_subsystem e),
      (''MAJOR'', to_string (ue_major e)), (''MINOR'', to_string (ue_minor e)), (''DEVNAME'', ue_devName e),
      (''DEVTYPE'', ue_devType e), (''DISK_EJECT_REQUEST'', if ue_ejectRequest e then ''1'' else ''0'')])"

definition env_ok :: "UeventEnv \<Rightarrow> bool" where
  "env_ok e \<longleftrightarrow>
     ue_action e \<noteq> [] \<and> ue_subsystem e \<noteq> [] \<and> ue_devType e \<noteq> []
   \<and> str_tolower (ue_action e) = ue_action e \<and> str_tolower (ue_subsystem e) = ue_subsystem e
   \<and> str_tolower (ue_devType e) = ue_devType e
   \<and> NL \<notin> set (ue_action e) \<union> set (ue_subsystem e) \<union> set (ue_devType e) \<union> set (ue_devPath e) \<union> set (ue_devName e)
   \<and> int (ue_major e) < 2 ^ 32 \<and> int (ue_minor e) < 2 ^ 32 \<and> ue_sysPath e = ''/sys'' @ ue_devPath e"

definition env_entries :: "(string \<times> string) list \<Rightarrow> UeventEnv \<Rightarrow> UeventEnv" where
  "env_entries kvs = fold (\<lambda>(k, v) e. ApplyEnvValue e (KeyHash (str_tolower k)) v) kvs"

lemma env_line_entry:
  "CHR ''='' \<notin> set k \<Longrightarrow> env_line (k @ ''='' @ v) e = ApplyEnvValue e (KeyHash (str_tolower k)) v"
  by (simp add: env_line_def str_find_char_append)

lemma fold_env_lines:
  assumes "list_all (\<lambda>(k, v). CHR ''='' \<notin> set k \<and> NL \<notin> set k \<and> NL \<notin> set v) kvs"
  shows "fold env_line (getlines (concat (map (\<lambda>(k, v). k @ ''='' @ v @ [NL]) kvs))) e = env_entries kvs e"
  using assms
proof (induction kvs arbitrary: e)
  case (Cons kv kvs)
  obtain k v where kv: "kv = (k, v)" by fastforce
  with Cons.prems have "NL \<notin> set (k @ ''='' @ v)" by simp
  from getlines_append[OF this] Cons kv show ?case
    by (simp add: env_line_entry env_entries_def del: append_Cons append_Nil)
      (simp add: env_line_entry[simplified])
qed (simp add: env_entries_def)

lemma uint_of_strtoul_print: "int n < 2 ^ 32 \<Longrightarrow> uint_of_strtoul (to_string n) = n"
  by (simp add: uint_of_strtoul_def strtoul_to_string ULONG_MAX_def)

lemma lower_keys:
  "str_tolower ''ACTION'' = ''action''" "str_tolower ''DEVPATH'' = ''devpath''" "str_tolower ''SUBSYSTEM'' = ''subsystem''"
  "str_tolower ''MAJOR'' = ''major''" "str_tolower ''MINOR'' = ''minor''" "str_tolower ''DEVNAME'' = ''devname''"
  "str_tolower ''DEVTYPE'' = ''devtype''" "str_tolower ''DISK_EJECT_REQUEST'' = ''disk_eject_request''"
  by code_simp+

text \<open>
  A uevent in the kernel's \<open>KEY=value\<close> format is read back field by field: the parser accepts it and
  returns the event that was printed.
\<close>

theorem UeventEnv_Parse_print:
  assumes "env_ok e"
  shows "UeventEnv_Parse (print_env e) = (True, e)"
proof -
  let ?kvs = "[(''ACTION'', ue_action e), (''DEVPATH'', ue_devPath e), (''SUBSYSTEM'', ue_subsystem e),
      (''MAJOR'', to_string (ue_major e)), (''MINOR'', to_string (ue_minor e)), (''DEVNAME'', ue_devName e),
      (''DEVTYPE'', ue_devType e), (''DISK_EJECT_REQUEST'', if ue_ejectRequest e then ''1'' else ''0'')]"
  have "list_all (\<lambda>(k, v). CHR ''='' \<notin> set k \<and> NL \<notin> set k \<and> NL \<notin> set v) ?kvs"
    using assms by (auto simp: env_ok_def dest: c_isdigit_not_special)
  then have "fold env_line (getlines (print_env e)) UeventEnv_default = env_entries ?kvs UeventEnv_default"
    unfolding print_env_def by (rule fold_env_lines)
  also have "\<dots> = e"
    using assms by (cases e) (simp add: env_entries_def lower_keys ApplyEnvValue_simps env_ok_def
        uint_of_strtoul_print UeventEnv_default_def)
  finally show ?thesis using assms by (simp add: UeventEnv_Parse_def env_ok_def)
qed

definition sample_env :: UeventEnv where
  "sample_env = \<lparr>ue_action = ''add'', ue_subsystem = ''block'', ue_devType = ''disk'', ue_major = 8, ue_minor = 16,
     ue_devPath = ''/devices/usb1/block/sdb'', ue_sysPath = ''/sys/devices/usb1/block/sdb'', ue_devName = ''sdb'',
     ue_ejectRequest = False\<rparr>"

theorem UeventEnv_Parse_print_witness: "UeventEnv_Parse (print_env sample_env) = (True, sample_env)"
proof -
  have "env_ok sample_env" by code_simp
  then show ?thesis by (rule UeventEnv_Parse_print)
qed

text \<open>
  The eight known keys have different hashes, so the dispatch on the hash is the dispatch on the name for
  them; but the hash is not compared with the name, and the unrelated key \<open>celurhe\<close> sets the action.
\<close>

theorem KeyHash_keys:
  "distinct (map KeyHash known_keys) \<and> ''celurhe'' \<notin> set known_keys
   \<and> env_line ''celurhe=REMOVE'' UeventEnv_default = UeventEnv_default\<lparr>ue_action := ''remove''\<rparr>"
proof -
  have collision: "KeyHash ''celurhe'' = KeyHash ''action''" by (simp add: KeyHash_def)
  have "env_line ''celurhe=REMOVE'' UeventEnv_default
      = ApplyEnvValue UeventEnv_default (KeyHash (str_tolower ''celurhe'')) ''REMOVE''"
    using env_line_entry[of "''celurhe''" "''REMOVE''"] by simp
  also have "str_tolower ''celurhe'' = ''celurhe''" by code_simp
  also have "ApplyEnvValue UeventEnv_default (KeyHash ''celurhe'') ''REMOVE'' = UeventEnv_default\<lparr>ue_action := str_tolower ''REMOVE''\<rparr>"
    unfolding collision by (rule ApplyEnvValue_simps)
  also have "str_tolower ''REMOVE'' = ''remove''" by code_simp
  finally show ?thesis by (simp add: known_keys_def KeyHash_values)
qed

end
