(* ===== verification/Dm_VoldataStore.thy ===== *)
theory Dm_VoldataStore
  imports Dm_Utils "HOL-Library.Multiset" "HOL-Library.Countable"
begin

text \<open>
  The persistent map from file-system UUIDs to the mount slots \<open>/mnt/data/voldata/data<n>\<close>
  (\<^verbatim>\<open>services/disk_manager/src/db/voldata_uuid_store.cpp\<close>). The state is the in-memory map, the
  initialisation flag and the files; \<open>hist\<close> records every state the file system went through, so that a
  crash at any moment can be expressed. Parameters (\<open>store_env\<close>): the success of each file operation, what a
  failed write leaves behind, the iteration order the standard library gives an unordered map after an
  insertion, and the JSON library. Proved: the slot search returns the least free slot; failed operations
  roll back; the two files always hold a complete document; and, over every sequence of operations,
  failures and crashes, no two UUIDs share a mount path.
\<close>

section \<open>Unordered maps\<close>

text \<open>
  \<open>std::unordered_map\<close> as the list of its entries in iteration order. An insertion may rearrange the
  whole table: \<open>um_arrange ps xs\<close> places the entries one after the other at the positions \<open>ps\<close>, which reaches
  every order.
\<close>

type_synonym ('k, 'v) umap = "('k \<times> 'v) list"

fun um_arrange :: "nat list \<Rightarrow> 'a list \<Rightarrow> 'a list" where
  "um_arrange ps [] = []"
| "um_arrange ps (x # xs) =
     (let ys = um_arrange (tl ps) xs; n = (if ps = [] then 0 else hd ps) in take n ys @ x # drop n ys)"

definition um_put :: "(('k \<times> 'v) list \<Rightarrow> nat list) \<Rightarrow> 'k \<Rightarrow> 'v \<Rightarrow> ('k, 'v) umap \<Rightarrow> ('k, 'v) umap" where
  "um_put layout k v m =
     (if k \<in> fst ` set m then map (\<lambda>(a, b). (a, if a = k then v else b)) m
      else um_arrange (layout (m @ [(k, v)])) (m @ [(k, v)]))"

definition um_erase :: "'k \<Rightarrow> ('k, 'v) umap \<Rightarrow> ('k, 'v) umap" where
  "um_erase k m = filter (\<lambda>(a, b). a \<noteq> k) m"

abbreviation um_wf :: "('k, 'v) umap \<Rightarrow> bool" where "um_wf m \<equiv> distinct (map fst m)"

lemma mset_um_arrange [simp]: "mset (um_arrange ps xs) = mset xs"
proof (induction ps xs rule: um_arrange.induct)
  case (2 ps x xs)
  let ?n = "if ps = [] then 0 else hd ps" and ?ys = "um_arrange (tl ps) xs"
  have "mset (take ?n ?ys) + mset (drop ?n ?ys) = mset ?ys"
    by (metis append_take_drop_id mset_append)
  with 2 show ?case by (simp add: Let_def)
qed simp

lemma set_um_arrange [simp]: "set (um_arrange ps xs) = set xs"
  by (metis mset_um_arrange set_mset_mset)

lemma um_wf_arrange [simp]: "um_wf (um_arrange ps xs) = um_wf xs"
proof -
  have "mset (map fst (um_arrange ps xs)) = mset (map fst xs)" by simp
  then show ?thesis by (metis mset_eq_imp_distinct_iff)
qed

lemma map_of_mset: "um_wf xs \<Longrightarrow> mset xs = mset ys \<Longrightarrow> map_of xs = map_of ys"
  by (metis map_of_inject_set mset_eq_imp_distinct_iff mset_eq_setD mset_map)

lemma um_wf_put: "um_wf m \<Longrightarrow> um_wf (um_put layout k v m)"
  by (auto simp: um_put_def comp_def split_def)

lemma um_get_map:
  assumes "k \<in> fst ` set m"
  shows "map_of (map (\<lambda>(a, b). (a, if a = k then v else b)) m) x = (if x = k then Some v else map_of m x)"
proof (cases "x = k")
  case True
  have "map_of (map (\<lambda>(a, b). (a, if a = k then v else b)) m) k = map_option (\<lambda>b. v) (map_of m k)"
    by (induction m) auto
  with True assms show ?thesis by (cases "map_of m k") (simp_all add: map_of_eq_None_iff)
next
  case False
  have "map_of (map (\<lambda>(a, b). (a, if a = k then v else b)) m) x = map_of m x"
    using False by (induction m) auto
  with False show ?thesis by simp
qed

lemma um_get_put:
  assumes "um_wf m"
  shows "map_of (um_put layout k v m) x = (if x = k then Some v else map_of m x)"
proof (cases "k \<in> fst ` set m")
  case True
  then show ?thesis by (simp add: um_put_def um_get_map)
next
  case False
  with assms have "um_wf (m @ [(k, v)])" by simp
  then have "map_of (um_arrange (layout (m @ [(k, v)])) (m @ [(k, v)])) = map_of (m @ [(k, v)])"
    by (intro map_of_mset) simp_all
  moreover have "map_of m k = None" using False by (simp add: map_of_eq_None_iff)
  then have "map_of (m @ [(k, v)]) x = (if x = k then Some v else map_of m x)"
    by (auto simp: map_add_def split: option.splits)
  ultimately show ?thesis using False by (simp add: um_put_def)
qed

lemma um_get_erase: "map_of (um_erase k m) x = (if x = k then None else map_of m x)"
  by (induction m) (auto simp: um_erase_def)

lemma um_wf_erase: "um_wf m \<Longrightarrow> um_wf (um_erase k m)"
  by (simp add: um_erase_def distinct_map_filter)

lemma um_set_put:
  assumes "um_wf m"
  shows "set (um_put layout k v m) = insert (k, v) {x \<in> set m. fst x \<noteq> k}"
proof -
  have "p \<in> set (um_put layout k v m) \<longleftrightarrow> p \<in> insert (k, v) {x \<in> set m. fst x \<noteq> k}" for p
  proof -
    have "p \<in> set (um_put layout k v m) \<longleftrightarrow> map_of (um_put layout k v m) (fst p) = Some (snd p)"
      using um_wf_put[OF assms] by (metis map_of_eq_Some_iff prod.collapse)
    also have "\<dots> \<longleftrightarrow> p \<in> insert (k, v) {x \<in> set m. fst x \<noteq> k}"
      using assms by (cases p) (auto simp: um_get_put)
    finally show ?thesis .
  qed
  then show ?thesis by blast
qed

lemma um_length_put: "k \<notin> fst ` set m \<Longrightarrow> length (um_put layout k v m) = Suc (length m)"
  by (simp add: um_put_def) (metis mset_um_arrange size_mset length_append_singleton)

lemma um_length_put_le: "length (um_put layout k v m) \<le> Suc (length m)"
  by (cases "k \<in> fst ` set m") (simp_all add: um_length_put, simp add: um_put_def)

interpretation um: dictionary "map_of" "um_put layout" um_erase "[]" um_wf for layout
  by unfold_locales (simp_all add: um_get_put um_get_erase um_wf_put um_wf_erase)

section \<open>Definitions\<close>

subsection \<open>Entries and JSON\<close>

text \<open>
  A JSON document. An integer is \<open>JNum\<close>, a number with a fraction or an exponent keeps its text, and the
  members of an object are in the order of their keys, as \<open>nlohmann::json\<close> keeps them.
\<close>

datatype json =
    JNull | JBool bool | JNum int | JFloat string | JString string | JArray "json list"
  | JObject "(string \<times> json) list"

record VoldataUuidEntry =
  vu_fsUuid :: string
  vu_mountPath :: string
  vu_slotIndex :: nat

definition VOLDATA_MOUNT_PREFIX :: string where "VOLDATA_MOUNT_PREFIX = ''/mnt/data/voldata/data''"

definition MAX_VOLDATA_SLOT_COUNT :: nat where "MAX_VOLDATA_SLOT_COUNT = 1000"

definition ParseVoldataSlotFromMountPath :: "string \<Rightarrow> nat option" where
  "ParseVoldataSlotFromMountPath mountPath =
     (let n = length VOLDATA_MOUNT_PREFIX; tail = drop n mountPath in
      if length mountPath \<le> n \<or> take n mountPath \<noteq> VOLDATA_MOUNT_PREFIX then None
      else if \<not> list_all c_isdigit tail then None
      else
        let r = strtoul 10 tail in
        if st_range r \<or> \<not> st_conv r then None
        else if st_val r < 1 \<or> int MAX_VOLDATA_SLOT_COUNT < st_val r then None
        else Some (nat (st_val r)))"

definition FromJson :: "json \<Rightarrow> VoldataUuidEntry option" where
  "FromJson j =
     (case j of
        JObject kvs \<Rightarrow>
          (case map_of kvs ''fsUuid'' of
             Some (JString fsUuid) \<Rightarrow>
               (case map_of kvs ''mountPath'' of
                  Some (JString mountPath) \<Rightarrow>
                    (case ParseVoldataSlotFromMountPath mountPath of
                       None \<Rightarrow> None
                     | Some slot \<Rightarrow>
                         if IsUuidValid fsUuid
                         then Some \<lparr>vu_fsUuid = fsUuid, vu_mountPath = mountPath, vu_slotIndex = slot\<rparr> else None)
                | _ \<Rightarrow> None)
           | _ \<Rightarrow> None)
      | _ \<Rightarrow> None)"

definition ToJson :: "VoldataUuidEntry \<Rightarrow> json" where
  "ToJson e = JObject [(''fsUuid'', JString (vu_fsUuid e)), (''mountPath'', JString (vu_mountPath e)),
     (''slotIndex'', JNum (int (vu_slotIndex e)))]"

definition BuildMountPathForSlot :: "nat \<Rightarrow> string" where
  "BuildMountPathForSlot slotIndex = VOLDATA_MOUNT_PREFIX @ to_string slotIndex"

subsection \<open>State and environment\<close>

type_synonym files = "string \<Rightarrow> string option"
type_synonym uuid_map = "(string, VoldataUuidEntry) umap"

record store_env =
  fe_ok :: "nat \<Rightarrow> bool"
  fe_garbage :: "nat \<Rightarrow> string"
  fe_layout :: "uuid_map \<Rightarrow> nat list"
  fe_parse :: "string \<Rightarrow> json option"
  fe_dump :: "json \<Rightarrow> string"

record store =
  uuidMap :: uuid_map
  jsonFilePath :: string
  initialized :: bool
  files :: files
  tick :: nat
  hist :: "files list"

text \<open>Every fallible file operation consumes one tick; every change of the files is recorded.\<close>

definition fs_step :: "store_env \<Rightarrow> store \<Rightarrow> bool \<times> store" where
  "fs_step env s = (fe_ok env (tick s), s\<lparr>tick := Suc (tick s)\<rparr>)"

definition fs_set :: "files \<Rightarrow> store \<Rightarrow> store" where
  "fs_set f s = s\<lparr>files := f, hist := f # hist s\<rparr>"

definition fs_exists :: "store_env \<Rightarrow> string \<Rightarrow> store \<Rightarrow> bool \<times> store" where
  "fs_exists env path s = (case fs_step env s of (ok, s1) \<Rightarrow> (ok \<and> files s1 path \<noteq> None, s1))"

definition fs_remove :: "store_env \<Rightarrow> string \<Rightarrow> store \<Rightarrow> store" where
  "fs_remove env path s = (case fs_step env s of (ok, s1) \<Rightarrow> if ok then fs_set ((files s1)(path := None)) s1 else s1)"

abbreviation TMP_FILE_SUFFIX :: string where "TMP_FILE_SUFFIX \<equiv> ''.tmp''"
abbreviation BACKUP_FILE_SUFFIX :: string where "BACKUP_FILE_SUFFIX \<equiv> ''.bak''"

definition DISK_MANAGER_JSON :: string where
  "DISK_MANAGER_JSON = ''/data/service/el1/public/disk_manager/'' @ ''voldata_uuid_mapping.json''"

subsection \<open>Files\<close>

text \<open>
  Write to a temporary file and rename. A rename is atomic; \<open>fsync\<close> has no effect on the contents the
  processes see, and its result is ignored by the code. So the files of the model are those that survive a power
  loss when every \<open>fsync\<close> succeeds; the loss of power after a failed \<open>fsync\<close>, which may leave a renamed file
  without its contents, is outside the model.
\<close>

definition SaveJsonToFile :: "store_env \<Rightarrow> string \<Rightarrow> json \<Rightarrow> store \<Rightarrow> errno \<times> store" where
  "SaveJsonToFile env filePath jsonData s0 =
     (let jsonStr = fe_dump env jsonData; temp = filePath @ TMP_FILE_SUFFIX in
      case fs_step env s0 of (mkdirOk, s1) \<Rightarrow>
      if \<not> mkdirOk then (DISK_MGR_ERR, s1)
      else case fs_step env s1 of (openOk, s2) \<Rightarrow>
      if \<not> openOk then (DISK_MGR_ERR, s2)
      else
        let s3 = fs_set ((files s2)(temp := Some [])) s2 in
        case fs_step env s3 of (writeOk, s4) \<Rightarrow>
        if \<not> writeOk
        then (DISK_MGR_ERR, fs_remove env temp (fs_set ((files s4)(temp := Some (fe_garbage env (tick s4)))) s4))
        else
          let s5 = fs_set ((files s4)(temp := Some jsonStr)) s4 in
          case fs_step env s5 of (renameOk, s6) \<Rightarrow>
          if \<not> renameOk then (DISK_MGR_ERR, fs_remove env temp s6)
          else (E_OK, fs_set ((files s6)(filePath := files s6 temp, temp := None)) s6))"

definition SaveToFile :: "store_env \<Rightarrow> store \<Rightarrow> errno \<times> store" where
  "SaveToFile env s =
     (let jsonArray = JArray (map (\<lambda>(k, e). ToJson e) (uuidMap s)) in
      case SaveJsonToFile env (jsonFilePath s) jsonArray s of (mainRet, s1) \<Rightarrow>
      if mainRet \<noteq> E_OK then (mainRet, s1)
      else case SaveJsonToFile env (jsonFilePath s @ BACKUP_FILE_SUFFIX) jsonArray s1 of (backupRet, s2) \<Rightarrow>
        (E_OK, s2))"

fun load_items :: "store_env \<Rightarrow> json list \<Rightarrow> uuid_map \<Rightarrow> uuid_map" where
  "load_items env [] m = m"
| "load_items env (item # items) m =
     (if MAX_VOLDATA_SLOT_COUNT \<le> length m then m
      else case FromJson item of
        None \<Rightarrow> load_items env items m
      | Some e \<Rightarrow> load_items env items (um_put (fe_layout env) (vu_fsUuid e) e m))"

definition LoadJsonFromPath :: "store_env \<Rightarrow> string \<Rightarrow> store \<Rightarrow> errno \<times> store" where
  "LoadJsonFromPath env filePath s =
     (case fs_step env s of (openOk, s1) \<Rightarrow>
      case (if openOk then files s1 filePath else None) of
        None \<Rightarrow> (DISK_MGR_ERR, s1)
      | Some jsonStr \<Rightarrow>
          if jsonStr = [] then (E_OK, s1)
          else case fe_parse env jsonStr of
            None \<Rightarrow> (DISK_MGR_ERR, s1)
          | Some (JArray items) \<Rightarrow> (E_OK, s1\<lparr>uuidMap := load_items env items (uuidMap s1)\<rparr>)
          | Some _ \<Rightarrow> (DISK_MGR_ERR, s1))"

definition LoadFromFile :: "store_env \<Rightarrow> store \<Rightarrow> errno \<times> store" where
  "LoadFromFile env s0 =
     (let s = s0\<lparr>uuidMap := []\<rparr>; backupFilePath = jsonFilePath s @ BACKUP_FILE_SUFFIX in
      case fs_exists env (jsonFilePath s) s of (mainExists, s1) \<Rightarrow>
      if \<not> mainExists then SaveToFile env s1
      else case LoadJsonFromPath env (jsonFilePath s) s1 of (loadRet, s2) \<Rightarrow>
      if loadRet = E_OK
      then case fs_exists env backupFilePath s2 of (backupExists, s3) \<Rightarrow>
           (E_OK, if backupExists then s3 else snd (SaveToFile env s3))
      else case fs_exists env backupFilePath s2 of (backupExists, s3) \<Rightarrow>
        if backupExists
        then case LoadJsonFromPath env backupFilePath s3 of (_, s4) \<Rightarrow> SaveToFile env s4
        else SaveToFile env s3)"

subsection \<open>Slots\<close>

definition EvictSlotOneIfFullLocked :: "uuid_map \<Rightarrow> uuid_map" where
  "EvictSlotOneIfFullLocked m =
     (if length m < MAX_VOLDATA_SLOT_COUNT then m
      else case find (\<lambda>(k, e). vu_slotIndex e = 1) m of
        Some (k, e) \<Rightarrow> um_erase k m
      | None \<Rightarrow> (case m of [] \<Rightarrow> m | (k, e) # _ \<Rightarrow> um_erase k m))"

definition FindMinimumFreeSlotLocked :: "uuid_map \<Rightarrow> nat" where
  "FindMinimumFreeSlotLocked m =
     (case find (\<lambda>slot. \<not> list_ex (\<lambda>(k, e). vu_slotIndex e = slot) m) [1..<Suc MAX_VOLDATA_SLOT_COUNT] of
        Some slot \<Rightarrow> slot
      | None \<Rightarrow> 1)"

definition AllocateNextSlotLocked :: "uuid_map \<Rightarrow> nat \<times> uuid_map" where
  "AllocateNextSlotLocked m =
     (let m1 = (if MAX_VOLDATA_SLOT_COUNT \<le> length m then EvictSlotOneIfFullLocked m else m)
      in (FindMinimumFreeSlotLocked m1, m1))"

subsection \<open>Operations\<close>

definition Store_Init :: "store_env \<Rightarrow> store \<Rightarrow> errno \<times> store" where
  "Store_Init env s =
     (if initialized s then (E_OK, s)
      else case LoadFromFile env (s\<lparr>jsonFilePath := DISK_MANAGER_JSON\<rparr>) of (loadRet, s1) \<Rightarrow>
        if loadRet \<noteq> E_OK then (loadRet, s1) else (E_OK, s1\<lparr>initialized := True\<rparr>))"

definition Store_UnInit :: "store \<Rightarrow> errno \<times> store" where
  "Store_UnInit s = (E_OK, if \<not> initialized s then s else s\<lparr>uuidMap := [], initialized := False\<rparr>)"

text \<open>The result is the error code and, on success, the mount path and whether it was created.\<close>

definition ResolveMountPath :: "store_env \<Rightarrow> string \<Rightarrow> store \<Rightarrow> (errno + string \<times> bool) \<times> store" where
  "ResolveMountPath env fsUuid s =
     (if \<not> IsUuidValid fsUuid then (Inl DISK_MGR_ERR, s)
      else case Store_Init env s of (initRet, s1) \<Rightarrow>
      if initRet \<noteq> E_OK then (Inl initRet, s1)
      else case map_of (uuidMap s1) fsUuid of
        Some existing \<Rightarrow> (Inr (vu_mountPath existing, False), s1)
      | None \<Rightarrow>
          let backup = uuidMap s1 in
          case AllocateNextSlotLocked (uuidMap s1) of (slot, m) \<Rightarrow>
          let entry = \<lparr>vu_fsUuid = fsUuid, vu_mountPath = BuildMountPathForSlot slot, vu_slotIndex = slot\<rparr> in
          case SaveToFile env (s1\<lparr>uuidMap := um_put (fe_layout env) fsUuid entry m\<rparr>) of (saveRet, s2) \<Rightarrow>
          if saveRet \<noteq> E_OK then (Inl saveRet, s2\<lparr>uuidMap := backup\<rparr>)
          else (Inr (vu_mountPath entry, True), s2))"

definition RemoveByFsUuid :: "store_env \<Rightarrow> string \<Rightarrow> store \<Rightarrow> errno \<times> store" where
  "RemoveByFsUuid env fsUuid s =
     (if \<not> IsUuidValid fsUuid then (DISK_MGR_ERR, s)
      else case Store_Init env s of (initRet, s1) \<Rightarrow>
      if initRet \<noteq> E_OK then (initRet, s1)
      else case map_of (uuidMap s1) fsUuid of
        None \<Rightarrow> (E_OK, s1)
      | Some _ \<Rightarrow>
          case SaveToFile env (s1\<lparr>uuidMap := um_erase fsUuid (uuidMap s1)\<rparr>) of (saveRet, s2) \<Rightarrow>
          if saveRet \<noteq> E_OK then (saveRet, s2\<lparr>uuidMap := uuidMap s1\<rparr>) else (E_OK, s2))"

definition ReplaceFsUuid :: "store_env \<Rightarrow> string \<Rightarrow> string \<Rightarrow> store \<Rightarrow> errno \<times> store" where
  "ReplaceFsUuid env oldFsUuid newFsUuid s =
     (if \<not> IsUuidValid oldFsUuid \<or> \<not> IsUuidValid newFsUuid then (DISK_MGR_ERR, s)
      else if oldFsUuid = newFsUuid then (E_OK, s)
      else case Store_Init env s of (initRet, s1) \<Rightarrow>
      if initRet \<noteq> E_OK then (initRet, s1)
      else case map_of (uuidMap s1) oldFsUuid of
        None \<Rightarrow> (E_OK, s1)
      | Some old \<Rightarrow>
          if map_of (uuidMap s1) newFsUuid \<noteq> None then (DISK_MGR_ERR, s1)
          else case SaveToFile env (s1\<lparr>uuidMap :=
                 um_put (fe_layout env) newFsUuid (old\<lparr>vu_fsUuid := newFsUuid\<rparr>) (um_erase oldFsUuid (uuidMap s1))\<rparr>)
               of (saveRet, s2) \<Rightarrow>
          if saveRet \<noteq> E_OK then (saveRet, s2\<lparr>uuidMap := uuidMap s1\<rparr>) else (E_OK, s2))"

definition TryGetMountPath :: "string \<Rightarrow> store \<Rightarrow> string option" where
  "TryGetMountPath fsUuid s =
     (if \<not> IsUuidValid fsUuid then None else map_option vu_mountPath (map_of (uuidMap s) fsUuid))"

section \<open>Slots and mount paths\<close>

lemma Parse_Build:
  assumes "1 \<le> n" "n \<le> MAX_VOLDATA_SLOT_COUNT"
  shows "ParseVoldataSlotFromMountPath (BuildMountPathForSlot n) = Some n"
proof -
  have "int n \<le> ULONG_MAX" using assms(2) by (simp add: MAX_VOLDATA_SLOT_COUNT_def ULONG_MAX_def)
  then have "strtoul 10 (to_string n) = \<lparr>st_val = int n, st_conv = True, st_rest = [], st_range = False\<rparr>"
    by (rule strtoul_to_string)
  moreover have "list_all c_isdigit (to_string n)" by (simp add: list_all_iff to_string_digits)
  ultimately show ?thesis using assms
    by (simp add: ParseVoldataSlotFromMountPath_def BuildMountPathForSlot_def)
qed

lemma Build_inject [simp]: "BuildMountPathForSlot m = BuildMountPathForSlot n \<longleftrightarrow> m = n"
  by (simp add: BuildMountPathForSlot_def)

definition slots :: "uuid_map \<Rightarrow> nat set" where
  "slots m = (\<lambda>(k, e). vu_slotIndex e) ` set m"

lemma slot_used: "list_ex (\<lambda>(k, e). vu_slotIndex e = slot) m \<longleftrightarrow> slot \<in> slots m"
  by (auto simp: list_ex_iff slots_def)

lemma card_slots: "finite (slots m)" "card (slots m) \<le> length m"
  by (auto simp: slots_def intro: order_trans[OF card_image_le] card_length)

lemma free_slot_ex:
  assumes "length m < MAX_VOLDATA_SLOT_COUNT"
  shows "\<exists>slot \<in> {1..<Suc MAX_VOLDATA_SLOT_COUNT}. slot \<notin> slots m"
proof (rule ccontr)
  assume "\<not> ?thesis"
  then have "{1..<Suc MAX_VOLDATA_SLOT_COUNT} \<subseteq> slots m" by blast
  from card_mono[OF card_slots(1) this] card_slots(2)[of m] assms show False by simp
qed

lemma find_upt_least:
  "find P [a..<b] = Some x \<Longrightarrow> a \<le> x \<and> x < b \<and> P x \<and> (\<forall>y. a \<le> y \<and> y < x \<longrightarrow> \<not> P y)"
proof (induction "b - a" arbitrary: a)
  case (Suc n)
  then have "a < b" by simp
  with Suc.prems show ?case
  proof (cases "P a")
    case False
    with Suc.prems \<open>a < b\<close> have "find P [Suc a..<b] = Some x" by (simp add: upt_rec)
    from Suc.hyps(1)[OF _ this] Suc.hyps(2) have "Suc a \<le> x \<and> x < b \<and> P x \<and> (\<forall>y. Suc a \<le> y \<and> y < x \<longrightarrow> \<not> P y)"
      by simp
    with False show ?thesis by (metis Suc_leD Suc_leI le_neq_implies_less)
  qed (auto simp: upt_rec)
qed simp

lemma find_SomeI: "x \<in> set xs \<Longrightarrow> P x \<Longrightarrow> find P xs \<noteq> None"
  by (auto simp: find_None_iff)

lemma free_slot_least:
  assumes "length m < MAX_VOLDATA_SLOT_COUNT"
  shows "1 \<le> FindMinimumFreeSlotLocked m \<and> FindMinimumFreeSlotLocked m \<le> MAX_VOLDATA_SLOT_COUNT
     \<and> FindMinimumFreeSlotLocked m \<notin> slots m \<and> (\<forall>t. 1 \<le> t \<and> t < FindMinimumFreeSlotLocked m \<longrightarrow> t \<in> slots m)"
proof -
  let ?P = "\<lambda>slot. \<not> list_ex (\<lambda>(k, e). vu_slotIndex e = slot) m"
  from free_slot_ex[OF assms] obtain slot where "slot \<in> set [1..<Suc MAX_VOLDATA_SLOT_COUNT]" "?P slot"
    unfolding slot_used set_upt by blast
  then have "find ?P [1..<Suc MAX_VOLDATA_SLOT_COUNT] \<noteq> None" by (rule find_SomeI)
  then obtain x where x: "find ?P [1..<Suc MAX_VOLDATA_SLOT_COUNT] = Some x" by blast
  from find_upt_least[OF x] have "1 \<le> x \<and> x \<le> MAX_VOLDATA_SLOT_COUNT \<and> x \<notin> slots m \<and> (\<forall>t. 1 \<le> t \<and> t < x \<longrightarrow> t \<in> slots m)"
    by (auto simp: slot_used)
  moreover have "FindMinimumFreeSlotLocked m = x" unfolding FindMinimumFreeSlotLocked_def x by simp
  ultimately show ?thesis by simp
qed

section \<open>The invariant of the map\<close>

definition ascii :: "string \<Rightarrow> bool" where
  "ascii s \<longleftrightarrow> (\<forall>c \<in> set s. of_char c < (128 :: nat))"

definition entry_ok :: "string \<times> VoldataUuidEntry \<Rightarrow> bool" where
  "entry_ok ke \<longleftrightarrow> (case ke of (k, e) \<Rightarrow>
     vu_fsUuid e = k \<and> IsUuidValid k \<and> ascii k \<and> 1 \<le> vu_slotIndex e \<and> vu_slotIndex e \<le> MAX_VOLDATA_SLOT_COUNT
     \<and> vu_mountPath e = BuildMountPathForSlot (vu_slotIndex e))"

definition map_ok :: "uuid_map \<Rightarrow> bool" where
  "map_ok m \<longleftrightarrow> um_wf m \<and> length m \<le> MAX_VOLDATA_SLOT_COUNT \<and> (\<forall>ke \<in> set m. entry_ok ke)
     \<and> distinct (map (\<lambda>(k, e). vu_slotIndex e) m)"

lemma map_ok_Nil [simp]: "map_ok []"
  by (simp add: map_ok_def)

lemma map_ok_mset: "mset m = mset m' \<Longrightarrow> map_ok m = map_ok m'"
  unfolding map_ok_def by (metis (no_types, lifting) mset_eq_imp_distinct_iff mset_eq_length mset_eq_setD mset_map)

lemma map_ok_filter: "map_ok m \<Longrightarrow> map_ok (filter P m)"
  by (auto simp: map_ok_def distinct_map_filter intro: order_trans[OF length_filter_le])

lemma map_ok_erase: "map_ok m \<Longrightarrow> map_ok (um_erase k m)"
  unfolding um_erase_def by (rule map_ok_filter)

lemma mset_um_put: "k \<notin> fst ` set m \<Longrightarrow> mset (um_put layout k v m) = mset (m @ [(k, v)])"
  by (simp only: um_put_def if_False mset_um_arrange)

lemma map_ok_put:
  assumes "map_ok m" "length m < MAX_VOLDATA_SLOT_COUNT" "k \<notin> fst ` set m" "entry_ok (k, e)" "vu_slotIndex e \<notin> slots m"
  shows "map_ok (um_put layout k e m)"
proof -
  have "map_ok (m @ [(k, e)])"
    using assms by (auto simp: map_ok_def slots_def image_iff)
  then show ?thesis using mset_um_put[OF assms(3)] map_ok_mset by blast
qed

lemma um_erase_less: "k \<in> fst ` set m \<Longrightarrow> length (um_erase k m) < length m"
  by (auto simp: um_erase_def intro!: length_filter_less)

lemma Evict_ok:
  assumes "map_ok m"
  shows "map_ok (EvictSlotOneIfFullLocked m) \<and> length (EvictSlotOneIfFullLocked m) < MAX_VOLDATA_SLOT_COUNT
     \<and> set (EvictSlotOneIfFullLocked m) \<subseteq> set m"
proof (cases "length m < MAX_VOLDATA_SLOT_COUNT")
  case False
  with assms have "length m = MAX_VOLDATA_SLOT_COUNT" by (simp add: map_ok_def)
  moreover have "\<exists>k. k \<in> fst ` set m \<and> EvictSlotOneIfFullLocked m = um_erase k m"
  proof (cases "find (\<lambda>(k, e). vu_slotIndex e = 1) m")
    case None
    with \<open>length m = _\<close> False show ?thesis
      by (cases m) (auto simp: EvictSlotOneIfFullLocked_def MAX_VOLDATA_SLOT_COUNT_def)
  next
    case (Some p)
    obtain k e where "p = (k, e)" by fastforce
    with Some have "(k, e) \<in> set m" by (metis find_Some_iff nth_mem)
    with Some False \<open>p = (k, e)\<close> show ?thesis by (force simp: EvictSlotOneIfFullLocked_def)
  qed
  ultimately obtain k where k: "k \<in> fst ` set m" "EvictSlotOneIfFullLocked m = um_erase k m"
    and "length m = MAX_VOLDATA_SLOT_COUNT" by blast
  moreover have "set (um_erase k m) \<subseteq> set m" by (auto simp: um_erase_def)
  ultimately show ?thesis using map_ok_erase[OF assms] um_erase_less[OF k(1)] by simp
qed (use assms in \<open>simp add: EvictSlotOneIfFullLocked_def\<close>)

lemma Allocate_ok:
  assumes "map_ok m" "AllocateNextSlotLocked m = (slot, m1)"
  shows "map_ok m1" "length m1 < MAX_VOLDATA_SLOT_COUNT" "set m1 \<subseteq> set m" "slot \<notin> slots m1"
    "1 \<le> slot" "slot \<le> MAX_VOLDATA_SLOT_COUNT" "length m < MAX_VOLDATA_SLOT_COUNT \<Longrightarrow> m1 = m"
proof -
  have m1: "m1 = (if MAX_VOLDATA_SLOT_COUNT \<le> length m then EvictSlotOneIfFullLocked m else m)"
    and slot: "slot = FindMinimumFreeSlotLocked m1"
    using assms(2) by (auto simp: AllocateNextSlotLocked_def Let_def)
  show ok: "map_ok m1" and len: "length m1 < MAX_VOLDATA_SLOT_COUNT" and "set m1 \<subseteq> set m"
    using Evict_ok[OF assms(1)] assms(1) unfolding m1 by auto
  from free_slot_least[OF len] slot show "slot \<notin> slots m1" "1 \<le> slot" "slot \<le> MAX_VOLDATA_SLOT_COUNT" by auto
  show "length m < MAX_VOLDATA_SLOT_COUNT \<Longrightarrow> m1 = m" by (simp add: m1)
qed

lemma map_ok_new_entry:
  assumes "map_ok m" "IsUuidValid u" "ascii u" "map_of m u = None" "AllocateNextSlotLocked m = (slot, m1)"
  shows "map_ok (um_put layout u \<lparr>vu_fsUuid = u, vu_mountPath = BuildMountPathForSlot slot, vu_slotIndex = slot\<rparr> m1)"
proof -
  note a = Allocate_ok[OF assms(1,5)]
  have "u \<notin> fst ` set m1" using a(3) assms(4) by (auto simp: map_of_eq_None_iff)
  with a assms(2,3) show ?thesis by (intro map_ok_put) (auto simp: entry_ok_def)
qed

lemma slots_erase:
  assumes "map_ok m" "map_of m k = Some e"
  shows "vu_slotIndex e \<notin> slots (um_erase k m)"
proof
  assume "vu_slotIndex e \<in> slots (um_erase k m)"
  then obtain k' e' where "(k', e') \<in> set m" "k' \<noteq> k" "vu_slotIndex e' = vu_slotIndex e"
    by (auto simp: slots_def um_erase_def)
  moreover have "(k, e) \<in> set m" using assms(2) by (rule map_of_SomeD)
  moreover have "inj_on (\<lambda>(k, e). vu_slotIndex e) (set m)"
    using assms(1) by (simp add: map_ok_def distinct_map)
  ultimately have "(k', e') = (k, e)" by (intro inj_onD[where f = "\<lambda>(k, e). vu_slotIndex e"]) auto
  with \<open>k' \<noteq> k\<close> show False by simp
qed

lemma map_ok_replace:
  assumes "map_ok m" "map_of m old = Some e" "map_of m new = None" "IsUuidValid new" "ascii new"
  shows "map_ok (um_put layout new (e\<lparr>vu_fsUuid := new\<rparr>) (um_erase old m))"
proof -
  have "(old, e) \<in> set m" using assms(2) by (rule map_of_SomeD)
  then have "entry_ok (old, e)" using assms(1) by (simp add: map_ok_def)
  moreover have "length (um_erase old m) < length m"
    using \<open>(old, e) \<in> set m\<close> by (intro um_erase_less) force
  moreover have "new \<notin> fst ` set (um_erase old m)"
    using assms(3) by (auto simp: map_of_eq_None_iff um_erase_def)
  moreover have "length m \<le> MAX_VOLDATA_SLOT_COUNT" using assms(1) by (simp add: map_ok_def)
  ultimately show ?thesis using assms(4,5) map_ok_erase[OF assms(1)] slots_erase[OF assms(1,2)]
    by (intro map_ok_put) (simp_all add: entry_ok_def)
qed

section \<open>The files\<close>

text \<open>
  \<open>fs_keeps P s\<close>: \<open>P\<close> holds of the files now and at every earlier moment. The storage operations keep every
  predicate that ignores the temporary file and admits the new document.
\<close>

definition fs_keeps :: "(files \<Rightarrow> bool) \<Rightarrow> store \<Rightarrow> bool" where
  "fs_keeps P s \<longleftrightarrow> P (files s) \<and> (\<forall>f \<in> set (hist s). P f)"

lemma fs_keeps_set: "fs_keeps P s \<Longrightarrow> P f \<Longrightarrow> fs_keeps P (fs_set f s)"
  by (simp add: fs_keeps_def fs_set_def)

lemma fs_keeps_tick [simp]: "fs_keeps P (s\<lparr>tick := t\<rparr>) = fs_keeps P s"
  by (simp add: fs_keeps_def)

lemma fs_keeps_map [simp]:
  "fs_keeps P (s\<lparr>uuidMap := m\<rparr>) = fs_keeps P s" "fs_keeps P (s\<lparr>initialized := b\<rparr>) = fs_keeps P s"
  "fs_keeps P (s\<lparr>jsonFilePath := p\<rparr>) = fs_keeps P s"
  by (simp_all add: fs_keeps_def)

lemma fs_keeps_files: "fs_keeps P s \<Longrightarrow> P (files s)"
  by (simp add: fs_keeps_def)

lemma fs_set_sel [simp]:
  "files (fs_set f s) = f" "uuidMap (fs_set f s) = uuidMap s" "jsonFilePath (fs_set f s) = jsonFilePath s"
  "initialized (fs_set f s) = initialized s" "tick (fs_set f s) = tick s"
  by (simp_all add: fs_set_def)

lemma fs_remove_keeps:
  "fs_keeps P s \<Longrightarrow> (\<And>f v. P f \<Longrightarrow> P (f(path := v))) \<Longrightarrow> fs_keeps P (fs_remove env path s)"
  by (auto simp: fs_remove_def fs_step_def intro!: fs_keeps_set dest: fs_keeps_files)

lemma fs_remove_sel [simp]:
  "uuidMap (fs_remove env path s) = uuidMap s" "jsonFilePath (fs_remove env path s) = jsonFilePath s"
  "initialized (fs_remove env path s) = initialized s"
  "p \<noteq> path \<Longrightarrow> files (fs_remove env path s) p = files s p"
  by (simp_all add: fs_remove_def fs_step_def)

lemma SaveJsonToFile_keeps:
  assumes "fs_keeps P s" "\<And>f v. P f \<Longrightarrow> P (f(path @ TMP_FILE_SUFFIX := v))"
    and "\<And>f. P f \<Longrightarrow> P (f(path := Some (fe_dump env j)))"
    and "SaveJsonToFile env path j s = (r, s')"
  shows "fs_keeps P s'"
  using assms(1,4) fs_keeps_files[OF assms(1)]
  by (auto simp: SaveJsonToFile_def fs_step_def Let_def intro!: fs_keeps_set fs_remove_keeps assms(2,3)
      split: if_splits)

lemma SaveJsonToFile_result:
  assumes "SaveJsonToFile env path j s = (r, s')"
  shows "uuidMap s' = uuidMap s" "jsonFilePath s' = jsonFilePath s" "initialized s' = initialized s"
    "r = E_OK \<or> r = DISK_MGR_ERR"
    "files s' path = (if r = E_OK then Some (fe_dump env j) else files s path)"
    "p \<noteq> path \<Longrightarrow> p \<noteq> path @ TMP_FILE_SUFFIX \<Longrightarrow> files s' p = files s p"
  using assms by (auto simp: SaveJsonToFile_def fs_step_def Let_def split: if_splits)

definition doc :: "store_env \<Rightarrow> uuid_map \<Rightarrow> string" where
  "doc env m = fe_dump env (JArray (map (\<lambda>(k, e). ToJson e) m))"

abbreviation bak_path :: "string \<Rightarrow> string" where "bak_path p \<equiv> p @ BACKUP_FILE_SUFFIX"

lemma SaveToFile_keeps:
  assumes "fs_keeps P s" "\<And>f v. P f \<Longrightarrow> P (f(jsonFilePath s @ TMP_FILE_SUFFIX := v))"
    and "\<And>f v. P f \<Longrightarrow> P (f(bak_path (jsonFilePath s) @ TMP_FILE_SUFFIX := v))"
    and "\<And>f. P f \<Longrightarrow> P (f(jsonFilePath s := Some (doc env (uuidMap s))))"
    and "\<And>f. P f \<Longrightarrow> P (f(bak_path (jsonFilePath s) := Some (doc env (uuidMap s))))"
    and "SaveToFile env s = (r, s')"
  shows "fs_keeps P s'"
proof -
  let ?j = "JArray (map (\<lambda>(k, e). ToJson e) (uuidMap s))"
  obtain r1 s1 where 1: "SaveJsonToFile env (jsonFilePath s) ?j s = (r1, s1)" by fastforce
  obtain r2 s2 where 2: "SaveJsonToFile env (bak_path (jsonFilePath s)) ?j s1 = (r2, s2)" by fastforce
  have k1: "fs_keeps P s1"
    by (rule SaveJsonToFile_keeps[OF assms(1) _ _ 1]) (erule assms(2) assms(4)[unfolded doc_def])+
  have "fs_keeps P s2"
    by (rule SaveJsonToFile_keeps[OF k1 _ _ 2]) (erule assms(3) assms(5)[unfolded doc_def])+
  with k1 1 2 assms(6) show ?thesis by (auto simp: SaveToFile_def Let_def split: if_splits)
qed

lemma SaveToFile_result:
  assumes "SaveToFile env s = (r, s')"
  shows "uuidMap s' = uuidMap s" "jsonFilePath s' = jsonFilePath s" "initialized s' = initialized s"
    "r = E_OK \<or> r = DISK_MGR_ERR"
    "files s' (jsonFilePath s) = (if r = E_OK then Some (doc env (uuidMap s)) else files s (jsonFilePath s))"
proof -
  let ?j = "JArray (map (\<lambda>(k, e). ToJson e) (uuidMap s))"
  obtain r1 s1 where 1: "SaveJsonToFile env (jsonFilePath s) ?j s = (r1, s1)" by fastforce
  obtain r2 s2 where 2: "SaveJsonToFile env (bak_path (jsonFilePath s)) ?j s1 = (r2, s2)" by fastforce
  note a = SaveJsonToFile_result[OF 1] and b = SaveJsonToFile_result[OF 2]
  have r: "(r, s') = (if r1 \<noteq> 0 then (r1, s1) else (0, s2))"
    using assms 1 2 by (auto simp: SaveToFile_def Let_def)
  show "uuidMap s' = uuidMap s" "jsonFilePath s' = jsonFilePath s" "initialized s' = initialized s"
    "r = E_OK \<or> r = DISK_MGR_ERR"
    using r a(1-4) b(1-4) by (auto split: if_splits)
  have "files s2 (jsonFilePath s) = files s1 (jsonFilePath s)" by (rule b(6)) simp_all
  with r a(5) show "files s' (jsonFilePath s) = (if r = E_OK then Some (doc env (uuidMap s)) else files s (jsonFilePath s))"
    by (auto simp: doc_def split: if_splits)
qed

section \<open>Loading what was saved\<close>

text \<open>The JSON documents the store writes: arrays of objects with three members, all of it ASCII.\<close>

fun json_ascii :: "json \<Rightarrow> bool" where
  "json_ascii (JString s) = ascii s"
| "json_ascii (JArray js) = list_all json_ascii js"
| "json_ascii (JObject kvs) = list_all (\<lambda>(k, j). ascii k \<and> json_ascii j) kvs"
| "json_ascii j = True"

text \<open>
  The JSON library parses what it printed; an ASCII restriction is needed since \<open>dump\<close> is called with the
  error handler that replaces bytes that are not UTF-8. A printed document is not empty.
\<close>

definition json_ok :: "store_env \<Rightarrow> bool" where
  "json_ok env \<longleftrightarrow> (\<forall>j. json_ascii j \<longrightarrow> fe_parse env (fe_dump env j) = Some j \<and> fe_dump env j \<noteq> [])"

lemma ascii_simps [simp]: "ascii []" "ascii (c # s) \<longleftrightarrow> of_char c < (128 :: nat) \<and> ascii s" "ascii (s @ t) \<longleftrightarrow> ascii s \<and> ascii t"
  by (auto simp: ascii_def)

lemma ascii_to_string: "ascii (to_string n)"
  by (auto simp: ascii_def c_isdigit_def)

lemma FromJson_ToJson: "entry_ok (k, e) \<Longrightarrow> FromJson (ToJson e) = Some e"
  by (cases e) (simp add: entry_ok_def FromJson_def ToJson_def Parse_Build)

lemma json_ascii_doc:
  assumes "\<forall>ke \<in> set m. entry_ok ke"
  shows "json_ascii (JArray (map (\<lambda>(k, e). ToJson e) m))"
  using assms by (auto simp: list_all_iff ToJson_def entry_ok_def BuildMountPathForSlot_def VOLDATA_MOUNT_PREFIX_def
      ascii_to_string dest!: bspec)

lemma load_items_saved:
  "map_ok (acc @ xs) \<Longrightarrow> mset (load_items env (map (\<lambda>(k, e). ToJson e) xs) acc) = mset (acc @ xs)"
proof (induction xs arbitrary: acc)
  case (Cons ke xs)
  obtain k e where ke: "ke = (k, e)" by fastforce
  from Cons.prems have ok: "entry_ok (k, e)" and len: "length acc < MAX_VOLDATA_SLOT_COUNT" and "k \<notin> fst ` set acc"
    by (auto simp: ke map_ok_def)
  then have put: "mset (um_put (fe_layout env) k e acc) = mset (acc @ [(k, e)])" by (intro mset_um_put)
  have "mset (um_put (fe_layout env) k e acc @ xs) = mset (acc @ (k, e) # xs)" using put by simp
  with Cons.prems map_ok_mset have "map_ok (um_put (fe_layout env) k e acc @ xs)" unfolding ke by blast
  from Cons.IH[OF this] put have
    "mset (load_items env (map (\<lambda>(k, e). ToJson e) xs) (um_put (fe_layout env) k e acc)) = mset (acc @ (k, e) # xs)"
    by simp
  moreover have "vu_fsUuid e = k" using ok by (simp add: entry_ok_def)
  ultimately show ?case using len FromJson_ToJson[OF ok] by (simp add: ke)
qed simp

definition file_ok :: "store_env \<Rightarrow> files \<Rightarrow> string \<Rightarrow> bool" where
  "file_ok env f p \<longleftrightarrow> f p = None \<or> (\<exists>m. map_ok m \<and> f p = Some (doc env m))"

definition files_ok :: "store_env \<Rightarrow> files \<Rightarrow> bool" where
  "files_ok env f \<longleftrightarrow> file_ok env f DISK_MANAGER_JSON \<and> file_ok env f (bak_path DISK_MANAGER_JSON)"

lemma file_ok_other: "p \<noteq> q \<Longrightarrow> file_ok env (f(q := v)) p = file_ok env f p"
  by (simp add: file_ok_def)

lemma file_ok_same: "map_ok m \<Longrightarrow> file_ok env (f(p := Some (doc env m))) p"
  by (auto simp: file_ok_def)

lemma store_paths:
  "p \<noteq> p @ TMP_FILE_SUFFIX" "p \<noteq> bak_path p @ TMP_FILE_SUFFIX" "bak_path p \<noteq> p @ TMP_FILE_SUFFIX"
  "bak_path p \<noteq> bak_path p @ TMP_FILE_SUFFIX" "p \<noteq> bak_path p" "bak_path p \<noteq> p"
  by simp_all

lemma files_ok_update:
  assumes "files_ok env f"
  shows "files_ok env (f(DISK_MANAGER_JSON @ TMP_FILE_SUFFIX := v))"
    "files_ok env (f(bak_path DISK_MANAGER_JSON @ TMP_FILE_SUFFIX := v))"
    "map_ok m \<Longrightarrow> files_ok env (f(DISK_MANAGER_JSON := Some (doc env m)))"
    "map_ok m \<Longrightarrow> files_ok env (f(bak_path DISK_MANAGER_JSON := Some (doc env m)))"
  using assms unfolding files_ok_def by (simp_all only: file_ok_other[OF store_paths(1)] file_ok_other[OF store_paths(2)]
      file_ok_other[OF store_paths(3)] file_ok_other[OF store_paths(4)] file_ok_other[OF store_paths(5)]
      file_ok_other[OF store_paths(6)] file_ok_same simp_thms)

lemma LoadJson_saved:
  assumes json: "json_ok env" and "files_ok env (files s)" and p: "p \<in> {DISK_MANAGER_JSON, bak_path DISK_MANAGER_JSON}"
    and empty: "uuidMap s = []" and load: "LoadJsonFromPath env p s = (r, s')"
  shows "map_ok (uuidMap s')" "jsonFilePath s' = jsonFilePath s" "initialized s' = initialized s"
    "files s' = files s" "hist s' = hist s"
    "r = E_OK \<Longrightarrow> \<exists>m. mset m = mset (uuidMap s') \<and> files s p = Some (doc env m)"
    "r \<noteq> E_OK \<Longrightarrow> uuidMap s' = []"
    "fe_ok env (tick s) \<Longrightarrow> files s p \<noteq> None \<Longrightarrow> r = E_OK" "tick s' = Suc (tick s)"
proof -
  have "file_ok env (files s) p" using assms(2) p by (auto simp: files_ok_def)
  then consider "files s p = None" | m where "map_ok m" "files s p = Some (doc env m)"
    by (auto simp: file_ok_def)
  then have all: "map_ok (uuidMap s') \<and> jsonFilePath s' = jsonFilePath s \<and> initialized s' = initialized s
    \<and> files s' = files s \<and> hist s' = hist s
    \<and> (r = E_OK \<longrightarrow> (\<exists>m. mset m = mset (uuidMap s') \<and> files s p = Some (doc env m)))
    \<and> (r \<noteq> E_OK \<longrightarrow> uuidMap s' = [])
    \<and> (fe_ok env (tick s) \<longrightarrow> files s p \<noteq> None \<longrightarrow> r = E_OK) \<and> tick s' = Suc (tick s)"
  proof cases
    case 1
    with load empty show ?thesis by (auto simp: LoadJsonFromPath_def fs_step_def split: if_splits)
  next
    case (2 m)
    from 2(1) have "json_ascii (JArray (map (\<lambda>(k, e). ToJson e) m))" by (intro json_ascii_doc) (simp add: map_ok_def)
    with json have parse: "fe_parse env (doc env m) = Some (JArray (map (\<lambda>(k, e). ToJson e) m))" "doc env m \<noteq> []"
      by (auto simp: json_ok_def doc_def)
    let ?m = "load_items env (map (\<lambda>(k, e). ToJson e) m) []"
    have m: "mset m = mset ?m" using load_items_saved[of "[]" m] 2(1) by simp
    with 2(1) map_ok_mset have ok: "map_ok ?m" by blast
    show ?thesis
    proof (cases "fe_ok env (tick s)")
      case True
      with load empty 2(2) parse have "r = 0 \<and> s' = s\<lparr>tick := Suc (tick s), uuidMap := ?m\<rparr>"
        by (simp add: LoadJsonFromPath_def fs_step_def)
      then have "r = 0" "s' = s\<lparr>tick := Suc (tick s), uuidMap := ?m\<rparr>" by blast+
      moreover have "\<exists>m'. mset m' = mset ?m \<and> files s p = Some (doc env m')" using m 2(2) by blast
      ultimately show ?thesis using ok by simp
    next
      case False
      with load have "(r, s') = (DISK_MGR_ERR, s\<lparr>tick := Suc (tick s)\<rparr>)"
        by (simp add: LoadJsonFromPath_def fs_step_def)
      with empty False show ?thesis by simp
    qed
  qed
  show "map_ok (uuidMap s')" "jsonFilePath s' = jsonFilePath s" "initialized s' = initialized s"
    "files s' = files s" "hist s' = hist s"
    "r = E_OK \<Longrightarrow> \<exists>m. mset m = mset (uuidMap s') \<and> files s p = Some (doc env m)"
    "r \<noteq> E_OK \<Longrightarrow> uuidMap s' = []"
    "fe_ok env (tick s) \<Longrightarrow> files s p \<noteq> None \<Longrightarrow> r = E_OK" "tick s' = Suc (tick s)"
    using all by blast+
qed

section \<open>The invariant of the store\<close>

text \<open>Memory and disk agree: the main file holds the document of the map, in some order.\<close>

definition synced :: "store_env \<Rightarrow> store \<Rightarrow> bool" where
  "synced env s \<longleftrightarrow> jsonFilePath s = DISK_MANAGER_JSON
     \<and> (\<exists>m. mset m = mset (uuidMap s) \<and> files s DISK_MANAGER_JSON = Some (doc env m))"

definition store_inv :: "store_env \<Rightarrow> store \<Rightarrow> bool" where
  "store_inv env s \<longleftrightarrow> fs_keeps (files_ok env) s \<and> map_ok (uuidMap s) \<and> (initialized s \<longrightarrow> synced env s)"

lemma Save_inv:
  assumes "fs_keeps (files_ok env) s" "map_ok (uuidMap s)" "jsonFilePath s = DISK_MANAGER_JSON"
    and save: "SaveToFile env s = (r, s')"
  shows "fs_keeps (files_ok env) s'" "r = E_OK \<Longrightarrow> synced env s'"
    "r \<noteq> E_OK \<Longrightarrow> files s' DISK_MANAGER_JSON = files s DISK_MANAGER_JSON"
proof -
  note res = SaveToFile_result[OF save, unfolded assms(3)]
  show "fs_keeps (files_ok env) s'"
    by (rule SaveToFile_keeps[OF assms(1) _ _ _ _ save]) (simp_all only: assms files_ok_update)
  show "r = E_OK \<Longrightarrow> synced env s'" using res assms(3) by (auto simp: synced_def)
  show "r \<noteq> E_OK \<Longrightarrow> files s' DISK_MANAGER_JSON = files s DISK_MANAGER_JSON" using res(5) by simp
qed

lemma Save_loaded:
  assumes "SaveToFile env t = (r, s')" "fs_keeps (files_ok env) t" "map_ok (uuidMap t)" "jsonFilePath t = DISK_MANAGER_JSON"
  shows "fs_keeps (files_ok env) s' \<and> map_ok (uuidMap s') \<and> initialized s' = initialized t \<and> (r = E_OK \<longrightarrow> synced env s')"
  using Save_inv[OF assms(2-4,1)] SaveToFile_result(1,3)[OF assms(1)] assms(3) by simp

text \<open>Writing back what the main file holds keeps it in step with memory, whether the write succeeds or not.\<close>

lemma Save_again_synced:
  assumes "fs_keeps (files_ok env) t" "map_ok (uuidMap t)" "jsonFilePath t = DISK_MANAGER_JSON"
    and disk: "\<exists>m. mset m = mset (uuidMap t) \<and> files t DISK_MANAGER_JSON = Some (doc env m)"
    and save: "SaveToFile env t = (r, s')"
  shows "synced env s'"
proof (cases "r = 0")
  case True
  then show ?thesis using Save_inv[OF assms(1-3) save] assms(2) by simp
next
  case False
  then show ?thesis using Save_inv[OF assms(1-3) save] SaveToFile_result[OF save] disk assms(3) by (auto simp: synced_def)
qed

lemma Load_inv:
  assumes json: "json_ok env" and keeps: "fs_keeps (files_ok env) s0" and path: "jsonFilePath s0 = DISK_MANAGER_JSON"
    and load: "LoadFromFile env s0 = (r, s')"
  shows "fs_keeps (files_ok env) s' \<and> map_ok (uuidMap s') \<and> initialized s' = initialized s0 \<and> (r = E_OK \<longrightarrow> synced env s')"
proof -
  define s1 where "s1 = s0\<lparr>uuidMap := [], tick := Suc (tick s0)\<rparr>"
  have s1: "fs_keeps (files_ok env) s1" "uuidMap s1 = []" "jsonFilePath s1 = DISK_MANAGER_JSON" "initialized s1 = initialized s0"
    using keeps path by (simp_all add: s1_def)
  obtain r2 s2 where l2: "LoadJsonFromPath env DISK_MANAGER_JSON s1 = (r2, s2)" by fastforce
  note L2 = LoadJson_saved[OF json fs_keeps_files[OF s1(1)] _ s1(2) l2, simplified]
  have k2: "fs_keeps (files_ok env) s2" using s1(1) L2(4,5) by (simp add: fs_keeps_def)
  define s3 where "s3 = s2\<lparr>tick := Suc (tick s2)\<rparr>"
  have s3: "fs_keeps (files_ok env) s3" "uuidMap s3 = uuidMap s2" "jsonFilePath s3 = DISK_MANAGER_JSON"
    "initialized s3 = initialized s0" "files s3 = files s1"
    using k2 s1 L2 by (simp_all add: s3_def)
  have main: "(r, s') = (if \<not> (fe_ok env (tick s0) \<and> files s1 DISK_MANAGER_JSON \<noteq> None) then SaveToFile env s1
      else if r2 = 0 then (0, if fe_ok env (tick s2) \<and> files s2 (bak_path DISK_MANAGER_JSON) \<noteq> None then s3
                              else snd (SaveToFile env s3))
      else if fe_ok env (tick s2) \<and> files s2 (bak_path DISK_MANAGER_JSON) \<noteq> None
      then case LoadJsonFromPath env (bak_path DISK_MANAGER_JSON) s3 of (_, s4) \<Rightarrow> SaveToFile env s4
      else SaveToFile env s3)"
    using load path l2 unfolding LoadFromFile_def fs_exists_def fs_step_def Let_def s1_def s3_def
    by (simp cong: if_cong)
  consider "(r, s') = SaveToFile env s1" | "(r, s') = SaveToFile env s3" | "r2 = 0" "(r, s') = (0, s3)"
    | "r2 = 0" "(r, s') = (0, snd (SaveToFile env s3))"
    | r4 s4 where "r2 \<noteq> 0" "LoadJsonFromPath env (bak_path DISK_MANAGER_JSON) s3 = (r4, s4)" "(r, s') = SaveToFile env s4"
    using main by (auto split: if_splits prod.splits)
  then show ?thesis
  proof cases
    case 1
    with Save_loaded[OF 1[symmetric]] s1 show ?thesis by simp
  next
    case 2
    with Save_loaded[OF 2[symmetric]] s3 L2(1) show ?thesis by simp
  next
    case 3
    with s3 L2 show ?thesis by (auto simp: synced_def)
  next
    case 4
    obtain r5 s5 where s5: "SaveToFile env s3 = (r5, s5)" by fastforce
    have "synced env s5" using Save_again_synced[OF s3(1) _ s3(3) _ s5] s3 L2(1,4,6) 4(1) by auto
    with 4 s5 Save_loaded[OF s5 s3(1) _ s3(3)] s3 L2(1) show ?thesis by simp
  next
    case (5 r4 s4)
    have "uuidMap s3 = []" using L2(7) 5(1) s3(2) by simp
    note L4 = LoadJson_saved[OF json fs_keeps_files[OF s3(1)] _ this 5(2), simplified]
    have "fs_keeps (files_ok env) s4" using s3(1) L4(4,5) by (simp add: fs_keeps_def)
    with Save_loaded[OF 5(3)[symmetric]] s3 L4 show ?thesis by simp
  qed
qed

lemma Init_inv:
  assumes "json_ok env" "store_inv env s" "Store_Init env s = (r, s1)"
  shows "store_inv env s1" "r = E_OK \<Longrightarrow> initialized s1"
proof -
  have "store_inv env s1 \<and> (r = E_OK \<longrightarrow> initialized s1)"
  proof (cases "initialized s")
    case True
    with assms show ?thesis by (simp add: Store_Init_def)
  next
    case False
    obtain r2 s2 where l: "LoadFromFile env (s\<lparr>jsonFilePath := DISK_MANAGER_JSON\<rparr>) = (r2, s2)" by fastforce
    have "fs_keeps (files_ok env) (s\<lparr>jsonFilePath := DISK_MANAGER_JSON\<rparr>)"
      using assms(2) by (simp add: store_inv_def)
    from Load_inv[OF assms(1) this _ l] l assms(3) False show ?thesis
      by (auto simp: Store_Init_def store_inv_def synced_def split: if_splits)
  qed
  then show "store_inv env s1" "r = E_OK \<Longrightarrow> initialized s1" by blast+
qed

text \<open>
  The common end of the three writers: save the new map; when that fails, restore the old one. The main file
  is untouched by a failed save, so memory and disk agree again.
\<close>

definition commit :: "store_env \<Rightarrow> uuid_map \<Rightarrow> store \<Rightarrow> errno \<times> store" where
  "commit env m s = (case SaveToFile env (s\<lparr>uuidMap := m\<rparr>) of (r, s') \<Rightarrow>
     if r \<noteq> E_OK then (r, s'\<lparr>uuidMap := uuidMap s\<rparr>) else (E_OK, s'))"

lemma commit_inv:
  assumes "store_inv env s" "initialized s" "map_ok m" "commit env m s = (r, s')"
  shows "store_inv env s'" "initialized s'" "uuidMap s' = (if r = E_OK then m else uuidMap s)"
proof -
  obtain r2 s2 where save: "SaveToFile env (s\<lparr>uuidMap := m\<rparr>) = (r2, s2)" by fastforce
  have path: "jsonFilePath s = DISK_MANAGER_JSON" and k: "fs_keeps (files_ok env) s" and sy: "synced env s" "map_ok (uuidMap s)"
    using assms(1,2) by (auto simp: store_inv_def synced_def)
  have *: "fs_keeps (files_ok env) (s\<lparr>uuidMap := m\<rparr>)" "map_ok (uuidMap (s\<lparr>uuidMap := m\<rparr>))"
    "jsonFilePath (s\<lparr>uuidMap := m\<rparr>) = DISK_MANAGER_JSON" using k assms(3) path by simp_all
  note S = Save_inv[OF * save] SaveToFile_result[OF save]
  have r: "r = r2" "s' = (if r2 \<noteq> 0 then s2\<lparr>uuidMap := uuidMap s\<rparr> else s2)"
    using assms(4) save by (auto simp: commit_def split: if_splits)
  show "initialized s'" "uuidMap s' = (if r = E_OK then m else uuidMap s)"
    using r S assms(2) by simp_all
  show "store_inv env s'"
    using r S sy assms(3) path by (auto simp: store_inv_def synced_def)
qed

lemma Resolve_commit:
  "ResolveMountPath env u s =
     (if \<not> IsUuidValid u then (Inl DISK_MGR_ERR, s)
      else case Store_Init env s of (initRet, s1) \<Rightarrow>
      if initRet \<noteq> E_OK then (Inl initRet, s1)
      else case map_of (uuidMap s1) u of
        Some e \<Rightarrow> (Inr (vu_mountPath e, False), s1)
      | None \<Rightarrow>
          case AllocateNextSlotLocked (uuidMap s1) of (slot, m) \<Rightarrow>
          case commit env (um_put (fe_layout env) u
                 \<lparr>vu_fsUuid = u, vu_mountPath = BuildMountPathForSlot slot, vu_slotIndex = slot\<rparr> m) s1 of (r, s2) \<Rightarrow>
          (if r \<noteq> E_OK then Inl r else Inr (BuildMountPathForSlot slot, True), s2))"
  by (auto simp: ResolveMountPath_def commit_def Let_def split: prod.splits option.splits if_splits)

lemma Remove_commit:
  "RemoveByFsUuid env u s =
     (if \<not> IsUuidValid u then (DISK_MGR_ERR, s)
      else case Store_Init env s of (initRet, s1) \<Rightarrow>
      if initRet \<noteq> E_OK then (initRet, s1)
      else case map_of (uuidMap s1) u of
        None \<Rightarrow> (E_OK, s1)
      | Some e \<Rightarrow> commit env (um_erase u (uuidMap s1)) s1)"
  by (auto simp: RemoveByFsUuid_def commit_def Let_def split: prod.splits option.splits if_splits)

lemma Replace_commit:
  "ReplaceFsUuid env old new s =
     (if \<not> IsUuidValid old \<or> \<not> IsUuidValid new then (DISK_MGR_ERR, s)
      else if old = new then (E_OK, s)
      else case Store_Init env s of (initRet, s1) \<Rightarrow>
      if initRet \<noteq> E_OK then (initRet, s1)
      else case map_of (uuidMap s1) old of
        None \<Rightarrow> (E_OK, s1)
      | Some e \<Rightarrow>
          if map_of (uuidMap s1) new \<noteq> None then (DISK_MGR_ERR, s1)
          else commit env (um_put (fe_layout env) new (e\<lparr>vu_fsUuid := new\<rparr>) (um_erase old (uuidMap s1))) s1)"
  by (auto simp: ReplaceFsUuid_def commit_def Let_def split: prod.splits option.splits if_splits)

lemma Resolve_inv:
  assumes "json_ok env" "store_inv env s" "ascii u" "ResolveMountPath env u s = (r, s')"
  shows "store_inv env s'"
proof -
  obtain r1 s1 where i: "Store_Init env s = (r1, s1)" by fastforce
  note I = Init_inv[OF assms(1,2) i]
  obtain slot m where a: "AllocateNextSlotLocked (uuidMap s1) = (slot, m)" by fastforce
  let ?m = "um_put (fe_layout env) u \<lparr>vu_fsUuid = u, vu_mountPath = BuildMountPathForSlot slot, vu_slotIndex = slot\<rparr> m"
  obtain r2 s2 where c: "commit env ?m s1 = (r2, s2)" by fastforce
  have "store_inv env s2" if "r1 = 0" "IsUuidValid u" "map_of (uuidMap s1) u = None"
    using commit_inv(1)[OF I(1) _ _ c] I map_ok_new_entry[OF _ that(2) assms(3) that(3) a] that(1)
    by (simp add: store_inv_def)
  with assms(2,4) I(1) show ?thesis
    unfolding Resolve_commit i a by (auto simp: a c split: if_splits option.splits)
qed

lemma Remove_inv:
  assumes "json_ok env" "store_inv env s" "RemoveByFsUuid env u s = (r, s')"
  shows "store_inv env s'"
proof -
  obtain r1 s1 where i: "Store_Init env s = (r1, s1)" by fastforce
  note I = Init_inv[OF assms(1,2) i]
  obtain r2 s2 where c: "commit env (um_erase u (uuidMap s1)) s1 = (r2, s2)" by fastforce
  have "store_inv env s2" if "r1 = 0"
    using commit_inv(1)[OF I(1) _ _ c] I that by (simp add: store_inv_def map_ok_erase)
  with assms(2,3) I(1) c show ?thesis
    unfolding Remove_commit i by (auto split: if_splits option.splits)
qed

lemma Replace_inv:
  assumes "json_ok env" "store_inv env s" "ascii new" "ReplaceFsUuid env old new s = (r, s')"
  shows "store_inv env s'"
proof -
  obtain r1 s1 where i: "Store_Init env s = (r1, s1)" by fastforce
  note I = Init_inv[OF assms(1,2) i]
  have "store_inv env s2"
    if "r1 = 0" "IsUuidValid new" "map_of (uuidMap s1) old = Some e" "map_of (uuidMap s1) new = None"
      "commit env (um_put (fe_layout env) new (e\<lparr>vu_fsUuid := new\<rparr>) (um_erase old (uuidMap s1))) s1 = (r2, s2)" for e r2 s2
    using commit_inv(1)[OF I(1) _ _ that(5)] I map_ok_replace[OF _ that(3,4,2) assms(3)] that(1)
    by (simp add: store_inv_def)
  with assms(2,4) I(1) show ?thesis
    unfolding Replace_commit i by (auto split: if_splits option.splits)
qed

lemma UnInit_inv: "store_inv env s \<Longrightarrow> store_inv env (snd (Store_UnInit s))"
  by (auto simp: Store_UnInit_def store_inv_def)

section \<open>Every history of the store\<close>

text \<open>
  All the states the store can be in: it starts with no files; any operation may run with any outcome of its
  file operations (the environment may differ from step to step in everything but the JSON library); and the
  device may lose power at any moment, after which the process starts again on the files of that moment (the
  calls of \<open>fsync\<close> having succeeded).
\<close>

definition fresh_store :: "files \<Rightarrow> store" where
  "fresh_store f = \<lparr>uuidMap = [], jsonFilePath = [], initialized = False, files = f, tick = 0, hist = [f]\<rparr>"

definition same_json :: "store_env \<Rightarrow> store_env \<Rightarrow> bool" where
  "same_json env e \<longleftrightarrow> fe_parse e = fe_parse env \<and> fe_dump e = fe_dump env"

inductive store_reach :: "store_env \<Rightarrow> store \<Rightarrow> bool" for env where
  start: "store_reach env (fresh_store (\<lambda>p. None))"
| resolve: "store_reach env s \<Longrightarrow> same_json env e \<Longrightarrow> ascii u \<Longrightarrow> store_reach env (snd (ResolveMountPath e u s))"
| remove: "store_reach env s \<Longrightarrow> same_json env e \<Longrightarrow> store_reach env (snd (RemoveByFsUuid e u s))"
| replace: "store_reach env s \<Longrightarrow> same_json env e \<Longrightarrow> ascii new \<Longrightarrow> store_reach env (snd (ReplaceFsUuid e old new s))"
| init: "store_reach env s \<Longrightarrow> same_json env e \<Longrightarrow> store_reach env (snd (Store_Init e s))"
| uninit: "store_reach env s \<Longrightarrow> store_reach env (snd (Store_UnInit s))"
| crash: "store_reach env s \<Longrightarrow> f \<in> set (hist s) \<Longrightarrow> store_reach env (fresh_store f)"

lemma doc_same: "same_json env e \<Longrightarrow> doc e m = doc env m"
  by (simp add: doc_def same_json_def)

lemma store_inv_same: "same_json env e \<Longrightarrow> store_inv e s = store_inv env s" "same_json env e \<Longrightarrow> json_ok e = json_ok env"
proof -
  assume same: "same_json env e"
  then have "files_ok e = files_ok env"
    by (intro ext) (simp add: files_ok_def file_ok_def doc_same)
  with same show "store_inv e s = store_inv env s" by (simp add: store_inv_def synced_def doc_same)
  show "json_ok e = json_ok env" using same by (simp add: json_ok_def same_json_def)
qed

lemma reach_inv: "store_reach env s \<Longrightarrow> json_ok env \<Longrightarrow> store_inv env s"
proof (induction rule: store_reach.induct)
  case start
  then show ?case
    by (simp add: store_inv_def fs_keeps_def fresh_store_def files_ok_def file_ok_def)
next
  case (resolve s e u)
  then show ?case using Resolve_inv[of e s u] by (metis store_inv_same prod.collapse)
next
  case (remove s e u)
  then show ?case using Remove_inv[of e s u] by (metis store_inv_same prod.collapse)
next
  case (replace s e new old)
  then show ?case using Replace_inv[of e s new old] by (metis store_inv_same prod.collapse)
next
  case (init s e)
  then show ?case using Init_inv(1)[of e s] by (metis store_inv_same prod.collapse)
next
  case (uninit s)
  then show ?case using UnInit_inv by blast
next
  case (crash s f)
  then show ?case by (auto simp: store_inv_def fs_keeps_def fresh_store_def)
qed

section \<open>Properties\<close>

text \<open>A concrete JSON library for the witnesses: documents are numbered, the text is the number in unary.\<close>

instance json :: countable
  by countable_datatype

definition unary_env :: "(nat \<Rightarrow> bool) \<Rightarrow> store_env" where
  "unary_env ok = \<lparr>fe_ok = ok, fe_garbage = (\<lambda>n. []), fe_layout = (\<lambda>m. []),
     fe_parse = (\<lambda>s. if s = [] then None else Some (from_nat (length s - 1))),
     fe_dump = (\<lambda>j. replicate (Suc (to_nat j)) CHR ''x'')\<rparr>"

lemma unary_json: "json_ok (unary_env ok)"
  by (simp add: json_ok_def unary_env_def del: replicate.simps)

lemma unary_same: "same_json (unary_env ok) (unary_env ok')"
  by (simp add: same_json_def unary_env_def)

abbreviation all_ok :: "nat \<Rightarrow> bool" where "all_ok \<equiv> \<lambda>n. True"

definition one_uuid_store :: store where
  "one_uuid_store = snd (ResolveMountPath (unary_env all_ok) ''1A2B-3C4D'' (fresh_store (\<lambda>p. None)))"

lemma one_uuid_reach: "store_reach (unary_env all_ok) one_uuid_store"
  unfolding one_uuid_store_def
  by (rule store_reach.resolve[OF store_reach.start unary_same]) (simp add: ascii_def)

lemma Save_all_ok:
  assumes "\<And>n. fe_ok env n"
  shows "fst (SaveToFile env s) = E_OK"
  using assms by (simp add: SaveToFile_def SaveJsonToFile_def fs_step_def Let_def)

lemma one_uuid_facts:
  "initialized one_uuid_store" "uuidMap one_uuid_store =
     [(''1A2B-3C4D'', \<lparr>vu_fsUuid = ''1A2B-3C4D'', vu_mountPath = ''/mnt/data/voldata/data1'', vu_slotIndex = 1\<rparr>)]"
proof -
  let ?env = "unary_env all_ok" and ?s0 = "fresh_store (\<lambda>p. None)"
  have valid: "IsUuidValid ''1A2B-3C4D''" by code_simp
  have path: "BuildMountPathForSlot 1 = ''/mnt/data/voldata/data1''" by code_simp
  have ok: "fst (SaveToFile ?env s) = 0" for s by (rule Save_all_ok) (simp add: unary_env_def)
  define s1 where "s1 = snd (Store_Init ?env ?s0)"
  obtain r2 s2 where sv: "SaveToFile ?env (?s0\<lparr>jsonFilePath := DISK_MANAGER_JSON, uuidMap := [], tick := Suc 0\<rparr>) = (r2, s2)"
    by fastforce
  have i: "Store_Init ?env ?s0 = (0, s2\<lparr>initialized := True\<rparr>)"
    using ok[of "?s0\<lparr>jsonFilePath := DISK_MANAGER_JSON, uuidMap := [], tick := Suc 0\<rparr>"] sv
    by (simp add: Store_Init_def LoadFromFile_def fs_exists_def fs_step_def fresh_store_def)
  have m2: "uuidMap s2 = []" using SaveToFile_result(1)[OF sv] by simp
  have slot: "AllocateNextSlotLocked [] = (1, [])" by code_simp
  let ?m = "[(''1A2B-3C4D'', \<lparr>vu_fsUuid = ''1A2B-3C4D'', vu_mountPath = ''/mnt/data/voldata/data1'', vu_slotIndex = 1\<rparr>)]"
  have put: "um_put (fe_layout ?env) ''1A2B-3C4D'' \<lparr>vu_fsUuid = ''1A2B-3C4D'', vu_mountPath = ''/mnt/data/voldata/data1'', vu_slotIndex = 1\<rparr> [] = ?m"
    by (simp add: um_put_def)
  obtain r3 s3 where c: "commit ?env ?m (s2\<lparr>initialized := True\<rparr>) = (r3, s3)" by fastforce
  have one: "one_uuid_store = s3"
    unfolding one_uuid_store_def Resolve_commit i using valid m2 c slot path put by simp
  have "r3 = 0" using c ok[of "s2\<lparr>initialized := True, uuidMap := ?m\<rparr>"]
    by (auto simp: commit_def split: prod.splits if_splits)
  with c have sv3: "SaveToFile ?env (s2\<lparr>initialized := True, uuidMap := ?m\<rparr>) = (0, s3)"
    by (auto simp: commit_def split: prod.splits if_splits)
  show "initialized one_uuid_store" "uuidMap one_uuid_store = ?m"
    unfolding one using SaveToFile_result(1,3)[OF sv3] by simp_all
qed

lemma TryGet_Some:
  "TryGetMountPath u s = Some p \<longleftrightarrow> IsUuidValid u \<and> (\<exists>e. map_of (uuidMap s) u = Some e \<and> vu_mountPath e = p)"
  by (auto simp: TryGetMountPath_def)

text \<open>
  C6: over every sequence of operations with any failures of the file system, restarts and power losses,
  two UUIDs never share a mount path, and every mount path is \<open>/mnt/data/voldata/data<n>\<close> with a slot
  number from 1 to 1000.
\<close>

theorem voldata_paths_unique:
  assumes "json_ok env" "store_reach env s" "TryGetMountPath u s = Some p" "TryGetMountPath v s = Some q"
  shows "(p = q \<longrightarrow> u = v) \<and> (\<exists>n. 1 \<le> n \<and> n \<le> MAX_VOLDATA_SLOT_COUNT \<and> p = BuildMountPathForSlot n)"
proof -
  from reach_inv[OF assms(2,1)] have ok: "map_ok (uuidMap s)" by (simp add: store_inv_def)
  from assms(3,4) obtain e f where e: "(u, e) \<in> set (uuidMap s)" "vu_mountPath e = p"
    and f: "(v, f) \<in> set (uuidMap s)" "vu_mountPath f = q"
    by (auto simp: TryGet_Some dest: map_of_SomeD)
  with ok have "entry_ok (u, e)" "entry_ok (v, f)" by (auto simp: map_ok_def)
  moreover have inj: "inj_on (\<lambda>(k, e). vu_slotIndex e) (set (uuidMap s))"
    using ok by (simp add: map_ok_def distinct_map)
  have "vu_slotIndex e = vu_slotIndex f \<longrightarrow> (u, e) = (v, f)"
    using inj_on_eq_iff[OF inj e(1) f(1)] by simp
  ultimately show ?thesis using e(2) f(2) by (auto simp: entry_ok_def)
qed

theorem voldata_paths_unique_witness:
  "\<exists>p. TryGetMountPath ''1A2B-3C4D'' one_uuid_store = Some p
     \<and> (\<exists>n. 1 \<le> n \<and> n \<le> MAX_VOLDATA_SLOT_COUNT \<and> p = BuildMountPathForSlot n)"
proof -
  have "IsUuidValid ''1A2B-3C4D''" by code_simp
  then have "TryGetMountPath ''1A2B-3C4D'' one_uuid_store = Some ''/mnt/data/voldata/data1''"
    by (simp add: TryGetMountPath_def one_uuid_facts)
  with voldata_paths_unique[OF unary_json one_uuid_reach this this] show ?thesis by blast
qed

text \<open>
  Resolving a UUID. A failure leaves the mapping as it was. A success returns the path the UUID has from
  then on; a known UUID keeps its path and nothing changes; a new one gets the least free slot; and as long
  as there are fewer than 1000 entries, no other UUID is affected.
\<close>

theorem ResolveMountPath_spec:
  assumes "json_ok env" "store_reach env s" "initialized s" "ascii u" "ResolveMountPath env u s = (res, s')"
  shows "case res of
       Inl err \<Rightarrow> uuidMap s' = uuidMap s
     | Inr (p, created) \<Rightarrow>
         TryGetMountPath u s' = Some p \<and> (created \<longleftrightarrow> TryGetMountPath u s = None) \<and> (\<not> created \<longrightarrow> s' = s)
         \<and> (length (uuidMap s) < MAX_VOLDATA_SLOT_COUNT \<longrightarrow>
              (\<forall>v. v \<noteq> u \<longrightarrow> TryGetMountPath v s' = TryGetMountPath v s)
              \<and> (created \<longrightarrow> (\<exists>n. p = BuildMountPathForSlot n \<and> n \<notin> slots (uuidMap s) \<and> (\<forall>t. 1 \<le> t \<and> t < n \<longrightarrow> t \<in> slots (uuidMap s)))))"
proof -
  from reach_inv[OF assms(2,1)] have inv: "store_inv env s" and ok: "map_ok (uuidMap s)" by (auto simp: store_inv_def)
  obtain slot m where a: "AllocateNextSlotLocked (uuidMap s) = (slot, m)" by fastforce
  note A = Allocate_ok[OF ok a]
  let ?m = "um_put (fe_layout env) u \<lparr>vu_fsUuid = u, vu_mountPath = BuildMountPathForSlot slot, vu_slotIndex = slot\<rparr> m"
  obtain r2 s2 where c: "commit env ?m s = (r2, s2)" by fastforce
  have i: "Store_Init env s = (0, s)" using assms(3) by (simp add: Store_Init_def)
  have wf: "um_wf m" "um_wf (uuidMap s)" using A(1) ok by (simp_all add: map_ok_def)
  consider "\<not> IsUuidValid u" "res = Inl DISK_MGR_ERR" "s' = s"
    | e where "IsUuidValid u" "map_of (uuidMap s) u = Some e" "res = Inr (vu_mountPath e, False)" "s' = s"
    | "IsUuidValid u" "map_of (uuidMap s) u = None" "r2 \<noteq> 0" "res = Inl r2" "s' = s2"
    | "IsUuidValid u" "map_of (uuidMap s) u = None" "r2 = 0" "res = Inr (BuildMountPathForSlot slot, True)" "s' = s2"
    using assms(5) unfolding Resolve_commit i by (auto simp: a c split: if_splits option.splits)
  then show ?thesis
  proof cases
    case 3
    with commit_inv(3)[OF inv assms(3) map_ok_new_entry[OF ok 3(1) assms(4) 3(2) a] c] show ?thesis by simp
  next
    case 4
    from commit_inv(3)[OF inv assms(3) map_ok_new_entry[OF ok 4(1) assms(4) 4(2) a] c] 4(3)
    have m: "uuidMap s2 = ?m" by simp
    have "\<exists>n. BuildMountPathForSlot slot = BuildMountPathForSlot n \<and> n \<notin> slots (uuidMap s)
        \<and> (\<forall>t. 1 \<le> t \<and> t < n \<longrightarrow> t \<in> slots (uuidMap s))" if "length (uuidMap s) < MAX_VOLDATA_SLOT_COUNT"
      using free_slot_least[OF A(2)] a A(7)[OF that]
      by (intro exI[of _ slot]) (auto simp: AllocateNextSlotLocked_def Let_def)
    with 4 m A(7) show ?thesis by (auto simp: TryGetMountPath_def um.lookup_put[OF wf(1)] um.lookup_put[OF wf(2)])
  qed (auto simp: TryGetMountPath_def)
qed

theorem ResolveMountPath_spec_witness:
  "fst (ResolveMountPath (unary_env all_ok) ''1A2B-3C4D'' one_uuid_store) = Inr (''/mnt/data/voldata/data1'', False)
   \<and> snd (ResolveMountPath (unary_env all_ok) ''1A2B-3C4D'' one_uuid_store) = one_uuid_store"
proof -
  let ?r = "ResolveMountPath (unary_env all_ok) ''1A2B-3C4D'' one_uuid_store"
  have v: "IsUuidValid ''1A2B-3C4D''" by code_simp
  then have f: "fst ?r = Inr (''/mnt/data/voldata/data1'', False)"
    by (simp add: ResolveMountPath_def Store_Init_def one_uuid_facts)
  have "ascii ''1A2B-3C4D''" by (simp add: ascii_def)
  moreover have "?r = (Inr (''/mnt/data/voldata/data1'', False), snd ?r)" using f by (simp add: prod_eq_iff)
  ultimately show ?thesis using ResolveMountPath_spec[OF unary_json one_uuid_reach one_uuid_facts(1)] f by fastforce
qed

text \<open>
  C36: the map survives a restart. Once the store is initialised, a process that starts on the same files and
  whose file operations succeed finds the same path for every UUID.
\<close>

theorem voldata_restart:
  assumes "json_ok env" "store_reach env s" "initialized s" "\<forall>n. fe_ok env n"
    and "Store_Init env (fresh_store (files s)) = (r, s')"
  shows "r = E_OK \<and> (\<forall>u. TryGetMountPath u s' = TryGetMountPath u s)"
proof -
  from reach_inv[OF assms(2,1)] assms(3) have ok: "map_ok (uuidMap s)" and f: "files_ok env (files s)"
    and "synced env s" by (auto simp: store_inv_def fs_keeps_def)
  then obtain m where m: "mset m = mset (uuidMap s)" and main: "files s DISK_MANAGER_JSON = Some (doc env m)"
    by (auto simp: synced_def)
  define s1 where "s1 = (fresh_store (files s))\<lparr>jsonFilePath := DISK_MANAGER_JSON, uuidMap := [], tick := Suc 0\<rparr>"
  have s1: "files s1 = files s" "uuidMap s1 = []" by (simp_all add: s1_def fresh_store_def)
  obtain r2 s2 where l: "LoadJsonFromPath env DISK_MANAGER_JSON s1 = (r2, s2)" by fastforce
  note L = LoadJson_saved[OF assms(1) _ _ s1(2) l, unfolded s1(1), OF f, simplified]
  have r2: "r2 = 0" using L(8) assms(4) main by simp
  with L(6) main obtain m' where m': "mset m' = mset (uuidMap s2)" "doc env m = doc env m'" by auto
  have "map_ok m" "map_ok m'" using ok L(1) m m'(1) map_ok_mset by blast+
  then have "JArray (map (\<lambda>(k, e). ToJson e) m) = JArray (map (\<lambda>(k, e). ToJson e) m')"
    using assms(1) m'(2) json_ascii_doc unfolding json_ok_def doc_def map_ok_def by (metis option.inject)
  then have "map (\<lambda>(k, e). ToJson e) m = map (\<lambda>(k, e). ToJson e) m'" by simp
  then have "mset m = mset m'"
    using load_items_saved[of "[]" m env] load_items_saved[of "[]" m' env] \<open>map_ok m\<close> \<open>map_ok m'\<close> by simp
  then have "mset (uuidMap s2) = mset (uuidMap s)" using m m'(1) by simp
  then have same: "map_of (uuidMap s2) = map_of (uuidMap s)"
    using L(1) by (intro map_of_mset) (simp_all add: map_ok_def)
  have "uuidMap (snd (SaveToFile env t)) = uuidMap t" for t
    using SaveToFile_result(1) by (metis prod.collapse)
  then have "r = 0 \<and> uuidMap s' = uuidMap s2"
    using assms(4,5) l main r2
    by (auto simp: Store_Init_def LoadFromFile_def fs_exists_def fs_step_def fresh_store_def s1_def
        split: prod.splits if_splits)
  with same show ?thesis by (simp add: TryGetMountPath_def)
qed

theorem voldata_restart_witness:
  "fst (Store_Init (unary_env all_ok) (fresh_store (files one_uuid_store))) = E_OK
   \<and> TryGetMountPath ''1A2B-3C4D'' (snd (Store_Init (unary_env all_ok) (fresh_store (files one_uuid_store))))
     = TryGetMountPath ''1A2B-3C4D'' one_uuid_store"
proof -
  have "\<forall>n. fe_ok (unary_env all_ok) n" by (simp add: unary_env_def)
  from voldata_restart[OF unary_json one_uuid_reach one_uuid_facts(1) this prod.collapse[symmetric]] show ?thesis by blast
qed

text \<open>
  C35: saving is atomic for each of the two files. At every moment of a save, whichever of its file
  operations fail, the main file holds the document it held before or the new one, complete, and so does the
  backup.
\<close>

theorem SaveToFile_atomic:
  assumes "SaveToFile env (s\<lparr>hist := []\<rparr>) = (r, s')" "p \<in> {jsonFilePath s, jsonFilePath s @ BACKUP_FILE_SUFFIX}"
  shows "\<forall>f \<in> set (hist s'). f p = files s p \<or> f p = Some (doc env (uuidMap s))"
proof -
  let ?P = "\<lambda>f :: files. f p = files s p \<or> f p = Some (doc env (uuidMap s))"
  have paths: "p \<noteq> jsonFilePath s @ TMP_FILE_SUFFIX" "p \<noteq> bak_path (jsonFilePath s) @ TMP_FILE_SUFFIX"
    using assms(2) by auto
  have "fs_keeps ?P s'"
    by (rule SaveToFile_keeps[OF _ _ _ _ _ assms(1)]) (use paths in \<open>auto simp: fs_keeps_def\<close>)
  then show ?thesis by (simp add: fs_keeps_def)
qed

theorem SaveToFile_atomic_witness:
  "list_all (\<lambda>f. f [] = None \<or> f [] = Some (doc (unary_env (\<lambda>n. n \<noteq> 2)) []))
     (hist (snd (SaveToFile (unary_env (\<lambda>n. n \<noteq> 2)) ((fresh_store (\<lambda>p. None))\<lparr>hist := []\<rparr>))))"
  using SaveToFile_atomic[of "unary_env (\<lambda>n. n \<noteq> 2)" "fresh_store (\<lambda>p. None)" _ _ "[]", OF prod.collapse[symmetric]]
  by (simp add: fresh_store_def list_all_iff)

text \<open>
  After a format, the UUID of a volume changes and its slot is kept: the new UUID has the path of the old
  one, the old UUID has none, and every other UUID is unaffected.
\<close>

theorem ReplaceFsUuid_keeps_path:
  assumes "json_ok env" "store_reach env s" "initialized s" "ascii new" "old \<noteq> new"
    and "TryGetMountPath old s = Some p" "ReplaceFsUuid env old new s = (E_OK, s')"
  shows "TryGetMountPath new s' = Some p \<and> TryGetMountPath old s' = None
     \<and> (\<forall>v. v \<noteq> old \<and> v \<noteq> new \<longrightarrow> TryGetMountPath v s' = TryGetMountPath v s)"
proof -
  from reach_inv[OF assms(2,1)] have inv: "store_inv env s" and ok: "map_ok (uuidMap s)" by (auto simp: store_inv_def)
  from assms(6) obtain e where e: "map_of (uuidMap s) old = Some e" "vu_mountPath e = p" "IsUuidValid old"
    by (auto simp: TryGet_Some)
  let ?m = "um_put (fe_layout env) new (e\<lparr>vu_fsUuid := new\<rparr>) (um_erase old (uuidMap s))"
  have i: "Store_Init env s = (0, s)" using assms(3) by (simp add: Store_Init_def)
  have c: "commit env ?m s = (0, s')" and new: "IsUuidValid new" "map_of (uuidMap s) new = None"
    using assms(5,7) e unfolding Replace_commit i by (auto split: if_splits)
  have "uuidMap s' = ?m"
    using commit_inv(3)[OF inv assms(3) map_ok_replace[OF ok e(1) new(2,1) assms(4)] c] by simp
  moreover have wf: "um_wf (uuidMap s)" using ok by (simp add: map_ok_def)
  ultimately show ?thesis using e new assms(5)
    by (simp add: TryGetMountPath_def um.lookup_put[OF um.wf_erase[OF wf]] um.lookup_erase[OF wf])
qed

theorem ReplaceFsUuid_keeps_path_witness:
  "TryGetMountPath ''5E6F-7A8B'' (snd (ReplaceFsUuid (unary_env all_ok) ''1A2B-3C4D'' ''5E6F-7A8B'' one_uuid_store))
   = Some ''/mnt/data/voldata/data1''"
proof -
  let ?r = "ReplaceFsUuid (unary_env all_ok) ''1A2B-3C4D'' ''5E6F-7A8B'' one_uuid_store"
  have v: "IsUuidValid ''1A2B-3C4D''" "IsUuidValid ''5E6F-7A8B''" by code_simp+
  have t: "TryGetMountPath ''1A2B-3C4D'' one_uuid_store = Some ''/mnt/data/voldata/data1''"
    using v by (simp add: TryGetMountPath_def one_uuid_facts)
  have ok: "fst (SaveToFile (unary_env all_ok) s) = 0" for s by (rule Save_all_ok) (simp add: unary_env_def)
  have "fst ?r = 0"
    using v ok by (auto simp: Replace_commit Store_Init_def one_uuid_facts commit_def split: prod.splits if_splits)
      (metis fst_conv ok)+
  then have "?r = (0, snd ?r)" by (simp add: prod_eq_iff)
  moreover have "ascii ''5E6F-7A8B''" by (simp add: ascii_def)
  ultimately show ?thesis
    using ReplaceFsUuid_keeps_path[OF unary_json one_uuid_reach one_uuid_facts(1) _ _ t, of "''5E6F-7A8B''"] by simp
qed

text \<open>
  An empty main file is taken for a valid empty map even when the backup holds entries: the start
  succeeds, every mapping is gone, and the backup is not consulted.
\<close>

theorem empty_main_ignores_backup:
  assumes "\<forall>n. fe_ok env n" "f DISK_MANAGER_JSON = Some []" "f (DISK_MANAGER_JSON @ BACKUP_FILE_SUFFIX) = Some b"
  shows "fst (Store_Init env (fresh_store f)) = E_OK \<and> uuidMap (snd (Store_Init env (fresh_store f))) = []"
  using assms by (simp add: Store_Init_def LoadFromFile_def LoadJsonFromPath_def fs_exists_def fs_step_def fresh_store_def)

theorem empty_main_ignores_backup_witness:
  "uuidMap (snd (Store_Init (unary_env all_ok)
     (fresh_store ((files one_uuid_store)(DISK_MANAGER_JSON := Some [], bak_path DISK_MANAGER_JSON := Some (doc (unary_env all_ok) (uuidMap one_uuid_store))))))) = []"
  using empty_main_ignores_backup[of "unary_env all_ok"
      "(files one_uuid_store)(DISK_MANAGER_JSON := Some [], bak_path DISK_MANAGER_JSON := Some (doc (unary_env all_ok) (uuidMap one_uuid_store)))"]
  by (simp add: unary_env_def)

end
