(* ===== verification/Dm_BlockInfo.thy ===== *)
theory Dm_BlockInfo
  imports Dm_VoldataStore
begin

text \<open>
  The block-device descriptions of \<^verbatim>\<open>db/block_info_table.cpp\<close>: reading one from a JSON object with
  defaults for what is missing, writing it back with extra members, and filling the table from a
  document of the storage daemon, of which at most twenty objects are taken. The table is a
  \<open>std::unordered_map\<close> that is only ever looked up, so it is an ordered map here. The operations that
  talk to the daemon are in \<^verbatim>\<open>Dm_Registry\<close>.
\<close>

section \<open>Definitions\<close>

record BlockInfo =
  bi_sizeBytes :: int
  bi_vendor :: string
  bi_model :: string
  bi_interfaceType :: string
  bi_rpm :: int
  bi_rotational :: int
  bi_removable :: bool
  bi_serialNumber :: string
  bi_diskId :: string
  bi_devicePath :: string
  bi_port :: string
  bi_devnum :: string
  bi_busnum :: string
  bi_devNode :: string
  bi_scsiBusNum :: string
  bi_fwVersion :: string
  bi_ODD_INFO :: json

definition BlockInfo_zero :: BlockInfo where
  "BlockInfo_zero = \<lparr>bi_sizeBytes = 0, bi_vendor = [], bi_model = [], bi_interfaceType = [], bi_rpm = 0,
     bi_rotational = 0, bi_removable = False, bi_serialNumber = [], bi_diskId = [], bi_devicePath = [], bi_port = [],
     bi_devnum = [], bi_busnum = [], bi_devNode = [], bi_scsiBusNum = [], bi_fwVersion = [], bi_ODD_INFO = JNull\<rparr>"

definition BLOCK_INFO_MAX_COUNT :: nat where "BLOCK_INFO_MAX_COUNT = 20"

text \<open>An object from its members, in the order of the keys.\<close>

definition mk_object :: "(string \<times> json) list \<Rightarrow> (string, json) omap" where
  "mk_object kvs = fold (\<lambda>(k, v). om_put k v) kvs []"

definition TrimAsciiSpaces :: "string \<Rightarrow> string" where
  "TrimAsciiSpaces text = rev (dropWhile c_isspace (rev (dropWhile c_isspace text)))"

definition ReadStringOrEmpty :: "(string, json) omap \<Rightarrow> string \<Rightarrow> string" where
  "ReadStringOrEmpty obj key = (case om_get obj key of Some (JString s) \<Rightarrow> TrimAsciiSpaces s | _ \<Rightarrow> [])"

definition ReadUInt64OrZero :: "(string, json) omap \<Rightarrow> string \<Rightarrow> int" where
  "ReadUInt64OrZero obj key = (case om_get obj key of Some (JNum n) \<Rightarrow> if 0 \<le> n then n else 0 | _ \<Rightarrow> 0)"

definition ReadUInt32OrZero :: "(string, json) omap \<Rightarrow> string \<Rightarrow> int" where
  "ReadUInt32OrZero obj key = (let value = ReadUInt64OrZero obj key in if value \<le> 2 ^ 32 - 1 then value else 0)"

definition ReadInt32OrZero :: "(string, json) omap \<Rightarrow> string \<Rightarrow> int" where
  "ReadInt32OrZero obj key = (case om_get obj key of Some (JNum n) \<Rightarrow> to_int32 n | _ \<Rightarrow> -1)"

definition ReadBoolLikeOrFalse :: "(string, json) omap \<Rightarrow> string \<Rightarrow> bool" where
  "ReadBoolLikeOrFalse obj key =
     (case om_get obj key of Some (JBool b) \<Rightarrow> b | Some (JNum n) \<Rightarrow> to_int32 n \<noteq> 0 | _ \<Rightarrow> False)"

definition FillBlockInfo :: "json \<Rightarrow> BlockInfo \<Rightarrow> bool \<times> BlockInfo" where
  "FillBlockInfo j b =
     (case j of
        JObject obj \<Rightarrow>
          let b1 = b\<lparr>bi_diskId := ReadStringOrEmpty obj ''diskId'',
                     bi_sizeBytes := ReadUInt64OrZero obj ''sizeBytes'',
                     bi_vendor := ReadStringOrEmpty obj ''vendor'',
                     bi_model := ReadStringOrEmpty obj ''model'',
                     bi_devnum := ReadStringOrEmpty obj ''devnum'',
                     bi_busnum := ReadStringOrEmpty obj ''busnum'',
                     bi_devNode := ReadStringOrEmpty obj ''devNode'',
                     bi_scsiBusNum := ReadStringOrEmpty obj ''scsiBusNum'',
                     bi_fwVersion := ReadStringOrEmpty obj ''fwVersion''\<rparr>;
              b2 = (case om_get obj ''ODD_INFO'' of
                      None \<Rightarrow> b1 | Some JNull \<Rightarrow> b1 | Some j \<Rightarrow> b1\<lparr>bi_ODD_INFO := j\<rparr>);
              b3 = b2\<lparr>bi_interfaceType := ReadStringOrEmpty obj ''interfaceType'',
                      bi_rpm := ReadUInt32OrZero obj ''rpm'',
                      bi_rotational := ReadInt32OrZero obj ''rotational'',
                      bi_removable := ReadBoolLikeOrFalse obj ''removable'',
                      bi_serialNumber := ReadStringOrEmpty obj ''serialNumber'',
                      bi_devicePath := ReadStringOrEmpty obj ''devicePath'',
                      bi_port := ReadStringOrEmpty obj ''port''\<rparr>
          in (bi_diskId b3 \<noteq> [], b3)
      | _ \<Rightarrow> (False, b))"

definition BlockInfoToJsonObject :: "BlockInfo \<Rightarrow> (string, json) omap" where
  "BlockInfoToJsonObject b = mk_object
     [(''sizeBytes'', JNum (bi_sizeBytes b)),
      (''vendor'', JString (bi_vendor b)),
      (''model'', JString (bi_model b)),
      (''devnum'', JString (bi_devnum b)),
      (''busnum'', JString (bi_busnum b)),
      (''devNode'', JString (bi_devNode b)),
      (''scsiBusNum'', JString (bi_scsiBusNum b)),
      (''fwVersion'', JString (bi_fwVersion b)),
      (''ODD_INFO'', bi_ODD_INFO b),
      (''interfaceType'', JString (bi_interfaceType b)),
      (''rpm'', JNum (bi_rpm b)),
      (''rotational'', JNum (bi_rotational b)),
      (''removable'', JBool (bi_removable b)),
      (''serialNumber'', JString (bi_serialNumber b)),
      (''diskId'', JString (bi_diskId b)),
      (''devicePath'', JString (bi_devicePath b)),
      (''port'', JString (bi_port b))]"

type_synonym block_map = "(string, BlockInfo) omap"

definition ingestObject :: "json \<Rightarrow> block_map \<Rightarrow> block_map" where
  "ingestObject j m =
     (case FillBlockInfo j BlockInfo_zero of (ok, b) \<Rightarrow> if \<not> ok then m else om_put (bi_diskId b) b m)"

definition walkArray :: "json list \<Rightarrow> block_map \<Rightarrow> block_map" where
  "walkArray js m = fold (\<lambda>j m. case j of JObject _ \<Rightarrow> ingestObject j m | _ \<Rightarrow> m) (take BLOCK_INFO_MAX_COUNT js) m"

definition UpsertObjectsIntoMap :: "json \<Rightarrow> block_map \<Rightarrow> block_map" where
  "UpsertObjectsIntoMap root m =
     (case root of
        JArray js \<Rightarrow> walkArray js m
      | JObject obj \<Rightarrow>
          (case om_get obj ''blocks'' of Some (JArray js) \<Rightarrow> walkArray js m | _ \<Rightarrow> ingestObject root m)
      | _ \<Rightarrow> m)"

definition block_doc :: "BlockInfo \<Rightarrow> (string \<times> string) list \<Rightarrow> json" where
  "block_doc b extraKeyValues =
     JObject (fold (\<lambda>(k, v). om_put k (JString v)) extraKeyValues (BlockInfoToJsonObject b))"

definition ToJsonStringWithExtras :: "(json \<Rightarrow> string) \<Rightarrow> BlockInfo \<Rightarrow> (string \<times> string) list \<Rightarrow> string" where
  "ToJsonStringWithExtras dump b extraKeyValues = dump (block_doc b extraKeyValues)"

section \<open>Lemmas\<close>

lemma mk_object_wf: "om_wf (mk_object kvs)"
  using om.wf_put_all[OF om.wf_empty, of kvs] by (simp add: mk_object_def om.put_all_def)

lemma mk_object_get: "om_get (mk_object kvs) k = map_of (rev kvs) k"
  using om.lookup_put_all[OF om.wf_empty, of kvs k] by (simp add: mk_object_def om.put_all_def split: option.splits)

lemma om_put_length: "length (om_put k v m) \<le> Suc (length m)"
  by (induction k v m rule: om_put.induct) auto

text \<open>What the table holds: an entry under its own non-empty disk id.\<close>

definition block_map_ok :: "block_map \<Rightarrow> bool" where
  "block_map_ok m \<longleftrightarrow> om_wf m \<and> (\<forall>(k, b) \<in> set m. bi_diskId b = k \<and> k \<noteq> [])"

lemma ingestObject_ok: "block_map_ok m \<Longrightarrow> block_map_ok (ingestObject j m)"
proof -
  assume m: "block_map_ok m"
  obtain ok b where f: "FillBlockInfo j BlockInfo_zero = (ok, b)" by fastforce
  then have "ok \<longleftrightarrow> ok \<and> bi_diskId b \<noteq> []"
    by (auto simp: FillBlockInfo_def Let_def split: json.splits)
  moreover have wf: "om_wf (om_put (bi_diskId b) b m)" using m by (simp add: block_map_ok_def)
  moreover have "bi_diskId b' = k \<and> k \<noteq> []"
    if "(k, b') \<in> set (om_put (bi_diskId b) b m)" "bi_diskId b \<noteq> []" for k b'
    using that m om_get_iff[OF wf, of k b'] om_get_iff[of m k b']
    by (auto simp: block_map_ok_def split: if_splits)
  ultimately show ?thesis using m f by (fastforce simp: ingestObject_def block_map_ok_def)
qed

lemma ingestObject_length: "length (ingestObject j m) \<le> Suc (length m)"
  using om_put_length by (auto simp: ingestObject_def split: prod.splits intro: le_SucI)

lemma walkArray_ok: "block_map_ok m \<Longrightarrow> block_map_ok (walkArray js m)"
  unfolding walkArray_def by (rule fold_inv) (auto intro: ingestObject_ok split: json.splits)

lemma walk_length:
  "length (fold (\<lambda>j m. case j of JObject _ \<Rightarrow> ingestObject j m | _ \<Rightarrow> m) js m) \<le> length m + length js"
proof (induction js arbitrary: m)
  case (Cons j js)
  let ?m = "case j of JObject _ \<Rightarrow> ingestObject j m | _ \<Rightarrow> m"
  have "length ?m \<le> Suc (length m)" using ingestObject_length by (auto split: json.splits intro: le_SucI)
  with Cons[of ?m] show ?case by simp
qed simp

lemma walkArray_length: "length (walkArray js m) \<le> length m + BLOCK_INFO_MAX_COUNT"
  using walk_length[of "take BLOCK_INFO_MAX_COUNT js" m] unfolding walkArray_def by simp

section \<open>Properties\<close>

text \<open>Whatever document the daemon sends, the table built from it holds at most twenty entries, each
  under its own non-empty disk id, and no id twice.\<close>

theorem Upsert_bounded:
  "block_map_ok (UpsertObjectsIntoMap root []) \<and> length (UpsertObjectsIntoMap root []) \<le> BLOCK_INFO_MAX_COUNT"
proof -
  have empty: "block_map_ok []" by (simp add: block_map_ok_def)
  have "length (ingestObject root []) \<le> BLOCK_INFO_MAX_COUNT"
    using ingestObject_length[of root "[]"] by (simp add: BLOCK_INFO_MAX_COUNT_def)
  then show ?thesis
    using walkArray_ok[OF empty] ingestObject_ok[OF empty] walkArray_length[of _ "[]"] empty
    by (auto simp: UpsertObjectsIntoMap_def split: json.splits option.splits)
qed

definition block_info_plain :: "BlockInfo \<Rightarrow> bool" where
  "block_info_plain b \<longleftrightarrow>
     (\<forall>s \<in> {bi_vendor b, bi_model b, bi_interfaceType b, bi_serialNumber b, bi_diskId b, bi_devicePath b, bi_port b,
             bi_devnum b, bi_busnum b, bi_devNode b, bi_scsiBusNum b, bi_fwVersion b}. TrimAsciiSpaces s = s) \<and>
     bi_diskId b \<noteq> [] \<and> 0 \<le> bi_sizeBytes b \<and> 0 \<le> bi_rpm b \<and> bi_rpm b < 2 ^ 32 \<and>
     - (2 ^ 31) \<le> bi_rotational b \<and> bi_rotational b < 2 ^ 31"

definition block_keys :: "string list" where
  "block_keys = [''sizeBytes'', ''vendor'', ''model'', ''devnum'', ''busnum'', ''devNode'', ''scsiBusNum'', ''fwVersion'',
     ''ODD_INFO'', ''interfaceType'', ''rpm'', ''rotational'', ''removable'', ''serialNumber'', ''diskId'', ''devicePath'', ''port'']"

lemma extras_get:
  "k \<notin> fst ` set extras \<Longrightarrow> om_get (fold (\<lambda>(k, v). om_put k (JString v)) extras m) k = om_get m k"
  by (induction extras arbitrary: m) auto

lemma FillBlockInfo_cong:
  assumes "\<forall>k \<in> set block_keys. om_get obj k = om_get obj' k"
  shows "FillBlockInfo (JObject obj) b = FillBlockInfo (JObject obj') b"
  using assms
  by (simp add: block_keys_def FillBlockInfo_def ReadStringOrEmpty_def ReadUInt64OrZero_def ReadUInt32OrZero_def
      ReadInt32OrZero_def ReadBoolLikeOrFalse_def)

lemma FillBlockInfo_written:
  assumes "block_info_plain b"
  shows "FillBlockInfo (JObject (BlockInfoToJsonObject b)) BlockInfo_zero = (True, b)"
proof -
  have "to_int32 (bi_rotational b) = bi_rotational b"
    using assms by (intro to_int32_id) (auto simp: block_info_plain_def)
  moreover have "om_get (BlockInfoToJsonObject b) ''ODD_INFO'' = Some (bi_ODD_INFO b)"
    by (simp add: BlockInfoToJsonObject_def mk_object_get)
  ultimately show ?thesis
    using assms
    by (cases b; cases "bi_ODD_INFO b")
      (simp_all add: FillBlockInfo_def BlockInfoToJsonObject_def mk_object_get ReadStringOrEmpty_def ReadUInt64OrZero_def
        ReadUInt32OrZero_def ReadInt32OrZero_def ReadBoolLikeOrFalse_def BlockInfo_zero_def block_info_plain_def Let_def)
qed

text \<open>A description with trimmed strings and numbers in their ranges survives the JSON document that
  \<open>ToJsonStringWithExtras\<close> builds: reading the object back gives the same description, whatever extra
  members were added under other names.\<close>

theorem BlockInfo_json_roundtrip:
  assumes "block_info_plain b" "fst ` set extras \<inter> set block_keys = {}"
    and "json_ok env" "json_ascii (block_doc b extras)"
  shows "map_option (\<lambda>j. FillBlockInfo j BlockInfo_zero)
           (fe_parse env (ToJsonStringWithExtras (fe_dump env) b extras)) = Some (True, b)"
proof -
  have "\<forall>k \<in> set block_keys.
      om_get (fold (\<lambda>(k, v). om_put k (JString v)) extras (BlockInfoToJsonObject b)) k = om_get (BlockInfoToJsonObject b) k"
    using assms(2) by (blast intro: extras_get)
  from FillBlockInfo_cong[OF this] FillBlockInfo_written[OF assms(1)]
  have "FillBlockInfo (block_doc b extras) BlockInfo_zero = (True, b)" by (simp add: block_doc_def)
  with assms(3,4) show ?thesis by (simp add: ToJsonStringWithExtras_def json_ok_def)
qed

text \<open>The document of a USB stick with the encryption status added.\<close>

theorem BlockInfo_json_roundtrip_witness:
  "let b = BlockInfo_zero\<lparr>bi_diskId := ''disk-8-0'', bi_vendor := ''Kingston'', bi_sizeBytes := 64000000000, bi_rotational := 1\<rparr>
   in map_option (\<lambda>j. FillBlockInfo j BlockInfo_zero)
        (fe_parse (unary_env all_ok) (ToJsonStringWithExtras (fe_dump (unary_env all_ok)) b [(''encryptionStatus'', ''2'')]))
      = Some (True, b)"
proof -
  let ?b = "BlockInfo_zero\<lparr>bi_diskId := ''disk-8-0'', bi_vendor := ''Kingston'', bi_sizeBytes := 64000000000, bi_rotational := 1\<rparr>"
  have "block_info_plain ?b" by code_simp
  moreover have "json_ascii (block_doc ?b [(''encryptionStatus'', ''2'')])" by code_simp
  moreover have "fst ` set [(''encryptionStatus'', ''2'')] \<inter> set block_keys = {}" by code_simp
  ultimately show ?thesis
    using BlockInfo_json_roundtrip[OF _ _ unary_json] by (simp only: Let_def)
qed

end
