(* ===== verification/Dm_World.thy ===== *)
theory Dm_World
  imports Dm_Types Dm_BlockInfo Dm_PartTable "HOL-Library.State_Monad"
begin

text \<open>
  The state of the service and the world it runs in. An operation of \<open>DiskManager\<close> is a state transformer
  over the record \<open>dm\<close> (the maps of the class, the UUID store, the block-device table), written with the
  state monad in the order of the C++ statements. Everything outside the repository (the storage daemon
  behind \<open>StorageDaemonAdapter\<close>, system parameters, \<open>statvfs\<close>, the vendor libraries, EDM) is reached by
  \<open>invoke\<close>: the environment answers each call by a reply that depends on the call and on everything that
  happened before, and the call and its reply are recorded in the trace, together with the published events.

  Nearly all locks of the maps are released before a call of the daemon, so other threads may run there: the
  environment also says how they change the state at each call (where the source holds a lock across
  a call, the model allows more interference than the code). \<open>quiet\<close> says they do nothing, \<open>others_keep\<close>
  that they keep an invariant. Between two calls a handler is one step.

  The second part is the calculus the invariants are proved with: \<open>ensures I m R\<close> says that \<open>m\<close> keeps the
  invariant \<open>I\<close> and that its result satisfies \<open>R\<close>.
\<close>

section \<open>Calls and events\<close>

datatype (plugins only: code size) call =
    Sd_QueryUsbIsInUse string
  | Sd_CreateBlockDeviceNode string int int int
  | Sd_DestroyBlockDeviceNode string
  | Sd_ReadPartitionTable string
  | Sd_QueryCDStatus string
  | Sd_Mount string string string "64 word" string
  | Sd_Unmount string string bool
  | Sd_FormatVolume string string string string int
  | Sd_Check string string
  | Sd_Repair string string
  | Sd_SetLabel string string string
  | Sd_ReadMetadata string
  | Sd_GetCapacity string
  | Sd_MountFuseDevice string
  | Sd_Partition string string
  | Sd_GetBlockInfoByType string string
  | Sd_GetPartitionTableInfo string
  | Sd_CreatePartition string int int int string
  | Sd_DeletePartition string string int
  | Sd_FormatPartition string string string "string list" bool
  | Sd_Erase string
  | Sd_Eject string
  | Sd_CreateIsoImage string string string string
  | Sd_Burn string string string
  | Sd_GetVolumeOpProcess string
  | Sd_ExecuteCommand "string list"
  | Sd_GetDiskSize string
  | Sd_CreateDmLinear string int int
  | Lib_FuseMount int string string
  | Lib_FuseUmount string
  | Lib_IsUsbFuseByType string
  | Lib_QueryEncryptionStatus string
  | Lib_NotifyVolumeMounted string string string
  | Edm_NotifyDevice int string string bool int int string
  | Edm_IsAllowedOddBurn int int int string
  | Sg_ReportBurn int string string int
  | Sys_GetParameter string
  | Sys_Close int
  | Sys_statvfs string
  | Sys_ReadFile string
  | Sys_getxattr string string
  | Sys_Sleep int
  | Sys_access string
  | Sys_readlink string
  | Sys_opendir string
  | Sys_stat string
  | Cv_WaitUntil string
  | Sys_realpath string
  | Acc_AcquireAuthorization string int int
  | Acc_ReleaseAuthorization string
  | Sa_Publish
  | Sa_Unload

text \<open>
  One record for all replies: the error code, the output strings and integers of the call in the order of
  its parameters, and a flag (an output \<open>bool\<close>, or whether a library symbol, a file or a parameter exists).
  An output parameter the callee left alone is its initial value.
\<close>

record reply =
  rp_err :: int
  rp_strs :: "string list"
  rp_ints :: "int list"
  rp_flag :: bool

definition rp_str :: "nat \<Rightarrow> reply \<Rightarrow> string" where
  "rp_str i r = (if i < length (rp_strs r) then rp_strs r ! i else [])"

definition rp_int :: "nat \<Rightarrow> int \<Rightarrow> reply \<Rightarrow> int" where
  "rp_int i d r = (if i < length (rp_ints r) then rp_ints r ! i else d)"

datatype action =
    COMMON_EVENT_VOLUME_REMOVED | COMMON_EVENT_VOLUME_UNMOUNTED | COMMON_EVENT_VOLUME_MOUNTED
  | COMMON_EVENT_VOLUME_BAD_REMOVAL | COMMON_EVENT_VOLUME_EJECT | COMMON_EVENT_DISK_UNMOUNTABLE
  | COMMON_EVENT_DISK_BAD_REMOVAL | COMMON_EVENT_DISK_VOLUME_STATE_CHANGE | COMMON_EVENT_DISK_MOUNTED
  | COMMON_EVENT_DISK_REMOVED

datatype want_value = WString string | WInteger int | WLong int

record want =
  w_action :: action
  w_params :: "(string \<times> want_value) list"

text \<open>An event is published to all users or, on a car, to one user.\<close>

datatype item = Call call reply | Event want | EventAsUser want int

section \<open>State and environment\<close>

record DiskConfig =
  dc_sysPattern :: string
  dc_label :: string
  dc_flag :: int

text \<open>The flags of \<open>DiskManagerProvider\<close>; \<open>pv_idleTimer\<close> says that the timer runs.\<close>

record ProviderState =
  pv_dataDiskFormatBusy :: bool
  pv_isUnloading :: bool
  pv_pendingCallbacks :: int
  pv_idleMonitorStopped :: bool
  pv_idleTimer :: bool

record dm =
  diskMap :: "(string, Disk) omap"
  volumeMap :: "(string, VolumeExternal) omap"
  partitionTableMap :: "(string, PartitionTableInfo) omap"
  partitionDoneMap :: "(string, bool) omap"
  partitioningDiskIds :: "string set"
  blockInfoMap :: block_map
  vstore :: store
  diskConfigList :: "DiskConfig list"
  diskPartsSnapshot :: "(string, PartitionRecord list) omap"
  prov :: ProviderState
  trace :: "item list"

record env =
  en_reply :: "item list \<Rightarrow> call \<Rightarrow> reply"
  en_others :: "item list \<Rightarrow> dm \<Rightarrow> dm"
  en_store :: store_env
  en_edm :: bool
  en_cdc :: bool
  en_pc_manager :: bool
  en_ERR_INVALID_DATA :: int
  en_AUTHORIZATION_SUCCESS :: int
  en_fnmatch :: "string \<Rightarrow> string \<Rightarrow> bool"
  en_draw :: "string \<Rightarrow> 64 word \<times> 64 word"

type_synonym 'a dmop = "(dm, 'a) state"

abbreviation ret :: "'a \<Rightarrow> 'a dmop" where "ret \<equiv> State_Monad.return"

definition gets :: "(dm \<Rightarrow> 'a) \<Rightarrow> 'a dmop" where
  "gets f = State (\<lambda>s. (f s, s))"

definition modify :: "(dm \<Rightarrow> dm) \<Rightarrow> unit dmop" where
  "modify f = State (\<lambda>s. ((), f s))"

definition invoke :: "env \<Rightarrow> call \<Rightarrow> reply dmop" where
  "invoke env c = State (\<lambda>s.
     let r = en_reply env (trace s) c in (r, (en_others env (trace s) s)\<lparr>trace := Call c r # trace s\<rparr>))"

definition emit :: "item \<Rightarrow> unit dmop" where
  "emit it = modify (\<lambda>s. s\<lparr>trace := it # trace s\<rparr>)"

definition on_store :: "(store \<Rightarrow> 'a \<times> store) \<Rightarrow> 'a dmop" where
  "on_store f = State (\<lambda>s. case f (vstore s) of (a, st) \<Rightarrow> (a, s\<lparr>vstore := st\<rparr>))"

fun for_each :: "('a \<Rightarrow> unit dmop) \<Rightarrow> 'a list \<Rightarrow> unit dmop" where
  "for_each f [] = ret ()"
| "for_each f (x # xs) = do { f x; for_each f xs }"

definition quiet :: "env \<Rightarrow> bool" where
  "quiet env \<longleftrightarrow> (\<forall>h s. en_others env h s = s)"

definition others_keep :: "env \<Rightarrow> (dm \<Rightarrow> bool) \<Rightarrow> bool" where
  "others_keep env I \<longleftrightarrow> (\<forall>h s. I s \<longrightarrow> I (en_others env h s))"

definition init_dm :: dm where
  "init_dm = \<lparr>diskMap = [], volumeMap = [], partitionTableMap = [], partitionDoneMap = [], partitioningDiskIds = {},
     blockInfoMap = [], vstore = fresh_store (\<lambda>p. None), diskConfigList = [], diskPartsSnapshot = [],
     prov = \<lparr>pv_dataDiskFormatBusy = False, pv_isUnloading = False, pv_pendingCallbacks = 0, pv_idleMonitorStopped = False,
       pv_idleTimer = False\<rparr>, trace = []\<rparr>"

section \<open>Evaluation\<close>

named_theorems run_simps "evaluation of operations"

lemma run_gets [run_simps, simp]: "run_state (gets f) s = (f s, s)"
  by (simp add: gets_def)

lemma run_modify [run_simps, simp]: "run_state (modify f) s = ((), f s)"
  by (simp add: modify_def)

lemma run_emit [run_simps, simp]: "run_state (emit it) s = ((), s\<lparr>trace := it # trace s\<rparr>)"
  by (simp add: emit_def)

lemma run_on_store [run_simps, simp]:
  "run_state (on_store f) s = (fst (f (vstore s)), s\<lparr>vstore := snd (f (vstore s))\<rparr>)"
  by (simp add: on_store_def split: prod.splits)

lemma run_invoke:
  "run_state (invoke env c) s =
     (en_reply env (trace s) c, (en_others env (trace s) s)\<lparr>trace := Call c (en_reply env (trace s) c) # trace s\<rparr>)"
  by (simp add: invoke_def Let_def)

lemma run_invoke_quiet:
  "quiet env \<Longrightarrow>
   run_state (invoke env c) s = (en_reply env (trace s) c, s\<lparr>trace := Call c (en_reply env (trace s) c) # trace s\<rparr>)"
  by (simp add: run_invoke quiet_def)

lemma run_if [run_simps]: "run_state (if b then m else n) s = (if b then run_state m s else run_state n s)"
  by simp

section \<open>Invariants and results\<close>

definition ensures :: "(dm \<Rightarrow> bool) \<Rightarrow> 'a dmop \<Rightarrow> ('a \<Rightarrow> bool) \<Rightarrow> bool" where
  "ensures I m R \<longleftrightarrow> (\<forall>s. I s \<longrightarrow> I (snd (run_state m s)) \<and> R (fst (run_state m s)))"

abbreviation keeps :: "(dm \<Rightarrow> bool) \<Rightarrow> 'a dmop \<Rightarrow> bool" where
  "keeps I m \<equiv> ensures I m (\<lambda>_. True)"

named_theorems ensures_intros "rules that take an operation apart"

lemma ensuresD: "ensures I m R \<Longrightarrow> I s \<Longrightarrow> run_state m s = (a, t) \<Longrightarrow> I t \<and> R a"
  unfolding ensures_def by (metis fst_conv snd_conv)

lemma ensures_weaken: "ensures I m R \<Longrightarrow> (\<And>a. R a \<Longrightarrow> R' a) \<Longrightarrow> ensures I m R'"
  unfolding ensures_def by blast

lemma ensures_keeps: "ensures I m R \<Longrightarrow> keeps I m"
  unfolding ensures_def by blast

lemma ensures_conj: "ensures I m R \<Longrightarrow> ensures I m R' \<Longrightarrow> ensures I m (\<lambda>a. R a \<and> R' a)"
  unfolding ensures_def by blast

lemma ensures_return [ensures_intros]: "R a \<Longrightarrow> ensures I (ret a) R"
  by (simp add: ensures_def)

lemma ensures_bind: "ensures I m R' \<Longrightarrow> (\<And>a. R' a \<Longrightarrow> ensures I (f a) R) \<Longrightarrow> ensures I (State_Monad.bind m f) R"
  by (fastforce simp: ensures_def split: prod.splits)

lemma ensures_bind_keeps [ensures_intros]:
  "keeps I m \<Longrightarrow> (\<And>a. ensures I (f a) R) \<Longrightarrow> ensures I (State_Monad.bind m f) R"
  by (rule ensures_bind)

lemma ensures_if [ensures_intros]:
  "(b \<Longrightarrow> ensures I m R) \<Longrightarrow> (\<not> b \<Longrightarrow> ensures I n R) \<Longrightarrow> ensures I (if b then m else n) R"
  by simp

lemma ensures_option [ensures_intros]:
  "(x = None \<Longrightarrow> ensures I m R) \<Longrightarrow> (\<And>v. x = Some v \<Longrightarrow> ensures I (f v) R) \<Longrightarrow>
   ensures I (case x of None \<Rightarrow> m | Some v \<Rightarrow> f v) R"
  by (cases x) auto

lemma ensures_prod [ensures_intros]:
  "(\<And>a b. x = (a, b) \<Longrightarrow> ensures I (f a b) R) \<Longrightarrow> ensures I (case x of (a, b) \<Rightarrow> f a b) R"
  by (cases x) auto

lemma ensures_sum [ensures_intros]:
  "(\<And>a. x = Inl a \<Longrightarrow> ensures I (f a) R) \<Longrightarrow> (\<And>b. x = Inr b \<Longrightarrow> ensures I (g b) R) \<Longrightarrow>
   ensures I (case x of Inl a \<Rightarrow> f a | Inr b \<Rightarrow> g b) R"
  by (cases x) auto

lemma ensures_let [ensures_intros]: "(\<And>x. x = e \<Longrightarrow> ensures I (f x) R) \<Longrightarrow> ensures I (let x = e in f x) R"
  by simp

lemma ensures_gets: "(\<And>s. I s \<Longrightarrow> R (f s)) \<Longrightarrow> ensures I (gets f) R"
  by (simp add: ensures_def)

lemma keeps_gets [ensures_intros]: "keeps I (gets f)"
  by (simp add: ensures_def)

lemma ensures_modify: "(\<And>s. I s \<Longrightarrow> I (f s)) \<Longrightarrow> R () \<Longrightarrow> ensures I (modify f) R"
  by (simp add: ensures_def)

lemma keeps_for_each [ensures_intros]: "(\<And>x. keeps I (f x)) \<Longrightarrow> keeps I (for_each f xs)"
  by (induction xs) (auto intro: ensures_intros)

text \<open>
  The contract of the invariants of the maps: they do not look at the trace or at the store. The rules for
  calls, events and store operations hold for each of them.
\<close>

locale map_invariant =
  fixes I :: "dm \<Rightarrow> bool"
  assumes trace_irrelevant: "I (s\<lparr>trace := t\<rparr>) = I s"
    and store_irrelevant: "I (s\<lparr>vstore := st\<rparr>) = I s"
    and initial: "I init_dm"
begin

lemma keeps_emit: "keeps I (emit it)"
  by (simp add: ensures_def trace_irrelevant)

lemma keeps_on_store: "keeps I (on_store f)"
  by (simp add: ensures_def store_irrelevant)

lemma keeps_invoke: "others_keep env I \<Longrightarrow> keeps I (invoke env c)"
  by (simp add: ensures_def run_invoke others_keep_def trace_irrelevant)

end

text \<open>A sequence of operations, each with an environment the other threads of which keep the invariant.\<close>

lemma others_keep_quiet: "quiet env \<Longrightarrow> others_keep env I"
  by (simp add: quiet_def others_keep_def)

text \<open>A concrete environment for the witnesses: no other thread, the given replies.\<close>

definition calm :: "(item list \<Rightarrow> call \<Rightarrow> reply) \<Rightarrow> env" where
  "calm f = \<lparr>en_reply = f, en_others = (\<lambda>h s. s), en_store = unary_env all_ok, en_edm = True, en_cdc = False,
     en_pc_manager = True, en_ERR_INVALID_DATA = 5, en_AUTHORIZATION_SUCCESS = 0, en_fnmatch = (=), en_draw = (\<lambda>_. (0, 0))\<rparr>"

definition ok_reply :: reply where
  "ok_reply = \<lparr>rp_err = 0, rp_strs = [], rp_ints = [], rp_flag = True\<rparr>"

lemma quiet_calm: "quiet (calm f)"
  by (simp add: quiet_def calm_def)

end
