(* ===== verification/Dm_Registry.thy ===== *)
theory Dm_Registry
  imports Dm_World
begin

text \<open>
  The registry of \<^verbatim>\<open>disk/disk_manager.cpp\<close>: recording and forgetting disks and volumes, the look-ups, the
  listings of the public API, the de-duplication of file-system UUIDs, and the sizes of a volume, with the
  operations of \<open>BlockInfoTable\<close> that call the daemon. The invariant \<open>registry_inv\<close> says that both maps are
  keyed by the identifiers of their entries. Products of block counts and sizes are taken in the integers:
  signed overflow is undefined in the source.
\<close>

section \<open>Definitions\<close>

subsection \<open>Look-ups\<close>

type_synonym volume_map = "(string, VolumeExternal) omap"

definition om_insert :: "'k :: linorder \<Rightarrow> 'v \<Rightarrow> ('k, 'v) omap \<Rightarrow> ('k, 'v) omap" where
  "om_insert k v m = (if om_get m k = None then om_put k v m else m)"

definition DEV_BLOCK_PREFIX :: string where "DEV_BLOCK_PREFIX = ''/dev/block/''"

definition AttachVolumeIdsToDisk :: "volume_map \<Rightarrow> Disk \<Rightarrow> Disk" where
  "AttachVolumeIdsToDisk vm disk =
     disk\<lparr>d_volumeIds := map (\<lambda>(k, v). vc_id v) (filter (\<lambda>(k, v). vc_diskId v = d_diskId disk) vm)\<rparr>"

definition LookupVolumeByUuidUnlocked :: "volume_map \<Rightarrow> string \<Rightarrow> VolumeExternal option" where
  "LookupVolumeByUuidUnlocked vm fsUuid = map_option snd (find (\<lambda>(k, v). ve_fsUuid v = fsUuid) vm)"

definition IsUuidOccupiedUnlocked :: "volume_map \<Rightarrow> string \<Rightarrow> string \<Rightarrow> bool" where
  "IsUuidOccupiedUnlocked vm volumeId uuid = list_ex (\<lambda>(k, v). k \<noteq> volumeId \<and> ve_fsUuid v = uuid) vm"

definition dedup_candidate :: "string \<Rightarrow> nat \<Rightarrow> string" where
  "dedup_candidate fsUuid k = fsUuid @ ''_'' @ to_string k"

lemma dedup_candidate_inject: "dedup_candidate u i = dedup_candidate u j \<longleftrightarrow> i = j"
  by (auto simp: dedup_candidate_def to_string_inject)

lemma occupied_finite: "finite {k. IsUuidOccupiedUnlocked vm volumeId (dedup_candidate u k)}"
proof (rule finite_imageD)
  show "finite (dedup_candidate u ` {k. IsUuidOccupiedUnlocked vm volumeId (dedup_candidate u k)})"
    by (rule finite_subset[of _ "(\<lambda>(k, v). ve_fsUuid v) ` set vm"])
      (force simp: IsUuidOccupiedUnlocked_def list_ex_iff)+
  show "inj_on (dedup_candidate u) {k. IsUuidOccupiedUnlocked vm volumeId (dedup_candidate u k)}"
    by (simp add: inj_on_def dedup_candidate_inject)
qed

text \<open>
  The loop over the sequence numbers. The source counts in 32 bits; \<open>DedupFsUuid_spec\<close> below shows that the
  count never exceeds the number of volumes.
\<close>

function dedup_loop :: "volume_map \<Rightarrow> string \<Rightarrow> string \<Rightarrow> nat \<Rightarrow> string" where
  "dedup_loop vm volumeId fsUuid k =
     (if \<not> IsUuidOccupiedUnlocked vm volumeId (dedup_candidate fsUuid k) then dedup_candidate fsUuid k
      else dedup_loop vm volumeId fsUuid (Suc k))"
  by pat_completeness auto

termination
proof (relation "measure (\<lambda>(vm, volumeId, u, k).
    card {i. k \<le> i \<and> IsUuidOccupiedUnlocked vm volumeId (dedup_candidate u i)})", goal_cases)
  case (2 vm volumeId u k)
  let ?S = "\<lambda>k. {i. k \<le> i \<and> IsUuidOccupiedUnlocked vm volumeId (dedup_candidate u i)}"
  have "finite (?S k)" by (rule finite_subset[OF _ occupied_finite[of vm volumeId u]]) auto
  moreover have "?S (Suc k) \<subset> ?S k" using 2 by (auto simp: psubset_eq set_eq_iff intro: exI[of _ k])
  ultimately show ?case by (simp add: psubset_card_mono)
qed simp

declare dedup_loop.simps [simp del]

definition DedupFsUuidUnlocked :: "volume_map \<Rightarrow> string \<Rightarrow> string \<Rightarrow> string" where
  "DedupFsUuidUnlocked vm volumeId fsUuid =
     (if \<not> IsUuidOccupiedUnlocked vm volumeId fsUuid then fsUuid else dedup_loop vm volumeId fsUuid 1)"

definition GetVolumePath :: "string \<Rightarrow> string dmop" where
  "GetVolumePath volumeUuid = do {
     vm \<leftarrow> gets volumeMap;
     ret (case LookupVolumeByUuidUnlocked vm volumeUuid of None \<Rightarrow> [] | Some vol \<Rightarrow> ve_path vol) }"

definition MapToPublicVolumeState :: "int \<Rightarrow> int" where
  "MapToPublicVolumeState internalState =
     (if internalState = vs_code MOUNTED \<or> internalState = vs_code DAMAGED_MOUNTED then vs_code MOUNTED
      else if internalState = vs_code CHECKING \<or> internalState = vs_code ENCRYPTING \<or>
              internalState = vs_code DECRYPTING then vs_code CHECKING
      else if internalState = vs_code EJECTING then vs_code EJECTING
      else vs_code UNMOUNTED)"

definition IsOddFsType :: "string \<Rightarrow> bool" where
  "IsOddFsType fsType \<longleftrightarrow> fsType = ''udf'' \<or> fsType = ''iso9660''"

definition GetVolumeById :: "string \<Rightarrow> (errno + VolumeExternal) dmop" where
  "GetVolumeById volumeId = do {
     vm \<leftarrow> gets volumeMap;
     ret (case om_get vm volumeId of None \<Rightarrow> Inl E_NON_EXIST | Some v \<Rightarrow> Inr v) }"

definition GetVolumeByUuid :: "string \<Rightarrow> (errno + VolumeExternal) dmop" where
  "GetVolumeByUuid fsUuid = do {
     vm \<leftarrow> gets volumeMap;
     ret (case LookupVolumeByUuidUnlocked vm fsUuid of None \<Rightarrow> Inl E_NON_EXIST | Some v \<Rightarrow> Inr v) }"

definition HasDisk :: "string \<Rightarrow> bool dmop" where
  "HasDisk diskId = gets (\<lambda>s. om_get (diskMap s) diskId \<noteq> None)"

definition HasManagedResources :: "bool dmop" where
  "HasManagedResources = gets (\<lambda>s. diskMap s \<noteq> [] \<or> volumeMap s \<noteq> [])"

definition ResolveVolumeFlagsUnlocked :: "(string, Disk) omap \<Rightarrow> string \<Rightarrow> int" where
  "ResolveVolumeFlagsUnlocked dmap diskId =
     (case om_get dmap diskId of
        Some d \<Rightarrow> if d_diskType d \<noteq> dt_code DISK_TYPE_UNKNOWN then d_diskType d else dt_code USB_FLAG
      | None \<Rightarrow> dt_code USB_FLAG)"

text \<open>\<open>CheckVolId\<close>: the device node of a volume; an encrypted volume has its mapper or loop device.\<close>

definition CheckVolId :: "string \<Rightarrow> string dmop" where
  "CheckVolId volId =
     (if volId = [] then ret []
      else do {
        r \<leftarrow> GetVolumeById volId;
        ret (case r of
               Inl _ \<Rightarrow> []
             | Inr ext \<Rightarrow>
                 if starts_with ''vol-crypt-'' volId then
                   if ve_mapperPath ext \<noteq> [] then ve_mapperPath ext
                   else if ve_loopPath ext \<noteq> [] then ve_loopPath ext
                   else []
                 else DEV_BLOCK_PREFIX @ volId) })"

subsection \<open>Changes\<close>

definition OnDiskCreated :: "Disk \<Rightarrow> errno dmop" where
  "OnDiskCreated disk = do {
     m \<leftarrow> gets diskMap;
     if om_get m (d_diskId disk) \<noteq> None then ret E_DISK_HAS_EXIST
     else do { modify (diskMap_update (om_insert (d_diskId disk) disk)); ret E_OK } }"

definition OnDiskDestroyed :: "string \<Rightarrow> errno dmop" where
  "OnDiskDestroyed diskId = do {
     m \<leftarrow> gets diskMap;
     if om_get m diskId = None then ret E_DISK_NOT_FOUND
     else do { modify (diskMap_update (om_erase diskId)); ret E_OK } }"

definition UpdateDisk :: "Disk \<Rightarrow> errno dmop" where
  "UpdateDisk disk = do {
     m \<leftarrow> gets diskMap;
     if om_get m (d_diskId disk) = None then ret E_NON_EXIST
     else do { modify (diskMap_update (om_mod (d_diskId disk) (\<lambda>_. disk))); ret E_OK } }"

definition OnVolumeCreated :: "VolumeExternal \<Rightarrow> errno dmop" where
  "OnVolumeCreated volExternal = do {
     dmap \<leftarrow> gets diskMap;
     let vol = volExternal\<lparr>ve_flags := ResolveVolumeFlagsUnlocked dmap (vc_diskId volExternal)\<rparr>;
     modify (volumeMap_update (om_insert (vc_id vol) vol));
     ret E_OK }"

definition OnVolumeDestroyed :: "string \<Rightarrow> errno dmop" where
  "OnVolumeDestroyed volumeId = do {
     m \<leftarrow> gets volumeMap;
     if om_get m volumeId = None then ret E_NON_EXIST
     else do { modify (volumeMap_update (om_erase volumeId)); ret E_OK } }"

definition SetVolumeStateLocked :: "string \<Rightarrow> VolumeState \<Rightarrow> unit dmop" where
  "SetVolumeStateLocked volumeId st = modify (volumeMap_update (om_mod volumeId (vc_state_update (\<lambda>_. vs_code st))))"

definition UpdateVolumeExternal :: "VolumeExternal \<Rightarrow> errno dmop" where
  "UpdateVolumeExternal volExternal = do {
     m \<leftarrow> gets volumeMap;
     if om_get m (vc_id volExternal) = None then ret E_NON_EXIST
     else do { modify (volumeMap_update (om_mod (vc_id volExternal) (\<lambda>_. volExternal))); ret E_OK } }"

definition UpdateVolumeMetadata :: "string \<Rightarrow> string \<Rightarrow> string \<Rightarrow> string \<Rightarrow> errno dmop" where
  "UpdateVolumeMetadata volumeId fsUuid fsTypeStr description = do {
     m \<leftarrow> gets volumeMap;
     if om_get m volumeId = None then ret E_NON_EXIST
     else do {
       let resolvedUuid = DedupFsUuidUnlocked m volumeId fsUuid;
       modify (volumeMap_update (om_mod volumeId (\<lambda>v.
         v\<lparr>ve_fsUuid := resolvedUuid, ve_fsType := GetFsTypeByStr fsTypeStr, ve_description := description\<rparr>)));
       ret E_OK } }"

definition cd_code :: "CdromState \<Rightarrow> int" where
  "cd_code c = (case c of NO_DISC \<Rightarrow> 0 | EMPTY_DISC \<Rightarrow> 1 | NON_EMPTY_DISC \<Rightarrow> 2 | QUERY_FAILED \<Rightarrow> 3)"

text \<open>The object a text holds, or the empty object when it does not hold one.\<close>

definition object_of :: "env \<Rightarrow> string \<Rightarrow> (string, json) omap option" where
  "object_of env extraInfo =
     (if extraInfo = [] then None
      else case fe_parse (en_store env) extraInfo of Some (JObject obj) \<Rightarrow> Some obj | _ \<Rightarrow> None)"

definition SetVolumeDiscState :: "env \<Rightarrow> string \<Rightarrow> CdromState \<Rightarrow> errno dmop" where
  "SetVolumeDiscState env volumeId discState = do {
     m \<leftarrow> gets volumeMap;
     case om_get m volumeId of
       None \<Rightarrow> ret E_NON_EXIST
     | Some v \<Rightarrow> do {
         let root = (case object_of env (vc_extraInfo v) of None \<Rightarrow> [] | Some obj \<Rightarrow> obj);
         let info = (case om_get root ''ODD_INFO'' of Some (JObject o1) \<Rightarrow> o1 | _ \<Rightarrow> []);
         let root2 = om_put ''ODD_INFO'' (JObject (om_put ''DISC_STATE'' (JNum (cd_code discState)) info)) root;
         modify (volumeMap_update (om_mod volumeId
           (vc_extraInfo_update (\<lambda>_. fe_dump (en_store env) (JObject root2)))));
         ret E_OK } }"

definition odd_info_string :: "env \<Rightarrow> string \<Rightarrow> string \<Rightarrow> string" where
  "odd_info_string env key extraInfo =
     (case object_of env extraInfo of
        None \<Rightarrow> []
      | Some obj \<Rightarrow>
          (case om_get obj ''ODD_INFO'' of
             Some (JObject o1) \<Rightarrow> (case om_get o1 key of Some (JString s) \<Rightarrow> s | _ \<Rightarrow> [])
           | _ \<Rightarrow> []))"

definition GetDiscType :: "env \<Rightarrow> string \<Rightarrow> string" where
  "GetDiscType env extraInfo = odd_info_string env ''DISC_TYPE'' extraInfo"

definition GetDriverType :: "env \<Rightarrow> string \<Rightarrow> string" where
  "GetDriverType env extraInfo = odd_info_string env ''DRIVE_TYPE'' extraInfo"

subsection \<open>The block-device table\<close>

definition ReloadFromDaemon :: "env \<Rightarrow> errno dmop" where
  "ReloadFromDaemon env = do {
     r \<leftarrow> invoke env (Sd_GetBlockInfoByType ''data'' []);
     let text = rp_str 0 r;
     if rp_err r \<noteq> E_OK then ret (rp_err r)
     else if text = [] then do { modify (blockInfoMap_update (\<lambda>_. [])); ret E_OK }
     else case fe_parse (en_store env) text of
       None \<Rightarrow> ret (en_ERR_INVALID_DATA env)
     | Some root \<Rightarrow> do { modify (blockInfoMap_update (\<lambda>_. UpsertObjectsIntoMap root [])); ret E_OK } }"

definition TryCopyByDiskId :: "string \<Rightarrow> BlockInfo option dmop" where
  "TryCopyByDiskId diskId = gets (\<lambda>s. om_get (blockInfoMap s) diskId)"

definition ReadExtDiskInfoFromDaemon :: "env \<Rightarrow> string \<Rightarrow> BlockInfo \<Rightarrow> (errno \<times> BlockInfo) dmop" where
  "ReadExtDiskInfoFromDaemon env devName info = do {
     r \<leftarrow> invoke env (Sd_GetBlockInfoByType devName (bi_diskId info));
     let text = rp_str 0 r;
     if rp_err r \<noteq> E_OK then ret (rp_err r, info)
     else if text = [] then ret (E_OK, info)
     else case fe_parse (en_store env) text of
       None \<Rightarrow> ret (en_ERR_INVALID_DATA env, info)
     | Some root \<Rightarrow>
         ret (E_OK, case om_get (UpsertObjectsIntoMap root []) (bi_diskId info) of None \<Rightarrow> info | Some b \<Rightarrow> b) }"

definition QueryEncryptionStatus :: "env \<Rightarrow> string \<Rightarrow> (bool \<times> int) dmop" where
  "QueryEncryptionStatus env volPath = do {
     r \<leftarrow> invoke env (Lib_QueryEncryptionStatus volPath);
     ret (if \<not> rp_flag r then (False, 0) else (rp_err r = 0, rp_int 0 0 r)) }"

definition QueryAndAppendEncryptionStatusUnlocked :: "env \<Rightarrow> Disk \<Rightarrow> Disk dmop" where
  "QueryAndAppendEncryptionStatusUnlocked env disk =
     (if d_volumeIds disk = [] then ret disk
      else do {
        vm \<leftarrow> gets volumeMap;
        let paths = List.map_filter (\<lambda>vid. map_option ve_path (om_get vm vid)) (d_volumeIds disk);
        case find (\<lambda>p. p \<noteq> [] \<and> starts_with ''/mnt/data/voldata/data'' p) paths of
          None \<Rightarrow> ret disk
        | Some volPath \<Rightarrow> do {
            (ok, encStatus) \<leftarrow> QueryEncryptionStatus env volPath;
            if \<not> ok then ret disk
            else do {
              b \<leftarrow> TryCopyByDiskId (d_diskId disk);
              ret (case b of
                     None \<Rightarrow> disk
                   | Some blockInfo \<Rightarrow> disk\<lparr>d_extraInfo :=
                       ToJsonStringWithExtras (fe_dump (en_store env)) blockInfo
                         [(''encryptionStatus'', int_to_string encStatus)]\<rparr>) } } })"

subsection \<open>Listings\<close>

definition attach_and_query :: "env \<Rightarrow> volume_map \<Rightarrow> Disk \<Rightarrow> Disk dmop" where
  "attach_and_query env vm disk =
     (let d = AttachVolumeIdsToDisk vm disk in
      if d_diskType d = dt_code DATA_DISK_SSD \<or> d_diskType d = dt_code DATA_DISK_HDD
      then QueryAndAppendEncryptionStatusUnlocked env d else ret d)"

definition GetDiskById :: "env \<Rightarrow> string \<Rightarrow> (errno + Disk) dmop" where
  "GetDiskById env diskId = do {
     m \<leftarrow> gets diskMap;
     vm \<leftarrow> gets volumeMap;
     case om_get m diskId of
       None \<Rightarrow> ret (Inl E_NON_EXIST)
     | Some disk \<Rightarrow> do { d \<leftarrow> attach_and_query env vm disk; ret (Inr d) } }"

definition GetAllDisks :: "env \<Rightarrow> Disk list dmop" where
  "GetAllDisks env = do {
     m \<leftarrow> gets diskMap;
     vm \<leftarrow> gets volumeMap;
     State_Monad.traverse_list (attach_and_query env vm) (map snd m) }"

definition cd_pseudo_volume :: "env \<Rightarrow> Disk \<Rightarrow> VolumeExternal" where
  "cd_pseudo_volume env disk =
     (let core = VolumeCore_ctor6 ''0'' (dt_code CD_FLAG) (d_diskId disk) (vs_code MOUNTED) ''udf'' (d_extraInfo disk);
          discType = GetDriverType env (d_extraInfo disk)
      in (VolumeExternal_ctor core)\<lparr>ve_fsType := GetFsTypeByStr ''udf'',
            ve_description := (if discType = [] then ''DVD RW'' else discType)\<rparr>)"

definition GetAllVolumes :: "env \<Rightarrow> VolumeExternal list dmop" where
  "GetAllVolumes env = do {
     dmap \<leftarrow> gets diskMap;
     vm \<leftarrow> gets volumeMap;
     let vols = map snd vm;
     let dvdDiskIds = map vc_diskId (filter (\<lambda>v. ve_fsType v = fs_code UDF \<or> ve_fsType v = fs_code ISO9660) vols);
     ret (vols @ map (cd_pseudo_volume env)
       (filter (\<lambda>d. d_diskType d = dt_code CD_FLAG \<and> d_diskId d \<notin> set dvdDiskIds) (map snd dmap))) }"

definition GetExternalDiskInfos :: "ExternalDiskInfo list dmop" where
  "GetExternalDiskInfos = do {
     dmap \<leftarrow> gets diskMap;
     vm \<leftarrow> gets volumeMap;
     ret (map (\<lambda>(k, d). \<lparr>ed_diskId = d_diskId d, ed_diskType = d_diskType d,
            ed_volumeIds = map (\<lambda>(k, v). vc_id v) (filter (\<lambda>(k, v). vc_diskId v = d_diskId d) vm),
            ed_vendorId = d_vendorId d, ed_productId = d_productId d\<rparr>)
          (filter (\<lambda>(k, d). \<not> Disk_IsInternalDataDisk d) dmap)) }"

subsection \<open>Sizes\<close>

definition GetOddCapacity :: "env \<Rightarrow> string \<Rightarrow> (errno \<times> int \<times> int) dmop" where
  "GetOddCapacity env devPath =
     (if devPath = [] then ret (DISK_MGR_ERR, 0, 0)
      else do {
        r \<leftarrow> invoke env (Sd_GetCapacity devPath);
        ret (rp_err r, rp_int 0 0 r, rp_int 1 0 r) })"

text \<open>\<open>statvfs\<close> gives \<open>f_bsize\<close>, \<open>f_blocks\<close> and \<open>f_bfree\<close>.\<close>

definition GetOddFreeSize :: "env \<Rightarrow> string \<Rightarrow> string \<Rightarrow> reply \<Rightarrow> (errno \<times> int) dmop" where
  "GetOddFreeSize env extraInfo blockVolId diskInfo =
     (let discType = GetDiscType env extraInfo;
          startTotalSize = rp_int 0 0 diskInfo * rp_int 1 0 diskInfo;
          startFreeSize = rp_int 0 0 diskInfo * rp_int 2 0 diskInfo
      in if contains discType ''ROM'' then ret (E_OK, 0)
      else do {
        (oddRet, totalSize, freeSize) \<leftarrow> GetOddCapacity env (DEV_BLOCK_PREFIX @ blockVolId);
        ret (if contains discType ''CD'' then (oddRet, freeSize)
             else if freeSize \<noteq> 0 then (oddRet, freeSize)
             else if startFreeSize = 0 then (E_OK, totalSize - startTotalSize)
             else (E_OK, startFreeSize)) })"

definition GetFreeSizeOfVolume :: "env \<Rightarrow> string \<Rightarrow> (errno \<times> int) dmop" where
  "GetFreeSizeOfVolume env volumeUuid = do {
     vm \<leftarrow> gets volumeMap;
     case LookupVolumeByUuidUnlocked vm volumeUuid of
       None \<Rightarrow> ret (E_NON_EXIST, 0)
     | Some vol \<Rightarrow>
         if ve_path vol = [] then ret (E_NON_EXIST, 0)
         else do {
           r \<leftarrow> invoke env (Sys_statvfs (ve_path vol));
           if rp_err r \<noteq> 0 then ret (E_STATVFS, 0)
           else if IsOddFsType (GetFsTypeString vol) then GetOddFreeSize env (vc_extraInfo vol) (vc_id vol) r
           else ret (E_OK, rp_int 0 0 r * rp_int 2 0 r) } }"

definition GetTotalSizeOfVolume :: "env \<Rightarrow> string \<Rightarrow> (errno \<times> int) dmop" where
  "GetTotalSizeOfVolume env volumeUuid = do {
     vm \<leftarrow> gets volumeMap;
     case LookupVolumeByUuidUnlocked vm volumeUuid of
       None \<Rightarrow> ret (E_NON_EXIST, 0)
     | Some vol \<Rightarrow>
         if ve_path vol = [] then ret (E_NON_EXIST, 0)
         else do {
           r \<leftarrow> invoke env (Sys_statvfs (ve_path vol));
           if rp_err r \<noteq> 0 then ret (E_STATVFS, 0)
           else if IsOddFsType (GetFsTypeString vol) then do {
             (oddRet, totalSize, freeSize) \<leftarrow> GetOddCapacity env (DEV_BLOCK_PREFIX @ vc_id vol);
             ret (E_OK, totalSize) }
           else ret (E_OK, rp_int 0 0 r * rp_int 1 0 r) } }"

definition external_volume_info :: "env \<Rightarrow> VolumeExternal \<Rightarrow> ExternalVolumeInfo dmop" where
  "external_volume_info env vol = do {
     let st = MapToPublicVolumeState (vc_state vol);
     (totalSize, freeSize) \<leftarrow>
       (if st = vs_code MOUNTED then do {
          t \<leftarrow> GetTotalSizeOfVolume env (ve_fsUuid vol);
          f \<leftarrow> GetFreeSizeOfVolume env (ve_fsUuid vol);
          ret (snd t, snd f) }
        else ret (0, 0));
     ret \<lparr>ev_volumeId = vc_id vol, ev_uuid = ve_fsUuid vol, ev_diskId = vc_diskId vol,
       ev_description = ve_description vol, ev_state = st, ev_totalSize = totalSize, ev_freeSize = freeSize,
       ev_path = ve_path vol, ev_fsType = GetFsTypeString vol\<rparr> }"

definition GetExternalVolumeInfos :: "env \<Rightarrow> ExternalVolumeInfo list dmop" where
  "GetExternalVolumeInfos env = do {
     dmap \<leftarrow> gets diskMap;
     let externalDiskIds = map (\<lambda>(k, d). d_diskId d) (filter (\<lambda>(k, d). \<not> Disk_IsInternalDataDisk d) dmap);
     vm \<leftarrow> gets volumeMap;
     let candidates = map snd (filter (\<lambda>(k, v). vc_diskId v \<in> set externalDiskIds) vm);
     State_Monad.traverse_list (external_volume_info env) candidates }"

definition IsDiskSupported :: "env \<Rightarrow> string \<Rightarrow> errno dmop" where
  "IsDiskSupported env diskId = do {
     r \<leftarrow> GetDiskById env diskId;
     ret (case r of
            Inl _ \<Rightarrow> E_NOT_SUPPORT
          | Inr d \<Rightarrow> if d_diskType d = dt_code CD_FLAG then E_NOT_SUPPORT else E_OK) }"

section \<open>The invariant of the registry\<close>

text \<open>
  A registry is a dictionary in which every entry is stored under its own identifier. The operations of
  the service that write through an iterator are \<open>adjust\<close>.
\<close>

locale registry = dictionary lookup put erase empty wf
  for lookup :: "'m \<Rightarrow> 'k \<Rightarrow> 'v option" and put and erase and empty :: 'm and wf +
  fixes adjust :: "'k \<Rightarrow> ('v \<Rightarrow> 'v) \<Rightarrow> 'm \<Rightarrow> 'm"
    and key :: "'v \<Rightarrow> 'k"
  assumes lookup_adjust: "wf m \<Longrightarrow> lookup (adjust a f m) k = (if k = a then map_option f (lookup m k) else lookup m k)"
    and wf_adjust: "wf m \<Longrightarrow> wf (adjust a f m)"
begin

definition keyed :: "'m \<Rightarrow> bool" where
  "keyed m \<longleftrightarrow> wf m \<and> (\<forall>k v. lookup m k = Some v \<longrightarrow> key v = k)"

lemma keyed_empty: "keyed empty"
  by (simp add: keyed_def wf_empty lookup_empty)

lemma keyed_put: "keyed m \<Longrightarrow> keyed (put (key v) v m)"
  by (auto simp: keyed_def wf_put lookup_put split: if_splits)

lemma keyed_erase: "keyed m \<Longrightarrow> keyed (erase a m)"
  by (auto simp: keyed_def wf_erase lookup_erase split: if_splits)

lemma keyed_erase_all: "keyed m \<Longrightarrow> keyed (fold erase ks m)"
  by (rule fold_inv) (auto intro: keyed_erase)

lemma keyed_adjust: "keyed m \<Longrightarrow> (\<And>v. key v = a \<Longrightarrow> key (f v) = a) \<Longrightarrow> keyed (adjust a f m)"
  by (fastforce simp: keyed_def wf_adjust lookup_adjust split: if_splits)

lemma keyed_lookup: "keyed m \<Longrightarrow> lookup m k = Some v \<Longrightarrow> key v = k"
  by (simp add: keyed_def)

lemma keyed_wf: "keyed m \<Longrightarrow> wf m"
  by (simp add: keyed_def)

end

interpretation disks: registry om_get om_put om_erase "[]" om_wf om_mod d_diskId
  by unfold_locales (auto simp: omap_simps)

interpretation volumes: registry om_get om_put om_erase "[]" om_wf om_mod vc_id
  by unfold_locales (auto simp: omap_simps)

definition registry_inv :: "dm \<Rightarrow> bool" where
  "registry_inv s \<longleftrightarrow> disks.keyed (diskMap s) \<and> volumes.keyed (volumeMap s)"

interpretation reg: map_invariant registry_inv
  by unfold_locales (simp_all add: registry_inv_def disks.keyed_empty volumes.keyed_empty init_dm_def)

lemma registry_wf: "registry_inv s \<Longrightarrow> om_wf (diskMap s) \<and> om_wf (volumeMap s)"
  by (simp add: registry_inv_def disks.keyed_wf volumes.keyed_wf)

lemma registry_volume: "registry_inv s \<Longrightarrow> om_get (volumeMap s) k = Some v \<Longrightarrow> vc_id v = k"
  unfolding registry_inv_def by (blast dest: volumes.keyed_lookup)

lemma registry_disk: "registry_inv s \<Longrightarrow> om_get (diskMap s) k = Some d \<Longrightarrow> d_diskId d = k"
  unfolding registry_inv_def by (blast dest: disks.keyed_lookup)

lemma keyed_insert:
  "volumes.keyed m \<Longrightarrow> volumes.keyed (om_insert (vc_id v) v m)"
  "disks.keyed dmap \<Longrightarrow> disks.keyed (om_insert (d_diskId d) d dmap)"
  by (simp_all add: om_insert_def volumes.keyed_put disks.keyed_put)

text \<open>The writes of the service, each with the condition under which it keeps the invariant.\<close>

lemma reg_volumes:
  "(\<And>m. volumes.keyed m \<Longrightarrow> volumes.keyed (f m)) \<Longrightarrow> keeps registry_inv (modify (volumeMap_update f))"
  by (rule ensures_modify) (simp_all add: registry_inv_def)

lemma reg_disks:
  "(\<And>m. disks.keyed m \<Longrightarrow> disks.keyed (f m)) \<Longrightarrow> keeps registry_inv (modify (diskMap_update f))"
  by (rule ensures_modify) (simp_all add: registry_inv_def)

lemma reg_adjust: "(\<And>v. vc_id v = k \<Longrightarrow> vc_id (f v) = k) \<Longrightarrow> keeps registry_inv (modify (volumeMap_update (om_mod k f)))"
  by (rule reg_volumes) (rule volumes.keyed_adjust)

lemma reg_erase: "keeps registry_inv (modify (volumeMap_update (om_erase k)))"
  by (rule reg_volumes) (rule volumes.keyed_erase)

lemma reg_other:
  "keeps registry_inv (modify (blockInfoMap_update f))"
  "keeps registry_inv (modify (partitionTableMap_update g))"
  "keeps registry_inv (modify (partitionDoneMap_update h))"
  "keeps registry_inv (modify (partitioningDiskIds_update p))"
  by (rule ensures_modify; simp add: registry_inv_def)+

lemma keeps_traverse [ensures_intros]: "(\<And>x. keeps I (f x)) \<Longrightarrow> keeps I (State_Monad.traverse_list f xs)"
  by (induction xs) (auto intro!: ensures_intros)

text \<open>
  The contract the handlers of the service rely on: an invariant that survives every call, event and
  store operation, and the writes to volumes that \<open>K\<close> allows: for each kind of write, the volumes that
  may be written to in this way. Every handler that only makes allowed writes then keeps the invariant;
  this is proved once, handler by handler, in the theories that follow. Instances are the invariant of the
  registry (everything is allowed) and the frame conditions (only the volume the handler was asked to work
  on, or only some of its fields).
\<close>

datatype wkind = W_state | W_eject | W_path | W_uuid | W_any | W_erase | W_entry

named_theorems keeps_ops "the operations keep a handler invariant"

locale handler_invariant =
  fixes env :: env and I :: "dm \<Rightarrow> bool" and K :: "wkind \<Rightarrow> string set"
  assumes keeps_emit: "keeps I (emit it)"
    and keeps_invoke: "keeps I (invoke env c)"
    and store_write: "I s \<Longrightarrow> I (s\<lparr>vstore := st\<rparr>)"
    and keeps_state: "k \<in> K W_state \<Longrightarrow> keeps I (modify (volumeMap_update (om_mod k (vc_state_update (\<lambda>_. c0)))))"
    and keeps_eject: "k \<in> K W_eject \<Longrightarrow>
      keeps I (modify (volumeMap_update (om_mod k (\<lambda>v. v\<lparr>vc_state := c0, ve_umountResult := p\<rparr>))))"
    and keeps_path: "k \<in> K W_path \<Longrightarrow> keeps I (modify (volumeMap_update (om_mod k (ve_path_update (\<lambda>_. p)))))"
    and keeps_uuid: "k \<in> K W_uuid \<Longrightarrow> keeps I (modify (volumeMap_update (om_mod k (ve_fsUuid_update (\<lambda>_. p)))))"
    and keeps_adjust: "k \<in> K W_any \<Longrightarrow> (\<And>v. vc_id v = k \<Longrightarrow> vc_id (g v) = k) \<Longrightarrow>
      keeps I (modify (volumeMap_update (om_mod k g)))"
    and keeps_erase: "k \<in> K W_erase \<Longrightarrow> keeps I (modify (volumeMap_update (om_erase k)))"
    and keeps_insert: "vc_id v \<in> K W_entry \<Longrightarrow> keeps I (modify (volumeMap_update (om_insert (vc_id v) v)))"
    and keeps_block: "keeps I (modify (blockInfoMap_update h1))"
    and keeps_done: "keeps I (modify (partitionDoneMap_update h2))"
    and keeps_partitioning: "keeps I (modify (partitioningDiskIds_update h3))"
    and keyed: "I s \<Longrightarrow> om_get (volumeMap s) k = Some v \<Longrightarrow> vc_id v = k"
begin

lemma keeps_on_store: "keeps I (on_store f)"
  by (simp add: ensures_def store_write)

lemmas keeps_rules = ensures_intros keeps_emit keeps_invoke keeps_on_store keeps_adjust keeps_state keeps_eject keeps_path keeps_uuid keeps_erase
  keeps_insert  keeps_block keeps_done keeps_partitioning

lemma keeps_gets_volume:
  assumes "\<And>vm. (\<And>k v. om_get vm k = Some v \<Longrightarrow> vc_id v = k) \<Longrightarrow> ensures I (f vm) R"
  shows "ensures I (State_Monad.bind (gets volumeMap) f) R"
  by (rule ensures_bind[OF ensures_gets[where R = "\<lambda>vm. \<forall>k v. om_get vm k = Some v \<longrightarrow> vc_id v = k"]])
    (auto intro: assms dest: keyed)

lemma GetVolumeById_keyed: "ensures I (GetVolumeById k) (\<lambda>r. \<forall>v. r = Inr v \<longrightarrow> vc_id v = k)"
  unfolding GetVolumeById_def by (rule keeps_gets_volume) (auto intro!: ensures_return split: option.splits)

lemma keeps_read [keeps_ops]:
  "keeps I (GetVolumeById k)" "keeps I (GetVolumeByUuid u)" "keeps I (CheckVolId k)" "keeps I (HasDisk k)"
  "keeps I (GetVolumePath u)" "keeps I (TryCopyByDiskId k)"
  by (auto simp: GetVolumeById_def GetVolumeByUuid_def CheckVolId_def HasDisk_def GetVolumePath_def TryCopyByDiskId_def
      intro!: keeps_rules)

lemma keeps_OnVolumeCreated [keeps_ops]: "vc_id v \<in> K W_entry \<Longrightarrow> keeps I (OnVolumeCreated v)"
proof -
  assume "vc_id v \<in> K W_entry"
  then have "keeps I (modify (volumeMap_update (om_insert (vc_id v) (v\<lparr>ve_flags := fl\<rparr>))))" for fl
    using keeps_insert[of "v\<lparr>ve_flags := fl\<rparr>"] by simp
  then show ?thesis unfolding OnVolumeCreated_def by (auto intro!: ensures_intros simp: Let_def)
qed

lemma keeps_writes [keeps_ops]:
  "k \<in> K W_erase \<Longrightarrow> keeps I (OnVolumeDestroyed k)"
  "k \<in> K W_state \<Longrightarrow> keeps I (SetVolumeStateLocked k st)"
  "vc_id v \<in> K W_any \<Longrightarrow> keeps I (UpdateVolumeExternal v)"
  "k \<in> K W_any \<Longrightarrow> keeps I (UpdateVolumeMetadata k u t d)"
  "k \<in> K W_any \<Longrightarrow> keeps I (SetVolumeDiscState env' k c)"
  by (auto simp: OnVolumeDestroyed_def SetVolumeStateLocked_def UpdateVolumeExternal_def UpdateVolumeMetadata_def
      SetVolumeDiscState_def Let_def intro!: keeps_rules)

lemma keeps_table [keeps_ops]:
  "keeps I (ReloadFromDaemon env)" "keeps I (ReadExtDiskInfoFromDaemon env n b)"
  "keeps I (QueryEncryptionStatus env p)" "keeps I (GetOddCapacity env p)"
  by (auto simp: ReloadFromDaemon_def ReadExtDiskInfoFromDaemon_def QueryEncryptionStatus_def
      GetOddCapacity_def Let_def intro!: keeps_rules)

lemma keeps_query [keeps_ops]:
  "keeps I (QueryAndAppendEncryptionStatusUnlocked env d)" "keeps I (attach_and_query env vm d)"
  by (auto simp: QueryAndAppendEncryptionStatusUnlocked_def attach_and_query_def Let_def intro!: keeps_rules keeps_ops)

lemma keeps_sizes [keeps_ops]:
  "keeps I (GetFreeSizeOfVolume env u)" "keeps I (GetTotalSizeOfVolume env u)"
  by (auto simp: GetFreeSizeOfVolume_def GetTotalSizeOfVolume_def GetOddFreeSize_def Let_def
      intro!: keeps_rules keeps_ops)

lemma keeps_external_info [keeps_ops]: "keeps I (external_volume_info env v)"
  by (auto simp: external_volume_info_def Let_def intro!: keeps_rules keeps_ops)

lemma keeps_listings [keeps_ops]:
  "keeps I (GetDiskById env d)" "keeps I (GetAllDisks env)" "keeps I (GetAllVolumes env)"
  "keeps I GetExternalDiskInfos" "keeps I (GetExternalVolumeInfos env)" "keeps I (IsDiskSupported env d)"
  by (auto simp: GetDiskById_def GetAllDisks_def GetAllVolumes_def GetExternalDiskInfos_def
      GetExternalVolumeInfos_def IsDiskSupported_def Let_def intro!: keeps_rules keeps_ops)

end

text \<open>The invariant of the registry is one of them when the other threads keep it.\<close>

lemma registry_handler: "others_keep env registry_inv \<Longrightarrow> handler_invariant env registry_inv (\<lambda>_. UNIV)"
  by unfold_locales
    (auto simp: reg.store_irrelevant intro: reg.keeps_emit reg.keeps_invoke reg_adjust reg_erase reg_other reg_volumes
      volumes.keyed_erase keyed_insert dest: registry_volume)

interpretation calm_reg: handler_invariant "calm f" registry_inv "\<lambda>_. UNIV" for f
  by (rule registry_handler) (rule others_keep_quiet[OF quiet_calm])

lemma reg_disk_ops:
  "keeps registry_inv (OnDiskCreated d)" "keeps registry_inv (OnDiskDestroyed k)" "keeps registry_inv (UpdateDisk d)"
  by (auto simp: OnDiskCreated_def OnDiskDestroyed_def UpdateDisk_def
      intro!: ensures_intros reg_disks keyed_insert disks.keyed_erase disks.keyed_adjust)

text \<open>
  The contract of the handlers that also register disks and partition tables: they may write to all volumes,
  and store only disks with \<open>D\<close> and tables with \<open>T\<close>. What they read from the maps satisfies the same.
\<close>

locale service_invariant = handler_invariant env I "\<lambda>_. UNIV" for env :: env and I :: "dm \<Rightarrow> bool" +
  fixes D :: "Disk \<Rightarrow> bool" and T :: "PartitionTableInfo \<Rightarrow> bool"
  assumes keeps_disk_insert: "D d \<Longrightarrow> keeps I (modify (diskMap_update (om_insert (d_diskId d) d)))"
    and keeps_disk_erase: "keeps I (modify (diskMap_update (om_erase k)))"
    and keeps_disk_set: "D d \<Longrightarrow> keeps I (modify (diskMap_update (om_mod (d_diskId d) (\<lambda>_. d))))"
    and disk_read: "I s \<Longrightarrow> om_get (diskMap s) k = Some d \<Longrightarrow> D d \<and> d_diskId d = k"
    and D_cong: "D d \<Longrightarrow> d_diskType d' = d_diskType d \<Longrightarrow> d_removable d' = d_removable d \<Longrightarrow> D d'"
    and D_classified: "D (RefreshClassificationFromSysfs p r d)"
    and keeps_table_put: "T t \<Longrightarrow> keeps I (modify (partitionTableMap_update (om_put k t)))"
    and table_read: "I s \<Longrightarrow> om_get (partitionTableMap s) k = Some t \<Longrightarrow> T t"
    and keeps_snapshot: "keeps I (modify (diskPartsSnapshot_update h4))"
    and keeps_config: "keeps I (modify (diskConfigList_update h5))"
begin

lemmas service_rules = keeps_rules keeps_disk_insert keeps_disk_erase keeps_disk_set keeps_table_put keeps_snapshot
  keeps_config

lemma keeps_disk_ops [keeps_ops]:
  "D d \<Longrightarrow> keeps I (OnDiskCreated d)" "keeps I (OnDiskDestroyed k)" "D d \<Longrightarrow> keeps I (UpdateDisk d)"
  by (auto simp: OnDiskCreated_def OnDiskDestroyed_def UpdateDisk_def intro!: service_rules)

lemma GetDiskById_result: "ensures I (GetDiskById env k) (\<lambda>r. \<forall>d. r = Inr d \<longrightarrow> D d \<and> d_diskId d = k)"
proof -
  have enc: "ensures I (QueryAndAppendEncryptionStatusUnlocked env d) (\<lambda>d'. D d' \<and> d_diskId d' = d_diskId d)"
    if "D d" for d
    using that unfolding QueryAndAppendEncryptionStatusUnlocked_def Let_def
    by (auto intro!: service_rules keeps_ops intro: D_cong split: option.splits)
  have att: "ensures I (attach_and_query env vm d) (\<lambda>d'. D d' \<and> d_diskId d' = k)" if "D d" "d_diskId d = k" for d vm
  proof -
    have "D (AttachVolumeIdsToDisk vm d)" "d_diskId (AttachVolumeIdsToDisk vm d) = k"
      using that D_cong[of d "AttachVolumeIdsToDisk vm d"] by (simp_all add: AttachVolumeIdsToDisk_def)
    then show ?thesis using enc[of "AttachVolumeIdsToDisk vm d"]
      unfolding attach_and_query_def Let_def by (intro service_rules) simp_all
  qed
  have res: "ensures I (do { d \<leftarrow> attach_and_query env vm disk; ret (Inr d) :: (errno + Disk) dmop })
      (\<lambda>r. \<forall>d. r = Inr d \<longrightarrow> D d \<and> d_diskId d = k)" if "D disk" "d_diskId disk = k" for vm disk
    by (rule ensures_bind[OF att[OF that]]) (auto intro!: ensures_return)
  show ?thesis
    unfolding GetDiskById_def
    by (rule ensures_bind[OF ensures_gets[where R = "\<lambda>m. \<forall>d. om_get m k = Some d \<longrightarrow> D d \<and> d_diskId d = k"]],
        use disk_read in blast, rule ensures_bind_keeps[OF keeps_gets])
      (auto intro!: ensures_return res split: option.splits)
qed

lemma bind_GetDiskById:
  assumes "\<And>d. D d \<Longrightarrow> d_diskId d = k \<Longrightarrow> ensures I (f (Inr d)) R" "\<And>e. ensures I (f (Inl e)) R"
  shows "ensures I (State_Monad.bind (GetDiskById env k) f) R"
proof (rule ensures_bind[OF GetDiskById_result])
  fix a :: "errno + Disk" assume "\<forall>d. a = Inr d \<longrightarrow> D d \<and> d_diskId d = k"
  with assms show "ensures I (f a) R" by (cases a) auto
qed

end

lemma registry_service:
  "others_keep env registry_inv \<Longrightarrow> service_invariant env registry_inv (\<lambda>_. True) (\<lambda>_. True)"
  by (intro service_invariant.intro service_invariant_axioms.intro registry_handler)
    (auto simp: ensures_def registry_inv_def keyed_insert disks.keyed_erase disks.keyed_adjust
      dest: disks.keyed_lookup)

text \<open>
  The invariant of the whole service: the registry is keyed, every recorded disk has a known type and is
  removable unless it is an internal data disk, and every recorded partition table has a usable geometry.
\<close>

definition disk_typed :: "Disk \<Rightarrow> bool" where
  "disk_typed d \<longleftrightarrow> disk_wf d \<and> (\<exists>t. d_diskType d = dt_code t)"

definition table_ok :: "PartitionTableInfo \<Rightarrow> bool" where
  "table_ok t \<longleftrightarrow> 0 < pt_sectorSize t \<and> pt_sectorSize t < 2 ^ 31 \<and> 0 < pt_alignSector t \<and> pt_alignSector t < 2 ^ 31 \<and>
     0 \<le> pt_lastUsableSector t \<and> pt_lastUsableSector t < 2 ^ 63"

definition dm_inv :: "dm \<Rightarrow> bool" where
  "dm_inv s \<longleftrightarrow> registry_inv s \<and> (\<forall>k d. om_get (diskMap s) k = Some d \<longrightarrow> disk_typed d) \<and>
     om_wf (partitionTableMap s) \<and> (\<forall>k t. om_get (partitionTableMap s) k = Some t \<longrightarrow> table_ok t)"

lemma disk_typed_refresh: "disk_typed (RefreshClassificationFromSysfs p r d)"
  using RefreshClassification_typed by (simp add: disk_typed_def)

interpretation dminv: map_invariant dm_inv
  using reg.initial
  by unfold_locales (simp_all add: dm_inv_def reg.trace_irrelevant reg.store_irrelevant, simp add: init_dm_def)

lemma dm_inv_registry: "dm_inv s \<Longrightarrow> registry_inv s"
  by (simp add: dm_inv_def)

lemma dm_inv_volumes: "keeps registry_inv (modify (volumeMap_update f)) \<Longrightarrow> keeps dm_inv (modify (volumeMap_update f))"
  by (simp add: ensures_def dm_inv_def)

lemma dm_inv_adjust: "(\<And>v. vc_id v = k \<Longrightarrow> vc_id (f v) = k) \<Longrightarrow> keeps dm_inv (modify (volumeMap_update (om_mod k f)))"
  by (intro dm_inv_volumes reg_adjust)

lemma dm_inv_disks:
  assumes "keeps registry_inv (modify (diskMap_update f))"
    and "\<And>m k d. om_wf m \<Longrightarrow> om_get (f m) k = Some d \<Longrightarrow> disk_typed d \<or> om_get m k = Some d"
  shows "keeps dm_inv (modify (diskMap_update f))"
  using assms registry_wf by (fastforce simp: ensures_def dm_inv_def)

lemma dm_inv_handler: "others_keep env dm_inv \<Longrightarrow> handler_invariant env dm_inv (\<lambda>_. UNIV)"
proof
  show "keeps dm_inv (modify (volumeMap_update (om_insert (vc_id v) v)))" for v
    by (intro dm_inv_volumes reg_volumes keyed_insert)
  show "keeps dm_inv (modify (blockInfoMap_update h1))" "keeps dm_inv (modify (partitionDoneMap_update h2))"
    "keeps dm_inv (modify (partitioningDiskIds_update h3))" for h1 h2 h3
    by (auto simp: ensures_def dm_inv_def registry_inv_def)
qed (auto simp: dminv.store_irrelevant intro: dminv.keeps_emit dminv.keeps_invoke dm_inv_adjust dm_inv_volumes reg_erase
      dest: registry_volume dm_inv_registry)

lemma dm_service:
  assumes "others_keep env dm_inv"
  shows "service_invariant env dm_inv disk_typed table_ok"
proof (intro service_invariant.intro service_invariant_axioms.intro)
  show "handler_invariant env dm_inv (\<lambda>_. UNIV)" using dm_inv_handler[OF assms] .
  fix d :: Disk and k s t h4 h5 p r
  show "keeps dm_inv (modify (diskMap_update (om_insert (d_diskId d) d)))" if "disk_typed d"
    using that by (intro dm_inv_disks reg_disks keyed_insert) (auto simp: om_insert_def split: if_splits)
  show "keeps dm_inv (modify (diskMap_update (om_erase k)))"
    by (intro dm_inv_disks reg_disks disks.keyed_erase) (auto split: if_splits)
  show "keeps dm_inv (modify (diskMap_update (om_mod (d_diskId d) (\<lambda>_. d))))" if "disk_typed d"
    using that by (intro dm_inv_disks reg_disks disks.keyed_adjust) (auto split: if_splits)
  show "disk_typed d \<and> d_diskId d = k" if "dm_inv s" "om_get (diskMap s) k = Some d"
    using that registry_disk by (auto simp: dm_inv_def)
  show "disk_typed d'" if "disk_typed d" "d_diskType d' = d_diskType d" "d_removable d' = d_removable d" for d'
    using that by (auto simp: disk_typed_def disk_wf_def Disk_IsInternalDataDisk_def)
  show "table_ok t" if "dm_inv s" "om_get (partitionTableMap s) k = Some t"
    using that by (auto simp: dm_inv_def)
  show "keeps dm_inv (modify (partitionTableMap_update (om_put k t)))" if "table_ok t"
    using that by (auto simp: ensures_def dm_inv_def registry_inv_def omap_simps split: if_splits)
qed (auto simp: ensures_def dm_inv_def registry_inv_def disk_typed_refresh)

interpretation calm_service: service_invariant "calm f" dm_inv disk_typed table_ok for f
  by (rule dm_service) (rule others_keep_quiet[OF quiet_calm])

text \<open>
  The frame of a handler that works on one volume: the disks and all other volumes stay as they were. It is
  kept when no other thread runs.
\<close>

definition frame :: "dm \<Rightarrow> string \<Rightarrow> dm \<Rightarrow> bool" where
  "frame s0 volumeId s \<longleftrightarrow> registry_inv s \<and> diskMap s = diskMap s0 \<and> partitionTableMap s = partitionTableMap s0 \<and>
     (\<forall>k. k \<noteq> volumeId \<longrightarrow> om_get (volumeMap s) k = om_get (volumeMap s0) k)"

lemma frame_refl: "registry_inv s \<Longrightarrow> frame s k s"
  by (simp add: frame_def)

lemma frame_modify:
  assumes "keeps registry_inv (modify (volumeMap_update f))"
    and "\<And>m i. i \<noteq> k \<Longrightarrow> om_wf m \<Longrightarrow> om_get (f m) i = om_get m i"
  shows "keeps (frame s0 k) (modify (volumeMap_update f))"
  using assms registry_wf by (fastforce simp: ensures_def frame_def)

text \<open>A property of the volume, kept by the writes that are allowed. \<open>None\<close> is the absent volume.\<close>

definition volume_inv :: "dm \<Rightarrow> string \<Rightarrow> (VolumeExternal option \<Rightarrow> bool) \<Rightarrow> dm \<Rightarrow> bool" where
  "volume_inv s0 k P s \<longleftrightarrow> frame s0 k s \<and> P (om_get (volumeMap s) k)"

definition may_write :: "string \<Rightarrow> (VolumeExternal option \<Rightarrow> bool) \<Rightarrow> wkind \<Rightarrow> string set" where
  "may_write k P w =
     (if (case w of
            W_state \<Rightarrow> \<forall>v st. P (Some v) \<longrightarrow> P (Some (v\<lparr>vc_state := st\<rparr>))
          | W_eject \<Rightarrow> \<forall>v st u. P (Some v) \<longrightarrow> P (Some (v\<lparr>vc_state := st, ve_umountResult := u\<rparr>))
          | W_path \<Rightarrow> \<forall>v p. P (Some v) \<longrightarrow> P (Some (v\<lparr>ve_path := p\<rparr>))
          | W_uuid \<Rightarrow> \<forall>v u. P (Some v) \<longrightarrow> P (Some (v\<lparr>ve_fsUuid := u\<rparr>))
          | W_any \<Rightarrow> \<forall>v w. P (Some v) \<longrightarrow> P (Some w)
          | W_erase \<Rightarrow> P None
          | W_entry \<Rightarrow> \<forall>v. P (Some v))
      then {k} else {})"

lemma volume_inv_modify:
  assumes "keeps registry_inv (modify (volumeMap_update f))"
    and "\<And>m i. i \<noteq> k \<Longrightarrow> om_wf m \<Longrightarrow> om_get (f m) i = om_get m i"
    and "\<And>m. P (om_get m k) \<Longrightarrow> P (om_get (f m) k)"
  shows "keeps (volume_inv s0 k P) (modify (volumeMap_update f))"
  using frame_modify[OF assms(1,2), of k s0] assms(3) by (auto simp: ensures_def volume_inv_def)

lemma volume_inv_adjust:
  assumes "i = k" "\<And>v. vc_id v = i \<Longrightarrow> vc_id (g v) = i" "\<And>v. P (Some v) \<Longrightarrow> P (Some (g v))"
  shows "keeps (volume_inv s0 k P) (modify (volumeMap_update (om_mod i g)))"
proof (rule volume_inv_modify)
  show "P (om_get (om_mod i g m) k)" if "P (om_get m k)" for m
    using that assms(1,3) by (cases "om_get m k") auto
qed (use assms(1,2) in \<open>auto intro: reg_adjust\<close>)

lemma volume_handler:
  assumes "quiet env"
  shows "handler_invariant env (volume_inv s0 k P) (may_write k P)"
proof
  fix it c g v i j h1 h2 h3 s st p
  note defs = ensures_def volume_inv_def frame_def
  show "keeps (volume_inv s0 k P) (emit it)" by (simp add: defs reg.trace_irrelevant)
  show "keeps (volume_inv s0 k P) (invoke env c)" using assms by (simp add: defs run_invoke_quiet reg.trace_irrelevant)
  show "volume_inv s0 k P (s\<lparr>vstore := st\<rparr>)" if "volume_inv s0 k P s" for st
    using that by (simp add: defs reg.store_irrelevant)
  show "keeps (volume_inv s0 k P) (modify (volumeMap_update (om_mod i (vc_state_update (\<lambda>_. st)))))"
    if "i \<in> may_write k P W_state" for st
    using that by (intro volume_inv_adjust) (auto simp: may_write_def split: if_splits)
  show "keeps (volume_inv s0 k P) (modify (volumeMap_update (om_mod i (\<lambda>v. v\<lparr>vc_state := st, ve_umountResult := p\<rparr>))))"
    if "i \<in> may_write k P W_eject" for st
    using that by (intro volume_inv_adjust) (auto simp: may_write_def split: if_splits)
  show "keeps (volume_inv s0 k P) (modify (volumeMap_update (om_mod i (ve_path_update (\<lambda>_. p)))))"
    if "i \<in> may_write k P W_path"
    using that by (intro volume_inv_adjust) (auto simp: may_write_def split: if_splits)
  show "keeps (volume_inv s0 k P) (modify (volumeMap_update (om_mod i (ve_fsUuid_update (\<lambda>_. p)))))"
    if "i \<in> may_write k P W_uuid"
    using that by (intro volume_inv_adjust) (auto simp: may_write_def split: if_splits)
  show "keeps (volume_inv s0 k P) (modify (volumeMap_update (om_mod i g)))"
    if "i \<in> may_write k P W_any" "\<And>v. vc_id v = i \<Longrightarrow> vc_id (g v) = i"
    using that by (intro volume_inv_adjust) (auto simp: may_write_def split: if_splits)
  show "keeps (volume_inv s0 k P) (modify (volumeMap_update (om_erase i)))" if "i \<in> may_write k P W_erase"
    using that by (intro volume_inv_modify reg_erase) (auto simp: may_write_def split: if_splits)
  show "keeps (volume_inv s0 k P) (modify (volumeMap_update (om_insert (vc_id v) v)))" if "vc_id v \<in> may_write k P W_entry"
    using that by (intro volume_inv_modify reg_volumes keyed_insert) (auto simp: may_write_def om_insert_def split: if_splits)
  show "vc_id v = i" if "volume_inv s0 k P s" "om_get (volumeMap s) i = Some v"
    using that registry_volume by (auto simp: volume_inv_def frame_def)
qed (auto simp: ensures_def volume_inv_def frame_def registry_inv_def)

section \<open>De-duplication of UUIDs\<close>

lemma occupied_iff:
  "om_wf vm \<Longrightarrow> IsUuidOccupiedUnlocked vm volumeId u \<longleftrightarrow> (\<exists>k v. om_get vm k = Some v \<and> k \<noteq> volumeId \<and> ve_fsUuid v = u)"
  by (auto simp: IsUuidOccupiedUnlocked_def list_ex_iff om_get_iff)

lemma dedup_loop_result:
  "\<exists>j \<ge> k. dedup_loop vm volumeId u k = dedup_candidate u j \<and>
     \<not> IsUuidOccupiedUnlocked vm volumeId (dedup_candidate u j) \<and>
     (\<forall>i. k \<le> i \<and> i < j \<longrightarrow> IsUuidOccupiedUnlocked vm volumeId (dedup_candidate u i))"
proof (induction vm volumeId u k rule: dedup_loop.induct)
  case (1 vm volumeId u k)
  show ?case
  proof (cases "IsUuidOccupiedUnlocked vm volumeId (dedup_candidate u k)")
    case False
    then show ?thesis by (intro exI[of _ k]) (auto simp: dedup_loop.simps[of vm volumeId u k])
  next
    case True
    with 1 obtain j where j: "Suc k \<le> j" "dedup_loop vm volumeId u (Suc k) = dedup_candidate u j"
      "\<not> IsUuidOccupiedUnlocked vm volumeId (dedup_candidate u j)"
      "\<forall>i. Suc k \<le> i \<and> i < j \<longrightarrow> IsUuidOccupiedUnlocked vm volumeId (dedup_candidate u i)" by auto
    have "\<forall>i. k \<le> i \<and> i < j \<longrightarrow> IsUuidOccupiedUnlocked vm volumeId (dedup_candidate u i)"
      using j(4) True by (metis Suc_leI le_neq_implies_less)
    with j True show ?thesis by (intro exI[of _ j]) (simp add: dedup_loop.simps[of vm volumeId u k])
  qed
qed

text \<open>The UUID itself and the candidates that were skipped are UUIDs of different volumes.\<close>

lemma occupied_count:
  assumes "IsUuidOccupiedUnlocked vm volumeId u"
    and "\<forall>i. 1 \<le> i \<and> i < j \<longrightarrow> IsUuidOccupiedUnlocked vm volumeId (dedup_candidate u i)" "1 \<le> j"
  shows "j \<le> length vm"
proof -
  let ?us = "insert u (dedup_candidate u ` {1..<j})"
  have "u \<notin> dedup_candidate u ` {1..<j}" by (auto simp: dedup_candidate_def)
  moreover have "card (dedup_candidate u ` {1..<j}) = j - 1"
    by (subst card_image) (auto simp: inj_on_def dedup_candidate_inject)
  ultimately have "card ?us = j" using assms(3) by simp
  moreover have "?us \<subseteq> (\<lambda>(k, v). ve_fsUuid v) ` set vm"
    using assms(1,2) by (force simp: IsUuidOccupiedUnlocked_def list_ex_iff)
  then have "card ?us \<le> card ((\<lambda>(k, v). ve_fsUuid v) ` set vm)" by (simp add: card_mono)
  moreover have "\<dots> \<le> length vm" by (meson card_image_le card_length finite_set order_trans)
  ultimately show ?thesis by simp
qed

lemma Dedup_free: "\<not> IsUuidOccupiedUnlocked vm volumeId (DedupFsUuidUnlocked vm volumeId u)"
  using dedup_loop_result[of 1 vm volumeId u] by (auto simp: DedupFsUuidUnlocked_def)

text \<open>C24: De-duplication always ends. A UUID no other volume has is kept; otherwise the result is the UUID
  with the least free sequence number, which is at most the number of volumes (so the 32-bit counter of the
  loop does not wrap). In both cases no other volume has the result.\<close>

theorem DedupFsUuid_spec:
  "\<not> IsUuidOccupiedUnlocked vm volumeId (DedupFsUuidUnlocked vm volumeId u) \<and>
   (if IsUuidOccupiedUnlocked vm volumeId u
    then \<exists>j. 1 \<le> j \<and> j \<le> length vm \<and> DedupFsUuidUnlocked vm volumeId u = u @ ''_'' @ to_string j \<and>
           (\<forall>i. 1 \<le> i \<and> i < j \<longrightarrow> IsUuidOccupiedUnlocked vm volumeId (u @ ''_'' @ to_string i))
    else DedupFsUuidUnlocked vm volumeId u = u)"
proof (cases "IsUuidOccupiedUnlocked vm volumeId u")
  case True
  obtain j where j: "1 \<le> j" "dedup_loop vm volumeId u 1 = dedup_candidate u j"
    "\<forall>i. 1 \<le> i \<and> i < j \<longrightarrow> IsUuidOccupiedUnlocked vm volumeId (dedup_candidate u i)"
    using dedup_loop_result[of 1 vm volumeId u] by auto
  with occupied_count[OF True j(3,1)] True Dedup_free[of vm volumeId u] show ?thesis
    by (auto simp: DedupFsUuidUnlocked_def dedup_candidate_def)
qed (simp add: DedupFsUuidUnlocked_def)

theorem DedupFsUuid_spec_witness:
  "let v = VolumeExternal_defaults\<lparr>ve_fsUuid := ''1A2B''\<rparr>; m = [(''vol-8-1'', v), (''vol-8-2'', v\<lparr>ve_fsUuid := ''1A2B_1''\<rparr>)]
   in DedupFsUuidUnlocked m ''vol-8-3'' ''1A2B'' = ''1A2B_2''"
proof -
  let ?v = "VolumeExternal_defaults\<lparr>ve_fsUuid := ''1A2B''\<rparr>"
  let ?m = "[(''vol-8-1'', ?v), (''vol-8-2'', ?v\<lparr>ve_fsUuid := ''1A2B_1''\<rparr>)]"
  let ?occ = "IsUuidOccupiedUnlocked ?m ''vol-8-3''"
  have "?occ ''1A2B''" "?occ (''1A2B'' @ ''_'' @ to_string 1)" by code_simp+
  moreover have "\<not> ?occ (''1A2B'' @ ''_'' @ to_string 2)" by code_simp
  moreover obtain j where j: "1 \<le> j" "j \<le> length ?m" "DedupFsUuidUnlocked ?m ''vol-8-3'' ''1A2B'' = ''1A2B'' @ ''_'' @ to_string j"
    "\<not> ?occ (''1A2B'' @ ''_'' @ to_string j)"
    using DedupFsUuid_spec[of ?m "''vol-8-3''" "''1A2B''"] calculation(1) by (metis (full_types))
  ultimately have "j = 2" by (cases "j = 1") auto
  moreover have "to_string 2 = ''2''" by code_simp
  ultimately show ?thesis using j(3) by (simp add: Let_def)
qed

lemma dedup_unique:
  assumes "om_wf vm" "k \<noteq> volumeId" "om_get vm k = Some v"
  shows "ve_fsUuid v \<noteq> DedupFsUuidUnlocked vm volumeId u"
  using assms occupied_iff Dedup_free by metis

text \<open>A volume that gets a de-duplicated UUID is the one found under it.\<close>

lemma dedup_lookup:
  assumes wf: "om_wf vm" and v: "om_get vm volumeId = Some v"
    and u: "ve_fsUuid (f v) = DedupFsUuidUnlocked vm volumeId x"
  shows "LookupVolumeByUuidUnlocked (om_mod volumeId f vm) (ve_fsUuid (f v)) = Some (f v)"
proof -
  let ?u = "ve_fsUuid (f v)" and ?m = "om_mod volumeId f vm"
  have wf': "om_wf ?m" and get: "om_get ?m volumeId = Some (f v)" using wf v by simp_all
  have only: "k = volumeId" if "(k, v') \<in> set ?m" "ve_fsUuid v' = ?u" for k v'
  proof (rule ccontr)
    assume "k \<noteq> volumeId"
    with that om_get_iff[OF wf', of k v'] have "om_get vm k = Some v'" by simp
    with dedup_unique[OF wf \<open>k \<noteq> volumeId\<close> this, of x] that(2) show False by (simp add: u)
  qed
  have "(volumeId, f v) \<in> set ?m" using get om_get_iff[OF wf'] by blast
  then have "find (\<lambda>(k, v). ve_fsUuid v = ?u) ?m \<noteq> None" by (auto simp: find_None_iff)
  then obtain k v' where fd: "find (\<lambda>(k, v). ve_fsUuid v = ?u) ?m = Some (k, v')" by fastforce
  then have "(k, v') \<in> set ?m" "ve_fsUuid v' = ?u" by (auto simp: find_Some_iff) (metis nth_mem)
  with only om_get_iff[OF wf'] get have "v' = f v" by (metis option.inject)
  with fd show ?thesis by (simp add: LookupVolumeByUuidUnlocked_def)
qed

text \<open>After new metadata was recorded for a volume, the recorded UUID leads to this volume and to no
  other, the type and the label are the new ones, nothing else of the registry changed; for an unknown
  volume nothing changes at all.\<close>

theorem UpdateVolumeMetadata_spec:
  assumes inv: "registry_inv s" and run: "run_state (UpdateVolumeMetadata volumeId fsUuid fsType label) s = (e, t)"
  shows "case om_get (volumeMap s) volumeId of
      None \<Rightarrow> e = E_NON_EXIST \<and> t = s
    | Some v \<Rightarrow> e = E_OK \<and>
        (\<exists>w. om_get (volumeMap t) volumeId = Some w \<and>
           w = v\<lparr>ve_fsUuid := ve_fsUuid w, ve_fsType := GetFsTypeByStr fsType, ve_description := label\<rparr> \<and>
           LookupVolumeByUuidUnlocked (volumeMap t) (ve_fsUuid w) = Some w \<and>
           (\<forall>k x. k \<noteq> volumeId \<longrightarrow> om_get (volumeMap t) k = Some x \<longrightarrow> ve_fsUuid x \<noteq> ve_fsUuid w)) \<and>
        (\<forall>k. k \<noteq> volumeId \<longrightarrow> om_get (volumeMap t) k = om_get (volumeMap s) k) \<and>
        t\<lparr>volumeMap := volumeMap s\<rparr> = s"
proof (cases "om_get (volumeMap s) volumeId")
  case None
  with run show ?thesis by (simp add: UpdateVolumeMetadata_def)
next
  case (Some v)
  define u where "u = DedupFsUuidUnlocked (volumeMap s) volumeId fsUuid"
  define w where "w = v\<lparr>ve_fsUuid := u, ve_fsType := GetFsTypeByStr fsType, ve_description := label\<rparr>"
  from run Some have t: "e = E_OK" "t = volumeMap_update (om_mod volumeId (\<lambda>v. v\<lparr>ve_fsUuid := u,
      ve_fsType := GetFsTypeByStr fsType, ve_description := label\<rparr>)) s"
    by (auto simp: UpdateVolumeMetadata_def u_def Let_def)
  have get: "om_get (volumeMap t) volumeId = Some w" using Some by (simp add: t w_def)
  have "LookupVolumeByUuidUnlocked (volumeMap t) (ve_fsUuid w) = Some w"
    using dedup_lookup[OF conjunct2[OF registry_wf[OF inv]] Some, of "\<lambda>v. v\<lparr>ve_fsUuid := u,
      ve_fsType := GetFsTypeByStr fsType, ve_description := label\<rparr>" fsUuid] by (simp add: t w_def u_def)
  moreover have "ve_fsUuid x \<noteq> ve_fsUuid w" if "k \<noteq> volumeId" "om_get (volumeMap t) k = Some x" for k x
    using dedup_unique[OF conjunct2[OF registry_wf[OF inv]] that(1), of x fsUuid] that by (simp add: t w_def u_def)
  ultimately show ?thesis using Some get t by (auto simp: w_def)
qed

theorem UpdateVolumeMetadata_spec_witness:
  "let v = VolumeExternal_defaults; s = init_dm\<lparr>volumeMap := [(''vol-8-1'', v\<lparr>vc_id := ''vol-8-1'', ve_fsUuid := ''1A2B''\<rparr>),
        (''vol-8-2'', v\<lparr>vc_id := ''vol-8-2''\<rparr>)]\<rparr>
   in fst (run_state (UpdateVolumeMetadata ''vol-8-2'' ''1A2B'' ''exfat'' ''MyUSB'') s) = E_OK"
proof -
  let ?v = VolumeExternal_defaults
  let ?s = "init_dm\<lparr>volumeMap := [(''vol-8-1'', ?v\<lparr>vc_id := ''vol-8-1'', ve_fsUuid := ''1A2B''\<rparr>),
        (''vol-8-2'', ?v\<lparr>vc_id := ''vol-8-2''\<rparr>)]\<rparr>"
  have "registry_inv ?s"
    by (auto simp: registry_inv_def disks.keyed_def volumes.keyed_def init_dm_def om_wf_def less_list_code split: if_splits)
  moreover have "om_get (volumeMap ?s) ''vol-8-2'' = Some (?v\<lparr>vc_id := ''vol-8-2''\<rparr>)" by simp
  ultimately show ?thesis
    using UpdateVolumeMetadata_spec[OF _ prod.collapse[symmetric], of ?s "''vol-8-2''" "''1A2B''" "''exfat''" "''MyUSB''"]
    by (simp only: Let_def option.case)
qed

section \<open>The listings for applications\<close>

lemma traverse_results:
  assumes "\<And>x s a t. run_state (f x) s = (a, t) \<Longrightarrow> P x a"
  shows "run_state (State_Monad.traverse_list f xs) s = (as, t) \<Longrightarrow> list_all2 P xs as"
  using assms by (induction xs arbitrary: s as t) (auto split: prod.splits)

lemma external_volume_info_result:
  "run_state (external_volume_info env v) s = (i, t) \<Longrightarrow>
     ev_volumeId i = vc_id v \<and> ev_diskId i = vc_diskId v \<and> ev_state i = MapToPublicVolumeState (vc_state v) \<and>
     (ev_state i \<noteq> vs_code MOUNTED \<longrightarrow> ev_totalSize i = 0 \<and> ev_freeSize i = 0)"
  by (auto simp: external_volume_info_def Let_def split: prod.splits if_splits)

lemma MapToPublic_range: "MapToPublicVolumeState st \<in> {0, 1, 2, 3}"
  by (simp add: MapToPublicVolumeState_def)

lemma external_ids_iff:
  assumes "registry_inv s"
  shows "k \<in> (\<lambda>(k, d). d_diskId d) ` {(k, d) \<in> set (diskMap s). \<not> Disk_IsInternalDataDisk d} \<longleftrightarrow>
    (\<exists>d. om_get (diskMap s) k = Some d \<and> \<not> Disk_IsInternalDataDisk d)"
  using registry_wf[OF assms] registry_disk[OF assms] by (fastforce simp: om_get_iff)

text \<open>A volume is external when its disk is recorded and is not an internal data disk.\<close>

definition on_external :: "dm \<Rightarrow> string \<Rightarrow> bool" where
  "on_external s diskId =
     (case om_get (diskMap s) diskId of Some d \<Rightarrow> \<not> Disk_IsInternalDataDisk d | None \<Rightarrow> False)"

lemma on_external_ids:
  assumes "registry_inv s"
  shows "k \<in> set (map (\<lambda>(k, d). d_diskId d) (filter (\<lambda>(k, d). \<not> Disk_IsInternalDataDisk d) (diskMap s))) \<longleftrightarrow>
    on_external s k"
proof -
  have "set (map (\<lambda>(k, d). d_diskId d) (filter (\<lambda>(k, d). \<not> Disk_IsInternalDataDisk d) (diskMap s))) =
      (\<lambda>(k, d). d_diskId d) ` {(k, d) \<in> set (diskMap s). \<not> Disk_IsInternalDataDisk d}" by auto
  moreover have "on_external s k \<longleftrightarrow> (\<exists>d. om_get (diskMap s) k = Some d \<and> \<not> Disk_IsInternalDataDisk d)"
    by (auto simp: on_external_def split: option.splits)
  ultimately show ?thesis using external_ids_iff[OF assms, of k] by (simp only:)
qed

lemma GetExternalVolumeInfos_run:
  assumes "registry_inv s"
  shows "run_state (GetExternalVolumeInfos env) s =
    run_state (State_Monad.traverse_list (external_volume_info env)
      (map snd (filter (\<lambda>(k, v). on_external s (vc_diskId v)) (volumeMap s)))) s"
  unfolding GetExternalVolumeInfos_def Let_def State_Monad.run_state_bind run_gets prod.case on_external_ids[OF assms] ..

lemma volume_keys:
  "registry_inv s \<Longrightarrow> map vc_id (map snd (filter P (volumeMap s))) = map fst (filter P (volumeMap s))"
  using registry_wf[of s] registry_volume[of s] by (auto simp: om_get_iff)

lemma external_infos_all:
  assumes "registry_inv s" "run_state (GetExternalVolumeInfos env) s = (infos, t)"
  shows "list_all2 (\<lambda>v i. ev_volumeId i = vc_id v \<and> ev_diskId i = vc_diskId v \<and>
       ev_state i = MapToPublicVolumeState (vc_state v) \<and>
       (ev_state i \<noteq> vs_code MOUNTED \<longrightarrow> ev_totalSize i = 0 \<and> ev_freeSize i = 0))
     (map snd (filter (\<lambda>(k, v). on_external s (vc_diskId v)) (volumeMap s))) infos"
  by (rule traverse_results[OF external_volume_info_result])
    (use assms in \<open>simp_all add: GetExternalVolumeInfos_run\<close>)

lemma disk_keys:
  "registry_inv s \<Longrightarrow> map (\<lambda>(k, d). d_diskId d) (filter P (diskMap s)) = map fst (filter P (diskMap s))"
  using registry_wf[of s] registry_disk[of s] by (auto simp: om_get_iff)

lemma external_disks_all:
  assumes "registry_inv s" "run_state GetExternalDiskInfos s = (dinfos, t)"
  shows "map ed_diskId dinfos = map fst (filter (\<lambda>(k, d). \<not> Disk_IsInternalDataDisk d) (diskMap s)) \<and>
    (\<forall>i \<in> set dinfos. ed_volumeIds i = map fst (filter (\<lambda>(k, v). vc_diskId v = ed_diskId i) (volumeMap s)))"
proof -
  have "vc_id v = k" if "(k, v) \<in> set (volumeMap s)" for k v
    using that registry_wf[OF assms(1)] registry_volume[OF assms(1)] by (simp add: om_get_iff)
  then show ?thesis
    using assms(2) disk_keys[OF assms(1), of "\<lambda>(k, d). \<not> Disk_IsInternalDataDisk d"]
    by (auto simp: GetExternalDiskInfos_def comp_def case_prod_unfold)
qed

lemma listings_agree:
  assumes inv: "registry_inv s" and ds: "run_state GetExternalDiskInfos s = (dinfos, t)"
  shows "set (concat (map ed_volumeIds dinfos)) = fst ` {(k, v) \<in> set (volumeMap s). on_external s (vc_diskId v)}"
proof -
  note d = external_disks_all[OF inv ds]
  have "set (map ed_diskId dinfos) = Collect (on_external s)"
    using d on_external_ids[OF inv] disk_keys[OF inv, of "\<lambda>(k, d). \<not> Disk_IsInternalDataDisk d"] by auto
  then have ext: "ed_diskId ` set dinfos = Collect (on_external s)" by simp
  have "set (concat (map ed_volumeIds dinfos)) = (\<Union>i \<in> set dinfos. fst ` {(k, v) \<in> set (volumeMap s). vc_diskId v = ed_diskId i})"
    using d by auto
  also have "\<dots> = (\<Union>x \<in> ed_diskId ` set dinfos. fst ` {(k, v) \<in> set (volumeMap s). vc_diskId v = x})" by simp
  also have "\<dots> = fst ` {(k, v) \<in> set (volumeMap s). on_external s (vc_diskId v)}" unfolding ext by auto
  finally show ?thesis .
qed

text \<open>C33: The listings of the public API show the volumes of external disks and only those: each listed
  volume is on a recorded disk that is not an internal data disk, every volume on such a disk is listed
  once in the order of the identifiers, its state is one of the four public ones, and its sizes are zero
  unless it is mounted. The listed disks are exactly the recorded disks that are not internal data disks, in
  order, each with all its volumes in order; so both listings name the same volumes. Other threads may
  interfere at any call.\<close>

theorem external_listing_hides_internal:
  assumes inv: "registry_inv s" and vols: "run_state (GetExternalVolumeInfos env) s = (infos, t)"
    and ds: "run_state GetExternalDiskInfos s = (dinfos, t')"
  shows "(\<forall>i \<in> set infos. on_external s (ev_diskId i)) \<and>
    map ev_volumeId infos = map fst (filter (\<lambda>(k, v). on_external s (vc_diskId v)) (volumeMap s)) \<and>
    (\<forall>i \<in> set infos. ev_state i \<in> {0, 1, 2, 3} \<and>
       (ev_state i \<noteq> vs_code MOUNTED \<longrightarrow> ev_totalSize i = 0 \<and> ev_freeSize i = 0)) \<and>
    map ed_diskId dinfos = map fst (filter (\<lambda>(k, d). \<not> Disk_IsInternalDataDisk d) (diskMap s)) \<and>
    (\<forall>i \<in> set dinfos. ed_volumeIds i = map fst (filter (\<lambda>(k, v). vc_diskId v = ed_diskId i) (volumeMap s))) \<and>
    set (concat (map ed_volumeIds dinfos)) = ev_volumeId ` set infos"
proof (intro conjI ballI)
  note all = external_infos_all[OF inv vols]
  let ?c = "map snd (filter (\<lambda>(k, v). on_external s (vc_diskId v)) (volumeMap s))"
  have "map ev_volumeId infos = map vc_id ?c" using all by (induction rule: list_all2_induct) simp_all
  then show ids: "map ev_volumeId infos = map fst (filter (\<lambda>(k, v). on_external s (vc_diskId v)) (volumeMap s))"
    by (simp only: volume_keys[OF inv])
  have "ev_volumeId ` set infos = set (map ev_volumeId infos)" by simp
  then show "set (concat (map ed_volumeIds dinfos)) = ev_volumeId ` set infos"
    unfolding listings_agree[OF inv ds] ids by auto
next
  fix i assume "i \<in> set infos"
  then obtain v where v: "v \<in> set (map snd (filter (\<lambda>(k, v). on_external s (vc_diskId v)) (volumeMap s)))"
    "ev_diskId i = vc_diskId v" "ev_state i = MapToPublicVolumeState (vc_state v)"
    "ev_state i \<noteq> vs_code MOUNTED \<longrightarrow> ev_totalSize i = 0 \<and> ev_freeSize i = 0"
    using external_infos_all[OF inv vols] unfolding list_all2_conv_all_nth in_set_conv_nth by metis
  from v(1,2) show "on_external s (ev_diskId i)" by auto
  from v(3) show "ev_state i \<in> {0, 1, 2, 3}" using MapToPublic_range by simp
  from v(4) show "ev_state i \<noteq> vs_code MOUNTED \<longrightarrow> ev_totalSize i = 0 \<and> ev_freeSize i = 0" .
qed (use external_disks_all[OF inv ds] in auto)

text \<open>A USB stick and an internal disk, each with one volume.\<close>

definition two_disks :: dm where
  "two_disks = init_dm\<lparr>
     diskMap := [(''disk-259-0'', Disk_ctor ''disk-259-0'' 512000000000 ''nvme0n1'' (dt_code DATA_DISK_SSD)),
                 (''disk-8-0'', Disk_ctor ''disk-8-0'' 64000000000 ''sda'' (dt_code USB_FLAG))],
     volumeMap := [(''vol-259-1'', VolumeExternal_defaults\<lparr>vc_id := ''vol-259-1'', vc_diskId := ''disk-259-0'',
                      ve_fsType := fs_code F2FS, ve_fsUuid := ''f2f2-0001''\<rparr>),
                   (''vol-8-1'', VolumeExternal_defaults\<lparr>vc_id := ''vol-8-1'', vc_diskId := ''disk-8-0'',
                      ve_fsType := fs_code EXFAT, ve_fsUuid := ''1A2B-3C4D''\<rparr>)]\<rparr>"

lemma two_disks_inv: "registry_inv two_disks"
  by (auto simp: registry_inv_def disks.keyed_def volumes.keyed_def two_disks_def om_wf_def less_list_code Disk_ctor_def
      split: if_splits)

theorem external_listing_hides_internal_witness:
  "map ev_volumeId (fst (run_state (GetExternalVolumeInfos (calm (\<lambda>h c. ok_reply))) two_disks)) = [''vol-8-1'']"
proof -
  have "map fst (filter (\<lambda>(k, v). on_external two_disks (vc_diskId v)) (volumeMap two_disks)) = [''vol-8-1'']"
    by (simp add: two_disks_def on_external_def Disk_IsInternalDataDisk_def IsInternalDataDiskType_def Disk_ctor_def)
  then show ?thesis
    using external_listing_hides_internal[OF two_disks_inv prod.collapse[symmetric] prod.collapse[symmetric],
        of "calm (\<lambda>h c. ok_reply)"] by simp
qed

end
