(* ===== verification/Dm_Events.thy ===== *)
theory Dm_Events
  imports Dm_Registry
begin

text \<open>
  The common events of \<^verbatim>\<open>notification/common_event_publisher.cpp\<close>, and the adapters of
  \<^verbatim>\<open>adapter/usb_fuse_adapter.cpp\<close>, \<^verbatim>\<open>adapter/pc_encryption_adapter.cpp\<close> and \<^verbatim>\<open>adapter/edm_adapter.cpp\<close>, which
  decide by system parameters and vendor libraries. The names of the event actions are constants of the
  event framework and stay symbolic. \<open>AAFwk::Integer::Box\<close> takes an \<open>int\<close>: its argument is narrowed to 32 bits,
  which matters for the one 64-bit value passed to it. The build switches \<open>EDM_ADAPTER_ENABLE\<close> and
  \<open>CDC_STORAGE\<close> are fields of the environment.
\<close>

section \<open>Definitions: the publisher\<close>

definition STATE_INFOS :: "(VolumeState \<times> action) list" where
  "STATE_INFOS =
     [(REMOVED, COMMON_EVENT_VOLUME_REMOVED),
      (UNMOUNTED, COMMON_EVENT_VOLUME_UNMOUNTED),
      (MOUNTED, COMMON_EVENT_VOLUME_MOUNTED),
      (BAD_REMOVAL, COMMON_EVENT_VOLUME_BAD_REMOVAL),
      (EJECTING, COMMON_EVENT_VOLUME_EJECT),
      (DAMAGED, COMMON_EVENT_DISK_UNMOUNTABLE),
      (DAMAGED_MOUNTED, COMMON_EVENT_DISK_UNMOUNTABLE),
      (ENCRYPTING, COMMON_EVENT_DISK_BAD_REMOVAL),
      (ENCRYPTED_AND_LOCKED, COMMON_EVENT_DISK_BAD_REMOVAL),
      (ENCRYPTED_AND_UNLOCKED, COMMON_EVENT_DISK_BAD_REMOVAL),
      (DECRYPTING, COMMON_EVENT_DISK_BAD_REMOVAL),
      (CHECKING, COMMON_EVENT_DISK_VOLUME_STATE_CHANGE),
      (REPAIR_FINISH_FAIL, COMMON_EVENT_DISK_VOLUME_STATE_CHANGE),
      (REPAIR_FINISH_SUCCESS, COMMON_EVENT_DISK_VOLUME_STATE_CHANGE),
      (FORMAT_FINISH_FAIL, COMMON_EVENT_DISK_VOLUME_STATE_CHANGE),
      (REPAIR_START, COMMON_EVENT_DISK_VOLUME_STATE_CHANGE)]"

abbreviation is_mtp_or_ptp :: "VolumeExternal \<Rightarrow> bool" where
  "is_mtp_or_ptp v \<equiv> ve_fsType v = fs_code MTP \<or> ve_fsType v = fs_code PTP"

definition SetMountedEventParams :: "env \<Rightarrow> VolumeExternal \<Rightarrow> (string \<times> want_value) list dmop" where
  "SetMountedEventParams env volume =
     (let base = [(''path'', WString (ve_path volume)), (''fsType'', WInteger (ve_fsType volume))] in
      if is_mtp_or_ptp volume then ret base
      else do {
        (r, freeSize) \<leftarrow> GetFreeSizeOfVolume env (ve_fsUuid volume);
        ret (if r = E_OK then if freeSize < 0 then base else base @ [(''freeSize'', WLong freeSize)] else base) })"

definition SetUnmountedEventParams :: "VolumeExternal \<Rightarrow> (string \<times> want_value) list" where
  "SetUnmountedEventParams volume =
     (''fsType'', WInteger (ve_fsType volume)) #
     (if is_mtp_or_ptp volume then []
      else if ve_freeSize volume < 0 then [] else [(''freeSize'', WLong (ve_freeSize volume))])"

definition SetEjectEventParams :: "VolumeExternal \<Rightarrow> (string \<times> want_value) list" where
  "SetEjectEventParams volume =
     [(''fsType'', WInteger (ve_fsType volume)), (''umountResult'', WString (ve_umountResult volume))]"

definition ReasonCodeToMessage :: "int \<Rightarrow> string" where
  "ReasonCodeToMessage reasonCode =
     (if reasonCode = reason_code PARTITION_TABLE_READ_FAILED then ''partition table read failed''
      else if reasonCode = reason_code METADATA_READ_FAILED then ''metadata read failed''
      else if reasonCode = reason_code FSTYPE_UNSUPPORTED then ''fstype unsupported''
      else if reasonCode = reason_code MOUNT_FAILED then ''mount failed''
      else ''unknown'')"

definition volume_params :: "int \<Rightarrow> VolumeExternal \<Rightarrow> (string \<times> want_value) list" where
  "volume_params st volume =
     [(''id'', WString (vc_id volume)), (''diskId'', WString (vc_diskId volume)), (''fsUuid'', WString (ve_fsUuid volume)),
      (''flags'', WInteger (ve_flags volume)), (''volumeState'', WInteger st)]"

definition DVR_ALLOWED_USER_ID :: int where "DVR_ALLOWED_USER_ID = 0"

definition PublishVolumeChange :: "env \<Rightarrow> VolumeState \<Rightarrow> VolumeExternal \<Rightarrow> unit dmop" where
  "PublishVolumeChange env notifyCode volume =
     (case map_of STATE_INFOS notifyCode of
        None \<Rightarrow> ret ()
      | Some act \<Rightarrow> do {
          mounted \<leftarrow> (if notifyCode = MOUNTED then SetMountedEventParams env volume else ret []);
          let unmounted = (if notifyCode = UNMOUNTED then SetUnmountedEventParams volume else []);
          let ejecting = (if notifyCode = EJECTING then SetEjectEventParams volume else []);
          let w = \<lparr>w_action = act, w_params = volume_params (vs_code notifyCode) volume @ mounted @ unmounted @ ejecting\<rparr>;
          emit (if en_cdc env \<and> ve_flags volume = dt_code DVR_USB then EventAsUser w DVR_ALLOWED_USER_ID else Event w) })"

definition PublishVolumeResult :: "VolumeState \<Rightarrow> VolumeExternal \<Rightarrow> unit dmop" where
  "PublishVolumeResult notifyCode volume =
     (case map_of STATE_INFOS notifyCode of
        None \<Rightarrow> ret ()
      | Some act \<Rightarrow> emit (Event \<lparr>w_action = act, w_params = volume_params (vs_code notifyCode) volume\<rparr>))"

definition BuildVolumeAbnormalWant :: "VolumeExternal \<Rightarrow> int \<Rightarrow> want" where
  "BuildVolumeAbnormalWant volume reasonCode =
     \<lparr>w_action = COMMON_EVENT_DISK_UNMOUNTABLE,
      w_params = volume_params (vs_code DAMAGED) volume @
        [(''reasonCode'', WInteger reasonCode), (''reason'', WString (ReasonCodeToMessage reasonCode)),
         (''devPath'', WString (DEV_BLOCK_PREFIX @ vc_id volume))]\<rparr>"

definition PublishVolumeAbnormal :: "VolumeExternal \<Rightarrow> int \<Rightarrow> unit dmop" where
  "PublishVolumeAbnormal volume reasonCode = emit (Event (BuildVolumeAbnormalWant volume reasonCode))"

definition PublishDiskAbnormal :: "string \<Rightarrow> int \<Rightarrow> unit dmop" where
  "PublishDiskAbnormal diskId reasonCode =
     emit (Event \<lparr>w_action = COMMON_EVENT_DISK_UNMOUNTABLE,
       w_params = [(''diskId'', WString diskId), (''volumeState'', WInteger (vs_code DAMAGED)),
         (''reasonCode'', WInteger reasonCode), (''reason'', WString (ReasonCodeToMessage reasonCode)),
         (''devPath'', WString (DEV_BLOCK_PREFIX @ diskId))]\<rparr>)"

datatype DiskEventKind = DISK_EVENT_MOUNTED | DISK_EVENT_REMOVED

definition disk_want :: "DiskEventKind \<Rightarrow> Disk \<Rightarrow> want" where
  "disk_want kind disk =
     (let base = [(''diskId'', WString (d_diskId disk)), (''sizeBytes'', WInteger (to_int32 (d_sizeBytes disk))),
                  (''sysPath'', WString (d_sysPath disk)), (''flag'', WInteger (d_diskType disk))]
      in case kind of
           DISK_EVENT_MOUNTED \<Rightarrow> \<lparr>w_action = COMMON_EVENT_DISK_MOUNTED, w_params = base @ [(''diskState'', WInteger 0)]\<rparr>
         | DISK_EVENT_REMOVED \<Rightarrow> \<lparr>w_action = COMMON_EVENT_DISK_REMOVED, w_params = base\<rparr>)"

definition PublishDiskChange :: "DiskEventKind \<Rightarrow> Disk \<Rightarrow> unit dmop" where
  "PublishDiskChange kind disk = emit (Event (disk_want kind disk))"

section \<open>Definitions: the adapters\<close>

abbreviation (input) E_DAEMON_IPC_FAILED :: errno where "E_DAEMON_IPC_FAILED \<equiv> 23"
abbreviation (input) E_REMOTE_IS_NULLPTR :: errno where "E_REMOTE_IS_NULLPTR \<equiv> 11"

text \<open>A reply of a vendor library carries in its flag whether the library and the symbol were found.\<close>

definition NotifyUsbFuseMount :: "env \<Rightarrow> int \<Rightarrow> string \<Rightarrow> string \<Rightarrow> errno dmop" where
  "NotifyUsbFuseMount env fuseFd volumeId fsUuid = do {
     r \<leftarrow> invoke env (Lib_FuseMount fuseFd volumeId fsUuid);
     ret (if \<not> rp_flag r \<or> rp_err r \<noteq> E_OK then E_DAEMON_IPC_FAILED else E_OK) }"

definition NotifyUsbFuseUmount :: "env \<Rightarrow> string \<Rightarrow> errno dmop" where
  "NotifyUsbFuseUmount env volumeId = do {
     r \<leftarrow> invoke env (Lib_FuseUmount volumeId);
     ret (if \<not> rp_flag r \<or> rp_err r \<noteq> E_OK then E_DAEMON_IPC_FAILED else E_OK) }"

definition IsUsbFuseByType :: "env \<Rightarrow> string \<Rightarrow> bool dmop" where
  "IsUsbFuseByType env fsType = do {
     r \<leftarrow> invoke env (Lib_IsUsbFuseByType fsType);
     ret (rp_flag r \<and> rp_int 0 0 r \<noteq> 0) }"

definition GetBoolParameter :: "env \<Rightarrow> string \<Rightarrow> bool dmop" where
  "GetBoolParameter env name = do { r \<leftarrow> invoke env (Sys_GetParameter name); ret (rp_flag r) }"

definition GetParameter :: "env \<Rightarrow> string \<Rightarrow> string dmop" where
  "GetParameter env name = do { r \<leftarrow> invoke env (Sys_GetParameter name); ret (rp_str 0 r) }"

definition IsUsbFuseEnabledForFsType :: "env \<Rightarrow> string \<Rightarrow> bool dmop" where
  "IsUsbFuseEnabledForFsType env fsType = do {
     enabledByCcm \<leftarrow> GetBoolParameter env ''const.enterprise.external_storage_device.manage.enable'';
     enabledByType \<leftarrow> (if enabledByCcm then IsUsbFuseByType env fsType else ret False);
     ret (enabledByCcm \<and> enabledByType \<and> fsType \<noteq> []) }"

text \<open>The notification runs on a thread pool; the caller does not see its result.\<close>

definition NotifyVolumeMounted :: "env \<Rightarrow> string \<Rightarrow> string \<Rightarrow> string \<Rightarrow> unit dmop" where
  "NotifyVolumeMounted env diskId volumeId volPath = do {
     r \<leftarrow> invoke env (Lib_NotifyVolumeMounted diskId volumeId volPath); ret () }"

definition IsEnterpriseDevice :: "env \<Rightarrow> bool dmop" where
  "IsEnterpriseDevice env = do { v \<leftarrow> GetParameter env ''const.edm.is_enterprise_device''; ret (v = ''true'') }"

definition IsInterceptEnabled :: "env \<Rightarrow> bool dmop" where
  "IsInterceptEnabled env = do {
     e \<leftarrow> IsEnterpriseDevice env;
     if \<not> e then ret False
     else do { v \<leftarrow> GetParameter env ''persist.edm.enable_external_storage_mount_intercept''; ret (v = ''true'') } }"

definition IsSataOddBurnDisabled :: "env \<Rightarrow> bool dmop" where
  "IsSataOddBurnDisabled env = do {
     e \<leftarrow> IsEnterpriseDevice env;
     if \<not> e then ret False
     else do { v \<leftarrow> GetParameter env ''persist.edm.disable_sata_odd_burn''; ret (v = ''true'') } }"

definition IsEdmManagedDiskType :: "int \<Rightarrow> bool" where
  "IsEdmManagedDiskType diskType \<longleftrightarrow>
     diskType = dt_code SD_FLAG \<or> diskType = dt_code USB_FLAG \<or> diskType = dt_code CD_FLAG"

definition IsExternalOddBurnAllowed :: "env \<Rightarrow> int \<Rightarrow> int \<Rightarrow> int \<Rightarrow> string \<Rightarrow> bool dmop" where
  "IsExternalOddBurnAllowed env userId pid vid sn = do {
     r \<leftarrow> invoke env (Edm_IsAllowedOddBurn userId vid pid sn);
     ret (if \<not> rp_flag r then True else rp_int 0 0 r \<noteq> 0) }"

definition IsEdmEnableOddBurn :: "env \<Rightarrow> string \<Rightarrow> int \<Rightarrow> bool dmop" where
  "IsEdmEnableOddBurn env diskId callerUserId = do {
     e \<leftarrow> IsEnterpriseDevice env;
     if \<not> e then ret True
     else do {
       r \<leftarrow> GetDiskById env diskId;
       case r of
         Inl _ \<Rightarrow> ret True
       | Inr disk \<Rightarrow>
           if d_diskType disk \<noteq> dt_code CD_FLAG then ret True
           else if \<not> d_isUsbBus disk then do { dis \<leftarrow> IsSataOddBurnDisabled env; ret (\<not> dis) }
           else IsExternalOddBurnAllowed env callerUserId (d_productId disk) (d_vendorId disk) (d_serialNumber disk) } }"

definition NotifyExternalStorageDeviceAdd :: "env \<Rightarrow> VolumeExternal \<Rightarrow> Disk \<Rightarrow> errno dmop" where
  "NotifyExternalStorageDeviceAdd env volume disk = do {
     r \<leftarrow> invoke env (Edm_NotifyDevice (d_diskType disk) (ve_path volume) (vc_id volume)
            (vc_state volume = vs_code MOUNTED) (d_vendorId disk) (d_productId disk) (d_serialNumber disk));
     ret (if \<not> rp_flag r then E_REMOTE_IS_NULLPTR else rp_err r) }"

definition IsEdmControlMountEnabled :: "env \<Rightarrow> VolumeExternal \<Rightarrow> MountParam \<Rightarrow> bool dmop" where
  "IsEdmControlMountEnabled env volume mountParam = do {
     e \<leftarrow> IsEnterpriseDevice env;
     if \<not> e then ret False
     else do {
       i \<leftarrow> IsInterceptEnabled env;
       if \<not> i then ret False
       else if mp_fromEdmMount mountParam then ret False
       else do {
         r \<leftarrow> GetDiskById env (vc_diskId volume);
         case r of
           Inl _ \<Rightarrow> ret False
         | Inr disk \<Rightarrow>
             if \<not> IsEdmManagedDiskType (d_diskType disk) then ret False
             else do { n \<leftarrow> NotifyExternalStorageDeviceAdd env volume disk; ret (n = E_OK) } } } }"

section \<open>Invariants\<close>

context handler_invariant
begin

lemma keeps_publish [keeps_ops]: "keeps I (PublishVolumeChange env c v)"
  by (auto simp: PublishVolumeChange_def SetMountedEventParams_def Let_def intro!: keeps_rules keeps_ops)

lemma keeps_publish_plain [keeps_ops]:
  "keeps I (PublishVolumeResult c v)" "keeps I (PublishVolumeAbnormal v r)"
  "keeps I (PublishDiskAbnormal k r)" "keeps I (PublishDiskChange dk d)"
  by (auto simp: PublishVolumeResult_def PublishVolumeAbnormal_def PublishDiskAbnormal_def PublishDiskChange_def
      intro!: keeps_rules)

lemma keeps_params [keeps_ops]:
  "keeps I (GetBoolParameter env n)" "keeps I (GetParameter env n)"
  "keeps I (NotifyUsbFuseMount env fd k u)" "keeps I (NotifyUsbFuseUmount env k)"
  "keeps I (IsUsbFuseByType env t)" "keeps I (NotifyVolumeMounted env k1 k2 p)"
  by (auto simp: GetBoolParameter_def GetParameter_def NotifyUsbFuseMount_def NotifyUsbFuseUmount_def
      IsUsbFuseByType_def NotifyVolumeMounted_def intro!: keeps_rules)

lemma keeps_adapters [keeps_ops]:
  "keeps I (IsUsbFuseEnabledForFsType env t)" "keeps I (IsEnterpriseDevice env)"
  "keeps I (IsExternalOddBurnAllowed env i j k sn)" "keeps I (NotifyExternalStorageDeviceAdd env v d)"
  by (auto simp: IsUsbFuseEnabledForFsType_def IsEnterpriseDevice_def IsExternalOddBurnAllowed_def
      NotifyExternalStorageDeviceAdd_def intro!: keeps_rules keeps_ops)

lemma keeps_edm [keeps_ops]: "keeps I (IsSataOddBurnDisabled env)" "keeps I (IsInterceptEnabled env)"
  by (auto simp: IsSataOddBurnDisabled_def IsInterceptEnabled_def intro!: keeps_rules keeps_ops)

lemma keeps_edm_policy [keeps_ops]:
  "keeps I (IsEdmEnableOddBurn env d u)" "keeps I (IsEdmControlMountEnabled env v mp)"
  by (auto simp: IsEdmEnableOddBurn_def IsEdmControlMountEnabled_def intro!: keeps_rules keeps_ops)

end

end
