(* ===== verification/Dm_Mount.thy ===== *)
theory Dm_Mount
  imports Dm_Events
begin

text \<open>
  Mounting, unmounting and repairing a volume (\<^verbatim>\<open>disk/disk_manager.cpp\<close>). A handler takes a snapshot of the
  volume under the lock, works on the snapshot while it calls the daemon, and writes the snapshot or some
  fields of it back; the functions that the source gives the snapshot by reference return the changed
  snapshot with the error code. \<open>sleep_for\<close> is a call like the others. The reporting scope \<open>IpcDfxScope\<close>
  returns the code it is given and is left out here; \<^verbatim>\<open>Dm_Report\<close> adds it.
\<close>

section \<open>Definitions\<close>

subsection \<open>Paths, flags and policy\<close>

definition EXTERNAL_MOUNT_ROOT :: string where "EXTERNAL_MOUNT_ROOT = ''/mnt/data/external/''"
definition EXTERNAL_FUSE_DATA_ROOT :: string where "EXTERNAL_FUSE_DATA_ROOT = ''/mnt/data/external_fuse/''"
definition EXTERNAL_DVR_ROOT :: string where "EXTERNAL_DVR_ROOT = ''/mnt/data/dvr/''"
definition FUSE_UMOUNT_FS_TYPE :: string where "FUSE_UMOUNT_FS_TYPE = ''fuse''"
definition VOLDATA_MOUNT_CONTEXT :: string where "VOLDATA_MOUNT_CONTEXT = ''bb_retry''"
definition MS_RDONLY :: "64 word" where "MS_RDONLY = 1"
definition HMFS_FLAG :: "64 word" where "HMFS_FLAG = 0x8000"

text \<open>The parameter read has \<open>FindParameter\<close> in the flag and the result of \<open>GetParameterValue\<close> as the code.\<close>

definition ReadPersistUsbReadonlyMountFlagBits :: "env \<Rightarrow> bool \<Rightarrow> 64 word dmop" where
  "ReadPersistUsbReadonlyMountFlagBits env useFuseData =
     (if useFuseData then ret 0
      else do {
        r \<leftarrow> invoke env (Sys_GetParameter ''persist.filemanagement.usb.readonly'');
        ret (if \<not> rp_flag r then 0
             else if 0 \<le> rp_err r \<and> c_str (rp_str 0 r) = ''true'' then MS_RDONLY else 0) })"

definition ApplyDefaultVolumeDescriptionIfUnset :: "VolumeExternal \<Rightarrow> int \<Rightarrow> VolumeExternal" where
  "ApplyDefaultVolumeDescriptionIfUnset v flag =
     (if ve_description v \<noteq> [] then v
      else if flag = dt_code DATA_DISK_SSD \<or> flag = dt_code DATA_DISK_HDD then v
      else v\<lparr>ve_description :=
        (if flag = dt_code SD_FLAG then ''MySDCard''
         else if flag = dt_code USB_FLAG then ''MyUSB''
         else if flag = dt_code CD_FLAG then ''MyDVD''
         else ''Default'')\<rparr>)"

definition ResolveVoldataMountPath :: "env \<Rightarrow> string \<Rightarrow> (string \<times> bool) dmop" where
  "ResolveVoldataMountPath env fsUuid = do {
     i \<leftarrow> on_store (Store_Init (en_store env));
     if i \<noteq> E_OK then ret ([], False)
     else do {
       known \<leftarrow> gets (\<lambda>s. TryGetMountPath fsUuid (vstore s));
       case known of
         Some p \<Rightarrow> ret (p, False)
       | None \<Rightarrow> do {
           r \<leftarrow> on_store (ResolveMountPath (en_store env) fsUuid);
           ret (case r of Inl _ \<Rightarrow> ([], False) | Inr (p, created) \<Rightarrow> (p, created)) } } }"

definition BuildMountDataOptions :: "bool \<Rightarrow> string" where
  "BuildMountDataOptions useVoldataPath = (if useVoldataPath then VOLDATA_MOUNT_CONTEXT else [])"

definition BuildSafeExternalMountPath :: "string \<Rightarrow> string" where
  "BuildSafeExternalMountPath suffix =
     (if \<not> IsUuidValid suffix then []
      else let mountPath = EXTERNAL_MOUNT_ROOT @ suffix in
        if length mountPath \<le> length EXTERNAL_MOUNT_ROOT then [] else mountPath)"

definition ResolveQueryUsbIsInUseMountPath :: "store \<Rightarrow> VolumeExternal \<Rightarrow> bool \<Rightarrow> string" where
  "ResolveQueryUsbIsInUseMountPath st v isInternalDataDisk =
     (if ve_path v \<noteq> [] then ve_path v
      else
        let fsNormLower = str_tolower (GetFsTypeString v); fsUuid = ve_fsUuid v;
            external = (if IsUuidValid fsUuid then EXTERNAL_MOUNT_ROOT @ fsUuid else [])
        in if isInternalDataDisk \<and> fsNormLower = ''f2fs'' \<and> IsUuidValid fsUuid
           then case TryGetMountPath fsUuid st of Some p \<Rightarrow> p | None \<Rightarrow> external
           else external)"

definition ShouldUseVoldataMountPathForDiskUnlocked :: "(string, Disk) omap \<Rightarrow> string \<Rightarrow> string \<Rightarrow> bool" where
  "ShouldUseVoldataMountPathForDiskUnlocked dmap diskId fsNormLower =
     (case om_get dmap diskId of
        None \<Rightarrow> False
      | Some d \<Rightarrow> if \<not> Disk_IsInternalDataDisk d then False else fsNormLower = ''f2fs'')"

record VolumeMountPolicy =
  pol_useVoldataPath :: bool
  pol_useFuseData :: bool
  pol_useDvrPath :: bool

definition ComputeVolumeMountPolicy :: "env \<Rightarrow> string \<Rightarrow> string \<Rightarrow> VolumeMountPolicy dmop" where
  "ComputeVolumeMountPolicy env diskId fsType = do {
     let fsNormLower = str_tolower fsType;
     dmap \<leftarrow> gets diskMap;
     let voldata = ShouldUseVoldataMountPathForDiskUnlocked dmap diskId fsNormLower;
     let (isInternalDisk, dvr) = (case om_get dmap diskId of
           None \<Rightarrow> (False, False)
         | Some d \<Rightarrow> (Disk_IsInternalDataDisk d, d_diskType d = dt_code DVR_USB));
     let bypassTobForPcNonDataFs = (isInternalDisk \<and> fsNormLower \<noteq> ''f2fs'');
     fuse \<leftarrow> (if \<not> voldata \<and> \<not> dvr \<and> \<not> bypassTobForPcNonDataFs
              then IsUsbFuseEnabledForFsType env fsType else ret False);
     ret \<lparr>pol_useVoldataPath = voldata, pol_useFuseData = fuse, pol_useDvrPath = dvr\<rparr> }"

text \<open>The second word of a line; a line with one word leaves that word in the variable.\<close>

definition second_word :: "string \<Rightarrow> string" where
  "second_word line = (case split_ws line of [] \<Rightarrow> [] | [w] \<Rightarrow> w | w # w2 # _ \<Rightarrow> w2)"

definition IsPathMounted :: "env \<Rightarrow> string \<Rightarrow> bool dmop" where
  "IsPathMounted env path =
     (if path = [] then ret True
      else
        let p = (if last path = SLASH then butlast path else path) in
        do {
          r \<leftarrow> invoke env (Sys_ReadFile ''/proc/mounts'');
          ret (if \<not> rp_flag r then True else list_ex (\<lambda>l. second_word l = p) (getlines (rp_str 0 r))) })"

subsection \<open>Fuse\<close>

definition MountUsbFuseIfNeeded :: "env \<Rightarrow> string \<Rightarrow> string \<Rightarrow> string \<Rightarrow> bool \<Rightarrow> (errno \<times> bool) dmop" where
  "MountUsbFuseIfNeeded env volumeId fsType fsUuid useFuseData =
     (if \<not> useFuseData then ret (E_OK, False)
      else do {
        en \<leftarrow> IsUsbFuseEnabledForFsType env fsType;
        if \<not> en then ret (E_OK, False)
        else if \<not> IsUuidValid fsUuid then ret (E_PARAMS_INVALID, False)
        else do {
          let mountPath = EXTERNAL_MOUNT_ROOT @ fsUuid;
          r \<leftarrow> invoke env (Sd_MountFuseDevice mountPath);
          if rp_err r \<noteq> E_OK then ret (rp_err r, False)
          else do {
            let fuseFd = rp_int 0 (- 1) r;
            n \<leftarrow> NotifyUsbFuseMount env fuseFd volumeId fsUuid;
            if n \<noteq> E_OK then do {
              (if 0 \<le> fuseFd then do { c \<leftarrow> invoke env (Sys_Close fuseFd); ret () } else ret ());
              u \<leftarrow> invoke env (Sd_Unmount mountPath FUSE_UMOUNT_FS_TYPE True);
              ret (n, False) }
            else ret (E_OK, True) } } })"

definition RollbackFuseMount :: "env \<Rightarrow> string \<Rightarrow> string \<Rightarrow> errno dmop" where
  "RollbackFuseMount env volumeId fsUuid =
     (if \<not> IsUuidValid fsUuid then ret E_PARAMS_INVALID
      else do {
        let fusePath = EXTERNAL_MOUNT_ROOT @ fsUuid;
        mounted \<leftarrow> IsPathMounted env fusePath;
        if mounted then do {
          r \<leftarrow> invoke env (Sd_Unmount fusePath FUSE_UMOUNT_FS_TYPE True);
          if rp_err r \<noteq> E_OK then ret (rp_err r) else NotifyUsbFuseUmount env volumeId }
        else NotifyUsbFuseUmount env volumeId })"

definition UnmountVolumeMountPoints :: "env \<Rightarrow> VolumeExternal \<Rightarrow> bool \<Rightarrow> errno dmop" where
  "UnmountVolumeMountPoints env v force =
     (let fsType = GetFsTypeString v; mountedPath = ve_path v in
      if mountedPath \<noteq> [] \<and> starts_with EXTERNAL_FUSE_DATA_ROOT mountedPath then do {
        r \<leftarrow> invoke env (Sd_Unmount mountedPath fsType force);
        if rp_err r \<noteq> E_OK then ret (rp_err r)
        else do {
          let fuseMountPath = BuildSafeExternalMountPath (ve_fsUuid v);
          e \<leftarrow> (if fuseMountPath \<noteq> [] then do {
                  r2 \<leftarrow> invoke env (Sd_Unmount fuseMountPath FUSE_UMOUNT_FS_TYPE force); ret (rp_err r2) }
                else ret E_OK);
          if e \<noteq> E_OK then ret e else NotifyUsbFuseUmount env (vc_id v) } }
      else if mountedPath \<noteq> [] then do {
        r \<leftarrow> invoke env (Sd_Unmount mountedPath fsType force); ret (rp_err r) }
      else if fsType = ''mtp'' \<or> fsType = ''ptp'' then do {
        let mountPath = BuildSafeExternalMountPath (vc_id v);
        if mountPath = [] then ret E_OK
        else do { r \<leftarrow> invoke env (Sd_Unmount mountPath fsType force); ret (rp_err r) } }
      else ret E_OK)"

subsection \<open>Mount\<close>

definition EnsureFsUuidReady :: "env \<Rightarrow> VolumeExternal \<Rightarrow> (errno \<times> VolumeExternal \<times> string) dmop" where
  "EnsureFsUuidReady env v =
     (if ve_fsUuid v \<noteq> [] then
        ret (if \<not> IsUuidValid (ve_fsUuid v) then E_PARAMS_INVALID else E_OK, v, ve_fsUuid v)
      else do {
        r \<leftarrow> invoke env (Sd_ReadMetadata (DEV_BLOCK_PREFIX @ vc_id v));
        let label = rp_str 2 r;
        if rp_err r \<noteq> E_OK then ret (rp_err r, v, [])
        else if \<not> IsUuidValid (rp_str 0 r) then ret (E_PARAMS_INVALID, v, [])
        else do {
          vm \<leftarrow> gets volumeMap;
          let u = DedupFsUuidUnlocked vm (vc_id v) (rp_str 0 r);
          modify (volumeMap_update (om_mod (vc_id v) (ve_fsUuid_update (\<lambda>_. u))));
          ret (E_OK, v\<lparr>ve_fsUuid := u, ve_description := label, ve_fsType := GetFsTypeByStr (rp_str 1 r)\<rparr>, u) } })"

definition BuildMountDataPath :: "env \<Rightarrow> VolumeMountPolicy \<Rightarrow> string \<Rightarrow> (string \<times> bool) dmop" where
  "BuildMountDataPath env policy fsUuid =
     (if pol_useVoldataPath policy then ResolveVoldataMountPath env fsUuid
      else if pol_useDvrPath policy then ret (EXTERNAL_DVR_ROOT @ fsUuid, False)
      else if pol_useFuseData policy then ret (EXTERNAL_FUSE_DATA_ROOT @ fsUuid, False)
      else ret (EXTERNAL_MOUNT_ROOT @ fsUuid, False))"

definition MountVolumeSetPath :: "VolumeExternal \<Rightarrow> string \<Rightarrow> errno dmop" where
  "MountVolumeSetPath v dataMountPath = do {
     vm \<leftarrow> gets volumeMap;
     if om_get vm (vc_id v) = None then ret E_NON_EXIST
     else do { modify (volumeMap_update (om_mod (vc_id v) (ve_path_update (\<lambda>_. dataMountPath)))); ret E_OK } }"

record MountDataPathParams =
  mdp_fsUuid :: string
  mdp_policy :: VolumeMountPolicy
  mdp_voldataMappingCreated :: bool
  mdp_dataMountPath :: string
  mdp_fuseMounted :: bool
  mdp_diskFlag :: int
  mdp_readOnly :: bool

text \<open>What a failed mount undoes: a mapping created for it, and the fuse mount.\<close>

definition undo_mount :: "env \<Rightarrow> VolumeExternal \<Rightarrow> MountDataPathParams \<Rightarrow> unit dmop" where
  "undo_mount env v params = do {
     (if pol_useVoldataPath (mdp_policy params) \<and> mdp_voldataMappingCreated params
      then do { e \<leftarrow> on_store (RemoveByFsUuid (en_store env) (mdp_fsUuid params)); ret () } else ret ());
     (if mdp_fuseMounted params
      then do { e \<leftarrow> RollbackFuseMount env (vc_id v) (mdp_fsUuid params); ret () } else ret ()) }"

definition mount_flag :: "64 word \<Rightarrow> bool \<Rightarrow> string \<Rightarrow> bool \<Rightarrow> bool \<Rightarrow> 64 word" where
  "mount_flag persisted readOnly fsType userData voldata =
     (if (fsType = ''hmfs'' \<or> fsType = ''f2fs'') \<and> (userData \<or> \<not> voldata) then HMFS_FLAG
      else if readOnly then persisted OR MS_RDONLY else persisted)"

definition ExecuteVolumeDataMount ::
  "env \<Rightarrow> VolumeExternal \<Rightarrow> string \<Rightarrow> MountDataPathParams \<Rightarrow> (errno \<times> VolumeExternal) dmop" where
  "ExecuteVolumeDataMount env v fsType params = do {
     let policy = mdp_policy params;
     persisted \<leftarrow> ReadPersistUsbReadonlyMountFlagBits env (pol_useFuseData policy);
     let mountFlag = mount_flag persisted (mdp_readOnly params) fsType (ve_isUserData v) (pol_useVoldataPath policy);
     r \<leftarrow> invoke env (Sd_Mount (DEV_BLOCK_PREFIX @ vc_id v) (mdp_dataMountPath params) fsType mountFlag
            (BuildMountDataOptions (pol_useVoldataPath policy)));
     if rp_err r \<noteq> E_OK then do {
       undo_mount env v params;
       ret (rp_err r, v\<lparr>vc_state := vs_code UNMOUNTED\<rparr>) }
     else do {
       let v1 = v\<lparr>ve_path := mdp_dataMountPath params, vc_state := vs_code MOUNTED\<rparr>;
       err \<leftarrow> MountVolumeSetPath v1 (mdp_dataMountPath params);
       if err \<noteq> E_OK then do {
         u \<leftarrow> invoke env (Sd_Unmount (mdp_dataMountPath params) fsType True);
         undo_mount env v params;
         ret (err, v1\<lparr>vc_state := vs_code UNMOUNTED\<rparr>) }
       else do {
         (if mdp_diskFlag params = dt_code DATA_DISK_SSD \<or> mdp_diskFlag params = dt_code DATA_DISK_HDD
          then NotifyVolumeMounted env (vc_diskId v1) (vc_id v1) (mdp_dataMountPath params) else ret ());
         let v2 = ApplyDefaultVolumeDescriptionIfUnset (v1\<lparr>ve_flags := mdp_diskFlag params\<rparr>) (mdp_diskFlag params);
         PublishVolumeChange env MOUNTED v2;
         ret (E_OK, v2) } } }"

definition MountVolumeFilesystem ::
  "env \<Rightarrow> VolumeExternal \<Rightarrow> string \<Rightarrow> string \<Rightarrow> bool \<Rightarrow> (errno \<times> VolumeExternal) dmop" where
  "MountVolumeFilesystem env v fsType fsUuid readOnly = do {
     policy \<leftarrow> ComputeVolumeMountPolicy env (vc_diskId v) fsType;
     (fuseErr, fuseMounted) \<leftarrow> MountUsbFuseIfNeeded env (vc_id v) fsType fsUuid (pol_useFuseData policy);
     if fuseErr \<noteq> E_OK then ret (fuseErr, v)
     else do {
       (dataMountPath, created) \<leftarrow> BuildMountDataPath env policy fsUuid;
       if dataMountPath = [] then do {
         (if fuseMounted then do { e \<leftarrow> RollbackFuseMount env (vc_id v) fsUuid; ret () } else ret ());
         ret (DISK_MGR_ERR, v\<lparr>vc_state := vs_code UNMOUNTED\<rparr>) }
       else do {
         dmap \<leftarrow> gets diskMap;
         ExecuteVolumeDataMount env v fsType
           \<lparr>mdp_fsUuid = fsUuid, mdp_policy = policy, mdp_voldataMappingCreated = created,
            mdp_dataMountPath = dataMountPath, mdp_fuseMounted = fuseMounted,
            mdp_diskFlag = ResolveVolumeFlagsUnlocked dmap (vc_diskId v), mdp_readOnly = readOnly\<rparr> } } }"

text \<open>\<open>SetState\<close> on the snapshot together with \<open>SetVolumeStateLocked\<close>.\<close>

definition set_state :: "string \<Rightarrow> VolumeState \<Rightarrow> VolumeExternal \<Rightarrow> VolumeExternal dmop" where
  "set_state volumeId st v = do { SetVolumeStateLocked volumeId st; ret (v\<lparr>vc_state := vs_code st\<rparr>) }"

definition fail_repair :: "string \<Rightarrow> VolumeExternal \<Rightarrow> errno \<Rightarrow> (errno \<times> VolumeExternal) dmop" where
  "fail_repair volumeId v err = do {
     v1 \<leftarrow> set_state volumeId REPAIR_FINISH_FAIL v;
     PublishVolumeResult REPAIR_FINISH_FAIL v1;
     ret (err, v1) }"

definition finish_repair :: "string \<Rightarrow> VolumeExternal \<Rightarrow> (errno \<times> VolumeExternal) dmop" where
  "finish_repair volumeId v = do {
     PublishVolumeResult REPAIR_FINISH_SUCCESS v;
     v1 \<leftarrow> set_state volumeId UNMOUNTED v;
     ret (E_OK, v1) }"

text \<open>The check before an internal data volume is mounted, with the repair it may need.\<close>

definition check_before_mount :: "env \<Rightarrow> string \<Rightarrow> string \<Rightarrow> VolumeExternal \<Rightarrow> (errno \<times> VolumeExternal) dmop" where
  "check_before_mount env volumeId fsType v = do {
     v1 \<leftarrow> set_state volumeId CHECKING v;
     PublishVolumeResult CHECKING v1;
     c \<leftarrow> invoke env (Sd_Check (DEV_BLOCK_PREFIX @ vc_id v1) fsType);
     if rp_err c = E_VOL_NEED_FIX then do {
       v2 \<leftarrow> set_state volumeId REPAIR_START v1;
       PublishVolumeResult REPAIR_START v2;
       v3 \<leftarrow> set_state volumeId REPAIRING v2;
       r \<leftarrow> invoke env (Sd_Repair (DEV_BLOCK_PREFIX @ vc_id v3) fsType);
       if rp_err r \<noteq> E_OK then fail_repair volumeId v3 (rp_err r) else finish_repair volumeId v3 }
     else if rp_err c \<noteq> E_OK then fail_repair volumeId v1 (rp_err c)
     else finish_repair volumeId v1 }"

definition MountVolumeEntry :: "env \<Rightarrow> VolumeExternal \<Rightarrow> string \<Rightarrow> bool \<Rightarrow> (errno \<times> VolumeExternal) dmop" where
  "MountVolumeEntry env v volumeId readOnly = do {
     (uuidErr, v1, fsUuid) \<leftarrow> EnsureFsUuidReady env v;
     let fsType = GetFsTypeString v1;
     if uuidErr \<noteq> E_OK then ret (uuidErr, v1\<lparr>vc_state := vs_code UNMOUNTED\<rparr>)
     else do {
       policy \<leftarrow> ComputeVolumeMountPolicy env (vc_diskId v1) fsType;
       (checkErr, v2) \<leftarrow> (if pol_useVoldataPath policy then check_before_mount env volumeId fsType v1 else ret (E_OK, v1));
       if checkErr \<noteq> E_OK then ret (checkErr, v2)
       else do {
         (mountErr, v3) \<leftarrow> MountVolumeFilesystem env v2 fsType fsUuid readOnly;
         ret (mountErr, if mountErr \<noteq> E_OK then v3\<lparr>vc_state := vs_code UNMOUNTED\<rparr> else v3) } } }"

subsection \<open>Volumes addressed by a device path\<close>

definition LookupVolumeByCryptPath :: "volume_map \<Rightarrow> string \<Rightarrow> string \<Rightarrow> VolumeExternal option" where
  "LookupVolumeByCryptPath vm diskId cryptPath =
     map_option snd (find (\<lambda>(k, v). vc_diskId v = diskId \<and> (ve_loopPath v = cryptPath \<or> ve_mapperPath v = cryptPath)) vm)"

definition InitVolume :: "env \<Rightarrow> VolumeExternal \<Rightarrow> string \<Rightarrow> (errno \<times> VolumeExternal) dmop" where
  "InitVolume env v volPath = do {
     r \<leftarrow> invoke env (Sd_ReadMetadata volPath);
     let uuid = rp_str 0 r;
     if rp_err r \<noteq> E_OK then ret (rp_err r, v)
     else if \<not> IsUuidValid uuid then ret (E_PARAMS_INVALID, v)
     else ret (E_OK, v\<lparr>ve_fsUuid := uuid,
       ve_description := (if rp_str 2 r = [] then ''MyUSB'' else rp_str 2 r),
       ve_fsType := GetFsTypeByStr (rp_str 1 r), ve_path := EXTERNAL_MOUNT_ROOT @ uuid\<rparr>) }"

definition InitAndMountVolume :: "env \<Rightarrow> VolumeExternal \<Rightarrow> string \<Rightarrow> 64 word \<Rightarrow> (errno \<times> VolumeExternal) dmop" where
  "InitAndMountVolume env v volPath mountFlag = do {
     (e, v1) \<leftarrow> InitVolume env v volPath;
     if e \<noteq> E_OK then ret (e, v1)
     else do {
       r \<leftarrow> invoke env (Sd_Mount volPath (ve_path v1) (GetFsTypeString v1) mountFlag []);
       ret (rp_err r, v1) } }"

definition MountVolumeByPath :: "env \<Rightarrow> string \<Rightarrow> string \<Rightarrow> MountParam \<Rightarrow> errno dmop" where
  "MountVolumeByPath env diskId volPath mountParam = do {
     d \<leftarrow> GetDiskById env diskId;
     case d of
       Inl _ \<Rightarrow> ret E_NON_EXIST
     | Inr disk \<Rightarrow>
         if d_diskType disk \<noteq> dt_code USB_FLAG then ret E_MOUNT_VOL_BY_PATH_FAILED
         else do {
           vm \<leftarrow> gets volumeMap;
           case LookupVolumeByCryptPath vm diskId volPath of
             None \<Rightarrow> ret E_NON_EXIST
           | Some v \<Rightarrow>
               if vc_state v = vs_code MOUNTED then ret E_VOL_STATE
               else do {
                 persisted \<leftarrow> ReadPersistUsbReadonlyMountFlagBits env False;
                 let mountFlag = (if mp_readOnly mountParam then persisted OR MS_RDONLY else persisted);
                 (res, v1) \<leftarrow> InitAndMountVolume env v volPath mountFlag;
                 if res \<noteq> E_OK then ret res
                 else do {
                   let v2 = v1\<lparr>vc_state := vs_code MOUNTED, ve_flags := d_diskType disk, ve_mountFlag := mp_readOnly mountParam\<rparr>;
                   updateErr \<leftarrow> UpdateVolumeExternal v2;
                   if updateErr \<noteq> E_OK then ret updateErr
                   else do { PublishVolumeChange env MOUNTED v2; ret E_OK } } } } }"

definition mountable_state :: "int \<Rightarrow> bool" where
  "mountable_state st \<longleftrightarrow> st = vs_code UNMOUNTED \<or> st = vs_code DECRYPTING \<or> st = vs_code FORMAT_FINISH_FAIL"

definition Mount :: "env \<Rightarrow> string \<Rightarrow> MountParam \<Rightarrow> errno dmop" where
  "Mount env volumeId mountParam = do {
     disabled \<leftarrow> GetParameter env ''persist.edm.external_storage_card_disable'';
     if disabled = ''true'' then ret E_NON_EXIST
     else do {
       vm \<leftarrow> gets volumeMap;
       case om_get vm volumeId of
         None \<Rightarrow> ret E_NON_EXIST
       | Some v \<Rightarrow>
           if \<not> mountable_state (vc_state v) then ret E_VOL_MOUNT_ERR
           else do {
             devPath \<leftarrow> CheckVolId volumeId;
             intercepted \<leftarrow> (if en_edm env then IsEdmControlMountEnabled env v mountParam else ret False);
             if intercepted then ret E_OK
             else if devPath \<noteq> [] \<and> starts_with ''vol-crypt-'' volumeId then
               MountVolumeByPath env (vc_diskId v) devPath \<lparr>mp_readOnly = ve_mountFlag v, mp_fromEdmMount = False\<rparr>
             else do {
               (mountErr, v1) \<leftarrow> MountVolumeEntry env v volumeId (mp_readOnly mountParam);
               vm2 \<leftarrow> gets volumeMap;
               case om_get vm2 volumeId of
                 None \<Rightarrow> ret E_NON_EXIST
               | Some w \<Rightarrow>
                   if mountErr = E_OK \<and> \<not> mountable_state (vc_state w) then ret E_VOL_MOUNT_ERR
                   else do {
                     modify (volumeMap_update (om_mod volumeId (\<lambda>_. v1)));
                     ret mountErr } } } } }"

subsection \<open>Unmount\<close>

definition SaveVolumeFreeSize :: "env \<Rightarrow> VolumeExternal \<Rightarrow> VolumeExternal dmop" where
  "SaveVolumeFreeSize env v = do {
     (r, freeSize) \<leftarrow> GetFreeSizeOfVolume env (ve_fsUuid v);
     ret (if r = E_OK \<and> \<not> freeSize < 0 then v\<lparr>ve_freeSize := freeSize\<rparr> else v) }"

definition NotifyVolumeEjecting :: "env \<Rightarrow> string \<Rightarrow> VolumeExternal \<Rightarrow> string \<Rightarrow> (int \<times> VolumeExternal) dmop" where
  "NotifyVolumeEjecting env volumeId v umountResult = do {
     let v1 = v\<lparr>vc_state := vs_code EJECTING, ve_umountResult := umountResult\<rparr>;
     modify (volumeMap_update (om_mod volumeId (\<lambda>w. w\<lparr>vc_state := vs_code EJECTING, ve_umountResult := umountResult\<rparr>)));
     PublishVolumeChange env EJECTING v1;
     ret (vc_state v, v1) }"

definition RestoreVolumeState :: "string \<Rightarrow> VolumeExternal \<Rightarrow> int \<Rightarrow> VolumeExternal dmop" where
  "RestoreVolumeState volumeId v st = do {
     modify (volumeMap_update (om_mod volumeId (\<lambda>w. w\<lparr>vc_state := st\<rparr>)));
     ret (v\<lparr>vc_state := st\<rparr>) }"

definition ResolveUnmountForceFlag :: "env \<Rightarrow> VolumeExternal \<Rightarrow> bool \<Rightarrow> (errno \<times> bool) dmop" where
  "ResolveUnmountForceFlag env v forceUnmount = do {
     dmap \<leftarrow> gets diskMap;
     if (case om_get dmap (vc_diskId v) of None \<Rightarrow> True | Some d \<Rightarrow> \<not> Disk_IsInternalDataDisk d)
     then ret (E_OK, forceUnmount)
     else do {
       st \<leftarrow> gets vstore;
       let queryPath = ResolveQueryUsbIsInUseMountPath st v True;
       if queryPath = [] then ret (E_PARAMS_INVALID, False)
       else do {
         r \<leftarrow> invoke env (Sd_QueryUsbIsInUse queryPath);
         ret (if rp_err r \<noteq> E_OK then rp_err r else if rp_flag r then E_UMOUNT_BUSY else E_OK, False) } } }"

definition fail_unmount :: "env \<Rightarrow> VolumeExternal \<Rightarrow> int \<Rightarrow> errno \<Rightarrow> errno dmop" where
  "fail_unmount env v previousState err = do {
     (p, v1) \<leftarrow> NotifyVolumeEjecting env (vc_id v) v ''umountFail'';
     v2 \<leftarrow> RestoreVolumeState (vc_id v1) v1 previousState;
     ret err }"

definition finish_unmount :: "env \<Rightarrow> VolumeExternal \<Rightarrow> errno dmop" where
  "finish_unmount env v = do {
     let updated = v\<lparr>ve_path := [], vc_state := vs_code UNMOUNTED\<rparr>;
     PublishVolumeChange env UNMOUNTED updated;
     vm \<leftarrow> gets volumeMap;
     if om_get vm (vc_id v) = None then ret E_NON_EXIST
     else do {
       (if is_mtp_or_ptp updated then modify (volumeMap_update (om_erase (vc_id v)))
        else modify (volumeMap_update (om_mod (vc_id v) (\<lambda>w. w\<lparr>ve_path := [], vc_state := vs_code UNMOUNTED\<rparr>))));
       ret E_OK } }"

definition DoUnmountVolume :: "env \<Rightarrow> VolumeExternal \<Rightarrow> bool \<Rightarrow> errno dmop" where
  "DoUnmountVolume env v0 forceUnmount = do {
     v1 \<leftarrow> SaveVolumeFreeSize env v0;
     (previousState, v) \<leftarrow> NotifyVolumeEjecting env (vc_id v1) v1 [];
     dmap \<leftarrow> gets diskMap;
     (if (case om_get dmap (vc_diskId v) of None \<Rightarrow> False | Some d \<Rightarrow> Disk_IsInternalDataDisk d)
      then do { r \<leftarrow> invoke env (Sys_Sleep 1); ret () } else ret ());
     (prepErr, force) \<leftarrow> ResolveUnmountForceFlag env v forceUnmount;
     if prepErr \<noteq> E_OK then fail_unmount env v previousState prepErr
     else do {
       err \<leftarrow> UnmountVolumeMountPoints env v force;
       if err \<noteq> E_OK then fail_unmount env v previousState err else finish_unmount env v } }"

definition unmountable_state :: "int \<Rightarrow> bool" where
  "unmountable_state st \<longleftrightarrow> st = vs_code MOUNTED \<or> st = vs_code DAMAGED_MOUNTED \<or>
     st = vs_code ENCRYPTED_AND_LOCKED \<or> st = vs_code ENCRYPTED_AND_UNLOCKED"

definition Unmount :: "env \<Rightarrow> string \<Rightarrow> errno dmop" where
  "Unmount env volumeId = do {
     vm \<leftarrow> gets volumeMap;
     case om_get vm volumeId of
       None \<Rightarrow> ret E_NON_EXIST
     | Some v \<Rightarrow> if \<not> unmountable_state (vc_state v) then ret E_VOL_UMOUNT_ERR else DoUnmountVolume env v False }"

definition ForceUnmount :: "env \<Rightarrow> string \<Rightarrow> errno dmop" where
  "ForceUnmount env volumeId = do {
     vm \<leftarrow> gets volumeMap;
     case om_get vm volumeId of
       None \<Rightarrow> ret E_NON_EXIST
     | Some v \<Rightarrow> DoUnmountVolume env v True }"

definition UmountVolumeByPath :: "env \<Rightarrow> string \<Rightarrow> string \<Rightarrow> errno dmop" where
  "UmountVolumeByPath env diskId volPath = do {
     d \<leftarrow> GetDiskById env diskId;
     case d of
       Inl _ \<Rightarrow> ret E_NON_EXIST
     | Inr disk \<Rightarrow>
         if d_diskType disk \<noteq> dt_code USB_FLAG then ret E_UMOUNT_VOL_BY_PATH_FAILED
         else do {
           vm \<leftarrow> gets volumeMap;
           case LookupVolumeByCryptPath vm diskId volPath of
             None \<Rightarrow> ret E_NON_EXIST
           | Some v \<Rightarrow>
               if vc_state v = vs_code UNMOUNTED then ret E_VOL_STATE else DoUnmountVolume env v False } }"

subsection \<open>Abnormal volumes and repair\<close>

definition MarkVolumeAbnormal :: "string \<Rightarrow> AbnormalReason \<Rightarrow> errno dmop" where
  "MarkVolumeAbnormal volumeId reason = do {
     vm \<leftarrow> gets volumeMap;
     case om_get vm volumeId of
       None \<Rightarrow> ret E_NON_EXIST
     | Some v \<Rightarrow>
         if vc_state v = vs_code DAMAGED then ret E_OK
         else if vc_state v \<noteq> vs_code UNMOUNTED then ret E_VOL_STATE
         else do {
           modify (volumeMap_update (om_mod volumeId (vc_state_update (\<lambda>_. vs_code DAMAGED))));
           PublishVolumeAbnormal (v\<lparr>vc_state := vs_code DAMAGED\<rparr>) (reason_code reason);
           ret E_OK } }"

definition RepairAndCheckVolume :: "env \<Rightarrow> VolumeExternal \<Rightarrow> string \<Rightarrow> (errno \<times> VolumeExternal) dmop" where
  "RepairAndCheckVolume env v volumeId = do {
     let devPath = DEV_BLOCK_PREFIX @ vc_id v;
     let fsType = GetFsTypeString v;
     v1 \<leftarrow> set_state volumeId CHECKING v;
     PublishVolumeResult CHECKING v1;
     r \<leftarrow> invoke env (Sd_Repair devPath fsType);
     if rp_err r \<noteq> E_OK then fail_repair volumeId v1 (rp_err r)
     else do {
       policy \<leftarrow> ComputeVolumeMountPolicy env (vc_diskId v1) fsType;
       checkErr \<leftarrow> (if pol_useVoldataPath policy
                    then do { c \<leftarrow> invoke env (Sd_Check devPath fsType); ret (rp_err c) } else ret E_OK);
       if checkErr \<noteq> E_OK then fail_repair volumeId v1 checkErr else finish_repair volumeId v1 } }"

definition TryToFix :: "env \<Rightarrow> string \<Rightarrow> errno dmop" where
  "TryToFix env volumeId = do {
     vm \<leftarrow> gets volumeMap;
     case om_get vm volumeId of
       None \<Rightarrow> ret E_NON_EXIST
     | Some v \<Rightarrow> do {
         (umErr, v1) \<leftarrow>
           (if vc_state v = vs_code DAMAGED_MOUNTED \<or> vc_state v = vs_code MOUNTED then do {
              (previousState, w) \<leftarrow> NotifyVolumeEjecting env volumeId v [];
              e \<leftarrow> UnmountVolumeMountPoints env w True;
              if e \<noteq> E_OK then do { w1 \<leftarrow> RestoreVolumeState volumeId w previousState; ret (e, w1) }
              else do {
                modify (volumeMap_update (om_mod volumeId (\<lambda>x. x\<lparr>ve_path := [], vc_state := vs_code UNMOUNTED\<rparr>)));
                ret (E_OK, w\<lparr>ve_path := [], vc_state := vs_code UNMOUNTED\<rparr>) } }
            else ret (E_OK, v));
         if umErr \<noteq> E_OK then ret umErr
         else do {
           (rcErr, v2) \<leftarrow> RepairAndCheckVolume env v1 volumeId;
           if rcErr \<noteq> E_OK then ret rcErr
           else do {
             (mountErr, v3) \<leftarrow> MountVolumeEntry env v2 volumeId False;
             vm2 \<leftarrow> gets volumeMap;
             if om_get vm2 volumeId = None then ret E_NON_EXIST
             else do { modify (volumeMap_update (om_mod volumeId (\<lambda>_. v3))); ret mountErr } } } } }"

section \<open>Invariants\<close>

lemma ApplyDefault_id [simp]: "vc_id (ApplyDefaultVolumeDescriptionIfUnset v f) = vc_id v"
  by (simp add: ApplyDefaultVolumeDescriptionIfUnset_def)

context handler_invariant
begin

lemma keeps_paths [keeps_ops]:
  "keeps I (ReadPersistUsbReadonlyMountFlagBits env b)" "keeps I (ResolveVoldataMountPath env u)"
  "keeps I (IsPathMounted env p)" "keeps I (ComputeVolumeMountPolicy env d t)"
  "vc_id v \<in> K W_path \<Longrightarrow> keeps I (MountVolumeSetPath v p)"
  by (auto simp: ReadPersistUsbReadonlyMountFlagBits_def ResolveVoldataMountPath_def IsPathMounted_def
      ComputeVolumeMountPolicy_def MountVolumeSetPath_def Let_def intro!: keeps_rules keeps_ops)

lemma keeps_fuse [keeps_ops]:
  "keeps I (MountUsbFuseIfNeeded env k t u b)" "keeps I (RollbackFuseMount env k u)"
  "keeps I (UnmountVolumeMountPoints env v b)" "keeps I (BuildMountDataPath env pol u)"
  by (auto simp: MountUsbFuseIfNeeded_def RollbackFuseMount_def UnmountVolumeMountPoints_def
      BuildMountDataPath_def Let_def intro!: keeps_rules keeps_ops)

lemma keeps_undo [keeps_ops]: "keeps I (undo_mount env v p)"
  by (auto simp: undo_mount_def intro!: keeps_rules keeps_ops)

lemma EnsureFsUuidReady_id: "vc_id v \<in> K W_uuid \<Longrightarrow> ensures I (EnsureFsUuidReady env v) (\<lambda>(e, w, u). vc_id w = vc_id v)"
  by (auto simp: EnsureFsUuidReady_def Let_def intro!: keeps_rules keeps_ops)

lemma ExecuteVolumeDataMount_id:
  "vc_id v \<in> K W_path \<Longrightarrow> ensures I (ExecuteVolumeDataMount env v t p) (\<lambda>(e, w). vc_id w = vc_id v)"
  by (auto simp: ExecuteVolumeDataMount_def Let_def intro!: keeps_rules keeps_ops)

lemma MountVolumeFilesystem_id:
  "vc_id v \<in> K W_path \<Longrightarrow> ensures I (MountVolumeFilesystem env v t u b) (\<lambda>(e, w). vc_id w = vc_id v)"
  by (auto simp: MountVolumeFilesystem_def intro!: keeps_rules keeps_ops ExecuteVolumeDataMount_id)

lemma check_before_mount_id:
  "k \<in> K W_state \<Longrightarrow> ensures I (check_before_mount env k t v) (\<lambda>(e, w). vc_id w = vc_id v)"
  unfolding check_before_mount_def set_state_def fail_repair_def finish_repair_def
    State_Monad.bind_assoc State_Monad.bind_left_identity
  by (auto intro!: keeps_rules keeps_ops)

lemma MountVolumeEntry_id:
  assumes "vc_id v \<in> K W_uuid" "vc_id v \<in> K W_path" "k \<in> K W_state"
  shows "ensures I (MountVolumeEntry env v k b) (\<lambda>(e, w). vc_id w = vc_id v)"
proof -
  have check: "ensures I (if c then check_before_mount env k t v1 else ret (E_OK, v1)) (\<lambda>(e, w). vc_id w = vc_id v1)"
    for c t v1
    using check_before_mount_id[OF assms(3)] by (auto intro!: ensures_intros)
  show ?thesis
    unfolding MountVolumeEntry_def Let_def
    using assms(1,2)
    by (intro ensures_bind[OF EnsureFsUuidReady_id])
      (auto intro!: keeps_rules keeps_ops ensures_bind[OF check] ensures_bind[OF MountVolumeFilesystem_id]
        split: if_splits)
qed

lemma bind_MountVolumeEntry:
  assumes "k \<in> K W_uuid" "k \<in> K W_path" "k \<in> K W_state" "vc_id v = k" "\<And>e w. vc_id w = k \<Longrightarrow> ensures I (f (e, w)) R"
  shows "ensures I (State_Monad.bind (MountVolumeEntry env v k b) f) R"
  using assms by (intro ensures_bind[OF MountVolumeEntry_id]) auto

lemma MountVolumeByPath_keeps [keeps_ops]: "K W_any = UNIV \<Longrightarrow> keeps I (MountVolumeByPath env d p mp)"
  by (auto simp: MountVolumeByPath_def InitAndMountVolume_def InitVolume_def Let_def intro!: keeps_rules keeps_ops)

lemma keeps_InitAndMountVolume [keeps_ops]: "keeps I (InitAndMountVolume env v p f)"
  by (auto simp: InitAndMountVolume_def InitVolume_def Let_def intro!: keeps_rules keeps_ops)

text \<open>A container that cannot be mounted is not written at all.\<close>

lemma MountVolumeByPath_fail:
  assumes "run_state (MountVolumeByPath env d p mp) s = (e, t)" "e \<noteq> E_OK" "I s"
  shows "I t"
proof -
  obtain g s1 where 1: "run_state (GetDiskById env d) s = (g, s1)" by fastforce
  have "keeps I (GetDiskById env d)" by (rule keeps_ops)
  from ensuresD[OF this assms(3) 1] have s1: "I s1" by blast
  show ?thesis
  proof (cases "\<exists>disk v. g = Inr disk \<and> d_diskType disk = dt_code USB_FLAG \<and>
      LookupVolumeByCryptPath (volumeMap s1) d p = Some v \<and> vc_state v \<noteq> vs_code MOUNTED")
    case False
    with assms(1) 1 s1 show ?thesis
      by (auto simp: MountVolumeByPath_def split: sum.splits if_splits option.splits)
  next
    case True
    then obtain disk v where g: "g = Inr disk" "d_diskType disk = dt_code USB_FLAG"
      "LookupVolumeByCryptPath (volumeMap s1) d p = Some v" "vc_state v \<noteq> vs_code MOUNTED" by blast
    obtain per s2 where 2: "run_state (ReadPersistUsbReadonlyMountFlagBits env False) s1 = (per, s2)" by fastforce
    obtain res v1 s3 where 3: "run_state (InitAndMountVolume env v p (if mp_readOnly mp then per OR MS_RDONLY else per)) s2 = ((res, v1), s3)"
      by (metis prod.exhaust)
    from ensuresD[OF keeps_paths(1) s1 2] have "I s2" by blast
    from ensuresD[OF keeps_InitAndMountVolume this 3] have "I s3" by blast
    with assms(1,2) 1 2 3 g show ?thesis
      by (auto simp: MountVolumeByPath_def UpdateVolumeExternal_def Let_def split: if_splits prod.splits)
  qed
qed

lemma keeps_Mount [keeps_ops]:
  assumes "k \<in> K W_uuid" "k \<in> K W_path" "k \<in> K W_state" "k \<in> K W_any" "K W_any = UNIV \<or> \<not> starts_with ''vol-crypt-'' k"
  shows "keeps I (Mount env k mp)"
  unfolding Mount_def
  using assms
  by (auto intro!: keeps_rules keeps_ops keeps_gets_volume bind_MountVolumeEntry[OF assms(1-3)])

lemma keeps_unmount_parts [keeps_ops]:
  "keeps I (SaveVolumeFreeSize env v)" "k \<in> K W_eject \<Longrightarrow> keeps I (NotifyVolumeEjecting env k v u)"
  "k \<in> K W_state \<Longrightarrow> keeps I (RestoreVolumeState k v st)" "keeps I (ResolveUnmountForceFlag env v b)"
  by (auto simp: SaveVolumeFreeSize_def NotifyVolumeEjecting_def RestoreVolumeState_def
      ResolveUnmountForceFlag_def Let_def intro!: keeps_rules keeps_ops)

lemma NotifyVolumeEjecting_id:
  "k \<in> K W_eject \<Longrightarrow> ensures I (NotifyVolumeEjecting env k v u) (\<lambda>(st, w). st = vc_state v \<and> w = v\<lparr>vc_state := vs_code EJECTING, ve_umountResult := u\<rparr>)"
  by (auto simp: NotifyVolumeEjecting_def Let_def intro!: keeps_rules keeps_ops)

lemma SaveVolumeFreeSize_id: "ensures I (SaveVolumeFreeSize env v) (\<lambda>w. vc_id w = vc_id v)"
  by (auto simp: SaveVolumeFreeSize_def intro!: keeps_rules keeps_ops)

lemma keeps_fail_unmount [keeps_ops]: "vc_id v \<in> K W_eject \<Longrightarrow> vc_id v \<in> K W_state \<Longrightarrow> keeps I (fail_unmount env v st e)"
  unfolding fail_unmount_def by (intro ensures_bind[OF NotifyVolumeEjecting_id]) (auto intro!: keeps_rules keeps_ops)

lemma keeps_DoUnmountVolume [keeps_ops]: "vc_id v \<in> K W_any \<Longrightarrow> vc_id v \<in> K W_eject \<Longrightarrow> vc_id v \<in> K W_state \<Longrightarrow> vc_id v \<in> K W_erase \<Longrightarrow>
   keeps I (DoUnmountVolume env v b)"
  unfolding DoUnmountVolume_def finish_unmount_def Let_def
  by (intro ensures_bind[OF SaveVolumeFreeSize_id] ensures_bind[OF NotifyVolumeEjecting_id])
    (auto intro!: keeps_rules keeps_ops)

lemma keeps_unmount [keeps_ops]:
  "k \<in> K W_any \<Longrightarrow> k \<in> K W_eject \<Longrightarrow> k \<in> K W_state \<Longrightarrow> k \<in> K W_erase \<Longrightarrow> keeps I (Unmount env k)"
  "k \<in> K W_any \<Longrightarrow> k \<in> K W_eject \<Longrightarrow> k \<in> K W_state \<Longrightarrow> k \<in> K W_erase \<Longrightarrow> keeps I (ForceUnmount env k)"
  "K = (\<lambda>_. UNIV) \<Longrightarrow> keeps I (UmountVolumeByPath env d p)"
  by (auto simp: Unmount_def ForceUnmount_def UmountVolumeByPath_def intro!: keeps_gets_volume keeps_rules keeps_ops)

lemma keeps_MarkVolumeAbnormal [keeps_ops]: "k \<in> K W_state \<Longrightarrow> keeps I (MarkVolumeAbnormal k r)"
  by (auto simp: MarkVolumeAbnormal_def intro!: keeps_rules keeps_ops)

lemma RepairAndCheckVolume_id:
  "k \<in> K W_state \<Longrightarrow> ensures I (RepairAndCheckVolume env v k) (\<lambda>(e, w). vc_id w = vc_id v)"
  unfolding RepairAndCheckVolume_def set_state_def fail_repair_def finish_repair_def Let_def
    State_Monad.bind_assoc State_Monad.bind_left_identity
  by (auto intro!: keeps_rules keeps_ops)

lemma keeps_TryToFix [keeps_ops]:
  assumes "k \<in> K W_uuid" "k \<in> K W_path" "k \<in> K W_state" "k \<in> K W_any" "k \<in> K W_eject"
  shows "keeps I (TryToFix env k)"
proof -
  have first: "ensures I
      (if c then do {
              (previousState, w) \<leftarrow> NotifyVolumeEjecting env k v [];
              e \<leftarrow> UnmountVolumeMountPoints env w True;
              if e \<noteq> E_OK then do { w1 \<leftarrow> RestoreVolumeState k w previousState; ret (e, w1) }
              else do {
                modify (volumeMap_update (om_mod k (\<lambda>x. x\<lparr>ve_path := [], vc_state := vs_code UNMOUNTED\<rparr>)));
                ret (E_OK, w\<lparr>ve_path := [], vc_state := vs_code UNMOUNTED\<rparr>) } }
            else ret (E_OK, v)) (\<lambda>(e, w). vc_id w = vc_id v)" for c v
    unfolding NotifyVolumeEjecting_def RestoreVolumeState_def Let_def
      State_Monad.bind_assoc State_Monad.bind_left_identity prod.case
    using assms by (auto intro!: keeps_rules keeps_ops)
  show ?thesis
    unfolding TryToFix_def
    using assms
    by (auto intro!: keeps_rules keeps_ops keeps_gets_volume ensures_bind[OF first]
        ensures_bind[OF RepairAndCheckVolume_id[OF assms(3)]] bind_MountVolumeEntry[OF assms(1-3)])
qed

end

section \<open>A successful mount\<close>

lemma keeps_True [simp]: "ensures (\<lambda>_. True) m (\<lambda>_. True)"
  by (simp add: ensures_def)

text \<open>What was recorded stays recorded.\<close>

lemma log_rules:
  "keeps (\<lambda>s. it \<in> set (trace s)) (emit x)"
  "keeps (\<lambda>s. it \<in> set (trace s)) (invoke env c)"
  by (simp_all add: ensures_def run_invoke)

lemma log_publish: "keeps (\<lambda>s. it \<in> set (trace s)) (PublishVolumeChange env c v)"
  by (auto simp: PublishVolumeChange_def SetMountedEventParams_def GetFreeSizeOfVolume_def GetOddFreeSize_def
      GetOddCapacity_def Let_def intro!: ensures_intros log_rules)

lemma log_notify: "keeps (\<lambda>s. it \<in> set (trace s)) (NotifyVolumeMounted env d k p)"
  by (auto simp: NotifyVolumeMounted_def intro!: ensures_intros log_rules)

definition mount_done :: "string \<Rightarrow> string \<Rightarrow> string \<Rightarrow> dm \<Rightarrow> bool" where
  "mount_done volumeId path fsType s \<longleftrightarrow>
     (\<exists>flag opts r. Call (Sd_Mount (DEV_BLOCK_PREFIX @ volumeId) path fsType flag opts) r \<in> set (trace s) \<and> rp_err r = E_OK)"

text \<open>The event that announces a state of a volume, published to all users or to the one of a recorder.\<close>

definition announces :: "VolumeState \<Rightarrow> VolumeExternal \<Rightarrow> item \<Rightarrow> bool" where
  "announces c v it \<longleftrightarrow>
     (\<exists>act ps. map_of STATE_INFOS c = Some act \<and>
        it \<in> {Event \<lparr>w_action = act, w_params = volume_params (vs_code c) v @ ps\<rparr>,
              EventAsUser \<lparr>w_action = act, w_params = volume_params (vs_code c) v @ ps\<rparr> DVR_ALLOWED_USER_ID})"

lemma PublishVolumeChange_announces:
  assumes "map_of STATE_INFOS c = Some act"
  shows "announces c v (hd (trace (snd (run_state (PublishVolumeChange env c v) s))))"
  using assms by (auto simp: PublishVolumeChange_def announces_def Let_def split: prod.splits)

lemma ExecuteVolumeDataMount_ok:
  assumes "run_state (ExecuteVolumeDataMount env v fsType params) s = ((E_OK, w), t)"
  shows "vc_state w = vs_code MOUNTED \<and> ve_path w = mdp_dataMountPath params \<and> ve_fsType w = ve_fsType v \<and> vc_id w = vc_id v \<and>
    mount_done (vc_id w) (ve_path w) fsType t \<and> announces MOUNTED w (hd (trace t))"
proof -
  let ?path = "mdp_dataMountPath params"
  let ?v1 = "v\<lparr>ve_path := ?path, vc_state := vs_code MOUNTED\<rparr>"
  let ?w = "ApplyDefaultVolumeDescriptionIfUnset (?v1\<lparr>ve_flags := mdp_diskFlag params\<rparr>) (mdp_diskFlag params)"
  obtain persisted s1 where s1: "run_state (ReadPersistUsbReadonlyMountFlagBits env (pol_useFuseData (mdp_policy params))) s = (persisted, s1)"
    by fastforce
  define c where "c = Sd_Mount (DEV_BLOCK_PREFIX @ vc_id v) ?path fsType
    (mount_flag persisted (mdp_readOnly params) fsType (ve_isUserData v) (pol_useVoldataPath (mdp_policy params)))
    (BuildMountDataOptions (pol_useVoldataPath (mdp_policy params)))"
  define r where "r = en_reply env (trace s1) c"
  define s2 where "s2 = (en_others env (trace s1) s1)\<lparr>trace := Call c r # trace s1\<rparr>"
  have s2: "run_state (invoke env c) s1 = (r, s2)" by (simp add: run_invoke s2_def r_def)
  obtain e s3 where s3: "run_state (MountVolumeSetPath ?v1 ?path) s2 = (e, s3)" by fastforce
  from assms s1 s2 have r: "rp_err r = E_OK"
    by (auto simp: ExecuteVolumeDataMount_def c_def Let_def split: if_splits prod.splits)
  with assms s1 s2 s3 have "e = E_OK"
    by (auto simp: ExecuteVolumeDataMount_def c_def Let_def split: if_splits prod.splits)
  with assms s1 s2 s3 r have "\<exists>x s4 y. run_state (if mdp_diskFlag params = dt_code DATA_DISK_SSD \<or> mdp_diskFlag params = dt_code DATA_DISK_HDD
          then NotifyVolumeMounted env (vc_diskId ?v1) (vc_id ?v1) ?path else ret ()) s3 = (x, s4) \<and>
        run_state (PublishVolumeChange env MOUNTED ?w) s4 = (y, t) \<and> w = ?w"
    by (auto simp: ExecuteVolumeDataMount_def c_def Let_def split: prod.splits)
  then obtain x s4 y where s4: "run_state (if mdp_diskFlag params = dt_code DATA_DISK_SSD \<or> mdp_diskFlag params = dt_code DATA_DISK_HDD
          then NotifyVolumeMounted env (vc_diskId ?v1) (vc_id ?v1) ?path else ret ()) s3 = (x, s4)"
    and t: "run_state (PublishVolumeChange env MOUNTED ?w) s4 = (y, t)" and w: "w = ?w" by blast
  have "Call c r \<in> set (trace s2)" by (simp add: s2_def)
  moreover have "trace s3 = trace s2" using s3 by (auto simp: MountVolumeSetPath_def split: if_splits)
  moreover have "keeps (\<lambda>s. Call c r \<in> set (trace s)) (if b then NotifyVolumeMounted env d k p else ret ())" for b d k p
    by (auto intro!: ensures_intros log_notify)
  ultimately have "Call c r \<in> set (trace s4)" using s4 ensuresD by (metis (no_types, lifting))
  from ensuresD[OF log_publish this t] have "mount_done (vc_id v) ?path fsType t"
    using r unfolding mount_done_def c_def by blast
  moreover have "announces MOUNTED w (hd (trace t))"
    using PublishVolumeChange_announces[of MOUNTED _ ?w env s4] t w by (simp add: STATE_INFOS_def)
  ultimately show ?thesis unfolding w by (simp add: ApplyDefaultVolumeDescriptionIfUnset_def)
qed

lemma MountVolumeFilesystem_ok:
  assumes "run_state (MountVolumeFilesystem env v fsType fsUuid ro) s = ((E_OK, w), t)"
  shows "vc_state w = vs_code MOUNTED \<and> ve_path w \<noteq> [] \<and> ve_fsType w = ve_fsType v \<and> vc_id w = vc_id v \<and>
    mount_done (vc_id w) (ve_path w) fsType t \<and> announces MOUNTED w (hd (trace t))"
  using assms
  by (auto simp: MountVolumeFilesystem_def split: prod.splits if_splits dest!: ExecuteVolumeDataMount_ok)

lemma check_before_mount_result:
  "ensures (\<lambda>_. True) (check_before_mount env k t v)
     (\<lambda>(e, w). ve_fsType w = ve_fsType v \<and> (e \<noteq> E_OK \<longrightarrow> vc_state w = vs_code REPAIR_FINISH_FAIL))"
  unfolding check_before_mount_def set_state_def fail_repair_def finish_repair_def
    State_Monad.bind_assoc State_Monad.bind_left_identity
  by (auto intro!: ensures_intros)

lemma MountVolumeEntry_ok:
  assumes "run_state (MountVolumeEntry env v volumeId ro) s = ((E_OK, w), t)"
  shows "vc_state w = vs_code MOUNTED \<and> ve_path w \<noteq> [] \<and>
    mount_done (vc_id w) (ve_path w) (GetFsTypeString w) t \<and> announces MOUNTED w (hd (trace t))"
proof -
  obtain e v1 u s1 where 1: "run_state (EnsureFsUuidReady env v) s = ((e, v1, u), s1)" by (metis prod_cases3 prod.exhaust)
  obtain pol s2 where 2: "run_state (ComputeVolumeMountPolicy env (vc_diskId v1) (GetFsTypeString v1)) s1 = (pol, s2)" by fastforce
  define m where "m = (if pol_useVoldataPath pol then check_before_mount env volumeId (GetFsTypeString v1) v1 else ret (E_OK, v1))"
  obtain e2 v2 s3 where 3: "run_state m s2 = ((e2, v2), s3)" by (metis prod.exhaust)
  obtain e3 v3 s4 where 4: "run_state (MountVolumeFilesystem env v2 (GetFsTypeString v1) u ro) s3 = ((e3, v3), s4)"
    by (metis prod.exhaust)
  from assms 1 have "e = E_OK" by (auto simp: MountVolumeEntry_def Let_def split: if_splits)
  with assms 1 2 3 have "e2 = E_OK" by (auto simp: MountVolumeEntry_def Let_def m_def split: if_splits)
  with assms \<open>e = E_OK\<close> 1 2 3 4 have "e3 = E_OK" "w = v3" "t = s4"
    by (auto simp: MountVolumeEntry_def Let_def m_def split: if_splits)
  have "ve_fsType v2 = ve_fsType v1"
    using 3 ensuresD[OF check_before_mount_result TrueI, of env volumeId "GetFsTypeString v1" v1 s2]
    by (auto simp: m_def split: if_splits)
  with MountVolumeFilesystem_ok 4 \<open>e3 = E_OK\<close> \<open>w = v3\<close> \<open>t = s4\<close> show ?thesis by (fastforce simp: GetFsTypeString_def)
qed

lemma CheckVolId_pure: "\<exists>p. run_state (CheckVolId k) s = (p, s)"
  by (cases "k = []") (auto simp: CheckVolId_def GetVolumeById_def)

text \<open>
  The other branch: an encrypted container is mounted by its mapper or loop device. Its entry is written before
  the event is published, so that another thread can change it again before the operation returns.
\<close>

definition container_mounted :: "env \<Rightarrow> dm \<Rightarrow> bool" where
  "container_mounted env t \<longleftrightarrow> (\<exists>w p flag r s'.
     vc_state w = vs_code MOUNTED \<and> IsUuidValid (ve_fsUuid w) \<and> ve_path w = EXTERNAL_MOUNT_ROOT @ ve_fsUuid w \<and>
     p \<in> {ve_mapperPath w, ve_loopPath w} \<and>
     Call (Sd_Mount p (ve_path w) (GetFsTypeString w) flag []) r \<in> set (trace t) \<and> rp_err r = E_OK \<and>
     om_get (volumeMap s') (vc_id w) = Some w \<and> run_state (PublishVolumeChange env MOUNTED w) s' = ((), t) \<and>
     announces MOUNTED w (hd (trace t)))"

lemma InitAndMountVolume_ok:
  assumes "run_state (InitAndMountVolume env v p f) s = ((E_OK, w), t)"
  shows "IsUuidValid (ve_fsUuid w) \<and> ve_path w = EXTERNAL_MOUNT_ROOT @ ve_fsUuid w \<and>
    ve_mapperPath w = ve_mapperPath v \<and> ve_loopPath w = ve_loopPath v \<and>
    (\<exists>r. Call (Sd_Mount p (ve_path w) (GetFsTypeString w) f []) r \<in> set (trace t) \<and> rp_err r = E_OK)"
  using assms
  by (auto simp: InitAndMountVolume_def InitVolume_def Let_def run_invoke split: if_splits)

lemma MountVolumeByPath_success:
  assumes "run_state (MountVolumeByPath env d p mp) s = (E_OK, t)"
  shows "container_mounted env t"
proof -
  obtain g s1 where 1: "run_state (GetDiskById env d) s = (g, s1)" by fastforce
  from assms 1 obtain disk v where g: "g = Inr disk" "d_diskType disk = dt_code USB_FLAG"
    "LookupVolumeByCryptPath (volumeMap s1) d p = Some v" "vc_state v \<noteq> vs_code MOUNTED"
    by (auto simp: MountVolumeByPath_def split: sum.splits if_splits option.splits)
  obtain per s2 where 2: "run_state (ReadPersistUsbReadonlyMountFlagBits env False) s1 = (per, s2)" by fastforce
  define f where "f = (if mp_readOnly mp then per OR MS_RDONLY else per)"
  obtain res v1 s3 where 3: "run_state (InitAndMountVolume env v p f) s2 = ((res, v1), s3)"
    by (metis prod.exhaust)
  define w where "w = v1\<lparr>vc_state := vs_code MOUNTED, ve_flags := d_diskType disk, ve_mountFlag := mp_readOnly mp\<rparr>"
  define s4 where "s4 = volumeMap_update (om_mod (vc_id w) (\<lambda>_. w)) s3"
  from assms 1 2 3 g have "res = E_OK" and s3: "om_get (volumeMap s3) (vc_id w) \<noteq> None"
    and t: "run_state (PublishVolumeChange env MOUNTED w) s4 = ((), t)"
    by (auto simp: MountVolumeByPath_def UpdateVolumeExternal_def Let_def f_def w_def s4_def split: if_splits prod.splits)
  note i = InitAndMountVolume_ok[OF 3[unfolded \<open>res = E_OK\<close>]]
  then obtain r where r: "Call (Sd_Mount p (ve_path w) (GetFsTypeString w) f []) r \<in> set (trace s4)" "rp_err r = E_OK"
    by (auto simp: w_def s4_def GetFsTypeString_def)
  have "Call (Sd_Mount p (ve_path w) (GetFsTypeString w) f []) r \<in> set (trace t)"
    using ensuresD[OF log_publish r(1) t] by blast
  moreover have "p \<in> {ve_mapperPath w, ve_loopPath w}"
    using g(3) i by (auto simp: LookupVolumeByCryptPath_def w_def find_Some_iff)
  moreover have "om_get (volumeMap s4) (vc_id w) = Some w" using s3 by (auto simp: s4_def)
  moreover have "announces MOUNTED w (hd (trace t))"
    using PublishVolumeChange_announces[of MOUNTED _ w env s4] t by (simp add: STATE_INFOS_def)
  moreover have "vc_state w = vs_code MOUNTED" "IsUuidValid (ve_fsUuid w)" "ve_path w = EXTERNAL_MOUNT_ROOT @ ve_fsUuid w"
    using i by (simp_all add: w_def)
  ultimately show ?thesis unfolding container_mounted_def using r(2) t by blast
qed

lemma Mount_cases:
  assumes "run_state (Mount env volumeId mountParam) s = (E_OK, t)"
  shows "(\<exists>w. om_get (volumeMap t) volumeId = Some w \<and> vc_state w = vs_code MOUNTED \<and> ve_path w \<noteq> [] \<and>
            mount_done (vc_id w) (ve_path w) (GetFsTypeString w) t \<and> announces MOUNTED w (hd (trace t))) \<or>
         (en_edm env \<and> (\<exists>s1 v. run_state (IsEdmControlMountEnabled env v mountParam) s1 = (True, t))) \<or>
         (starts_with ''vol-crypt-'' volumeId \<and> container_mounted env t)"
proof -
  obtain disabled s1 where a: "run_state (GetParameter env ''persist.edm.external_storage_card_disable'') s = (disabled, s1)"
    by fastforce
  obtain devPath where b: "run_state (CheckVolId volumeId) s1 = (devPath, s1)" using CheckVolId_pure by blast
  from assms a obtain v where v: "om_get (volumeMap s1) volumeId = Some v"
    by (auto simp: Mount_def split: if_splits option.splits)
  obtain icpt s2 where c: "run_state (if en_edm env then IsEdmControlMountEnabled env v mountParam else ret False) s1 = (icpt, s2)"
    by fastforce
  obtain e v1 s3 where d: "run_state (MountVolumeEntry env v volumeId (mp_readOnly mountParam)) s2 = ((e, v1), s3)"
    by (metis prod.exhaust)
  let ?crypt = "devPath \<noteq> [] \<and> starts_with ''vol-crypt-'' volumeId"
  consider (intercepted) icpt | (container) "\<not> icpt" ?crypt | (plain) "\<not> icpt" "\<not> ?crypt" by blast
  then show ?thesis
  proof cases
    case intercepted
    with assms a b c v have "t = s2" by (auto simp: Mount_def split: if_splits)
    with c intercepted show ?thesis by (auto split: if_splits)
  next
    case container
    with assms a b c v have "run_state (MountVolumeByPath env (vc_diskId v) devPath
        \<lparr>mp_readOnly = ve_mountFlag v, mp_fromEdmMount = False\<rparr>) s2 = (E_OK, t)"
      by (auto simp: Mount_def split: if_splits)
    with container show ?thesis using MountVolumeByPath_success by blast
  next
    case plain
    with assms a b c d v have "e = E_OK" "t = volumeMap_update (om_mod volumeId (\<lambda>_. v1)) s3"
      "om_get (volumeMap s3) volumeId \<noteq> None"
      by (auto simp: Mount_def split: if_splits option.splits)
    moreover note MountVolumeEntry_ok[of env v volumeId _ s2 v1 s3]
    ultimately show ?thesis using d by (auto simp: mount_done_def)
  qed
qed

lemma Mount_success:
  assumes "run_state (Mount env volumeId mountParam) s = (E_OK, t)" "\<not> starts_with ''vol-crypt-'' volumeId"
  shows "(\<exists>w. om_get (volumeMap t) volumeId = Some w \<and> vc_state w = vs_code MOUNTED \<and> ve_path w \<noteq> [] \<and>
            mount_done (vc_id w) (ve_path w) (GetFsTypeString w) t \<and> announces MOUNTED w (hd (trace t))) \<or>
         (en_edm env \<and> (\<exists>s1 v. run_state (IsEdmControlMountEnabled env v mountParam) s1 = (True, t)))"
  using Mount_cases[OF assms(1)] assms(2) by blast


section \<open>A failed mount\<close>

lemma MountVolumeFilesystem_fail:
  "ensures (\<lambda>_. True) (MountVolumeEntry env v k b)
     (\<lambda>(e, w). e \<noteq> E_OK \<longrightarrow> vc_state w \<in> {vs_code UNMOUNTED, vs_code REPAIR_FINISH_FAIL})"
proof -
  have check: "ensures (\<lambda>_. True) (if c then check_before_mount env k t v1 else ret (E_OK, v1))
      (\<lambda>(e, w). e \<noteq> E_OK \<longrightarrow> vc_state w = vs_code REPAIR_FINISH_FAIL)" for c t v1
    by (auto intro!: ensures_intros ensures_weaken[OF check_before_mount_result])
  show ?thesis
    unfolding MountVolumeEntry_def Let_def
    by (auto intro!: ensures_intros ensures_bind[OF check])
qed

lemma finish_repair_state:
  "run_state (finish_repair k v) s = (r, t) \<Longrightarrow> om_get (volumeMap t) k = Some x \<Longrightarrow> vc_state x = vs_code UNMOUNTED"
  by (auto simp: finish_repair_def set_state_def SetVolumeStateLocked_def split: prod.splits)

lemma fail_repair_err: "run_state (fail_repair k v e) s = ((e', w), t) \<Longrightarrow> e' = e"
  by (auto simp: fail_repair_def split: prod.splits)

lemma check_before_mount_state:
  assumes "run_state (check_before_mount env k t v) s = ((E_OK, w), s')" "om_get (volumeMap s') k = Some x"
  shows "vc_state x = vs_code UNMOUNTED"
  using assms
  by (auto simp: check_before_mount_def split: prod.splits if_splits
      dest: finish_repair_state fail_repair_err)

abbreviation mountable :: "VolumeExternal option \<Rightarrow> bool" where
  "mountable o' \<equiv> \<exists>x. o' = Some x \<and> mountable_state (vc_state x)"

lemma MountVolumeEntry_state:
  assumes "quiet env" "volume_inv s0 k mountable s" "vc_id v = k"
    and run: "run_state (MountVolumeEntry env v k ro) s = ((E_OK, w), t)"
  shows "volume_inv s0 k mountable t"
proof -
  let ?present = "\<lambda>o'. o' \<noteq> None"
  note hi = volume_handler[OF assms(1), of s0 k mountable] and hp = volume_handler[OF assms(1), of s0 k ?present]
  obtain e v1 u s1 where 1: "run_state (EnsureFsUuidReady env v) s = ((e, v1, u), s1)" by (metis prod_cases3 prod.exhaust)
  obtain pol s2 where 2: "run_state (ComputeVolumeMountPolicy env (vc_diskId v1) (GetFsTypeString v1)) s1 = (pol, s2)" by fastforce
  define m where "m = (if pol_useVoldataPath pol then check_before_mount env k (GetFsTypeString v1) v1 else ret (E_OK, v1))"
  obtain e2 v2 s3 where 3: "run_state m s2 = ((e2, v2), s3)" by (metis prod.exhaust)
  obtain e3 v3 s4 where 4: "run_state (MountVolumeFilesystem env v2 (GetFsTypeString v1) u ro) s3 = ((e3, v3), s4)"
    by (metis prod.exhaust)
  from run 1 have "e = E_OK" by (auto simp: MountVolumeEntry_def Let_def split: if_splits)
  with run 1 2 3 have "e2 = E_OK" by (auto simp: MountVolumeEntry_def Let_def m_def split: if_splits)
  with run \<open>e = E_OK\<close> 1 2 3 4 have "t = s4"
    by (auto simp: MountVolumeEntry_def Let_def m_def split: if_splits)
  have w: "k \<in> may_write k mountable W_uuid" "k \<in> may_write k mountable W_path" "k \<in> may_write k ?present W_state"
    by (auto simp: may_write_def)
  have "volume_inv s0 k mountable s1" "vc_id v1 = k"
    using ensuresD[OF handler_invariant.EnsureFsUuidReady_id[OF hi] assms(2) 1] w(1) assms(3) by auto
  then have s2: "volume_inv s0 k mountable s2"
    using ensuresD[OF handler_invariant.keeps_paths(4)[OF hi] _ 2] by blast
  have "volume_inv s0 k mountable s3 \<and> vc_id v2 = k"
  proof (cases "pol_useVoldataPath pol")
    case False
    with 3 s2 \<open>vc_id v1 = k\<close> show ?thesis by (auto simp: m_def)
  next
    case True
    with 3 have c: "run_state (check_before_mount env k (GetFsTypeString v1) v1) s2 = ((e2, v2), s3)" by (simp add: m_def)
    have "volume_inv s0 k ?present s2" using s2 by (auto simp: volume_inv_def)
    from ensuresD[OF handler_invariant.check_before_mount_id[OF hp w(3)] this c]
    have "volume_inv s0 k ?present s3" "vc_id v2 = k" using \<open>vc_id v1 = k\<close> by auto
    with check_before_mount_state[of env k _ v1 s2 v2 s3] c \<open>e2 = E_OK\<close> show ?thesis
      by (auto simp: volume_inv_def mountable_state_def)
  qed
  then show ?thesis
    using ensuresD[OF handler_invariant.MountVolumeFilesystem_id[OF hi, of v2] _ 4] w(2) \<open>t = s4\<close> by blast
qed

text \<open>Up to the mount itself nothing but the trace changes.\<close>

lemma Mount_prefix:
  assumes quiet: "quiet env" and inv: "registry_inv s" and v: "om_get (volumeMap s) volumeId = Some v"
    and 1: "run_state (GetParameter env p) s = (disabled, s1)"
    and 2: "run_state (if en_edm env then IsEdmControlMountEnabled env v mountParam else ret False) s1 = (icpt, s2)"
  shows "volume_inv s volumeId (\<lambda>o'. o' = Some v) s1" "volume_inv s volumeId (\<lambda>o'. o' = Some v) s2"
proof -
  let ?I = "volume_inv s volumeId (\<lambda>o'. o' = Some v)"
  note h = volume_handler[OF quiet, of s volumeId "\<lambda>o'. o' = Some v"]
  have "?I s" using inv v by (simp add: volume_inv_def frame_refl)
  from ensuresD[OF handler_invariant.keeps_params(2)[OF h] this 1] have s1: "?I s1" by blast
  then show "?I s1" .
  have "keeps ?I (if en_edm env then IsEdmControlMountEnabled env v mountParam else ret False)"
    using handler_invariant.keeps_edm_policy(2)[OF h] by (auto intro!: ensures_intros)
  from ensuresD[OF this s1 2] show "?I s2" by blast
qed

lemma MountVolumeEntry_outcome:
  assumes quiet: "quiet env" and s2: "volume_inv s volumeId (\<lambda>o'. o' = Some v) s2" and id: "vc_id v = volumeId"
    and m: "mountable_state (vc_state v)" and run: "run_state (MountVolumeEntry env v volumeId ro) s2 = ((e1, v1), s3)"
  shows "\<exists>x. om_get (volumeMap s3) volumeId = Some x \<and> (e1 = E_OK \<longrightarrow> mountable_state (vc_state x)) \<and>
    (e1 \<noteq> E_OK \<longrightarrow> vc_state v1 \<in> {vs_code UNMOUNTED, vs_code REPAIR_FINISH_FAIL})"
proof -
  have "volume_inv s volumeId mountable s2" using s2 m by (auto simp: volume_inv_def)
  note entry = MountVolumeEntry_state[OF quiet this id, of ro v1 s3]
  have "keeps (volume_inv s volumeId (\<lambda>o'. o' \<noteq> None)) (MountVolumeEntry env v volumeId ro)"
    by (rule ensures_keeps, rule handler_invariant.MountVolumeEntry_id[OF volume_handler[OF quiet]])
      (auto simp: may_write_def id)
  from ensuresD[OF this _ run] s2 obtain x where x: "om_get (volumeMap s3) volumeId = Some x"
    by (auto simp: volume_inv_def)
  moreover have "mountable_state (vc_state x)" if "e1 = E_OK" using entry run x that by (auto simp: volume_inv_def)
  ultimately show ?thesis using ensuresD[OF MountVolumeFilesystem_fail TrueI run] by simp
qed

text \<open>The plain branch of \<open>Mount\<close>: the snapshot is written back, and nothing else but this volume is touched.\<close>

lemma MountVolumeEntry_frame:
  assumes "quiet env" "volume_inv s volumeId (\<lambda>o'. o' = Some v) s2" "vc_id v = volumeId"
    and "run_state (MountVolumeEntry env v volumeId ro) s2 = ((e1, v1), s3)"
  shows "frame s volumeId (volumeMap_update (om_mod volumeId (\<lambda>_. v1)) s3)"
proof -
  let ?I = "volume_inv s volumeId (\<lambda>_. True)"
  note h = volume_handler[OF assms(1), of s volumeId "\<lambda>_. True"]
  have "?I s2" using assms(2) by (simp add: volume_inv_def)
  moreover have "ensures ?I (MountVolumeEntry env v volumeId ro) (\<lambda>(e, w). vc_id w = vc_id v)"
    by (rule handler_invariant.MountVolumeEntry_id[OF h]) (simp_all add: may_write_def assms(3))
  ultimately have "?I s3" "vc_id v1 = volumeId" using ensuresD[OF _ _ assms(4)] assms(3) by auto
  then show ?thesis
    using ensuresD[OF volume_inv_adjust[of volumeId volumeId "\<lambda>_. v1" "\<lambda>_. True" s], of s3] by (auto simp: volume_inv_def)
qed

text \<open>C25: When \<open>Mount\<close> fails and no other thread interferes, all disks and all other volumes are as before.
  An unknown volume is reported as such. A volume in a state that does not allow mounting is refused and
  unchanged, and so is an encrypted container, whose mount writes nothing unless it succeeds. In the remaining
  case the volume is still there, in its old state, unmounted, or marked as not repairable, and in no other
  state.\<close>

theorem Mount_failure:
  assumes quiet: "quiet env" and inv: "registry_inv s"
    and run: "run_state (Mount env volumeId mountParam) s = (e, t)" and err: "e \<noteq> E_OK"
  shows "frame s volumeId t \<and>
    (case om_get (volumeMap s) volumeId of
       None \<Rightarrow> e = E_NON_EXIST \<and> om_get (volumeMap t) volumeId = None
     | Some v \<Rightarrow> \<exists>w. om_get (volumeMap t) volumeId = Some w \<and>
         (if \<not> mountable_state (vc_state v) then w = v \<and> e \<in> {E_NON_EXIST, E_VOL_MOUNT_ERR}
          else if starts_with ''vol-crypt-'' volumeId \<and> (ve_mapperPath v \<noteq> [] \<or> ve_loopPath v \<noteq> []) then w = v
          else vc_state w \<in> {vc_state v, vs_code UNMOUNTED, vs_code REPAIR_FINISH_FAIL}))"
proof -
  obtain disabled s1 where 1: "run_state (GetParameter env ''persist.edm.external_storage_card_disable'') s = (disabled, s1)"
    by fastforce
  show ?thesis
  proof (cases "om_get (volumeMap s) volumeId")
    case None
    note h = volume_handler[OF quiet, of s volumeId "\<lambda>o'. o' = None"]
    have "volume_inv s volumeId (\<lambda>o'. o' = None) s1"
      using ensuresD[OF handler_invariant.keeps_params(2)[OF h] _ 1] inv None by (simp add: volume_inv_def frame_refl)
    moreover from this run 1 have "t = s1" "e = E_NON_EXIST" by (auto simp: Mount_def volume_inv_def split: if_splits)
    ultimately show ?thesis using None by (simp add: volume_inv_def)
  next
    case (Some v)
    obtain icpt s2 where 3: "run_state (if en_edm env then IsEdmControlMountEnabled env v mountParam else ret False) s1 = (icpt, s2)"
      by fastforce
    note s1 = Mount_prefix(1)[OF quiet inv Some 1 3] and s2 = Mount_prefix(2)[OF quiet inv Some 1 3]
    then have get1: "om_get (volumeMap s1) volumeId = Some v" by (simp add: volume_inv_def)
    define devPath where "devPath = fst (run_state (CheckVolId volumeId) s1)"
    then have 2: "run_state (CheckVolId volumeId) s1 = (devPath, s1)" using CheckVolId_pure[of volumeId s1] by auto
    have crypt: "(starts_with ''vol-crypt-'' volumeId \<and> devPath \<noteq> []) =
        (starts_with ''vol-crypt-'' volumeId \<and> (ve_mapperPath v \<noteq> [] \<or> ve_loopPath v \<noteq> []))"
      using get1 by (auto simp: devPath_def CheckVolId_def GetVolumeById_def)
    consider (refused) "disabled = ''true'' \<or> \<not> mountable_state (vc_state v)"
      | (container) "disabled \<noteq> ''true''" "mountable_state (vc_state v)" "starts_with ''vol-crypt-'' volumeId \<and> devPath \<noteq> []"
      | (plain) "disabled \<noteq> ''true''" "mountable_state (vc_state v)" "\<not> (starts_with ''vol-crypt-'' volumeId \<and> devPath \<noteq> [])"
      by blast
    then show ?thesis
    proof cases
      case refused
      with run 1 get1 have "t = s1" "e \<in> {E_NON_EXIST, E_VOL_MOUNT_ERR}" by (auto simp: Mount_def split: if_splits)
      with Some s1 show ?thesis by (simp add: volume_inv_def)
    next
      case container
      with run err 1 2 3 get1 have "run_state (MountVolumeByPath env (vc_diskId v) devPath
          \<lparr>mp_readOnly = ve_mountFlag v, mp_fromEdmMount = False\<rparr>) s2 = (e, t)"
        by (auto simp: Mount_def split: if_splits)
      from handler_invariant.MountVolumeByPath_fail[OF volume_handler[OF quiet] this err s2]
      show ?thesis using Some container crypt by (simp add: volume_inv_def)
    next
      case plain
      obtain e1 v1 s3 where 4: "run_state (MountVolumeEntry env v volumeId (mp_readOnly mountParam)) s2 = ((e1, v1), s3)"
        by (metis prod.exhaust)
      from MountVolumeEntry_outcome[OF quiet s2 registry_volume[OF inv Some] plain(2) 4]
      obtain x where x: "om_get (volumeMap s3) volumeId = Some x" and ok: "e1 = E_OK \<Longrightarrow> mountable_state (vc_state x)"
        and bad: "e1 \<noteq> E_OK \<Longrightarrow> vc_state v1 \<in> {vs_code UNMOUNTED, vs_code REPAIR_FINISH_FAIL}" by blast
      have "e1 \<noteq> E_OK" and t: "t = volumeMap_update (om_mod volumeId (\<lambda>_. v1)) s3"
        using run err 1 2 3 4 get1 x plain ok by (auto simp: Mount_def split: if_splits)
      then show ?thesis
        using MountVolumeEntry_frame[OF quiet s2 registry_volume[OF inv Some] 4] x bad plain crypt Some by auto
    qed
  qed
qed

text \<open>A daemon that accepts everything, and one that refuses to mount.\<close>

definition refuse_mount :: "item list \<Rightarrow> call \<Rightarrow> reply" where
  "refuse_mount h c = (case c of Sd_Mount _ _ _ _ _ \<Rightarrow> ok_reply\<lparr>rp_err := 5\<rparr> | _ \<Rightarrow> ok_reply\<lparr>rp_flag := False\<rparr>)"

abbreviation agree :: "item list \<Rightarrow> call \<Rightarrow> reply" where "agree \<equiv> \<lambda>h c. ok_reply\<lparr>rp_flag := False\<rparr>"
abbreviation read_write :: MountParam where "read_write \<equiv> \<lparr>mp_readOnly = False, mp_fromEdmMount = False\<rparr>"

lemma mount_stick: "fst (run_state (Mount (calm agree) ''vol-8-1'' read_write) two_disks) = E_OK"
  by code_simp

lemma agree_no_edm: "fst (run_state (IsEdmControlMountEnabled (calm agree) v mp) s) = False"
  by (simp add: IsEdmControlMountEnabled_def IsEnterpriseDevice_def GetParameter_def run_invoke calm_def rp_str_def
      ok_reply_def)


theorem Mount_failure_witness:
  "\<exists>w. om_get (volumeMap (snd (run_state (Mount (calm refuse_mount) ''vol-8-1'' read_write) two_disks))) ''vol-8-1'' = Some w \<and>
     vc_state w \<in> {vs_code UNMOUNTED, vs_code REPAIR_FINISH_FAIL}"
proof -
  let ?r = "run_state (Mount (calm refuse_mount) ''vol-8-1'' read_write) two_disks"
  let ?v = "VolumeExternal_defaults\<lparr>vc_id := ''vol-8-1'', vc_diskId := ''disk-8-0'', ve_fsType := fs_code EXFAT, ve_fsUuid := ''1A2B-3C4D''\<rparr>"
  have v: "om_get (volumeMap two_disks) ''vol-8-1'' = Some ?v" by (simp add: two_disks_def)
  have st: "vc_state ?v = vs_code UNMOUNTED" by code_simp
  have "fst ?r = 5" by code_simp
  then have "fst ?r \<noteq> E_OK" by simp
  from Mount_failure[OF quiet_calm two_disks_inv prod.collapse[symmetric] this] v st
  show ?thesis by (auto simp: mountable_state_def)
qed

section \<open>Unmounting\<close>

definition is_event :: "item \<Rightarrow> bool" where
  "is_event it = (case it of Call _ _ \<Rightarrow> False | _ \<Rightarrow> True)"

abbreviation events :: "dm \<Rightarrow> item list" where "events s \<equiv> filter is_event (trace s)"

lemma silent_rules:
  "keeps (\<lambda>s. events s = es) (invoke env c)"
  "keeps (\<lambda>s. events s = es) (modify (volumeMap_update f))"
  by (simp_all add: ensures_def run_invoke is_event_def)

lemma silent_free_size: "keeps (\<lambda>s. events s = es) (GetFreeSizeOfVolume env u)"
  by (auto simp: GetFreeSizeOfVolume_def GetOddFreeSize_def GetOddCapacity_def Let_def intro!: ensures_intros silent_rules)

lemma silent_fuse: "keeps (\<lambda>s. events s = es) (NotifyUsbFuseUmount env k)"
  by (auto simp: NotifyUsbFuseUmount_def intro!: ensures_intros silent_rules)

lemma silent_unmount:
  "keeps (\<lambda>s. events s = es) (SaveVolumeFreeSize env v)"
  "keeps (\<lambda>s. events s = es) (ResolveUnmountForceFlag env v b)"
  "keeps (\<lambda>s. events s = es) (UnmountVolumeMountPoints env v b)"
  by (auto simp: SaveVolumeFreeSize_def ResolveUnmountForceFlag_def UnmountVolumeMountPoints_def Let_def
      intro!: ensures_intros silent_rules silent_free_size silent_fuse)

lemma PublishVolumeChange_events:
  assumes "map_of STATE_INFOS c = Some act" "run_state (PublishVolumeChange env c v) s = (x, t)"
  shows "\<exists>it. events t = it # events s \<and> announces c v it"
proof -
  define m where "m = (if c = MOUNTED then SetMountedEventParams env v else ret [])"
  obtain ps s1 where 1: "run_state m s = (ps, s1)" by fastforce
  have "keeps (\<lambda>t. events t = events s) m"
    unfolding m_def SetMountedEventParams_def Let_def by (auto intro!: ensures_intros silent_free_size)
  from ensuresD[OF this refl 1] have "events s1 = events s" by blast
  moreover obtain it where "t = s1\<lparr>trace := it # trace s1\<rparr>" "is_event it"
    using assms 1 by (auto simp: PublishVolumeChange_def m_def Let_def is_event_def split: if_splits)
  moreover have "announces c v (hd (trace t))"
    using PublishVolumeChange_announces[OF assms(1), of v env s] assms(2) by simp
  ultimately show ?thesis by auto
qed

lemma NotifyVolumeEjecting_events:
  assumes "run_state (NotifyVolumeEjecting env k v u) s = ((st, w), t)"
  shows "st = vc_state v \<and> w = v\<lparr>vc_state := vs_code EJECTING, ve_umountResult := u\<rparr> \<and>
    (\<exists>it. events t = it # events s \<and> announces EJECTING w it)"
proof -
  define s1 where "s1 = volumeMap_update (om_mod k (\<lambda>w. w\<lparr>vc_state := vs_code EJECTING, ve_umountResult := u\<rparr>)) s"
  define w1 where "w1 = v\<lparr>vc_state := vs_code EJECTING, ve_umountResult := u\<rparr>"
  obtain x where p: "run_state (PublishVolumeChange env EJECTING w1) s1 = (x, t)" "st = vc_state v" "w = w1"
    using assms by (auto simp: NotifyVolumeEjecting_def s1_def w1_def Let_def split: prod.splits)
  have "events s1 = events s" by (simp add: s1_def)
  with PublishVolumeChange_events[OF _ p(1), of COMMON_EVENT_VOLUME_EJECT] p show ?thesis
    by (auto simp: STATE_INFOS_def w1_def)
qed

text \<open>An event tells the identifiers, the UUID and the flags of the volume; other fields do not matter.\<close>

lemma announces_cong:
  "vc_id v = vc_id w \<Longrightarrow> vc_diskId v = vc_diskId w \<Longrightarrow> ve_fsUuid v = ve_fsUuid w \<Longrightarrow> ve_flags v = ve_flags w \<Longrightarrow>
   announces c v = announces c w"
  by (simp add: announces_def volume_params_def fun_eq_iff)

lemma fail_unmount_result:
  assumes quiet: "quiet env" and inv: "volume_inv s0 k (\<lambda>o'. \<exists>x. o' = Some x \<and> ve_path x = p) s" and id: "vc_id v = k"
    and run: "run_state (fail_unmount env v st err) s = (e, t)"
  shows "e = err \<and> frame s0 k t \<and> (\<exists>it. events t = it # events s \<and> announces EJECTING v it) \<and>
    (\<exists>x. om_get (volumeMap t) k = Some x \<and> vc_state x = st \<and> ve_path x = p \<and> ve_umountResult x = ''umountFail'')"
proof -
  let ?w = "v\<lparr>vc_state := vs_code EJECTING, ve_umountResult := ''umountFail''\<rparr>"
  define s1 where "s1 = volumeMap_update (om_mod k (\<lambda>w. w\<lparr>vc_state := vs_code EJECTING, ve_umountResult := ''umountFail''\<rparr>)) s"
  obtain x s2 where 2: "run_state (PublishVolumeChange env EJECTING ?w) s1 = (x, s2)" by (metis prod.exhaust)
  have t: "e = err" "t = volumeMap_update (om_mod k (\<lambda>w. w\<lparr>vc_state := st\<rparr>)) s2"
    using run 2 id by (auto simp: fail_unmount_def NotifyVolumeEjecting_def RestoreVolumeState_def s1_def Let_def)
  let ?P = "\<lambda>o'. \<exists>x. o' = Some x \<and> ve_path x = p \<and> ve_umountResult x = ''umountFail''"
  have "volume_inv s0 k (\<lambda>o'. \<exists>x. o' = Some x \<and> ve_path x = p) s1"
    unfolding s1_def
    by (rule ensuresD[OF handler_invariant.keeps_eject[OF volume_handler[OF quiet]] inv, THEN conjunct1])
      (auto simp: may_write_def)
  then have "volume_inv s0 k ?P s1" by (auto simp: volume_inv_def s1_def)
  from ensuresD[OF handler_invariant.keeps_publish[OF volume_handler[OF quiet]] this 2]
  have s2: "volume_inv s0 k ?P s2" by blast
  have "volume_inv s0 k ?P t"
    unfolding t(2)
    by (rule ensuresD[OF handler_invariant.keeps_state[OF volume_handler[OF quiet]] s2, THEN conjunct1])
      (auto simp: may_write_def)
  then obtain y where y: "frame s0 k t" "om_get (volumeMap t) k = Some y" "ve_path y = p" "ve_umountResult y = ''umountFail''"
    by (auto simp: volume_inv_def)
  moreover have "vc_state y = st" using y(2) by (auto simp: t(2))
  moreover have "events s1 = events s" "events t = events s2" by (simp_all add: s1_def t(2))
  moreover have "announces EJECTING ?w = announces EJECTING v" by (rule announces_cong) simp_all
  ultimately show ?thesis
    using PublishVolumeChange_events[OF _ 2, of COMMON_EVENT_VOLUME_EJECT] t(1) by (auto simp: STATE_INFOS_def)
qed

text \<open>The part of an unmount that comes before the first request to the daemon to unmount.\<close>

lemma unmount_prefix:
  assumes quiet: "quiet env" and inv: "registry_inv s" and get: "om_get (volumeMap s) k = Some v"
    and 1: "run_state (SaveVolumeFreeSize env v) s = (v1, s1)"
    and 2: "run_state (NotifyVolumeEjecting env k v1 []) s1 = ((st, w), s2)"
  shows "st = vc_state v \<and> vc_id w = k \<and> ve_fsType w = ve_fsType v \<and> announces c w = announces c v \<and>
    (\<exists>it. events s2 = it # events s \<and> announces EJECTING v it) \<and>
    volume_inv s k (\<lambda>o'. \<exists>x. o' = Some x \<and> ve_path x = ve_path v) s2"
proof -
  let ?P = "\<lambda>o'. \<exists>x. o' = Some x \<and> ve_path x = ve_path v"
  note h = volume_handler[OF quiet, of s k ?P]
  have id: "vc_id v = k" using inv get by (rule registry_volume)
  have s: "volume_inv s k ?P s" using inv get by (simp add: volume_inv_def frame_refl)
  from ensuresD[OF handler_invariant.keeps_unmount_parts(1)[OF h] s 1] have s1: "volume_inv s k ?P s1" by blast
  have "keeps (volume_inv s k ?P) (NotifyVolumeEjecting env k v1 [])"
    by (rule handler_invariant.keeps_unmount_parts(2)[OF h]) (auto simp: may_write_def)
  from ensuresD[OF this s1 2] have s2: "volume_inv s k ?P s2" by blast
  have v1: "v1 = v \<or> (\<exists>f. v1 = v\<lparr>ve_freeSize := f\<rparr>)"
    using 1 by (auto simp: SaveVolumeFreeSize_def split: prod.splits if_splits)
  from ensuresD[OF silent_unmount(1) refl 1] have "events s1 = events s" by blast
  note ev = NotifyVolumeEjecting_events[OF 2]
  have "announces d w = announces d v" for d
    by (rule announces_cong) (use ev v1 in auto)
  with ev v1 id s2 \<open>events s1 = events s\<close> show ?thesis by auto
qed

definition unmount_outcome :: "dm \<Rightarrow> string \<Rightarrow> VolumeExternal \<Rightarrow> errno \<Rightarrow> dm \<Rightarrow> bool" where
  "unmount_outcome s k v e t \<longleftrightarrow> frame s k t \<and>
     (\<exists>ej it. events t = it # ej # events s \<and> announces EJECTING v ej \<and>
       (if e = E_OK
        then announces UNMOUNTED v it \<and>
             (if is_mtp_or_ptp v then om_get (volumeMap t) k = None
              else \<exists>w. om_get (volumeMap t) k = Some w \<and> vc_state w = vs_code UNMOUNTED \<and> ve_path w = [])
        else announces EJECTING v it \<and>
             (\<exists>w. om_get (volumeMap t) k = Some w \<and> vc_state w = vc_state v \<and> ve_path w = ve_path v \<and>
                ve_umountResult w = ''umountFail'')))"

lemma unmount_finish:
  assumes quiet: "quiet env" and inv: "volume_inv s k (\<lambda>o'. \<exists>x. o' = Some x \<and> ve_path x = p) s4" and id: "vc_id w = k"
    and run: "run_state (finish_unmount env w) s4 = (e, t)"
  shows "e = E_OK \<and> frame s k t \<and> (\<exists>it. events t = it # events s4 \<and> announces UNMOUNTED w it) \<and>
    (if is_mtp_or_ptp w then om_get (volumeMap t) k = None
     else \<exists>x. om_get (volumeMap t) k = Some x \<and> vc_state x = vs_code UNMOUNTED \<and> ve_path x = [])"
proof -
  let ?u = "w\<lparr>ve_path := [], vc_state := vs_code UNMOUNTED\<rparr>"
  obtain x s5 where 5: "run_state (PublishVolumeChange env UNMOUNTED ?u) s4 = (x, s5)" by (metis prod.exhaust)
  from ensuresD[OF handler_invariant.keeps_publish[OF volume_handler[OF quiet]] inv 5]
  have s5: "volume_inv s k (\<lambda>o'. \<exists>x. o' = Some x \<and> ve_path x = p) s5" by blast
  then obtain y where y: "om_get (volumeMap s5) k = Some y" by (auto simp: volume_inv_def)
  let ?f = "if is_mtp_or_ptp w then om_erase k else om_mod k (\<lambda>w. w\<lparr>ve_path := [], vc_state := vs_code UNMOUNTED\<rparr>)"
  have t: "e = E_OK" "t = volumeMap_update ?f s5" using run 5 y id by (auto simp: finish_unmount_def Let_def split: if_splits)
  have "keeps (frame s k) (modify (volumeMap_update ?f))"
    by (auto intro!: frame_modify reg_erase reg_adjust)
  then have "frame s k t" using s5 unfolding t(2) by (auto simp: ensures_def volume_inv_def)
  moreover have "announces UNMOUNTED ?u = announces UNMOUNTED w" by (rule announces_cong) simp_all
  moreover have "events t = events s5" by (simp add: t(2))
  ultimately show ?thesis
    using PublishVolumeChange_events[OF _ 5, of COMMON_EVENT_VOLUME_UNMOUNTED] t(1) y
    by (auto simp: STATE_INFOS_def t(2))
qed

lemma unmount_tail:
  assumes quiet: "quiet env" and w: "vc_id w = k" "ve_fsType w = ve_fsType v" and an: "\<And>c. announces c w = announces c v"
    and s4: "volume_inv s k (\<lambda>o'. \<exists>x. o' = Some x \<and> ve_path x = ve_path v) s4" "events s4 = ej # events s"
    and ej: "announces EJECTING v ej"
    and run: "run_state (if prep \<noteq> E_OK then fail_unmount env w (vc_state v) prep
       else do {
         err \<leftarrow> UnmountVolumeMountPoints env w f;
         if err \<noteq> E_OK then fail_unmount env w (vc_state v) err else finish_unmount env w }) s4 = (e, t)"
  shows "unmount_outcome s k v e t"
proof -
  let ?P = "\<lambda>o'. \<exists>x. o' = Some x \<and> ve_path x = ve_path v"
  obtain err s5 where 5: "run_state (UnmountVolumeMountPoints env w f) s4 = (err, s5)" by fastforce
  from ensuresD[OF handler_invariant.keeps_fuse(3)[OF volume_handler[OF quiet]] s4(1) 5] ensuresD[OF silent_unmount(3) s4(2) 5]
  have s5: "volume_inv s k ?P s5" "events s5 = ej # events s" by auto
  have fail: ?thesis
    if "run_state (fail_unmount env w (vc_state v) c) s' = (e, t)" "volume_inv s k ?P s'" "events s' = ej # events s" "c \<noteq> E_OK"
    for c s'
    using fail_unmount_result[OF quiet that(2) w(1) that(1)] that(3,4) ej an by (auto simp: unmount_outcome_def)
  consider "prep \<noteq> E_OK" | "prep = E_OK" "err \<noteq> E_OK" | "prep = E_OK" "err = E_OK" by blast
  then show ?thesis
  proof cases
    case 1
    with run fail[OF _ s4] show ?thesis by simp
  next
    case 2
    with run 5 fail[OF _ s5] show ?thesis by simp
  next
    case 3
    with run 5 have "run_state (finish_unmount env w) s5 = (e, t)" by simp
    from unmount_finish[OF quiet s5(1) w(1) this] s5(2) ej an w(2) show ?thesis
      by (auto simp: unmount_outcome_def)
  qed
qed

lemma DoUnmountVolume_outcome:
  assumes quiet: "quiet env" and inv: "registry_inv s" and get: "om_get (volumeMap s) k = Some v"
    and run: "run_state (DoUnmountVolume env v force) s = (e, t)"
  shows "unmount_outcome s k v e t"
proof -
  let ?P = "\<lambda>o'. \<exists>x. o' = Some x \<and> ve_path x = ve_path v"
  note h = volume_handler[OF quiet, of s k ?P]
  have id: "vc_id v = k" using inv get by (rule registry_volume)
  obtain v1 s1 where 1: "run_state (SaveVolumeFreeSize env v) s = (v1, s1)" by fastforce
  have id1: "vc_id v1 = k" using 1 id by (auto simp: SaveVolumeFreeSize_def split: prod.splits if_splits)
  obtain st w s2 where 2: "run_state (NotifyVolumeEjecting env k v1 []) s1 = ((st, w), s2)" by (metis prod.exhaust)
  define b where "b = (case om_get (diskMap s2) (vc_diskId w) of None \<Rightarrow> False | Some d \<Rightarrow> Disk_IsInternalDataDisk d)"
  define sleep where "sleep = (if b then do { r \<leftarrow> invoke env (Sys_Sleep 1); ret () } else ret ())"
  obtain s3 where 3: "run_state sleep s2 = ((), s3)" by (metis (full_types) old.unit.exhaust prod.exhaust)
  obtain prep f s4 where 4: "run_state (ResolveUnmountForceFlag env w force) s3 = ((prep, f), s4)" by (metis prod.exhaust)
  note pre = unmount_prefix[OF quiet inv get 1 2]
  then obtain ej where ej: "events s2 = ej # events s" "announces EJECTING v ej" by blast
  from pre have w: "vc_id w = k" "ve_fsType w = ve_fsType v" "st = vc_state v" and s2: "volume_inv s k ?P s2" by auto
  have an: "announces c w = announces c v" for c using unmount_prefix[OF quiet inv get 1 2, of c] by blast
  have "keeps (volume_inv s k ?P) sleep" "keeps (\<lambda>s. events s = ej # events s') sleep" for s'
    unfolding sleep_def by (auto intro!: ensures_intros handler_invariant.keeps_invoke[OF h] silent_rules)
  from ensuresD[OF this(1) s2 3] ensuresD[OF this(2) ej(1) 3]
  have s3: "volume_inv s k ?P s3" "events s3 = ej # events s" by auto
  from ensuresD[OF handler_invariant.keeps_unmount_parts(4)[OF h] s3(1) 4] ensuresD[OF silent_unmount(2) s3(2) 4]
  have s4: "volume_inv s k ?P s4" "events s4 = ej # events s" by auto
  show ?thesis
    using run 1 2 3 4 id1 w(3)
    by (intro unmount_tail[OF quiet w(1,2) an s4 ej(2), of prep f]) (simp add: DoUnmountVolume_def Let_def sleep_def b_def)
qed

text \<open>C2: Unmounting a volume that may be unmounted, or forcing it, when no other thread interferes: all
  disks and other volumes are untouched and exactly two events are published. On success they are
  EJECT and UNMOUNTED in this order, and the volume is unmounted with an empty path, or gone if it was an
  MTP or PTP device. On failure they are EJECT twice, and the volume has its old state and path back and
  carries the result \<open>umountFail\<close>. A volume in another state is refused without any effect.\<close>

theorem Unmount_spec:
  assumes "quiet env" "registry_inv s" "om_get (volumeMap s) volumeId = Some v"
    and run: "run_state (if force then ForceUnmount env volumeId else Unmount env volumeId) s = (e, t)"
  shows "if force \<or> unmountable_state (vc_state v) then unmount_outcome s volumeId v e t
         else e = E_VOL_UMOUNT_ERR \<and> t = s"
proof (cases "force \<or> unmountable_state (vc_state v)")
  case True
  with assms(3) run have "run_state (DoUnmountVolume env v force) s = (e, t)"
    by (cases force) (auto simp: Unmount_def ForceUnmount_def split: if_splits)
  with DoUnmountVolume_outcome[OF assms(1-3)] True show ?thesis by simp
next
  case False
  with assms(3) run show ?thesis by (auto simp: Unmount_def split: if_splits)
qed

text \<open>A daemon that accepts everything, and the stick after it was mounted.\<close>

definition mounted_stick :: dm where
  "mounted_stick = two_disks\<lparr>volumeMap := om_mod ''vol-8-1''
     (\<lambda>v. v\<lparr>vc_state := vs_code MOUNTED, ve_path := ''/mnt/data/external/1A2B-3C4D''\<rparr>) (volumeMap two_disks)\<rparr>"

lemma mounted_stick_inv: "registry_inv mounted_stick"
  using two_disks_inv by (auto simp: registry_inv_def mounted_stick_def intro: volumes.keyed_adjust)

theorem Unmount_spec_witness:
  "\<exists>v. om_get (volumeMap mounted_stick) ''vol-8-1'' = Some v \<and>
     unmount_outcome mounted_stick ''vol-8-1'' v E_OK (snd (run_state (Unmount (calm agree) ''vol-8-1'') mounted_stick))"
proof -
  let ?r = "run_state (Unmount (calm agree) ''vol-8-1'') mounted_stick"
  obtain v where v: "om_get (volumeMap mounted_stick) ''vol-8-1'' = Some v" "unmountable_state (vc_state v)"
    by (auto simp: mounted_stick_def two_disks_def unmountable_state_def)
  have "fst ?r = E_OK" by code_simp
  then have "run_state (if False then ForceUnmount (calm agree) ''vol-8-1'' else Unmount (calm agree) ''vol-8-1'') mounted_stick = (E_OK, snd ?r)"
    by (metis prod.collapse)
  from Unmount_spec[OF quiet_calm mounted_stick_inv v(1) this] v show ?thesis by auto
qed

end
