(* ===== verification/Dm_Partition.thy ===== *)
theory Dm_Partition
  imports Dm_Mount Dm_Parcel
begin

text \<open>
  The partition operations of \<^verbatim>\<open>disk/disk_manager.cpp\<close>: reading a partition table from the text of
  \<open>sgdisk\<close>, checking and creating a partition, deleting and formatting one. The three regular expressions
  of the source are written as matchers: their repetitions are over character classes that cannot match
  what follows, so greedy matching does not backtrack. Overflow of a signed 64-bit product, which C++ leaves
  undefined, wraps here; the bounds below say when it cannot happen. A failed \<open>ss >> item\<close> leaves \<open>item\<close> as it was. Waiting for
  the kernel event is the call \<open>Cv_WaitUntil\<close>, during which other threads run; the last section models the
  wait and the notification as a step relation of two threads.
\<close>

section \<open>Definitions\<close>

subsection \<open>Numbers and lines\<close>

definition ConvertStringToInt :: "string \<Rightarrow> int option" where
  "ConvertStringToInt str =
     (if str = [] then None
      else let r = strtoll 10 str in
        if \<not> st_conv r then None
        else if st_range r \<and> (st_val r = LLONG_MAX \<or> st_val r = LLONG_MIN) then None
        else if st_rest r \<noteq> [] then None
        else Some (st_val r))"

definition INT32_MAX :: int where "INT32_MAX = 2 ^ 31 - 1"

text \<open>The pattern \<open>^([1-9]\d{0,9})$\<close>.\<close>

definition positive_decimal :: "string \<Rightarrow> bool" where
  "positive_decimal s =
     (case s of [] \<Rightarrow> False | c # ds \<Rightarrow> c_isdigit c \<and> c \<noteq> CHR ''0'' \<and> list_all c_isdigit ds \<and> length ds \<le> 9)"

definition ConvertStringToInt32 :: "string \<Rightarrow> int option" where
  "ConvertStringToInt32 s =
     (if s = [] then None
      else if \<not> positive_decimal s then None
      else let r = strtoll 10 s in
        if st_range r \<or> \<not> st_conv r \<or> st_rest r \<noteq> [] then None
        else if st_val r \<le> 0 \<or> INT32_MAX \<le> st_val r then None
        else Some (st_val r))"

text \<open>Lines without the empty ones.\<close>

fun split_at_newlines :: "string \<Rightarrow> string \<Rightarrow> string list" where
  "split_at_newlines line [] = (if line = [] then [] else [line])"
| "split_at_newlines line (c # s) =
     (if c = NL then (if line = [] then split_at_newlines [] s else line # split_at_newlines [] s)
      else split_at_newlines (line @ [c]) s)"

definition SplitRawDumpToLines :: "string \<Rightarrow> string list" where
  "SplitRawDumpToLines rawDump = split_at_newlines [] rawDump"

subsection \<open>Parsing the table\<close>

definition word_at :: "string list \<Rightarrow> nat \<Rightarrow> string" where
  "word_at toks i = (if i < length toks then toks ! i else if toks = [] then [] else last toks)"

definition PartitionInfo_default :: PartitionInfo where
  "PartitionInfo_default =
     \<lparr>pi_partitionNum = 0, pi_diskId = [], pi_startSector = 0, pi_endSector = 0, pi_sizeBytes = 0, pi_fsType = []\<rparr>"

definition ParsePartitionInfo :: "string \<Rightarrow> PartitionInfo option" where
  "ParsePartitionInfo context =
     (if context = [] then None
      else let toks = split_ws context in
        if word_at toks 0 = [] then None
        else case ConvertStringToInt32 (word_at toks 0) of
          None \<Rightarrow> None
        | Some partitionNum \<Rightarrow>
            (case ConvertStringToInt (word_at toks 1) of
               None \<Rightarrow> None
             | Some startSector \<Rightarrow>
                 (case ConvertStringToInt (word_at toks 2) of
                    None \<Rightarrow> None
                  | Some endSector \<Rightarrow>
                      Some (PartitionInfo_default\<lparr>pi_partitionNum := partitionNum, pi_startSector := startSector,
                        pi_endSector := endSector\<rparr>))))"

text \<open>\<open>std::regex_search\<close>: the leftmost position where the matcher succeeds.\<close>

fun regex_search :: "(string \<Rightarrow> 'a option) \<Rightarrow> string \<Rightarrow> 'a option" where
  "regex_search m [] = m []"
| "regex_search m (c # s) = (case m (c # s) of Some x \<Rightarrow> Some x | None \<Rightarrow> regex_search m s)"

definition match_lit :: "string \<Rightarrow> string \<Rightarrow> string option" where
  "match_lit p s = (if starts_with p s then Some (drop (length p) s) else None)"

definition match_digits :: "string \<Rightarrow> (string \<times> string) option" where
  "match_digits s = (let ds = takeWhile c_isdigit s in if ds = [] then None else Some (ds, drop (length ds) s))"

definition last_usable_pattern :: "string \<Rightarrow> string option" where
  "last_usable_pattern s =
     (case match_lit ''last usable sector is '' s of None \<Rightarrow> None | Some r \<Rightarrow> map_option fst (match_digits r))"

definition sector_size_pattern :: "string \<Rightarrow> string option" where
  "sector_size_pattern s =
     (case match_lit ''Sector size'' s of
        None \<Rightarrow> None
      | Some r1 \<Rightarrow>
          (case match_lit ''(logical'' (dropWhile c_isspace r1) of
             None \<Rightarrow> None
           | Some r2 \<Rightarrow>
               (case match_lit ''):'' (case match_lit ''/physical'' r2 of None \<Rightarrow> r2 | Some r3 \<Rightarrow> r3) of
                  None \<Rightarrow> None
                | Some r4 \<Rightarrow> map_option fst (match_digits (dropWhile c_isspace r4)))))"

definition align_pattern :: "string \<Rightarrow> string option" where
  "align_pattern s =
     (case match_lit ''Partitions will be aligned on '' s of
        None \<Rightarrow> None
      | Some r \<Rightarrow>
          (case match_digits r of
             None \<Rightarrow> None
           | Some (ds, rest) \<Rightarrow> if starts_with ''-sector boundaries'' rest then Some ds else None))"

definition first_line :: "string \<Rightarrow> string list \<Rightarrow> string option" where
  "first_line prefix content = find (starts_with prefix) content"

definition SetUsableSector :: "string list \<Rightarrow> PartitionTableInfo \<Rightarrow> PartitionTableInfo option" where
  "SetUsableSector content info =
     (case first_line ''First usable sector is'' content of
        None \<Rightarrow> None
      | Some target \<Rightarrow>
          (case regex_search last_usable_pattern target of
             None \<Rightarrow> None
           | Some result \<Rightarrow>
               map_option (\<lambda>n. info\<lparr>pt_lastUsableSector := n, pt_totalSector := n\<rparr>) (ConvertStringToInt result)))"

definition SetSectorSize :: "string list \<Rightarrow> PartitionTableInfo \<Rightarrow> PartitionTableInfo option" where
  "SetSectorSize content info =
     (case first_line ''Sector size '' content of
        None \<Rightarrow> None
      | Some target \<Rightarrow>
          (case regex_search sector_size_pattern target of
             None \<Rightarrow> None
           | Some result \<Rightarrow> map_option (\<lambda>n. info\<lparr>pt_sectorSize := n\<rparr>) (ConvertStringToInt32 result)))"

definition SetAlignSector :: "string list \<Rightarrow> PartitionTableInfo \<Rightarrow> PartitionTableInfo option" where
  "SetAlignSector content info =
     (case first_line ''Partitions will be aligned on'' content of
        None \<Rightarrow> None
      | Some target \<Rightarrow>
          (case regex_search align_pattern target of
             None \<Rightarrow> None
           | Some result \<Rightarrow> map_option (\<lambda>n. info\<lparr>pt_alignSector := n\<rparr>) (ConvertStringToInt32 result)))"

definition SetTableType :: "string list \<Rightarrow> PartitionTableInfo \<Rightarrow> PartitionTableInfo" where
  "SetTableType content info =
     info\<lparr>pt_tableType := (if first_line ''Found invalid GPT and valid MBR'' content \<noteq> None then ''MBR'' else ''GPT'')\<rparr>"

definition volumes_of :: "Disk \<Rightarrow> VolumeExternal list dmop" where
  "volumes_of disk = do {
     rs \<leftarrow> State_Monad.traverse_list GetVolumeById (d_volumeIds disk);
     ret (List.map_filter (\<lambda>r. case r of Inl _ \<Rightarrow> None | Inr v \<Rightarrow> Some v) rs) }"

definition GetFsTypeByDiskIdAndPartNum :: "env \<Rightarrow> string \<Rightarrow> int \<Rightarrow> string dmop" where
  "GetFsTypeByDiskIdAndPartNum env diskId partitionNum = do {
     d \<leftarrow> GetDiskById env diskId;
     case d of
       Inl _ \<Rightarrow> ret []
     | Inr disk \<Rightarrow> do {
         vols \<leftarrow> volumes_of disk;
         ret (case find (\<lambda>v. ve_partitionNum v = partitionNum) vols of None \<Rightarrow> [] | Some v \<Rightarrow> GetFsTypeString v) } }"

definition complete_partition :: "env \<Rightarrow> PartitionTableInfo \<Rightarrow> PartitionInfo \<Rightarrow> PartitionInfo dmop" where
  "complete_partition env tableInfo info = do {
     fs \<leftarrow> GetFsTypeByDiskIdAndPartNum env (pt_diskId tableInfo) (pi_partitionNum info);
     ret (info\<lparr>pi_sizeBytes := to_int64 ((pi_endSector info - pi_startSector info + 1) * pt_sectorSize tableInfo), pi_fsType := fs\<rparr>) }"

definition partition_lines :: "string list \<Rightarrow> string list" where
  "partition_lines content =
     drop 1 (dropWhile (\<lambda>l. \<not> (starts_with ''Number'' l \<and> contains l ''Start'')) content)"

definition SetPartitions :: "env \<Rightarrow> string list \<Rightarrow> PartitionTableInfo \<Rightarrow> PartitionTableInfo dmop" where
  "SetPartitions env content tableInfo =
     (if partition_lines content = [] then ret tableInfo
      else do {
        ps \<leftarrow> State_Monad.traverse_list (complete_partition env tableInfo)
               (List.map_filter ParsePartitionInfo (partition_lines content));
        ret (tableInfo\<lparr>pt_partitions := ps\<rparr>) })"

text \<open>The three mandatory lines, in the order the code looks for them.\<close>

definition parse_geometry :: "string list \<Rightarrow> PartitionTableInfo \<Rightarrow> PartitionTableInfo option" where
  "parse_geometry content info =
     Option.bind (SetSectorSize content info)
       (\<lambda>i1. Option.bind (SetAlignSector content i1) (\<lambda>i2. SetUsableSector content i2))"

definition record_table :: "PartitionTableInfo \<Rightarrow> PartitionTableInfo dmop" where
  "record_table i4 = do {
     let out = i4\<lparr>pt_partitionCount := int (length (pt_partitions i4))\<rparr>;
     modify (partitionTableMap_update (om_put (pt_diskId out) out));
     ret out }"

definition GetPartitionTable :: "env \<Rightarrow> string \<Rightarrow> PartitionTableInfo \<Rightarrow> (errno + PartitionTableInfo) dmop" where
  "GetPartitionTable env diskId info = do {
     known \<leftarrow> HasDisk diskId;
     if \<not> known then ret (Inl E_NON_EXIST)
     else do {
       r \<leftarrow> invoke env (Sd_GetPartitionTableInfo (DEV_BLOCK_PREFIX @ diskId));
       if rp_err r \<noteq> E_OK \<or> rp_str 0 r = [] then ret (Inl E_GET_PARTITION_ERROR)
       else do {
         let tempInfo = SplitRawDumpToLines (rp_str 0 r);
         case parse_geometry tempInfo info of
           None \<Rightarrow> ret (Inl E_GET_PARTITION_ERROR)
         | Some i3 \<Rightarrow> do {
             i4 \<leftarrow> SetPartitions env tempInfo (SetTableType tempInfo (i3\<lparr>pt_diskId := diskId\<rparr>));
             out \<leftarrow> record_table i4;
             ret (Inr out) } } } }"

subsection \<open>Creating, deleting and formatting a partition\<close>

definition typeCodeMap :: "(string, string) omap" where
  "typeCodeMap = [(''exfat'', ''0x0700''), (''ext4'', ''0x8300''), (''f2fs'', ''0x8300''), (''hmfs'', ''0x8300''),
     (''ntfs'', ''0x0700''), (''vfat'', ''0x0700'')]"

definition VFAT_TYPECODE_MIN_SIZE :: int where "VFAT_TYPECODE_MIN_SIZE = 16 * 1024 * 1024"
definition EXFAT_TYPECODE_MIN_SIZE :: int where "EXFAT_TYPECODE_MIN_SIZE = 32 * 1024 * 1024"
definition NTFS_TYPECODE_MIN_SIZE :: int where "NTFS_TYPECODE_MIN_SIZE = 4 * 1024 * 1024"
definition EXT4_TYPECODE_MIN_SIZE :: int where "EXT4_TYPECODE_MIN_SIZE = 16 * 1024 * 1024"
definition F2FS_TYPECODE_MIN_SIZE :: int where "F2FS_TYPECODE_MIN_SIZE = 16 * 1024 * 1024"

definition IsParamsValid :: "PartitionParams \<Rightarrow> PartitionTableInfo \<Rightarrow> bool" where
  "IsParamsValid params info =
     (let startSector = pp_startSector params; endSector = pp_endSector params; typeCode = pp_typeCode params;
          sectorInterval = to_int64 ((endSector - startSector + 1) * pt_sectorSize info)
      in if startSector > pt_lastUsableSector info \<or> startSector < pt_alignSector info then False
         else if to_int64 (startSector * pt_sectorSize info) mod pt_alignSector info \<noteq> 0 then False
         else if endSector > pt_lastUsableSector info \<or> endSector < pt_alignSector info then False
         else if typeCode = ''vfat'' \<and> sectorInterval < VFAT_TYPECODE_MIN_SIZE then False
         else if typeCode = ''exfat'' \<and> sectorInterval < EXFAT_TYPECODE_MIN_SIZE then False
         else if typeCode = ''ntfs'' \<and> sectorInterval < NTFS_TYPECODE_MIN_SIZE then False
         else if typeCode = ''ext4'' \<and> sectorInterval < EXT4_TYPECODE_MIN_SIZE then False
         else if (typeCode = ''f2fs'' \<or> typeCode = ''hmfs'') \<and> sectorInterval < F2FS_TYPECODE_MIN_SIZE then False
         else True)"

definition IsDiskNotReady :: "env \<Rightarrow> string \<Rightarrow> bool dmop" where
  "IsDiskNotReady env diskId = do {
     d \<leftarrow> GetDiskById env diskId;
     case d of
       Inl _ \<Rightarrow> ret True
     | Inr disk \<Rightarrow> do { vols \<leftarrow> volumes_of disk; ret (list_ex (\<lambda>v. vc_state v \<noteq> vs_code UNMOUNTED) vols) } }"

definition IsVolumeMounted :: "env \<Rightarrow> string \<Rightarrow> int \<Rightarrow> bool dmop" where
  "IsVolumeMounted env diskId partitionNum = do {
     d \<leftarrow> GetDiskById env diskId;
     case d of
       Inl _ \<Rightarrow> ret True
     | Inr disk \<Rightarrow>
         if d_volumeIds disk = [] then ret True
         else do {
           vols \<leftarrow> volumes_of disk;
           ret (list_ex (\<lambda>v. ve_partitionNum v = partitionNum \<and> vc_state v \<noteq> vs_code UNMOUNTED) vols) } }"

definition FindVolumeForPartition :: "Disk \<Rightarrow> int \<Rightarrow> VolumeExternal dmop" where
  "FindVolumeForPartition disk partitionNum = do {
     vols \<leftarrow> volumes_of disk;
     ret (case find (\<lambda>v. ve_partitionNum v = partitionNum) vols of None \<Rightarrow> VolumeExternal_defaults | Some v \<Rightarrow> v) }"

definition NotifyPartitionDone :: "string \<Rightarrow> unit dmop" where
  "NotifyPartitionDone diskId = modify (partitionDoneMap_update (\<lambda>m. if om_get m diskId = None then m else om_put diskId True m))"

text \<open>The loop ends when the flag is set or the deadline has passed; the flag is removed in both cases.\<close>

definition enter_wait :: "string \<Rightarrow> unit dmop" where
  "enter_wait diskId = modify (partitionDoneMap_update (om_put diskId False))"

definition leave_wait :: "string \<Rightarrow> unit dmop" where
  "leave_wait diskId = modify (partitionDoneMap_update (om_erase diskId))"

definition WaitForPartitionDone :: "env \<Rightarrow> string \<Rightarrow> unit dmop" where
  "WaitForPartitionDone env diskId = do {
     enter_wait diskId;
     r \<leftarrow> invoke env (Cv_WaitUntil diskId);
     leave_wait diskId }"

definition CreatePartition :: "env \<Rightarrow> string \<Rightarrow> PartitionParams \<Rightarrow> errno dmop" where
  "CreatePartition env diskId params = do {
     d \<leftarrow> GetDiskById env diskId;
     case d of
       Inl _ \<Rightarrow> ret E_NON_EXIST
     | Inr disk \<Rightarrow>
         if d_diskType disk \<noteq> dt_code SD_FLAG \<and> d_diskType disk \<noteq> dt_code USB_FLAG then ret E_CREATE_PARTITION_NOT_SUPPORT
         else case om_get typeCodeMap (pp_typeCode params) of
           None \<Rightarrow> ret E_CREATE_PARTITION_NOT_SUPPORT
         | Some code \<Rightarrow> do {
             notReady \<leftarrow> IsDiskNotReady env diskId;
             if notReady then ret E_VOL_STATE
             else do {
               tables \<leftarrow> gets partitionTableMap;
               case om_get tables diskId of
                 None \<Rightarrow> ret E_NON_EXIST
               | Some info \<Rightarrow>
                   if \<not> IsParamsValid params info then ret E_PARAMS_INVALID
                   else do {
                     r \<leftarrow> invoke env (Sd_CreatePartition (DEV_BLOCK_PREFIX @ diskId) (pp_partitionNum params)
                            (pp_startSector params) (pp_endSector params) code);
                     if rp_err r \<noteq> E_OK then ret E_CREATE_PARTITION_ERROR
                     else do { WaitForPartitionDone env diskId; ret E_OK } } } } }"

definition DestroyVolumeByDiskIdAndPartNum :: "env \<Rightarrow> string \<Rightarrow> int \<Rightarrow> bool dmop" where
  "DestroyVolumeByDiskIdAndPartNum env diskId partNum = do {
     d \<leftarrow> GetDiskById env diskId;
     case d of
       Inl _ \<Rightarrow> ret False
     | Inr disk \<Rightarrow> do {
         vols \<leftarrow> volumes_of disk;
         case find (\<lambda>v. ve_partitionNum v = partNum) vols of
           None \<Rightarrow> ret False
         | Some vol \<Rightarrow> do {
             let stateBeforeUnmount = vc_state vol;
             (if stateBeforeUnmount \<noteq> vs_code UNMOUNTED
              then do { unmountRet \<leftarrow> ForceUnmount env (vc_id vol); ret () } else ret ());
             r \<leftarrow> invoke env (Sd_DestroyBlockDeviceNode (DEV_BLOCK_PREFIX @ vc_id vol));
             if rp_err r \<noteq> E_OK then ret False
             else do {
               PublishVolumeChange env (if stateBeforeUnmount = vs_code UNMOUNTED then REMOVED else BAD_REMOVAL) vol;
               e \<leftarrow> OnVolumeDestroyed (vc_id vol);
               ret True } } } }"

definition DeletePartition :: "env \<Rightarrow> string \<Rightarrow> int \<Rightarrow> errno dmop" where
  "DeletePartition env diskId partitionNum = do {
     d \<leftarrow> GetDiskById env diskId;
     case d of
       Inl _ \<Rightarrow> ret E_NON_EXIST
     | Inr disk \<Rightarrow>
         if d_diskType disk \<noteq> dt_code SD_FLAG \<and> d_diskType disk \<noteq> dt_code USB_FLAG then ret E_DELETE_PARTITION_NOT_SUPPORT
         else do {
           notReady \<leftarrow> IsDiskNotReady env diskId;
           if notReady then ret E_VOL_STATE
           else do {
             tables \<leftarrow> gets partitionTableMap;
             case om_get tables diskId of
               None \<Rightarrow> ret E_NON_EXIST
             | Some info \<Rightarrow>
                 if \<not> list_ex (\<lambda>p. pi_partitionNum p = partitionNum) (pt_partitions info) then ret E_NON_EXIST
                 else do {
                   r \<leftarrow> invoke env (Sd_DeletePartition (d_sysPath disk) diskId partitionNum);
                   if rp_err r \<noteq> E_OK then ret E_DELETE_PARTITION_ERROR
                   else do {
                     ok \<leftarrow> DestroyVolumeByDiskIdAndPartNum env diskId partitionNum;
                     WaitForPartitionDone env diskId;
                     ret E_OK } } } } }"

section \<open>Invariants\<close>

context handler_invariant
begin

lemma keeps_volumes_of [keeps_ops]: "keeps I (volumes_of d)"
  by (auto simp: volumes_of_def intro!: keeps_rules keeps_ops)

lemma volumes_of_keyed: "ensures I (volumes_of d) (\<lambda>vs. \<forall>v \<in> set vs. vc_id v \<in> set (d_volumeIds d))"
proof -
  have "ensures I (State_Monad.traverse_list GetVolumeById ks)
      (\<lambda>rs. \<forall>v. Inr v \<in> set rs \<longrightarrow> vc_id v \<in> set ks)" for ks
  proof (induction ks)
    case (Cons k ks)
    show ?case
      by (simp, rule ensures_bind[OF GetVolumeById_keyed], rule ensures_bind[OF Cons.IH])
        (auto intro!: ensures_return)
  qed (simp add: ensures_return)
  then show ?thesis
    unfolding volumes_of_def
    by (rule ensures_bind) (auto intro!: ensures_return simp: List.map_filter_def split: sum.splits)
qed

lemma keeps_partition_reads [keeps_ops]:
  "keeps I (GetFsTypeByDiskIdAndPartNum env d n)" "keeps I (IsDiskNotReady env d)" "keeps I (IsVolumeMounted env d n)"
  "keeps I (FindVolumeForPartition disk n)"
  by (auto simp: GetFsTypeByDiskIdAndPartNum_def IsDiskNotReady_def IsVolumeMounted_def FindVolumeForPartition_def
      intro!: keeps_rules keeps_ops)

lemma keeps_wait [keeps_ops]: "keeps I (NotifyPartitionDone d)" "keeps I (WaitForPartitionDone env d)"
  by (auto simp: NotifyPartitionDone_def WaitForPartitionDone_def enter_wait_def leave_wait_def intro!: keeps_rules)

lemma keeps_complete [keeps_ops]: "keeps I (complete_partition env t p)"
  by (auto simp: complete_partition_def intro!: keeps_rules keeps_ops)

lemma SetPartitions_geometry:
  "ensures I (SetPartitions env ls t) (\<lambda>u. pt_sectorSize u = pt_sectorSize t \<and> pt_alignSector u = pt_alignSector t \<and>
     pt_lastUsableSector u = pt_lastUsableSector t \<and> pt_diskId u = pt_diskId t)"
  by (auto simp: SetPartitions_def intro!: keeps_rules keeps_ops)

lemma keeps_CreatePartition [keeps_ops]: "keeps I (CreatePartition env d ps)"
  by (auto simp: CreatePartition_def intro!: keeps_rules keeps_ops)

end

lemma ConvertStringToInt32_range: "ConvertStringToInt32 s = Some n \<Longrightarrow> 0 < n \<and> n < 2 ^ 31"
  by (auto simp: ConvertStringToInt32_def INT32_MAX_def Let_def split: if_splits)

lemma strtoll_digits:
  assumes "list_all c_isdigit ds" "ds \<noteq> []"
  shows "st_conv (strtoll 10 ds) \<and> st_rest (strtoll 10 ds) = [] \<and>
    st_val (strtoll 10 ds) = min (int (num_of 10 ds)) LLONG_MAX \<and> st_range (strtoll 10 ds) = (LLONG_MAX < int (num_of 10 ds))"
  using assms by (auto simp: strtoll_def c_str_digits strto_scan_digits list_all_iff Let_def LLONG_MIN_def)

lemma match_digits_digits: "match_digits s = Some (ds, r) \<Longrightarrow> list_all c_isdigit ds \<and> ds \<noteq> []"
  by (auto simp: match_digits_def Let_def list_all_iff dest: set_takeWhileD split: if_splits)

lemma regex_search_sound: "regex_search m s = Some x \<Longrightarrow> \<exists>k. m (drop k s) = Some x"
proof (induction m s rule: regex_search.induct)
  case (2 m c s)
  show ?case
  proof (cases "m (c # s)")
    case None
    with 2 obtain k where "m (drop k s) = Some x" by auto
    then show ?thesis by (intro exI[of _ "Suc k"]) simp
  next
    case (Some y)
    with 2 show ?thesis by (intro exI[of _ 0]) simp
  qed
qed auto

lemma last_usable_digits: "regex_search last_usable_pattern s = Some ds \<Longrightarrow> list_all c_isdigit ds \<and> ds \<noteq> []"
  by (auto dest!: regex_search_sound match_digits_digits simp: last_usable_pattern_def split: option.splits)

lemma ConvertStringToInt_digits:
  "list_all c_isdigit ds \<Longrightarrow> ds \<noteq> [] \<Longrightarrow>
   ConvertStringToInt ds = (if int (num_of 10 ds) \<le> LLONG_MAX then Some (int (num_of 10 ds)) else None)"
  using strtoll_digits[of ds] by (auto simp: ConvertStringToInt_def Let_def min_def)

text \<open>Whatever text \<open>sgdisk\<close> prints, an accepted geometry is usable.\<close>

lemma parse_geometry_ok: "parse_geometry content info = Some t \<Longrightarrow> table_ok t"
proof -
  assume "parse_geometry content info = Some t"
  then obtain i1 i2 where 1: "SetSectorSize content info = Some i1" and 2: "SetAlignSector content i1 = Some i2"
    and 3: "SetUsableSector content i2 = Some t"
    by (auto simp: parse_geometry_def bind_eq_Some_conv)
  have "0 < pt_sectorSize i1 \<and> pt_sectorSize i1 < 2 ^ 31"
    using 1 by (auto simp: SetSectorSize_def split: option.splits dest!: ConvertStringToInt32_range)
  moreover have "0 < pt_alignSector i2 \<and> pt_alignSector i2 < 2 ^ 31" "pt_sectorSize i2 = pt_sectorSize i1"
    using 2 by (auto simp: SetAlignSector_def split: option.splits dest!: ConvertStringToInt32_range)
  moreover have "0 \<le> pt_lastUsableSector t \<and> pt_lastUsableSector t < 2 ^ 63"
    "pt_sectorSize t = pt_sectorSize i2" "pt_alignSector t = pt_alignSector i2"
    using 3 by (auto simp: SetUsableSector_def ConvertStringToInt_digits LLONG_MAX_def split: option.splits if_splits
        dest!: last_usable_digits)
  ultimately show ?thesis by (simp add: table_ok_def)
qed

context service_invariant
begin

lemma keeps_DestroyVolume [keeps_ops]: "keeps I (DestroyVolumeByDiskIdAndPartNum env d n)"
  by (auto simp: DestroyVolumeByDiskIdAndPartNum_def Let_def intro!: keeps_rules keeps_ops)

lemma keeps_DeletePartition [keeps_ops]: "keeps I (DeletePartition env d n)"
  by (auto simp: DeletePartition_def intro!: keeps_rules keeps_ops)

lemma keeps_GetPartitionTable [keeps_ops]:
  assumes "\<And>t. table_ok t \<Longrightarrow> T t"
  shows "keeps I (GetPartitionTable env d info)"
proof -
  have tail: "keeps I (do {
      i4 \<leftarrow> SetPartitions env ls (SetTableType ls (i3\<lparr>pt_diskId := d\<rparr>));
      out \<leftarrow> record_table i4;
      ret (Inr out :: errno + PartitionTableInfo) })" if "parse_geometry ls info = Some i3" for ls i3
  proof (rule ensures_bind[OF SetPartitions_geometry], rule ensures_bind_keeps, goal_cases)
    case (1 i4)
    then have "T (i4\<lparr>pt_partitionCount := int (length (pt_partitions i4))\<rparr>)"
      using parse_geometry_ok[OF that] by (auto intro!: assms simp: SetTableType_def table_ok_def)
    then show ?case
      unfolding record_table_def Let_def by (rule ensures_bind_keeps[OF keeps_table_put]) (simp add: ensures_return)
  qed (simp add: ensures_return)
  show ?thesis
    unfolding GetPartitionTable_def by (auto simp: Let_def intro!: keeps_rules keeps_ops tail)
qed

end

section \<open>What the daemon is asked to create\<close>

definition is_create :: "item \<Rightarrow> bool" where
  "is_create it = (case it of Call (Sd_CreatePartition _ _ _ _ _) _ \<Rightarrow> True | _ \<Rightarrow> False)"

abbreviation creates :: "dm \<Rightarrow> item list" where
  "creates s \<equiv> filter is_create (trace s)"

lemma creates_rules:
  "keeps (\<lambda>s. creates s = l) (invoke env (Lib_QueryEncryptionStatus p))"
  "keeps (\<lambda>s. creates s = l) (invoke env (Cv_WaitUntil k))"
  by (simp_all add: ensures_def run_invoke is_create_def)

lemma creates_reads:
  "keeps (\<lambda>s. creates s = l) (GetDiskById env k)" "keeps (\<lambda>s. creates s = l) (IsDiskNotReady env k)"
  "keeps (\<lambda>s. creates s = l) (WaitForPartitionDone env k)"
  by (auto simp: GetDiskById_def attach_and_query_def QueryAndAppendEncryptionStatusUnlocked_def QueryEncryptionStatus_def
      TryCopyByDiskId_def IsDiskNotReady_def volumes_of_def GetVolumeById_def WaitForPartitionDone_def enter_wait_def
      leave_wait_def Let_def intro!: ensures_intros creates_rules ensures_modify)

lemma IsParamsValid_bounds:
  assumes "IsParamsValid params info"
  shows "pt_alignSector info \<le> pp_startSector params" "pp_startSector params \<le> pt_lastUsableSector info"
    "pt_alignSector info \<le> pp_endSector params" "pp_endSector params \<le> pt_lastUsableSector info"
  using assms by (auto simp: IsParamsValid_def Let_def split: if_splits)

lemma sector_product_small:
  assumes "table_ok info" "pt_lastUsableSector info < 2 ^ 32" "0 \<le> a" "a \<le> pt_lastUsableSector info"
  shows "0 \<le> a * pt_sectorSize info" "a * pt_sectorSize info < 2 ^ 63" "to_int64 (a * pt_sectorSize info) = a * pt_sectorSize info"
proof -
  from assms show 1: "0 \<le> a * pt_sectorSize info" by (simp add: table_ok_def)
  have "a * pt_sectorSize info \<le> 2 ^ 32 * (2 ^ 31 - 1)"
    using assms by (intro mult_mono) (auto simp: table_ok_def)
  then show "a * pt_sectorSize info < 2 ^ 63" by simp
  with 1 show "to_int64 (a * pt_sectorSize info) = a * pt_sectorSize info" by (intro to_int64_id) simp_all
qed

lemma IsParamsValid_size:
  assumes "IsParamsValid params info" "table_ok info" "pt_lastUsableSector info < 2 ^ 32"
    and "om_get typeCodeMap (pp_typeCode params) = Some code"
  shows "pp_startSector params \<le> pp_endSector params \<and>
    NTFS_TYPECODE_MIN_SIZE \<le> (pp_endSector params - pp_startSector params + 1) * pt_sectorSize info"
proof -
  let ?a = "pp_startSector params" and ?b = "pp_endSector params" and ?z = "pt_sectorSize info"
  note bounds = IsParamsValid_bounds[OF assms(1)]
  have pos: "0 < ?z" "?z < 2 ^ 31" "0 < pt_alignSector info" using assms(2) by (auto simp: table_ok_def)
  have code: "pp_typeCode params \<in> {''exfat'', ''ext4'', ''f2fs'', ''hmfs'', ''ntfs'', ''vfat''}"
    using assms(4) by (auto simp: typeCodeMap_def split: if_splits)
  have "to_int64 ((?b - ?a + 1) * ?z) \<ge> NTFS_TYPECODE_MIN_SIZE"
    using assms(1) code
    by (auto simp: IsParamsValid_def Let_def VFAT_TYPECODE_MIN_SIZE_def EXFAT_TYPECODE_MIN_SIZE_def NTFS_TYPECODE_MIN_SIZE_def
        EXT4_TYPECODE_MIN_SIZE_def F2FS_TYPECODE_MIN_SIZE_def split: if_splits)
  moreover have "to_int64 ((?b - ?a + 1) * ?z) = (?b - ?a + 1) * ?z"
  proof (rule to_int64_id)
    have "- (2 ^ 32) \<le> ?b - ?a + 1" "?b - ?a + 1 \<le> 2 ^ 32" using bounds assms(3) pos by auto
    then have "- (2 ^ 32) * ?z \<le> (?b - ?a + 1) * ?z" "(?b - ?a + 1) * ?z \<le> 2 ^ 32 * ?z"
      using mult_right_mono[of "- (2 ^ 32)" "?b - ?a + 1" ?z] mult_right_mono[of "?b - ?a + 1" "2 ^ 32" ?z] pos
      by linarith+
    moreover define q where "q = (?b - ?a + 1) * ?z"
    ultimately have "- (2 ^ 32) * ?z \<le> q" "q \<le> 2 ^ 32 * ?z" by simp_all
    with pos have "- (2 ^ 63) \<le> q" "q < 2 ^ 63" by simp_all
    then show "- (2 ^ 63) \<le> (?b - ?a + 1) * ?z" "(?b - ?a + 1) * ?z < 2 ^ 63" by (simp_all only: q_def)
  qed
  ultimately have size: "NTFS_TYPECODE_MIN_SIZE \<le> (?b - ?a + 1) * ?z" by simp
  then have "0 < (?b - ?a + 1) * ?z" by (simp add: NTFS_TYPECODE_MIN_SIZE_def)
  then have "0 < ?b - ?a + 1" using pos by (simp add: zero_less_mult_iff)
  with size show ?thesis by simp
qed

text \<open>The state in which the table is looked up, after the two reads of the disk.\<close>

abbreviation state_of_check :: "env \<Rightarrow> string \<Rightarrow> dm \<Rightarrow> dm" where
  "state_of_check env diskId s \<equiv> snd (run_state (State_Monad.bind (GetDiskById env diskId) (\<lambda>_. IsDiskNotReady env diskId)) s)"

lemma CreatePartition_call:
  assumes others: "others_keep env dm_inv" and inv: "dm_inv s"
    and run: "run_state (CreatePartition env diskId params) s = (e, t)"
  shows "creates t = creates s \<or>
    (\<exists>info code r. creates t = Call (Sd_CreatePartition (DEV_BLOCK_PREFIX @ diskId) (pp_partitionNum params)
        (pp_startSector params) (pp_endSector params) code) r # creates s \<and>
      om_get (partitionTableMap (state_of_check env diskId s)) diskId = Some info \<and>
      table_ok info \<and> om_get typeCodeMap (pp_typeCode params) = Some code \<and> IsParamsValid params info)"
proof -
  obtain d s1 where 1: "run_state (GetDiskById env diskId) s = (d, s1)" by fastforce
  obtain nr s2 where 2: "run_state (IsDiskNotReady env diskId) s1 = (nr, s2)" by fastforce
  have chk: "state_of_check env diskId s = s2" using 1 2 by simp
  note hi = dm_inv_handler[OF others]
  have c: "creates s1 = creates s" "creates s2 = creates s1"
    using ensuresD[OF creates_reads(1) refl 1] ensuresD[OF creates_reads(2) refl 2] by auto
  have "dm_inv s1" using ensuresD[OF handler_invariant.keeps_listings(1)[OF hi] inv 1] by simp
  then have inv2: "dm_inv s2" using ensuresD[OF handler_invariant.keeps_partition_reads(2)[OF hi] _ 2] by simp
  then have tab: "om_get (partitionTableMap s2) diskId = Some info \<Longrightarrow> table_ok info" for info by (simp add: dm_inv_def)
  have wait: "creates t' = creates s'" if "run_state (WaitForPartitionDone env diskId) s' = (u, t')" for s' t' u
    using ensuresD[OF creates_reads(3) refl that] by simp
  from run 1 2 c show ?thesis unfolding chk
    by (auto simp: CreatePartition_def run_invoke is_create_def split: sum.splits option.splits if_splits prod.splits
        dest!: wait intro: tab)
qed

lemma state_of_check_quiet:
  assumes "quiet env" "registry_inv s"
  shows "partitionTableMap (state_of_check env diskId s) = partitionTableMap s"
proof -
  note h = volume_handler[OF assms(1), of s "[]" "\<lambda>_. True"]
  have "keeps (volume_inv s [] (\<lambda>_. True)) (State_Monad.bind (GetDiskById env diskId) (\<lambda>_. IsDiskNotReady env diskId))"
    by (intro ensures_bind_keeps handler_invariant.keeps_listings(1)[OF h] handler_invariant.keeps_partition_reads(2)[OF h])
  then show ?thesis using assms(2) by (auto simp: ensures_def volume_inv_def frame_def)
qed

text \<open>C19: \<open>CreatePartition\<close> sends the daemon at most one request, whatever other threads do while it runs. The
  request names the asked disk and the type code of a supported file system. A table with a usable geometry is
  recorded for the disk when the operation looks it up (the one at the start when no other thread runs), and the sectors lie
  between the alignment and the last usable sector of this table. If the table has fewer than $2^{32}$
  sectors the partition is not empty and has at least 4 MiB: the check cannot be passed by overflow.\<close>

theorem CreatePartition_request:
  assumes "others_keep env dm_inv" "dm_inv s" "run_state (CreatePartition env diskId params) s = (e, t)"
  shows "creates t = creates s \<or>
    (\<exists>info code r. creates t = Call (Sd_CreatePartition (DEV_BLOCK_PREFIX @ diskId) (pp_partitionNum params)
        (pp_startSector params) (pp_endSector params) code) r # creates s \<and>
      om_get (partitionTableMap (state_of_check env diskId s)) diskId = Some info \<and>
      (quiet env \<longrightarrow> om_get (partitionTableMap s) diskId = Some info) \<and>
      table_ok info \<and> om_get typeCodeMap (pp_typeCode params) = Some code \<and>
      pt_alignSector info \<le> pp_startSector params \<and> pp_startSector params \<le> pt_lastUsableSector info \<and>
      pt_alignSector info \<le> pp_endSector params \<and> pp_endSector params \<le> pt_lastUsableSector info \<and>
      (pt_lastUsableSector info < 2 ^ 32 \<longrightarrow> pp_startSector params \<le> pp_endSector params \<and>
         4 * 1024 * 1024 \<le> (pp_endSector params - pp_startSector params + 1) * pt_sectorSize info))"
proof (cases "creates t = creates s")
  case False
  with CreatePartition_call[OF assms] obtain info code r where
    call: "creates t = Call (Sd_CreatePartition (DEV_BLOCK_PREFIX @ diskId) (pp_partitionNum params)
      (pp_startSector params) (pp_endSector params) code) r # creates s"
    and info: "om_get (partitionTableMap (state_of_check env diskId s)) diskId = Some info" "table_ok info"
    and code: "om_get typeCodeMap (pp_typeCode params) = Some code" and valid: "IsParamsValid params info" by blast
  have "quiet env \<Longrightarrow> om_get (partitionTableMap s) diskId = Some info"
    using state_of_check_quiet[of env s diskId] assms(2) info(1) by (simp add: dm_inv_def)
  then show ?thesis
    using call info code IsParamsValid_bounds[OF valid] IsParamsValid_size[OF valid info(2) _ code, unfolded NTFS_TYPECODE_MIN_SIZE_def]
    by blast
qed simp

definition stick_table :: PartitionTableInfo where
  "stick_table = PartitionTableInfo_default\<lparr>pt_diskId := ''disk-8-0'', pt_sectorSize := 512, pt_alignSector := 2048,
     pt_lastUsableSector := 1000000\<rparr>"

definition one_stick :: dm where
  "one_stick = init_dm\<lparr>
     diskMap := [(''disk-8-0'', Disk_ctor ''disk-8-0'' 512000000 ''sda'' (dt_code USB_FLAG))],
     partitionTableMap := [(''disk-8-0'', stick_table)]\<rparr>"

definition stick_params :: "int \<Rightarrow> PartitionParams" where
  "stick_params start = \<lparr>pp_partitionNum = 1, pp_startSector = start, pp_endSector = 500000, pp_typeCode = ''exfat''\<rparr>"

lemma one_stick_inv: "dm_inv one_stick"
proof -
  have "disk_typed (Disk_ctor ''disk-8-0'' 512000000 ''sda'' (dt_code USB_FLAG))"
    by (simp add: disk_typed_def Disk_ctor_def del: dt_code.simps)
  then show ?thesis
    by (auto simp: dm_inv_def registry_inv_def disks.keyed_def volumes.keyed_def one_stick_def init_dm_def om_wf_def
        table_ok_def stick_table_def Disk_ctor_def UpdateRemovableFromDiskType_def split: if_splits)
qed

theorem CreatePartition_request_witness:
  "let t = snd (run_state (CreatePartition (calm (\<lambda>h c. ok_reply)) ''disk-8-0'' (stick_params 2048)) one_stick)
   in length (creates t) = 1"
proof -
  let ?m = "CreatePartition (calm (\<lambda>h c. ok_reply)) ''disk-8-0'' (stick_params 2048)"
  have "creates (snd (run_state ?m one_stick)) \<noteq> []" by code_simp
  then show ?thesis
    using CreatePartition_request[OF others_keep_quiet[OF quiet_calm] one_stick_inv prod.collapse[symmetric], of "\<lambda>h c. ok_reply" "''disk-8-0''" "stick_params 2048"]
    by (auto simp: one_stick_def init_dm_def Let_def)
qed

lemma dvd_mult_gcd: "m \<noteq> 0 \<Longrightarrow> m dvd a * z \<longleftrightarrow> m div gcd m z dvd a" for m a z :: int
proof -
  assume m: "m \<noteq> 0"
  then have g: "gcd m z \<noteq> 0" by simp
  then obtain m' z' where mz: "m = m' * gcd m z" "z = z' * gcd m z" "coprime m' z'" using gcd_coprime_exists by blast
  have "m dvd a * z \<longleftrightarrow> m' * gcd m z dvd (a * z') * gcd m z" using mz(1,2) by (metis mult.assoc)
  also have "\<dots> \<longleftrightarrow> m' dvd a" using m mz(3) by (simp add: coprime_dvd_mult_left_iff)
  also have "m' = m div gcd m z" using mz(1) g by (metis nonzero_mult_div_cancel_right)
  finally show ?thesis .
qed

text \<open>On a table below $2^{32}$ sectors the alignment test of \<open>IsParamsValid\<close> is passed exactly by the starts
  that are multiples of the alignment divided by its greatest common divisor with the sector size. So a start
  may be off the boundary: on the usual 2048-sector alignment with 512-byte sectors, 2052 passes.\<close>

theorem IsParamsValid_alignment:
  assumes "table_ok info" "pt_lastUsableSector info < 2 ^ 32" "0 \<le> a" "a \<le> pt_lastUsableSector info"
  shows "(to_int64 (a * pt_sectorSize info) mod pt_alignSector info = 0 \<longleftrightarrow>
      (pt_alignSector info div gcd (pt_alignSector info) (pt_sectorSize info)) dvd a) \<and>
    IsParamsValid (stick_params 2052) stick_table \<and> \<not> pt_alignSector stick_table dvd 2052"
proof -
  have al: "pt_alignSector info \<noteq> 0" using assms(1) by (simp add: table_ok_def)
  have "to_int64 (a * pt_sectorSize info) mod pt_alignSector info = 0 \<longleftrightarrow> pt_alignSector info dvd a * pt_sectorSize info"
    by (simp add: sector_product_small(3)[OF assms] mod_eq_0_iff_dvd)
  also have "\<dots> \<longleftrightarrow> (pt_alignSector info div gcd (pt_alignSector info) (pt_sectorSize info)) dvd a"
    using dvd_mult_gcd[OF al] .
  finally have "to_int64 (a * pt_sectorSize info) mod pt_alignSector info = 0 \<longleftrightarrow>
      (pt_alignSector info div gcd (pt_alignSector info) (pt_sectorSize info)) dvd a" .
  moreover have "IsParamsValid (stick_params 2052) stick_table \<and> \<not> pt_alignSector stick_table dvd 2052" by code_simp
  ultimately show ?thesis by simp
qed

theorem IsParamsValid_alignment_witness:
  "to_int64 (2052 * pt_sectorSize stick_table) mod pt_alignSector stick_table = 0 \<and> IsParamsValid (stick_params 2052) stick_table"
  using IsParamsValid_alignment[of stick_table 2052] by (simp add: stick_table_def table_ok_def)

section \<open>A row of the table\<close>

lemma dec_no_space: "\<forall>c \<in> set (to_string n). \<not> c_isspace c"
  using to_string_digits c_isdigit_not_space by blast

lemma ConvertStringToInt_print: "int n < 2 ^ 63 \<Longrightarrow> ConvertStringToInt (to_string n) = Some (int n)"
  by (subst ConvertStringToInt_digits) (auto simp: list_all_iff LLONG_MAX_def)

lemma to_string_head: "0 < n \<Longrightarrow> hd (to_string n) \<noteq> CHR ''0''"
proof (induction n rule: to_string.induct)
  case (1 n)
  show ?case
  proof (cases "n < 10")
    case True
    with 1(2) show ?thesis by (subst to_string.simps) (auto simp: dec_char_def char_of_eq_iff take_bit_eq_mod)
  next
    case False
    then have "hd (to_string (n div 10)) \<noteq> CHR ''0''" by (intro 1(1)) auto
    with False show ?thesis by (subst to_string.simps) simp
  qed
qed

lemma ConvertStringToInt32_print:
  assumes "0 < n" "n < 2 ^ 31 - 1"
  shows "ConvertStringToInt32 (to_string n) = Some (int n)"
proof -
  obtain c ds where s: "to_string n = c # ds" by (cases "to_string n") auto
  have "length (to_string n) \<le> Suc 9" using assms(2) by (subst length_to_string_le) simp
  then have "positive_decimal (to_string n)"
    using to_string_head[OF assms(1)] to_string_digits[of n] by (auto simp: s positive_decimal_def list_all_iff)
  then show ?thesis
    using assms strtoll_digits[of "to_string n"] to_string_digits[of n]
    by (auto simp: ConvertStringToInt32_def INT32_MAX_def list_all_iff Let_def LLONG_MAX_def)
qed

text \<open>A row of the partition table is read back: number, first and last sector, whatever follows. But a
  row that is cut off after the number is not rejected: its sectors are read as the number again.\<close>

theorem ParsePartitionInfo_row:
  assumes "0 < n" "n < 2 ^ 31 - 1" "a < 2 ^ 63" "b < 2 ^ 63"
  shows "ParsePartitionInfo (to_string n @ '' '' @ to_string a @ '' '' @ to_string b @ '' '' @ rest) =
      Some (PartitionInfo_default\<lparr>pi_partitionNum := int n, pi_startSector := int a, pi_endSector := int b\<rparr>) \<and>
    ParsePartitionInfo (to_string n) =
      Some (PartitionInfo_default\<lparr>pi_partitionNum := int n, pi_startSector := int n, pi_endSector := int n\<rparr>)"
proof -
  have toks: "split_ws (to_string n @ CHR '' '' # to_string a @ CHR '' '' # to_string b @ CHR '' '' # rest) =
      to_string n # to_string a # to_string b # split_ws rest" "split_ws (to_string n) = [to_string n]"
    using split_ws_Cons[OF to_string_not_Nil dec_no_space] by simp_all
  have "int n < 2 ^ 63" "int a < 2 ^ 63" "int b < 2 ^ 63" using assms by simp_all
  with assms(1,2) show ?thesis
    by (simp add: ParsePartitionInfo_def toks word_at_def ConvertStringToInt_print ConvertStringToInt32_print)
qed

theorem ParsePartitionInfo_row_witness:
  "ParsePartitionInfo (to_string 3) =
     Some (PartitionInfo_default\<lparr>pi_partitionNum := 3, pi_startSector := 3, pi_endSector := 3\<rparr>)"
  using ParsePartitionInfo_row[of 3 0 0 "[]"] by simp

section \<open>Waiting for the kernel event\<close>

text \<open>
  The request thread registers, waits and leaves; the thread that handles the \<open>change\<close> event of the kernel
  notifies. The event is sent when the daemon has written the table, so it may be handled at any time from
  the call on. The steps are the sections under \<open>partitionLock_\<close>, with the bodies of the operations above. The
  wait returns \<open>no_timeout\<close> after a notification, or spuriously, and the loop tests the flag; from the deadline on
  it may return \<open>timeout\<close>, and the loop is left without a test.
\<close>

definition loop_test :: "string \<Rightarrow> unit dmop" where
  "loop_test diskId = modify (partitionDoneMap_update (\<lambda>m. if om_get m diskId = None then om_put diskId False m else m))"

datatype wait_pc = W_Calling | W_Waiting | W_Done | W_TimedOut

record wait_sys =
  ws_dm :: dm
  ws_pc :: wait_pc
  ws_event :: bool
  ws_late :: bool

datatype wait_label = Enter | Notify | Deadline | Wake | Timeout

abbreviation flag_of :: "string \<Rightarrow> wait_sys \<Rightarrow> bool option" where
  "flag_of diskId w \<equiv> om_get (partitionDoneMap (ws_dm w)) diskId"

inductive wait_step :: "string \<Rightarrow> wait_sys \<Rightarrow> wait_label \<Rightarrow> wait_sys \<Rightarrow> bool" for diskId where
  enter: "ws_pc w = W_Calling \<Longrightarrow>
    wait_step diskId w Enter (w\<lparr>ws_dm := snd (run_state (enter_wait diskId) (ws_dm w)), ws_pc := W_Waiting\<rparr>)"
| notify: "ws_event w \<Longrightarrow>
    wait_step diskId w Notify (w\<lparr>ws_dm := snd (run_state (NotifyPartitionDone diskId) (ws_dm w)), ws_event := False\<rparr>)"
| deadline: "ws_pc w = W_Waiting \<Longrightarrow> wait_step diskId w Deadline (w\<lparr>ws_late := True\<rparr>)"
| woken: "ws_pc w = W_Waiting \<Longrightarrow> flag_of diskId w = Some True \<Longrightarrow>
    wait_step diskId w Wake (w\<lparr>ws_dm := snd (run_state (leave_wait diskId) (ws_dm w)), ws_pc := W_Done\<rparr>)"
| again: "ws_pc w = W_Waiting \<Longrightarrow> flag_of diskId w \<noteq> Some True \<Longrightarrow>
    wait_step diskId w Wake (w\<lparr>ws_dm := snd (run_state (loop_test diskId) (ws_dm w))\<rparr>)"
| timeout: "ws_pc w = W_Waiting \<Longrightarrow> ws_late w \<Longrightarrow>
    wait_step diskId w Timeout (w\<lparr>ws_dm := snd (run_state (leave_wait diskId) (ws_dm w)), ws_pc := W_TimedOut\<rparr>)"

inductive_cases wait_stepE: "wait_step diskId w l w'"
inductive_simps wait_step_simps: "wait_step diskId w l w'"

inductive wait_run :: "string \<Rightarrow> wait_sys \<Rightarrow> wait_label list \<Rightarrow> wait_sys \<Rightarrow> bool" for diskId where
  stop: "wait_run diskId w [] w"
| step: "wait_run diskId w ls w' \<Longrightarrow> wait_step diskId w' l w'' \<Longrightarrow> wait_run diskId w (ls @ [l]) w''"

definition wait_start :: "string \<Rightarrow> wait_sys \<Rightarrow> bool" where
  "wait_start diskId w \<longleftrightarrow> ws_pc w = W_Calling \<and> ws_event w \<and> \<not> ws_late w \<and> flag_of diskId w = None"

text \<open>The event was handled after the thread had registered.\<close>

definition heard :: "wait_label list \<Rightarrow> bool" where
  "heard ls \<longleftrightarrow> Notify \<in> set (dropWhile (\<lambda>l. l \<noteq> Enter) ls)"

lemma heard_snoc [simp]: "heard (ls @ [l]) \<longleftrightarrow> heard ls \<or> (l = Notify \<and> Enter \<in> set ls)"
  by (induction ls) (auto simp: heard_def)

text \<open>What the history of a run says about its state.\<close>

definition wait_inv :: "string \<Rightarrow> wait_label list \<Rightarrow> wait_sys \<Rightarrow> bool" where
  "wait_inv diskId ls w \<longleftrightarrow>
     (ws_late w \<longleftrightarrow> Deadline \<in> set ls) \<and> count_list ls Notify = (if ws_event w then 0 else 1) \<and>
     (ws_pc w = W_Calling \<longleftrightarrow> Enter \<notin> set ls) \<and>
     (ws_pc w = W_Waiting \<longrightarrow> flag_of diskId w = Some (heard ls)) \<and>
     (ws_pc w \<noteq> W_Waiting \<longrightarrow> flag_of diskId w = None) \<and>
     (ws_pc w = W_Done \<longrightarrow> heard ls) \<and> (ws_pc w = W_TimedOut \<longrightarrow> Deadline \<in> set ls)"

lemma heard_enter: "heard ls \<Longrightarrow> Enter \<in> set ls"
  by (induction ls) (auto simp: heard_def split: if_splits)

lemma wait_step_inv: "wait_step diskId w l w' \<Longrightarrow> wait_inv diskId ls w \<Longrightarrow> wait_inv diskId (ls @ [l]) w'"
proof (induction rule: wait_step.induct)
  case (enter w)
  then show ?case using heard_enter[of ls] by (auto simp: wait_inv_def enter_wait_def)
next
  case (notify w)
  then show ?case
    by (cases "ws_pc w") (auto simp: wait_inv_def NotifyPartitionDone_def)
qed (auto simp: wait_inv_def leave_wait_def loop_test_def)

lemma wait_run_inv: "wait_run diskId w ls w' \<Longrightarrow> wait_start diskId w \<Longrightarrow> wait_inv diskId ls w'"
proof (induction rule: wait_run.induct)
  case (stop w)
  then show ?case by (simp add: wait_start_def wait_inv_def heard_def)
qed (blast intro: wait_step_inv)

text \<open>C39: The wait of \<open>CreatePartition\<close> and \<open>DeletePartition\<close> for the kernel event, with spurious wake-ups and
  any timing. The event may be handled before or after the request thread registers: both orders are possible
  from every start. Whatever happens, a thread that has registered can leave, by the next wake-up if the event
  was handled after it registered, otherwise after the deadline; it leaves by a wake-up only if the event was
  handled after it registered, and by the timeout only after the deadline, be the flag set or not; and then its
  entry is gone. So when the event is handled first the notification is lost: the thread cannot leave before
  the deadline.\<close>

theorem partition_wait:
  assumes "wait_start diskId w"
  shows "(\<exists>w'. wait_run diskId w [Enter, Notify] w') \<and> (\<exists>w'. wait_run diskId w [Notify, Enter] w') \<and>
    (\<forall>ls w'. wait_run diskId w ls w' \<longrightarrow>
       (ws_pc w' = W_Waiting \<and> heard ls \<longrightarrow> (\<exists>w''. wait_step diskId w' Wake w'') \<and>
          (\<forall>w''. wait_step diskId w' Wake w'' \<longrightarrow> ws_pc w'' = W_Done)) \<and>
       (ws_pc w' = W_Waiting \<longrightarrow> (\<exists>w''. wait_run diskId w (ls @ [Deadline, Timeout]) w'' \<and> ws_pc w'' = W_TimedOut)) \<and>
       (ws_pc w' = W_Done \<longrightarrow> heard ls) \<and> (ws_pc w' = W_TimedOut \<longrightarrow> Deadline \<in> set ls) \<and>
       (ws_pc w' \<noteq> W_Waiting \<longrightarrow> flag_of diskId w' = None)) \<and>
    (\<forall>ls w'. wait_run diskId w ([Notify, Enter] @ ls) w' \<longrightarrow>
       ws_pc w' \<noteq> W_Done \<and> (Deadline \<notin> set ls \<longrightarrow> ws_pc w' = W_Waiting))"
proof (intro conjI allI impI)
  let ?e = "\<lambda>w. w\<lparr>ws_dm := snd (run_state (enter_wait diskId) (ws_dm w)), ws_pc := W_Waiting\<rparr>"
  let ?n = "\<lambda>w. w\<lparr>ws_dm := snd (run_state (NotifyPartitionDone diskId) (ws_dm w)), ws_event := False\<rparr>"
  have "wait_run diskId w [Enter, Notify] (?n (?e w))" "wait_run diskId w [Notify, Enter] (?e (?n w))"
    using wait_run.step[OF wait_run.step[OF wait_run.stop[of diskId w] wait_step.enter] wait_step.notify]
      wait_run.step[OF wait_run.step[OF wait_run.stop[of diskId w] wait_step.notify] wait_step.enter] assms
    by (simp_all add: wait_start_def)
  then show "\<exists>w'. wait_run diskId w [Enter, Notify] w'" "\<exists>w'. wait_run diskId w [Notify, Enter] w'" by blast+
next
  fix ls w' assume run: "wait_run diskId w ls w'"
  note i = wait_run_inv[OF run assms]
  show "flag_of diskId w' = None" if "ws_pc w' \<noteq> W_Waiting" using i that by (simp add: wait_inv_def)
  show "heard ls" if "ws_pc w' = W_Done" using i that by (simp add: wait_inv_def)
  show "Deadline \<in> set ls" if "ws_pc w' = W_TimedOut" using i that by (simp add: wait_inv_def)
  show "\<exists>w''. wait_run diskId w (ls @ [Deadline, Timeout]) w'' \<and> ws_pc w'' = W_TimedOut" if "ws_pc w' = W_Waiting"
    using wait_run.step[OF wait_run.step[OF run wait_step.deadline[OF that]] wait_step.timeout] that by fastforce
  assume "ws_pc w' = W_Waiting \<and> heard ls"
  then have w: "ws_pc w' = W_Waiting" "flag_of diskId w' = Some True" using i by (auto simp: wait_inv_def)
  then show "\<exists>w''. wait_step diskId w' Wake w''" using wait_step.woken by blast
  show "ws_pc w'' = W_Done" if "wait_step diskId w' Wake w''" for w'' using that w by (auto elim: wait_stepE)
next
  fix ls w' assume "wait_run diskId w ([Notify, Enter] @ ls) w'"
  then have i: "wait_inv diskId (Notify # Enter # ls) w'" using wait_run_inv[OF _ assms] by simp
  then have lost: "Notify \<notin> set ls" by (auto simp: wait_inv_def count_list_0_iff split: if_splits)
  with i show "ws_pc w' \<noteq> W_Done" by (auto simp: wait_inv_def heard_def)
  show "ws_pc w' = W_Waiting" if "Deadline \<notin> set ls"
    using i that lost by (cases "ws_pc w'") (auto simp: wait_inv_def heard_def)
qed

theorem partition_wait_witness:
  "wait_start ''disk-8-0'' \<lparr>ws_dm = init_dm, ws_pc = W_Calling, ws_event = True, ws_late = False\<rparr> \<and>
   (\<exists>w'. wait_run ''disk-8-0'' \<lparr>ws_dm = init_dm, ws_pc = W_Calling, ws_event = True, ws_late = False\<rparr> [Notify, Enter] w')"
proof -
  have "wait_start ''disk-8-0'' \<lparr>ws_dm = init_dm, ws_pc = W_Calling, ws_event = True, ws_late = False\<rparr>"
    by (simp add: wait_start_def init_dm_def)
  with partition_wait[OF this] show ?thesis by blast
qed

end
