(* ===== verification/Dm_Format.thy ===== *)
theory Dm_Format
  imports Dm_Partition
begin

text \<open>
  Formatting and labelling a volume, purging the volumes of a disk, formatting a partition, and the
  optical-disc and encrypted-container operations of \<^verbatim>\<open>disk/disk_manager.cpp\<close>. Partitioning a whole disk
  (\<open>Partition\<close>) calls the device-event code and is in the theory of that code. Proved: what formatting and
  purging do to the registry, and that every operation keeps the invariant of the service.
\<close>

section \<open>Definitions\<close>

subsection \<open>Format\<close>

definition VOLUME_DESCRIPTION_MAX_LEN :: nat where "VOLUME_DESCRIPTION_MAX_LEN = 512"

definition LABEL_SUPPORTED_FS_TYPES :: "string list" where
  "LABEL_SUPPORTED_FS_TYPES = [''exfat'', ''f2fs'', ''hmfs'', ''ntfs'']"

definition UpdateVoldataMappingAfterFormat :: "env \<Rightarrow> string \<Rightarrow> string \<Rightarrow> string \<Rightarrow> string \<Rightarrow> unit dmop" where
  "UpdateVoldataMappingAfterFormat env diskId oldFsUuid newFsUuid fsType = do {
     dmap \<leftarrow> gets diskMap;
     let useVoldataPath = ShouldUseVoldataMountPathForDiskUnlocked dmap diskId (str_tolower fsType);
     if \<not> useVoldataPath then
       (if oldFsUuid \<noteq> [] \<and> IsUuidValid oldFsUuid
        then do { e \<leftarrow> on_store (RemoveByFsUuid (en_store env) oldFsUuid); ret () } else ret ())
     else if oldFsUuid = [] \<or> newFsUuid = [] \<or> \<not> IsUuidValid oldFsUuid \<or> \<not> IsUuidValid newFsUuid then ret ()
     else do {
       known \<leftarrow> gets (\<lambda>s. TryGetMountPath oldFsUuid (vstore s));
       if known = None then ret ()
       else do { e \<leftarrow> on_store (ReplaceFsUuid (en_store env) oldFsUuid newFsUuid); ret () } } }"

definition PublishFormatFailEvent :: "string \<Rightarrow> unit dmop" where
  "PublishFormatFailEvent volumeId = do {
     SetVolumeStateLocked volumeId FORMAT_FINISH_FAIL;
     vm \<leftarrow> gets volumeMap;
     case om_get vm volumeId of None \<Rightarrow> ret () | Some v \<Rightarrow> PublishVolumeResult FORMAT_FINISH_FAIL v }"

definition UpdateVolumeAfterFormat :: "env \<Rightarrow> string \<Rightarrow> string \<Rightarrow> string \<Rightarrow> string \<Rightarrow> string \<Rightarrow> errno dmop" where
  "UpdateVolumeAfterFormat env volumeId fsType diskId oldFsUuid devPath = do {
     r \<leftarrow> invoke env (Sd_ReadMetadata devPath);
     if \<not> IsUuidValid (rp_str 0 r) then ret E_PARAMS_INVALID
     else do {
       vm \<leftarrow> gets volumeMap;
       let uuid = DedupFsUuidUnlocked vm volumeId (rp_str 0 r);
       UpdateVoldataMappingAfterFormat env diskId oldFsUuid uuid fsType;
       vm2 \<leftarrow> gets volumeMap;
       if om_get vm2 volumeId = None then ret E_NON_EXIST
       else do {
         modify (volumeMap_update (om_mod volumeId (\<lambda>v. v\<lparr>ve_fsUuid := uuid, ve_description := rp_str 2 r,
           ve_fsType := GetFsTypeByStr fsType, vc_state := vs_code UNMOUNTED\<rparr>)));
         ret E_OK } } }"

definition formattable_state :: "int \<Rightarrow> bool" where
  "formattable_state st \<longleftrightarrow> st = vs_code UNMOUNTED \<or> st = vs_code FORMAT_FINISH_FAIL \<or> st = vs_code DAMAGED"

definition Format :: "env \<Rightarrow> string \<Rightarrow> string \<Rightarrow> errno dmop" where
  "Format env volumeId fsType = do {
     vm \<leftarrow> gets volumeMap;
     case om_get vm volumeId of
       None \<Rightarrow> ret E_NON_EXIST
     | Some v \<Rightarrow>
         if ve_fsType v = fs_code MTP then ret E_NOT_SUPPORT
         else do {
           sup \<leftarrow> IsDiskSupported env (vc_diskId v);
           if sup \<noteq> E_OK then ret E_NOT_SUPPORT
           else if \<not> formattable_state (vc_state v) then ret E_VOL_STATE
           else do {
             dmap \<leftarrow> gets diskMap;
             let partitionType = (case om_get dmap (vc_diskId v) of None \<Rightarrow> [] | Some d \<Rightarrow> d_partitionType d);
             devPath \<leftarrow> CheckVolId volumeId;
             if devPath = [] then ret E_NON_EXIST
             else do {
               r \<leftarrow> invoke env (Sd_FormatVolume devPath fsType (DEV_BLOCK_PREFIX @ vc_diskId v) partitionType (ve_partitionNum v));
               if rp_err r \<noteq> E_OK then do { PublishFormatFailEvent volumeId; ret (rp_err r) }
               else UpdateVolumeAfterFormat env volumeId fsType (vc_diskId v) (ve_fsUuid v) devPath } } } }"

definition SetVolumeDescription :: "env \<Rightarrow> string \<Rightarrow> string \<Rightarrow> errno dmop" where
  "SetVolumeDescription env fsUuid description = do {
     vm \<leftarrow> gets volumeMap;
     case LookupVolumeByUuidUnlocked vm fsUuid of
       None \<Rightarrow> ret E_NON_EXIST
     | Some v \<Rightarrow>
         if vc_state v \<noteq> vs_code UNMOUNTED then ret E_VOL_STATE
         else if description = [] \<or> VOLUME_DESCRIPTION_MAX_LEN < length description then ret E_PARAMS_INVALID
         else do {
           sup \<leftarrow> IsDiskSupported env (vc_diskId v);
           if sup \<noteq> E_OK then ret E_NOT_SUPPORT
           else if GetFsTypeString v \<notin> set LABEL_SUPPORTED_FS_TYPES then ret E_NOT_SUPPORT
           else do {
             devPath \<leftarrow> CheckVolId (vc_id v);
             if devPath = [] then ret E_NON_EXIST
             else do {
               r \<leftarrow> invoke env (Sd_SetLabel devPath (GetFsTypeString v) description);
               if rp_err r \<noteq> E_OK then ret (rp_err r)
               else do {
                 vm2 \<leftarrow> gets volumeMap;
                 if om_get vm2 (vc_id v) = None then ret E_NON_EXIST
                 else do {
                   modify (volumeMap_update (om_mod (vc_id v) (ve_description_update (\<lambda>_. description))));
                   ret E_OK } } } } } }"

subsection \<open>Purge\<close>

fun remove_uuids :: "env \<Rightarrow> string list \<Rightarrow> errno \<Rightarrow> errno dmop" where
  "remove_uuids env [] acc = ret acc"
| "remove_uuids env (u # us) acc = do {
     e \<leftarrow> on_store (RemoveByFsUuid (en_store env) u);
     remove_uuids env us (if e \<noteq> E_OK then e else acc) }"

definition PurgeVolumesForDisk :: "env \<Rightarrow> string \<Rightarrow> errno dmop" where
  "PurgeVolumesForDisk env diskId = do {
     known \<leftarrow> HasDisk diskId;
     if \<not> known then ret E_DISK_NOT_FOUND
     else do {
       vm \<leftarrow> gets volumeMap;
       let mine = filter (\<lambda>(k, v). vc_diskId v = diskId) vm;
       modify (volumeMap_update (fold om_erase (map fst mine)));
       remove_uuids env (filter IsUuidValid (map (\<lambda>(k, v). ve_fsUuid v) mine)) E_OK } }"

definition AddPartitioningDisk :: "string \<Rightarrow> unit dmop" where
  "AddPartitioningDisk diskId = modify (partitioningDiskIds_update (insert diskId))"

definition RemovePartitioningDisk :: "string \<Rightarrow> unit dmop" where
  "RemovePartitioningDisk diskId = modify (partitioningDiskIds_update (\<lambda>S. S - {diskId}))"

definition IsPartitioning :: "string \<Rightarrow> bool dmop" where
  "IsPartitioning diskId = gets (\<lambda>s. diskId \<in> partitioningDiskIds s)"

definition NormalizeDiskBlockPath :: "string \<Rightarrow> string" where
  "NormalizeDiskBlockPath diskPath =
     (if length DEV_BLOCK_PREFIX < length diskPath \<and> starts_with DEV_BLOCK_PREFIX diskPath then diskPath
      else DEV_BLOCK_PREFIX @ diskPath)"

subsection \<open>Formatting a partition\<close>

definition RefreshVolumeAfterFormatPartition :: "env \<Rightarrow> VolumeExternal \<Rightarrow> string \<Rightarrow> string \<Rightarrow> unit dmop" where
  "RefreshVolumeAfterFormatPartition env fmtVol fsType diskId =
     (if vc_id fmtVol = [] then ret ()
      else do {
        devPath \<leftarrow> CheckVolId (vc_id fmtVol);
        if devPath = [] then ret ()
        else do {
          e \<leftarrow> UpdateVolumeAfterFormat env (vc_id fmtVol) fsType diskId (ve_fsUuid fmtVol) devPath;
          ret () } })"

definition FormatPartition :: "env \<Rightarrow> string \<Rightarrow> int \<Rightarrow> FormatParams \<Rightarrow> errno dmop" where
  "FormatPartition env diskId partitionNum params = do {
     d \<leftarrow> GetDiskById env diskId;
     case d of
       Inl _ \<Rightarrow> ret E_NON_EXIST
     | Inr disk \<Rightarrow>
         if d_diskType disk \<noteq> dt_code SD_FLAG \<and> d_diskType disk \<noteq> dt_code USB_FLAG then ret E_FORMAT_PARTITION_NOT_SUPPORT
         else do {
           busy \<leftarrow> IsVolumeMounted env diskId partitionNum;
           if busy then ret E_VOL_STATE
           else do {
             fmtVol \<leftarrow> FindVolumeForPartition disk partitionNum;
             tables \<leftarrow> gets partitionTableMap;
             case om_get tables diskId of
               None \<Rightarrow> ret E_NON_EXIST
             | Some info \<Rightarrow> do {
                 let devPath = (if list_ex (\<lambda>p. pi_partitionNum p = partitionNum) (pt_partitions info)
                                then d_sysPath disk @ int_to_string partitionNum else []);
                 let type = fp_fsType params;
                 let code = (if type = ''ext4'' then ''0x8300''
                             else if type = ''exfat'' \<or> type = ''vfat'' then ''0x0700'' else []);
                 if devPath = [] then ret E_NON_EXIST
                 else if code = [] then ret E_PARAMS_INVALID
                 else do {
                   r \<leftarrow> invoke env (Sd_FormatPartition devPath type (fp_volumeName params)
                          [''sgdisk'', ''-t'', int_to_string partitionNum @ '':'' @ code, DEV_BLOCK_PREFIX @ diskId]
                          (fp_quickFormat params));
                   if rp_err r \<noteq> E_OK then do {
                     (if vc_id fmtVol \<noteq> [] then PublishVolumeResult FORMAT_FINISH_FAIL fmtVol else ret ());
                     ret E_FORMAT_PARTITION_ERROR }
                   else do {
                     RefreshVolumeAfterFormatPartition env fmtVol type diskId;
                     ret E_OK } } } } } }"

subsection \<open>Optical discs\<close>

definition Eject :: "env \<Rightarrow> string \<Rightarrow> errno dmop" where
  "Eject env diskId = do {
     d \<leftarrow> GetDiskById env diskId;
     case d of
       Inl _ \<Rightarrow> ret E_NOT_SUPPORT
     | Inr disk \<Rightarrow>
         if d_diskType disk \<noteq> dt_code CD_FLAG then ret E_NOT_SUPPORT
         else do {
           r \<leftarrow> invoke env (Sd_Eject (d_devName disk));
           ret (if rp_err r \<noteq> E_OK then E_EJECT_FAILED else E_OK) } }"

definition Erase :: "env \<Rightarrow> string \<Rightarrow> errno dmop" where
  "Erase env volumeId = do {
     vm \<leftarrow> gets volumeMap;
     case om_get vm volumeId of
       None \<Rightarrow> ret E_PARAMS_INVALID
     | Some v \<Rightarrow>
         if \<not> IsOddFsType (GetFsTypeString v) then ret E_NOT_SUPPORT
         else do {
           r \<leftarrow> invoke env (Sd_Erase (DEV_BLOCK_PREFIX @ vc_id v));
           if rp_err r \<noteq> E_OK then ret E_ERASE_FAILED
           else do {
             e \<leftarrow> Eject env (vc_diskId v);
             ret (if e \<noteq> E_OK then E_ERASE_FAILED else E_OK) } } }"

definition CreateIsoImage :: "env \<Rightarrow> string \<Rightarrow> string \<Rightarrow> errno dmop" where
  "CreateIsoImage env volumeId filePath = do {
     vm \<leftarrow> gets volumeMap;
     case om_get vm volumeId of
       None \<Rightarrow> ret E_NOT_SUPPORT
     | Some v \<Rightarrow>
         if vc_state v \<noteq> vs_code MOUNTED then ret E_VOL_STATE
         else if \<not> IsOddFsType (GetFsTypeString v) then ret E_NOT_SUPPORT
         else if filePath = [] then ret E_PARAMS_INVALID
         else do {
           d \<leftarrow> GetDiskById env (vc_diskId v);
           case d of
             Inl _ \<Rightarrow> ret E_PARAMS_INVALID
           | Inr disk \<Rightarrow>
               if d_cdromState disk = EMPTY_DISC then ret E_EMPTY_DISC
               else do {
                 r \<leftarrow> invoke env (Sd_CreateIsoImage (DEV_BLOCK_PREFIX @ vc_id v) filePath (GetFsTypeString v) (ve_path v));
                 ret (if rp_err r \<noteq> E_OK then E_ISO_WRITE_FAILED else E_OK) } } }"

definition EDM_BURN_DENIED_MARK :: int where "EDM_BURN_DENIED_MARK = -2"
definition BURN_REPORT_EVENT_ID :: int where "BURN_REPORT_EVENT_ID = 0x00F000004"
definition BURN_EDM_CONTROL_EVENT_ID :: int where "BURN_EDM_CONTROL_EVENT_ID = 0x00F000008"

text \<open>The report carries the time, which the call does not show; its result is only logged.\<close>

definition ReportBurnSecurityInfo :: "env \<Rightarrow> int \<Rightarrow> string \<Rightarrow> string \<Rightarrow> int \<Rightarrow> int dmop" where
  "ReportBurnSecurityInfo env userId appId fsType eventId = do {
     r \<leftarrow> invoke env (Sg_ReportBurn userId appId fsType eventId); ret (rp_err r) }"

definition PrepareBurn :: "env \<Rightarrow> string \<Rightarrow> string \<Rightarrow> int \<Rightarrow> (errno \<times> string \<times> string) dmop" where
  "PrepareBurn env volumeId burnOptions callerUserId = do {
     vm \<leftarrow> gets volumeMap;
     case om_get vm volumeId of
       None \<Rightarrow> ret (E_PARAMS_INVALID, [], [])
     | Some v \<Rightarrow> do {
         let fsType = GetFsTypeString v;
         if \<not> IsOddFsType fsType then ret (E_NOT_SUPPORT, vc_id v, fsType)
         else if burnOptions = [] then ret (E_PARAMS_INVALID, vc_id v, fsType)
         else do {
           allowed \<leftarrow> (if en_edm env then IsEdmEnableOddBurn env (vc_diskId v) callerUserId else ret True);
           if \<not> allowed then ret (EDM_BURN_DENIED_MARK, vc_id v, fsType)
           else if (vc_state v = vs_code MOUNTED \<or> vc_state v = vs_code DAMAGED_MOUNTED) \<and> ve_path v \<noteq> [] then do {
             r \<leftarrow> invoke env (Sd_Unmount (ve_path v) fsType True);
             ret (if rp_err r \<noteq> E_OK then E_VOL_UMOUNT_ERR else E_OK, vc_id v, fsType) }
           else ret (E_OK, vc_id v, fsType) } } }"

definition Burn :: "env \<Rightarrow> string \<Rightarrow> string \<Rightarrow> string \<Rightarrow> int \<Rightarrow> errno dmop" where
  "Burn env volumeId burnOptions callerBundle callerUserId = do {
     (prepErr, blockVolId, fsType) \<leftarrow> PrepareBurn env volumeId burnOptions callerUserId;
     if prepErr = EDM_BURN_DENIED_MARK then do {
       x \<leftarrow> ReportBurnSecurityInfo env callerUserId callerBundle fsType BURN_EDM_CONTROL_EVENT_ID;
       ret E_NOT_SUPPORT }
     else if prepErr \<noteq> E_OK then ret prepErr
     else do {
       r \<leftarrow> invoke env (Sd_Burn (DEV_BLOCK_PREFIX @ blockVolId) burnOptions fsType);
       x \<leftarrow> ReportBurnSecurityInfo env callerUserId callerBundle fsType BURN_REPORT_EVENT_ID;
       ret (if rp_err r \<noteq> E_OK then if rp_err r = E_BURN_NOSPC then E_BURN_NOSPC else E_BURN_FAILED else E_OK) } }"

definition GetVolumeOpProcess :: "env \<Rightarrow> string \<Rightarrow> (errno \<times> int) dmop" where
  "GetVolumeOpProcess env volumeId = do {
     vm \<leftarrow> gets volumeMap;
     case om_get vm volumeId of
       None \<Rightarrow> ret (E_PARAMS_INVALID, 0)
     | Some v \<Rightarrow>
         if \<not> IsOddFsType (GetFsTypeString v) then ret (E_NOT_SUPPORT, 0)
         else do {
           r \<leftarrow> invoke env (Sd_GetVolumeOpProcess (vc_id v));
           ret (rp_err r, rp_int 0 0 r) } }"

subsection \<open>MTP devices\<close>

definition MTP_DEVICE_NAME_LEN :: int where "MTP_DEVICE_NAME_LEN = 512"

text \<open>\<open>getxattr\<close> returns the length as the code and the value as the string; the buffer is zero-terminated.\<close>

definition NotifyMtpMounted :: "env \<Rightarrow> string \<Rightarrow> string \<Rightarrow> string \<Rightarrow> string \<Rightarrow> string \<Rightarrow> errno dmop" where
  "NotifyMtpMounted env volId path desc uuid fsType = do {
     r \<leftarrow> invoke env (Sys_getxattr path ''user.getfriendlyname'');
     let v = (VolumeExternal_ctor (VolumeCore_ctor3 volId 0 []))\<lparr>ve_path := path\<rparr>;
     let v1 = (if fsType = ''mtpfs'' then v\<lparr>ve_fsType := GetFsTypeByStr ''mtp''\<rparr>
               else if fsType = ''gphotofs'' then v\<lparr>ve_fsType := GetFsTypeByStr ''ptp''\<rparr> else v);
     let v2 = v1\<lparr>ve_description := (if 0 < rp_err r then c_str (rp_str 0 r) else desc),
                 vc_state := vs_code MOUNTED, ve_fsUuid := uuid\<rparr>;
     modify (volumeMap_update (om_insert (vc_id v2) v2));
     PublishVolumeChange env MOUNTED v2;
     ret E_OK }"

definition NotifyMtpUnmounted :: "env \<Rightarrow> string \<Rightarrow> bool \<Rightarrow> errno dmop" where
  "NotifyMtpUnmounted env volId isBadRemove = do {
     vm \<leftarrow> gets volumeMap;
     case om_get vm volId of
       None \<Rightarrow> ret E_VOLUME_NOT_FOUND
     | Some v \<Rightarrow> do {
         PublishVolumeChange env (if \<not> isBadRemove then UNMOUNTED else BAD_REMOVAL) v;
         modify (volumeMap_update (om_erase volId));
         ret E_OK } }"

subsection \<open>Encrypted containers\<close>

definition base_name :: "string \<Rightarrow> string" where
  "base_name p = (case str_rfind p ''/'' of None \<Rightarrow> p | Some i \<Rightarrow> drop (Suc i) p)"

definition crypt_volume_id :: "string \<Rightarrow> string" where
  "crypt_volume_id loopPath = ''vol-crypt-'' @ base_name loopPath"

definition IsVolumeBind :: "Disk \<Rightarrow> int \<Rightarrow> int \<Rightarrow> string option dmop" where
  "IsVolumeBind disk offset sizeLimit = do {
     vols \<leftarrow> volumes_of disk;
     ret (map_option ve_loopPath (find (\<lambda>v. ve_offset v = offset \<and> ve_sizeLimit v = sizeLimit) vols)) }"

text \<open>
  The first line of the output names the loop device. The source reads it without a check that there is one;
  reading past the end of the vector is undefined and is the error value \<open>Inl None\<close> here.
\<close>

definition BindBlockLoopDev :: "env \<Rightarrow> string \<Rightarrow> int \<Rightarrow> int \<Rightarrow> (errno option + string) dmop" where
  "BindBlockLoopDev env diskId offset sizeLimit = do {
     d \<leftarrow> GetDiskById env diskId;
     case d of
       Inl _ \<Rightarrow> ret (Inl (Some E_NON_EXIST))
     | Inr disk \<Rightarrow>
         if d_diskType disk \<noteq> dt_code USB_FLAG then ret (Inl (Some E_BIND_LOOP_DEV_FAILED))
         else do {
           bound \<leftarrow> IsVolumeBind disk offset sizeLimit;
           case bound of
             Some loopPath \<Rightarrow> ret (Inr loopPath)
           | None \<Rightarrow> do {
               r \<leftarrow> invoke env (Sd_ExecuteCommand [''loopctl'', ''--oh'', ''-f'', ''-o'', int_to_string offset,
                      ''--sizelimit'', int_to_string sizeLimit, ''--show'', DEV_BLOCK_PREFIX @ diskId]);
               if rp_err r \<noteq> E_OK \<or> rp_strs r = [] then ret (Inl (Some E_BIND_LOOP_DEV_FAILED))
               else case SplitRawDumpToLines (rp_str 0 r) of
                 [] \<Rightarrow> ret (Inl None)
               | loopPath # _ \<Rightarrow> do {
                   e \<leftarrow> OnVolumeCreated ((VolumeExternal_ctor (VolumeCore_ctor3 (crypt_volume_id loopPath) 0 diskId))
                          \<lparr>ve_loopPath := loopPath, ve_offset := offset, ve_sizeLimit := sizeLimit, vc_state := vs_code UNMOUNTED\<rparr>);
                   ret (Inr loopPath) } } } }"

definition CreateDmCryptVolume :: "env \<Rightarrow> CryptParam \<Rightarrow> string \<Rightarrow> string \<Rightarrow> (errno + string) dmop" where
  "CreateDmCryptVolume env param loopPath mapperName = do {
     g \<leftarrow> GetVolumeById (crypt_volume_id loopPath);
     case g of
       Inl _ \<Rightarrow> ret (Inl E_NON_EXIST)
     | Inr v \<Rightarrow>
         if ve_mapperPath v \<noteq> [] then ret (Inr (ve_mapperPath v))
         else do {
           r \<leftarrow> invoke env (Sd_ExecuteCommand [''cryptsetup'', ''open'', ''--type'', cp_type param, ''--cipher'', cp_cipher param,
                  ''--key-size'', int_to_string (cp_keySize param), ''--key-file'', cp_keyFile param, loopPath, mapperName]);
           if rp_err r \<noteq> E_OK then ret (Inl E_CREATE_DM_CRYPT_VOLUME_FAILED)
           else do {
             let v1 = v\<lparr>ve_mapperPath := ''/dev/mapper/'' @ mapperName\<rparr>;
             e \<leftarrow> UpdateVolumeExternal v1;
             ret (if e \<noteq> E_OK then Inl e else Inr (ve_mapperPath v1)) } } }"

definition DestroyDmCryptVolume :: "env \<Rightarrow> string \<Rightarrow> errno dmop" where
  "DestroyDmCryptVolume env mapperName = do {
     let mapperPath = ''/dev/mapper/'' @ mapperName;
     r \<leftarrow> invoke env (Sd_ExecuteCommand [''cryptsetup'', ''close'', mapperPath]);
     if rp_err r \<noteq> E_OK then ret E_DESTROY_DM_CRYPT_VOLUME_FAILED
     else do {
       vm \<leftarrow> gets volumeMap;
       (case find (\<lambda>(k, v). ve_mapperPath v = mapperPath) vm of
          None \<Rightarrow> ret ()
        | Some (k, v) \<Rightarrow> modify (volumeMap_update (om_mod k (ve_mapperPath_update (\<lambda>_. [])))));
       ret E_OK } }"

definition UnbindBlockLoopDev :: "env \<Rightarrow> string \<Rightarrow> errno dmop" where
  "UnbindBlockLoopDev env loopPath = do {
     r \<leftarrow> invoke env (Sd_ExecuteCommand [''loopctl'', ''-d'', loopPath]);
     if rp_err r \<noteq> E_OK then ret E_UNBIND_LOOP_DEV_FAILED
     else do { e \<leftarrow> OnVolumeDestroyed (crypt_volume_id loopPath); ret E_OK } }"

section \<open>Invariants\<close>

lemma volumeMap_update_id: "volumeMap_update (\<lambda>m. m) s = s"
  by (cases s) simp

lemma VolumeExternal_ctor_sel [simp]:
  "vc_id (VolumeExternal_ctor c) = vc_id c" "vc_diskId (VolumeExternal_ctor c) = vc_diskId c"
  "vc_state (VolumeExternal_ctor c) = vc_state c"
  by (simp_all add: VolumeExternal_ctor_def VolumeCore_ctor6_def VolumeCore.defs)

lemma VolumeCore_ctor3_sel [simp]: "vc_id (VolumeCore_ctor3 k ty d) = k" "vc_diskId (VolumeCore_ctor3 k ty d) = d"
  by (simp_all add: VolumeCore_ctor3_def)

lemma keeps_remove_uuids:
  assumes "\<And>u. keeps I (on_store (RemoveByFsUuid (en_store env) u))"
  shows "keeps I (remove_uuids env us acc)"
  using assms by (induction us arbitrary: acc) (auto intro!: ensures_intros)

context handler_invariant
begin

lemma keeps_mapping [keeps_ops]: "keeps I (UpdateVoldataMappingAfterFormat env d u u' t)"
  by (auto simp: UpdateVoldataMappingAfterFormat_def Let_def intro!: keeps_rules)

lemma keeps_format_parts [keeps_ops]:
  "k \<in> K W_state \<Longrightarrow> keeps I (PublishFormatFailEvent k)"
  "k \<in> K W_any \<Longrightarrow> keeps I (UpdateVolumeAfterFormat env k t d u p)"
  by (auto simp: PublishFormatFailEvent_def UpdateVolumeAfterFormat_def Let_def intro!: keeps_rules keeps_ops)

lemma keeps_Format [keeps_ops]: "k \<in> K W_state \<Longrightarrow> k \<in> K W_any \<Longrightarrow> keeps I (Format env k t)"
  by (auto simp: Format_def Let_def intro!: keeps_rules keeps_ops)

lemma keeps_label [keeps_ops]: "K W_any = UNIV \<Longrightarrow> keeps I (SetVolumeDescription env u d)"
  by (auto simp: SetVolumeDescription_def intro!: keeps_rules keeps_ops)

lemma keeps_partitioning_set [keeps_ops]:
  "keeps I (AddPartitioningDisk d)" "keeps I (RemovePartitioningDisk d)" "keeps I (IsPartitioning d)"
  by (auto simp: AddPartitioningDisk_def RemovePartitioningDisk_def IsPartitioning_def intro!: keeps_rules)

lemma keeps_erase_all:
  assumes "K W_erase = UNIV"
  shows "keeps I (modify (volumeMap_update (fold om_erase ks)))"
proof (induction ks)
  case Nil
  show ?case unfolding ensures_def by (simp add: id_def volumeMap_update_id)
next
  case (Cons k ks)
  have "keeps I (modify (volumeMap_update (om_erase k)))" using assms by (auto intro: keeps_erase)
  with Cons have "keeps I (do { modify (volumeMap_update (om_erase k)); modify (volumeMap_update (fold om_erase ks)) })"
    by (auto intro!: ensures_intros)
  then show ?case by (simp add: ensures_def comp_def)
qed

lemma keeps_Purge [keeps_ops]: "K W_erase = UNIV \<Longrightarrow> keeps I (PurgeVolumesForDisk env d)"
  by (auto simp: PurgeVolumesForDisk_def Let_def intro!: keeps_rules keeps_ops keeps_erase_all keeps_remove_uuids)

lemma keeps_FormatPartition [keeps_ops]: "K W_any = UNIV \<Longrightarrow> keeps I (FormatPartition env d n ps)"
  by (auto simp: FormatPartition_def RefreshVolumeAfterFormatPartition_def Let_def intro!: keeps_rules keeps_ops)

lemma keeps_odd [keeps_ops]:
  "keeps I (Eject env d)" "keeps I (CreateIsoImage env k f)" "keeps I (PrepareBurn env k o' u)" "keeps I (GetVolumeOpProcess env k)"
  by (auto simp: Eject_def CreateIsoImage_def PrepareBurn_def GetVolumeOpProcess_def Let_def intro!: keeps_rules keeps_ops)

lemma keeps_odd_more [keeps_ops]: "keeps I (Erase env k)" "keeps I (Burn env k o' b u)"
  by (auto simp: Erase_def Burn_def ReportBurnSecurityInfo_def Let_def intro!: keeps_rules keeps_ops)

lemma keeps_NotifyMtpMounted [keeps_ops]: "k \<in> K W_entry \<Longrightarrow> keeps I (NotifyMtpMounted env k p d u t)"
  unfolding NotifyMtpMounted_def Let_def by (intro keeps_rules keeps_ops) simp_all

lemma keeps_NotifyMtpUnmounted [keeps_ops]: "k \<in> K W_erase \<Longrightarrow> keeps I (NotifyMtpUnmounted env k b)"
  by (auto simp: NotifyMtpUnmounted_def intro!: keeps_rules keeps_ops)

lemma keeps_containers [keeps_ops]:
  "K W_entry = UNIV \<Longrightarrow> keeps I (BindBlockLoopDev env d a b)" "K W_any = UNIV \<Longrightarrow> keeps I (CreateDmCryptVolume env cp l m)"
  "K W_any = UNIV \<Longrightarrow> keeps I (DestroyDmCryptVolume env m)" "crypt_volume_id l \<in> K W_erase \<Longrightarrow> keeps I (UnbindBlockLoopDev env l)"
  by (auto simp: BindBlockLoopDev_def IsVolumeBind_def CreateDmCryptVolume_def DestroyDmCryptVolume_def UnbindBlockLoopDev_def
      Let_def intro!: keeps_rules keeps_ops split: list.splits)

end

section \<open>Formatting a volume\<close>

lemma mapping_volumes:
  "keeps (\<lambda>s. volumeMap s = m) (UpdateVoldataMappingAfterFormat env d u u' t)"
  by (auto simp: UpdateVoldataMappingAfterFormat_def Let_def ensures_def)

lemma UpdateVolumeAfterFormat_result:
  assumes quiet: "quiet env" and wf: "om_wf (volumeMap s)" and v: "om_get (volumeMap s) volumeId = Some v"
    and run: "run_state (UpdateVolumeAfterFormat env volumeId fsType diskId oldFsUuid devPath) s = (e, t)"
  shows "if e = E_OK
    then \<exists>w. om_get (volumeMap t) volumeId = Some w \<and> vc_state w = vs_code UNMOUNTED \<and> ve_fsType w = GetFsTypeByStr fsType \<and>
      (\<forall>k x. k \<noteq> volumeId \<longrightarrow> om_get (volumeMap t) k = Some x \<longrightarrow> ve_fsUuid x \<noteq> ve_fsUuid w)
    else volumeMap t = volumeMap s"
proof -
  obtain r s1 where 1: "run_state (invoke env (Sd_ReadMetadata devPath)) s = (r, s1)" by fastforce
  have vm1: "volumeMap s1 = volumeMap s" using 1 quiet by (auto simp: run_invoke_quiet)
  define u where "u = DedupFsUuidUnlocked (volumeMap s) volumeId (rp_str 0 r)"
  define g where "g = (\<lambda>v. v\<lparr>ve_fsUuid := u, ve_description := rp_str 2 r, ve_fsType := GetFsTypeByStr fsType,
    vc_state := vs_code UNMOUNTED\<rparr> :: VolumeExternal)"
  obtain s2 where 2: "run_state (UpdateVoldataMappingAfterFormat env diskId oldFsUuid u fsType) s1 = ((), s2)"
    by (metis prod.exhaust old.unit.exhaust)
  have vm2: "volumeMap s2 = volumeMap s" using ensuresD[OF mapping_volumes vm1 2] by simp
  consider "e \<noteq> E_OK" "t = s1" | "e = E_OK" "t = volumeMap_update (om_mod volumeId g) s2"
    using run 1 2 vm1 vm2 v by (auto simp: UpdateVolumeAfterFormat_def u_def g_def Let_def split: if_splits)
  then show ?thesis
  proof cases
    case 2
    have "ve_fsUuid x \<noteq> ve_fsUuid (g v)" if "k \<noteq> volumeId" "om_get (volumeMap t) k = Some x" for k x
      using dedup_unique[OF wf that(1), of x "rp_str 0 r"] that 2 vm2 by (simp add: g_def u_def)
    with 2 vm2 v show ?thesis by (auto simp: g_def)
  qed (simp add: vm1)
qed

lemma Format_known:
  assumes quiet: "quiet env" and inv: "registry_inv s" and v: "om_get (volumeMap s) volumeId = Some v"
    and run: "run_state (Format env volumeId fsType) s = (e, t)"
  shows "frame s volumeId t \<and> (\<exists>w. om_get (volumeMap t) volumeId = Some w \<and>
    (if e = E_OK
     then formattable_state (vc_state v) \<and> vc_state w = vs_code UNMOUNTED \<and> ve_fsType w = GetFsTypeByStr fsType \<and>
       (\<forall>k x. k \<noteq> volumeId \<longrightarrow> om_get (volumeMap t) k = Some x \<longrightarrow> ve_fsUuid x \<noteq> ve_fsUuid w)
     else w = v \<or> formattable_state (vc_state v) \<and> w = v\<lparr>vc_state := vs_code FORMAT_FINISH_FAIL\<rparr>))"
proof -
  note h = volume_handler[OF quiet, of s volumeId]
  let ?same = "\<lambda>o'. o' = Some v"
  have start: "volume_inv s volumeId ?same s" using inv v by (simp add: volume_inv_def frame_refl)
  have "keeps (volume_inv s volumeId (\<lambda>_. True)) (Format env volumeId fsType)"
    by (rule handler_invariant.keeps_Format[OF h]) (auto simp: may_write_def)
  from ensuresD[OF this _ run] inv have frame: "frame s volumeId t" by (simp add: volume_inv_def frame_refl)
  obtain sup s1 where 1: "run_state (IsDiskSupported env (vc_diskId v)) s = (sup, s1)" by fastforce
  have s1: "volume_inv s volumeId ?same s1"
    using ensuresD[OF handler_invariant.keeps_listings(6)[OF h] start 1] by simp
  obtain devPath where 2: "run_state (CheckVolId volumeId) s1 = (devPath, s1)" using CheckVolId_pure by blast
  have get1: "om_get (volumeMap s1) volumeId = Some v" and wf1: "om_wf (volumeMap s1)"
    using s1 registry_wf by (auto simp: volume_inv_def frame_def)
  let ?pt = "case om_get (diskMap s1) (vc_diskId v) of None \<Rightarrow> [] | Some d \<Rightarrow> d_partitionType d"
  obtain r s2 where 3: "run_state (invoke env (Sd_FormatVolume devPath fsType (DEV_BLOCK_PREFIX @ vc_diskId v) ?pt (ve_partitionNum v))) s1 = (r, s2)"
    by fastforce
  have vm2: "volumeMap s2 = volumeMap s1" using 3 quiet by (auto simp: run_invoke_quiet)
  consider (refused) "e \<noteq> E_OK" "om_get (volumeMap t) volumeId = Some v"
    | (failed) "formattable_state (vc_state v)" "rp_err r \<noteq> E_OK" "e = rp_err r" "run_state (PublishFormatFailEvent volumeId) s2 = ((), t)"
    | (formatted) "formattable_state (vc_state v)" "run_state (UpdateVolumeAfterFormat env volumeId fsType (vc_diskId v) (ve_fsUuid v) devPath) s2 = (e, t)"
    using run v 1 2 3 get1 by (auto simp: Format_def Let_def split: if_splits prod.splits)
  then show ?thesis
  proof cases
    case refused
    with frame get1 show ?thesis by simp
  next
    case failed
    then have "om_get (volumeMap t) volumeId = Some (v\<lparr>vc_state := vs_code FORMAT_FINISH_FAIL\<rparr>)"
      using get1 vm2 by (auto simp: PublishFormatFailEvent_def SetVolumeStateLocked_def PublishVolumeResult_def
          split: option.splits if_splits)
    with failed frame show ?thesis by simp
  next
    case formatted
    with UpdateVolumeAfterFormat_result[OF quiet _ _ formatted(2), of v] wf1 get1 vm2 frame show ?thesis
      by (auto split: if_splits)
  qed
qed

text \<open>
  C12: \<open>Format\<close> when no other thread interferes. An unknown volume is reported and nothing happens. Otherwise
  disks, partition tables and all other volumes are untouched; on success the volume was unmounted, damaged or the
  victim of a failed format, is unmounted now and has the new file system and a UUID that no other volume of
  the map has. On failure it is as it was, or, if it could be formatted at all, marked as badly formatted.
\<close>

theorem Format_spec:
  assumes "quiet env" "registry_inv s" "run_state (Format env volumeId fsType) s = (e, t)"
  shows "case om_get (volumeMap s) volumeId of
      None \<Rightarrow> e = E_NON_EXIST \<and> t = s
    | Some v \<Rightarrow> frame s volumeId t \<and> (\<exists>w. om_get (volumeMap t) volumeId = Some w \<and>
        (if e = E_OK
         then formattable_state (vc_state v) \<and> vc_state w = vs_code UNMOUNTED \<and> ve_fsType w = GetFsTypeByStr fsType \<and>
           (\<forall>k x. k \<noteq> volumeId \<longrightarrow> om_get (volumeMap t) k = Some x \<longrightarrow> ve_fsUuid x \<noteq> ve_fsUuid w)
         else w = v \<or> formattable_state (vc_state v) \<and> w = v\<lparr>vc_state := vs_code FORMAT_FINISH_FAIL\<rparr>))"
proof (cases "om_get (volumeMap s) volumeId")
  case None
  with assms(3) show ?thesis by (simp add: Format_def)
next
  case (Some v)
  from Format_known[OF assms(1,2) Some assms(3)] Some show ?thesis by simp
qed

text \<open>A daemon that formats and then reports the new metadata.\<close>

definition format_reply :: "item list \<Rightarrow> call \<Rightarrow> reply" where
  "format_reply h c = ok_reply\<lparr>rp_strs := [''AAAA-BBBB'', ''exfat'', ''FRESH'']\<rparr>"

definition blank_stick :: dm where
  "blank_stick = volumeMap_update (om_mod ''vol-8-1'' (ve_fsUuid_update (\<lambda>_. []))) two_disks"

lemma blank_stick_inv: "registry_inv blank_stick"
  using two_disks_inv by (auto simp: registry_inv_def blank_stick_def intro: volumes.keyed_adjust)

lemma format_blank: "fst (run_state (Format (calm format_reply) ''vol-8-1'' ''exfat'') blank_stick) = E_OK"
  by code_simp

theorem Format_spec_witness:
  "\<exists>w. om_get (volumeMap (snd (run_state (Format (calm format_reply) ''vol-8-1'' ''exfat'') blank_stick))) ''vol-8-1'' = Some w \<and>
     vc_state w = vs_code UNMOUNTED \<and> ve_fsType w = GetFsTypeByStr ''exfat''"
proof -
  let ?r = "run_state (Format (calm format_reply) ''vol-8-1'' ''exfat'') blank_stick"
  have r: "?r = (E_OK, snd ?r)" using format_blank by (metis prod.collapse)
  obtain v where v: "om_get (volumeMap blank_stick) ''vol-8-1'' = Some v" by (simp add: blank_stick_def two_disks_def)
  from Format_spec[OF quiet_calm blank_stick_inv r] have "(case Some v of
      None \<Rightarrow> E_OK = E_NON_EXIST \<and> snd ?r = blank_stick
    | Some v \<Rightarrow> frame blank_stick ''vol-8-1'' (snd ?r) \<and> (\<exists>w. om_get (volumeMap (snd ?r)) ''vol-8-1'' = Some w \<and>
        vc_state w = vs_code UNMOUNTED \<and> ve_fsType w = GetFsTypeByStr ''exfat''))"
    unfolding v by (simp only: option.case if_True refl) blast
  then show ?thesis unfolding option.case by blast
qed

section \<open>Purging the volumes of a disk\<close>

lemma remove_uuids_maps: "keeps (\<lambda>s. s\<lparr>vstore := st\<rparr> = s0) (remove_uuids env us acc)"
  by (rule keeps_remove_uuids) (simp add: ensures_def)

lemma om_get_erase_all: "om_get (fold om_erase ks m) k = (if k \<in> set ks then None else om_get m k)"
  by (induction ks arbitrary: m) auto

lemma purge_get:
  assumes "om_wf vm"
  shows "om_get (fold om_erase (map fst (filter (\<lambda>(k, v). vc_diskId v = diskId) vm)) vm) k =
    (case om_get vm k of None \<Rightarrow> None | Some v \<Rightarrow> if vc_diskId v = diskId then None else Some v)"
proof (cases "om_get vm k")
  case (Some v)
  then have "(k, b) \<in> set vm \<longleftrightarrow> b = v" for b using om_get_iff[OF assms, of k b] by auto
  then have "k \<in> fst ` set (filter (\<lambda>(k, v). vc_diskId v = diskId) vm) \<longleftrightarrow> vc_diskId v = diskId"
    by (auto simp: image_iff)
  with Some show ?thesis by (simp add: om_get_erase_all)
qed (simp add: om_get_erase_all)

lemma PurgeVolumesForDisk_maps:
  assumes "registry_inv s" "run_state (PurgeVolumesForDisk env diskId) s = (e, t)"
  shows "diskMap t = diskMap s \<and> partitionTableMap t = partitionTableMap s \<and> trace t = trace s \<and>
    (\<forall>k. om_get (volumeMap t) k =
      (if om_get (diskMap s) diskId = None then om_get (volumeMap s) k
       else case om_get (volumeMap s) k of None \<Rightarrow> None | Some v \<Rightarrow> if vc_diskId v = diskId then None else Some v))"
proof (cases "om_get (diskMap s) diskId = None")
  case True
  with assms show ?thesis by (auto simp: PurgeVolumesForDisk_def HasDisk_def)
next
  case False
  let ?f = "fold om_erase (map fst (filter (\<lambda>(k, v). vc_diskId v = diskId) (volumeMap s)))"
  let ?us = "filter IsUuidValid (map (\<lambda>(k, v). ve_fsUuid v) (filter (\<lambda>(k, v). vc_diskId v = diskId) (volumeMap s)))"
  from assms False have "run_state (remove_uuids env ?us E_OK) (volumeMap_update ?f s) = (e, t)"
    by (auto simp: PurgeVolumesForDisk_def HasDisk_def Let_def)
  from ensuresD[OF remove_uuids_maps refl this] have "t\<lparr>vstore := vstore s\<rparr> = volumeMap_update ?f s\<lparr>vstore := vstore s\<rparr>" by simp
  then have "diskMap t = diskMap s" "partitionTableMap t = partitionTableMap s" "trace t = trace s" "volumeMap t = ?f (volumeMap s)"
    by (cases t; cases s; simp)+
  with False purge_get[of "volumeMap s" diskId] registry_wf[OF assms(1)] show ?thesis by metis
qed

end
