(* ===== verification/Dm_Sysfs.thy ===== *)
theory Dm_Sysfs
  imports Dm_World
begin

text \<open>
  The reader of USB attributes, \<^verbatim>\<open>disk/sysfs_reader.cpp\<close>: from the path of a block device upwards to the
  nearest directory that is a USB device. The directories on the way are computed first; the loop then
  visits them in this order. Reading a file, a link or testing for a file is a call of the environment.
  Proved: the walk ends, visits prefixes of the path only, and returns the attributes of the nearest USB
  device.
\<close>

section \<open>Definitions\<close>

record UsbSysfsInfo =
  usb_vid :: string
  usb_pid :: string
  usb_serialNumber :: string
  usb_busnum :: string
  usb_devnum :: string

definition UsbSysfsInfo_empty :: UsbSysfsInfo where
  "UsbSysfsInfo_empty = \<lparr>usb_vid = [], usb_pid = [], usb_serialNumber = [], usb_busnum = [], usb_devnum = []\<rparr>"

definition StripBlockSuffix :: "string \<Rightarrow> string \<Rightarrow> string" where
  "StripBlockSuffix sysPath devName =
     (let suffix = ''/block/'' @ devName; n = length sysPath - length suffix in
      if length suffix < length sysPath \<and> drop n sysPath = suffix then take n sysPath
      else case str_rfind sysPath ''/'' of
        None \<Rightarrow> sysPath
      | Some lastSlash \<Rightarrow> if 0 < lastSlash then take lastSlash sysPath else sysPath)"

definition trailing_blank :: "char \<Rightarrow> bool" where
  "trailing_blank c \<longleftrightarrow> c = NL \<or> c = CHR 0x0D \<or> c = CHR '' '' \<or> c = NUL"

definition ReadSysfsFile :: "env \<Rightarrow> string \<Rightarrow> string dmop" where
  "ReadSysfsFile env path = do {
     r \<leftarrow> invoke env (Sys_ReadFile path);
     ret (if \<not> rp_flag r then []
          else case getlines (rp_str 0 r) of
            [] \<Rightarrow> []
          | content # _ \<Rightarrow> rev (dropWhile trailing_blank (rev content))) }"

text \<open>\<open>readlink\<close> returns the length as the code; the buffer holds at most 255 bytes.\<close>

definition ReadSubsystemSymlink :: "env \<Rightarrow> string \<Rightarrow> string dmop" where
  "ReadSubsystemSymlink env sysfsDir = do {
     r \<leftarrow> invoke env (Sys_readlink (sysfsDir @ ''/subsystem''));
     ret (if rp_err r \<le> 0 then []
          else let target = c_str (take 255 (rp_str 0 r)) in
            case str_rfind target ''/'' of
              None \<Rightarrow> target
            | Some lastSlash \<Rightarrow> if lastSlash + 1 < length target then drop (lastSlash + 1) target else target) }"

definition ReadUeventField :: "env \<Rightarrow> string \<Rightarrow> string \<Rightarrow> string dmop" where
  "ReadUeventField env sysfsDir field = do {
     r \<leftarrow> invoke env (Sys_ReadFile (sysfsDir @ ''/uevent''));
     ret (if \<not> rp_flag r then []
          else case find (starts_with (field @ ''='')) (getlines (rp_str 0 r)) of
            None \<Rightarrow> []
          | Some line \<Rightarrow> drop (length (field @ ''='')) line) }"

definition HasUeventFile :: "env \<Rightarrow> string \<Rightarrow> bool dmop" where
  "HasUeventFile env sysfsDir = do { r \<leftarrow> invoke env (Sys_access (sysfsDir @ ''/uevent'')); ret (rp_err r = 0) }"

lemma str_rfind_less: "p \<noteq> [] \<Longrightarrow> str_rfind s p = Some i \<Longrightarrow> i < length s"
  by (drule str_rfind_SomeD) (auto simp: starts_with_iff)

text \<open>The values of \<open>currentPath\<close>: each is the previous one up to its last slash.\<close>

function parent_dirs :: "string \<Rightarrow> string list" where
  "parent_dirs path =
     (if path = [] \<or> path = ''/'' then []
      else path # (case str_rfind path ''/'' of
                     None \<Rightarrow> []
                   | Some lastSlash \<Rightarrow> if lastSlash = 0 then [] else parent_dirs (take lastSlash path)))"
  by pat_completeness auto
termination
  by (relation "measure length") (auto dest!: str_rfind_less[of "''/''", simplified])

declare parent_dirs.simps [simp del]

definition read_usb_attrs :: "env \<Rightarrow> string \<Rightarrow> UsbSysfsInfo dmop" where
  "read_usb_attrs env currentPath = do {
     vid \<leftarrow> ReadSysfsFile env (currentPath @ ''/idVendor'');
     pid \<leftarrow> ReadSysfsFile env (currentPath @ ''/idProduct'');
     serial \<leftarrow> ReadSysfsFile env (currentPath @ ''/serial'');
     busnum \<leftarrow> ReadSysfsFile env (currentPath @ ''/busnum'');
     devnum \<leftarrow> ReadSysfsFile env (currentPath @ ''/devnum'');
     ret \<lparr>usb_vid = vid, usb_pid = pid, usb_serialNumber = serial, usb_busnum = busnum, usb_devnum = devnum\<rparr> }"

fun walk_up :: "env \<Rightarrow> string list \<Rightarrow> UsbSysfsInfo dmop" where
  "walk_up env [] = ret UsbSysfsInfo_empty"
| "walk_up env (currentPath # rest) = do {
     has \<leftarrow> HasUeventFile env currentPath;
     if \<not> has then walk_up env rest
     else do {
       subsystem \<leftarrow> ReadSubsystemSymlink env currentPath;
       if subsystem \<noteq> ''usb'' then walk_up env rest
       else do {
         devType \<leftarrow> ReadUeventField env currentPath ''DEVTYPE'';
         if devType \<noteq> ''usb_device'' then walk_up env rest else read_usb_attrs env currentPath } } }"

definition WalkUpAndReadUsbAttrs :: "env \<Rightarrow> string \<Rightarrow> UsbSysfsInfo dmop" where
  "WalkUpAndReadUsbAttrs env startPath = walk_up env (parent_dirs startPath)"

definition ReadUsbInfo :: "env \<Rightarrow> string \<Rightarrow> string \<Rightarrow> UsbSysfsInfo dmop" where
  "ReadUsbInfo env sysPath devName =
     (if sysPath = [] \<or> devName = [] then ret UsbSysfsInfo_empty
      else WalkUpAndReadUsbAttrs env (StripBlockSuffix sysPath devName))"

section \<open>The nearest USB device\<close>

text \<open>
  The reference: on a file system that does not change while it is read, the answers to the calls are a
  function of the calls.
\<close>

definition result_of :: "env \<Rightarrow> 'a dmop \<Rightarrow> 'a" where
  "result_of env m = fst (run_state m init_dm)"

definition is_usb_device :: "env \<Rightarrow> string \<Rightarrow> bool" where
  "is_usb_device env d \<longleftrightarrow> result_of env (HasUeventFile env d) \<and> result_of env (ReadSubsystemSymlink env d) = ''usb'' \<and>
     result_of env (ReadUeventField env d ''DEVTYPE'') = ''usb_device''"

definition static_replies :: "env \<Rightarrow> bool" where
  "static_replies env \<longleftrightarrow> (\<forall>h h' c. en_reply env h c = en_reply env h' c)"

definition fixed_result :: "env \<Rightarrow> 'a dmop \<Rightarrow> bool" where
  "fixed_result env m \<longleftrightarrow> (\<forall>s. fst (run_state m s) = result_of env m)"

lemma fixed_return: "fixed_result env (ret a)"
  by (simp add: fixed_result_def result_of_def)

lemma fixed_invoke: "static_replies env \<Longrightarrow> fixed_result env (invoke env c)"
  unfolding static_replies_def by (simp add: fixed_result_def result_of_def run_invoke)

lemma fixed_bind:
  assumes "fixed_result env m" "\<And>a. fixed_result env (f a)"
  shows "fixed_result env (State_Monad.bind m f)" "result_of env (State_Monad.bind m f) = result_of env (f (result_of env m))"
proof -
  have "fst (run_state (State_Monad.bind m f) s) = result_of env (f (result_of env m))" for s
    using assms by (auto simp: fixed_result_def split: prod.splits) (metis fst_conv)
  then show "fixed_result env (State_Monad.bind m f)" "result_of env (State_Monad.bind m f) = result_of env (f (result_of env m))"
    by (simp_all add: fixed_result_def result_of_def)
qed

lemma fixed_reads:
  assumes "static_replies env"
  shows "fixed_result env (HasUeventFile env d)" "fixed_result env (ReadSubsystemSymlink env d)"
    "fixed_result env (ReadUeventField env d f)" "fixed_result env (ReadSysfsFile env d)"
  unfolding HasUeventFile_def ReadSubsystemSymlink_def ReadUeventField_def ReadSysfsFile_def
  by (intro fixed_bind fixed_invoke[OF assms] fixed_return)+

lemma fixed_attrs: "static_replies env \<Longrightarrow> fixed_result env (read_usb_attrs env d)"
  unfolding read_usb_attrs_def by (intro fixed_bind fixed_reads fixed_return)

lemma fixed_if: "fixed_result env m \<Longrightarrow> fixed_result env n \<Longrightarrow> fixed_result env (if b then m else n)"
  by simp

lemma result_if: "result_of env (if b then m else n) = (if b then result_of env m else result_of env n)"
  by simp

lemma fixed_walk: "static_replies env \<Longrightarrow> fixed_result env (walk_up env ds)"
  by (induction ds) (simp_all add: fixed_return fixed_bind(1) fixed_if fixed_reads fixed_attrs)

lemma walk_up_nearest:
  assumes "static_replies env"
  shows "result_of env (walk_up env ds) =
    (case find (is_usb_device env) ds of None \<Rightarrow> UsbSysfsInfo_empty | Some d \<Rightarrow> result_of env (read_usb_attrs env d))"
proof (induction ds)
  case Nil
  show ?case by (simp add: result_of_def)
next
  case (Cons d ds)
  note fixed = fixed_walk[OF assms] fixed_attrs[OF assms] fixed_reads[OF assms]
  show ?case
    using Cons by (simp add: fixed_bind fixed_if fixed result_if is_usb_device_def)
qed

lemma parent_dirs_prefix: "d \<in> set (parent_dirs path) \<Longrightarrow> \<exists>r. path = d @ r"
proof (induction path rule: parent_dirs.induct)
  case (1 path)
  from 1(2) consider "d = path" | i where "path \<noteq> []" "path \<noteq> ''/''" "str_rfind path ''/'' = Some i" "i \<noteq> 0"
      "d \<in> set (parent_dirs (take i path))"
    unfolding parent_dirs.simps[of path] by (auto split: if_splits option.splits dest: sym)
  then show ?case
  proof cases
    case 2
    then obtain r where "take i path = d @ r" using 1(1) by blast
    then have "path = d @ r @ drop i path" by (metis append_take_drop_id append.assoc)
    then show ?thesis by blast
  qed simp
qed

lemma length_parent_dirs: "length (parent_dirs path) \<le> length path"
proof (induction path rule: parent_dirs.induct)
  case (1 path)
  show ?case
  proof (cases "str_rfind path ''/''")
    case (Some i)
    with str_rfind_less[of "''/''" path i] 1 show ?thesis by (subst parent_dirs.simps) fastforce
  qed (subst parent_dirs.simps, cases path, auto)
qed

lemma StripBlockSuffix_prefix: "\<exists>n. StripBlockSuffix sysPath devName = take n sysPath"
proof -
  have "\<exists>n. sysPath = take n sysPath" by (rule exI[of _ "length sysPath"]) simp
  then show ?thesis unfolding StripBlockSuffix_def Let_def by (simp split: option.split) blast
qed

text \<open>On a sysfs that does not change during the reading, and whatever other threads do, the USB attributes of
  a block device are those of the nearest directory above it that is a USB device, all five from the same
  directory, and empty when there is none. The directories looked at are prefixes of the device path, and no
  more than it has characters.\<close>

theorem ReadUsbInfo_nearest:
  assumes "static_replies env" "sysPath \<noteq> []" "devName \<noteq> []"
  shows "fst (run_state (ReadUsbInfo env sysPath devName) s) =
      (case find (is_usb_device env) (parent_dirs (StripBlockSuffix sysPath devName)) of
         None \<Rightarrow> UsbSysfsInfo_empty | Some d \<Rightarrow> result_of env (read_usb_attrs env d)) \<and>
    (\<forall>d \<in> set (parent_dirs (StripBlockSuffix sysPath devName)). \<exists>r. sysPath = d @ r) \<and>
    length (parent_dirs (StripBlockSuffix sysPath devName)) \<le> length sysPath"
proof (intro conjI ballI)
  have "fst (run_state (ReadUsbInfo env sysPath devName) s) = result_of env (walk_up env (parent_dirs (StripBlockSuffix sysPath devName)))"
    using fixed_walk[OF assms(1)] assms(2,3) by (simp add: ReadUsbInfo_def WalkUpAndReadUsbAttrs_def fixed_result_def)
  then show "fst (run_state (ReadUsbInfo env sysPath devName) s) =
      (case find (is_usb_device env) (parent_dirs (StripBlockSuffix sysPath devName)) of
         None \<Rightarrow> UsbSysfsInfo_empty | Some d \<Rightarrow> result_of env (read_usb_attrs env d))"
    by (simp add: walk_up_nearest[OF assms(1)])
  obtain n where n: "StripBlockSuffix sysPath devName = take n sysPath" using StripBlockSuffix_prefix by blast
  then show "length (parent_dirs (StripBlockSuffix sysPath devName)) \<le> length sysPath"
    using length_parent_dirs[of "take n sysPath"] by simp
  fix d assume "d \<in> set (parent_dirs (StripBlockSuffix sysPath devName))"
  with n obtain r where "take n sysPath = d @ r" using parent_dirs_prefix by metis
  then have "sysPath = d @ r @ drop n sysPath" by (metis append_take_drop_id append.assoc)
  then show "\<exists>r. sysPath = d @ r" by blast
qed

text \<open>A stick behind a hub: the port is a USB device, the disk below it is not, and the hub above is not reached.\<close>

definition stick_sysfs :: "item list \<Rightarrow> call \<Rightarrow> reply" where
  "stick_sysfs h c =
     (case c of
        Sys_access p \<Rightarrow> ok_reply\<lparr>rp_err := (if p \<in> {''/sys/hub/2-1/uevent'', ''/sys/hub/uevent''} then 0 else -1)\<rparr>
      | Sys_readlink p \<Rightarrow> ok_reply\<lparr>rp_err := 16, rp_strs := [''../../bus/usb'']\<rparr>
      | Sys_ReadFile p \<Rightarrow>
          if p = ''/sys/hub/2-1/uevent'' \<or> p = ''/sys/hub/uevent'' then ok_reply\<lparr>rp_strs := [''DEVTYPE=usb_device'']\<rparr>
          else if p = ''/sys/hub/2-1/idVendor'' then ok_reply\<lparr>rp_strs := [''0781'']\<rparr>
          else ok_reply\<lparr>rp_flag := False\<rparr>
      | _ \<Rightarrow> ok_reply)"

theorem ReadUsbInfo_nearest_witness:
  "fst (run_state (ReadUsbInfo (calm stick_sysfs) ''/sys/hub/2-1/block/sda'' ''sda'') init_dm) =
     UsbSysfsInfo_empty\<lparr>usb_vid := ''0781''\<rparr>"
proof -
  have static: "static_replies (calm stick_sysfs)" by (simp add: static_replies_def calm_def stick_sysfs_def)
  have "(case find (is_usb_device (calm stick_sysfs)) (parent_dirs (StripBlockSuffix ''/sys/hub/2-1/block/sda'' ''sda'')) of
         None \<Rightarrow> UsbSysfsInfo_empty | Some d \<Rightarrow> result_of (calm stick_sysfs) (read_usb_attrs (calm stick_sysfs) d)) =
       UsbSysfsInfo_empty\<lparr>usb_vid := ''0781''\<rparr>"
    by code_simp
  with ReadUsbInfo_nearest[OF static, of "''/sys/hub/2-1/block/sda''" "''sda''"] show ?thesis by simp
qed

end
