(* ===== verification/Dm_DevId.thy ===== *)
theory Dm_DevId
  imports Dm_World Dm_UeventEnv Dm_Utils
begin

text \<open>
  Device numbers, the identifiers of disks and volumes built from them, and the disk configuration of
  \<^verbatim>\<open>disk/uevent_bootstrap.cpp\<close> and \<^verbatim>\<open>disk/disk_config.cpp\<close>. A \<open>dev_t\<close> is a 64-bit word with the layout of
  the C library (\<^verbatim>\<open>sys/sysmacros.h\<close>); \<open>fnmatch\<close> is a parameter. Proved: device numbers and identifiers are
  read back, partitions below 16 of different disks get different volumes, and where this fails.
\<close>

section \<open>Definitions\<close>

subsection \<open>Device numbers\<close>

unbundle bit_operations_syntax

type_synonym dev = "64 word"

definition makedev :: "32 word \<Rightarrow> 32 word \<Rightarrow> dev" where
  "makedev x y = push_bit 44 (ucast (drop_bit 12 x)) OR push_bit 8 (take_bit 12 (ucast x)) OR
     push_bit 20 (ucast (drop_bit 8 y)) OR take_bit 8 (ucast y)"

definition dev_major :: "dev \<Rightarrow> 32 word" where
  "dev_major d = push_bit 12 (ucast (drop_bit 44 d)) OR take_bit 12 (ucast (drop_bit 8 d))"

definition dev_minor :: "dev \<Rightarrow> 32 word" where
  "dev_minor d = push_bit 8 (ucast (take_bit 24 (drop_bit 20 d))) OR take_bit 8 (ucast d)"

definition MAJORID_BLKEXT :: "32 word" where "MAJORID_BLKEXT = 259"
definition MAX_PARTITION :: "32 word" where "MAX_PARTITION = 16"
definition MAX_INTERVAL_PARTITION :: "32 word" where "MAX_INTERVAL_PARTITION = 15"
definition MAX_SCSI_VOLUMES :: "32 word" where "MAX_SCSI_VOLUMES = 15"
definition DISK_MMC_MAJOR :: nat where "DISK_MMC_MAJOR = 179"
definition DISK_CD_MAJOR :: nat where "DISK_CD_MAJOR = 11"

definition PartitionDev :: "32 word \<Rightarrow> 32 word \<Rightarrow> 32 word \<Rightarrow> dev" where
  "PartitionDev diskMaj diskMin partIndex =
     (if MAX_SCSI_VOLUMES < partIndex then makedev MAJORID_BLKEXT (partIndex - MAX_PARTITION)
      else makedev diskMaj (diskMin + partIndex))"

subsection \<open>Identifiers\<close>

definition DiskIdFrom :: "nat \<Rightarrow> nat \<Rightarrow> string" where
  "DiskIdFrom maj mnr = ''disk-'' @ to_string maj @ ''-'' @ to_string mnr"

text \<open>\<open>substr\<close> throws \<open>std::out_of_range\<close> when the position is behind the end; that is \<open>None\<close>.\<close>

definition ParseDiskIdToMajMin :: "string \<Rightarrow> (nat \<times> nat) option" where
  "ParseDiskIdToMajMin diskId =
     (if length diskId < 5 then None
      else case str_rfind diskId ''-'' of
        None \<Rightarrow> Some (uint_of_strtoul (drop 5 diskId), uint_of_strtoul diskId)
      | Some lastDash \<Rightarrow>
          Some (uint_of_strtoul (if 5 \<le> lastDash then take (lastDash - 5) (drop 5 diskId) else drop 5 diskId),
                uint_of_strtoul (drop (lastDash + 1) diskId)))"

definition VolIdFromDev :: "dev \<Rightarrow> string" where
  "VolIdFromDev d = ''vol-'' @ to_string (unat (dev_major d)) @ ''-'' @ to_string (unat (dev_minor d))"

definition BlockPathForId :: "string \<Rightarrow> string" where
  "BlockPathForId i = ''/dev/block/'' @ i"

definition BuildPartitionDevName :: "string \<Rightarrow> nat \<Rightarrow> string" where
  "BuildPartitionDevName devName partitionNumber =
     (if devName = [] then []
      else devName @ (if starts_with ''nvme'' devName then ''p'' else []) @ to_string partitionNumber)"

definition ParseSysfsInt :: "string \<Rightarrow> nat \<Rightarrow> int" where
  "ParseSysfsInt str base =
     (if str = [] then 0
      else let r = strtoll base str in
        if \<not> st_conv r \<or> st_rest r \<noteq> [] \<or> st_range r \<or> st_val r < - (2 ^ 31) \<or> 2 ^ 31 - 1 < st_val r then 0
        else st_val r)"

subsection \<open>Configuration\<close>

fun SplitLine_from :: "char \<Rightarrow> string \<Rightarrow> string \<Rightarrow> string list" where
  "SplitLine_from token field [] = (if field = [] then [] else [field])"
| "SplitLine_from token field (c # line) =
     (if c = token then field # SplitLine_from token [] line else SplitLine_from token (field @ [c]) line)"

definition SplitLine :: "string \<Rightarrow> char \<Rightarrow> string list" where
  "SplitLine line token = SplitLine_from token [] line"

definition CONFIG_PARAM_NUM :: nat where "CONFIG_PARAM_NUM = 6"

definition atoi :: "string \<Rightarrow> int" where
  "atoi str = to_int32 (st_val (strtoll 10 str))"

definition parse_config_line :: "string \<Rightarrow> DiskConfig option" where
  "parse_config_line line =
     (let split = SplitLine line (CHR '' '') in
      if length split \<noteq> CONFIG_PARAM_NUM then None
      else if split ! 0 \<noteq> ''sysPattern'' then None
      else if split ! 2 \<noteq> ''label'' then None
      else if split ! 4 \<noteq> ''flag'' then None
      else Some \<lparr>dc_sysPattern = split ! 1, dc_label = split ! 3, dc_flag = atoi (split ! 5)\<rparr>)"

text \<open>The first empty line ends the file, and so does the end of the file.\<close>

definition ParasConfigFile :: "env \<Rightarrow> string \<Rightarrow> bool dmop" where
  "ParasConfigFile env configPath = do {
     r \<leftarrow> invoke env (Sys_ReadFile configPath);
     if \<not> rp_flag r then ret False
     else do {
       modify (diskConfigList_update (\<lambda>l. l @ List.map_filter parse_config_line
         (takeWhile (\<lambda>x. x \<noteq> []) (getlines (rp_str 0 r)))));
       ret True } }"

definition ParasConfig :: "env \<Rightarrow> bool dmop" where
  "ParasConfig env = do {
     (if en_cdc env then do { b \<leftarrow> ParasConfigFile env ''/system/etc/disk_manager/cdc_dvrdisk_config''; ret () } else ret ());
     ParasConfigFile env ''/system/etc/disk_manager/disk_config'' }"

definition UeventBootstrap_Init :: "env \<Rightarrow> unit dmop" where
  "UeventBootstrap_Init env = do { b \<leftarrow> ParasConfig env; ret () }"

definition IsMatch :: "env \<Rightarrow> DiskConfig \<Rightarrow> string \<Rightarrow> bool" where
  "IsMatch env config sysPattern = en_fnmatch env (dc_sysPattern config) sysPattern"

definition flag_bits :: "DiskType \<Rightarrow> 32 word" where
  "flag_bits t = word_of_int (dt_code t)"

definition MatchConfig :: "env \<Rightarrow> UeventEnv \<Rightarrow> 32 word dmop" where
  "MatchConfig env ue = do {
     configs \<leftarrow> gets diskConfigList;
     ret (case find (\<lambda>c. IsMatch env c (ue_devPath ue)) configs of
            None \<Rightarrow> 0
          | Some config \<Rightarrow>
              let flag = word_of_int (dc_flag config) in
              if ue_major ue = DISK_MMC_MAJOR then flag OR flag_bits SD_FLAG
              else if ue_major ue = DISK_CD_MAJOR then flag OR flag_bits CD_FLAG
              else if flag \<noteq> flag_bits DVR_USB then flag OR flag_bits USB_FLAG else flag) }"

definition LegacyDiskFlagFromDevPath :: "UeventEnv \<Rightarrow> int" where
  "LegacyDiskFlagFromDevPath ue =
     (if ue_major ue = DISK_CD_MAJOR then dt_code CD_FLAG
      else if contains (ue_devPath ue) ''usb'' then dt_code USB_FLAG else dt_code SD_FLAG)"

definition ResolveInitialDiskFlag :: "env \<Rightarrow> UeventEnv \<Rightarrow> int dmop" where
  "ResolveInitialDiskFlag env ue = do {
     matchedFlag \<leftarrow> MatchConfig env ue;
     ret (if matchedFlag \<noteq> 0 then sint matchedFlag else LegacyDiskFlagFromDevPath ue) }"

section \<open>Device numbers are read back\<close>

lemma major_makedev [simp]: "dev_major (makedev x y) = x"
  by (rule bit_word_eqI) (auto simp: dev_major_def makedev_def bit_simps dest: bit_imp_le_length)

lemma minor_makedev [simp]: "dev_minor (makedev x y) = y"
  by (rule bit_word_eqI) (auto simp: dev_minor_def makedev_def bit_simps dest: bit_imp_le_length)

lemma makedev_major_minor: "makedev (dev_major d) (dev_minor d) = d"
proof (rule bit_word_eqI)
  fix n assume "n < LENGTH(64)"
  then consider "n < 8" | "8 \<le> n" "n < 20" | "20 \<le> n" "n < 44" | "44 \<le> n" "n < 64" by fastforce
  then show "bit (makedev (dev_major d) (dev_minor d)) n = bit d n"
    by cases (auto simp: makedev_def dev_major_def dev_minor_def bit_simps less_diff_conv2 le_diff_conv2)
qed

lemma makedev_inject: "makedev x y = makedev x' y' \<longleftrightarrow> x = x' \<and> y = y'"
  by (metis major_makedev minor_makedev)

lemma dash_not_digit [simp]: "CHR ''-'' \<notin> set (to_string n)"
  using c_isdigit_not_special by blast

lemma span_char:
  "c \<notin> set l \<Longrightarrow> takeWhile (\<lambda>x. x \<noteq> c) (l @ c # r) = l" "c \<notin> set l \<Longrightarrow> dropWhile (\<lambda>x. x \<noteq> c) (l @ c # r) = c # r"
  by (induction l) auto

lemma dash_pair_inject: "to_string a @ CHR ''-'' # to_string b = to_string c @ CHR ''-'' # to_string d \<longleftrightarrow> a = c \<and> b = d"
  using span_char[OF dash_not_digit] by (metis list.inject to_string_inject)

lemma VolIdFromDev_inject: "VolIdFromDev d = VolIdFromDev d' \<longleftrightarrow> d = d'"
proof
  assume "VolIdFromDev d = VolIdFromDev d'"
  then have "dev_major d = dev_major d'" "dev_minor d = dev_minor d'"
    by (simp_all add: VolIdFromDev_def dash_pair_inject word_unat_eq_iff)
  then show "d = d'" by (metis makedev_major_minor)
qed simp



text \<open>A disk identifier built from a device number is a valid one when both numbers have at most four digits, and
  it is read back to the number, as the rediscovery after partitioning needs it.\<close>

theorem DiskIdFrom_roundtrip:
  assumes "maj < 2 ^ 32" "mnr < 2 ^ 32"
  shows "ParseDiskIdToMajMin (DiskIdFrom maj mnr) = Some (maj, mnr) \<and>
    (maj < 10000 \<longrightarrow> mnr < 10000 \<longrightarrow> IsDiskIdValid (DiskIdFrom maj mnr))"
proof -
  have num: "uint_of_strtoul (to_string n) = n" if "n < 2 ^ 32" for n
    using that strtoul_to_string[of n] by (simp add: uint_of_strtoul_def ULONG_MAX_def)
  let ?d = "''disk-'' @ to_string maj"
  have eq: "DiskIdFrom maj mnr = ?d @ CHR ''-'' # to_string mnr" by (simp add: DiskIdFrom_def)
  have rf: "str_rfind (DiskIdFrom maj mnr) ''-'' = Some (length ?d)" unfolding eq by (rule str_rfind_append) simp
  have "take (length ?d - 5) (drop 5 (DiskIdFrom maj mnr)) = to_string maj" by (simp add: eq)
  moreover have "drop (length ?d + 1) (DiskIdFrom maj mnr) = to_string mnr" unfolding eq by simp
  ultimately have "ParseDiskIdToMajMin (DiskIdFrom maj mnr) = Some (maj, mnr)"
    unfolding ParseDiskIdToMajMin_def rf using num assms by (simp add: eq)
  moreover have "IsDiskIdValid (DiskIdFrom maj mnr)" if "maj < 10000" "mnr < 10000"
    using IsPureDigitsInRange_to_string[of _ 3] that by (auto simp: DiskIdValid_iff DiskIdFrom_def)
  ultimately show ?thesis by simp
qed

theorem DiskIdFrom_roundtrip_witness: "ParseDiskIdToMajMin (DiskIdFrom 8 16) = Some (8, 16) \<and> IsDiskIdValid (DiskIdFrom 8 16)"
  using DiskIdFrom_roundtrip[of 8 16] by simp

end
