(* ===== verification/Dm_Bootstrap.thy ===== *)
theory Dm_Bootstrap
  imports Dm_Format Dm_Sysfs Dm_DevId
begin

text \<open>
  The handling of block-device events, \<^verbatim>\<open>disk/uevent_bootstrap.cpp\<close>: device nodes, partition table, volumes,
  automatic mounting, optical discs, removal, and the partitioning of a whole disk (\<open>Partition\<close> of
  \<^verbatim>\<open>disk/disk_manager.cpp\<close>) that rediscovers the volumes. Fault reports to the radar change no state and are
  left out. Proved: every handler keeps the invariant of the service, what removal leaves behind, what the
  difference of two partition lists is, and that optical discs are not ejected while in use.
\<close>

section \<open>Definitions\<close>

subsection \<open>Constants\<close>

definition K_DISK_BLOCK_DEVICE_NODE_MODE :: int where "K_DISK_BLOCK_DEVICE_NODE_MODE = 0x1B0 + 0x6000"
definition K_VOLUME_BLOCK_DEVICE_NODE_MODE :: int where "K_VOLUME_BLOCK_DEVICE_NODE_MODE = 0x6000"
definition PARTITION_TARGET_FS_TYPE :: string where "PARTITION_TARGET_FS_TYPE = ''f2fs''"
definition MIN_LINES :: nat where "MIN_LINES = 32"
definition BYTES_PER_MB :: int where "BYTES_PER_MB = 1024 * 1024"
definition MIN_DISK_SIZE_MB :: int where "MIN_DISK_SIZE_MB = 4"
definition SECTOR_SIZE :: int where "SECTOR_SIZE = 512"
definition BLOCK_PATH :: string where "BLOCK_PATH = ''/dev/block''"

subsection \<open>Removal\<close>

definition destroy_volume :: "env \<Rightarrow> VolumeExternal \<Rightarrow> unit dmop" where
  "destroy_volume env vol = do {
     (if vc_state vol \<noteq> vs_code UNMOUNTED then do { unmountRet \<leftarrow> ForceUnmount env (vc_id vol); ret () } else ret ());
     (if ve_mapperPath vol \<noteq> [] then do { e \<leftarrow> DestroyDmCryptVolume env (base_name (ve_mapperPath vol)); ret () } else ret ());
     (if ve_loopPath vol \<noteq> [] then do { e \<leftarrow> UnbindBlockLoopDev env (ve_loopPath vol); ret () } else ret ());
     r \<leftarrow> invoke env (Sd_DestroyBlockDeviceNode (BlockPathForId (vc_id vol)));
     if rp_err r \<noteq> E_OK then ret ()
     else do {
       PublishVolumeChange env (if vc_state vol = vs_code UNMOUNTED then REMOVED else BAD_REMOVAL) vol;
       e \<leftarrow> OnVolumeDestroyed (vc_id vol);
       ret () } }"

definition DestroyALLVolume :: "env \<Rightarrow> string \<Rightarrow> unit dmop" where
  "DestroyALLVolume env diskId = do {
     vols \<leftarrow> GetAllVolumes env;
     for_each (destroy_volume env) (filter (\<lambda>vol. vc_diskId vol = diskId \<and> vc_id vol \<noteq> ''0'') vols) }"

definition DestroyALLDisk :: "env \<Rightarrow> string \<Rightarrow> errno dmop" where
  "DestroyALLDisk env diskId = do {
     r \<leftarrow> invoke env (Sd_DestroyBlockDeviceNode (BlockPathForId diskId));
     if rp_err r \<noteq> E_OK then ret E_DESTROY_DEVICE_NODE
     else do {
       d \<leftarrow> GetDiskById env diskId;
       e \<leftarrow> OnDiskDestroyed diskId;
       (case d of Inl _ \<Rightarrow> ret () | Inr diskSnap \<Rightarrow> PublishDiskChange DISK_EVENT_REMOVED diskSnap);
       ret E_OK } }"

subsection \<open>Partition table\<close>

definition QueryCdromState :: "env \<Rightarrow> string \<Rightarrow> CdromState dmop" where
  "QueryCdromState env devPath = do {
     r \<leftarrow> invoke env (Sd_QueryCDStatus devPath);
     let status = (word_of_int (rp_int 0 0 r) :: 32 word);
     ret (if rp_err r \<noteq> E_OK then QUERY_FAILED
          else if \<not> bit status 0 then NO_DISC
          else if \<not> bit status 1 then NON_EMPTY_DISC else EMPTY_DISC) }"

text \<open>The text handed to the parser: on a disk with a user-data partition only its line and the DISK line.\<close>

definition userdata_dump :: "string \<Rightarrow> bool \<times> string" where
  "userdata_dump rawDump =
     (let lines = SplitRawDumpToLines rawDump in
      if MIN_LINES < length lines then
        (case find (\<lambda>l. contains l ''userdata'') lines of
           None \<Rightarrow> (False, rawDump)
         | Some userdata \<Rightarrow>
             (True, (case find (\<lambda>l. contains l ''DISK'') lines of None \<Rightarrow> [] | Some d \<Rightarrow> d) @ [NL] @ userdata))
      else (False, rawDump))"

definition ReplacePartitionsForDisk :: "string \<Rightarrow> PartitionRecord list \<Rightarrow> errno dmop" where
  "ReplacePartitionsForDisk diskId partitions = ret E_OK"

definition BuildAndSyncPartitions ::
  "env \<Rightarrow> UeventEnv \<Rightarrow> string \<Rightarrow> string \<Rightarrow> (errno \<times> PartitionRecord list \<times> bool \<times> string) dmop" where
  "BuildAndSyncPartitions env ue diskId diskDevPath = do {
     c \<leftarrow> invoke env (Sd_CreateBlockDeviceNode diskDevPath K_DISK_BLOCK_DEVICE_NODE_MODE
            (to_int32 (int (ue_major ue))) (to_int32 (int (ue_minor ue))));
     if rp_err c \<noteq> E_OK then ret (rp_err c, [], False, [])
     else do {
       t \<leftarrow> invoke env (Sd_ReadPartitionTable diskDevPath);
       if rp_err t \<noteq> E_OK then do {
         z \<leftarrow> invoke env (Sd_GetDiskSize (ue_devName ue));
         let diskSize = rp_int 0 0 z;
         if rp_err z = E_OK \<and> diskSize > 0 \<and> diskSize div BYTES_PER_MB > MIN_DISK_SIZE_MB
         then ret (E_STORAGE_VALID_NODE, [], False, [])
         else do {
           x \<leftarrow> invoke env (Sd_DestroyBlockDeviceNode diskDevPath);
           ret (rp_err t, [], False, []) } }
       else do {
         let (isUserData, rawDump) = userdata_dump (rp_str 0 t);
         let (hasDiskLine, tableType, parts) = (if rawDump = [] then (False, [], []) else ParseSgdiskDump rawDump diskId);
         if \<not> hasDiskLine \<and> ue_major ue \<noteq> DISK_CD_MAJOR then do {
           x \<leftarrow> invoke env (Sd_DestroyBlockDeviceNode diskDevPath);
           ret (DISK_MGR_ERR, parts, isUserData, tableType) }
         else do {
           x \<leftarrow> ReplacePartitionsForDisk diskId parts;
           ret (E_OK, parts, isUserData, tableType) } } } }"

subsection \<open>The disk\<close>

definition BlockInfoToVolumeExtraInfo :: "env \<Rightarrow> BlockInfo \<Rightarrow> string" where
  "BlockInfoToVolumeExtraInfo env b =
     ToJsonStringWithExtras (fe_dump (en_store env)) b
       [(''vendor'', bi_vendor b), (''model'', bi_model b), (''devnum'', bi_devnum b), (''busnum'', bi_busnum b),
        (''devNode'', bi_devNode b), (''scsiBusNum'', bi_scsiBusNum b), (''fwVersion'', bi_fwVersion b)]"

definition UpsertDiskAndPublishEvent :: "env \<Rightarrow> UeventEnv \<Rightarrow> string \<Rightarrow> bool \<Rightarrow> string \<Rightarrow> unit dmop" where
  "UpsertDiskAndPublishEvent env ue diskId publishNewDiskEvent tableType =
     (if \<not> publishNewDiskEvent then ret ()
      else do {
        copy \<leftarrow> TryCopyByDiskId diskId;
        flag \<leftarrow> ResolveInitialDiskFlag env ue;
        let d0 = Disk_ctor diskId (case copy of None \<Rightarrow> 0 | Some b \<Rightarrow> to_int64 (bi_sizeBytes b)) (ue_devName ue) flag;
        usbInfo \<leftarrow> (if contains (ue_devPath ue) ''usb'' then ReadUsbInfo env (ue_sysPath ue) (ue_devName ue)
                   else ret UsbSysfsInfo_empty);
        (d1, blockInfo) \<leftarrow>
          (case copy of
             Some b \<Rightarrow> ret (d0\<lparr>d_extraInfo := BlockInfoToVolumeExtraInfo env b\<rparr>, b)
           | None \<Rightarrow> do {
               (e, b) \<leftarrow> ReadExtDiskInfoFromDaemon env (ue_devName ue) (BlockInfo_zero\<lparr>bi_diskId := diskId\<rparr>);
               ret (if e = E_OK
                    then d0\<lparr>d_sizeBytes := to_int64 (bi_sizeBytes b), d_extraInfo := BlockInfoToVolumeExtraInfo env b\<rparr> else d0, b) });
        let d2 = d1\<lparr>d_vendor := bi_vendor blockInfo, d_partitionType := tableType,
          d_vendorId := ParseSysfsInt (usb_vid usbInfo) 16, d_productId := ParseSysfsInt (usb_pid usbInfo) 16,
          d_serialNumber := usb_serialNumber usbInfo, d_busnum := ParseSysfsInt (usb_busnum usbInfo) 10,
          d_devAddress := ParseSysfsInt (usb_devnum usbInfo) 10\<rparr>;
        let diskForEvent = RefreshClassificationFromSysfs (ue_sysPath ue) (bi_rotational blockInfo) d2;
        PublishDiskChange DISK_EVENT_MOUNTED diskForEvent;
        e \<leftarrow> OnDiskCreated diskForEvent;
        ret () })"

definition IsInternalDataDiskById :: "env \<Rightarrow> string \<Rightarrow> bool dmop" where
  "IsInternalDataDiskById env diskId = do {
     d \<leftarrow> GetDiskById env diskId;
     ret (case d of Inl _ \<Rightarrow> False | Inr disk \<Rightarrow> Disk_IsInternalDataDisk disk) }"

subsection \<open>Volumes\<close>

definition node_minor :: "env \<Rightarrow> int \<Rightarrow> string \<Rightarrow> int \<Rightarrow> int dmop" where
  "node_minor env major name maxMinor =
     (if starts_with ''.'' name \<or> \<not> starts_with ''vol'' name then ret maxMinor
      else do {
        r \<leftarrow> invoke env (Sys_stat (BLOCK_PATH @ ''/'' @ name));
        let rdev = (word_of_int (rp_int 0 0 r) :: dev);
        let majorNum = sint (dev_major rdev);
        let minorNum = sint (dev_minor rdev);
        ret (if rp_err r = 0 \<and> majorNum = major \<and> maxMinor < minorNum then minorNum else maxMinor) })"

fun max_minor_loop :: "env \<Rightarrow> int \<Rightarrow> string list \<Rightarrow> int \<Rightarrow> int dmop" where
  "max_minor_loop env major [] maxMinor = ret maxMinor"
| "max_minor_loop env major (name # names) maxMinor = do {
     m \<leftarrow> node_minor env major name maxMinor;
     max_minor_loop env major names m }"

definition GetMaxMinor :: "env \<Rightarrow> int \<Rightarrow> int dmop" where
  "GetMaxMinor env major = do {
     r \<leftarrow> invoke env (Sys_opendir BLOCK_PATH);
     if \<not> rp_flag r then ret (-1) else max_minor_loop env major (rp_strs r) (-1) }"

definition TryLoadBlockInfoForVolume :: "env \<Rightarrow> Disk \<Rightarrow> BlockInfo option dmop" where
  "TryLoadBlockInfoForVolume env disk =
     (if Disk_IsInternalDataDisk disk then TryCopyByDiskId (d_diskId disk)
      else do {
        (e, b) \<leftarrow> ReadExtDiskInfoFromDaemon env (d_devName disk) (BlockInfo_zero\<lparr>bi_diskId := d_diskId disk\<rparr>);
        ret (if e = E_OK then Some b else None) })"

definition CreateAndSetupVolume :: "env \<Rightarrow> string \<Rightarrow> dev \<Rightarrow> bool \<Rightarrow> int \<Rightarrow> errno dmop" where
  "CreateAndSetupVolume env diskId pDev isUserData partitionNum = do {
     let volId = VolIdFromDev pDev;
     c \<leftarrow> invoke env (Sd_CreateBlockDeviceNode (BlockPathForId volId) K_VOLUME_BLOCK_DEVICE_NODE_MODE
            (sint (dev_major pDev)) (sint (dev_minor pDev)));
     if rp_err c \<noteq> E_OK then ret (rp_err c)
     else do {
       let volExternal = (VolumeExternal_ctor (VolumeCore_ctor3 volId VOLUME_TYPE_EXTERNAL diskId))
             \<lparr>ve_isUserData := isUserData, ve_partitionNum := partitionNum\<rparr>;
       d \<leftarrow> GetDiskById env diskId;
       case d of
         Inl _ \<Rightarrow> ret E_NON_EXIST
       | Inr disk \<Rightarrow> do {
           b \<leftarrow> TryLoadBlockInfoForVolume env disk;
           let vol = (case b of None \<Rightarrow> volExternal
                      | Some blockInfo \<Rightarrow> volExternal\<lparr>vc_extraInfo := BlockInfoToVolumeExtraInfo env blockInfo\<rparr>);
           e \<leftarrow> OnVolumeCreated vol;
           ret E_OK } } }"

text \<open>The error of the daemon and the UUID, type and label it gave.\<close>

definition ReadAndUpdateMetadata :: "env \<Rightarrow> string \<Rightarrow> string \<Rightarrow> (errno \<times> string \<times> string \<times> string) dmop" where
  "ReadAndUpdateMetadata env volId volDevPath = do {
     r \<leftarrow> invoke env (Sd_ReadMetadata volDevPath);
     let uuid = rp_str 0 r;
     let type' = rp_str 1 r;
     let label = rp_str 2 r;
     (if rp_err r = E_OK \<and> IsUuidValid uuid
      then do { e \<leftarrow> UpdateVolumeMetadata volId uuid type' label; ret () } else ret ());
     ret (rp_err r, uuid, type', label) }"

definition IsAbnormalDetectableFsType :: "int \<Rightarrow> bool" where
  "IsAbnormalDetectableFsType fsType \<longleftrightarrow>
     fsType \<noteq> fs_code MTP \<and> fsType \<noteq> fs_code UDF \<and> fsType \<noteq> fs_code ISO9660 \<and> fsType \<noteq> fs_code PTP"

definition EvaluateVolumeMetadataAbnormal :: "string \<Rightarrow> bool \<Rightarrow> string \<Rightarrow> string \<Rightarrow> errno \<Rightarrow> bool dmop" where
  "EvaluateVolumeMetadataAbnormal volId isUserData uuid type' metadataErr =
     (let fsType = GetFsTypeByStr type' in
      if isUserData then ret False
      else if \<not> IsAbnormalDetectableFsType fsType then ret False
      else if metadataErr \<noteq> E_OK \<or> uuid = [] \<or> type' = [] then do {
        e \<leftarrow> MarkVolumeAbnormal volId METADATA_READ_FAILED; ret True }
      else if fsType = fs_code FS_UNDEFINED then do {
        e \<leftarrow> MarkVolumeAbnormal volId FSTYPE_UNSUPPORTED; ret True }
      else ret False)"

definition AUTO_MOUNT_EXTERNAL_VOLUMES :: bool where "AUTO_MOUNT_EXTERNAL_VOLUMES = True"

definition MountParam_default :: MountParam where
  "MountParam_default = \<lparr>mp_readOnly = False, mp_fromEdmMount = False\<rparr>"

definition MountDiscoveredVolume :: "env \<Rightarrow> string \<Rightarrow> string \<Rightarrow> bool \<Rightarrow> string \<Rightarrow> string \<Rightarrow> unit dmop" where
  "MountDiscoveredVolume env volId diskId isUserData uuid type' =
     (if \<not> AUTO_MOUNT_EXTERNAL_VOLUMES \<or> type' = [] \<or> uuid = [] then ret ()
      else do {
        err \<leftarrow> Mount env volId MountParam_default;
        if err \<noteq> E_OK \<and> \<not> isUserData \<and> IsAbnormalDetectableFsType (GetFsTypeByStr type')
        then do { e \<leftarrow> MarkVolumeAbnormal volId MOUNT_FAILED; ret () } else ret () })"

definition CreateDmLinearForPartition :: "env \<Rightarrow> string \<Rightarrow> nat \<Rightarrow> dev dmop" where
  "CreateDmLinearForPartition env devName partitionNumber = do {
     let partDevName = BuildPartitionDevName devName partitionNumber;
     let partDevPath = ''/dev/block/'' @ partDevName;
     let dmReservedSectors = 20 * BYTES_PER_MB div SECTOR_SIZE;
     z \<leftarrow> invoke env (Sd_GetDiskSize (devName @ ''/'' @ partDevName));
     let totalBytes = rp_int 0 0 z;
     if rp_err z \<noteq> E_OK \<or> totalBytes = 0 then ret (makedev 0 0)
     else do {
       let totalSectors = totalBytes div SECTOR_SIZE;
       if totalSectors \<le> dmReservedSectors then ret (makedev 0 0)
       else do {
         r \<leftarrow> invoke env (Sd_CreateDmLinear partDevPath 0 (totalSectors - dmReservedSectors));
         let dmDevVal = rp_int 0 0 r;
         ret (if rp_err r \<noteq> E_OK \<or> dmDevVal = 0 then makedev 0 0 else word_of_int dmDevVal) } } }"

definition ResolvePartitionDev :: "env \<Rightarrow> UeventEnv \<Rightarrow> string \<Rightarrow> PartitionRecord \<Rightarrow> bool \<Rightarrow> dev dmop" where
  "ResolvePartitionDev env ue diskId p isUserData = do {
     let number = (of_nat (pr_partitionNumber p) :: 32 word);
     internal \<leftarrow> IsInternalDataDiskById env diskId;
     dmDev \<leftarrow> (if internal then CreateDmLinearForPartition env (ue_devName ue) (pr_partitionNumber p)
              else ret (makedev 0 0));
     if dmDev \<noteq> makedev 0 0 then ret dmDev
     else if isUserData then do {
       maxMinor \<leftarrow> GetMaxMinor env (uint MAJORID_BLKEXT);
       ret (if maxMinor = -1 then makedev MAJORID_BLKEXT (number - MAX_PARTITION)
            else makedev MAJORID_BLKEXT (word_of_int maxMinor + number - MAX_INTERVAL_PARTITION)) }
     else ret (PartitionDev (of_nat (ue_major ue)) (of_nat (ue_minor ue)) number) }"

definition DiscoverSinglePartitionVolume :: "env \<Rightarrow> UeventEnv \<Rightarrow> string \<Rightarrow> bool \<Rightarrow> PartitionRecord \<Rightarrow> unit dmop" where
  "DiscoverSinglePartitionVolume env ue diskId isUserData p = do {
     pDev \<leftarrow> ResolvePartitionDev env ue diskId p isUserData;
     let volId = VolIdFromDev pDev;
     v \<leftarrow> GetVolumeById volId;
     if (case v of Inl _ \<Rightarrow> False | Inr vol \<Rightarrow> vc_state vol = vs_code MOUNTED) then ret ()
     else do {
       e \<leftarrow> CreateAndSetupVolume env diskId pDev isUserData (to_int32 (int (pr_partitionNumber p)));
       if e \<noteq> E_OK then ret ()
       else do {
         (metadataErr, uuid, type', label) \<leftarrow> ReadAndUpdateMetadata env volId (BlockPathForId volId);
         partitioning \<leftarrow> IsPartitioning diskId;
         if partitioning then do { formatRet \<leftarrow> Format env volId PARTITION_TARGET_FS_TYPE; ret () }
         else do {
           abnormal \<leftarrow> EvaluateVolumeMetadataAbnormal volId isUserData uuid type' metadataErr;
           if abnormal then ret ()
           else MountDiscoveredVolume env volId diskId isUserData uuid type' } } } }"

definition DiscoverWholeDiskVolume :: "env \<Rightarrow> UeventEnv \<Rightarrow> string \<Rightarrow> bool \<Rightarrow> string \<Rightarrow> unit dmop" where
  "DiscoverWholeDiskVolume env ue diskId isUserData tableType = do {
     let wholeDev = makedev (of_nat (ue_major ue)) (of_nat (ue_minor ue));
     let volId = VolIdFromDev wholeDev;
     isPartitioning \<leftarrow> IsPartitioning diskId;
     if isPartitioning then do {
       e \<leftarrow> CreateAndSetupVolume env diskId wholeDev False 0;
       if e \<noteq> E_OK then ret () else do { formatRet \<leftarrow> Format env volId PARTITION_TARGET_FS_TYPE; ret () } }
     else do {
       r \<leftarrow> invoke env (Sd_ReadMetadata (BlockPathForId diskId));
       let uuid = rp_str 0 r;
       let type' = rp_str 1 r;
       if rp_err r \<noteq> E_OK then do {
         internal \<leftarrow> (if isUserData then ret True else IsInternalDataDiskById env diskId);
         if internal then ret ()
         else if tableType = ''gpt'' then ret ()
         else PublishDiskAbnormal diskId (reason_code PARTITION_TABLE_READ_FAILED) }
       else do {
         e \<leftarrow> CreateAndSetupVolume env diskId wholeDev False 0;
         if e \<noteq> E_OK then ret ()
         else do {
           u \<leftarrow> UpdateVolumeMetadata volId uuid type' (rp_str 2 r);
           abnormal \<leftarrow> EvaluateVolumeMetadataAbnormal volId False uuid type' E_OK;
           if abnormal then ret () else MountDiscoveredVolume env volId diskId False uuid type' } } } }"

subsection \<open>Optical discs\<close>

definition disc_label :: "env \<Rightarrow> errno + VolumeExternal \<Rightarrow> string" where
  "disc_label env v =
     (case v of
        Inl _ \<Rightarrow> ''DVD RW''
      | Inr volume \<Rightarrow> (let label = GetDriverType env (vc_extraInfo volume) in if label = [] then ''DVD RW'' else label))"

definition HandleAddCD :: "env \<Rightarrow> UeventEnv \<Rightarrow> string \<Rightarrow> CdromState \<Rightarrow> unit dmop" where
  "HandleAddCD env ue diskId st = do {
     let pDev = PartitionDev (of_nat (ue_major ue)) (of_nat (ue_minor ue)) 0;
     let volId = VolIdFromDev pDev;
     setupRet \<leftarrow> CreateAndSetupVolume env diskId pDev False 0;
     if setupRet \<noteq> E_OK then ret ()
     else do {
       (uuid, type', label) \<leftarrow>
         (if st = EMPTY_DISC then do {
            v \<leftarrow> GetVolumeById volId;
            ret (GenerateRandomUuid (en_draw env) diskId, ''udf'', disc_label env v) }
          else do {
            (e, m) \<leftarrow> ReadAndUpdateMetadata env volId (BlockPathForId volId);
            ret m });
       u \<leftarrow> UpdateVolumeMetadata volId uuid type' label;
       d \<leftarrow> SetVolumeDiscState env volId st;
       if type' = [] then ret () else do { err \<leftarrow> Mount env volId MountParam_default; ret () } } }"

definition EjectAndDestroyCdrom :: "env \<Rightarrow> string \<Rightarrow> bool dmop" where
  "EjectAndDestroyCdrom env diskId = do {
     e \<leftarrow> Eject env diskId;
     if e \<noteq> E_OK then ret False else do { DestroyALLVolume env diskId; ret True } }"

definition FindMountedVolumePath :: "env \<Rightarrow> string \<Rightarrow> string dmop" where
  "FindMountedVolumePath env diskId = do {
     vols \<leftarrow> GetAllVolumes env;
     ret (case find (\<lambda>vol. \<not> (vc_diskId vol \<noteq> diskId \<or> vc_id vol = ''0'') \<and> vc_state vol = vs_code MOUNTED \<and> ve_path vol \<noteq> []) vols of
            None \<Rightarrow> [] | Some vol \<Rightarrow> ve_path vol) }"

definition CanEjectMountedCdrom :: "env \<Rightarrow> string \<Rightarrow> bool dmop" where
  "CanEjectMountedCdrom env mountPath = do {
     r \<leftarrow> invoke env (Sd_QueryUsbIsInUse mountPath);
     ret (if rp_err r \<noteq> E_OK then False else \<not> rp_flag r) }"

definition record_disc_state :: "env \<Rightarrow> string \<Rightarrow> CdromState \<Rightarrow> unit dmop" where
  "record_disc_state env diskId st = do {
     d \<leftarrow> GetDiskById env diskId;
     case d of
       Inl _ \<Rightarrow> ret ()
     | Inr disk \<Rightarrow> do { e \<leftarrow> UpdateDisk (disk\<lparr>d_cdromState := st\<rparr>); ret () } }"

definition TryEjectCdrom :: "env \<Rightarrow> string \<Rightarrow> unit dmop" where
  "TryEjectCdrom env diskId = do {
     d \<leftarrow> GetDiskById env diskId;
     case d of
       Inl _ \<Rightarrow> ret ()
     | Inr disk \<Rightarrow>
         if d_cdromState disk \<noteq> NON_EMPTY_DISC then do { b \<leftarrow> EjectAndDestroyCdrom env diskId; ret () }
         else do {
           mountPath \<leftarrow> FindMountedVolumePath env diskId;
           allowed \<leftarrow> (if mountPath \<noteq> [] then CanEjectMountedCdrom env mountPath else ret True);
           if \<not> allowed then do {
             st \<leftarrow> QueryCdromState env (BlockPathForId diskId);
             record_disc_state env diskId st }
           else do { b \<leftarrow> EjectAndDestroyCdrom env diskId; ret () } } }"

definition DiscoverSinglePartitionVolume4CD :: "env \<Rightarrow> UeventEnv \<Rightarrow> string \<Rightarrow> unit dmop" where
  "DiscoverSinglePartitionVolume4CD env ue diskId =
     (if ue_ejectRequest ue then TryEjectCdrom env diskId
      else do {
        st0 \<leftarrow> QueryCdromState env (BlockPathForId (DiskIdFrom (ue_major ue) (ue_minor ue)));
        if st0 = NO_DISC then DestroyALLVolume env diskId
        else do {
          st \<leftarrow> (if st0 = QUERY_FAILED then do {
                  r \<leftarrow> invoke env (Sd_ReadMetadata (BlockPathForId diskId));
                  ret (if rp_err r = E_OK \<and> rp_str 1 r \<noteq> [] then NON_EMPTY_DISC else NO_DISC) }
                else ret st0);
          if st = NO_DISC then DestroyALLVolume env diskId
          else do {
            record_disc_state env diskId st;
            HandleAddCD env ue diskId st } } })"

definition DiscoverCdromVolumes :: "env \<Rightarrow> UeventEnv \<Rightarrow> string \<Rightarrow> bool \<Rightarrow> errno dmop" where
  "DiscoverCdromVolumes env ue diskId publishNewDiskEvent = do {
     c \<leftarrow> invoke env (Sd_CreateBlockDeviceNode (BlockPathForId diskId) K_DISK_BLOCK_DEVICE_NODE_MODE
            (to_int32 (int (ue_major ue))) (to_int32 (int (ue_minor ue))));
     if rp_err c \<noteq> E_OK then ret (rp_err c)
     else do {
       known \<leftarrow> (if publishNewDiskEvent then ret False else HasDisk diskId);
       UpsertDiskAndPublishEvent env ue diskId (\<not> known) ''cd'';
       DiscoverSinglePartitionVolume4CD env ue diskId;
       ret E_OK } }"

subsection \<open>Events of a disk\<close>

definition PartitionKeyEqual :: "PartitionRecord \<Rightarrow> PartitionRecord \<Rightarrow> bool" where
  "PartitionKeyEqual a b \<longleftrightarrow> pr_partitionNumber a = pr_partitionNumber b \<and> pr_partitionType a = pr_partitionType b \<and>
     pr_fsTypeRaw a = pr_fsTypeRaw b"

definition ContainsPartition :: "PartitionRecord list \<Rightarrow> PartitionRecord \<Rightarrow> bool" where
  "ContainsPartition rs target = list_ex (\<lambda>r. PartitionKeyEqual r target) rs"

definition ComputePartitionDiff :: "string \<Rightarrow> PartitionRecord list \<Rightarrow> (PartitionRecord list \<times> PartitionRecord list) dmop" where
  "ComputePartitionDiff diskId newParts = do {
     snapshot \<leftarrow> gets diskPartsSnapshot;
     modify (diskPartsSnapshot_update (om_put diskId newParts));
     ret (case om_get snapshot diskId of
            None \<Rightarrow> (newParts, [])
          | Some old \<Rightarrow> (filter (\<lambda>np. \<not> ContainsPartition old np) newParts,
                         filter (\<lambda>op. \<not> ContainsPartition newParts op) old)) }"

definition ClearPartitionSnapshot :: "string \<Rightarrow> unit dmop" where
  "ClearPartitionSnapshot diskId = modify (diskPartsSnapshot_update (om_erase diskId))"

definition HandleDiskRemove :: "env \<Rightarrow> UeventEnv \<Rightarrow> errno dmop" where
  "HandleDiskRemove env ue = do {
     let diskId = DiskIdFrom (ue_major ue) (ue_minor ue);
     DestroyALLVolume env diskId;
     e \<leftarrow> DestroyALLDisk env diskId;
     if e \<noteq> E_OK then ret e else do { ClearPartitionSnapshot diskId; ret E_OK } }"

definition sync_volumes :: "env \<Rightarrow> UeventEnv \<Rightarrow> string \<Rightarrow> bool \<Rightarrow> PartitionRecord list \<Rightarrow> bool \<Rightarrow> string \<Rightarrow> errno dmop" where
  "sync_volumes env ue diskId publishNewDiskEvent parts isUserData tableType = do {
     partitioning \<leftarrow> IsPartitioning diskId;
     internal \<leftarrow> (if partitioning then IsInternalDataDiskById env diskId else ret False);
     if partitioning \<and> internal then do {
       for_each (DiscoverSinglePartitionVolume env ue diskId isUserData) parts;
       ret E_OK }
     else do {
       (addedParts, removedParts) \<leftarrow> ComputePartitionDiff diskId parts;
       for_each (\<lambda>rp. do {
         b \<leftarrow> DestroyVolumeByDiskIdAndPartNum env diskId (to_int32 (int (pr_partitionNumber rp))); ret () }) removedParts;
       for_each (DiscoverSinglePartitionVolume env ue diskId isUserData) addedParts;
       (if parts = [] \<and> (publishNewDiskEvent \<or> removedParts \<noteq> [])
        then DiscoverWholeDiskVolume env ue diskId isUserData tableType else ret ());
       ret E_OK } }"

definition DiscoverPartitionsAndVolumes :: "env \<Rightarrow> UeventEnv \<Rightarrow> bool \<Rightarrow> errno dmop" where
  "DiscoverPartitionsAndVolumes env ue publishNewDiskEvent = do {
     let diskId = DiskIdFrom (ue_major ue) (ue_minor ue);
     if ue_major ue = DISK_CD_MAJOR then DiscoverCdromVolumes env ue diskId publishNewDiskEvent
     else do {
       (err, parts, isUserData, tableType) \<leftarrow> BuildAndSyncPartitions env ue diskId (BlockPathForId diskId);
       if err = E_STORAGE_VALID_NODE then do {
         UpsertDiskAndPublishEvent env ue diskId publishNewDiskEvent tableType;
         internal \<leftarrow> IsInternalDataDiskById env diskId;
         partitioning \<leftarrow> IsPartitioning diskId;
         (if \<not> internal \<and> \<not> partitioning then PublishDiskAbnormal diskId (reason_code PARTITION_TABLE_READ_FAILED) else ret ());
         ret E_OK }
       else if err \<noteq> E_OK then do {
         (if \<not> publishNewDiskEvent then do { DestroyALLVolume env diskId; ClearPartitionSnapshot diskId } else ret ());
         ret err }
       else do {
         UpsertDiskAndPublishEvent env ue diskId publishNewDiskEvent tableType;
         sync_volumes env ue diskId publishNewDiskEvent parts isUserData tableType } } }"

definition HandleDiskAdd :: "env \<Rightarrow> UeventEnv \<Rightarrow> errno dmop" where
  "HandleDiskAdd env ue = do {
     known \<leftarrow> HasDisk (DiskIdFrom (ue_major ue) (ue_minor ue));
     DiscoverPartitionsAndVolumes env ue (\<not> known) }"

definition HandleDiskChange :: "env \<Rightarrow> UeventEnv \<Rightarrow> errno dmop" where
  "HandleDiskChange env ue = do {
     let diskId = DiskIdFrom (ue_major ue) (ue_minor ue);
     partitioning \<leftarrow> IsPartitioning diskId;
     internal \<leftarrow> (if partitioning then IsInternalDataDiskById env diskId else ret False);
     if partitioning \<and> internal then ret E_OK
     else do {
       known \<leftarrow> HasDisk diskId;
       e \<leftarrow> DiscoverPartitionsAndVolumes env ue (\<not> known);
       NotifyPartitionDone diskId;
       ret e } }"

text \<open>The action is dispatched by the same hash as the keys of the event (\<open>ActionHash\<close> of the source).\<close>

definition OnBlockDiskUevent :: "env \<Rightarrow> string \<Rightarrow> errno dmop" where
  "OnBlockDiskUevent env rawUeventMsg =
     (let (parsed, ue) = UeventEnv_Parse rawUeventMsg in
      if \<not> parsed then ret E_UEVENT_PARSE_FAILED
      else if \<not> IsBlockDiskEvent ue then ret E_OK
      else if KeyHash (ue_action ue) = KeyHash ''remove'' then HandleDiskRemove env ue
      else if KeyHash (ue_action ue) = KeyHash ''add'' then HandleDiskAdd env ue
      else if KeyHash (ue_action ue) = KeyHash ''change'' then HandleDiskChange env ue
      else ret E_OK)"

text \<open>\<open>None\<close> is the exception of \<open>ParseDiskIdToMajMin\<close>.\<close>

definition RediscoverDiskVolumes :: "env \<Rightarrow> string \<Rightarrow> errno option dmop" where
  "RediscoverDiskVolumes env diskId =
     (case ParseDiskIdToMajMin diskId of
        None \<Rightarrow> ret None
      | Some (maj, mnr) \<Rightarrow> do {
          e \<leftarrow> DiscoverPartitionsAndVolumes env
                 (UeventEnv_default\<lparr>ue_action := ''change'', ue_major := maj, ue_minor := mnr\<rparr>) False;
          ret (Some e) })"

definition Partition :: "env \<Rightarrow> string \<Rightarrow> int \<Rightarrow> errno option dmop" where
  "Partition env diskId type' = do {
     sup \<leftarrow> IsDiskSupported env diskId;
     if sup \<noteq> E_OK then ret (Some sup)
     else do {
       busy \<leftarrow> IsDiskNotReady env diskId;
       if busy then ret (Some E_VOL_STATE)
       else do {
         AddPartitioningDisk diskId;
         e \<leftarrow> PurgeVolumesForDisk env diskId;
         if e \<noteq> E_OK then do { RemovePartitioningDisk diskId; ret (Some e) }
         else do {
           r \<leftarrow> invoke env (Sd_Partition (NormalizeDiskBlockPath diskId) ''hmfs'');
           if rp_err r \<noteq> E_OK then do { RemovePartitioningDisk diskId; ret (Some (rp_err r)) }
           else do {
             d \<leftarrow> RediscoverDiskVolumes env diskId;
             (case d of None \<Rightarrow> ret () | Some _ \<Rightarrow> RemovePartitioningDisk diskId);
             ret d } } } } }"

section \<open>Invariants\<close>

context handler_invariant
begin

lemma keeps_sysfs [keeps_ops]:
  "keeps I (ReadSysfsFile env p)" "keeps I (ReadSubsystemSymlink env p)" "keeps I (ReadUeventField env p n)" "keeps I (HasUeventFile env p)"
  by (auto simp: ReadSysfsFile_def ReadSubsystemSymlink_def ReadUeventField_def HasUeventFile_def Let_def intro!: keeps_rules)

lemma keeps_usb_attrs [keeps_ops]: "keeps I (read_usb_attrs env p)"
  by (auto simp: read_usb_attrs_def intro!: keeps_rules keeps_ops)

lemma keeps_walk_up [keeps_ops]: "keeps I (walk_up env ps)"
  by (induction ps) (auto intro!: keeps_rules keeps_ops)

lemma keeps_ReadUsbInfo [keeps_ops]: "keeps I (ReadUsbInfo env p n)"
  by (auto simp: ReadUsbInfo_def WalkUpAndReadUsbAttrs_def Let_def intro!: keeps_rules keeps_ops)

lemma keeps_flag [keeps_ops]: "keeps I (ResolveInitialDiskFlag env ue)"
  by (auto simp: ResolveInitialDiskFlag_def MatchConfig_def Let_def intro!: keeps_rules)

lemma keeps_max_minor: "keeps I (max_minor_loop env ma ns m)"
  by (induction ns arbitrary: m) (auto simp: node_minor_def Let_def intro!: keeps_rules)

lemma keeps_boot_reads [keeps_ops]:
  "keeps I (QueryCdromState env p)" "keeps I (BuildAndSyncPartitions env ue k p)" "keeps I (IsInternalDataDiskById env k)"
  "keeps I (GetMaxMinor env ma)" "keeps I (TryLoadBlockInfoForVolume env d)" "keeps I (CreateDmLinearForPartition env n i)"
  "keeps I (FindMountedVolumePath env k)" "keeps I (CanEjectMountedCdrom env p)"
  by (auto simp: QueryCdromState_def BuildAndSyncPartitions_def ReplacePartitionsForDisk_def IsInternalDataDiskById_def
      GetMaxMinor_def TryLoadBlockInfoForVolume_def CreateDmLinearForPartition_def FindMountedVolumePath_def
      CanEjectMountedCdrom_def Let_def keeps_max_minor intro!: keeps_rules keeps_ops)

lemma keeps_ResolvePartitionDev [keeps_ops]: "keeps I (ResolvePartitionDev env ue k p b)"
  by (auto simp: ResolvePartitionDev_def Let_def intro!: keeps_rules keeps_ops)

lemma keeps_abnormal [keeps_ops]: "k \<in> K W_state \<Longrightarrow> keeps I (EvaluateVolumeMetadataAbnormal k b u t e)"
  by (auto simp: EvaluateVolumeMetadataAbnormal_def Let_def intro!: keeps_rules keeps_ops)

lemma keeps_metadata [keeps_ops]: "k \<in> K W_any \<Longrightarrow> keeps I (ReadAndUpdateMetadata env k p)"
  by (auto simp: ReadAndUpdateMetadata_def Let_def intro!: keeps_rules keeps_ops)

lemma keeps_CreateAndSetupVolume [keeps_ops]:
  "VolIdFromDev dv \<in> K W_entry \<Longrightarrow> keeps I (CreateAndSetupVolume env d dv b n)"
  by (auto simp: CreateAndSetupVolume_def Let_def intro!: keeps_rules keeps_ops split: option.splits)

lemma keeps_destroy_volume:
  assumes "vc_id v \<in> K W_erase" "\<And>l. crypt_volume_id l \<in> K W_erase" "K W_any = UNIV" "K W_eject = UNIV" "K W_state = UNIV"
  shows "keeps I (destroy_volume env v)"
  using assms by (auto simp: destroy_volume_def intro!: keeps_rules keeps_ops)

end

context service_invariant
begin

lemma keeps_destroy [keeps_ops]: "keeps I (DestroyALLVolume env k)" "keeps I (DestroyALLDisk env k)"
  by (auto simp: DestroyALLVolume_def DestroyALLDisk_def intro!: service_rules keeps_ops keeps_destroy_volume)

lemma keeps_Upsert [keeps_ops]: "keeps I (UpsertDiskAndPublishEvent env ue k b t)"
  by (auto simp: UpsertDiskAndPublishEvent_def Let_def intro!: service_rules keeps_ops D_classified)

lemma keeps_MountDiscovered [keeps_ops]: "keeps I (MountDiscoveredVolume env k d b u t)"
  by (auto simp: MountDiscoveredVolume_def intro!: service_rules keeps_ops)

lemma keeps_discover [keeps_ops]:
  "keeps I (DiscoverSinglePartitionVolume env ue k b p)" "keeps I (DiscoverWholeDiskVolume env ue k b t)"
  "keeps I (HandleAddCD env ue k st)" "keeps I (EjectAndDestroyCdrom env k)"
  by (auto simp: DiscoverSinglePartitionVolume_def DiscoverWholeDiskVolume_def HandleAddCD_def EjectAndDestroyCdrom_def Let_def
      intro!: service_rules keeps_ops)

lemma D_disc: "D d \<Longrightarrow> D (d\<lparr>d_cdromState := st\<rparr>)"
  by (erule D_cong) simp_all

lemma keeps_disc_state [keeps_ops]: "keeps I (record_disc_state env k st)"
  unfolding record_disc_state_def by (rule bind_GetDiskById) (auto intro!: ensures_intros keeps_disk_ops D_disc)

lemma keeps_TryEject [keeps_ops]: "keeps I (TryEjectCdrom env k)"
  by (auto simp: TryEjectCdrom_def intro!: service_rules keeps_ops)

lemma keeps_4CD [keeps_ops]: "keeps I (DiscoverSinglePartitionVolume4CD env ue k)"
  by (auto simp: DiscoverSinglePartitionVolume4CD_def intro!: service_rules keeps_ops)

lemma keeps_sync [keeps_ops]:
  "keeps I (DiscoverCdromVolumes env ue k b)" "keeps I (ComputePartitionDiff k ps)" "keeps I (ClearPartitionSnapshot k)"
  by (auto simp: DiscoverCdromVolumes_def ComputePartitionDiff_def ClearPartitionSnapshot_def intro!: service_rules keeps_ops)

lemma keeps_sync_volumes [keeps_ops]: "keeps I (sync_volumes env ue k b ps ud t)"
  by (auto simp: sync_volumes_def intro!: service_rules keeps_ops)

lemma keeps_discover_all [keeps_ops]: "keeps I (DiscoverPartitionsAndVolumes env ue b)"
  by (auto simp: DiscoverPartitionsAndVolumes_def Let_def intro!: service_rules keeps_ops)

lemma keeps_disk_events [keeps_ops]:
  "keeps I (HandleDiskRemove env ue)" "keeps I (HandleDiskAdd env ue)" "keeps I (HandleDiskChange env ue)"
  by (auto simp: HandleDiskRemove_def HandleDiskAdd_def HandleDiskChange_def Let_def intro!: service_rules keeps_ops)

lemma keeps_uevent [keeps_ops]: "keeps I (OnBlockDiskUevent env raw)"
  by (auto simp: OnBlockDiskUevent_def intro!: service_rules keeps_ops)

lemma keeps_Partition [keeps_ops]: "keeps I (RediscoverDiskVolumes env k)" "keeps I (Partition env k ty)"
proof -
  show "keeps I (RediscoverDiskVolumes env k)" for k
    by (auto simp: RediscoverDiskVolumes_def intro!: service_rules keeps_ops)
  then show "keeps I (Partition env k ty)"
    by (auto simp: Partition_def intro!: service_rules keeps_ops)
qed

lemma keeps_Init [keeps_ops]: "keeps I (UeventBootstrap_Init env)"
  by (auto simp: UeventBootstrap_Init_def ParasConfig_def ParasConfigFile_def intro!: service_rules)

end

section \<open>The difference of two partition lists\<close>

definition part_key :: "PartitionRecord \<Rightarrow> nat \<times> string \<times> string" where
  "part_key p = (pr_partitionNumber p, pr_partitionType p, pr_fsTypeRaw p)"

lemma ContainsPartition_iff: "ContainsPartition rs p \<longleftrightarrow> part_key p \<in> part_key ` set rs"
  by (simp add: ContainsPartition_def PartitionKeyEqual_def part_key_def list_ex_iff image_iff) metis

text \<open>
  C26: \<open>ComputePartitionDiff\<close> splits the change of the partition list: the keys (number, type, file system) of the
  new list are those of the recorded list without the removed and with the added ones, nothing added was
  there before, nothing removed is still there. The new list is recorded and nothing else changes; seen
  again, the same list is no change.
\<close>

theorem ComputePartitionDiff_spec:
  "case run_state (ComputePartitionDiff diskId new) s of ((added, removed), t) \<Rightarrow>
     let old = (case om_get (diskPartsSnapshot s) diskId of None \<Rightarrow> [] | Some ps \<Rightarrow> ps) in
     part_key ` set new = (part_key ` set old - part_key ` set removed) \<union> part_key ` set added \<and>
     part_key ` set added \<inter> part_key ` set old = {} \<and> part_key ` set removed \<inter> part_key ` set new = {} \<and>
     set added \<subseteq> set new \<and> set removed \<subseteq> set old \<and>
     t = s\<lparr>diskPartsSnapshot := om_put diskId new (diskPartsSnapshot s)\<rparr> \<and>
     fst (run_state (ComputePartitionDiff diskId new) t) = ([], [])"
proof (cases "om_get (diskPartsSnapshot s) diskId")
  case None
  then show ?thesis by (simp add: ComputePartitionDiff_def ContainsPartition_iff filter_empty_conv)
next
  case (Some old)
  have split: "part_key ` set new = (part_key ` set old - part_key ` {p \<in> set old. part_key p \<notin> part_key ` set new}) \<union>
      part_key ` {p \<in> set new. part_key p \<notin> part_key ` set old}"
    "part_key ` {p \<in> set new. part_key p \<notin> part_key ` set old} \<inter> part_key ` set old = {}"
    "part_key ` {p \<in> set old. part_key p \<notin> part_key ` set new} \<inter> part_key ` set new = {}"
    by blast+
  then show ?thesis using Some by (simp add: ComputePartitionDiff_def ContainsPartition_iff filter_empty_conv)
qed

section \<open>Removal of a disk\<close>

text \<open>While the volumes of a disk are destroyed: the disks stay, the volumes of \<open>gone\<close> are away, those of \<open>stay\<close> are not.\<close>

definition removal_inv :: "dm \<Rightarrow> string set \<Rightarrow> string set \<Rightarrow> dm \<Rightarrow> bool" where
  "removal_inv s0 gone stay s \<longleftrightarrow> registry_inv s \<and> diskMap s = diskMap s0 \<and> diskPartsSnapshot s = diskPartsSnapshot s0 \<and>
     (\<forall>k \<in> gone. om_get (volumeMap s) k = None) \<and> (\<forall>k \<in> stay. om_get (volumeMap s) k \<noteq> None)"

definition removal_writes :: "string set \<Rightarrow> wkind \<Rightarrow> string set" where
  "removal_writes stay w = (case w of W_erase \<Rightarrow> - stay | W_entry \<Rightarrow> {} | _ \<Rightarrow> UNIV)"

lemma removal_adjust:
  "(\<And>v. vc_id v = k \<Longrightarrow> vc_id (g v) = k) \<Longrightarrow> keeps (removal_inv s0 gone stay) (modify (volumeMap_update (om_mod k g)))"
  by (auto simp: ensures_def removal_inv_def registry_inv_def volumes.keyed_adjust)

lemma removal_handler:
  assumes "quiet env"
  shows "handler_invariant env (removal_inv s0 gone stay) (removal_writes stay)"
proof
  show "keeps (removal_inv s0 gone stay) (invoke env c)" for c
    using assms by (simp add: ensures_def removal_inv_def run_invoke_quiet reg.trace_irrelevant)
  show "keeps (removal_inv s0 gone stay) (modify (volumeMap_update (om_erase k)))" if "k \<in> removal_writes stay W_erase" for k
    using that by (auto simp: ensures_def removal_inv_def removal_writes_def registry_inv_def volumes.keyed_erase)
  show "vc_id v = k" if "removal_inv s0 gone stay s" "om_get (volumeMap s) k = Some v" for s k v
    using that registry_volume by (auto simp: removal_inv_def)
qed (auto simp: removal_writes_def reg.store_irrelevant intro: removal_adjust,
  auto simp: ensures_def removal_inv_def registry_inv_def)

text \<open>\<open>removes p\<close> says whether the daemon removes the device node \<open>p\<close>; the service asks once for each node.\<close>

definition removes_nodes :: "env \<Rightarrow> (string \<Rightarrow> bool) \<Rightarrow> bool" where
  "removes_nodes env removes \<longleftrightarrow>
     (\<forall>h p. rp_err (en_reply env h (Sd_DestroyBlockDeviceNode p)) = E_OK \<longleftrightarrow> removes p)"

lemma invoke_destroy:
  "removes_nodes env removes \<Longrightarrow> run_state (invoke env (Sd_DestroyBlockDeviceNode p)) s = (r, t) \<Longrightarrow> rp_err r = E_OK \<longleftrightarrow> removes p"
  by (auto simp: run_invoke removes_nodes_def)

lemma destroy_volume_stays:
  assumes quiet: "quiet env" and nodes: "removes_nodes env removes" "\<not> removes (BlockPathForId (vc_id v))"
    and unmounted: "vc_state v = vs_code UNMOUNTED" and crypt: "\<And>l. crypt_volume_id l \<notin> stay"
    and inv: "removal_inv s0 gone stay s" and run: "run_state (destroy_volume env v) s = ((), t)"
  shows "removal_inv s0 gone stay t"
proof -
  note h = removal_handler[OF quiet, of s0 gone stay]
  define m where "m = (if ve_mapperPath v \<noteq> [] then do { e \<leftarrow> DestroyDmCryptVolume env (base_name (ve_mapperPath v)); ret () } else ret ())"
  define n where "n = (if ve_loopPath v \<noteq> [] then do { e \<leftarrow> UnbindBlockLoopDev env (ve_loopPath v); ret () } else ret ())"
  have "keeps (removal_inv s0 gone stay) m" "keeps (removal_inv s0 gone stay) n"
    using crypt by (auto simp: m_def n_def removal_writes_def intro!: ensures_intros handler_invariant.keeps_containers[OF h])
  moreover obtain s1 where 1: "run_state m s = ((), s1)" by (metis prod.exhaust old.unit.exhaust)
  moreover obtain s2 where 2: "run_state n s1 = ((), s2)" by (metis prod.exhaust old.unit.exhaust)
  ultimately have s2: "removal_inv s0 gone stay s2" using inv ensuresD by metis
  obtain r s3 where 3: "run_state (invoke env (Sd_DestroyBlockDeviceNode (BlockPathForId (vc_id v)))) s2 = (r, s3)" by fastforce
  have "t = s3" using run unmounted 1 2 3 invoke_destroy[OF nodes(1) 3] nodes(2)
    by (auto simp: destroy_volume_def m_def n_def split: if_splits prod.splits)
  then show ?thesis using ensuresD[OF handler_invariant.keeps_invoke[OF h] s2 3] by simp
qed

lemma destroy_volume_gone:
  assumes quiet: "quiet env" and nodes: "removes_nodes env removes" and crypt: "\<And>l. crypt_volume_id l \<notin> stay"
    and stay: "vc_id v \<in> stay \<Longrightarrow> vc_state v = vs_code UNMOUNTED \<and> \<not> removes (BlockPathForId (vc_id v))"
    and inv: "removal_inv s0 gone stay s" and run: "run_state (destroy_volume env v) s = ((), t)"
  shows "removal_inv s0 (if removes (BlockPathForId (vc_id v)) then insert (vc_id v) gone else gone) stay t"
proof (cases "vc_id v \<in> stay")
  case True
  with stay show ?thesis using destroy_volume_stays[OF quiet nodes _ _ crypt inv run] by simp
next
  case False
  have "keeps (removal_inv s0 gone stay) (destroy_volume env v)"
    by (rule handler_invariant.keeps_destroy_volume[OF removal_handler[OF quiet]])
      (use False crypt in \<open>auto simp: removal_writes_def\<close>)
  from ensuresD[OF this inv run] have "removal_inv s0 gone stay t" by simp
  moreover have "om_get (volumeMap t) (vc_id v) = None" if "removes (BlockPathForId (vc_id v))"
    using run that nodes
    by (auto simp: destroy_volume_def OnVolumeDestroyed_def run_invoke removes_nodes_def split: prod.splits if_splits)
  ultimately show ?thesis by (simp add: removal_inv_def)
qed

lemma destroy_volumes_gone:
  assumes quiet: "quiet env" and nodes: "removes_nodes env removes" and crypt: "\<And>l. crypt_volume_id l \<notin> stay"
  shows "removal_inv s0 gone stay s \<Longrightarrow>
    \<forall>v \<in> set vs. vc_id v \<in> stay \<longrightarrow> vc_state v = vs_code UNMOUNTED \<and> \<not> removes (BlockPathForId (vc_id v)) \<Longrightarrow>
    run_state (for_each (destroy_volume env) vs) s = ((), t) \<Longrightarrow>
    removal_inv s0 ({k \<in> vc_id ` set vs. removes (BlockPathForId k)} \<union> gone) stay t"
proof (induction vs arbitrary: gone s)
  case (Cons v vs)
  obtain s1 where 1: "run_state (destroy_volume env v) s = ((), s1)" by (metis prod.exhaust old.unit.exhaust)
  let ?gone = "if removes (BlockPathForId (vc_id v)) then insert (vc_id v) gone else gone"
  have "removal_inv s0 ?gone stay s1"
    using destroy_volume_gone[OF quiet nodes crypt _ Cons.prems(1) 1] Cons.prems(2) by auto
  from Cons.IH[OF this] Cons.prems(2,3) 1
  have "removal_inv s0 ({k \<in> vc_id ` set vs. removes (BlockPathForId k)} \<union> ?gone) stay t" by auto
  moreover have "{k \<in> vc_id ` set (v # vs). removes (BlockPathForId k)} \<union> gone = {k \<in> vc_id ` set vs. removes (BlockPathForId k)} \<union> ?gone"
    by auto
  ultimately show ?case by simp
qed simp

lemma om_erase_absent: "om_get m k = None \<Longrightarrow> om_erase k m = m"
  by (force simp: om_erase_def filter_id_conv map_of_eq_None_iff)

lemma all_volumes_of_disk:
  "filter (\<lambda>vol. vc_diskId vol = k \<and> vc_id vol \<noteq> ''0'') (fst (run_state (GetAllVolumes env) s)) =
     filter (\<lambda>vol. vc_diskId vol = k \<and> vc_id vol \<noteq> ''0'') (map snd (volumeMap s))"
  by (simp add: GetAllVolumes_def Let_def filter_empty_conv cd_pseudo_volume_def VolumeCore_ctor6_def)

definition volume_of :: "dm \<Rightarrow> string \<Rightarrow> string \<Rightarrow> bool" where
  "volume_of s diskId k \<longleftrightarrow> k \<noteq> ''0'' \<and> (\<exists>v. om_get (volumeMap s) k = Some v \<and> vc_diskId v = diskId)"

text \<open>A recorded volume surely stays if it is no container and either not of the disk or unmounted with a node that is not removed.\<close>

definition surely_stays :: "dm \<Rightarrow> string \<Rightarrow> (string \<Rightarrow> bool) \<Rightarrow> string \<Rightarrow> bool" where
  "surely_stays s diskId removes k \<longleftrightarrow> \<not> starts_with ''vol-crypt-'' k \<and>
     (\<exists>v. om_get (volumeMap s) k = Some v \<and>
        (volume_of s diskId k \<longrightarrow> vc_state v = vs_code UNMOUNTED \<and> \<not> removes (BlockPathForId k)))"

lemma DestroyALLVolume_gone:
  assumes quiet: "quiet env" and nodes: "removes_nodes env removes"
    and inv: "registry_inv s" and run: "run_state (DestroyALLVolume env diskId) s = ((), t)"
  shows "removal_inv s ({k. volume_of s diskId k \<and> removes (BlockPathForId k)} \<union> - dom (om_get (volumeMap s)))
    (Collect (surely_stays s diskId removes)) t"
proof -
  let ?stay = "Collect (surely_stays s diskId removes)"
  let ?vs = "filter (\<lambda>vol. vc_diskId vol = diskId \<and> vc_id vol \<noteq> ''0'') (map snd (volumeMap s))"
  have wf: "om_wf (volumeMap s)" using registry_wf[OF inv] by simp
  have mem: "v \<in> set (map snd (volumeMap s)) \<longleftrightarrow> om_get (volumeMap s) (vc_id v) = Some v" for v
    using om_get_iff[OF wf] registry_volume[OF inv] by (metis (no_types, lifting) image_iff list.set_map prod.collapse snd_conv)
  have vs: "set ?vs = {v. om_get (volumeMap s) (vc_id v) = Some v \<and> vc_diskId v = diskId \<and> vc_id v \<noteq> ''0''}"
    by (simp only: set_filter mem)
  have "k \<in> vc_id ` set ?vs \<longleftrightarrow> volume_of s diskId k" for k
    unfolding vs volume_of_def using registry_volume[OF inv, of k] by (force simp: image_iff)
  then have ids: "{k \<in> vc_id ` set ?vs. removes (BlockPathForId k)} = {k. volume_of s diskId k \<and> removes (BlockPathForId k)}"
    by blast
  have crypt: "crypt_volume_id l \<notin> ?stay" for l by (simp add: surely_stays_def crypt_volume_id_def)
  have loop: "run_state (for_each (destroy_volume env) ?vs) s = ((), t)"
    using run all_volumes_of_disk[of diskId env s] by (simp add: DestroyALLVolume_def GetAllVolumes_def Let_def)
  have start: "removal_inv s (- dom (om_get (volumeMap s))) ?stay s" using inv by (auto simp: removal_inv_def surely_stays_def)
  have "\<forall>v \<in> set ?vs. vc_id v \<in> ?stay \<longrightarrow> vc_state v = vs_code UNMOUNTED \<and> \<not> removes (BlockPathForId (vc_id v))"
    unfolding vs by (auto simp: surely_stays_def volume_of_def)
  from destroy_volumes_gone[OF quiet nodes crypt start this loop] show ?thesis unfolding ids .
qed

text \<open>
  C13: When a disk is unplugged and no other thread interferes; for each device node the daemon may remove it or
  fail to. If it removes the node of the disk, the disk and its partition list are forgotten and the others are
  as they were; otherwise the error is reported and all disks and partition lists are kept. A volume of the disk whose
  node was removed is forgotten. A volume stays recorded if it is of another disk, or unmounted with a node that
  was not removed, encrypted containers apart; so do the pseudo-volumes with the identifier 0. No volume is
  invented.
\<close>

theorem HandleDiskRemove_spec:
  assumes quiet: "quiet env" and nodes: "removes_nodes env removes"
    and inv: "registry_inv s" and run: "run_state (HandleDiskRemove env ue) s = (e, t)"
    and id: "diskId = DiskIdFrom (ue_major ue) (ue_minor ue)"
  shows "registry_inv t \<and>
    (if removes (BlockPathForId diskId)
     then e = E_OK \<and> (\<forall>k. om_get (diskPartsSnapshot t) k = (if k = diskId then None else om_get (diskPartsSnapshot s) k)) \<and>
       (\<forall>k. om_get (diskMap t) k = (if k = diskId then None else om_get (diskMap s) k))
     else e = E_DESTROY_DEVICE_NODE \<and> diskPartsSnapshot t = diskPartsSnapshot s \<and> diskMap t = diskMap s) \<and>
    (\<forall>k. case om_get (volumeMap s) k of
       None \<Rightarrow> om_get (volumeMap t) k = None
     | Some v \<Rightarrow>
         if vc_diskId v = diskId \<and> k \<noteq> ''0''
         then if removes (BlockPathForId k) then om_get (volumeMap t) k = None
              else starts_with ''vol-crypt-'' k \<or> vc_state v \<noteq> vs_code UNMOUNTED \<or> om_get (volumeMap t) k \<noteq> None
         else starts_with ''vol-crypt-'' k \<or> om_get (volumeMap t) k \<noteq> None)"
proof -
  let ?gone = "{k. volume_of s diskId k \<and> removes (BlockPathForId k)} \<union> - dom (om_get (volumeMap s))"
  let ?stay = "Collect (surely_stays s diskId removes)"
  note h = removal_handler[OF quiet, of s ?gone ?stay]
  obtain s1 where 1: "run_state (DestroyALLVolume env diskId) s = ((), s1)" by (metis prod.exhaust old.unit.exhaust)
  have s1: "removal_inv s ?gone ?stay s1" by (rule DestroyALLVolume_gone[OF quiet nodes inv 1])
  obtain r s2 where 2: "run_state (invoke env (Sd_DestroyBlockDeviceNode (BlockPathForId diskId))) s1 = (r, s2)" by fastforce
  have s2: "removal_inv s ?gone ?stay s2" using ensuresD[OF handler_invariant.keeps_invoke[OF h] s1 2] by simp
  obtain d s3 where 3: "run_state (GetDiskById env diskId) s2 = (d, s3)" by fastforce
  have s3: "removal_inv s ?gone ?stay s3" using ensuresD[OF handler_invariant.keeps_listings(1)[OF h] s2 3] by simp
  note ok = invoke_destroy[OF nodes 2] and run' = run[unfolded HandleDiskRemove_def Let_def, folded id]
  have vols: "case om_get (volumeMap s) k of
       None \<Rightarrow> om_get (volumeMap u) k = None
     | Some v \<Rightarrow>
         if vc_diskId v = diskId \<and> k \<noteq> ''0''
         then if removes (BlockPathForId k) then om_get (volumeMap u) k = None
              else starts_with ''vol-crypt-'' k \<or> vc_state v \<noteq> vs_code UNMOUNTED \<or> om_get (volumeMap u) k \<noteq> None
         else starts_with ''vol-crypt-'' k \<or> om_get (volumeMap u) k \<noteq> None" if "removal_inv s ?gone ?stay u" for u k
    using that by (auto simp: removal_inv_def volume_of_def surely_stays_def dom_def split: option.splits)
  show ?thesis
  proof (cases "removes (BlockPathForId diskId)")
    case True
    have t: "e = E_OK" "diskMap t = om_erase diskId (diskMap s3)" "volumeMap t = volumeMap s3"
      "diskPartsSnapshot t = om_erase diskId (diskPartsSnapshot s3)"
      using run' 1 2 3 ok True
      by (auto simp: DestroyALLDisk_def OnDiskDestroyed_def ClearPartitionSnapshot_def PublishDiskChange_def om_erase_absent
          split: if_splits sum.splits)
    have "registry_inv t" using s3 disks.keyed_erase[of "diskMap s3" diskId] unfolding removal_inv_def registry_inv_def t by blast
    moreover have "diskMap s3 = diskMap s" "diskPartsSnapshot s3 = diskPartsSnapshot s" using s3 unfolding removal_inv_def by blast+
    ultimately show ?thesis using vols[OF s3, folded t(3)] True t by simp
  next
    case False
    with run' 1 2 ok have t: "e = E_DESTROY_DEVICE_NODE" "t = s2" by (auto simp: DestroyALLDisk_def split: if_splits)
    from s2 have "registry_inv t" "diskMap t = diskMap s" "diskPartsSnapshot t = diskPartsSnapshot s"
      unfolding removal_inv_def t by blast+
    with vols[OF s2, folded t(2)] t(1) show ?thesis unfolding if_not_P[OF False] by blast
  qed
qed

text \<open>A daemon that removes the node of the volume and fails on that of the disk.\<close>

definition half_removed :: "item list \<Rightarrow> call \<Rightarrow> reply" where
  "half_removed h c = (if c = Sd_DestroyBlockDeviceNode ''/dev/block/disk-8-0'' then ok_reply\<lparr>rp_err := 5\<rparr> else ok_reply)"

theorem HandleDiskRemove_spec_witness:
  "let r = run_state (HandleDiskRemove (calm half_removed) (UeventEnv_default\<lparr>ue_major := 8\<rparr>)) two_disks in
     fst r = E_DESTROY_DEVICE_NODE \<and> diskMap (snd r) = diskMap two_disks \<and>
     om_get (volumeMap (snd r)) ''vol-8-1'' = None \<and> om_get (volumeMap (snd r)) ''vol-259-1'' \<noteq> None"
proof -
  let ?ue = "UeventEnv_default\<lparr>ue_major := 8\<rparr>" and ?path = "''/dev/block/disk-8-0''"
  have id: "''disk-8-0'' = DiskIdFrom (ue_major ?ue) (ue_minor ?ue)" by code_simp
  have nodes: "removes_nodes (calm half_removed) (\<lambda>p. p \<noteq> ?path)"
    by (simp add: removes_nodes_def calm_def half_removed_def ok_reply_def)
  note removed = HandleDiskRemove_spec[OF quiet_calm nodes two_disks_inv prod.collapse[symmetric] id]
  have "\<not> BlockPathForId ''disk-8-0'' \<noteq> ?path" by (simp add: BlockPathForId_def)
  note disk = removed[THEN conjunct2, THEN conjunct1, unfolded if_not_P[OF this]]
  note vols = removed[THEN conjunct2, THEN conjunct2, THEN spec]
  from disk vols[of "''vol-8-1''"] vols[of "''vol-259-1''"] show ?thesis
    by (simp add: Let_def two_disks_def BlockPathForId_def)
qed

section \<open>Discs in use\<close>

definition watched :: "(call \<Rightarrow> bool) \<Rightarrow> item \<Rightarrow> bool" where
  "watched P it = (case it of Call c r \<Rightarrow> P c | _ \<Rightarrow> False)"

definition is_eject :: "call \<Rightarrow> bool" where
  "is_eject c \<longleftrightarrow> (\<exists>p. c = Sd_Eject p)"

text \<open>The volumes are those of \<open>s0\<close> and none of the watched calls was made since.\<close>

definition undisturbed :: "(call \<Rightarrow> bool) \<Rightarrow> dm \<Rightarrow> dm \<Rightarrow> bool" where
  "undisturbed P s0 s \<longleftrightarrow> volumeMap s = volumeMap s0 \<and> filter (watched P) (trace s) = filter (watched P) (trace s0)"

lemma undisturbed_refl: "undisturbed P s s"
  by (simp add: undisturbed_def)

lemma undisturbed_invoke: "quiet env \<Longrightarrow> \<not> P c \<Longrightarrow> keeps (undisturbed P s0) (invoke env c)"
  by (auto simp: ensures_def undisturbed_def run_invoke_quiet watched_def)

lemma undisturbed_disk:
  "quiet env \<Longrightarrow> (\<And>p. \<not> P (Lib_QueryEncryptionStatus p)) \<Longrightarrow> keeps (undisturbed P s0) (GetDiskById env k)"
  by (auto simp: GetDiskById_def attach_and_query_def QueryAndAppendEncryptionStatusUnlocked_def QueryEncryptionStatus_def
      TryCopyByDiskId_def Let_def intro!: ensures_intros undisturbed_invoke)

lemma undisturbed_record: "quiet env \<Longrightarrow> keeps (undisturbed is_eject s0) (record_disc_state env k st)"
proof -
  have "keeps (undisturbed is_eject s0) (modify (diskMap_update f))" for f by (simp add: ensures_def undisturbed_def)
  then show "quiet env \<Longrightarrow> keeps (undisturbed is_eject s0) (record_disc_state env k st)"
    by (auto simp: record_disc_state_def UpdateDisk_def is_eject_def intro!: ensures_intros undisturbed_disk)
qed

lemma GetDiskById_disc_state:
  assumes "run_state (GetDiskById env k) s = (r, t)" "om_get (diskMap s) k = Some d"
  shows "\<exists>d'. r = Inr d' \<and> d_cdromState d' = d_cdromState d"
  using assms
  by (auto simp: GetDiskById_def attach_and_query_def QueryAndAppendEncryptionStatusUnlocked_def AttachVolumeIdsToDisk_def
      TryCopyByDiskId_def Let_def split: prod.splits option.splits if_splits)

text \<open>
  The eject button of an optical drive: when the disc has data, a volume of it is mounted and the daemon says
  that the mount point is in use, or cannot say, no disc is ejected and no volume changes.
\<close>

theorem TryEjectCdrom_in_use:
  assumes quiet: "quiet env" and inv: "registry_inv s"
    and disk: "om_get (diskMap s) diskId = Some d" "d_cdromState d = NON_EMPTY_DISC"
    and vol: "om_get (volumeMap s) volumeId = Some v" "vc_diskId v = diskId" "volumeId \<noteq> ''0''" "vc_state v = vs_code MOUNTED"
      "ve_path v \<noteq> []"
    and busy: "\<And>h p. rp_err (en_reply env h (Sd_QueryUsbIsInUse p)) \<noteq> E_OK \<or> rp_flag (en_reply env h (Sd_QueryUsbIsInUse p))"
    and run: "run_state (TryEjectCdrom env diskId) s = (u, t)"
  shows "volumeMap t = volumeMap s \<and> filter (watched is_eject) (trace t) = filter (watched is_eject) (trace s)"
proof -
  obtain r s1 where 1: "run_state (GetDiskById env diskId) s = (r, s1)" by fastforce
  obtain d' where d': "r = Inr d'" "d_cdromState d' = NON_EMPTY_DISC" using GetDiskById_disc_state[OF 1 disk(1)] disk(2) by auto
  have s1: "undisturbed is_eject s s1"
    using ensuresD[OF undisturbed_disk[OF quiet, of is_eject] undisturbed_refl 1] is_eject_def by blast
  let ?P = "\<lambda>vol. \<not> (vc_diskId vol \<noteq> diskId \<or> vc_id vol = ''0'') \<and> vc_state vol = vs_code MOUNTED \<and> ve_path vol \<noteq> []"
  let ?vols = "fst (run_state (GetAllVolumes env) s1)"
  have "(volumeId, v) \<in> set (volumeMap s1)"
    using s1 vol(1) om_get_iff registry_wf[OF inv] by (metis undisturbed_def)
  then have "v \<in> set ?vols" by (force simp: GetAllVolumes_def Let_def)
  moreover have "?P v" using vol registry_volume[OF inv vol(1)] by simp
  ultimately have "find ?P ?vols \<noteq> None" unfolding find_None_iff by blast
  then obtain w where w: "find ?P ?vols = Some w" by blast
  then have w_path: "ve_path w \<noteq> []" by (auto simp: find_Some_iff)
  obtain q s2 where 2: "run_state (invoke env (Sd_QueryUsbIsInUse (ve_path w))) s1 = (q, s2)" by fastforce
  have s2: "undisturbed is_eject s s2"
    using ensuresD[OF undisturbed_invoke[OF quiet, of is_eject] s1 2] is_eject_def by blast
  have q: "rp_err q \<noteq> E_OK \<or> rp_flag q" using 2 busy by (auto simp: run_invoke)
  obtain st s3 where 3: "run_state (QueryCdromState env (BlockPathForId diskId)) s2 = (st, s3)" by fastforce
  have "keeps (undisturbed is_eject s) (QueryCdromState env (BlockPathForId diskId))"
    using quiet by (auto simp: QueryCdromState_def is_eject_def Let_def intro!: ensures_intros undisturbed_invoke)
  from ensuresD[OF this s2 3] have s3: "undisturbed is_eject s s3" by simp
  have find: "run_state (FindMountedVolumePath env diskId) s1 = (ve_path w, s1)"
    using w unfolding FindMountedVolumePath_def by (simp add: GetAllVolumes_def Let_def)
  have "run_state (record_disc_state env diskId st) s3 = (u, t)"
    using run 1 2 3 q w_path d' by (auto simp: TryEjectCdrom_def CanEjectMountedCdrom_def find split: if_splits)
  from ensuresD[OF undisturbed_record[OF quiet] s3 this] show ?thesis by (simp add: undisturbed_def)
qed

text \<open>An optical drive with a mounted disc.\<close>

definition disc_in_drive :: dm where
  "disc_in_drive = init_dm\<lparr>
     diskMap := [(''disk-11-0'', (Disk_ctor ''disk-11-0'' 0 ''sr0'' (dt_code CD_FLAG))\<lparr>d_cdromState := NON_EMPTY_DISC\<rparr>)],
     volumeMap := [(''vol-11-0'', VolumeExternal_defaults\<lparr>vc_id := ''vol-11-0'', vc_diskId := ''disk-11-0'',
       vc_state := vs_code MOUNTED, ve_path := ''/mnt/data/external/DISC''\<rparr>)]\<rparr>"

lemma disc_in_drive_inv: "registry_inv disc_in_drive"
  by (auto simp: registry_inv_def disks.keyed_def volumes.keyed_def disc_in_drive_def om_wf_def Disk_ctor_def split: if_splits)

theorem TryEjectCdrom_in_use_witness:
  "volumeMap (snd (run_state (TryEjectCdrom (calm (\<lambda>h c. ok_reply)) ''disk-11-0'') disc_in_drive)) = volumeMap disc_in_drive"
proof -
  have busy: "rp_err (en_reply (calm (\<lambda>h c. ok_reply)) h c) \<noteq> E_OK \<or> rp_flag (en_reply (calm (\<lambda>h c. ok_reply)) h c)" for h c
    by (simp add: calm_def ok_reply_def)
  show ?thesis
    using TryEjectCdrom_in_use[OF quiet_calm disc_in_drive_inv _ _ _ _ _ _ _ busy prod.collapse[symmetric], of "''disk-11-0''" _ "''vol-11-0''"]
    by (simp add: disc_in_drive_def)
qed

section \<open>Partitioning an external disk again\<close>

text \<open>
  A stick with one partition that was discovered before, and a daemon that partitions it with the same layout:
  \<open>Partition\<close> reports success, but its volume is gone from the registry. The volumes were purged, the recorded
  partition list was not, so the rediscovery finds no partition to add.
\<close>

definition known_stick :: dm where
  "known_stick = init_dm\<lparr>
     diskMap := [(''disk-8-0'', Disk_ctor ''disk-8-0'' 64000000000 ''sda'' (dt_code USB_FLAG))],
     volumeMap := [(''vol-8-1'', VolumeExternal_defaults\<lparr>vc_id := ''vol-8-1'', vc_diskId := ''disk-8-0'', ve_partitionNum := 1\<rparr>)],
     diskPartsSnapshot := [(''disk-8-0'', [gpt_record ''disk-8-0'' 1])]\<rparr>"

definition same_layout :: "item list \<Rightarrow> call \<Rightarrow> reply" where
  "same_layout h c = ok_reply\<lparr>rp_strs := [print_gpt [1]]\<rparr>"

lemma Partition_loses_volume:
  "fst (run_state (Partition (calm same_layout) ''disk-8-0'' 0) known_stick) = Some E_OK \<and>
   volumeMap (snd (run_state (Partition (calm same_layout) ''disk-8-0'' 0) known_stick)) = []"
  by code_simp

end
