(* ===== verification/Dm_Provider.thy ===== *)
theory Dm_Provider
  imports Dm_Bootstrap "HOL-Library.Signed_Division"
begin

text \<open>
  The IPC entry points of the service, \<^verbatim>\<open>ipc/disk_manager_provider.cpp\<close>, with the identity of the caller
  (\<^verbatim>\<open>utils/src/ipc_caller_auth.cpp\<close>): permission checks, validation of the parameters, the authorisation of
  an administrator for internal data disks, and unloading when idle. What the access-token service and the
  IPC layer know about the caller is the record \<open>caller\<close>; the account service is reached by calls of the
  environment. Reports to the radar change no state and are left out.
  Proved: no caller without the rights of the table \<open>may_call\<close> changes anything, operations on internal data
  disks exclude each other and are authorised, the service unloads only when idle, and every sequence of
  requests keeps the invariant of the service.
\<close>

section \<open>Definitions\<close>

subsection \<open>The caller\<close>

datatype TokenType = TOKEN_HAP | TOKEN_NATIVE | TOKEN_OTHER

text \<open>
  \<open>cl_native\<close> is the process name of \<open>GetNativeTokenInfo\<close>, \<open>cl_hap\<close> bundle name and user of
  \<open>GetHapTokenInfo\<close>; \<open>None\<close> when the query fails.
\<close>

record caller =
  cl_uid :: int
  cl_pid :: int
  cl_tokenType :: TokenType
  cl_systemAppToken :: bool
  cl_granted :: "string list"
  cl_native :: "string option"
  cl_hap :: "(string \<times> int) option"

definition UID_BASE_DIVISOR :: int where "UID_BASE_DIVISOR = 200000"
definition PERMISSION_STORAGE_MANAGER :: string where "PERMISSION_STORAGE_MANAGER = ''ohos.permission.STORAGE_MANAGER''"
definition PERMISSION_MOUNT_MANAGER :: string where "PERMISSION_MOUNT_MANAGER = ''ohos.permission.MOUNT_UNMOUNT_MANAGER''"
definition PERMISSION_FORMAT_MANAGER :: string where "PERMISSION_FORMAT_MANAGER = ''ohos.permission.MOUNT_FORMAT_MANAGER''"
definition PERMISSION_GET_STORAGE_VOLUME_INFO :: string where
  "PERMISSION_GET_STORAGE_VOLUME_INFO = ''ohos.permission.GET_STORAGE_VOLUME_INFO''"

definition VerifyCallerPermission :: "caller \<Rightarrow> string \<Rightarrow> bool" where
  "VerifyCallerPermission cl permissionName \<longleftrightarrow> permissionName \<in> set (cl_granted cl)"

definition VerifyCallerPermissionUnlessTrusted :: "caller \<Rightarrow> string \<Rightarrow> bool option \<Rightarrow> bool" where
  "VerifyCallerPermissionUnlessTrusted cl permissionName trust =
     (if trust = Some True then True else VerifyCallerPermission cl permissionName)"

definition IsCallingSystemApp :: "caller \<Rightarrow> bool" where
  "IsCallingSystemApp cl = (if cl_tokenType cl = TOKEN_HAP then cl_systemAppToken cl else True)"

definition VerifyNativeCallerMatches :: "caller \<Rightarrow> string \<Rightarrow> int \<Rightarrow> bool" where
  "VerifyNativeCallerMatches cl expectedProcessName expectedUid =
     (case cl_native cl of
        None \<Rightarrow> False
      | Some processName \<Rightarrow> \<not> (processName \<noteq> expectedProcessName \<or> cl_uid cl \<noteq> expectedUid))"

definition GetCallingUid :: "caller \<Rightarrow> int" where "GetCallingUid cl = cl_uid cl"

definition IsCallingUid :: "caller \<Rightarrow> int \<Rightarrow> bool" where "IsCallingUid cl expectedUid \<longleftrightarrow> cl_uid cl = expectedUid"

definition IsCallingNativeToken :: "caller \<Rightarrow> bool" where "IsCallingNativeToken cl \<longleftrightarrow> cl_tokenType cl = TOKEN_NATIVE"

definition IsCallingHapToken :: "caller \<Rightarrow> bool" where "IsCallingHapToken cl \<longleftrightarrow> cl_tokenType cl = TOKEN_HAP"

definition GetCallingBundleOrNativeProcessName :: "caller \<Rightarrow> string" where
  "GetCallingBundleOrNativeProcessName cl =
     (case cl_tokenType cl of
        TOKEN_NATIVE \<Rightarrow> (case cl_native cl of None \<Rightarrow> [] | Some processName \<Rightarrow> processName)
      | TOKEN_HAP \<Rightarrow> (case cl_hap cl of None \<Rightarrow> [] | Some (bundleName, userID) \<Rightarrow> bundleName)
      | TOKEN_OTHER \<Rightarrow> [])"

definition GetCallingUserId :: "caller \<Rightarrow> int" where
  "GetCallingUserId cl =
     (if cl_tokenType cl = TOKEN_HAP
      then (case cl_hap cl of None \<Rightarrow> cl_uid cl sdiv UID_BASE_DIVISOR | Some (bundleName, userID) \<Rightarrow> userID)
      else cl_uid cl sdiv UID_BASE_DIVISOR)"

subsection \<open>Start, stop and unloading\<close>

definition STORAGEDAEMON_UID :: int where "STORAGEDAEMON_UID = 0"
definition STORAGE_MANAGER_UID :: int where "STORAGE_MANAGER_UID = 1090"
definition CRYPTO_USB_MGR_SERVICE_UID :: int where "CRYPTO_USB_MGR_SERVICE_UID = 7060"
definition UEVENT_RAW_MAX_LEN :: nat where "UEVENT_RAW_MAX_LEN = 4096"
definition OP_DIAG_RAW_MAX_LEN :: nat where "OP_DIAG_RAW_MAX_LEN = 8192"
definition FORMAT_DATA_DISK_PRIVILEGE :: string where "FORMAT_DATA_DISK_PRIVILEGE = ''ohos.privilege.format_data_disk''"

definition StartIdleMonitor :: "unit dmop" where
  "StartIdleMonitor = modify (prov_update (\<lambda>p. p\<lparr>pv_idleMonitorStopped := False, pv_idleTimer := True\<rparr>))"

definition StopIdleMonitor :: "unit dmop" where
  "StopIdleMonitor = modify (prov_update (\<lambda>p. p\<lparr>pv_idleMonitorStopped := True, pv_idleTimer := False\<rparr>))"

definition OnStart :: "env \<Rightarrow> unit dmop" where
  "OnStart env = do {
     UeventBootstrap_Init env;
     reloadErr \<leftarrow> ReloadFromDaemon env;
     voldataMapErr \<leftarrow> on_store (Store_Init (en_store env));
     published \<leftarrow> invoke env Sa_Publish;
     StartIdleMonitor }"

definition OnStop :: "unit dmop" where
  "OnStop = StopIdleMonitor"

definition BeginPendingStorageDaemonCallback :: "unit dmop" where
  "BeginPendingStorageDaemonCallback = modify (prov_update (\<lambda>p. p\<lparr>pv_pendingCallbacks := pv_pendingCallbacks p + 1\<rparr>))"

definition EndPendingStorageDaemonCallback :: "unit dmop" where
  "EndPendingStorageDaemonCallback = modify (prov_update (\<lambda>p. p\<lparr>pv_pendingCallbacks := pv_pendingCallbacks p - 1\<rparr>))"

text \<open>The reply to \<open>Sa_Unload\<close> carries in its flag whether the ability manager was found.\<close>

definition CheckAndUnloadIfIdle :: "env \<Rightarrow> unit dmop" where
  "CheckAndUnloadIfIdle env = do {
     p \<leftarrow> gets prov;
     if pv_idleMonitorStopped p then ret ()
     else do {
       managed \<leftarrow> HasManagedResources;
       if managed then ret ()
       else if pv_pendingCallbacks p > 0 then ret ()
       else do {
         modify (prov_update (pv_isUnloading_update (\<lambda>_. True)));
         r \<leftarrow> invoke env Sa_Unload;
         if \<not> rp_flag r \<or> rp_err r \<noteq> E_OK then modify (prov_update (pv_isUnloading_update (\<lambda>_. False))) else ret () } } }"

subsection \<open>Guards\<close>

fun burn_lines_ok :: "string list \<Rightarrow> bool" where
  "burn_lines_ok [] = True"
| "burn_lines_ok (line # ls) =
     (case str_find line ''='' of
        None \<Rightarrow> burn_lines_ok ls
      | Some pos \<Rightarrow>
          (let key = take pos line; val = drop (pos + 1) line in
           if (key = ''burnPath'' \<or> key = ''diskName'') \<and> IsFilePathInvalid val then False else burn_lines_ok ls))"

definition ValidateBurnOptionsSubfields :: "string \<Rightarrow> bool" where
  "ValidateBurnOptionsSubfields burnOptions =
     (if IsFilePathInvalid burnOptions then False else burn_lines_ok (getlines burnOptions))"

definition CheckStorageDaemonPermission :: "caller \<Rightarrow> bool" where
  "CheckStorageDaemonPermission cl = VerifyNativeCallerMatches cl ''storage_daemon'' STORAGEDAEMON_UID"

definition IsStorageManagerCaller :: "caller \<Rightarrow> bool" where
  "IsStorageManagerCaller cl = VerifyNativeCallerMatches cl ''storage_manager'' STORAGE_MANAGER_UID"

definition IsDataDisk :: "env \<Rightarrow> string \<Rightarrow> bool dmop" where
  "IsDataDisk env volumeId = do {
     v \<leftarrow> GetVolumeById volumeId;
     case v of
       Inl _ \<Rightarrow> ret False
     | Inr vol \<Rightarrow> do {
         d \<leftarrow> GetDiskById env (vc_diskId vol);
         ret (case d of Inl _ \<Rightarrow> False | Inr disk \<Rightarrow> Disk_IsInternalDataDisk disk) } }"

definition IsDataDiskByDiskId :: "env \<Rightarrow> string \<Rightarrow> bool dmop" where
  "IsDataDiskByDiskId env diskId = do {
     d \<leftarrow> GetDiskById env diskId;
     ret (case d of Inl _ \<Rightarrow> False | Inr disk \<Rightarrow> Disk_IsInternalDataDisk disk) }"

text \<open>
  The reply to \<open>Acc_AcquireAuthorization\<close>: the error of the request, in the flag whether the callback came
  before the time limit, and the two result codes the callback got.
\<close>

definition CheckAdminAuthorization :: "env \<Rightarrow> caller \<Rightarrow> errno dmop" where
  "CheckAdminAuthorization env cl = do {
     r \<leftarrow> invoke env (Acc_AcquireAuthorization FORMAT_DATA_DISK_PRIVILEGE (cl_pid cl) (cl_uid cl));
     if rp_err r \<noteq> E_OK then ret E_PERMISSION_DENIED
     else if \<not> rp_flag r then ret E_PERMISSION_DENIED
     else do {
       let resultCode = (if rp_int 0 0 r \<noteq> E_OK then rp_int 0 0 r else rp_int 1 0 r);
       ret (if resultCode \<noteq> en_AUTHORIZATION_SUCCESS env then E_PERMISSION_DENIED else E_OK) } }"

definition set_busy :: "bool \<Rightarrow> unit dmop" where
  "set_busy b = modify (prov_update (pv_dataDiskFormatBusy_update (\<lambda>_. b)))"

text \<open>
  The bracket that \<open>Format\<close> and \<open>Partition\<close> share: on a data disk only one operation at a time, authorised
  by an administrator, the authorisation given back at the end. \<open>None\<close> is an exception of the operation,
  which leaves the bracket at once.
\<close>

definition with_admin_auth :: "env \<Rightarrow> caller \<Rightarrow> bool \<Rightarrow> errno option dmop \<Rightarrow> errno option dmop" where
  "with_admin_auth env cl needAdminAuth operation =
     (if \<not> needAdminAuth then operation
      else do {
        busy \<leftarrow> gets (\<lambda>s. pv_dataDiskFormatBusy (prov s));
        set_busy True;
        if busy then ret (Some E_BUSY)
        else do {
          authRet \<leftarrow> CheckAdminAuthorization env cl;
          if authRet \<noteq> E_OK then do { set_busy False; ret (Some authRet) }
          else do {
            err \<leftarrow> operation;
            case err of
              None \<Rightarrow> ret None
            | Some e \<Rightarrow> do {
                releaseRet \<leftarrow> invoke env (Acc_ReleaseAuthorization FORMAT_DATA_DISK_PRIVILEGE);
                set_busy False;
                ret (Some e) } } } })"

subsection \<open>The requests\<close>

definition DiskManagerProvider_Mount :: "env \<Rightarrow> caller \<Rightarrow> string \<Rightarrow> MountParam \<Rightarrow> errno dmop" where
  "DiskManagerProvider_Mount env cl volumeId mountParam =
     (if \<not> IsCallingSystemApp cl then ret E_SYS_APP_PERMISSION_DENIED
      else if \<not> IsStorageManagerCaller cl \<and> \<not> VerifyCallerPermission cl PERMISSION_MOUNT_MANAGER then ret E_PERMISSION_DENIED
      else if \<not> IsVolumeIdValid volumeId then ret E_NON_EXIST
      else Mount env volumeId mountParam)"

definition DiskManagerProvider_Unmount :: "env \<Rightarrow> caller \<Rightarrow> string \<Rightarrow> errno dmop" where
  "DiskManagerProvider_Unmount env cl volumeId =
     (if \<not> IsCallingSystemApp cl then ret E_SYS_APP_PERMISSION_DENIED
      else if \<not> IsStorageManagerCaller cl \<and> \<not> VerifyCallerPermission cl PERMISSION_MOUNT_MANAGER then ret E_PERMISSION_DENIED
      else if \<not> IsVolumeIdValid volumeId then ret E_NON_EXIST
      else Unmount env volumeId)"

definition DiskManagerProvider_Format :: "env \<Rightarrow> caller \<Rightarrow> string \<Rightarrow> string \<Rightarrow> errno option dmop" where
  "DiskManagerProvider_Format env cl volumeId fsType =
     (if \<not> IsCallingSystemApp cl then ret (Some E_SYS_APP_PERMISSION_DENIED)
      else if \<not> IsStorageManagerCaller cl \<and> \<not> VerifyCallerPermission cl PERMISSION_FORMAT_MANAGER then ret (Some E_PERMISSION_DENIED)
      else if \<not> IsVolumeIdValid volumeId then ret (Some E_PARAMS_INVALID)
      else do {
        needAdminAuth \<leftarrow> IsDataDisk env volumeId;
        with_admin_auth env cl needAdminAuth (do { e \<leftarrow> Format env volumeId fsType; ret (Some e) }) })"

definition DiskManagerProvider_TryToFix :: "env \<Rightarrow> caller \<Rightarrow> string \<Rightarrow> errno dmop" where
  "DiskManagerProvider_TryToFix env cl volumeId =
     (if \<not> IsCallingSystemApp cl then ret E_SYS_APP_PERMISSION_DENIED
      else if \<not> IsStorageManagerCaller cl \<and> \<not> VerifyCallerPermission cl PERMISSION_MOUNT_MANAGER then ret E_PERMISSION_DENIED
      else if \<not> IsVolumeIdValid volumeId then ret E_PARAMS_INVALID
      else TryToFix env volumeId)"

definition DiskManagerProvider_SetVolumeDescription :: "env \<Rightarrow> caller \<Rightarrow> string \<Rightarrow> string \<Rightarrow> errno dmop" where
  "DiskManagerProvider_SetVolumeDescription env cl fsUuid description =
     (if \<not> IsCallingSystemApp cl then ret E_SYS_APP_PERMISSION_DENIED
      else if \<not> IsStorageManagerCaller cl \<and> \<not> VerifyCallerPermission cl PERMISSION_MOUNT_MANAGER then ret E_PERMISSION_DENIED
      else if \<not> IsUuidValid fsUuid then ret E_PARAMS_INVALID
      else SetVolumeDescription env fsUuid description)"

definition DiskManagerProvider_GetAllVolumes :: "env \<Rightarrow> caller \<Rightarrow> (errno + VolumeExternal list) dmop" where
  "DiskManagerProvider_GetAllVolumes env cl =
     (if \<not> IsCallingSystemApp cl then ret (Inl E_SYS_APP_PERMISSION_DENIED)
      else if \<not> IsStorageManagerCaller cl \<and> \<not> VerifyCallerPermission cl PERMISSION_STORAGE_MANAGER then ret (Inl E_PERMISSION_DENIED)
      else do { vs \<leftarrow> GetAllVolumes env; ret (Inr vs) })"

definition DiskManagerProvider_GetVolumeByUuid :: "env \<Rightarrow> caller \<Rightarrow> string \<Rightarrow> (errno + VolumeExternal) dmop" where
  "DiskManagerProvider_GetVolumeByUuid env cl fsUuid =
     (if \<not> IsCallingSystemApp cl then ret (Inl E_SYS_APP_PERMISSION_DENIED)
      else if \<not> IsStorageManagerCaller cl \<and> \<not> VerifyCallerPermission cl PERMISSION_STORAGE_MANAGER then ret (Inl E_PERMISSION_DENIED)
      else if \<not> IsUuidValid fsUuid then ret (Inl E_PARAMS_INVALID)
      else GetVolumeByUuid fsUuid)"

definition DiskManagerProvider_GetVolumeById :: "env \<Rightarrow> caller \<Rightarrow> string \<Rightarrow> (errno + VolumeExternal) dmop" where
  "DiskManagerProvider_GetVolumeById env cl volumeId =
     (if \<not> IsCallingSystemApp cl then ret (Inl E_SYS_APP_PERMISSION_DENIED)
      else if \<not> IsStorageManagerCaller cl \<and> \<not> VerifyCallerPermission cl PERMISSION_STORAGE_MANAGER then ret (Inl E_PERMISSION_DENIED)
      else if \<not> IsVolumeIdValid volumeId then ret (Inl E_PARAMS_INVALID)
      else GetVolumeById volumeId)"

definition DiskManagerProvider_GetFreeSizeOfVolume :: "env \<Rightarrow> caller \<Rightarrow> string \<Rightarrow> (errno \<times> int) dmop" where
  "DiskManagerProvider_GetFreeSizeOfVolume env cl fsUuid =
     (if \<not> IsCallingSystemApp cl then ret (E_SYS_APP_PERMISSION_DENIED, 0)
      else if \<not> IsStorageManagerCaller cl \<and> \<not> VerifyCallerPermission cl PERMISSION_STORAGE_MANAGER then ret (E_PERMISSION_DENIED, 0)
      else if \<not> IsUuidValid fsUuid then ret (E_PARAMS_INVALID, 0)
      else GetFreeSizeOfVolume env fsUuid)"

definition DiskManagerProvider_GetTotalSizeOfVolume :: "env \<Rightarrow> caller \<Rightarrow> string \<Rightarrow> (errno \<times> int) dmop" where
  "DiskManagerProvider_GetTotalSizeOfVolume env cl fsUuid =
     (if \<not> IsCallingSystemApp cl then ret (E_SYS_APP_PERMISSION_DENIED, 0)
      else if \<not> IsStorageManagerCaller cl \<and> \<not> VerifyCallerPermission cl PERMISSION_STORAGE_MANAGER then ret (E_PERMISSION_DENIED, 0)
      else if \<not> IsUuidValid fsUuid then ret (E_PARAMS_INVALID, 0)
      else GetTotalSizeOfVolume env fsUuid)"

definition DiskManagerProvider_Partition :: "env \<Rightarrow> caller \<Rightarrow> string \<Rightarrow> int \<Rightarrow> errno option dmop" where
  "DiskManagerProvider_Partition env cl diskId type' =
     (if \<not> IsCallingSystemApp cl then ret (Some E_SYS_APP_PERMISSION_DENIED)
      else if \<not> IsStorageManagerCaller cl \<and> \<not> VerifyCallerPermission cl PERMISSION_FORMAT_MANAGER then ret (Some E_PERMISSION_DENIED)
      else if \<not> IsDiskIdValid diskId then ret (Some E_PARAMS_INVALID)
      else do {
        needAdminAuth \<leftarrow> IsDataDiskByDiskId env diskId;
        with_admin_auth env cl needAdminAuth (Partition env diskId type') })"

text \<open>
  The callbacks of the storage daemon count themselves; the flag of an unload in progress is tested before and
  behind the lock, which is one test when the lock is free.
\<close>

definition pending :: "'a dmop \<Rightarrow> 'a dmop" where
  "pending operation = do {
     BeginPendingStorageDaemonCallback;
     r \<leftarrow> operation;
     EndPendingStorageDaemonCallback;
     ret r }"

definition DiskManagerProvider_OnBlockDiskUevent :: "env \<Rightarrow> caller \<Rightarrow> string \<Rightarrow> errno dmop" where
  "DiskManagerProvider_OnBlockDiskUevent env cl rawUeventMsg = do {
     unloading \<leftarrow> gets (\<lambda>s. pv_isUnloading (prov s));
     if unloading then ret E_SA_IS_UNLOADING
     else pending
       (if \<not> CheckStorageDaemonPermission cl then ret E_PERMISSION_DENIED
        else if UEVENT_RAW_MAX_LEN < length rawUeventMsg then ret E_PARAMS_INVALID
        else if IsFilePathInvalid rawUeventMsg then ret E_PARAMS_INVALID
        else OnBlockDiskUevent env rawUeventMsg) }"

text \<open>The report itself goes to the radar.\<close>

definition DiskManagerProvider_ReportVolumeOpDiag :: "env \<Rightarrow> caller \<Rightarrow> string \<Rightarrow> errno dmop" where
  "DiskManagerProvider_ReportVolumeOpDiag env cl opDiag =
     pending
       (if \<not> CheckStorageDaemonPermission cl then ret E_PERMISSION_DENIED
        else if opDiag = [] \<or> OP_DIAG_RAW_MAX_LEN < length opDiag then ret E_OK
        else ret E_OK)"

definition DiskManagerProvider_GetAllDisks :: "env \<Rightarrow> caller \<Rightarrow> (errno + Disk list) dmop" where
  "DiskManagerProvider_GetAllDisks env cl =
     (if \<not> IsCallingSystemApp cl then ret (Inl E_SYS_APP_PERMISSION_DENIED)
      else if \<not> IsStorageManagerCaller cl \<and> \<not> VerifyCallerPermission cl PERMISSION_MOUNT_MANAGER then ret (Inl E_PERMISSION_DENIED)
      else do { ds \<leftarrow> GetAllDisks env; ret (Inr ds) })"

definition DiskManagerProvider_GetDiskById :: "env \<Rightarrow> caller \<Rightarrow> string \<Rightarrow> (errno + Disk) dmop" where
  "DiskManagerProvider_GetDiskById env cl diskId =
     (if \<not> IsCallingSystemApp cl then ret (Inl E_SYS_APP_PERMISSION_DENIED)
      else if \<not> IsStorageManagerCaller cl \<and> \<not> VerifyCallerPermission cl PERMISSION_MOUNT_MANAGER then ret (Inl E_PERMISSION_DENIED)
      else if diskId = [] then ret (Inl E_PARAMS_INVALID)
      else if \<not> IsDiskIdValid diskId then ret (Inl E_NON_EXIST)
      else GetDiskById env diskId)"

text \<open>\<open>realpath\<close> gives the path in its reply; its flag says whether there is one.\<close>

definition DiskManagerProvider_QueryUsbIsInUse :: "env \<Rightarrow> caller \<Rightarrow> string \<Rightarrow> (errno \<times> bool) dmop" where
  "DiskManagerProvider_QueryUsbIsInUse env cl diskPath =
     (if \<not> IsCallingSystemApp cl then ret (E_SYS_APP_PERMISSION_DENIED, False)
      else if \<not> VerifyCallerPermission cl PERMISSION_MOUNT_MANAGER then ret (E_PERMISSION_DENIED, False)
      else if \<not> IsMountPathValid diskPath then ret (E_PARAMS_INVALID, False)
      else do {
        p \<leftarrow> invoke env (Sys_realpath diskPath);
        if \<not> rp_flag p then ret (E_PARAMS_INVALID, False)
        else do {
          r \<leftarrow> invoke env (Sd_QueryUsbIsInUse (rp_str 0 p));
          ret (if rp_err r \<noteq> E_OK then E_QUERY_VOLUME_IN_USE_ERROR else E_OK, rp_flag r) } })"

definition DiskManagerProvider_NotifyMtpMounted ::
  "env \<Rightarrow> caller \<Rightarrow> string \<Rightarrow> string \<Rightarrow> string \<Rightarrow> string \<Rightarrow> string \<Rightarrow> errno dmop" where
  "DiskManagerProvider_NotifyMtpMounted env cl volId path desc uuid fsType =
     pending
       (if \<not> CheckStorageDaemonPermission cl then ret E_PERMISSION_DENIED
        else if \<not> IsVolumeIdValid volId then ret E_PARAMS_INVALID
        else if \<not> IsUuidValid uuid then ret E_PARAMS_INVALID
        else if \<not> IsMountPathValid path then ret E_PARAMS_INVALID
        else do {
          p \<leftarrow> invoke env (Sys_realpath path);
          if \<not> rp_flag p then ret E_PARAMS_INVALID
          else NotifyMtpMounted env volId (rp_str 0 p) desc uuid fsType })"

definition DiskManagerProvider_NotifyMtpUnmounted :: "env \<Rightarrow> caller \<Rightarrow> string \<Rightarrow> bool \<Rightarrow> errno dmop" where
  "DiskManagerProvider_NotifyMtpUnmounted env cl volId isBadRemove =
     pending
       (if \<not> CheckStorageDaemonPermission cl then ret E_PERMISSION_DENIED
        else if \<not> IsVolumeIdValid volId then ret E_PARAMS_INVALID
        else NotifyMtpUnmounted env volId isBadRemove)"

definition DiskManagerProvider_Erase :: "env \<Rightarrow> caller \<Rightarrow> string \<Rightarrow> errno dmop" where
  "DiskManagerProvider_Erase env cl volumeId =
     (if \<not> IsCallingSystemApp cl then ret E_SYS_APP_PERMISSION_DENIED
      else if \<not> VerifyCallerPermission cl PERMISSION_MOUNT_MANAGER then ret E_PERMISSION_DENIED
      else if \<not> IsVolumeIdValid volumeId then ret E_PARAMS_INVALID
      else Erase env volumeId)"

definition DiskManagerProvider_Eject :: "env \<Rightarrow> caller \<Rightarrow> string \<Rightarrow> errno dmop" where
  "DiskManagerProvider_Eject env cl diskId =
     (if \<not> IsCallingSystemApp cl then ret E_SYS_APP_PERMISSION_DENIED
      else if \<not> VerifyCallerPermission cl PERMISSION_MOUNT_MANAGER then ret E_PERMISSION_DENIED
      else if \<not> IsDiskIdValid diskId then ret E_PARAMS_INVALID
      else Eject env diskId)"

definition DiskManagerProvider_CreateIsoImage :: "env \<Rightarrow> caller \<Rightarrow> string \<Rightarrow> string \<Rightarrow> errno dmop" where
  "DiskManagerProvider_CreateIsoImage env cl volumeId filePath =
     (if \<not> IsCallingSystemApp cl then ret E_SYS_APP_PERMISSION_DENIED
      else if \<not> VerifyCallerPermission cl PERMISSION_MOUNT_MANAGER then ret E_PERMISSION_DENIED
      else if \<not> IsVolumeIdValid volumeId then ret E_PARAMS_INVALID
      else if IsFilePathInvalid filePath then ret E_PARAMS_INVALID
      else CreateIsoImage env volumeId filePath)"

definition DiskManagerProvider_Burn :: "env \<Rightarrow> caller \<Rightarrow> string \<Rightarrow> string \<Rightarrow> errno dmop" where
  "DiskManagerProvider_Burn env cl volumeId burnOptions =
     (if \<not> IsCallingSystemApp cl then ret E_SYS_APP_PERMISSION_DENIED
      else if \<not> VerifyCallerPermission cl PERMISSION_MOUNT_MANAGER then ret E_PERMISSION_DENIED
      else if \<not> IsVolumeIdValid volumeId then ret E_PARAMS_INVALID
      else if \<not> ValidateBurnOptionsSubfields burnOptions then ret E_PARAMS_INVALID
      else Burn env volumeId burnOptions (GetCallingBundleOrNativeProcessName cl) (GetCallingUserId cl))"

definition DiskManagerProvider_GetVolumeOpProcess :: "env \<Rightarrow> caller \<Rightarrow> string \<Rightarrow> (errno \<times> int) dmop" where
  "DiskManagerProvider_GetVolumeOpProcess env cl volumeId =
     (if \<not> IsCallingSystemApp cl then ret (E_SYS_APP_PERMISSION_DENIED, 0)
      else if \<not> VerifyCallerPermission cl PERMISSION_MOUNT_MANAGER then ret (E_PERMISSION_DENIED, 0)
      else if \<not> IsVolumeIdValid volumeId then ret (E_PARAMS_INVALID, 0)
      else GetVolumeOpProcess env volumeId)"

definition DiskManagerProvider_GetPartitionTable :: "env \<Rightarrow> caller \<Rightarrow> string \<Rightarrow> PartitionTableInfo \<Rightarrow> (errno + PartitionTableInfo) dmop" where
  "DiskManagerProvider_GetPartitionTable env cl diskId info =
     (if \<not> IsCallingSystemApp cl then ret (Inl E_SYS_APP_PERMISSION_DENIED)
      else if \<not> VerifyCallerPermission cl PERMISSION_FORMAT_MANAGER then ret (Inl E_PERMISSION_DENIED)
      else if diskId = [] then ret (Inl E_PARAMS_INVALID)
      else if \<not> IsDiskIdValid diskId then ret (Inl E_NON_EXIST)
      else GetPartitionTable env diskId info)"

definition DiskManagerProvider_CreatePartition :: "env \<Rightarrow> caller \<Rightarrow> string \<Rightarrow> PartitionParams \<Rightarrow> errno dmop" where
  "DiskManagerProvider_CreatePartition env cl diskId params =
     (if \<not> IsCallingSystemApp cl then ret E_SYS_APP_PERMISSION_DENIED
      else if \<not> VerifyCallerPermission cl PERMISSION_FORMAT_MANAGER then ret E_PERMISSION_DENIED
      else if \<not> IsDiskIdValid diskId then ret E_PARAMS_INVALID
      else if pp_partitionNum params \<le> 0 then ret E_PARAMS_INVALID
      else if pp_startSector params \<le> 0 \<or> pp_endSector params \<le> 0 \<or> pp_startSector params \<ge> pp_endSector params then ret E_PARAMS_INVALID
      else if pp_typeCode params = [] then ret E_PARAMS_INVALID
      else CreatePartition env diskId params)"

definition DiskManagerProvider_DeletePartition :: "env \<Rightarrow> caller \<Rightarrow> string \<Rightarrow> int \<Rightarrow> errno dmop" where
  "DiskManagerProvider_DeletePartition env cl diskId partitionNum =
     (if \<not> IsCallingSystemApp cl then ret E_SYS_APP_PERMISSION_DENIED
      else if \<not> VerifyCallerPermission cl PERMISSION_FORMAT_MANAGER then ret E_PERMISSION_DENIED
      else if \<not> IsDiskIdValid diskId then ret E_PARAMS_INVALID
      else if partitionNum \<le> 0 then ret E_PARAMS_INVALID
      else DeletePartition env diskId partitionNum)"

definition DiskManagerProvider_FormatPartition :: "env \<Rightarrow> caller \<Rightarrow> string \<Rightarrow> int \<Rightarrow> FormatParams \<Rightarrow> errno dmop" where
  "DiskManagerProvider_FormatPartition env cl diskId partitionNum params =
     (if \<not> IsCallingSystemApp cl then ret E_SYS_APP_PERMISSION_DENIED
      else if \<not> VerifyCallerPermission cl PERMISSION_FORMAT_MANAGER then ret E_PERMISSION_DENIED
      else if \<not> IsDiskIdValid diskId then ret E_PARAMS_INVALID
      else if partitionNum \<le> 0 then ret E_PARAMS_INVALID
      else if fp_fsType params = [] then ret E_PARAMS_INVALID
      else if \<not> fp_quickFormat params then ret E_PARAMS_INVALID
      else FormatPartition env diskId partitionNum params)"

definition DiskManagerProvider_GetExternalDiskInfos :: "env \<Rightarrow> caller \<Rightarrow> (errno + ExternalDiskInfo list) dmop" where
  "DiskManagerProvider_GetExternalDiskInfos env cl =
     (if \<not> VerifyCallerPermission cl PERMISSION_GET_STORAGE_VOLUME_INFO then ret (Inl E_PERMISSION_DENIED)
      else do { ds \<leftarrow> GetExternalDiskInfos; ret (Inr ds) })"

definition DiskManagerProvider_GetExternalVolumeInfos :: "env \<Rightarrow> caller \<Rightarrow> (errno + ExternalVolumeInfo list) dmop" where
  "DiskManagerProvider_GetExternalVolumeInfos env cl =
     (if \<not> VerifyCallerPermission cl PERMISSION_GET_STORAGE_VOLUME_INFO then ret (Inl E_PERMISSION_DENIED)
      else do { vs \<leftarrow> GetExternalVolumeInfos env; ret (Inr vs) })"

text \<open>Encrypted containers, in the build for PCs only.\<close>

definition mapper_name_ok :: "nat \<Rightarrow> string \<Rightarrow> bool" where
  "mapper_name_ok n mapperName \<longleftrightarrow> 1 \<le> length mapperName \<and> length mapperName \<le> n \<and>
     list_all (\<lambda>c. CHR ''A'' \<le> c \<and> c \<le> CHR ''Z'' \<or> CHR ''a'' \<le> c \<and> c \<le> CHR ''z'' \<or> CHR ''0'' \<le> c \<and> c \<le> CHR ''9'') mapperName"

definition dev_path_bad :: "string list \<Rightarrow> string \<Rightarrow> bool" where
  "dev_path_bad prefixes path \<longleftrightarrow> path = [] \<or> IsFilePathInvalid path \<or> list_all (\<lambda>p. str_find path p \<noteq> Some 0) prefixes"

definition DiskManagerProvider_BindBlockLoopDev :: "env \<Rightarrow> caller \<Rightarrow> string \<Rightarrow> int \<Rightarrow> int \<Rightarrow> (errno option + string) dmop" where
  "DiskManagerProvider_BindBlockLoopDev env cl diskId offset sizeLimit =
     (if \<not> en_pc_manager env then ret (Inl (Some E_NOT_SUPPORT))
      else if GetCallingUid cl \<noteq> CRYPTO_USB_MGR_SERVICE_UID then ret (Inl (Some E_PERMISSION_DENIED))
      else if \<not> VerifyCallerPermission cl PERMISSION_MOUNT_MANAGER then ret (Inl (Some E_PERMISSION_DENIED))
      else if offset = 0 \<or> sizeLimit = 0 then ret (Inl (Some E_PARAMS_INVALID))
      else if \<not> IsDiskIdValid diskId then ret (Inl (Some E_PARAMS_INVALID))
      else do {
        r \<leftarrow> BindBlockLoopDev env diskId offset sizeLimit;
        ret (case r of Inl None \<Rightarrow> Inl None | Inl (Some _) \<Rightarrow> Inl (Some E_BIND_LOOP_DEV_FAILED) | Inr loopPath \<Rightarrow> Inr loopPath) })"

definition DiskManagerProvider_CreateDmCryptVolume :: "env \<Rightarrow> caller \<Rightarrow> CryptParam \<Rightarrow> string \<Rightarrow> string \<Rightarrow> (errno + string) dmop" where
  "DiskManagerProvider_CreateDmCryptVolume env cl param loopPath mapperName =
     (if \<not> en_pc_manager env then ret (Inl E_NOT_SUPPORT)
      else if GetCallingUid cl \<noteq> CRYPTO_USB_MGR_SERVICE_UID then ret (Inl E_PERMISSION_DENIED)
      else if \<not> VerifyCallerPermission cl PERMISSION_MOUNT_MANAGER then ret (Inl E_PERMISSION_DENIED)
      else if dev_path_bad [''/dev/block/''] loopPath then ret (Inl E_PARAMS_INVALID)
      else if \<not> mapper_name_ok 127 mapperName then ret (Inl E_PARAMS_INVALID)
      else do {
        r \<leftarrow> CreateDmCryptVolume env param loopPath mapperName;
        ret (case r of Inl _ \<Rightarrow> Inl E_CREATE_DM_CRYPT_VOLUME_FAILED | Inr mapperPath \<Rightarrow> Inr mapperPath) })"

definition DiskManagerProvider_DestroyDmCryptVolume :: "env \<Rightarrow> caller \<Rightarrow> string \<Rightarrow> errno dmop" where
  "DiskManagerProvider_DestroyDmCryptVolume env cl mapperName =
     (if \<not> en_pc_manager env then ret E_NOT_SUPPORT
      else if GetCallingUid cl \<noteq> CRYPTO_USB_MGR_SERVICE_UID then ret E_PERMISSION_DENIED
      else if \<not> VerifyCallerPermission cl PERMISSION_MOUNT_MANAGER then ret E_PERMISSION_DENIED
      else if \<not> mapper_name_ok 128 mapperName then ret E_PARAMS_INVALID
      else do {
        e \<leftarrow> DestroyDmCryptVolume env mapperName;
        ret (if e \<noteq> E_OK then E_DESTROY_DM_CRYPT_VOLUME_FAILED else E_OK) })"

definition DiskManagerProvider_UnbindBlockLoopDev :: "env \<Rightarrow> caller \<Rightarrow> string \<Rightarrow> errno dmop" where
  "DiskManagerProvider_UnbindBlockLoopDev env cl loopPath =
     (if \<not> en_pc_manager env then ret E_NOT_SUPPORT
      else if GetCallingUid cl \<noteq> CRYPTO_USB_MGR_SERVICE_UID then ret E_PERMISSION_DENIED
      else if \<not> VerifyCallerPermission cl PERMISSION_MOUNT_MANAGER then ret E_PERMISSION_DENIED
      else if dev_path_bad [''/dev/block/''] loopPath then ret E_PARAMS_INVALID
      else do {
        e \<leftarrow> UnbindBlockLoopDev env loopPath;
        ret (if e \<noteq> E_OK then E_UNBIND_LOOP_DEV_FAILED else E_OK) })"

definition DiskManagerProvider_MountVolumeByPath :: "env \<Rightarrow> caller \<Rightarrow> string \<Rightarrow> string \<Rightarrow> MountParam \<Rightarrow> errno dmop" where
  "DiskManagerProvider_MountVolumeByPath env cl diskId volPath param =
     (if \<not> en_pc_manager env then ret E_NOT_SUPPORT
      else if GetCallingUid cl \<noteq> CRYPTO_USB_MGR_SERVICE_UID then ret E_PERMISSION_DENIED
      else if \<not> VerifyCallerPermission cl PERMISSION_MOUNT_MANAGER then ret E_PERMISSION_DENIED
      else if \<not> IsDiskIdValid diskId then ret E_PARAMS_INVALID
      else if dev_path_bad [''/dev/block/'', ''/dev/mapper/''] volPath then ret E_PARAMS_INVALID
      else do {
        e \<leftarrow> MountVolumeByPath env diskId volPath param;
        ret (if e \<noteq> E_OK then E_MOUNT_VOL_BY_PATH_FAILED else E_OK) })"

definition DiskManagerProvider_UmountVolumeByPath :: "env \<Rightarrow> caller \<Rightarrow> string \<Rightarrow> string \<Rightarrow> errno dmop" where
  "DiskManagerProvider_UmountVolumeByPath env cl diskId volPath =
     (if \<not> en_pc_manager env then ret E_NOT_SUPPORT
      else if GetCallingUid cl \<noteq> CRYPTO_USB_MGR_SERVICE_UID then ret E_PERMISSION_DENIED
      else if \<not> VerifyCallerPermission cl PERMISSION_MOUNT_MANAGER then ret E_PERMISSION_DENIED
      else if \<not> IsDiskIdValid diskId then ret E_PARAMS_INVALID
      else if dev_path_bad [''/dev/block/'', ''/dev/mapper/''] volPath then ret E_PARAMS_INVALID
      else do {
        e \<leftarrow> UmountVolumeByPath env diskId volPath;
        ret (if e \<noteq> E_OK then E_UMOUNT_VOL_BY_PATH_FAILED else E_OK) })"

section \<open>Requests\<close>

text \<open>All requests a process can send, how they are served, and the error code that goes back (\<open>None\<close>: an exception).\<close>

datatype (plugins only: code size) request =
    Rq_Mount string MountParam
  | Rq_Unmount string
  | Rq_Format string string
  | Rq_TryToFix string
  | Rq_SetVolumeDescription string string
  | Rq_GetAllVolumes
  | Rq_GetVolumeByUuid string
  | Rq_GetVolumeById string
  | Rq_GetFreeSizeOfVolume string
  | Rq_GetTotalSizeOfVolume string
  | Rq_Partition string int
  | Rq_OnBlockDiskUevent string
  | Rq_ReportVolumeOpDiag string
  | Rq_GetAllDisks
  | Rq_GetDiskById string
  | Rq_QueryUsbIsInUse string
  | Rq_NotifyMtpMounted string string string string string
  | Rq_NotifyMtpUnmounted string bool
  | Rq_Erase string
  | Rq_Eject string
  | Rq_CreateIsoImage string string
  | Rq_Burn string string
  | Rq_GetVolumeOpProcess string
  | Rq_GetPartitionTable string PartitionTableInfo
  | Rq_CreatePartition string PartitionParams
  | Rq_DeletePartition string int
  | Rq_FormatPartition string int FormatParams
  | Rq_GetExternalDiskInfos
  | Rq_GetExternalVolumeInfos
  | Rq_BindBlockLoopDev string int int
  | Rq_CreateDmCryptVolume CryptParam string string
  | Rq_DestroyDmCryptVolume string
  | Rq_UnbindBlockLoopDev string
  | Rq_MountVolumeByPath string string MountParam
  | Rq_UmountVolumeByPath string string

definition code_of :: "errno + 'a \<Rightarrow> errno" where
  "code_of r = (case r of Inl e \<Rightarrow> e | Inr _ \<Rightarrow> E_OK)"

definition report :: "'a dmop \<Rightarrow> ('a \<Rightarrow> errno option) \<Rightarrow> errno option dmop" where
  "report operation f = do { r \<leftarrow> operation; ret (f r) }"

primrec serve :: "env \<Rightarrow> caller \<Rightarrow> request \<Rightarrow> errno option dmop" where
  "serve env cl (Rq_Mount k mp) =
     report (DiskManagerProvider_Mount env cl k mp) Some"
| "serve env cl (Rq_Unmount k) =
     report (DiskManagerProvider_Unmount env cl k) Some"
| "serve env cl (Rq_Format k t) =
     report (DiskManagerProvider_Format env cl k t) (\<lambda>r. r)"
| "serve env cl (Rq_TryToFix k) =
     report (DiskManagerProvider_TryToFix env cl k) Some"
| "serve env cl (Rq_SetVolumeDescription u d) =
     report (DiskManagerProvider_SetVolumeDescription env cl u d) Some"
| "serve env cl (Rq_GetAllVolumes) =
     report (DiskManagerProvider_GetAllVolumes env cl) (\<lambda>r. Some (code_of r))"
| "serve env cl (Rq_GetVolumeByUuid u) =
     report (DiskManagerProvider_GetVolumeByUuid env cl u) (\<lambda>r. Some (code_of r))"
| "serve env cl (Rq_GetVolumeById k) =
     report (DiskManagerProvider_GetVolumeById env cl k) (\<lambda>r. Some (code_of r))"
| "serve env cl (Rq_GetFreeSizeOfVolume u) =
     report (DiskManagerProvider_GetFreeSizeOfVolume env cl u) (\<lambda>r. Some (fst r))"
| "serve env cl (Rq_GetTotalSizeOfVolume u) =
     report (DiskManagerProvider_GetTotalSizeOfVolume env cl u) (\<lambda>r. Some (fst r))"
| "serve env cl (Rq_Partition d n) =
     report (DiskManagerProvider_Partition env cl d n) (\<lambda>r. r)"
| "serve env cl (Rq_OnBlockDiskUevent m) =
     report (DiskManagerProvider_OnBlockDiskUevent env cl m) Some"
| "serve env cl (Rq_ReportVolumeOpDiag m) =
     report (DiskManagerProvider_ReportVolumeOpDiag env cl m) Some"
| "serve env cl (Rq_GetAllDisks) =
     report (DiskManagerProvider_GetAllDisks env cl) (\<lambda>r. Some (code_of r))"
| "serve env cl (Rq_GetDiskById d) =
     report (DiskManagerProvider_GetDiskById env cl d) (\<lambda>r. Some (code_of r))"
| "serve env cl (Rq_QueryUsbIsInUse p) =
     report (DiskManagerProvider_QueryUsbIsInUse env cl p) (\<lambda>r. Some (fst r))"
| "serve env cl (Rq_NotifyMtpMounted k p d u t) =
     report (DiskManagerProvider_NotifyMtpMounted env cl k p d u t) Some"
| "serve env cl (Rq_NotifyMtpUnmounted k b) =
     report (DiskManagerProvider_NotifyMtpUnmounted env cl k b) Some"
| "serve env cl (Rq_Erase k) =
     report (DiskManagerProvider_Erase env cl k) Some"
| "serve env cl (Rq_Eject d) =
     report (DiskManagerProvider_Eject env cl d) Some"
| "serve env cl (Rq_CreateIsoImage k p) =
     report (DiskManagerProvider_CreateIsoImage env cl k p) Some"
| "serve env cl (Rq_Burn k o') =
     report (DiskManagerProvider_Burn env cl k o') Some"
| "serve env cl (Rq_GetVolumeOpProcess k) =
     report (DiskManagerProvider_GetVolumeOpProcess env cl k) (\<lambda>r. Some (fst r))"
| "serve env cl (Rq_GetPartitionTable d i) =
     report (DiskManagerProvider_GetPartitionTable env cl d i) (\<lambda>r. Some (code_of r))"
| "serve env cl (Rq_CreatePartition d ps) =
     report (DiskManagerProvider_CreatePartition env cl d ps) Some"
| "serve env cl (Rq_DeletePartition d n) =
     report (DiskManagerProvider_DeletePartition env cl d n) Some"
| "serve env cl (Rq_FormatPartition d n ps) =
     report (DiskManagerProvider_FormatPartition env cl d n ps) Some"
| "serve env cl (Rq_GetExternalDiskInfos) =
     report (DiskManagerProvider_GetExternalDiskInfos env cl) (\<lambda>r. Some (code_of r))"
| "serve env cl (Rq_GetExternalVolumeInfos) =
     report (DiskManagerProvider_GetExternalVolumeInfos env cl) (\<lambda>r. Some (code_of r))"
| "serve env cl (Rq_BindBlockLoopDev d a b) =
     report (DiskManagerProvider_BindBlockLoopDev env cl d a b) (case_sum (\<lambda>e. e) (\<lambda>_. Some E_OK))"
| "serve env cl (Rq_CreateDmCryptVolume c l n) =
     report (DiskManagerProvider_CreateDmCryptVolume env cl c l n) (\<lambda>r. Some (code_of r))"
| "serve env cl (Rq_DestroyDmCryptVolume n) =
     report (DiskManagerProvider_DestroyDmCryptVolume env cl n) Some"
| "serve env cl (Rq_UnbindBlockLoopDev l) =
     report (DiskManagerProvider_UnbindBlockLoopDev env cl l) Some"
| "serve env cl (Rq_MountVolumeByPath d p mp) =
     report (DiskManagerProvider_MountVolumeByPath env cl d p mp) Some"
| "serve env cl (Rq_UmountVolumeByPath d p) =
     report (DiskManagerProvider_UmountVolumeByPath env cl d p) Some"

text \<open>Who may send what: the rights a caller needs, as the permission names suggest them.\<close>

definition storage_manager_or :: "caller \<Rightarrow> string \<Rightarrow> bool" where
  "storage_manager_or cl perm \<longleftrightarrow> IsCallingSystemApp cl \<and>
     (perm \<in> set (cl_granted cl) \<or> cl_native cl = Some ''storage_manager'' \<and> cl_uid cl = 1090)"

definition system_app_with :: "caller \<Rightarrow> string \<Rightarrow> bool" where
  "system_app_with cl perm \<longleftrightarrow> IsCallingSystemApp cl \<and> perm \<in> set (cl_granted cl)"

definition is_storage_daemon :: "caller \<Rightarrow> bool" where
  "is_storage_daemon cl \<longleftrightarrow> cl_native cl = Some ''storage_daemon'' \<and> cl_uid cl = 0"

definition is_crypto_service :: "caller \<Rightarrow> bool" where
  "is_crypto_service cl \<longleftrightarrow> cl_uid cl = 7060 \<and> ''ohos.permission.MOUNT_UNMOUNT_MANAGER'' \<in> set (cl_granted cl)"

primrec may_call :: "caller \<Rightarrow> request \<Rightarrow> bool" where
  "may_call cl (Rq_Mount k mp) = (storage_manager_or cl ''ohos.permission.MOUNT_UNMOUNT_MANAGER'')"
| "may_call cl (Rq_Unmount k) = (storage_manager_or cl ''ohos.permission.MOUNT_UNMOUNT_MANAGER'')"
| "may_call cl (Rq_Format k t) = (storage_manager_or cl ''ohos.permission.MOUNT_FORMAT_MANAGER'')"
| "may_call cl (Rq_TryToFix k) = (storage_manager_or cl ''ohos.permission.MOUNT_UNMOUNT_MANAGER'')"
| "may_call cl (Rq_SetVolumeDescription u d) = (storage_manager_or cl ''ohos.permission.MOUNT_UNMOUNT_MANAGER'')"
| "may_call cl (Rq_GetAllVolumes) = (storage_manager_or cl ''ohos.permission.STORAGE_MANAGER'')"
| "may_call cl (Rq_GetVolumeByUuid u) = (storage_manager_or cl ''ohos.permission.STORAGE_MANAGER'')"
| "may_call cl (Rq_GetVolumeById k) = (storage_manager_or cl ''ohos.permission.STORAGE_MANAGER'')"
| "may_call cl (Rq_GetFreeSizeOfVolume u) = (storage_manager_or cl ''ohos.permission.STORAGE_MANAGER'')"
| "may_call cl (Rq_GetTotalSizeOfVolume u) = (storage_manager_or cl ''ohos.permission.STORAGE_MANAGER'')"
| "may_call cl (Rq_Partition d n) = (storage_manager_or cl ''ohos.permission.MOUNT_FORMAT_MANAGER'')"
| "may_call cl (Rq_OnBlockDiskUevent m) = (is_storage_daemon cl)"
| "may_call cl (Rq_ReportVolumeOpDiag m) = (is_storage_daemon cl)"
| "may_call cl (Rq_GetAllDisks) = (storage_manager_or cl ''ohos.permission.MOUNT_UNMOUNT_MANAGER'')"
| "may_call cl (Rq_GetDiskById d) = (storage_manager_or cl ''ohos.permission.MOUNT_UNMOUNT_MANAGER'')"
| "may_call cl (Rq_QueryUsbIsInUse p) = (system_app_with cl ''ohos.permission.MOUNT_UNMOUNT_MANAGER'')"
| "may_call cl (Rq_NotifyMtpMounted k p d u t) = (is_storage_daemon cl)"
| "may_call cl (Rq_NotifyMtpUnmounted k b) = (is_storage_daemon cl)"
| "may_call cl (Rq_Erase k) = (system_app_with cl ''ohos.permission.MOUNT_UNMOUNT_MANAGER'')"
| "may_call cl (Rq_Eject d) = (system_app_with cl ''ohos.permission.MOUNT_UNMOUNT_MANAGER'')"
| "may_call cl (Rq_CreateIsoImage k p) = (system_app_with cl ''ohos.permission.MOUNT_UNMOUNT_MANAGER'')"
| "may_call cl (Rq_Burn k o') = (system_app_with cl ''ohos.permission.MOUNT_UNMOUNT_MANAGER'')"
| "may_call cl (Rq_GetVolumeOpProcess k) = (system_app_with cl ''ohos.permission.MOUNT_UNMOUNT_MANAGER'')"
| "may_call cl (Rq_GetPartitionTable d i) = (system_app_with cl ''ohos.permission.MOUNT_FORMAT_MANAGER'')"
| "may_call cl (Rq_CreatePartition d ps) = (system_app_with cl ''ohos.permission.MOUNT_FORMAT_MANAGER'')"
| "may_call cl (Rq_DeletePartition d n) = (system_app_with cl ''ohos.permission.MOUNT_FORMAT_MANAGER'')"
| "may_call cl (Rq_FormatPartition d n ps) = (system_app_with cl ''ohos.permission.MOUNT_FORMAT_MANAGER'')"
| "may_call cl (Rq_GetExternalDiskInfos) = (''ohos.permission.GET_STORAGE_VOLUME_INFO'' \<in> set (cl_granted cl))"
| "may_call cl (Rq_GetExternalVolumeInfos) = (''ohos.permission.GET_STORAGE_VOLUME_INFO'' \<in> set (cl_granted cl))"
| "may_call cl (Rq_BindBlockLoopDev d a b) = (is_crypto_service cl)"
| "may_call cl (Rq_CreateDmCryptVolume c l n) = (is_crypto_service cl)"
| "may_call cl (Rq_DestroyDmCryptVolume n) = (is_crypto_service cl)"
| "may_call cl (Rq_UnbindBlockLoopDev l) = (is_crypto_service cl)"
| "may_call cl (Rq_MountVolumeByPath d p mp) = (is_crypto_service cl)"
| "may_call cl (Rq_UmountVolumeByPath d p) = (is_crypto_service cl)"

lemmas provider_defs =
  DiskManagerProvider_Mount_def DiskManagerProvider_Unmount_def DiskManagerProvider_Format_def
  DiskManagerProvider_TryToFix_def DiskManagerProvider_SetVolumeDescription_def DiskManagerProvider_GetAllVolumes_def
  DiskManagerProvider_GetVolumeByUuid_def DiskManagerProvider_GetVolumeById_def DiskManagerProvider_GetFreeSizeOfVolume_def
  DiskManagerProvider_GetTotalSizeOfVolume_def DiskManagerProvider_Partition_def DiskManagerProvider_OnBlockDiskUevent_def
  DiskManagerProvider_ReportVolumeOpDiag_def DiskManagerProvider_GetAllDisks_def DiskManagerProvider_GetDiskById_def
  DiskManagerProvider_QueryUsbIsInUse_def DiskManagerProvider_NotifyMtpMounted_def DiskManagerProvider_NotifyMtpUnmounted_def
  DiskManagerProvider_Erase_def DiskManagerProvider_Eject_def DiskManagerProvider_CreateIsoImage_def
  DiskManagerProvider_Burn_def DiskManagerProvider_GetVolumeOpProcess_def DiskManagerProvider_GetPartitionTable_def
  DiskManagerProvider_CreatePartition_def DiskManagerProvider_DeletePartition_def DiskManagerProvider_FormatPartition_def
  DiskManagerProvider_GetExternalDiskInfos_def DiskManagerProvider_GetExternalVolumeInfos_def DiskManagerProvider_BindBlockLoopDev_def
  DiskManagerProvider_CreateDmCryptVolume_def DiskManagerProvider_DestroyDmCryptVolume_def DiskManagerProvider_UnbindBlockLoopDev_def
  DiskManagerProvider_MountVolumeByPath_def DiskManagerProvider_UmountVolumeByPath_def

lemmas caller_defs = IsStorageManagerCaller_def CheckStorageDaemonPermission_def VerifyNativeCallerMatches_def VerifyCallerPermission_def
  GetCallingUid_def STORAGEDAEMON_UID_def STORAGE_MANAGER_UID_def CRYPTO_USB_MGR_SERVICE_UID_def
  PERMISSION_MOUNT_MANAGER_def PERMISSION_FORMAT_MANAGER_def PERMISSION_STORAGE_MANAGER_def PERMISSION_GET_STORAGE_VOLUME_INFO_def
  storage_manager_or_def system_app_with_def is_storage_daemon_def is_crypto_service_def

section \<open>Callers without rights\<close>

lemma run_report: "run_state (report m f) s = (f (fst (run_state m s)), snd (run_state m s))"
  by (simp add: report_def split: prod.splits)

lemma pending_return: "run_state (pending (ret e)) s = (e, s)"
  by (simp add: pending_def BeginPendingStorageDaemonCallback_def EndPendingStorageDaemonCallback_def)

lemma denied_unchanged:
  assumes "\<not> may_call cl rq" "run_state (serve env cl rq) s = (r, t)"
  shows "t = s \<and> r \<in> {Some E_PERMISSION_DENIED, Some E_SYS_APP_PERMISSION_DENIED, Some E_NOT_SUPPORT, Some E_SA_IS_UNLOADING}"
  using assms
  by (cases rq)
    (auto simp: run_report provider_defs caller_defs pending_return code_of_def split: option.splits if_splits)

text \<open>
  C3: A caller that lacks the rights for a request gets an error and nothing happens: no state of the service
  changes, no event is published and neither the daemon nor any other service is called.
\<close>

theorem unauthorised_denied:
  assumes "\<not> may_call cl rq" "run_state (serve env cl rq) s = (r, t)"
  shows "t = s \<and> r \<in> {Some E_PERMISSION_DENIED, Some E_SYS_APP_PERMISSION_DENIED, Some E_NOT_SUPPORT, Some E_SA_IS_UNLOADING}"
  using denied_unchanged[OF assms] .

definition plain_app :: caller where
  "plain_app = \<lparr>cl_uid = 20010045, cl_pid = 77, cl_tokenType = TOKEN_HAP, cl_systemAppToken = False, cl_granted = [],
     cl_native = None, cl_hap = Some (''com.example.app'', 100)\<rparr>"

theorem unauthorised_denied_witness:
  "snd (run_state (serve (calm (\<lambda>h c. ok_reply)) plain_app (Rq_Format ''vol-8-1'' ''exfat'')) two_disks) = two_disks"
proof -
  have "\<not> may_call plain_app (Rq_Format ''vol-8-1'' ''exfat'')"
    by (simp add: storage_manager_or_def plain_app_def)
  from unauthorised_denied[OF this prod.collapse[symmetric]] show ?thesis by blast
qed

section \<open>Operations on internal data disks\<close>

text \<open>No answer of the account service grants the privilege.\<close>

definition admin_denies :: "env \<Rightarrow> caller \<Rightarrow> bool" where
  "admin_denies env cl \<longleftrightarrow>
     (\<forall>h. let r = en_reply env h (Acc_AcquireAuthorization FORMAT_DATA_DISK_PRIVILEGE (cl_pid cl) (cl_uid cl)) in
        rp_err r \<noteq> E_OK \<or> \<not> rp_flag r \<or> rp_int 0 0 r \<noteq> E_OK \<and> rp_int 0 0 r \<noteq> en_AUTHORIZATION_SUCCESS env \<or>
        rp_int 0 0 r = E_OK \<and> rp_int 1 0 r \<noteq> en_AUTHORIZATION_SUCCESS env)"

definition is_format :: "call \<Rightarrow> bool" where
  "is_format c \<longleftrightarrow> (\<exists>p t d pt n. c = Sd_FormatVolume p t d pt n) \<or> (\<exists>p t. c = Sd_Partition p t)"

definition on_data_disk :: "dm \<Rightarrow> string \<Rightarrow> bool" where
  "on_data_disk s diskId = (case om_get (diskMap s) diskId of Some d \<Rightarrow> Disk_IsInternalDataDisk d | None \<Rightarrow> False)"

definition busy :: "dm \<Rightarrow> bool" where
  "busy s \<longleftrightarrow> pv_dataDiskFormatBusy (prov s)"

lemma CheckAdmin_denied: "admin_denies env cl \<Longrightarrow> fst (run_state (CheckAdminAuthorization env cl) s) = E_PERMISSION_DENIED"
  by (auto simp: admin_denies_def CheckAdminAuthorization_def run_invoke Let_def split: if_splits)

lemma undisturbed_admin: "quiet env \<Longrightarrow> keeps (undisturbed is_format s0) (CheckAdminAuthorization env cl)"
  by (auto simp: CheckAdminAuthorization_def is_format_def Let_def intro!: ensures_intros undisturbed_invoke)

lemma undisturbed_busy: "keeps (undisturbed P s0) (set_busy b)"
  by (simp add: set_busy_def ensures_def undisturbed_def)

text \<open>The flags of the provider are not touched by the operations of the disk manager.\<close>

definition flags_inv :: "ProviderState \<Rightarrow> dm \<Rightarrow> bool" where
  "flags_inv p s \<longleftrightarrow> registry_inv s \<and> prov s = p"

lemma flags_service:
  assumes "quiet env"
  shows "service_invariant env (flags_inv p) (\<lambda>_. True) (\<lambda>_. True)"
  using assms
  by unfold_locales
    (auto simp: ensures_def flags_inv_def registry_inv_def run_invoke_quiet keyed_insert volumes.keyed_adjust volumes.keyed_erase
      disks.keyed_adjust disks.keyed_erase dest: volumes.keyed_lookup disks.keyed_lookup)

lemma prov_set_busy: "pv_dataDiskFormatBusy p = b \<Longrightarrow> p\<lparr>pv_dataDiskFormatBusy := b\<rparr> = p"
  by (cases p) simp

lemma with_admin_auth_result:
  assumes quiet: "quiet env" and op: "\<And>p. ensures (flags_inv p) operation (\<lambda>r. r \<noteq> None)"
    and inv: "registry_inv s" and run: "run_state (with_admin_auth env cl True operation) s = (r, t)"
  shows "prov t = prov s \<and> r \<noteq> None \<and> (busy s \<or> admin_denies env cl \<longrightarrow> r \<noteq> Some E_OK \<and> undisturbed is_format s t)"
proof (cases "busy s")
  case True
  then have "prov_update (pv_dataDiskFormatBusy_update (\<lambda>_. True)) s = s"
    by (cases s) (simp add: busy_def prov_set_busy)
  with True run show ?thesis
    by (auto simp: with_admin_auth_def set_busy_def busy_def undisturbed_refl)
next
  case False
  let ?p = "pv_dataDiskFormatBusy_update (\<lambda>_. True) (prov s)"
  note h = service_invariant.axioms(1)[OF flags_service[OF quiet, of ?p]]
  obtain s1 where 1: "run_state (set_busy True) s = ((), s1)" by (metis prod.exhaust old.unit.exhaust)
  have s1: "flags_inv ?p s1" "undisturbed is_format s s1"
    using 1 inv ensuresD[OF undisturbed_busy undisturbed_refl 1] by (auto simp: set_busy_def flags_inv_def registry_inv_def)
  obtain a s2 where 2: "run_state (CheckAdminAuthorization env cl) s1 = (a, s2)" by fastforce
  have "keeps (flags_inv ?p) (CheckAdminAuthorization env cl)"
    unfolding CheckAdminAuthorization_def Let_def
    by (intro ensures_intros handler_invariant.keeps_invoke[OF h]) simp_all
  from ensuresD[OF this s1(1) 2] have s2: "flags_inv ?p s2" by simp
  have u2: "undisturbed is_format s s2" using ensuresD[OF undisturbed_admin[OF quiet] s1(2) 2] by simp
  have restored: "(?p)\<lparr>pv_dataDiskFormatBusy := False\<rparr> = prov s" using False by (cases "prov s") (simp add: busy_def)
  show ?thesis
  proof (cases "a = E_OK")
    case refused: False
    then have "r = Some a" "t = prov_update (pv_dataDiskFormatBusy_update (\<lambda>_. False)) s2"
      using run False 1 2 by (auto simp: with_admin_auth_def set_busy_def busy_def)
    then show ?thesis using refused s2 restored u2 by (auto simp: flags_inv_def undisturbed_def)
  next
    case granted: True
    obtain e s3 where 3: "run_state operation s2 = (e, s3)" by fastforce
    have s3: "flags_inv ?p s3" "e \<noteq> None" using ensuresD[OF op s2 3] by auto
    obtain q s4 where 4: "run_state (invoke env (Acc_ReleaseAuthorization FORMAT_DATA_DISK_PRIVILEGE)) s3 = (q, s4)" by fastforce
    have s4: "flags_inv ?p s4" using ensuresD[OF handler_invariant.keeps_invoke[OF h] s3(1) 4] by simp
    have "r = e" "t = prov_update (pv_dataDiskFormatBusy_update (\<lambda>_. False)) s4"
      using run False granted 1 2 3 4 s3(2) by (auto simp: with_admin_auth_def set_busy_def busy_def)
    moreover have "\<not> admin_denies env cl" using CheckAdmin_denied[of env cl s1] 2 granted by auto
    ultimately show ?thesis using s3 s4 restored False by (auto simp: flags_inv_def)
  qed
qed

lemma GetDiskById_data_disk:
  assumes "run_state (GetDiskById env k) s = (r, t)" "on_data_disk s k"
  shows "\<exists>d. r = Inr d \<and> Disk_IsInternalDataDisk d"
  using assms
  by (auto simp: GetDiskById_def attach_and_query_def QueryAndAppendEncryptionStatusUnlocked_def AttachVolumeIdsToDisk_def
      TryCopyByDiskId_def on_data_disk_def Disk_IsInternalDataDisk_def Let_def split: prod.splits option.splits if_splits)

lemma valid_disk_id_parses: "IsDiskIdValid d \<Longrightarrow> ParseDiskIdToMajMin d \<noteq> None"
  by (auto simp: DiskIdValid_iff ParseDiskIdToMajMin_def split: option.splits)

lemma Partition_total: "IsDiskIdValid d \<Longrightarrow> fst (run_state (Partition env d n) s) \<noteq> None"
  using valid_disk_id_parses[of d]
  by (auto simp: Partition_def RediscoverDiskVolumes_def split: prod.splits if_splits option.splits)

lemma data_disk_flags:
  assumes quiet: "quiet env"
  shows "ensures (flags_inv p) (do { e \<leftarrow> Format env k t; ret (Some e) }) (\<lambda>r. r \<noteq> None)"
    and "IsDiskIdValid d \<Longrightarrow> ensures (flags_inv p) (Partition env d n) (\<lambda>r. r \<noteq> None)"
proof -
  note h = flags_service[OF quiet, of p]
  have "keeps (flags_inv p) (Format env k t)"
    by (rule handler_invariant.keeps_Format[OF service_invariant.axioms(1)[OF h]]) auto
  then show "ensures (flags_inv p) (do { e \<leftarrow> Format env k t; ret (Some e) }) (\<lambda>r. r \<noteq> None)"
    by (rule ensures_bind) (simp add: ensures_return)
  show "ensures (flags_inv p) (Partition env d n) (\<lambda>r. r \<noteq> None)" if "IsDiskIdValid d"
    using service_invariant.keeps_Partition(2)[OF h] Partition_total[OF that] unfolding ensures_def by blast
qed

lemma undisturbed_trans: "undisturbed P s s1 \<Longrightarrow> undisturbed P s1 t \<Longrightarrow> undisturbed P s t"
  by (simp add: undisturbed_def)

lemma data_disk_check:
  assumes quiet: "quiet env" and inv: "registry_inv s" and data: "on_data_disk s diskId"
    and run: "run_state (IsDataDiskByDiskId env diskId) s = (b, t)"
  shows "b \<and> registry_inv t \<and> prov t = prov s \<and> undisturbed is_format s t"
proof -
  obtain d s1 where 1: "run_state (GetDiskById env diskId) s = (d, s1)" by fastforce
  note h = service_invariant.axioms(1)[OF flags_service[OF quiet, of "prov s"]]
  have "flags_inv (prov s) s1"
    using ensuresD[OF handler_invariant.keeps_listings(1)[OF h] _ 1] inv by (simp add: flags_inv_def)
  moreover have "undisturbed is_format s s1"
    using ensuresD[OF undisturbed_disk[OF quiet, of is_format] undisturbed_refl 1] is_format_def by blast
  ultimately show ?thesis
    using run 1 GetDiskById_data_disk[OF 1 data] by (auto simp: IsDataDiskByDiskId_def flags_inv_def)
qed

lemma data_disk_bracket:
  assumes quiet: "quiet env" and op: "\<And>p. ensures (flags_inv p) operation (\<lambda>r. r \<noteq> None)"
    and inv: "registry_inv s" and data: "on_data_disk s diskId"
    and run: "run_state (do { b \<leftarrow> IsDataDiskByDiskId env diskId; with_admin_auth env cl b operation }) s = (r, t)"
  shows "prov t = prov s \<and> r \<noteq> None \<and> (busy s \<or> admin_denies env cl \<longrightarrow> r \<noteq> Some E_OK \<and> undisturbed is_format s t)"
proof -
  obtain b s1 where 1: "run_state (IsDataDiskByDiskId env diskId) s = (b, s1)" by fastforce
  note chk = data_disk_check[OF quiet inv data 1]
  with run 1 have "run_state (with_admin_auth env cl True operation) s1 = (r, t)" by simp
  from with_admin_auth_result[OF quiet op _ this] chk show ?thesis
    by (auto simp: busy_def intro: undisturbed_trans)
qed

lemma IsDataDisk_by_disk:
  "om_get (volumeMap s) k = Some v \<Longrightarrow> run_state (IsDataDisk env k) s = run_state (IsDataDiskByDiskId env (vc_diskId v)) s"
  by (simp add: IsDataDisk_def IsDataDiskByDiskId_def GetVolumeById_def)

lemma serve_data_disk:
  "run_state (serve env cl (Rq_Format k f)) s = (r, t) \<Longrightarrow> (\<exists>e. r = Some e \<and> e \<noteq> E_OK \<and> t = s) \<or>
     run_state (do { b \<leftarrow> IsDataDisk env k; with_admin_auth env cl b (do { e \<leftarrow> Format env k f; ret (Some e) }) }) s = (r, t)"
  "run_state (serve env cl (Rq_Partition d n)) s = (r, t) \<Longrightarrow> (\<exists>e. r = Some e \<and> e \<noteq> E_OK \<and> t = s) \<or>
     IsDiskIdValid d \<and>
     run_state (do { b \<leftarrow> IsDataDiskByDiskId env d; with_admin_auth env cl b (Partition env d n) }) s = (r, t)"
  unfolding serve.simps run_report prod.collapse
  by (simp_all add: DiskManagerProvider_Format_def DiskManagerProvider_Partition_def del: State_Monad.run_state_bind split: if_splits)
    (metis zero_neq_numeral)+

text \<open>
  C7: Formatting a volume of an internal data disk, or partitioning the disk, with no other thread in
  between: the request always gets an answer and leaves the flags of the provider, the busy flag among
  them, as it found them. While another such request is busy, or when the administrator does not grant the
  privilege, it fails, neither formats nor partitions anything, and no volume changes.
\<close>

theorem data_disk_exclusive:
  assumes quiet: "quiet env" and inv: "registry_inv s"
    and rq: "(\<exists>volumeId fsType v. rq = Rq_Format volumeId fsType \<and> om_get (volumeMap s) volumeId = Some v \<and> on_data_disk s (vc_diskId v)) \<or>
      (\<exists>diskId n. rq = Rq_Partition diskId n \<and> on_data_disk s diskId)"
    and run: "run_state (serve env cl rq) s = (r, t)"
  shows "prov t = prov s \<and> r \<noteq> None \<and>
    (busy s \<or> admin_denies env cl \<longrightarrow> r \<noteq> Some E_OK \<and> volumeMap t = volumeMap s \<and>
       filter (watched is_format) (trace t) = filter (watched is_format) (trace s))"
proof -
  let ?goal = "\<lambda>r t. prov t = prov s \<and> r \<noteq> None \<and> (busy s \<or> admin_denies env cl \<longrightarrow> r \<noteq> Some E_OK \<and> undisturbed is_format s t)"
  from rq have "?goal r t"
  proof (elim disjE exE conjE)
    fix volumeId fsType v assume a: "rq = Rq_Format volumeId fsType" "om_get (volumeMap s) volumeId = Some v" "on_data_disk s (vc_diskId v)"
    let ?op = "do { e \<leftarrow> Format env volumeId fsType; ret (Some e) }"
    have same: "run_state (do { b \<leftarrow> IsDataDisk env volumeId; with_admin_auth env cl b ?op }) s =
        run_state (do { b \<leftarrow> IsDataDiskByDiskId env (vc_diskId v); with_admin_auth env cl b ?op }) s"
      using IsDataDisk_by_disk[OF a(2)] by simp
    consider e where "r = Some e" "e \<noteq> E_OK" "t = s"
      | "run_state (do { b \<leftarrow> IsDataDiskByDiskId env (vc_diskId v); with_admin_auth env cl b ?op }) s = (r, t)"
      using serve_data_disk(1)[OF run[unfolded a(1)]] unfolding same by blast
    then show ?thesis
    proof cases
      case 2
      show ?thesis by (rule data_disk_bracket[OF quiet _ inv a(3) 2]) (rule data_disk_flags(1)[OF quiet])
    qed (simp add: undisturbed_refl)
  next
    fix diskId n assume a: "rq = Rq_Partition diskId n" "on_data_disk s diskId"
    consider e where "r = Some e" "e \<noteq> E_OK" "t = s"
      | "IsDiskIdValid diskId" "run_state (do { b \<leftarrow> IsDataDiskByDiskId env diskId; with_admin_auth env cl b (Partition env diskId n) }) s = (r, t)"
      using serve_data_disk(2)[OF run[unfolded a(1)]] by blast
    then show ?thesis
    proof cases
      case 2
      show ?thesis by (rule data_disk_bracket[OF quiet _ inv a(2) 2(2)]) (rule data_disk_flags(2)[OF quiet 2(1)])
    qed (simp add: undisturbed_refl)
  qed
  then show ?thesis by (simp add: undisturbed_def)
qed

definition settings_app :: caller where
  "settings_app = \<lparr>cl_uid = 1000, cl_pid = 5, cl_tokenType = TOKEN_HAP, cl_systemAppToken = True,
     cl_granted = [''ohos.permission.MOUNT_FORMAT_MANAGER''], cl_native = None, cl_hap = Some (''com.example.settings'', 100)\<rparr>"

theorem data_disk_exclusive_witness:
  "volumeMap (snd (run_state (serve (calm (\<lambda>h c. ok_reply\<lparr>rp_err := 5\<rparr>)) settings_app (Rq_Format ''vol-259-1'' ''f2fs'')) two_disks)) =
   volumeMap two_disks"
proof -
  let ?env = "calm (\<lambda>h c. ok_reply\<lparr>rp_err := 5\<rparr>)"
  obtain v where v: "om_get (volumeMap two_disks) ''vol-259-1'' = Some v" "vc_diskId v = ''disk-259-0''" by (simp add: two_disks_def)
  have "on_data_disk two_disks ''disk-259-0''"
    by (simp add: on_data_disk_def two_disks_def Disk_IsInternalDataDisk_def IsInternalDataDiskType_def Disk_ctor_def)
  moreover have "admin_denies ?env settings_app" by (simp add: admin_denies_def calm_def)
  ultimately show ?thesis
    using data_disk_exclusive[OF quiet_calm two_disks_inv _ prod.collapse[symmetric], of "Rq_Format ''vol-259-1'' ''f2fs''" _ settings_app] v
    by (metis (no_types, lifting))
qed

section \<open>Unloading\<close>

text \<open>
  C34: The idle timer, with no other thread in between: while a disk or a volume is recorded, a callback of the
  daemon is running or the monitor was stopped, nothing happens. Otherwise the ability manager is asked
  once, the maps stay as they are, and exactly when it agreed the service is marked as unloading; from then
  on every event of a device is refused without any effect.
\<close>

theorem unload_only_idle:
  assumes quiet: "quiet env" and run: "run_state (CheckAndUnloadIfIdle env) s = (u, t)"
    and event: "run_state (DiskManagerProvider_OnBlockDiskUevent env cl raw) t = (e, t')"
  shows "(if diskMap s \<noteq> [] \<or> volumeMap s \<noteq> [] \<or> pv_pendingCallbacks (prov s) > 0 \<or> pv_idleMonitorStopped (prov s)
     then t = s
     else \<exists>r. trace t = Call Sa_Unload r # trace s \<and> diskMap t = diskMap s \<and> volumeMap t = volumeMap s \<and>
       (pv_isUnloading (prov t) \<longleftrightarrow> rp_flag r \<and> rp_err r = E_OK)) \<and>
    (pv_isUnloading (prov t) \<longrightarrow> e = E_SA_IS_UNLOADING \<and> t' = t)"
  using quiet run event
  by (auto simp: CheckAndUnloadIfIdle_def HasManagedResources_def run_invoke_quiet DiskManagerProvider_OnBlockDiskUevent_def split: if_splits)

theorem unload_only_idle_witness:
  "snd (run_state (CheckAndUnloadIfIdle (calm (\<lambda>h c. ok_reply))) two_disks) = two_disks \<and>
   pv_isUnloading (prov (snd (run_state (CheckAndUnloadIfIdle (calm (\<lambda>h c. ok_reply))) init_dm)))"
proof -
  let ?env = "calm (\<lambda>h c. ok_reply)"
  note idle = unload_only_idle[OF quiet_calm[of "\<lambda>h c. ok_reply"] prod.collapse[symmetric] prod.collapse[symmetric],
      where cl = plain_app and raw = "[]"]
  have "diskMap two_disks \<noteq> []" by (simp add: two_disks_def)
  with idle[where s = two_disks] have "snd (run_state (CheckAndUnloadIfIdle ?env) two_disks) = two_disks" by simp
  moreover have "trace (snd (run_state (CheckAndUnloadIfIdle ?env) init_dm)) = [Call Sa_Unload ok_reply]"
    by code_simp
  with idle[where s = init_dm] have "pv_isUnloading (prov (snd (run_state (CheckAndUnloadIfIdle ?env) init_dm)))"
    by (simp add: init_dm_def ok_reply_def)
  ultimately show ?thesis by blast
qed

section \<open>Reachable states\<close>

text \<open>The life of the service: started, stopped, the idle timer fires, a request comes in.\<close>

datatype service_event = Start | Stop | Idle | Request caller request

primrec dispatch :: "env \<Rightarrow> service_event \<Rightarrow> errno option dmop" where
  "dispatch env Start = report (OnStart env) (\<lambda>_. Some E_OK)"
| "dispatch env Stop = report OnStop (\<lambda>_. Some E_OK)"
| "dispatch env Idle = report (CheckAndUnloadIfIdle env) (\<lambda>_. Some E_OK)"
| "dispatch env (Request cl rq) = serve env cl rq"

inductive reachable :: "dm \<Rightarrow> bool" where
  reachable_init: "reachable init_dm"
| reachable_step: "reachable s \<Longrightarrow> others_keep env dm_inv \<Longrightarrow> reachable (snd (run_state (dispatch env ev) s))"

text \<open>The contract for handlers that also write the flags of the provider.\<close>

locale provider_invariant = service_invariant env I D T for env :: env and I D T +
  assumes keeps_prov: "keeps I (modify (prov_update h6))"
    and T_table: "table_ok t \<Longrightarrow> T t"
begin

lemma keeps_report: "keeps I m \<Longrightarrow> keeps I (report m f)"
  by (auto simp: report_def intro!: ensures_intros)

lemma keeps_pending: "keeps I m \<Longrightarrow> keeps I (pending m)"
  by (auto simp: pending_def BeginPendingStorageDaemonCallback_def EndPendingStorageDaemonCallback_def
      intro!: ensures_intros keeps_prov)

lemma keeps_data_disk: "keeps I (IsDataDisk env k)" "keeps I (IsDataDiskByDiskId env d)"
  by (auto simp: IsDataDisk_def IsDataDiskByDiskId_def intro!: keeps_rules keeps_ops)

lemma keeps_with_admin: "keeps I m \<Longrightarrow> keeps I (with_admin_auth env cl b m)"
  by (auto simp: with_admin_auth_def CheckAdminAuthorization_def set_busy_def Let_def intro!: keeps_rules keeps_prov)

lemma keeps_serve: "keeps I (serve env cl rq)"
  by (cases rq)
    (auto simp: provider_defs Let_def intro!: keeps_report keeps_pending keeps_with_admin keeps_data_disk keeps_GetPartitionTable
      T_table service_rules keeps_ops split: sum.splits option.splits)

lemma keeps_dispatch: "keeps I (dispatch env ev)"
  by (cases ev)
    (auto simp: OnStart_def OnStop_def StartIdleMonitor_def StopIdleMonitor_def CheckAndUnloadIfIdle_def HasManagedResources_def
      intro!: keeps_report keeps_serve service_rules keeps_ops keeps_prov)

end

lemma dm_provider:
  assumes "others_keep env dm_inv"
  shows "provider_invariant env dm_inv disk_typed table_ok"
  by (intro provider_invariant.intro provider_invariant_axioms.intro dm_service[OF assms])
    (auto simp: ensures_def dm_inv_def registry_inv_def)

interpretation calm_provider: provider_invariant "calm f" dm_inv disk_typed table_ok for f
  by (rule dm_provider) (rule others_keep_quiet[OF quiet_calm])

lemma reachable_dm_inv: "reachable s \<Longrightarrow> dm_inv s"
proof (induction rule: reachable.induct)
  case (reachable_step s env ev)
  then show ?case using provider_invariant.keeps_dispatch[OF dm_provider] unfolding ensures_def by blast
qed (rule dminv.initial)

text \<open>
  C18: In every state the service can reach from its start by requests of any callers, timer events, starts
  and stops, other threads keeping the invariant while an operation waits for a reply: the maps are ordered and
  every disk and volume is recorded under its own identifier; every disk has one of the known types and
  is removable exactly when it is no internal data disk; every partition table has a usable geometry.
\<close>

theorem reachable_invariant:
  assumes "reachable s"
  shows "om_wf (diskMap s) \<and> om_wf (volumeMap s) \<and> om_wf (partitionTableMap s) \<and>
    (\<forall>k d. om_get (diskMap s) k = Some d \<longrightarrow> d_diskId d = k \<and> d_diskType d \<in> range dt_code \<and>
       (d_removable d \<longleftrightarrow> \<not> Disk_IsInternalDataDisk d)) \<and>
    (\<forall>k v. om_get (volumeMap s) k = Some v \<longrightarrow> vc_id v = k) \<and>
    (\<forall>k t. om_get (partitionTableMap s) k = Some t \<longrightarrow> 0 < pt_sectorSize t \<and> 0 < pt_alignSector t \<and> 0 \<le> pt_lastUsableSector t)"
proof -
  have inv: "dm_inv s" using reachable_dm_inv[OF assms] .
  then have reg: "registry_inv s" by (rule dm_inv_registry)
  have "d_diskType d \<in> range dt_code \<and> (d_removable d \<longleftrightarrow> \<not> Disk_IsInternalDataDisk d)" if "om_get (diskMap s) k = Some d" for k d
    using inv that unfolding dm_inv_def disk_typed_def disk_wf_def by blast
  moreover have "0 < pt_sectorSize t \<and> 0 < pt_alignSector t \<and> 0 \<le> pt_lastUsableSector t"
    if "om_get (partitionTableMap s) k = Some t" for k t
    using inv that by (auto simp: dm_inv_def table_ok_def)
  moreover have "om_wf (partitionTableMap s)" using inv by (simp add: dm_inv_def)
  ultimately show ?thesis using registry_wf[OF reg] registry_disk[OF reg] registry_volume[OF reg] by blast
qed

definition storage_daemon :: caller where
  "storage_daemon = \<lparr>cl_uid = 0, cl_pid = 1, cl_tokenType = TOKEN_NATIVE, cl_systemAppToken = False, cl_granted = [],
     cl_native = Some ''storage_daemon'', cl_hap = None\<rparr>"

definition after_add :: dm where
  "after_add = snd (run_state (dispatch (calm (\<lambda>h c. ok_reply)) (Request storage_daemon (Rq_OnBlockDiskUevent
     (print_env sample_env)))) init_dm)"

theorem reachable_invariant_witness: "om_wf (diskMap after_add) \<and> om_wf (volumeMap after_add)"
  using reachable_invariant[OF reachable_step[OF reachable_init others_keep_quiet[OF quiet_calm],
      of "\<lambda>h c. ok_reply" "Request storage_daemon (Rq_OnBlockDiskUevent (print_env sample_env))"]]
  unfolding after_add_def by blast

end
