(* ===== verification/Dm_Dfx.thy ===== *)
theory Dm_Dfx
  imports Dm_BlockInfo
begin

text \<open>
  The diagnostics of the service: the report values of \<^verbatim>\<open>dfx/disk_manager_dfx_types.cpp\<close>, the audit log of
  \<^verbatim>\<open>dfx/hi_audit.cpp\<close> with its rotation, the fault and behaviour reports of \<^verbatim>\<open>dfx/disk_manager_radar.cpp\<close> and
  the reporting scope of \<^verbatim>\<open>dfx/disk_manager_dfx.h\<close>. The JSON library, the clock, the calendar, the system
  calls and the event service are parameters. Proved: the size of the log file is bounded over every
  history, a successful rotation keeps up to ten old files and beyond that removes an oldest one, a scope reports its end exactly
  once, and the text of a report is read back.
\<close>

section \<open>Definitions\<close>

subsection \<open>Report values\<close>

record VolumeReportInfo =
  ri_volumeId :: string
  ri_diskId :: string
  ri_devPath :: string
  ri_fsType :: string
  ri_fsUuid :: string
  ri_extra :: string

definition VolumeReportInfo_zero :: VolumeReportInfo where
  "VolumeReportInfo_zero = \<lparr>ri_volumeId = [], ri_diskId = [], ri_devPath = [], ri_fsType = [], ri_fsUuid = [], ri_extra = []\<rparr>"

definition WithVolumeId :: "string \<Rightarrow> VolumeReportInfo \<Rightarrow> VolumeReportInfo" where
  "WithVolumeId i r = r\<lparr>ri_volumeId := i\<rparr>"

definition WithDiskId :: "string \<Rightarrow> VolumeReportInfo \<Rightarrow> VolumeReportInfo" where
  "WithDiskId i r = r\<lparr>ri_diskId := i\<rparr>"

definition WithDevPath :: "string \<Rightarrow> VolumeReportInfo \<Rightarrow> VolumeReportInfo" where
  "WithDevPath p r = r\<lparr>ri_devPath := p\<rparr>"

definition WithFsType :: "string \<Rightarrow> VolumeReportInfo \<Rightarrow> VolumeReportInfo" where
  "WithFsType t r = r\<lparr>ri_fsType := t\<rparr>"

definition MergeFrom :: "VolumeReportInfo \<Rightarrow> VolumeReportInfo \<Rightarrow> VolumeReportInfo" where
  "MergeFrom other r =
     (let r1 = (if ri_volumeId other \<noteq> [] then r\<lparr>ri_volumeId := ri_volumeId other\<rparr> else r);
          r2 = (if ri_diskId other \<noteq> [] then r1\<lparr>ri_diskId := ri_diskId other\<rparr> else r1);
          r3 = (if ri_devPath other \<noteq> [] then r2\<lparr>ri_devPath := ri_devPath other\<rparr> else r2);
          r4 = (if ri_fsType other \<noteq> [] then r3\<lparr>ri_fsType := ri_fsType other\<rparr> else r3);
          r5 = (if ri_fsUuid other \<noteq> [] then r4\<lparr>ri_fsUuid := ri_fsUuid other\<rparr> else r4)
      in if ri_extra other \<noteq> []
         then r5\<lparr>ri_extra := (if ri_extra r5 = [] then ri_extra other else ri_extra r5 @ '';'' @ ri_extra other)\<rparr>
         else r5)"

definition js_set :: "string \<Rightarrow> string \<Rightarrow> (string, json) omap \<Rightarrow> (string, json) omap" where
  "js_set k v js = (if v \<noteq> [] then om_put k (JString v) js else js)"

definition extra_object :: "VolumeReportInfo \<Rightarrow> (string, json) omap" where
  "extra_object r = js_set ''extra'' (ri_extra r) (js_set ''fsUuid'' (ri_fsUuid r) (js_set ''fsType'' (ri_fsType r)
     (js_set ''devPath'' (ri_devPath r) (js_set ''diskId'' (ri_diskId r) (js_set ''volumeId'' (ri_volumeId r) [])))))"

definition ToExtraData :: "(json \<Rightarrow> string) \<Rightarrow> VolumeReportInfo \<Rightarrow> string" where
  "ToExtraData dump r = (let js = extra_object r in if js = [] then [] else dump (JObject js))"

definition DFX_TRUNCATE_MAX_LEN :: nat where "DFX_TRUNCATE_MAX_LEN = 2048"

definition DfxTruncate :: "string \<Rightarrow> nat \<Rightarrow> string" where
  "DfxTruncate text maxLen = (if length text \<le> maxLen then text else take maxLen text)"

definition FillReportInfoFromJson :: "(json \<Rightarrow> string) \<Rightarrow> (string, json) omap \<Rightarrow> VolumeReportInfo \<Rightarrow> VolumeReportInfo" where
  "FillReportInfoFromJson dump js r =
     (let r1 = (case om_get js ''devPath'' of Some (JString s) \<Rightarrow> r\<lparr>ri_devPath := s\<rparr> | _ \<Rightarrow> r);
          r2 = (case om_get js ''fsType'' of Some (JString s) \<Rightarrow> r1\<lparr>ri_fsType := s\<rparr> | _ \<Rightarrow> r1);
          r3 = (case om_get js ''volumeId'' of Some (JString s) \<Rightarrow> r2\<lparr>ri_volumeId := s\<rparr> | _ \<Rightarrow> r2);
          r4 = (case om_get js ''diskId'' of Some (JString s) \<Rightarrow> r3\<lparr>ri_diskId := s\<rparr> | _ \<Rightarrow> r3)
      in case om_get js ''extra'' of
           Some (JString s) \<Rightarrow> r4\<lparr>ri_extra := s\<rparr>
         | _ \<Rightarrow> (case om_get js ''tools'' of
                   Some t \<Rightarrow> r4\<lparr>ri_extra := DfxTruncate (dump t) DFX_TRUNCATE_MAX_LEN\<rparr>
                 | None \<Rightarrow> r4))"

datatype AutoMountSkipReason = AUTO_MOUNT_DISABLED | MISSING_FS_TYPE | MISSING_UUID | MISSING_FS_TYPE_AND_UUID

definition ResolveAutoMountSkipReason :: "bool \<Rightarrow> string \<Rightarrow> string \<Rightarrow> AutoMountSkipReason" where
  "ResolveAutoMountSkipReason autoMountEnabled type uuid =
     (if \<not> autoMountEnabled then AUTO_MOUNT_DISABLED
      else if type = [] \<and> uuid = [] then MISSING_FS_TYPE_AND_UUID
      else if type = [] then MISSING_FS_TYPE
      else MISSING_UUID)"

fun AutoMountSkipReasonToString :: "AutoMountSkipReason \<Rightarrow> string" where
  "AutoMountSkipReasonToString AUTO_MOUNT_DISABLED = ''autoMountDisabled''"
| "AutoMountSkipReasonToString MISSING_FS_TYPE = ''missingFsType''"
| "AutoMountSkipReasonToString MISSING_UUID = ''missingUuid''"
| "AutoMountSkipReasonToString MISSING_FS_TYPE_AND_UUID = ''missingFsTypeAndUuid''"

record AutoMountSkipContext =
  ctx_volId :: string
  ctx_diskId :: string
  ctx_volDevPath :: string
  ctx_type :: string
  ctx_uuid :: string
  ctx_autoMountEnabled :: bool

definition BuildAutoMountSkipReportInfo :: "AutoMountSkipContext \<Rightarrow> VolumeReportInfo" where
  "BuildAutoMountSkipReportInfo ctx =
     (let info = WithDevPath (ctx_volDevPath ctx) (WithDiskId (ctx_diskId ctx) (WithVolumeId (ctx_volId ctx) VolumeReportInfo_zero));
          info1 = (if ctx_type ctx \<noteq> [] then WithFsType (ctx_type ctx) info else info)
      in if ctx_uuid ctx \<noteq> [] then info1\<lparr>ri_fsUuid := ctx_uuid ctx\<rparr> else info1)"

definition ParseOpDiagText :: "(string \<Rightarrow> json option) \<Rightarrow> (json \<Rightarrow> string) \<Rightarrow> string \<Rightarrow> VolumeReportInfo" where
  "ParseOpDiagText parse dump opDiag =
     (if opDiag = [] then VolumeReportInfo_zero
      else case parse opDiag of
        Some (JObject js) \<Rightarrow> FillReportInfoFromJson dump js VolumeReportInfo_zero
      | _ \<Rightarrow> VolumeReportInfo_zero\<lparr>ri_extra := DfxTruncate opDiag DFX_TRUNCATE_MAX_LEN\<rparr>)"

text \<open>\<open>VolumeOpType\<close> is kept as its number: the source casts any 32-bit integer to it. \<open>OTHER\<close> is 4.\<close>

record OpDiagReport =
  or_valid :: bool
  or_ret :: int
  or_funcName :: string
  or_bizStage :: int
  or_opType :: int
  or_info :: VolumeReportInfo

definition OpDiagReport_zero :: OpDiagReport where
  "OpDiagReport_zero = \<lparr>or_valid = False, or_ret = 0, or_funcName = [], or_bizStage = 0, or_opType = 4,
     or_info = VolumeReportInfo_zero\<rparr>"

definition ParseOpDiagReport :: "(string \<Rightarrow> json option) \<Rightarrow> (json \<Rightarrow> string) \<Rightarrow> string \<Rightarrow> OpDiagReport" where
  "ParseOpDiagReport parse dump opDiag =
     (if opDiag = [] then OpDiagReport_zero
      else case parse opDiag of
        Some (JObject js) \<Rightarrow>
          (case (om_get js ''ret'', om_get js ''funcName'') of
             (Some (JNum n), Some (JString f)) \<Rightarrow>
               (let r1 = OpDiagReport_zero\<lparr>or_ret := to_int32 n, or_funcName := f\<rparr>;
                    r2 = (case om_get js ''bizStage'' of Some (JNum b) \<Rightarrow> r1\<lparr>or_bizStage := to_int32 b\<rparr> | _ \<Rightarrow> r1);
                    r3 = (case om_get js ''opType'' of Some (JNum t) \<Rightarrow> r2\<lparr>or_opType := to_int32 t\<rparr> | _ \<Rightarrow> r2)
                in r3\<lparr>or_info := FillReportInfoFromJson dump js (or_info r3), or_valid := True\<rparr>)
           | _ \<Rightarrow> OpDiagReport_zero)
      | _ \<Rightarrow> OpDiagReport_zero)"

subsection \<open>The audit log\<close>

record AuditLog =
  al_isUserBehavior :: bool
  al_operationCount :: nat
  al_cause :: string
  al_operationType :: string
  al_operationScenario :: string
  al_operationStatus :: string
  al_extend :: string

definition TitleString :: string where
  "TitleString = ''happenTime, packageName, isForeground, cause, isUserBehavior, operationType, operationScenario, '' @
     ''operationStatus, operationCount, extend'' @ [NL]"

definition bool_to_string :: "bool \<Rightarrow> string" where
  "bool_to_string b = (if b then ''1'' else ''0'')"

definition AuditLog_ToString :: "AuditLog \<Rightarrow> string" where
  "AuditLog_ToString l = al_cause l @ '', '' @ bool_to_string (al_isUserBehavior l) @ '', '' @ al_operationType l @ '', '' @
     al_operationScenario l @ '', '' @ al_operationStatus l @ '', '' @ to_string (al_operationCount l) @ '', '' @ al_extend l"

definition AUDIT_LOG_NAME :: string where "AUDIT_LOG_NAME = ''disk_manager''"
definition AUDIT_LOG_SIZE :: nat where "AUDIT_LOG_SIZE = 2 * 1024"
definition AUDIT_FILE_SIZE :: "32 word" where "AUDIT_FILE_SIZE = 3 * 1024 * 1024"
definition AUDIT_FILE_COUNT :: nat where "AUDIT_FILE_COUNT = 10"
definition HIAUDIT_LOG_NAME :: string where "HIAUDIT_LOG_NAME = AUDIT_LOG_NAME @ ''_audit.csv''"

text \<open>
  \<open>ha_dir\<close> is the log directory by file names; \<open>ha_open\<close> says that \<open>writeFd_\<close> is open on the current log. A
  system call consumes a tick, \<open>au_ok\<close> says whether it succeeds and \<open>au_wrote\<close> what \<open>write\<close> returns for a
  length; \<open>au_ms\<close> is the clock, \<open>au_strftime\<close> the calendar (\<open>None\<close> if \<open>localtime_r\<close> fails), \<open>au_readdir\<close> the
  order in which the directory is listed.
\<close>

record AuditFile =
  af_content :: string
  af_mtime :: nat

type_synonym audit_dir = "(string, AuditFile) omap"

record HiAudit =
  ha_open :: bool
  ha_size :: "32 word"
  ha_dir :: audit_dir
  ha_tick :: nat

record audit_env =
  au_ok :: "nat \<Rightarrow> bool"
  au_wrote :: "nat \<Rightarrow> nat \<Rightarrow> int"
  au_ms :: "nat \<Rightarrow> nat"
  au_strftime :: "string \<Rightarrow> nat \<Rightarrow> string option"
  au_readdir :: "audit_dir \<Rightarrow> string list"

definition au_step :: "audit_env \<Rightarrow> HiAudit \<Rightarrow> bool \<times> HiAudit" where
  "au_step env s = (au_ok env (ha_tick s), s\<lparr>ha_tick := Suc (ha_tick s)\<rparr>)"

definition HiAudit_Init :: "audit_env \<Rightarrow> HiAudit \<Rightarrow> HiAudit" where
  "HiAudit_Init env s =
     (case au_step env s of (opened, s1) \<Rightarrow>
      let s2 = s1\<lparr>ha_open := opened,
                 ha_dir := (if opened \<and> om_get (ha_dir s1) HIAUDIT_LOG_NAME = None
                            then om_put HIAUDIT_LOG_NAME \<lparr>af_content = [], af_mtime = au_ms env (ha_tick s1)\<rparr> (ha_dir s1)
                            else ha_dir s1)\<rparr>
      in case au_step env s2 of (ok, s3) \<Rightarrow>
         s3\<lparr>ha_size := (if ok then (case om_get (ha_dir s3) HIAUDIT_LOG_NAME of
                                       Some f \<Rightarrow> of_nat (length (af_content f)) | None \<Rightarrow> 0) else 0)\<rparr>)"

definition pad3 :: "string \<Rightarrow> string" where
  "pad3 s = replicate (3 - length s) (CHR ''0'') @ s"

definition GetFormattedTimestamp :: "audit_env \<Rightarrow> nat \<Rightarrow> string \<Rightarrow> string" where
  "GetFormattedTimestamp env timeStamp format =
     (case au_strftime env format (timeStamp div 1000) of Some date \<Rightarrow> date | None \<Rightarrow> [])"

definition GetFormattedTimestampEndWithMilli :: "audit_env \<Rightarrow> HiAudit \<Rightarrow> string" where
  "GetFormattedTimestampEndWithMilli env s =
     (let milliSeconds = au_ms env (ha_tick s) in
      GetFormattedTimestamp env milliSeconds ''%Y%m%d%H%M%S'' @ pad3 (to_string (milliSeconds mod 1000)))"

definition rotate_name :: "audit_env \<Rightarrow> HiAudit \<Rightarrow> string" where
  "rotate_name env s = AUDIT_LOG_NAME @ ''_audit_'' @ GetFormattedTimestampEndWithMilli env s @ ''.csv''"

definition RotateAuditLog :: "audit_env \<Rightarrow> HiAudit \<Rightarrow> HiAudit" where
  "RotateAuditLog env s =
     (let rotateName = rotate_name env s in
      case au_step env s of (ok, s1) \<Rightarrow>
      case om_get (ha_dir s1) HIAUDIT_LOG_NAME of
        Some f \<Rightarrow> (if ok then s1\<lparr>ha_dir := om_put rotateName f (om_erase HIAUDIT_LOG_NAME (ha_dir s1))\<rparr> else s1)
      | None \<Rightarrow> s1)"

definition is_rotated :: "string \<Rightarrow> bool" where
  "is_rotated subName \<longleftrightarrow>
     \<not> (\<not> starts_with AUDIT_LOG_NAME subName \<or> subName = HIAUDIT_LOG_NAME \<or> length subName < 4
        \<or> drop (length subName - 4) subName \<noteq> ''.csv'')"

text \<open>One round of the \<open>readdir\<close> loop: the number of rotated files and the oldest one so far.\<close>

definition scan_entry :: "audit_env \<Rightarrow> string \<Rightarrow> nat \<times> string \<times> HiAudit \<Rightarrow> nat \<times> string \<times> HiAudit" where
  "scan_entry env subName acc = (case acc of (cnt, oldest, s) \<Rightarrow>
     if \<not> is_rotated subName then acc
     else if oldest = [] then (Suc cnt, subName, s)
     else case au_step env s of (ok1, s1) \<Rightarrow>
       (case (ok1, om_get (ha_dir s1) subName) of
          (True, Some st) \<Rightarrow>
            (case au_step env s1 of (ok2, s2) \<Rightarrow>
             (case (ok2, om_get (ha_dir s2) oldest) of
                (True, Some oldestSt) \<Rightarrow> (Suc cnt, if af_mtime st < af_mtime oldestSt then subName else oldest, s2)
              | _ \<Rightarrow> (Suc cnt, oldest, s2)))
        | _ \<Rightarrow> (Suc cnt, oldest, s1)))"

definition CleanOldAuditFile :: "audit_env \<Rightarrow> HiAudit \<Rightarrow> HiAudit" where
  "CleanOldAuditFile env s =
     (case au_step env s of (ok, s1) \<Rightarrow>
      if \<not> ok then s1
      else case fold (scan_entry env) (au_readdir env (ha_dir s1)) (0, [], s1) of (cnt, oldest, s2) \<Rightarrow>
        if AUDIT_FILE_COUNT < cnt \<and> oldest \<noteq> []
        then (case au_step env s2 of (removed, s3) \<Rightarrow>
                if removed then s3\<lparr>ha_dir := om_erase oldest (ha_dir s3)\<rparr> else s3)
        else s2)"

definition GetWriteFilePath :: "audit_env \<Rightarrow> HiAudit \<Rightarrow> HiAudit" where
  "GetWriteFilePath env s =
     (if ha_size s < AUDIT_FILE_SIZE then s
      else
        let s1 = CleanOldAuditFile env (RotateAuditLog env (s\<lparr>ha_open := False\<rparr>)) in
        case au_step env s1 of (opened, s2) \<Rightarrow>
          s2\<lparr>ha_open := opened,
             ha_dir := (if opened then om_put HIAUDIT_LOG_NAME \<lparr>af_content = [], af_mtime = au_ms env (ha_tick s1)\<rparr> (ha_dir s2)
                        else ha_dir s2),
             ha_size := 0\<rparr>)"

definition WriteToFile :: "audit_env \<Rightarrow> string \<Rightarrow> HiAudit \<Rightarrow> HiAudit" where
  "WriteToFile env content s0 =
     (let s = GetWriteFilePath env s0 in
      if \<not> ha_open s then s
      else let n = au_wrote env (ha_tick s) (length content); written = (if 0 < n then nat n else 0) in
        s\<lparr>ha_tick := Suc (ha_tick s),
          ha_dir := om_mod HIAUDIT_LOG_NAME
            (\<lambda>f. f\<lparr>af_content := af_content f @ take written content, af_mtime := au_ms env (ha_tick s)\<rparr>) (ha_dir s),
          ha_size := ha_size s + of_nat written\<rparr>)"

definition audit_line :: "audit_env \<Rightarrow> AuditLog \<Rightarrow> HiAudit \<Rightarrow> string" where
  "audit_line env auditLog s =
     (let writeLog = GetFormattedTimestampEndWithMilli env s @ '', '' @ AUDIT_LOG_NAME @ '', NO, '' @ AuditLog_ToString auditLog
      in (if AUDIT_LOG_SIZE < length writeLog then take AUDIT_LOG_SIZE writeLog else writeLog) @ [NL])"

definition HiAudit_Write :: "audit_env \<Rightarrow> AuditLog \<Rightarrow> HiAudit \<Rightarrow> HiAudit" where
  "HiAudit_Write env auditLog s0 =
     (let s = (if ha_size s0 = 0 then WriteToFile env TitleString s0 else s0)
      in WriteToFile env (audit_line env auditLog s) s)"

subsection \<open>Radar\<close>

record RadarParameter =
  rd_orgPkg :: string
  rd_userId :: int
  rd_funcName :: string
  rd_bizScene :: int
  rd_bizStage :: int
  rd_keyElxLevel :: string
  rd_toCallPkg :: string
  rd_fileStatus :: string
  rd_errorCode :: int

definition DEFAULT_ORG_PKG :: string where "DEFAULT_ORG_PKG = ''diskManager''"
definition DEFAULT_USER_ID :: int where "DEFAULT_USER_ID = 100"

definition RadarParameter_zero :: RadarParameter where
  "RadarParameter_zero = \<lparr>rd_orgPkg = DEFAULT_ORG_PKG, rd_userId = DEFAULT_USER_ID, rd_funcName = [], rd_bizScene = 4,
     rd_bizStage = 0, rd_keyElxLevel = ''NA'', rd_toCallPkg = ''storage_daemon'', rd_fileStatus = [], rd_errorCode = 0\<rparr>"

text \<open>
  The events handed to \<open>OH_HiSysEvent_Write\<close>, with the values of their parameters in order. The radar keeps the
  history of them next to the audit log; \<open>re_write\<close> is the result of the event service.
\<close>

datatype sysevent =
    FILE_BACKUP_EVENTS string string int string
  | FILE_STORAGE_FAULT string int string int int string string string int

record radar =
  ra_events :: "sysevent list"
  ra_audit :: HiAudit

record radar_env =
  re_audit :: audit_env
  re_write :: "sysevent list \<Rightarrow> sysevent \<Rightarrow> int"
  re_pid :: int
  re_dump :: "json \<Rightarrow> string"
  re_parse :: "string \<Rightarrow> json option"

definition GetCurrentTime :: "radar_env \<Rightarrow> radar \<Rightarrow> string" where
  "GetCurrentTime env s =
     (let now = au_ms (re_audit env) (ha_tick (ra_audit s)) in
      case au_strftime (re_audit env) ''%Y-%m-%d %H:%M:%S:'' (now div 1000) of
        Some t \<Rightarrow> t @ pad3 (to_string (now mod 1000)) | None \<Rightarrow> [])"

definition HiSysEvent_Write :: "radar_env \<Rightarrow> sysevent \<Rightarrow> radar \<Rightarrow> int \<times> radar" where
  "HiSysEvent_Write env e s = (re_write env (ra_events s) e, s\<lparr>ra_events := e # ra_events s\<rparr>)"

definition radar_audit :: "radar_env \<Rightarrow> AuditLog \<Rightarrow> radar \<Rightarrow> radar" where
  "radar_audit env l s = s\<lparr>ra_audit := HiAudit_Write (re_audit env) l (ra_audit s)\<rparr>"

definition WriteBehaviorEvent :: "radar_env \<Rightarrow> string \<Rightarrow> string \<Rightarrow> int \<Rightarrow> string \<Rightarrow> radar \<Rightarrow> radar" where
  "WriteBehaviorEvent env funcName bundleName pid time s =
     snd (HiSysEvent_Write env (FILE_BACKUP_EVENTS (c_str funcName) (c_str bundleName) pid (c_str time)) s)"

definition WriteAuditForBehavior :: "radar_env \<Rightarrow> string \<Rightarrow> int \<Rightarrow> string \<Rightarrow> VolumeReportInfo \<Rightarrow> int \<Rightarrow> radar \<Rightarrow> radar" where
  "WriteAuditForBehavior env funcName stage status info rc =
     radar_audit env \<lparr>al_isUserBehavior = False, al_operationCount = 1, al_cause = DEFAULT_ORG_PKG, al_operationType = funcName,
       al_operationScenario = ''bizStage:'' @ int_to_string stage, al_operationStatus = status,
       al_extend = ''userId:'' @ int_to_string DEFAULT_USER_ID @ '',ret:'' @ int_to_string rc @ '',extra:'' @
         ToExtraData (re_dump env) info\<rparr>"

definition ReportBehavior :: "radar_env \<Rightarrow> string \<Rightarrow> int \<Rightarrow> string \<Rightarrow> VolumeReportInfo \<Rightarrow> int \<Rightarrow> radar \<Rightarrow> radar" where
  "ReportBehavior env funcName stage status info rc s =
     (let extra = ToExtraData (re_dump env) info;
          time0 = GetCurrentTime env s @ ''|'' @ status;
          time = (if extra \<noteq> [] then time0 @ ''|'' @ extra else time0)
      in WriteAuditForBehavior env funcName stage status info rc
           (WriteBehaviorEvent env funcName DEFAULT_ORG_PKG (re_pid env) time s))"

definition WriteAuditForFault :: "radar_env \<Rightarrow> RadarParameter \<Rightarrow> radar \<Rightarrow> radar" where
  "WriteAuditForFault env p =
     radar_audit env \<lparr>al_isUserBehavior = False, al_operationCount = 1, al_cause = rd_orgPkg p, al_operationType = rd_funcName p,
       al_operationScenario = ''bizScene:'' @ int_to_string (rd_bizScene p) @ '',bizStage:'' @ int_to_string (rd_bizStage p),
       al_operationStatus = ''fail'',
       al_extend = ''userId:'' @ int_to_string (rd_userId p) @ '',keyElxLevel:'' @ rd_keyElxLevel p @ '',toCallPkg:'' @ rd_toCallPkg p @
         '',fileStatus:'' @ rd_fileStatus p @ '',errorCode:'' @ int_to_string (rd_errorCode p)\<rparr>"

definition RecordFault :: "radar_env \<Rightarrow> RadarParameter \<Rightarrow> radar \<Rightarrow> bool \<times> radar" where
  "RecordFault env p s =
     (case HiSysEvent_Write env (FILE_STORAGE_FAULT (c_str (rd_orgPkg p)) (rd_userId p) (c_str (rd_funcName p)) (rd_bizScene p)
        (rd_bizStage p) (c_str (rd_keyElxLevel p)) (c_str (rd_toCallPkg p)) (c_str (rd_fileStatus p)) (rd_errorCode p)) s
      of (res, s1) \<Rightarrow> (res = E_OK, WriteAuditForFault env p s1))"

definition ReportVolumeFault :: "radar_env \<Rightarrow> string \<Rightarrow> int \<Rightarrow> int \<Rightarrow> errno \<Rightarrow> VolumeReportInfo \<Rightarrow> radar \<Rightarrow> radar" where
  "ReportVolumeFault env funcName stage opType err info s =
     snd (RecordFault env (RadarParameter_zero\<lparr>rd_funcName := funcName, rd_bizStage := stage, rd_errorCode := err,
       rd_fileStatus := ToExtraData (re_dump env) info\<rparr>) s)"

definition DFX_STAGE_MOUNT :: int where "DFX_STAGE_MOUNT = 41"
definition DFX_STAGE_UEVENT_PARSE :: int where "DFX_STAGE_UEVENT_PARSE = 45"
definition OP_MOUNT :: int where "OP_MOUNT = 0"
definition OP_OTHER :: int where "OP_OTHER = 4"

definition ReportMetadataFault :: "radar_env \<Rightarrow> string \<Rightarrow> errno \<Rightarrow> VolumeReportInfo \<Rightarrow> radar \<Rightarrow> radar" where
  "ReportMetadataFault env funcName err info = ReportVolumeFault env funcName DFX_STAGE_MOUNT OP_OTHER err info"

definition ReportUeventParseFault :: "radar_env \<Rightarrow> VolumeReportInfo \<Rightarrow> radar \<Rightarrow> radar" where
  "ReportUeventParseFault env info =
     ReportVolumeFault env ''UeventBootstrap::OnBlockDiskUevent'' DFX_STAGE_UEVENT_PARSE OP_OTHER E_UEVENT_PARSE_FAILED info"

definition ReportAutoMountMetadataFault :: "radar_env \<Rightarrow> VolumeReportInfo \<Rightarrow> AutoMountSkipReason \<Rightarrow> radar \<Rightarrow> radar" where
  "ReportAutoMountMetadataFault env info reason =
     (let r = info\<lparr>ri_extra := ''reason='' @ AutoMountSkipReasonToString reason @ '',typeEmpty='' @
                bool_to_string (ri_fsType info = []) @ '',uuidEmpty='' @ bool_to_string (ri_fsUuid info = [])\<rparr>
      in ReportVolumeFault env ''UeventBootstrap::DiscoverSinglePartitionVolume'' DFX_STAGE_MOUNT OP_MOUNT E_PARAMS_INVALID r)"

definition ReportDiscoverAutoMountSkipFault :: "radar_env \<Rightarrow> AutoMountSkipContext \<Rightarrow> radar \<Rightarrow> radar" where
  "ReportDiscoverAutoMountSkipFault env ctx =
     ReportAutoMountMetadataFault env (BuildAutoMountSkipReportInfo ctx)
       (ResolveAutoMountSkipReason (ctx_autoMountEnabled ctx) (ctx_type ctx) (ctx_uuid ctx))"

text \<open>What \<open>ReportVolumeOpDiag\<close> does with an accepted diagnostic text of the daemon.\<close>

definition ApplyVolumeOpDiagReport :: "radar_env \<Rightarrow> OpDiagReport \<Rightarrow> radar \<Rightarrow> radar" where
  "ApplyVolumeOpDiagReport env r =
     (if str_find (or_funcName r) ''ReadMetadata'' \<noteq> None
      then ReportMetadataFault env (or_funcName r) (or_ret r) (or_info r)
      else ReportVolumeFault env (or_funcName r) (or_bizStage r) (or_opType r) (or_ret r) (or_info r))"

definition handle_op_diag :: "radar_env \<Rightarrow> string \<Rightarrow> radar \<Rightarrow> radar" where
  "handle_op_diag env opDiag s =
     (let r = ParseOpDiagReport (re_parse env) (re_dump env) opDiag in
      if or_valid r \<and> or_ret r \<noteq> E_OK then ApplyVolumeOpDiagReport env r s else s)"

subsection \<open>The reporting scope\<close>

record IpcDfxScope =
  sc_funcName :: string
  sc_stage :: int
  sc_info :: VolumeReportInfo
  sc_finished :: bool

definition IpcDfxScope_ctor :: "radar_env \<Rightarrow> string \<Rightarrow> int \<Rightarrow> int \<Rightarrow> VolumeReportInfo \<Rightarrow> radar \<Rightarrow> IpcDfxScope \<times> radar" where
  "IpcDfxScope_ctor env funcName stage opType info s =
     (\<lparr>sc_funcName = funcName, sc_stage = stage, sc_info = info, sc_finished = False\<rparr>,
      ReportBehavior env funcName stage ''START'' info E_OK s)"

definition IpcDfxScope_MergeFrom :: "VolumeReportInfo \<Rightarrow> IpcDfxScope \<Rightarrow> IpcDfxScope" where
  "IpcDfxScope_MergeFrom other sc = sc\<lparr>sc_info := MergeFrom other (sc_info sc)\<rparr>"

definition IpcDfxScope_Finish :: "radar_env \<Rightarrow> int \<Rightarrow> IpcDfxScope \<times> radar \<Rightarrow> int \<times> IpcDfxScope \<times> radar" where
  "IpcDfxScope_Finish env rc scs = (case scs of (sc, s) \<Rightarrow>
     if sc_finished sc then (rc, sc, s)
     else (rc, sc\<lparr>sc_finished := True\<rparr>,
           ReportBehavior env (sc_funcName sc) (sc_stage sc) (if rc = E_OK then ''SUCCESS'' else ''FAIL'') (sc_info sc) rc s))"

definition IpcDfxScope_dtor :: "radar_env \<Rightarrow> IpcDfxScope \<times> radar \<Rightarrow> radar" where
  "IpcDfxScope_dtor env scs = (case scs of (sc, s) \<Rightarrow>
     if \<not> sc_finished sc then snd (snd (IpcDfxScope_Finish env DISK_MGR_ERR (sc, s))) else s)"

section \<open>The size of the log\<close>

definition wrote_ok :: "audit_env \<Rightarrow> bool" where
  "wrote_ok env \<longleftrightarrow> (\<forall>t n. au_wrote env t n \<le> int n)"

definition dir_bounded :: "nat \<Rightarrow> audit_dir \<Rightarrow> bool" where
  "dir_bounded B d \<longleftrightarrow> om_wf d \<and> (\<forall>f. om_get d HIAUDIT_LOG_NAME = Some f \<longrightarrow> length (af_content f) \<le> B)"

text \<open>The log may be longer than the service counts, by at most \<open>e\<close>, as when its size was not found out at the start.\<close>

definition audit_inv :: "nat \<Rightarrow> nat \<Rightarrow> HiAudit \<Rightarrow> bool" where
  "audit_inv e B s \<longleftrightarrow> dir_bounded B (ha_dir s) \<and>
     (ha_open s \<longrightarrow> (\<exists>f. om_get (ha_dir s) HIAUDIT_LOG_NAME = Some f \<and>
        unat (ha_size s) \<le> length (af_content f) \<and> length (af_content f) \<le> unat (ha_size s) + e))"

lemma unat_AUDIT_FILE_SIZE: "unat AUDIT_FILE_SIZE = 3145728"
  by (simp add: AUDIT_FILE_SIZE_def)

lemma unat_of_nat32: "n < 2 ^ 32 \<Longrightarrow> unat (of_nat n :: 32 word) = n"
  by (simp add: unsigned_of_nat take_bit_nat_eq_self)

lemma au_step_simps [simp]:
  "fst (au_step env s) = au_ok env (ha_tick s)"
  "ha_dir (snd (au_step env s)) = ha_dir s" "ha_open (snd (au_step env s)) = ha_open s" "ha_size (snd (au_step env s)) = ha_size s"
  "ha_tick (snd (au_step env s)) = Suc (ha_tick s)"
  by (simp_all add: au_step_def)

lemma rotate_name_other: "rotate_name env s \<noteq> HIAUDIT_LOG_NAME"
  by (simp add: rotate_name_def HIAUDIT_LOG_NAME_def AUDIT_LOG_NAME_def)

lemma dir_bounded_ops:
  assumes "dir_bounded B d"
  shows "dir_bounded B (om_erase k d)" "k \<noteq> HIAUDIT_LOG_NAME \<Longrightarrow> dir_bounded B (om_put k f d)"
    "length (af_content f) \<le> B \<Longrightarrow> dir_bounded B (om_put HIAUDIT_LOG_NAME f d)"
  using assms by (auto simp: dir_bounded_def split: if_splits)

lemma Rotate_bounded: "dir_bounded B (ha_dir s) \<Longrightarrow> dir_bounded B (ha_dir (RotateAuditLog env s))"
  by (auto simp: RotateAuditLog_def Let_def au_step_def rotate_name_other intro!: dir_bounded_ops split: option.splits)

lemma scan_entry_dir: "ha_dir (snd (snd (scan_entry env x acc))) = ha_dir (snd (snd acc))"
  by (auto simp: scan_entry_def au_step_def split: prod.splits bool.splits option.splits)

lemma scan_dir: "ha_dir (snd (snd (fold (scan_entry env) xs acc))) = ha_dir (snd (snd acc))"
  by (induction xs arbitrary: acc) (simp_all add: scan_entry_dir)

lemma Clean_bounded: "dir_bounded B (ha_dir s) \<Longrightarrow> dir_bounded B (ha_dir (CleanOldAuditFile env s))"
proof -
  assume *: "dir_bounded B (ha_dir s)"
  obtain c old s2 where f: "fold (scan_entry env) (au_readdir env (ha_dir s)) (0, [], s\<lparr>ha_tick := Suc (ha_tick s)\<rparr>) = (c, old, s2)"
    by (metis prod.exhaust)
  have "ha_dir s2 = ha_dir s" using scan_dir[of env "au_readdir env (ha_dir s)" "(0, [], s\<lparr>ha_tick := Suc (ha_tick s)\<rparr>)"] f by simp
  with * f show ?thesis by (auto simp: CleanOldAuditFile_def au_step_def intro: dir_bounded_ops)
qed

lemma GetWriteFilePath_inv:
  assumes "audit_inv e B s"
  shows "audit_inv e B (GetWriteFilePath env s) \<and> ha_size (GetWriteFilePath env s) < AUDIT_FILE_SIZE"
proof (cases "ha_size s < AUDIT_FILE_SIZE")
  case True
  with assms show ?thesis by (simp add: GetWriteFilePath_def)
next
  case False
  let ?s1 = "CleanOldAuditFile env (RotateAuditLog env (s\<lparr>ha_open := False\<rparr>))"
  have "dir_bounded B (ha_dir ?s1)" using assms by (intro Clean_bounded Rotate_bounded) (simp add: audit_inv_def)
  moreover have "om_wf (ha_dir ?s1)" using calculation by (simp add: dir_bounded_def)
  moreover have "(0::32 word) < AUDIT_FILE_SIZE" by (simp add: AUDIT_FILE_SIZE_def)
  ultimately show ?thesis using False
    by (auto simp: GetWriteFilePath_def Let_def au_step_def audit_inv_def intro: dir_bounded_ops)
qed

lemma WriteToFile_inv:
  assumes inv: "audit_inv e B s" and env: "wrote_ok env" and len: "length content \<le> AUDIT_LOG_SIZE + 1"
    and B: "unat AUDIT_FILE_SIZE + AUDIT_LOG_SIZE + e \<le> B"
  shows "audit_inv e B (WriteToFile env content s)"
proof (cases "ha_open (GetWriteFilePath env s)")
  case False
  then show ?thesis using GetWriteFilePath_inv[OF inv, of env] by (simp add: WriteToFile_def Let_def)
next
  case True
  let ?t = "GetWriteFilePath env s" and ?n = "au_wrote env (ha_tick (GetWriteFilePath env s)) (length content)"
  define w where "w = (if 0 < ?n then nat ?n else 0)"
  have w: "w \<le> length content" using env[unfolded wrote_ok_def, rule_format, of "ha_tick ?t" "length content"] by (auto simp: w_def)
  obtain f where f: "om_get (ha_dir ?t) HIAUDIT_LOG_NAME = Some f" "unat (ha_size ?t) \<le> length (af_content f)"
    "length (af_content f) \<le> unat (ha_size ?t) + e" and wf: "om_wf (ha_dir ?t)"
    using GetWriteFilePath_inv[OF inv, of env] True by (auto simp: audit_inv_def dir_bounded_def)
  have size: "unat (ha_size ?t) < 3145728"
    using GetWriteFilePath_inv[OF inv, of env] by (simp add: word_less_nat_alt unat_AUDIT_FILE_SIZE)
  have "unat (ha_size ?t + of_nat w) = unat (ha_size ?t) + w"
    using size w len unat_of_nat32[of w] by (subst unat_add_lem[THEN iffD1]) (simp_all add: AUDIT_LOG_SIZE_def)
  then show ?thesis
    using True f wf w len size B
    by (auto simp: WriteToFile_def Let_def audit_inv_def dir_bounded_def w_def[symmetric] unat_AUDIT_FILE_SIZE AUDIT_LOG_SIZE_def)
qed

lemma length_TitleString: "length TitleString \<le> AUDIT_LOG_SIZE + 1"
  by code_simp

lemma Write_inv:
  "audit_inv e B s \<Longrightarrow> wrote_ok env \<Longrightarrow> unat AUDIT_FILE_SIZE + AUDIT_LOG_SIZE + e \<le> B \<Longrightarrow> audit_inv e B (HiAudit_Write env l s)"
  unfolding HiAudit_Write_def Let_def
  by (auto simp: audit_line_def Let_def intro!: WriteToFile_inv length_TitleString)

text \<open>The size of the log that is found at the start.\<close>

definition log_size :: "audit_dir \<Rightarrow> nat" where
  "log_size d = (case om_get d HIAUDIT_LOG_NAME of Some f \<Rightarrow> length (af_content f) | None \<Rightarrow> 0)"

lemma HiAudit_Init_inv:
  assumes wf: "om_wf (ha_dir s)" and e: "au_ok env (Suc (ha_tick s)) \<and> log_size (ha_dir s) < 2 ^ 32 \<or> log_size (ha_dir s) \<le> e"
    and B: "log_size (ha_dir s) \<le> B"
  shows "audit_inv e B (HiAudit_Init env s)"
proof -
  let ?n = "log_size (ha_dir s)"
  have "unat (of_nat ?n :: 32 word) \<le> ?n" by (simp add: unsigned_of_nat take_bit_nat_less_eq_self)
  moreover have "?n < 2 ^ 32 \<Longrightarrow> unat (of_nat ?n :: 32 word) = ?n" by (rule unat_of_nat32)
  moreover have "dir_bounded B (ha_dir s)" using wf B by (auto simp: dir_bounded_def log_size_def)
  ultimately show ?thesis using wf e
    by (auto simp: HiAudit_Init_def au_step_def Let_def audit_inv_def log_size_def intro: dir_bounded_ops split: option.splits)
qed

text \<open>
  C31: Whatever log is found at the start, whatever is logged and whatever system calls fail, also the one that asks
  for the size at the start, the current audit log never exceeds its initial size by more than 3 MiB and one record of
  2 KiB. If that call succeeds and the size fits the 32-bit counter, the log never exceeds this bound, or its
  initial size if that was more, and while it is open the size the service counts is its size.
\<close>

theorem audit_log_bounded:
  assumes env: "wrote_ok env" and wf: "om_wf (ha_dir s0)"
    and run: "s = fold (HiAudit_Write env) logs (HiAudit_Init env s0)"
    and f: "om_get (ha_dir s) HIAUDIT_LOG_NAME = Some f"
  shows "length (af_content f) \<le> log_size (ha_dir s0) + 3 * 1024 * 1024 + 2048 \<and>
    (au_ok env (Suc (ha_tick s0)) \<and> log_size (ha_dir s0) < 2 ^ 32 \<longrightarrow>
       length (af_content f) \<le> max (log_size (ha_dir s0)) (3 * 1024 * 1024 + 2048) \<and>
       (ha_open s \<longrightarrow> unat (ha_size s) = length (af_content f)))"
proof -
  have inv: "audit_inv e B s"
    if "au_ok env (Suc (ha_tick s0)) \<and> log_size (ha_dir s0) < 2 ^ 32 \<or> log_size (ha_dir s0) \<le> e"
      "log_size (ha_dir s0) \<le> B" "unat AUDIT_FILE_SIZE + AUDIT_LOG_SIZE + e \<le> B" for e B
    unfolding run by (rule fold_inv) (use that in \<open>auto intro: Write_inv HiAudit_Init_inv env wf\<close>)
  note bound = unat_AUDIT_FILE_SIZE AUDIT_LOG_SIZE_def
  let ?n = "log_size (ha_dir s0)"
  have "length (af_content f) \<le> ?n + 3 * 1024 * 1024 + 2048"
    using inv[of ?n "?n + 3 * 1024 * 1024 + 2048"] f by (simp add: bound audit_inv_def dir_bounded_def)
  moreover have "audit_inv 0 (max ?n (3 * 1024 * 1024 + 2048)) s" if "au_ok env (Suc (ha_tick s0))" "?n < 2 ^ 32"
    using that by (intro inv) (simp_all add: bound)
  ultimately show ?thesis using f by (auto simp: audit_inv_def dir_bounded_def)
qed

section \<open>Rotation\<close>

definition calls_ok :: "audit_env \<Rightarrow> bool" where
  "calls_ok env \<longleftrightarrow> (\<forall>t. au_ok env t) \<and> (\<forall>t n. au_wrote env t n = int n) \<and>
     (\<forall>d. om_wf d \<longrightarrow> distinct (au_readdir env d) \<and> set (au_readdir env d) = fst ` set d)"

abbreviation rotated :: "audit_dir \<Rightarrow> string set" where
  "rotated d \<equiv> {k \<in> fst ` set d. is_rotated k}"

lemma is_rotated_nonempty: "is_rotated k \<Longrightarrow> k \<noteq> []"
  by (auto simp: is_rotated_def AUDIT_LOG_NAME_def)

lemma is_rotated_current: "\<not> is_rotated HIAUDIT_LOG_NAME"
  by (simp add: is_rotated_def)

lemma is_rotated_name: "is_rotated (rotate_name env s)"
proof -
  obtain a where a: "rotate_name env s = AUDIT_LOG_NAME @ a @ ''.csv''" by (simp add: rotate_name_def)
  then have "drop (length (rotate_name env s) - 4) (rotate_name env s) = ''.csv''" by simp
  with a rotate_name_other[of env s] show ?thesis by (simp add: is_rotated_def)
qed

text \<open>What the loop over the directory computes: how many files are rotated logs and an oldest of them.\<close>

definition scanned :: "audit_dir \<Rightarrow> string list \<Rightarrow> nat \<Rightarrow> string \<Rightarrow> bool" where
  "scanned d xs cnt oldest \<longleftrightarrow> cnt = length (filter is_rotated xs) \<and>
     (if filter is_rotated xs = [] then oldest = []
      else oldest \<in> set (filter is_rotated xs) \<and>
        (\<forall>k f fo. k \<in> set (filter is_rotated xs) \<longrightarrow> om_get d k = Some f \<longrightarrow> om_get d oldest = Some fo \<longrightarrow> af_mtime fo \<le> af_mtime f))"

lemma scanned_step:
  assumes ok: "\<forall>t. au_ok env t" and sc: "scanned (ha_dir s) xs cnt oldest"
    and known: "set (filter is_rotated (xs @ [x])) \<subseteq> fst ` set (ha_dir s)"
    and step: "scan_entry env x (cnt, oldest, s) = (cnt', oldest', s')"
  shows "scanned (ha_dir s) (xs @ [x]) cnt' oldest' \<and> ha_dir s' = ha_dir s"
proof (cases "is_rotated x \<and> oldest \<noteq> []")
  case False
  with sc step is_rotated_nonempty show ?thesis by (auto simp: scan_entry_def scanned_def filter_empty_conv split: if_splits)
next
  case True
  with sc have old: "oldest \<in> set (filter is_rotated xs)" by (auto simp: scanned_def split: if_splits)
  with True known have "x \<in> fst ` set (ha_dir s)" "oldest \<in> fst ` set (ha_dir s)" by auto
  then obtain f fo where f: "om_get (ha_dir s) x = Some f" "om_get (ha_dir s) oldest = Some fo"
    by (metis map_of_eq_None_iff option.exhaust)
  with True step ok have "cnt' = Suc cnt" "oldest' = (if af_mtime f < af_mtime fo then x else oldest)" "ha_dir s' = ha_dir s"
    by (auto simp: scan_entry_def au_step_def)
  with sc old True f show ?thesis by (fastforce simp: scanned_def split: if_splits)
qed

lemma scan_all:
  assumes "\<forall>t. au_ok env t" "set (filter is_rotated xs) \<subseteq> fst ` set (ha_dir s)"
    and "fold (scan_entry env) xs (0, [], s) = (cnt, oldest, s')"
  shows "scanned (ha_dir s) xs cnt oldest \<and> ha_dir s' = ha_dir s"
  using assms(2,3)
proof (induction xs arbitrary: cnt oldest s' rule: rev_induct)
  case Nil
  then show ?case by (simp add: scanned_def)
next
  case (snoc x xs)
  obtain c o1 s1 where 1: "fold (scan_entry env) xs (0, [], s) = (c, o1, s1)" by (metis prod.exhaust)
  with snoc have ih: "scanned (ha_dir s1) xs c o1" "ha_dir s1 = ha_dir s" by auto
  show ?case using scanned_step[OF assms(1) ih(1), of x cnt oldest s'] snoc.prems 1 ih(2) by simp
qed

lemma CleanOldAuditFile_spec:
  assumes env: "calls_ok env" and wf: "om_wf (ha_dir s)"
  shows "if card (rotated (ha_dir s)) \<le> AUDIT_FILE_COUNT then ha_dir (CleanOldAuditFile env s) = ha_dir s
    else \<exists>old \<in> rotated (ha_dir s). ha_dir (CleanOldAuditFile env s) = om_erase old (ha_dir s) \<and>
      (\<forall>k \<in> rotated (ha_dir s). \<forall>f fo. om_get (ha_dir s) k = Some f \<longrightarrow> om_get (ha_dir s) old = Some fo \<longrightarrow> af_mtime fo \<le> af_mtime f)"
proof -
  let ?xs = "au_readdir env (ha_dir s)" and ?s1 = "s\<lparr>ha_tick := Suc (ha_tick s)\<rparr>"
  have ok: "\<forall>t. au_ok env t" and xs: "distinct ?xs" "set ?xs = fst ` set (ha_dir s)" using env wf by (auto simp: calls_ok_def)
  obtain cnt old s2 where f: "fold (scan_entry env) ?xs (0, [], ?s1) = (cnt, old, s2)" by (metis prod.exhaust)
  have sc: "scanned (ha_dir s) ?xs cnt old" "ha_dir s2 = ha_dir s" using scan_all[OF ok _ f] xs by auto
  have set: "set (filter is_rotated ?xs) = rotated (ha_dir s)" using xs by auto
  moreover have "card (set (filter is_rotated ?xs)) = length (filter is_rotated ?xs)" using xs(1) by (intro distinct_card) simp
  ultimately have cnt: "cnt = card (rotated (ha_dir s))" using sc(1) by (simp add: scanned_def)
  have clean: "ha_dir (CleanOldAuditFile env s) = (if AUDIT_FILE_COUNT < cnt \<and> old \<noteq> [] then om_erase old (ha_dir s) else ha_dir s)"
    using ok f sc(2) by (simp add: CleanOldAuditFile_def au_step_def)
  show ?thesis
  proof (cases "cnt \<le> AUDIT_FILE_COUNT")
    case True
    with clean cnt show ?thesis by simp
  next
    case False
    then have "filter is_rotated ?xs \<noteq> []" using sc(1) by (auto simp: scanned_def)
    with sc(1) set have "old \<in> rotated (ha_dir s)" and
      min: "\<forall>k \<in> rotated (ha_dir s). \<forall>f fo. om_get (ha_dir s) k = Some f \<longrightarrow> om_get (ha_dir s) old = Some fo \<longrightarrow> af_mtime fo \<le> af_mtime f"
      unfolding scanned_def by (auto split: if_splits)
    moreover from this is_rotated_nonempty have "old \<noteq> []" by blast
    ultimately show ?thesis using clean cnt False by auto
  qed
qed

lemma Rotate_dir:
  assumes "calls_ok env" "om_get (ha_dir s) HIAUDIT_LOG_NAME = Some f"
  shows "ha_dir (RotateAuditLog env s) = om_put (rotate_name env s) f (om_erase HIAUDIT_LOG_NAME (ha_dir s))"
  using assms by (simp add: RotateAuditLog_def au_step_def calls_ok_def Let_def)

lemma rotate_name_open: "rotate_name env (s\<lparr>ha_open := b\<rparr>) = rotate_name env s"
  by (simp add: rotate_name_def GetFormattedTimestampEndWithMilli_def)

lemma full_write:
  assumes env: "calls_ok env" and full: "AUDIT_FILE_SIZE \<le> ha_size s"
  shows "\<exists>m m0. ha_dir (WriteToFile env content s) =
    om_mod HIAUDIT_LOG_NAME (\<lambda>f. f\<lparr>af_content := af_content f @ content, af_mtime := m\<rparr>)
      (om_put HIAUDIT_LOG_NAME \<lparr>af_content = [], af_mtime = m0\<rparr>
        (ha_dir (CleanOldAuditFile env (RotateAuditLog env (s\<lparr>ha_open := False\<rparr>)))))"
proof -
  have "\<not> ha_size s < AUDIT_FILE_SIZE" using full by simp
  moreover have "(if 0 < int (length content) then nat (int (length content)) else 0) = length content" by simp
  ultimately show ?thesis using env
    by (intro exI) (simp add: WriteToFile_def GetWriteFilePath_def au_step_def calls_ok_def Let_def)
qed

text \<open>The rotated files of a directory and those left after the clean-up.\<close>

lemma rotated_ops:
  "rotated (om_mod k g d) = rotated d" "rotated (om_put HIAUDIT_LOG_NAME f d) = rotated d" "rotated (om_erase k d) = rotated d - {k}"
  "is_rotated a \<Longrightarrow> rotated (om_put a f d) = insert a (rotated d)"
proof -
  have "fst ` set (om_mod k g d) = fst ` set d" by (force simp: om_mod_def)
  then show "rotated (om_mod k g d) = rotated d" by simp
  show "rotated (om_put HIAUDIT_LOG_NAME f d) = rotated d" using is_rotated_current by (auto simp: om_keys_put)
  show "rotated (om_erase k d) = rotated d - {k}" by (force simp: om_erase_def)
  show "is_rotated a \<Longrightarrow> rotated (om_put a f d) = insert a (rotated d)" by (auto simp: om_keys_put)
qed

text \<open>\<open>gone\<close> are the old logs the clean-up removes: none of up to ten, an oldest of more.\<close>

lemma rotated_kept:
  assumes env: "calls_ok env" and wf: "om_wf (ha_dir s)"
  shows "\<exists>gone. gone \<subseteq> rotated (ha_dir s) \<and> card gone = (if card (rotated (ha_dir s)) \<le> 10 then 0 else 1) \<and> finite gone \<and>
    rotated (ha_dir (CleanOldAuditFile env s)) = rotated (ha_dir s) - gone \<and>
    (\<forall>k. om_get (ha_dir (CleanOldAuditFile env s)) k = (if k \<in> gone then None else om_get (ha_dir s) k)) \<and>
    (\<forall>old \<in> gone. \<forall>k \<in> rotated (ha_dir s). \<forall>f fo. om_get (ha_dir s) old = Some fo \<longrightarrow> om_get (ha_dir s) k = Some f \<longrightarrow>
       af_mtime fo \<le> af_mtime f)"
proof (cases "card (rotated (ha_dir s)) \<le> AUDIT_FILE_COUNT")
  case True
  with CleanOldAuditFile_spec[OF env wf] show ?thesis by (intro exI[of _ "{}"]) (auto simp: AUDIT_FILE_COUNT_def)
next
  case False
  with CleanOldAuditFile_spec[OF env wf] obtain old where old: "old \<in> rotated (ha_dir s)"
    "ha_dir (CleanOldAuditFile env s) = om_erase old (ha_dir s)"
    "\<forall>k \<in> rotated (ha_dir s). \<forall>f fo. om_get (ha_dir s) k = Some f \<longrightarrow> om_get (ha_dir s) old = Some fo \<longrightarrow> af_mtime fo \<le> af_mtime f"
    by auto
  have "rotated (om_erase old (ha_dir s)) = rotated (ha_dir s) - {old}" by (rule rotated_ops(3))
  with old False show ?thesis by (intro exI[of _ "{old}"]) (auto simp: AUDIT_FILE_COUNT_def)
qed

text \<open>
  C27: A record that finds the audit log full moves it aside and starts a new one. When all system calls succeed
  and write completely, and no old log has the new name yet: the new log holds exactly this record (it does not
  begin with the title line, which is written only when the size is zero before the record is). With fewer than
  ten old logs all of them and the one just closed are kept with their contents; otherwise exactly one of them
  is removed, an oldest by modification time, and all others are kept. So there is one old log more, up to ten.
\<close>

theorem audit_rotation:
  assumes env: "calls_ok env" and full: "AUDIT_FILE_SIZE \<le> ha_size s" and wf: "om_wf (ha_dir s)"
    and f: "om_get (ha_dir s) HIAUDIT_LOG_NAME = Some f" and name: "name = rotate_name env s"
    and fresh: "om_get (ha_dir s) name = None" and t: "t = HiAudit_Write env l s"
  shows "(\<exists>m. om_get (ha_dir t) HIAUDIT_LOG_NAME = Some \<lparr>af_content = audit_line env l s, af_mtime = m\<rparr>) \<and>
    (let n = card (rotated (ha_dir s)) in card (rotated (ha_dir t)) = (if n < 10 then Suc n else n)) \<and>
    (\<exists>gone. gone \<subseteq> insert name (rotated (ha_dir s)) \<and> card gone = (if card (rotated (ha_dir s)) < 10 then 0 else 1) \<and>
      (\<forall>k. is_rotated k \<longrightarrow> om_get (ha_dir t) k = (if k \<in> gone then None else if k = name then Some f else om_get (ha_dir s) k)) \<and>
      (\<forall>old \<in> gone. \<forall>k \<in> insert name (rotated (ha_dir s)). \<forall>fo g.
         (if old = name then Some f else om_get (ha_dir s) old) = Some fo \<longrightarrow>
         (if k = name then Some f else om_get (ha_dir s) k) = Some g \<longrightarrow> af_mtime fo \<le> af_mtime g))"
proof -
  define r where "r = RotateAuditLog env (s\<lparr>ha_open := False\<rparr>)"
  have r: "ha_dir r = om_put name f (om_erase HIAUDIT_LOG_NAME (ha_dir s))"
    using Rotate_dir[OF env, of "s\<lparr>ha_open := False\<rparr>" f] f by (simp add: r_def name rotate_name_open)
  have rn: "is_rotated name" "name \<noteq> HIAUDIT_LOG_NAME" unfolding name by (rule is_rotated_name, rule rotate_name_other)
  have get: "om_get (ha_dir r) k = (if k = name then Some f else om_get (ha_dir s) k)" if "is_rotated k" for k
    using that is_rotated_current by (auto simp: r)
  have rot: "rotated (ha_dir r) = insert name (rotated (ha_dir s))"
    unfolding r rotated_ops(4)[OF rn(1)] rotated_ops(3) using is_rotated_current by auto
  have wfr: "om_wf (ha_dir r)" using wf by (simp add: r)
  have "name \<notin> rotated (ha_dir s)" using fresh by (auto simp: map_of_eq_None_iff)
  then have card: "card (rotated (ha_dir r)) = Suc (card (rotated (ha_dir s)))" unfolding rot by simp
  obtain gone where g: "gone \<subseteq> rotated (ha_dir r)" "card gone = (if card (rotated (ha_dir r)) \<le> 10 then 0 else 1)" "finite gone"
    "rotated (ha_dir (CleanOldAuditFile env r)) = rotated (ha_dir r) - gone"
    "\<forall>k. om_get (ha_dir (CleanOldAuditFile env r)) k = (if k \<in> gone then None else om_get (ha_dir r) k)"
    "\<forall>old \<in> gone. \<forall>k \<in> rotated (ha_dir r). \<forall>f fo. om_get (ha_dir r) old = Some fo \<longrightarrow> om_get (ha_dir r) k = Some f \<longrightarrow>
       af_mtime fo \<le> af_mtime f"
    using rotated_kept[OF env wfr] by (elim exE conjE) (rule that, assumption+)
  have "ha_size s \<noteq> 0" using full by (auto simp: AUDIT_FILE_SIZE_def)
  then have "t = WriteToFile env (audit_line env l s) s" by (simp add: t HiAudit_Write_def)
  with full_write[OF env full] obtain m m0 where
    td: "ha_dir t = om_mod HIAUDIT_LOG_NAME (\<lambda>f. f\<lparr>af_content := af_content f @ audit_line env l s, af_mtime := m\<rparr>)
      (om_put HIAUDIT_LOG_NAME \<lparr>af_content = [], af_mtime = m0\<rparr> (ha_dir (CleanOldAuditFile env r)))" unfolding r_def by blast
  have new: "\<exists>m. om_get (ha_dir t) HIAUDIT_LOG_NAME = Some \<lparr>af_content = audit_line env l s, af_mtime = m\<rparr>"
    by (simp add: td)
  have "rotated (ha_dir t) = rotated (ha_dir r) - gone" unfolding td rotated_ops g(4) ..
  then have "card (rotated (ha_dir t)) = card (rotated (ha_dir r)) - card gone" using g(1,3) by (simp add: card_Diff_subset)
  then have ten: "let n = card (rotated (ha_dir s)) in card (rotated (ha_dir t)) = (if n < 10 then Suc n else n)"
    unfolding g(2) card by (simp add: Let_def)
  have left: "om_get (ha_dir t) k = (if k \<in> gone then None else if k = name then Some f else om_get (ha_dir s) k)"
    if "is_rotated k" for k using that is_rotated_current g(5)[rule_format, of k] get[OF that] by (auto simp: td)
  have sub: "gone \<subseteq> insert name (rotated (ha_dir s))" "card gone = (if card (rotated (ha_dir s)) < 10 then 0 else 1)"
    using g(1,2) unfolding card by (simp_all only: rot) simp
  have old: "af_mtime fo \<le> af_mtime h"
    if "old \<in> gone" "k \<in> insert name (rotated (ha_dir s))" "(if old = name then Some f else om_get (ha_dir s) old) = Some fo"
      "(if k = name then Some f else om_get (ha_dir s) k) = Some h" for old fo k h
  proof -
    have "is_rotated old" "is_rotated k" using that(1,2) sub(1) rn(1) by blast+
    with that get have "om_get (ha_dir r) old = Some fo" "om_get (ha_dir r) k = Some h" by simp_all
    with g(6) that(1,2) show ?thesis unfolding rot by blast
  qed
  have kept: "\<forall>k. is_rotated k \<longrightarrow>
      om_get (ha_dir t) k = (if k \<in> gone then None else if k = name then Some f else om_get (ha_dir s) k)"
    by (intro allI impI left)
  have oldest: "\<forall>old \<in> gone. \<forall>k \<in> insert name (rotated (ha_dir s)). \<forall>fo g.
      (if old = name then Some f else om_get (ha_dir s) old) = Some fo \<longrightarrow>
      (if k = name then Some f else om_get (ha_dir s) k) = Some g \<longrightarrow> af_mtime fo \<le> af_mtime g"
    by (intro ballI allI impI) (rule old)
  show ?thesis by (rule conjI[OF new], rule conjI[OF ten], rule exI[of _ gone], intro conjI sub kept oldest)
qed

section \<open>An environment without failures\<close>

definition plain_audit :: audit_env where
  "plain_audit = \<lparr>au_ok = (\<lambda>_. True), au_wrote = (\<lambda>t n. int n), au_ms = id, au_strftime = (\<lambda>f s. Some (to_string s)),
     au_readdir = map fst\<rparr>"

definition sample_log :: AuditLog where
  "sample_log = \<lparr>al_isUserBehavior = False, al_operationCount = 1, al_cause = DEFAULT_ORG_PKG, al_operationType = ''Mount'',
     al_operationScenario = ''bizStage:41'', al_operationStatus = ''START'', al_extend = []\<rparr>"

definition new_audit :: HiAudit where
  "new_audit = \<lparr>ha_open = False, ha_size = 0, ha_dir = [], ha_tick = 0\<rparr>"

definition full_audit :: HiAudit where
  "full_audit = \<lparr>ha_open = True, ha_size = AUDIT_FILE_SIZE, ha_dir = [(HIAUDIT_LOG_NAME, \<lparr>af_content = ''old'', af_mtime = 7\<rparr>)],
     ha_tick = 0\<rparr>"

lemma plain_audit_ok: "wrote_ok plain_audit" "calls_ok plain_audit"
  by (simp_all add: wrote_ok_def calls_ok_def plain_audit_def om_wf_distinct)

theorem audit_log_bounded_witness:
  "case om_get (ha_dir (fold (HiAudit_Write plain_audit) [sample_log, sample_log] (HiAudit_Init plain_audit new_audit))) HIAUDIT_LOG_NAME of
     None \<Rightarrow> False | Some f \<Rightarrow> length (af_content f) \<le> 3147776"
proof -
  have "om_get (ha_dir (fold (HiAudit_Write plain_audit) [sample_log, sample_log] (HiAudit_Init plain_audit new_audit))) HIAUDIT_LOG_NAME
      \<noteq> None" by code_simp
  moreover have "om_wf (ha_dir new_audit)" "log_size (ha_dir new_audit) = 0" by (simp_all add: log_size_def new_audit_def)
  ultimately show ?thesis using audit_log_bounded[OF plain_audit_ok(1) _ refl, of new_audit] by fastforce
qed

theorem audit_rotation_witness:
  "\<exists>m. om_get (ha_dir (HiAudit_Write plain_audit sample_log full_audit)) HIAUDIT_LOG_NAME =
     Some \<lparr>af_content = audit_line plain_audit sample_log full_audit, af_mtime = m\<rparr>"
proof -
  have "AUDIT_FILE_SIZE \<le> ha_size full_audit" "om_wf (ha_dir full_audit)"
    "om_get (ha_dir full_audit) HIAUDIT_LOG_NAME = Some \<lparr>af_content = ''old'', af_mtime = 7\<rparr>"
    by (simp_all add: full_audit_def om_wf_def)
  moreover have "om_get (ha_dir full_audit) (rotate_name plain_audit full_audit) = None"
    using rotate_name_other by (simp add: full_audit_def)
  ultimately show ?thesis by (rule conjunct1[OF audit_rotation[OF plain_audit_ok(2) _ _ _ refl _ refl]])
qed

section \<open>The scope reports once\<close>

datatype scope_op = Op_Merge VolumeReportInfo | Op_Finish int

fun scope_step :: "radar_env \<Rightarrow> scope_op \<Rightarrow> IpcDfxScope \<times> radar \<Rightarrow> IpcDfxScope \<times> radar" where
  "scope_step env (Op_Merge other) (sc, s) = (IpcDfxScope_MergeFrom other sc, s)"
| "scope_step env (Op_Finish rc) (sc, s) = snd (IpcDfxScope_Finish env rc (sc, s))"

fun first_finish :: "scope_op list \<Rightarrow> int" where
  "first_finish [] = DISK_MGR_ERR"
| "first_finish (Op_Merge other # ops) = first_finish ops"
| "first_finish (Op_Finish rc # ops) = rc"

text \<open>The behaviour events a report with this status may send.\<close>

definition behavior_event :: "radar_env \<Rightarrow> string \<Rightarrow> string \<Rightarrow> sysevent \<Rightarrow> bool" where
  "behavior_event env funcName status e \<longleftrightarrow>
     (\<exists>time extra. e = FILE_BACKUP_EVENTS (c_str funcName) (c_str DEFAULT_ORG_PKG) (re_pid env) (c_str (time @ ''|'' @ status @ extra)))"

lemma ReportBehavior_event:
  "\<exists>e. ra_events (ReportBehavior env f st status info rc s) = e # ra_events s \<and> behavior_event env f status e"
  unfolding behavior_event_def ReportBehavior_def WriteAuditForBehavior_def radar_audit_def WriteBehaviorEvent_def HiSysEvent_Write_def Let_def
  by (cases "ToExtraData (re_dump env) info = []") (simp, metis append_Nil2, simp, blast)

definition scope_status :: "int \<Rightarrow> string" where
  "scope_status rc = (if rc = E_OK then ''SUCCESS'' else ''FAIL'')"

lemma scope_finished_ops:
  "sc_finished sc \<Longrightarrow> \<exists>sc'. fold (scope_step env) ops (sc, s) = (sc', s) \<and> sc_finished sc'"
proof (induction ops arbitrary: sc)
  case (Cons x xs)
  then show ?case by (cases x) (simp_all add: IpcDfxScope_MergeFrom_def IpcDfxScope_Finish_def)
qed simp

lemma scope_end:
  "\<not> sc_finished sc \<Longrightarrow>
   \<exists>e. ra_events (IpcDfxScope_dtor env (fold (scope_step env) ops (sc, s))) = e # ra_events s \<and>
     behavior_event env (sc_funcName sc) (scope_status (first_finish ops)) e"
proof (induction ops arbitrary: sc s)
  case Nil
  then show ?case using ReportBehavior_event[of env "sc_funcName sc" "sc_stage sc" "''FAIL''" "sc_info sc" DISK_MGR_ERR s]
    by (simp add: IpcDfxScope_dtor_def IpcDfxScope_Finish_def scope_status_def)
next
  case (Cons x xs)
  show ?case
  proof (cases x)
    case (Op_Merge other)
    with Cons.IH[of "IpcDfxScope_MergeFrom other sc" s] Cons.prems show ?thesis by (simp add: IpcDfxScope_MergeFrom_def)
  next
    case (Op_Finish rc)
    let ?s = "ReportBehavior env (sc_funcName sc) (sc_stage sc) (scope_status rc) (sc_info sc) rc s"
    obtain sc' where "fold (scope_step env) xs (sc\<lparr>sc_finished := True\<rparr>, ?s) = (sc', ?s)" "sc_finished sc'"
      using scope_finished_ops[of "sc\<lparr>sc_finished := True\<rparr>" env xs ?s] by auto
    with Op_Finish Cons.prems ReportBehavior_event[of env "sc_funcName sc" "sc_stage sc" "scope_status rc" "sc_info sc" rc s]
    show ?thesis by (simp add: IpcDfxScope_Finish_def IpcDfxScope_dtor_def scope_status_def[symmetric])
  qed
qed

text \<open>
  Whatever an operation does with its reporting scope, merging details and finishing it any number of
  times or not at all, exactly two behaviour events are sent: the start, and one end whose status is that of
  the first result it was finished with, or a failure when it was left without.
\<close>

theorem scope_reports_once:
  assumes "IpcDfxScope_ctor env funcName stage opType info s = (sc, s1)"
  shows "\<exists>b e. ra_events (IpcDfxScope_dtor env (fold (scope_step env) ops (sc, s1))) = e # b # ra_events s \<and>
    behavior_event env funcName ''START'' b \<and>
    behavior_event env funcName (if first_finish ops = E_OK then ''SUCCESS'' else ''FAIL'') e"
proof -
  from assms have sc: "\<not> sc_finished sc" "sc_funcName sc = funcName" "s1 = ReportBehavior env funcName stage ''START'' info E_OK s"
    by (auto simp: IpcDfxScope_ctor_def)
  show ?thesis using ReportBehavior_event[of env funcName stage "''START''" info E_OK s] scope_end[OF sc(1), of env ops s1] sc
    unfolding scope_status_def by auto
qed

definition plain_radar :: radar_env where
  "plain_radar = \<lparr>re_audit = plain_audit, re_write = (\<lambda>h e. 0), re_pid = 1, re_dump = (\<lambda>j. ''{}''), re_parse = (\<lambda>s. Some (JObject []))\<rparr>"

theorem scope_reports_once_witness:
  "\<exists>b e. ra_events (IpcDfxScope_dtor plain_radar (fold (scope_step plain_radar) [Op_Finish 0, Op_Finish 5]
      (IpcDfxScope_ctor plain_radar ''Mount'' 41 0 VolumeReportInfo_zero \<lparr>ra_events = [], ra_audit = new_audit\<rparr>))) = [e, b] \<and>
    behavior_event plain_radar ''Mount'' ''SUCCESS'' e"
  using scope_reports_once[OF prod.collapse[symmetric], where env = plain_radar and funcName = "''Mount''" and stage = 41 and opType = 0
      and info = VolumeReportInfo_zero and s = "\<lparr>ra_events = [], ra_audit = new_audit\<rparr>" and ops = "[Op_Finish 0, Op_Finish 5]"]
  by fastforce

section \<open>Reading a report back\<close>

lemma js_set_get: "om_wf m \<Longrightarrow> om_get (js_set k v m) a = (if a = k \<and> v \<noteq> [] then Some (JString v) else om_get m a)"
  by (simp add: js_set_def)

lemma js_set_wf [simp]: "om_wf m \<Longrightarrow> om_wf (js_set k v m)"
  by (simp add: js_set_def)

lemma extra_object_get:
  "om_get (extra_object r) k = (let v = (if k = ''extra'' then ri_extra r else if k = ''fsUuid'' then ri_fsUuid r
     else if k = ''fsType'' then ri_fsType r else if k = ''devPath'' then ri_devPath r else if k = ''diskId'' then ri_diskId r
     else if k = ''volumeId'' then ri_volumeId r else []) in if v = [] then None else Some (JString v))"
  by (simp add: extra_object_def js_set_get)

lemma extra_field:
  "om_get (extra_object r) ''extra'' = (if ri_extra r = [] then None else Some (JString (ri_extra r)))"
  "om_get (extra_object r) ''fsType'' = (if ri_fsType r = [] then None else Some (JString (ri_fsType r)))"
  "om_get (extra_object r) ''devPath'' = (if ri_devPath r = [] then None else Some (JString (ri_devPath r)))"
  "om_get (extra_object r) ''diskId'' = (if ri_diskId r = [] then None else Some (JString (ri_diskId r)))"
  "om_get (extra_object r) ''volumeId'' = (if ri_volumeId r = [] then None else Some (JString (ri_volumeId r)))"
  "om_get (extra_object r) ''fsUuid'' = (if ri_fsUuid r = [] then None else Some (JString (ri_fsUuid r)))"
  "om_get (extra_object r) ''tools'' = None"
  by (simp_all add: extra_object_get)

lemma extra_object_Nil: "extra_object r = [] \<Longrightarrow> r = VolumeReportInfo_zero"
proof -
  assume "extra_object r = []"
  then have "om_get (extra_object r) k = None" for k by simp
  then have "ri_extra r = []" "ri_fsType r = []" "ri_devPath r = []" "ri_diskId r = []" "ri_volumeId r = []" "ri_fsUuid r = []"
    using extra_field(1-6)[of r] by (auto split: if_splits)
  then show ?thesis by (intro VolumeReportInfo.equality) (simp_all add: VolumeReportInfo_zero_def)
qed

text \<open>
  The text of a report is read back as the report, whatever fields are set, except for the UUID of the file
  system, which is written but not read.
\<close>

theorem op_diag_roundtrip:
  assumes "parse (dump (JObject (extra_object r))) = Some (JObject (extra_object r))" "dump (JObject (extra_object r)) \<noteq> []"
  shows "ParseOpDiagText parse dump (ToExtraData dump r) = r\<lparr>ri_fsUuid := []\<rparr>"
proof (cases "extra_object r = []")
  case True
  with extra_object_Nil[OF True] show ?thesis by (simp add: ParseOpDiagText_def ToExtraData_def VolumeReportInfo_zero_def)
next
  case False
  moreover have "FillReportInfoFromJson dump (extra_object r) VolumeReportInfo_zero = r\<lparr>ri_fsUuid := []\<rparr>"
    unfolding FillReportInfoFromJson_def extra_field by (rule VolumeReportInfo.equality) (simp_all add: VolumeReportInfo_zero_def Let_def)
  ultimately show ?thesis using assms by (simp add: ParseOpDiagText_def ToExtraData_def)
qed

definition sample_report :: VolumeReportInfo where
  "sample_report = \<lparr>ri_volumeId = ''vol-8-1'', ri_diskId = ''disk-8-0'', ri_devPath = [], ri_fsType = ''ntfs'', ri_fsUuid = ''1234'', ri_extra = []\<rparr>"

theorem op_diag_roundtrip_witness:
  "ParseOpDiagText (\<lambda>s. Some (JObject (extra_object sample_report))) (\<lambda>j. ''{}'') (ToExtraData (\<lambda>j. ''{}'') sample_report) =
     sample_report\<lparr>ri_fsUuid := []\<rparr>"
  by (rule op_diag_roundtrip) simp_all

end
