(* ===== verification/Dm_Link.thy ===== *)
theory Dm_Link
  imports Dm_Prelude
begin

text \<open>
  Links to another process. The service keeps a proxy of the storage daemon, the client library one of the
  service; both register a death recipient with the remote object, so that a dead proxy is dropped and the next
  operation connects again. The state of such a link is the proxy, the recipient in use and the set of
  registrations at remote objects; its steps are connecting, dropping the connection and a change of the
  recipient while there is no connection. A connection may come about without a registration (no memory for the recipient, or a
  registration that fails, a result that both owners ignore); \<open>link_step True\<close> are the steps without such a
  connection. The locale \<open>remote_link\<close> is what an owner of a link has to keep to: whatever it does in one operation is a
  sequence of these steps. It gives that no registration outlives its proxy, and that a proxy is never unwatched as
  long as every connection registers.
\<close>

type_synonym link = "nat option \<times> nat option \<times> (nat \<times> nat) set"

definition registration :: "nat option \<Rightarrow> nat option \<Rightarrow> (nat \<times> nat) set" where
  "registration p d = (case (p, d) of (Some obj, Some r) \<Rightarrow> {(obj, r)} | _ \<Rightarrow> {})"

lemma registration_simps [simp]:
  "registration None d = {}" "registration p None = {}" "registration (Some obj) (Some r) = {(obj, r)}"
  by (simp_all add: registration_def split: option.splits)

inductive link_step :: "bool \<Rightarrow> link \<Rightarrow> link \<Rightarrow> bool" for full where
  link_connect: "link_step full (None, d, w) (Some obj, Some r, insert (obj, r) w)"
| link_unregistered: "\<not> full \<Longrightarrow> link_step full (None, d, w) (Some obj, d', w)"
| link_drop: "link_step full (Some obj, d, w) (None, d', w - registration (Some obj) d)"
| link_idle: "link_step full (None, d, w) (None, d', w)"

inductive_cases link_stepE: "link_step full l l'"

text \<open>\<open>tidy_link\<close>: nothing is registered but the recipient in use at the proxy in use. \<open>watched_link\<close>: it is registered.\<close>

definition tidy_link :: "link \<Rightarrow> bool" where
  "tidy_link l = (case l of (p, d, w) \<Rightarrow> w \<subseteq> registration p d)"

definition watched_link :: "link \<Rightarrow> bool" where
  "watched_link l = (case l of (p, d, w) \<Rightarrow>
     (case p of None \<Rightarrow> w = {} | Some obj \<Rightarrow> (case d of None \<Rightarrow> False | Some r \<Rightarrow> w = {(obj, r)})))"

lemma watched_link_simps [simp]:
  "watched_link (None, d, w) \<longleftrightarrow> w = {}"
  "watched_link (Some obj, None, w) \<longleftrightarrow> False"
  "watched_link (Some obj, Some r, w) \<longleftrightarrow> w = {(obj, r)}"
  by (simp_all add: watched_link_def)

lemma link_step_watched: "link_step True l l' \<Longrightarrow> watched_link l \<Longrightarrow> watched_link l'"
  by (erule link_stepE) (auto simp: watched_link_def split: option.splits)

lemma link_step_tidy: "link_step full l l' \<Longrightarrow> tidy_link l \<Longrightarrow> tidy_link l'"
  by (erule link_stepE) (auto simp: tidy_link_def registration_def split: option.splits)

lemma link_steps_watched: "(link_step True)\<^sup>*\<^sup>* l l' \<Longrightarrow> watched_link l \<Longrightarrow> watched_link l'"
  by (induction rule: rtranclp_induct) (auto intro: link_step_watched)

lemma link_steps_tidy: "(link_step full)\<^sup>*\<^sup>* l l' \<Longrightarrow> tidy_link l \<Longrightarrow> tidy_link l'"
  by (induction rule: rtranclp_induct) (auto intro: link_step_tidy)

locale remote_link =
  fixes view :: "'s \<Rightarrow> link" and step :: "'e \<Rightarrow> 's \<Rightarrow> 's" and good :: "'e \<Rightarrow> bool" and full :: "'e \<Rightarrow> bool" and start :: "'a \<Rightarrow> 's"
  assumes start: "view (start a) = (None, None, {})"
    and moves: "good e \<Longrightarrow> (link_step (full e))\<^sup>*\<^sup>* (view s) (view (step e s))"
begin

lemma run_tidy: "list_all good es \<Longrightarrow> tidy_link (view s) \<Longrightarrow> tidy_link (view (fold step es s))"
  by (induction es arbitrary: s) (auto intro: link_steps_tidy moves)

lemma always_tidy: "list_all good es \<Longrightarrow> tidy_link (view (fold step es (start a)))"
  by (rule run_tidy) (simp_all add: start tidy_link_def)

lemma step_watched: "good e \<Longrightarrow> full e \<Longrightarrow> watched_link (view s) \<Longrightarrow> watched_link (view (step e s))"
  using link_steps_watched moves by metis

lemma run_watched: "list_all good es \<Longrightarrow> list_all full es \<Longrightarrow> watched_link (view s) \<Longrightarrow> watched_link (view (fold step es s))"
  by (induction es arbitrary: s) (auto intro: step_watched)

lemma always_watched: "list_all good es \<Longrightarrow> list_all full es \<Longrightarrow> watched_link (view (fold step es (start a)))"
  by (rule run_watched) (simp_all add: start)

end

end
