(* ===== verification/Dm_Daemon.thy ===== *)
theory Dm_Daemon
  imports Dm_World Dm_Parcel Dm_Dfx Dm_Link
begin

text \<open>
  The way to the storage daemon: \<^verbatim>\<open>adapter/storage_daemon_proxy.cpp\<close>, which turns each operation into a message and
  its answer back into results, and \<^verbatim>\<open>adapter/storage_daemon_adapter.cpp\<close>, which keeps the connection. In the
  theories of the operations both are the calls \<open>Sd_...\<close> of the environment; here is what such a call does.

  The message parcel, the string conversions of the system library and the transport are the record
  \<open>daemon_ipc\<close>. A method returns its error code and output parameters as a \<open>reply\<close>; the output
  parameters of the caller go in with their initial values, since a failing method may leave them alone.
  The result \<open>None\<close> is the end of the process: a null pointer dereferenced, or an exception nobody catches.
  Proved: with a daemon that reads the message of an operation and implements a function, the caller gets the
  value of the function; what failures look like; that a death of the daemon between the check of the
  connection and its use crashes the service; and, by the locale of \<^verbatim>\<open>Dm_Link\<close>, that a connection kept is watched.
\<close>

section \<open>The interface\<close>

datatype IStorageDaemonIpcCode =
    COMMAND_QUERY_USB_IS_IN_USE
  | ADDON_CREATE_BLOCK_DEVICE_NODE
  | ADDON_DESTROY_BLOCK_DEVICE_NODE
  | ADDON_READ_PARTITION_TABLE
  | ADDON_MOUNT
  | ADDON_UNMOUNT
  | ADDON_FORMAT_VOLUME
  | ADDON_CHECK
  | ADDON_REPAIR
  | ADDON_SET_LABEL
  | ADDON_READ_METADATA
  | ADDON_MOUNT_FUSE_DEVICE
  | ADDON_PARTITION
  | ADDON_GET_BLOCK_INFO_BY_TYPE
  | ADDON_GET_PARTITION_TABLE_INFO
  | ADDON_CREATE_PARTITION
  | ADDON_DELETE_PARTITION
  | ADDON_FORMAT_PARTITION
  | ADDON_GET_CAPACITY
  | ADDON_GET_CD_STATUS
  | ADDON_ERASE
  | ADDON_EJECT
  | ADDON_CREATE_ISO_IMAGE
  | ADDON_BURN
  | ADDON_GET_VOLUME_OP_PROCESS
  | ADDON_VERIFY_BURN_DATA
  | ADDON_GET_DISK_SIZE
  | ADDON_EXECUTE_COMMAND
  | ADDON_CREATE_DM_LINEAR

primrec ipc_code :: "IStorageDaemonIpcCode \<Rightarrow> int" where
  "ipc_code COMMAND_QUERY_USB_IS_IN_USE = 45"
| "ipc_code ADDON_CREATE_BLOCK_DEVICE_NODE = 201"
| "ipc_code ADDON_DESTROY_BLOCK_DEVICE_NODE = 202"
| "ipc_code ADDON_READ_PARTITION_TABLE = 203"
| "ipc_code ADDON_MOUNT = 204"
| "ipc_code ADDON_UNMOUNT = 205"
| "ipc_code ADDON_FORMAT_VOLUME = 206"
| "ipc_code ADDON_CHECK = 207"
| "ipc_code ADDON_REPAIR = 208"
| "ipc_code ADDON_SET_LABEL = 209"
| "ipc_code ADDON_READ_METADATA = 210"
| "ipc_code ADDON_MOUNT_FUSE_DEVICE = 211"
| "ipc_code ADDON_PARTITION = 212"
| "ipc_code ADDON_GET_BLOCK_INFO_BY_TYPE = 213"
| "ipc_code ADDON_GET_PARTITION_TABLE_INFO = 214"
| "ipc_code ADDON_CREATE_PARTITION = 215"
| "ipc_code ADDON_DELETE_PARTITION = 216"
| "ipc_code ADDON_FORMAT_PARTITION = 217"
| "ipc_code ADDON_GET_CAPACITY = 251"
| "ipc_code ADDON_GET_CD_STATUS = 253"
| "ipc_code ADDON_ERASE = 254"
| "ipc_code ADDON_EJECT = 255"
| "ipc_code ADDON_CREATE_ISO_IMAGE = 256"
| "ipc_code ADDON_BURN = 257"
| "ipc_code ADDON_GET_VOLUME_OP_PROCESS = 258"
| "ipc_code ADDON_VERIFY_BURN_DATA = 259"
| "ipc_code ADDON_GET_DISK_SIZE = 261"
| "ipc_code ADDON_EXECUTE_COMMAND = 263"
| "ipc_code ADDON_CREATE_DM_LINEAR = 264"

definition SD_DESCRIPTOR :: string where "SD_DESCRIPTOR = ''OHOS.StorageDaemon.IStorageDaemon''"

text \<open>
  \<open>TryReadInt64\<close> and the like are the read functions that tell whether they succeeded; \<open>SendRequest\<close> goes to a
  remote object with a code and a parcel and returns a status and the reply parcel.
\<close>

record 'p daemon_ipc =
  di_ops :: "'p parcel_ops"
  di_new :: 'p
  WriteInterfaceToken :: "string \<Rightarrow> 'p \<Rightarrow> bool \<times> 'p"
  WriteString16 :: "16 word list \<Rightarrow> 'p \<Rightarrow> bool \<times> 'p"
  ReadString16 :: "'p \<Rightarrow> 16 word list \<times> 'p"
  ReadFileDescriptor :: "'p \<Rightarrow> int \<times> 'p"
  TryReadInt32 :: "'p \<Rightarrow> int option \<times> 'p"
  TryReadInt64 :: "'p \<Rightarrow> int option \<times> 'p"
  TryReadUint64 :: "'p \<Rightarrow> int option \<times> 'p"
  Str8ToStr16 :: "string \<Rightarrow> 16 word list"
  Str16ToStr8 :: "16 word list \<Rightarrow> string"
  SendRequest :: "nat \<Rightarrow> int \<Rightarrow> 'p \<Rightarrow> int \<times> 'p"
  ERR_TRANSACTION_FAILED :: int
  ERR_INVALID_DATA :: int

section \<open>The proxy\<close>

text \<open>
  \<open>sd_transact\<close> is the common course of a proxy method: write the interface token, then the arguments, send,
  and read the answer; \<open>out\<close> holds the output parameters as they are when the method gives up.
\<close>

definition sd_fail :: "reply \<Rightarrow> int \<Rightarrow> reply option" where
  "sd_fail out e = Some (out\<lparr>rp_err := e\<rparr>)"

definition sd_transact :: "'p daemon_ipc \<Rightarrow> nat \<Rightarrow> IStorageDaemonIpcCode \<Rightarrow> ('p \<Rightarrow> bool \<times> 'p) list \<Rightarrow> reply \<Rightarrow>
    ('p \<Rightarrow> reply option) \<Rightarrow> reply option" where
  "sd_transact d remote code ws out answer =
     (case WriteInterfaceToken d SD_DESCRIPTOR (di_new d) of
        (False, _) \<Rightarrow> sd_fail out (ERR_TRANSACTION_FAILED d)
      | (True, data) \<Rightarrow>
          (case write_all ws data of
             (False, _) \<Rightarrow> sd_fail out (ERR_INVALID_DATA d)
           | (True, data1) \<Rightarrow>
               (case SendRequest d remote (ipc_code code) data1 of
                  (rc, reply) \<Rightarrow> if rc \<noteq> 0 then sd_fail out rc else answer reply)))"

definition wr16 :: "'p daemon_ipc \<Rightarrow> string \<Rightarrow> 'p \<Rightarrow> bool \<times> 'p" where
  "wr16 d s = WriteString16 d (Str8ToStr16 d s)"

definition get :: "('p \<Rightarrow> 'a \<times> 'p) \<Rightarrow> ('a \<Rightarrow> 'p \<Rightarrow> 'b) \<Rightarrow> 'p \<Rightarrow> 'b" where
  "get r k p = (case r p of (x, q) \<Rightarrow> k x q)"

definition rd16 :: "'p daemon_ipc \<Rightarrow> 'p \<Rightarrow> string \<times> 'p" where
  "rd16 d p = (case ReadString16 d p of (s, q) \<Rightarrow> (Str16ToStr8 d s, q))"

abbreviation outputs :: "string list \<Rightarrow> int list \<Rightarrow> bool \<Rightarrow> reply" where
  "outputs ss is b \<equiv> \<lparr>rp_err = 0, rp_strs = ss, rp_ints = is, rp_flag = b\<rparr>"

text \<open>The answer of a method without output parameters, and the common begin of the others.\<close>

definition answer_status :: "'p daemon_ipc \<Rightarrow> 'p \<Rightarrow> reply option" where
  "answer_status d = get (ReadInt32 (di_ops d)) (\<lambda>res reply. sd_fail (outputs [] [] False) res)"

definition answer_with :: "'p daemon_ipc \<Rightarrow> reply \<Rightarrow> ('p \<Rightarrow> reply option) \<Rightarrow> 'p \<Rightarrow> reply option" where
  "answer_with d out k = get (ReadInt32 (di_ops d)) (\<lambda>res reply. if res \<noteq> 0 then sd_fail out res else k reply)"

definition SdProxy_QueryUsbIsInUse :: "'p daemon_ipc \<Rightarrow> nat \<Rightarrow> string \<Rightarrow> bool \<Rightarrow> reply option" where
  "SdProxy_QueryUsbIsInUse d obj diskPath isInUse =
     (let out = outputs [] [] isInUse in
      sd_transact d obj COMMAND_QUERY_USB_IS_IN_USE [wr16 d diskPath] out
        (answer_with d out (get (ReadBool (di_ops d)) (\<lambda>b reply. Some (outputs [] [] b)))))"

definition SdProxy_CreateBlockDeviceNode :: "'p daemon_ipc \<Rightarrow> nat \<Rightarrow> string \<Rightarrow> int \<Rightarrow> int \<Rightarrow> int \<Rightarrow> reply option" where
  "SdProxy_CreateBlockDeviceNode d obj devPath mode major minor =
     sd_transact d obj ADDON_CREATE_BLOCK_DEVICE_NODE
       [wr16 d devPath, WriteUint32 (di_ops d) (nat mode), WriteInt32 (di_ops d) major, WriteInt32 (di_ops d) minor]
       (outputs [] [] False) (answer_status d)"

definition SdProxy_DestroyBlockDeviceNode :: "'p daemon_ipc \<Rightarrow> nat \<Rightarrow> string \<Rightarrow> reply option" where
  "SdProxy_DestroyBlockDeviceNode d obj devPath =
     sd_transact d obj ADDON_DESTROY_BLOCK_DEVICE_NODE [wr16 d devPath] (outputs [] [] False) (answer_status d)"

definition SdProxy_ReadPartitionTable :: "'p daemon_ipc \<Rightarrow> nat \<Rightarrow> string \<Rightarrow> reply option" where
  "SdProxy_ReadPartitionTable d obj devPath =
     (let out = outputs [[]] [0] False in
      sd_transact d obj ADDON_READ_PARTITION_TABLE [wr16 d devPath] out
        (answer_with d out (get (rd16 d) (\<lambda>output. get (ReadInt32 (di_ops d)) (\<lambda>maxVolume reply.
           Some (outputs [output] [maxVolume] False))))))"

definition SdProxy_QueryCDStatus :: "'p daemon_ipc \<Rightarrow> nat \<Rightarrow> string \<Rightarrow> reply option" where
  "SdProxy_QueryCDStatus d obj devPath =
     (let out = outputs [] [0] False in
      sd_transact d obj ADDON_GET_CD_STATUS [wr16 d devPath] out
        (answer_with d out (get (ReadInt32 (di_ops d)) (\<lambda>status reply. Some (outputs [] [status] False)))))"

definition SdProxy_Mount :: "'p daemon_ipc \<Rightarrow> nat \<Rightarrow> string \<Rightarrow> string \<Rightarrow> string \<Rightarrow> 64 word \<Rightarrow> string \<Rightarrow> reply option" where
  "SdProxy_Mount d obj devPath mountPath fsType mountFlag mountData =
     sd_transact d obj ADDON_MOUNT
       [wr16 d devPath, wr16 d mountPath, wr16 d fsType, WriteUint64 (di_ops d) (uint mountFlag), wr16 d mountData]
       (outputs [] [] False) (answer_status d)"

definition SdProxy_Unmount :: "'p daemon_ipc \<Rightarrow> nat \<Rightarrow> string \<Rightarrow> string \<Rightarrow> bool \<Rightarrow> reply option" where
  "SdProxy_Unmount d obj mountPath fsType force =
     sd_transact d obj ADDON_UNMOUNT [wr16 d mountPath, wr16 d fsType, WriteBool (di_ops d) force]
       (outputs [] [] False) (answer_status d)"

definition SdProxy_FormatVolume :: "'p daemon_ipc \<Rightarrow> nat \<Rightarrow> string \<Rightarrow> string \<Rightarrow> string \<Rightarrow> string \<Rightarrow> int \<Rightarrow> reply option" where
  "SdProxy_FormatVolume d obj devPath fsType diskPath partitionType partitionNum =
     sd_transact d obj ADDON_FORMAT_VOLUME
       [wr16 d devPath, wr16 d fsType, wr16 d diskPath, wr16 d partitionType, WriteInt32 (di_ops d) partitionNum]
       (outputs [] [] False) (answer_status d)"

definition SdProxy_Check :: "'p daemon_ipc \<Rightarrow> nat \<Rightarrow> string \<Rightarrow> string \<Rightarrow> reply option" where
  "SdProxy_Check d obj devPath fsType =
     sd_transact d obj ADDON_CHECK [wr16 d devPath, wr16 d fsType] (outputs [] [] False) (answer_status d)"

definition SdProxy_Repair :: "'p daemon_ipc \<Rightarrow> nat \<Rightarrow> string \<Rightarrow> string \<Rightarrow> reply option" where
  "SdProxy_Repair d obj devPath fsType =
     sd_transact d obj ADDON_REPAIR [wr16 d devPath, wr16 d fsType] (outputs [] [] False) (answer_status d)"

definition SdProxy_SetLabel :: "'p daemon_ipc \<Rightarrow> nat \<Rightarrow> string \<Rightarrow> string \<Rightarrow> string \<Rightarrow> reply option" where
  "SdProxy_SetLabel d obj devPath fsType label =
     sd_transact d obj ADDON_SET_LABEL [wr16 d devPath, wr16 d fsType, wr16 d label] (outputs [] [] False) (answer_status d)"

definition SdProxy_ReadMetadata :: "'p daemon_ipc \<Rightarrow> nat \<Rightarrow> string \<Rightarrow> reply option" where
  "SdProxy_ReadMetadata d obj devPath =
     (let out = outputs [[], [], []] [] False in
      sd_transact d obj ADDON_READ_METADATA [wr16 d devPath] out
        (answer_with d out (get (rd16 d) (\<lambda>uuid. get (rd16 d) (\<lambda>type. get (rd16 d) (\<lambda>label reply.
           Some (outputs [uuid, type, label] [] False)))))))"

definition SdProxy_GetCapacity :: "'p daemon_ipc \<Rightarrow> nat \<Rightarrow> string \<Rightarrow> reply option" where
  "SdProxy_GetCapacity d obj devPath =
     (let out = outputs [] [0, 0] False in
      sd_transact d obj ADDON_GET_CAPACITY [wr16 d devPath] out
        (answer_with d out (get (TryReadInt64 d) (\<lambda>t reply. case t of
             None \<Rightarrow> sd_fail out (ERR_INVALID_DATA d)
           | Some totalSize \<Rightarrow> get (TryReadInt64 d) (\<lambda>f reply. case f of
               None \<Rightarrow> sd_fail (outputs [] [totalSize, 0] False) (ERR_INVALID_DATA d)
             | Some freeSize \<Rightarrow> Some (outputs [] [totalSize, freeSize] False)) reply))))"

definition SdProxy_MountFuseDevice :: "'p daemon_ipc \<Rightarrow> nat \<Rightarrow> string \<Rightarrow> reply option" where
  "SdProxy_MountFuseDevice d obj mountPath =
     (let out = outputs [] [- 1] False in
      sd_transact d obj ADDON_MOUNT_FUSE_DEVICE [wr16 d mountPath] out
        (answer_with d out (get (ReadFileDescriptor d) (\<lambda>fd reply.
           if fd < 0 then sd_fail out (ERR_INVALID_DATA d) else Some (outputs [] [fd] False)))))"

definition SdProxy_GetBlockInfoByType :: "'p daemon_ipc \<Rightarrow> nat \<Rightarrow> string \<Rightarrow> string \<Rightarrow> reply option" where
  "SdProxy_GetBlockInfoByType d obj type diskId =
     (let out = outputs [[]] [] False in
      sd_transact d obj ADDON_GET_BLOCK_INFO_BY_TYPE [wr16 d type, wr16 d diskId] out
        (answer_with d out (get (rd16 d) (\<lambda>blockInfos reply. Some (outputs [blockInfos] [] False)))))"

definition SdProxy_Partition :: "'p daemon_ipc \<Rightarrow> nat \<Rightarrow> string \<Rightarrow> string \<Rightarrow> reply option" where
  "SdProxy_Partition d obj diskPath partitionType =
     sd_transact d obj ADDON_PARTITION [wr16 d diskPath, wr16 d partitionType] (outputs [] [] False) (answer_status d)"

definition SdProxy_GetPartitionTableInfo :: "'p daemon_ipc \<Rightarrow> nat \<Rightarrow> string \<Rightarrow> string \<Rightarrow> reply option" where
  "SdProxy_GetPartitionTableInfo d obj devPath execRet =
     (let out = outputs [execRet] [] False in
      sd_transact d obj ADDON_GET_PARTITION_TABLE_INFO [wr16 d devPath] out
        (answer_with d out (get (rd16 d) (\<lambda>s reply. Some (outputs [s] [] False)))))"

definition SdProxy_CreatePartition :: "'p daemon_ipc \<Rightarrow> nat \<Rightarrow> string \<Rightarrow> int \<Rightarrow> int \<Rightarrow> int \<Rightarrow> string \<Rightarrow> reply option" where
  "SdProxy_CreatePartition d obj devPath partitionNum startSector endSector typeCode =
     sd_transact d obj ADDON_CREATE_PARTITION
       [wr16 d devPath, WriteInt32 (di_ops d) partitionNum, WriteInt64 (di_ops d) startSector, WriteInt64 (di_ops d) endSector,
        wr16 d typeCode]
       (outputs [] [] False) (answer_status d)"

definition SdProxy_DeletePartitionInfo :: "'p daemon_ipc \<Rightarrow> nat \<Rightarrow> string \<Rightarrow> string \<Rightarrow> int \<Rightarrow> reply option" where
  "SdProxy_DeletePartitionInfo d obj devPath diskId partitionNum =
     sd_transact d obj ADDON_DELETE_PARTITION [wr16 d devPath, wr16 d diskId, WriteInt32 (di_ops d) partitionNum]
       (outputs [] [] False) (answer_status d)"

definition size32 :: "'a list \<Rightarrow> int" where
  "size32 xs = to_int32 (int (length xs))"

definition SdProxy_FormatPartition :: "'p daemon_ipc \<Rightarrow> nat \<Rightarrow> string \<Rightarrow> string \<Rightarrow> string \<Rightarrow> string list \<Rightarrow> bool \<Rightarrow> reply option" where
  "SdProxy_FormatPartition d obj devPath fsType volumeName cmd quickFormat =
     sd_transact d obj ADDON_FORMAT_PARTITION
       ([wr16 d devPath, wr16 d fsType, wr16 d volumeName, WriteInt32 (di_ops d) (size32 cmd)] @ map (wr16 d) cmd @
        [WriteBool (di_ops d) quickFormat])
       (outputs [] [] False) (answer_status d)"

definition SdProxy_Erase :: "'p daemon_ipc \<Rightarrow> nat \<Rightarrow> string \<Rightarrow> reply option" where
  "SdProxy_Erase d obj devPath = sd_transact d obj ADDON_ERASE [wr16 d devPath] (outputs [] [] False) (answer_status d)"

definition SdProxy_Eject :: "'p daemon_ipc \<Rightarrow> nat \<Rightarrow> string \<Rightarrow> reply option" where
  "SdProxy_Eject d obj devName = sd_transact d obj ADDON_EJECT [wr16 d devName] (outputs [] [] False) (answer_status d)"

definition SdProxy_CreateIsoImage :: "'p daemon_ipc \<Rightarrow> nat \<Rightarrow> string \<Rightarrow> string \<Rightarrow> string \<Rightarrow> string \<Rightarrow> reply option" where
  "SdProxy_CreateIsoImage d obj devPath filePath fsType mountPath =
     sd_transact d obj ADDON_CREATE_ISO_IMAGE [wr16 d devPath, wr16 d filePath, wr16 d fsType, wr16 d mountPath]
       (outputs [] [] False) (answer_status d)"

definition SdProxy_Burn :: "'p daemon_ipc \<Rightarrow> nat \<Rightarrow> string \<Rightarrow> string \<Rightarrow> string \<Rightarrow> reply option" where
  "SdProxy_Burn d obj devPath burnOptions fsType =
     sd_transact d obj ADDON_BURN [wr16 d devPath, wr16 d burnOptions, wr16 d fsType] (outputs [] [] False) (answer_status d)"

definition SdProxy_GetVolumeOpProcess :: "'p daemon_ipc \<Rightarrow> nat \<Rightarrow> string \<Rightarrow> reply option" where
  "SdProxy_GetVolumeOpProcess d obj volumeId =
     (let out = outputs [] [0] False in
      sd_transact d obj ADDON_GET_VOLUME_OP_PROCESS [wr16 d volumeId] out
        (answer_with d out (get (TryReadInt32 d) (\<lambda>x reply. case x of
           None \<Rightarrow> sd_fail out (ERR_INVALID_DATA d) | Some progressPct \<Rightarrow> Some (outputs [] [progressPct] False)))))"

definition SdProxy_GetDiskSize :: "'p daemon_ipc \<Rightarrow> nat \<Rightarrow> string \<Rightarrow> reply option" where
  "SdProxy_GetDiskSize d obj devName =
     (let out = outputs [] [0] False in
      sd_transact d obj ADDON_GET_DISK_SIZE [wr16 d devName] out
        (answer_with d out (get (TryReadUint64 d) (\<lambda>x reply. case x of
           None \<Rightarrow> sd_fail out (ERR_INVALID_DATA d) | Some sz \<Rightarrow> Some (outputs [] [sz] False)))))"

text \<open>
  The strings of a command's output; \<open>reserve\<close> with a negative size (a huge unsigned one) throws
  \<open>std::length_error\<close>, which nobody catches.
\<close>

fun get_strings :: "'p daemon_ipc \<Rightarrow> nat \<Rightarrow> string list \<Rightarrow> (string list \<Rightarrow> 'p \<Rightarrow> 'b) \<Rightarrow> 'p \<Rightarrow> 'b" where
  "get_strings d 0 acc k = k (rev acc)"
| "get_strings d (Suc n) acc k = get (rd16 d) (\<lambda>s. get_strings d n (s # acc) k)"

definition SdProxy_ExecuteCommand :: "'p daemon_ipc \<Rightarrow> nat \<Rightarrow> string list \<Rightarrow> int \<Rightarrow> string list \<Rightarrow> reply option" where
  "SdProxy_ExecuteCommand d obj cmd execRet output =
     (let out = outputs output [execRet] False in
      sd_transact d obj ADDON_EXECUTE_COMMAND (WriteInt32 (di_ops d) (size32 cmd) # map (wr16 d) cmd) out
        (answer_with d out (get (ReadInt32 (di_ops d)) (\<lambda>rc. get (ReadInt32 (di_ops d)) (\<lambda>outputSize.
           if outputSize < 0 then (\<lambda>reply. None)
           else get_strings d (nat outputSize) [] (\<lambda>ss reply. Some (outputs ss [rc] False)))))))"

definition SdProxy_CreateDmLinear :: "'p daemon_ipc \<Rightarrow> nat \<Rightarrow> string \<Rightarrow> int \<Rightarrow> int \<Rightarrow> reply option" where
  "SdProxy_CreateDmLinear d obj sourceDevPath startSector sectorCount =
     (let out = outputs [] [0] False in
      sd_transact d obj ADDON_CREATE_DM_LINEAR
        [wr16 d sourceDevPath, WriteUint64 (di_ops d) startSector, WriteUint64 (di_ops d) sectorCount] out
        (answer_with d out (get (TryReadUint64 d) (\<lambda>x reply. case x of
           None \<Rightarrow> sd_fail out (ERR_INVALID_DATA d) | Some dmDev \<Rightarrow> Some (outputs [] [dmDev] False)))))"

section \<open>The adapter\<close>

text \<open>
  The numbers of \<^verbatim>\<open>common/include/disk_manager_errno.h\<close>; the client library has others under the same names.
\<close>

abbreviation (input) E_SA_IS_NULLPTR :: errno where "E_SA_IS_NULLPTR \<equiv> 10"
abbreviation (input) E_REMOTE_IS_NULLPTR :: errno where "E_REMOTE_IS_NULLPTR \<equiv> 11"
abbreviation (input) E_SERVICE_IS_NULLPTR :: errno where "E_SERVICE_IS_NULLPTR \<equiv> 12"
abbreviation (input) E_DEATH_RECIPIENT_IS_NULLPTR :: errno where "E_DEATH_RECIPIENT_IS_NULLPTR \<equiv> 13"

text \<open>
  Remote objects and death recipients are numbers; \<open>ad_watch\<close> is the set of recipients registered with an object.
  The environment says what the system-ability manager answers, whether memory is available for a
  recipient, whether its registration succeeds (the source ignores the result), and what other threads do to the adapter between the check of the connection, which holds the
  lock, and the use of the proxy, which does not.
\<close>

record adapter =
  ad_storageDaemon :: "nat option"
  ad_deathRecipient :: "nat option"
  ad_watch :: "(nat \<times> nat) set"
  ad_radar :: radar

record adapter_env =
  ae_samgr :: bool
  ae_object :: "nat option"
  ae_cast :: bool
  ae_recipient :: "nat option"
  ae_registers :: bool
  ae_between :: "adapter \<Rightarrow> adapter"
  ae_cdc :: bool
  ae_radar :: radar_env

definition Connect :: "adapter_env \<Rightarrow> adapter \<Rightarrow> errno \<times> adapter" where
  "Connect env s =
     (if ad_storageDaemon s = None then
        if \<not> ae_samgr env then (E_SA_IS_NULLPTR, s)
        else case ae_object env of
          None \<Rightarrow> (E_REMOTE_IS_NULLPTR, s)
        | Some obj \<Rightarrow>
            if \<not> ae_cast env then (E_SERVICE_IS_NULLPTR, s\<lparr>ad_storageDaemon := None\<rparr>)
            else let s1 = s\<lparr>ad_storageDaemon := Some obj, ad_deathRecipient := ae_recipient env\<rparr> in
              case ae_recipient env of
                None \<Rightarrow> (E_DEATH_RECIPIENT_IS_NULLPTR, s1)
              | Some r \<Rightarrow> (E_OK, if ae_registers env then s1\<lparr>ad_watch := insert (obj, r) (ad_watch s1)\<rparr> else s1)
      else (E_OK, s))"

definition EnsureProxyReady :: "adapter_env \<Rightarrow> adapter \<Rightarrow> errno \<times> adapter" where
  "EnsureProxyReady env s =
     (case Connect env s of (err, s1) \<Rightarrow>
      if err \<noteq> E_OK then (err, s1)
      else if ad_storageDaemon s1 = None then (E_SERVICE_IS_NULLPTR, s1)
      else (E_OK, s1))"

definition ResetSdProxy :: "adapter \<Rightarrow> errno \<times> adapter" where
  "ResetSdProxy s =
     (let s1 = (case (ad_storageDaemon s, ad_deathRecipient s) of
                  (Some obj, Some r) \<Rightarrow> s\<lparr>ad_watch := ad_watch s - {(obj, r)}\<rparr>
                | _ \<Rightarrow> s)
      in (E_OK, s1\<lparr>ad_storageDaemon := None\<rparr>))"

definition OnRemoteDied :: "adapter \<Rightarrow> adapter" where
  "OnRemoteDied s = snd (ResetSdProxy s)"

definition FinishDaemonOp :: "adapter_env \<Rightarrow> string \<Rightarrow> int \<Rightarrow> int \<Rightarrow> errno \<Rightarrow> VolumeReportInfo \<Rightarrow> adapter \<Rightarrow> adapter" where
  "FinishDaemonOp env funcName stage opType rc info s =
     (if rc \<noteq> E_OK then s\<lparr>ad_radar := ReportVolumeFault (ae_radar env) funcName stage opType rc info (ad_radar s)\<rparr> else s)"

definition FinishMetadataOp :: "adapter_env \<Rightarrow> string \<Rightarrow> errno \<Rightarrow> VolumeReportInfo \<Rightarrow> adapter \<Rightarrow> adapter" where
  "FinishMetadataOp env funcName rc info s =
     (if rc \<noteq> E_OK then s\<lparr>ad_radar := ReportMetadataFault (ae_radar env) funcName rc info (ad_radar s)\<rparr> else s)"

text \<open>
  The common course of an adapter method: \<open>out\<close> are the output parameters of the caller, \<open>report\<close> what is
  done with the error when there is no connection, \<open>call\<close> the method of the proxy.
\<close>

definition with_daemon :: "adapter_env \<Rightarrow> reply \<Rightarrow> (errno \<Rightarrow> adapter \<Rightarrow> adapter) \<Rightarrow> (nat \<Rightarrow> reply option) \<Rightarrow> adapter \<Rightarrow>
    reply option \<times> adapter" where
  "with_daemon env out report call s =
     (case EnsureProxyReady env s of (err, s1) \<Rightarrow>
      if err \<noteq> E_OK then (sd_fail out err, report err s1)
      else let s2 = ae_between env s1 in
        case ad_storageDaemon s2 of None \<Rightarrow> (None, s2) | Some obj \<Rightarrow> (call obj, s2))"

definition no_report :: "errno \<Rightarrow> adapter \<Rightarrow> adapter" where
  "no_report err s = s"

definition dev_info :: "string \<Rightarrow> VolumeReportInfo" where
  "dev_info devPath = WithDevPath devPath VolumeReportInfo_zero"

definition Sda_QueryUsbIsInUse :: "adapter_env \<Rightarrow> 'p daemon_ipc \<Rightarrow> string \<Rightarrow> reply \<Rightarrow> adapter \<Rightarrow> reply option \<times> adapter" where
  "Sda_QueryUsbIsInUse env d diskPath out =
     with_daemon env out no_report (\<lambda>obj. SdProxy_QueryUsbIsInUse d obj diskPath (rp_flag out))"

definition Sda_CreateBlockDeviceNode :: "adapter_env \<Rightarrow> 'p daemon_ipc \<Rightarrow> string \<Rightarrow> int \<Rightarrow> int \<Rightarrow> int \<Rightarrow> reply \<Rightarrow> adapter \<Rightarrow>
    reply option \<times> adapter" where
  "Sda_CreateBlockDeviceNode env d devPath mode major minor out =
     with_daemon env out no_report (\<lambda>obj. SdProxy_CreateBlockDeviceNode d obj devPath mode major minor)"

definition Sda_DestroyBlockDeviceNode :: "adapter_env \<Rightarrow> 'p daemon_ipc \<Rightarrow> string \<Rightarrow> reply \<Rightarrow> adapter \<Rightarrow> reply option \<times> adapter" where
  "Sda_DestroyBlockDeviceNode env d devPath out =
     with_daemon env out no_report (\<lambda>obj. SdProxy_DestroyBlockDeviceNode d obj devPath)"

definition Sda_ReadPartitionTable :: "adapter_env \<Rightarrow> 'p daemon_ipc \<Rightarrow> string \<Rightarrow> reply \<Rightarrow> adapter \<Rightarrow> reply option \<times> adapter" where
  "Sda_ReadPartitionTable env d devPath out =
     with_daemon env out (\<lambda>err. FinishDaemonOp env ''StorageDaemonAdapter::ReadPartitionTable'' 46 5 err (dev_info devPath))
       (\<lambda>obj. SdProxy_ReadPartitionTable d obj devPath)"

definition Sda_QueryCDStatus :: "adapter_env \<Rightarrow> 'p daemon_ipc \<Rightarrow> string \<Rightarrow> reply \<Rightarrow> adapter \<Rightarrow> reply option \<times> adapter" where
  "Sda_QueryCDStatus env d devPath out = with_daemon env out no_report (\<lambda>obj. SdProxy_QueryCDStatus d obj devPath)"

text \<open>The flags added on a car: \<open>MS_NOSUID | MS_NODEV | MS_NOEXEC | MS_NOATIME\<close>.\<close>

definition CDC_MOUNT_FLAGS :: "64 word" where "CDC_MOUNT_FLAGS = or 2 (or 4 (or 8 1024))"

definition cdc_flags :: "bool \<Rightarrow> 64 word \<Rightarrow> 64 word" where
  "cdc_flags cdc mountFlag = (if cdc then or mountFlag CDC_MOUNT_FLAGS else mountFlag)"

definition Sda_Mount :: "adapter_env \<Rightarrow> 'p daemon_ipc \<Rightarrow> string \<Rightarrow> string \<Rightarrow> string \<Rightarrow> 64 word \<Rightarrow> string \<Rightarrow> reply \<Rightarrow> adapter \<Rightarrow>
    reply option \<times> adapter" where
  "Sda_Mount env d devPath mountPath fsType mountFlag mountData out =
     with_daemon env out
       (\<lambda>err. FinishDaemonOp env ''StorageDaemonAdapter::Mount'' DFX_STAGE_MOUNT OP_MOUNT err (WithFsType fsType (dev_info devPath)))
       (\<lambda>obj. SdProxy_Mount d obj devPath mountPath fsType (cdc_flags (ae_cdc env) mountFlag) mountData)"

definition Sda_Unmount :: "adapter_env \<Rightarrow> 'p daemon_ipc \<Rightarrow> string \<Rightarrow> string \<Rightarrow> bool \<Rightarrow> reply \<Rightarrow> adapter \<Rightarrow> reply option \<times> adapter" where
  "Sda_Unmount env d mountPath fsType force out =
     with_daemon env out
       (\<lambda>err. FinishDaemonOp env ''StorageDaemonAdapter::Unmount'' 42 1 err (WithFsType fsType VolumeReportInfo_zero))
       (\<lambda>obj. SdProxy_Unmount d obj mountPath fsType force)"

definition Sda_FormatVolume :: "adapter_env \<Rightarrow> 'p daemon_ipc \<Rightarrow> string \<Rightarrow> string \<Rightarrow> string \<Rightarrow> string \<Rightarrow> int \<Rightarrow> reply \<Rightarrow> adapter \<Rightarrow>
    reply option \<times> adapter" where
  "Sda_FormatVolume env d devPath fsType diskPath partitionType partitionNum out =
     with_daemon env out
       (\<lambda>err. FinishDaemonOp env ''StorageDaemonAdapter::FormatVolume'' 43 2 err (WithFsType fsType (dev_info devPath)))
       (\<lambda>obj. SdProxy_FormatVolume d obj devPath fsType diskPath partitionType partitionNum)"

definition Sda_Check :: "adapter_env \<Rightarrow> 'p daemon_ipc \<Rightarrow> string \<Rightarrow> string \<Rightarrow> reply \<Rightarrow> adapter \<Rightarrow> reply option \<times> adapter" where
  "Sda_Check env d devPath fsType out = with_daemon env out no_report (\<lambda>obj. SdProxy_Check d obj devPath fsType)"

definition Sda_Repair :: "adapter_env \<Rightarrow> 'p daemon_ipc \<Rightarrow> string \<Rightarrow> string \<Rightarrow> reply \<Rightarrow> adapter \<Rightarrow> reply option \<times> adapter" where
  "Sda_Repair env d devPath fsType out = with_daemon env out no_report (\<lambda>obj. SdProxy_Repair d obj devPath fsType)"

definition Sda_SetLabel :: "adapter_env \<Rightarrow> 'p daemon_ipc \<Rightarrow> string \<Rightarrow> string \<Rightarrow> string \<Rightarrow> reply \<Rightarrow> adapter \<Rightarrow> reply option \<times> adapter" where
  "Sda_SetLabel env d devPath fsType label out =
     with_daemon env out
       (\<lambda>err. FinishDaemonOp env ''StorageDaemonAdapter::SetLabel'' 44 3 err (WithFsType fsType (dev_info devPath)))
       (\<lambda>obj. SdProxy_SetLabel d obj devPath fsType label)"

definition Sda_ReadMetadata :: "adapter_env \<Rightarrow> 'p daemon_ipc \<Rightarrow> string \<Rightarrow> reply \<Rightarrow> adapter \<Rightarrow> reply option \<times> adapter" where
  "Sda_ReadMetadata env d devPath out =
     with_daemon env out (\<lambda>err. FinishMetadataOp env ''StorageDaemonAdapter::ReadMetadata'' err (dev_info devPath))
       (\<lambda>obj. SdProxy_ReadMetadata d obj devPath)"

definition Sda_GetCapacity :: "adapter_env \<Rightarrow> 'p daemon_ipc \<Rightarrow> string \<Rightarrow> reply \<Rightarrow> adapter \<Rightarrow> reply option \<times> adapter" where
  "Sda_GetCapacity env d devPath out = with_daemon env out no_report (\<lambda>obj. SdProxy_GetCapacity d obj devPath)"

definition Sda_MountFuseDevice :: "adapter_env \<Rightarrow> 'p daemon_ipc \<Rightarrow> string \<Rightarrow> reply \<Rightarrow> adapter \<Rightarrow> reply option \<times> adapter" where
  "Sda_MountFuseDevice env d mountPath out = with_daemon env out no_report (\<lambda>obj. SdProxy_MountFuseDevice d obj mountPath)"

definition Sda_Partition :: "adapter_env \<Rightarrow> 'p daemon_ipc \<Rightarrow> string \<Rightarrow> string \<Rightarrow> reply \<Rightarrow> adapter \<Rightarrow> reply option \<times> adapter" where
  "Sda_Partition env d diskPath partitionType out =
     with_daemon env out no_report (\<lambda>obj. SdProxy_Partition d obj diskPath partitionType)"

definition Sda_GetBlockInfoByType :: "adapter_env \<Rightarrow> 'p daemon_ipc \<Rightarrow> string \<Rightarrow> string \<Rightarrow> reply \<Rightarrow> adapter \<Rightarrow> reply option \<times> adapter" where
  "Sda_GetBlockInfoByType env d type diskId out =
     with_daemon env (outputs [[]] [] False) no_report (\<lambda>obj. SdProxy_GetBlockInfoByType d obj type diskId)"

definition Sda_GetPartitionTableInfo :: "adapter_env \<Rightarrow> 'p daemon_ipc \<Rightarrow> string \<Rightarrow> reply \<Rightarrow> adapter \<Rightarrow> reply option \<times> adapter" where
  "Sda_GetPartitionTableInfo env d devPath out =
     with_daemon env out (\<lambda>err. FinishDaemonOp env ''StorageDaemonAdapter::GetPartitionTableInfo'' 46 5 err (dev_info devPath))
       (\<lambda>obj. SdProxy_GetPartitionTableInfo d obj devPath (rp_str 0 out))"

definition Sda_CreatePartition :: "adapter_env \<Rightarrow> 'p daemon_ipc \<Rightarrow> string \<Rightarrow> int \<Rightarrow> int \<Rightarrow> int \<Rightarrow> string \<Rightarrow> reply \<Rightarrow> adapter \<Rightarrow>
    reply option \<times> adapter" where
  "Sda_CreatePartition env d devPath partitionNum startSector endSector typeCode out =
     with_daemon env out (\<lambda>err. FinishDaemonOp env ''StorageDaemonAdapter::CreatePartition'' 47 6 err (dev_info devPath))
       (\<lambda>obj. SdProxy_CreatePartition d obj devPath partitionNum startSector endSector typeCode)"

definition Sda_DeletePartition :: "adapter_env \<Rightarrow> 'p daemon_ipc \<Rightarrow> string \<Rightarrow> string \<Rightarrow> int \<Rightarrow> reply \<Rightarrow> adapter \<Rightarrow> reply option \<times> adapter" where
  "Sda_DeletePartition env d devPath diskId partitionNum out =
     with_daemon env out
       (\<lambda>err. FinishDaemonOp env ''StorageDaemonAdapter::DeletePartition'' 48 7 err (WithDiskId diskId (dev_info devPath)))
       (\<lambda>obj. SdProxy_DeletePartitionInfo d obj devPath diskId partitionNum)"

definition Sda_FormatPartition :: "adapter_env \<Rightarrow> 'p daemon_ipc \<Rightarrow> string \<Rightarrow> string \<Rightarrow> string \<Rightarrow> string list \<Rightarrow> bool \<Rightarrow> reply \<Rightarrow> adapter \<Rightarrow>
    reply option \<times> adapter" where
  "Sda_FormatPartition env d devPath fsType volumeName cmd quickFormat out =
     with_daemon env out
       (\<lambda>err. FinishDaemonOp env ''StorageDaemonAdapter::FormatPartition'' 49 8 err (WithFsType fsType (dev_info devPath)))
       (\<lambda>obj. SdProxy_FormatPartition d obj devPath fsType volumeName cmd quickFormat)"

definition Sda_Erase :: "adapter_env \<Rightarrow> 'p daemon_ipc \<Rightarrow> string \<Rightarrow> reply \<Rightarrow> adapter \<Rightarrow> reply option \<times> adapter" where
  "Sda_Erase env d devPath out =
     with_daemon env out (\<lambda>err. FinishDaemonOp env ''StorageDaemonAdapter::Erase'' 60 20 err (dev_info devPath))
       (\<lambda>obj. SdProxy_Erase d obj devPath)"

definition Sda_Eject :: "adapter_env \<Rightarrow> 'p daemon_ipc \<Rightarrow> string \<Rightarrow> reply \<Rightarrow> adapter \<Rightarrow> reply option \<times> adapter" where
  "Sda_Eject env d devName out =
     with_daemon env out (\<lambda>err. FinishDaemonOp env ''StorageDaemonAdapter::Eject'' 61 21 err (dev_info devName))
       (\<lambda>obj. SdProxy_Eject d obj devName)"

definition Sda_CreateIsoImage :: "adapter_env \<Rightarrow> 'p daemon_ipc \<Rightarrow> string \<Rightarrow> string \<Rightarrow> string \<Rightarrow> string \<Rightarrow> reply \<Rightarrow> adapter \<Rightarrow>
    reply option \<times> adapter" where
  "Sda_CreateIsoImage env d devPath filePath fsType mountPath out =
     with_daemon env out
       (\<lambda>err. FinishDaemonOp env ''StorageDaemonAdapter::CreateIsoImage'' 63 23 err (WithFsType fsType (dev_info devPath)))
       (\<lambda>obj. SdProxy_CreateIsoImage d obj devPath filePath fsType mountPath)"

definition Sda_Burn :: "adapter_env \<Rightarrow> 'p daemon_ipc \<Rightarrow> string \<Rightarrow> string \<Rightarrow> string \<Rightarrow> reply \<Rightarrow> adapter \<Rightarrow> reply option \<times> adapter" where
  "Sda_Burn env d devPath burnOptions fsType out =
     with_daemon env out
       (\<lambda>err. FinishDaemonOp env ''StorageDaemonAdapter::Burn'' 62 22 err (WithFsType fsType (dev_info devPath)))
       (\<lambda>obj. SdProxy_Burn d obj devPath burnOptions fsType)"

definition Sda_GetVolumeOpProcess :: "adapter_env \<Rightarrow> 'p daemon_ipc \<Rightarrow> string \<Rightarrow> reply \<Rightarrow> adapter \<Rightarrow> reply option \<times> adapter" where
  "Sda_GetVolumeOpProcess env d volumeId out =
     with_daemon env out no_report (\<lambda>obj. SdProxy_GetVolumeOpProcess d obj volumeId)"

definition Sda_GetDiskSize :: "adapter_env \<Rightarrow> 'p daemon_ipc \<Rightarrow> string \<Rightarrow> reply \<Rightarrow> adapter \<Rightarrow> reply option \<times> adapter" where
  "Sda_GetDiskSize env d devName out = with_daemon env out no_report (\<lambda>obj. SdProxy_GetDiskSize d obj devName)"

definition command_result :: "reply \<Rightarrow> reply" where
  "command_result r = (if rp_err r \<noteq> E_OK then r\<lparr>rp_err := DISK_MGR_ERR\<rparr>
     else if rp_int 0 0 r \<noteq> E_OK then r\<lparr>rp_err := DISK_MGR_ERR\<rparr> else r)"

definition Sda_ExecuteCommand :: "adapter_env \<Rightarrow> 'p daemon_ipc \<Rightarrow> string list \<Rightarrow> reply \<Rightarrow> adapter \<Rightarrow> reply option \<times> adapter" where
  "Sda_ExecuteCommand env d cmd out =
     with_daemon env out no_report
       (\<lambda>obj. map_option command_result (SdProxy_ExecuteCommand d obj cmd (rp_int 0 0 out) (rp_strs out)))"

definition Sda_CreateDmLinear :: "adapter_env \<Rightarrow> 'p daemon_ipc \<Rightarrow> string \<Rightarrow> int \<Rightarrow> int \<Rightarrow> reply \<Rightarrow> adapter \<Rightarrow> reply option \<times> adapter" where
  "Sda_CreateDmLinear env d sourceDevPath startSector sectorCount out =
     with_daemon env out no_report (\<lambda>obj. SdProxy_CreateDmLinear d obj sourceDevPath startSector sectorCount)"

text \<open>The calls of the operations, as methods of the adapter.\<close>

definition sd_invoke :: "adapter_env \<Rightarrow> 'p daemon_ipc \<Rightarrow> call \<Rightarrow> reply \<Rightarrow> adapter \<Rightarrow> reply option \<times> adapter" where
  "sd_invoke env d c = (case c of
     Sd_QueryUsbIsInUse p \<Rightarrow> Sda_QueryUsbIsInUse env d p
   | Sd_CreateBlockDeviceNode p m a i \<Rightarrow> Sda_CreateBlockDeviceNode env d p m a i
   | Sd_DestroyBlockDeviceNode p \<Rightarrow> Sda_DestroyBlockDeviceNode env d p
   | Sd_ReadPartitionTable p \<Rightarrow> Sda_ReadPartitionTable env d p
   | Sd_QueryCDStatus p \<Rightarrow> Sda_QueryCDStatus env d p
   | Sd_Mount p m t f x \<Rightarrow> Sda_Mount env d p m t f x
   | Sd_Unmount m t f \<Rightarrow> Sda_Unmount env d m t f
   | Sd_FormatVolume p t k pt n \<Rightarrow> Sda_FormatVolume env d p t k pt n
   | Sd_Check p t \<Rightarrow> Sda_Check env d p t
   | Sd_Repair p t \<Rightarrow> Sda_Repair env d p t
   | Sd_SetLabel p t l \<Rightarrow> Sda_SetLabel env d p t l
   | Sd_ReadMetadata p \<Rightarrow> Sda_ReadMetadata env d p
   | Sd_GetCapacity p \<Rightarrow> Sda_GetCapacity env d p
   | Sd_MountFuseDevice m \<Rightarrow> Sda_MountFuseDevice env d m
   | Sd_Partition p t \<Rightarrow> Sda_Partition env d p t
   | Sd_GetBlockInfoByType t k \<Rightarrow> Sda_GetBlockInfoByType env d t k
   | Sd_GetPartitionTableInfo p \<Rightarrow> Sda_GetPartitionTableInfo env d p
   | Sd_CreatePartition p n a e t \<Rightarrow> Sda_CreatePartition env d p n a e t
   | Sd_DeletePartition p k n \<Rightarrow> Sda_DeletePartition env d p k n
   | Sd_FormatPartition p t v cmd q \<Rightarrow> Sda_FormatPartition env d p t v cmd q
   | Sd_Erase p \<Rightarrow> Sda_Erase env d p
   | Sd_Eject p \<Rightarrow> Sda_Eject env d p
   | Sd_CreateIsoImage p f t m \<Rightarrow> Sda_CreateIsoImage env d p f t m
   | Sd_Burn p b t \<Rightarrow> Sda_Burn env d p b t
   | Sd_GetVolumeOpProcess k \<Rightarrow> Sda_GetVolumeOpProcess env d k
   | Sd_ExecuteCommand cmd \<Rightarrow> Sda_ExecuteCommand env d cmd
   | Sd_GetDiskSize p \<Rightarrow> Sda_GetDiskSize env d p
   | Sd_CreateDmLinear p a n \<Rightarrow> Sda_CreateDmLinear env d p a n
   | _ \<Rightarrow> (\<lambda>out s. (Some out, s)))"

definition is_sd :: "call \<Rightarrow> bool" where
  "is_sd c = (case c of
     Sd_QueryUsbIsInUse _ \<Rightarrow> True | Sd_CreateBlockDeviceNode _ _ _ _ \<Rightarrow> True | Sd_DestroyBlockDeviceNode _ \<Rightarrow> True
   | Sd_ReadPartitionTable _ \<Rightarrow> True | Sd_QueryCDStatus _ \<Rightarrow> True | Sd_Mount _ _ _ _ _ \<Rightarrow> True | Sd_Unmount _ _ _ \<Rightarrow> True
   | Sd_FormatVolume _ _ _ _ _ \<Rightarrow> True | Sd_Check _ _ \<Rightarrow> True | Sd_Repair _ _ \<Rightarrow> True | Sd_SetLabel _ _ _ \<Rightarrow> True
   | Sd_ReadMetadata _ \<Rightarrow> True | Sd_GetCapacity _ \<Rightarrow> True | Sd_MountFuseDevice _ \<Rightarrow> True | Sd_Partition _ _ \<Rightarrow> True
   | Sd_GetBlockInfoByType _ _ \<Rightarrow> True | Sd_GetPartitionTableInfo _ \<Rightarrow> True | Sd_CreatePartition _ _ _ _ _ \<Rightarrow> True
   | Sd_DeletePartition _ _ _ \<Rightarrow> True | Sd_FormatPartition _ _ _ _ _ \<Rightarrow> True | Sd_Erase _ \<Rightarrow> True | Sd_Eject _ \<Rightarrow> True
   | Sd_CreateIsoImage _ _ _ _ \<Rightarrow> True | Sd_Burn _ _ _ \<Rightarrow> True | Sd_GetVolumeOpProcess _ \<Rightarrow> True | Sd_ExecuteCommand _ \<Rightarrow> True
   | Sd_GetDiskSize _ \<Rightarrow> True | Sd_CreateDmLinear _ _ _ \<Rightarrow> True | _ \<Rightarrow> False)"

section \<open>Specification\<close>

text \<open>The message of a call: its code and what is in the parcel behind the interface token.\<close>

definition request_cells :: "(string \<Rightarrow> 16 word list) \<Rightarrow> call \<Rightarrow> (IStorageDaemonIpcCode \<times> cell list) option" where
  "request_cells u c = (case c of
     Sd_QueryUsbIsInUse p \<Rightarrow> Some (COMMAND_QUERY_USB_IS_IN_USE, [CString16 (u p)])
   | Sd_CreateBlockDeviceNode p m a i \<Rightarrow> Some (ADDON_CREATE_BLOCK_DEVICE_NODE, [CString16 (u p), CUint32 (nat m), CInt32 a, CInt32 i])
   | Sd_DestroyBlockDeviceNode p \<Rightarrow> Some (ADDON_DESTROY_BLOCK_DEVICE_NODE, [CString16 (u p)])
   | Sd_ReadPartitionTable p \<Rightarrow> Some (ADDON_READ_PARTITION_TABLE, [CString16 (u p)])
   | Sd_QueryCDStatus p \<Rightarrow> Some (ADDON_GET_CD_STATUS, [CString16 (u p)])
   | Sd_Mount p m t f x \<Rightarrow> Some (ADDON_MOUNT, [CString16 (u p), CString16 (u m), CString16 (u t), CUint64 (uint f), CString16 (u x)])
   | Sd_Unmount m t f \<Rightarrow> Some (ADDON_UNMOUNT, [CString16 (u m), CString16 (u t), CBool f])
   | Sd_FormatVolume p t k pt n \<Rightarrow> Some (ADDON_FORMAT_VOLUME, [CString16 (u p), CString16 (u t), CString16 (u k), CString16 (u pt), CInt32 n])
   | Sd_Check p t \<Rightarrow> Some (ADDON_CHECK, [CString16 (u p), CString16 (u t)])
   | Sd_Repair p t \<Rightarrow> Some (ADDON_REPAIR, [CString16 (u p), CString16 (u t)])
   | Sd_SetLabel p t l \<Rightarrow> Some (ADDON_SET_LABEL, [CString16 (u p), CString16 (u t), CString16 (u l)])
   | Sd_ReadMetadata p \<Rightarrow> Some (ADDON_READ_METADATA, [CString16 (u p)])
   | Sd_GetCapacity p \<Rightarrow> Some (ADDON_GET_CAPACITY, [CString16 (u p)])
   | Sd_MountFuseDevice m \<Rightarrow> Some (ADDON_MOUNT_FUSE_DEVICE, [CString16 (u m)])
   | Sd_Partition p t \<Rightarrow> Some (ADDON_PARTITION, [CString16 (u p), CString16 (u t)])
   | Sd_GetBlockInfoByType t k \<Rightarrow> Some (ADDON_GET_BLOCK_INFO_BY_TYPE, [CString16 (u t), CString16 (u k)])
   | Sd_GetPartitionTableInfo p \<Rightarrow> Some (ADDON_GET_PARTITION_TABLE_INFO, [CString16 (u p)])
   | Sd_CreatePartition p n a e t \<Rightarrow> Some (ADDON_CREATE_PARTITION, [CString16 (u p), CInt32 n, CInt64 a, CInt64 e, CString16 (u t)])
   | Sd_DeletePartition p k n \<Rightarrow> Some (ADDON_DELETE_PARTITION, [CString16 (u p), CString16 (u k), CInt32 n])
   | Sd_FormatPartition p t v cmd q \<Rightarrow> Some (ADDON_FORMAT_PARTITION,
       [CString16 (u p), CString16 (u t), CString16 (u v), CInt32 (size32 cmd)] @ map (\<lambda>x. CString16 (u x)) cmd @ [CBool q])
   | Sd_Erase p \<Rightarrow> Some (ADDON_ERASE, [CString16 (u p)])
   | Sd_Eject p \<Rightarrow> Some (ADDON_EJECT, [CString16 (u p)])
   | Sd_CreateIsoImage p f t m \<Rightarrow> Some (ADDON_CREATE_ISO_IMAGE, [CString16 (u p), CString16 (u f), CString16 (u t), CString16 (u m)])
   | Sd_Burn p b t \<Rightarrow> Some (ADDON_BURN, [CString16 (u p), CString16 (u b), CString16 (u t)])
   | Sd_GetVolumeOpProcess k \<Rightarrow> Some (ADDON_GET_VOLUME_OP_PROCESS, [CString16 (u k)])
   | Sd_ExecuteCommand cmd \<Rightarrow> Some (ADDON_EXECUTE_COMMAND, CInt32 (size32 cmd) # map (\<lambda>x. CString16 (u x)) cmd)
   | Sd_GetDiskSize p \<Rightarrow> Some (ADDON_GET_DISK_SIZE, [CString16 (u p)])
   | Sd_CreateDmLinear p a n \<Rightarrow> Some (ADDON_CREATE_DM_LINEAR, [CString16 (u p), CUint64 a, CUint64 n])
   | _ \<Rightarrow> None)"

text \<open>The answer of a daemon that returns \<open>r\<close>, and what the caller of the adapter gets of it.\<close>

definition out_cells :: "(string \<Rightarrow> 16 word list) \<Rightarrow> call \<Rightarrow> reply \<Rightarrow> cell list" where
  "out_cells u c r = (case c of
     Sd_QueryUsbIsInUse _ \<Rightarrow> [CBool (rp_flag r)]
   | Sd_ReadPartitionTable _ \<Rightarrow> [CString16 (u (rp_str 0 r)), CInt32 (rp_int 0 0 r)]
   | Sd_QueryCDStatus _ \<Rightarrow> [CInt32 (rp_int 0 0 r)]
   | Sd_ReadMetadata _ \<Rightarrow> [CString16 (u (rp_str 0 r)), CString16 (u (rp_str 1 r)), CString16 (u (rp_str 2 r))]
   | Sd_GetCapacity _ \<Rightarrow> [CInt64 (rp_int 0 0 r), CInt64 (rp_int 1 0 r)]
   | Sd_MountFuseDevice _ \<Rightarrow> [CFd (rp_int 0 (- 1) r)]
   | Sd_GetBlockInfoByType _ _ \<Rightarrow> [CString16 (u (rp_str 0 r))]
   | Sd_GetPartitionTableInfo _ \<Rightarrow> [CString16 (u (rp_str 0 r))]
   | Sd_GetVolumeOpProcess _ \<Rightarrow> [CInt32 (rp_int 0 0 r)]
   | Sd_ExecuteCommand _ \<Rightarrow> [CInt32 (rp_int 0 0 r), CInt32 (int (length (rp_strs r)))] @ map (\<lambda>s. CString16 (u s)) (rp_strs r)
   | Sd_GetDiskSize _ \<Rightarrow> [CUint64 (rp_int 0 0 r)]
   | Sd_CreateDmLinear _ _ _ \<Rightarrow> [CUint64 (rp_int 0 0 r)]
   | _ \<Rightarrow> [])"

definition reply_cells :: "(string \<Rightarrow> 16 word list) \<Rightarrow> call \<Rightarrow> reply \<Rightarrow> cell list" where
  "reply_cells u c r = CInt32 (rp_err r) # (if rp_err r \<noteq> 0 then [] else out_cells u c r)"

definition cleared :: "call \<Rightarrow> reply \<Rightarrow> reply" where
  "cleared c out = (case c of
     Sd_QueryUsbIsInUse _ \<Rightarrow> outputs [] [] (rp_flag out)
   | Sd_ReadPartitionTable _ \<Rightarrow> outputs [[]] [0] False
   | Sd_QueryCDStatus _ \<Rightarrow> outputs [] [0] False
   | Sd_ReadMetadata _ \<Rightarrow> outputs [[], [], []] [] False
   | Sd_GetCapacity _ \<Rightarrow> outputs [] [0, 0] False
   | Sd_MountFuseDevice _ \<Rightarrow> outputs [] [- 1] False
   | Sd_GetBlockInfoByType _ _ \<Rightarrow> outputs [[]] [] False
   | Sd_GetPartitionTableInfo _ \<Rightarrow> outputs [rp_str 0 out] [] False
   | Sd_GetVolumeOpProcess _ \<Rightarrow> outputs [] [0] False
   | Sd_ExecuteCommand _ \<Rightarrow> outputs (rp_strs out) [rp_int 0 0 out] False
   | Sd_GetDiskSize _ \<Rightarrow> outputs [] [0] False
   | Sd_CreateDmLinear _ _ _ \<Rightarrow> outputs [] [0] False
   | _ \<Rightarrow> outputs [] [] False)"

definition failed :: "call \<Rightarrow> reply \<Rightarrow> int \<Rightarrow> reply" where
  "failed c out e = (cleared c out)\<lparr>rp_err := (case c of Sd_ExecuteCommand _ \<Rightarrow> DISK_MGR_ERR | _ \<Rightarrow> e)\<rparr>"

definition delivered :: "call \<Rightarrow> reply \<Rightarrow> reply \<Rightarrow> reply" where
  "delivered c out r = (if rp_err r \<noteq> 0 then failed c out (rp_err r) else (case c of
     Sd_QueryUsbIsInUse _ \<Rightarrow> outputs [] [] (rp_flag r)
   | Sd_ReadPartitionTable _ \<Rightarrow> outputs [rp_str 0 r] [rp_int 0 0 r] False
   | Sd_QueryCDStatus _ \<Rightarrow> outputs [] [rp_int 0 0 r] False
   | Sd_ReadMetadata _ \<Rightarrow> outputs [rp_str 0 r, rp_str 1 r, rp_str 2 r] [] False
   | Sd_GetCapacity _ \<Rightarrow> outputs [] [rp_int 0 0 r, rp_int 1 0 r] False
   | Sd_MountFuseDevice _ \<Rightarrow> outputs [] [rp_int 0 (- 1) r] False
   | Sd_GetBlockInfoByType _ _ \<Rightarrow> outputs [rp_str 0 r] [] False
   | Sd_GetPartitionTableInfo _ \<Rightarrow> outputs [rp_str 0 r] [] False
   | Sd_GetVolumeOpProcess _ \<Rightarrow> outputs [] [rp_int 0 0 r] False
   | Sd_ExecuteCommand _ \<Rightarrow> command_result (outputs (rp_strs r) [rp_int 0 0 r] False)
   | Sd_GetDiskSize _ \<Rightarrow> outputs [] [rp_int 0 0 r] False
   | Sd_CreateDmLinear _ _ _ \<Rightarrow> outputs [] [rp_int 0 0 r] False
   | _ \<Rightarrow> outputs [] [] False))"

text \<open>The call the daemon sees: on a car the mount flags are extended.\<close>

definition daemon_view :: "bool \<Rightarrow> call \<Rightarrow> call" where
  "daemon_view cdc c = (case c of Sd_Mount p m t f x \<Rightarrow> Sd_Mount p m t (cdc_flags cdc f) x | _ \<Rightarrow> c)"

text \<open>The documented behaviour of the parcel, a parcel that has room for everything, and a daemon that implements \<open>srv\<close>.\<close>

definition ipc_laws :: "'p daemon_ipc \<Rightarrow> ('p \<Rightarrow> cell list) \<Rightarrow> bool" where
  "ipc_laws d cells \<longleftrightarrow> parcel_fifo (di_ops d) cells \<and> cells (di_new d) = [] \<and>
     (\<forall>t. writes cells (WriteInterfaceToken d t) [CToken t]) \<and>
     (\<forall>s. writes cells (WriteString16 d s) [CString16 s] \<and> reads cells (ReadString16 d) (CString16 s) s) \<and>
     (\<forall>i. reads cells (ReadFileDescriptor d) (CFd i) i) \<and>
     (\<forall>i. reads cells (TryReadInt32 d) (CInt32 i) (Some i) \<and> reads cells (TryReadInt64 d) (CInt64 i) (Some i) \<and>
          reads cells (TryReadUint64 d) (CUint64 i) (Some i))"

definition roomy :: "'p daemon_ipc \<Rightarrow> bool" where
  "roomy d \<longleftrightarrow> (\<forall>p. (\<forall>t. fst (WriteInterfaceToken d t p)) \<and> (\<forall>s. fst (WriteString16 d s p)) \<and> (\<forall>i. fst (WriteInt32 (di_ops d) i p)) \<and>
     (\<forall>i. fst (WriteInt64 (di_ops d) i p)) \<and> (\<forall>n. fst (WriteUint32 (di_ops d) n p)) \<and> (\<forall>i. fst (WriteUint64 (di_ops d) i p)) \<and>
     (\<forall>b. fst (WriteBool (di_ops d) b p)))"

definition daemon_serves :: "'p daemon_ipc \<Rightarrow> ('p \<Rightarrow> cell list) \<Rightarrow> (call \<Rightarrow> reply) \<Rightarrow> bool" where
  "daemon_serves d cells srv \<longleftrightarrow> (\<forall>obj c k cs q. request_cells (Str8ToStr16 d) c = Some (k, cs) \<longrightarrow> cells q = CToken SD_DESCRIPTOR # cs \<longrightarrow>
     (\<exists>reply. SendRequest d obj (ipc_code k) q = (0, reply) \<and> cells reply = reply_cells (Str8ToStr16 d) c (srv c)))"

text \<open>The strings of the reply survive the conversion to UTF-16, a file descriptor is one.\<close>

definition reply_ok :: "'p daemon_ipc \<Rightarrow> call \<Rightarrow> reply \<Rightarrow> bool" where
  "reply_ok d c r \<longleftrightarrow> (\<forall>s \<in> insert [] (set (rp_strs r)). Str16ToStr8 d (Str8ToStr16 d s) = s) \<and>
     (case c of Sd_MountFuseDevice _ \<Rightarrow> 0 \<le> rp_int 0 (- 1) r | _ \<Rightarrow> True)"

section \<open>Messages\<close>

lemma code_inj: "ipc_code a = ipc_code b \<longleftrightarrow> a = b"
  by (cases a; cases b) simp_all

lemma ipc_lawsD:
  assumes "ipc_laws d cells"
  shows "parcel_fifo (di_ops d) cells" "cells (di_new d) = []" "writes cells (WriteInterfaceToken d t) [CToken t]"
    "writes cells (wr16 d x) [CString16 (Str8ToStr16 d x)]" "reads cells (ReadString16 d) (CString16 s) s"
    "reads cells (ReadFileDescriptor d) (CFd i) i" "reads cells (TryReadInt32 d) (CInt32 i) (Some i)"
    "reads cells (TryReadInt64 d) (CInt64 i) (Some i)" "reads cells (TryReadUint64 d) (CUint64 i) (Some i)"
  using assms unfolding ipc_laws_def wr16_def by blast+

definition succeeds :: "('p \<Rightarrow> bool \<times> 'p) list \<Rightarrow> bool" where
  "succeeds ws \<longleftrightarrow> (\<forall>w \<in> set ws. \<forall>p. fst (w p))"

lemma succeeds_all: "succeeds ws \<Longrightarrow> fst (write_all ws p)"
proof (induction ws arbitrary: p)
  case (Cons w ws)
  obtain q where "w p = (True, q)" using Cons.prems unfolding succeeds_def by (metis (full_types) list.set_intros(1) prod.collapse)
  then show ?case using Cons by (simp add: write_all.simps succeeds_def)
qed (simp add: write_all.simps)

lemma roomy_succeeds:
  assumes "roomy d"
  shows "succeeds []" "succeeds ws \<Longrightarrow> succeeds (wr16 d s # ws)" "succeeds ws \<Longrightarrow> succeeds (WriteInt32 (di_ops d) i # ws)"
    "succeeds ws \<Longrightarrow> succeeds (WriteInt64 (di_ops d) i # ws)" "succeeds ws \<Longrightarrow> succeeds (WriteUint32 (di_ops d) n # ws)"
    "succeeds ws \<Longrightarrow> succeeds (WriteUint64 (di_ops d) i # ws)" "succeeds ws \<Longrightarrow> succeeds (WriteBool (di_ops d) b # ws)"
    "succeeds ws \<Longrightarrow> succeeds (map (wr16 d) ss @ ws)"
  using assms by (auto simp: succeeds_def roomy_def wr16_def)

lemma transact_sent:
  assumes laws: "ipc_laws d cells" and room: "roomy d" and ws: "writes cells (write_all ws) cs" "succeeds ws"
  shows "\<exists>q. cells q = CToken SD_DESCRIPTOR # cs \<and>
    (\<forall>out answer. sd_transact d obj k ws out answer =
      (case SendRequest d obj (ipc_code k) q of (rc, reply) \<Rightarrow> if rc \<noteq> 0 then sd_fail out rc else answer reply))"
proof -
  obtain p where p: "WriteInterfaceToken d SD_DESCRIPTOR (di_new d) = (True, p)"
    using room unfolding roomy_def by (metis (full_types) prod.collapse)
  obtain q where q: "write_all ws p = (True, q)" using succeeds_all[OF ws(2)] by (metis (full_types) prod.collapse)
  have "cells q = CToken SD_DESCRIPTOR # cs"
    using ipc_lawsD(2,3)[OF laws] p q ws(1) unfolding writes_def by fastforce
  with p q show ?thesis by (intro exI[of _ q]) (simp add: sd_transact_def)
qed

text \<open>A reader that turns this content of the reply into this result.\<close>

definition answers :: "('p \<Rightarrow> cell list) \<Rightarrow> ('p \<Rightarrow> 'b) \<Rightarrow> cell list \<Rightarrow> 'b \<Rightarrow> bool" where
  "answers cells k cs y \<longleftrightarrow> (\<forall>p. cells p = cs \<longrightarrow> k p = y)"

lemma answers_get: "reads cells r c x \<Longrightarrow> answers cells (k x) cs y \<Longrightarrow> answers cells (get r k) (c # cs) y"
  unfolding answers_def reads_def get_def by (metis (no_types, lifting) case_prod_beta)

lemma answers_const: "answers cells (\<lambda>p. y) cs y"
  by (simp add: answers_def)

lemma answers_laws:
  assumes "ipc_laws d cells"
  shows "answers cells (ki i) cs y \<Longrightarrow> answers cells (get (ReadInt32 (di_ops d)) ki) (CInt32 i # cs) y"
    "answers cells (kb b) cs y \<Longrightarrow> answers cells (get (ReadBool (di_ops d)) kb) (CBool b # cs) y"
    "Str16ToStr8 d (Str8ToStr16 d s) = s \<Longrightarrow> answers cells (ks s) cs y \<Longrightarrow> answers cells (get (rd16 d) ks) (CString16 (Str8ToStr16 d s) # cs) y"
    "answers cells (ki i) cs y \<Longrightarrow> answers cells (get (ReadFileDescriptor d) ki) (CFd i # cs) y"
    "answers cells (ko (Some i)) cs y \<Longrightarrow> answers cells (get (TryReadInt32 d) ko) (CInt32 i # cs) y"
    "answers cells (ko (Some i)) cs y \<Longrightarrow> answers cells (get (TryReadInt64 d) ko) (CInt64 i # cs) y"
    "answers cells (ko (Some i)) cs y \<Longrightarrow> answers cells (get (TryReadUint64 d) ko) (CUint64 i # cs) y"
proof -
  note l = ipc_lawsD[OF assms]
  show "Str16ToStr8 d (Str8ToStr16 d s) = s \<Longrightarrow> answers cells (ks s) cs y \<Longrightarrow> answers cells (get (rd16 d) ks) (CString16 (Str8ToStr16 d s) # cs) y"
    using l(5)[of "Str8ToStr16 d s"] by (intro answers_get) (auto simp: reads_def rd16_def case_prod_beta)
qed (use ipc_lawsD[OF assms] in \<open>auto intro!: answers_get simp: parcel_fifo_def\<close>)

lemma answers_strings:
  assumes laws: "ipc_laws d cells" and "\<forall>s \<in> set ss. Str16ToStr8 d (Str8ToStr16 d s) = s" and "answers cells (k (rev acc @ ss)) cs y"
  shows "answers cells (get_strings d (length ss) acc k) (map (\<lambda>s. CString16 (Str8ToStr16 d s)) ss @ cs) y"
  using assms(2,3)
proof (induction ss arbitrary: acc)
  case (Cons s ss)
  then show ?case by (simp add: answers_laws(3)[OF laws])
qed simp

text \<open>The writers of the arguments, with what they put into the message.\<close>

lemma writes_laws:
  assumes laws: "ipc_laws d cells"
  shows "writes cells (write_all []) []"
    "writes cells (write_all ws) cs \<Longrightarrow> writes cells (write_all (wr16 d s # ws)) (CString16 (Str8ToStr16 d s) # cs)"
    "writes cells (write_all ws) cs \<Longrightarrow> writes cells (write_all (WriteInt32 (di_ops d) i # ws)) (CInt32 i # cs)"
    "writes cells (write_all ws) cs \<Longrightarrow> writes cells (write_all (WriteInt64 (di_ops d) i # ws)) (CInt64 i # cs)"
    "writes cells (write_all ws) cs \<Longrightarrow> writes cells (write_all (WriteUint32 (di_ops d) n # ws)) (CUint32 n # cs)"
    "writes cells (write_all ws) cs \<Longrightarrow> writes cells (write_all (WriteUint64 (di_ops d) i # ws)) (CUint64 i # cs)"
    "writes cells (write_all ws) cs \<Longrightarrow> writes cells (write_all (WriteBool (di_ops d) b # ws)) (CBool b # cs)"
  using writes_chain[OF ipc_lawsD(4)[OF laws, of s]] fifo_writes_chain[OF ipc_lawsD(1)[OF laws]] writes_chain_Nil by fastforce+

lemma writes_strings:
  assumes "ipc_laws d cells" "writes cells (write_all ws) cs"
  shows "writes cells (write_all (map (wr16 d) ss @ ws)) (map (\<lambda>s. CString16 (Str8ToStr16 d s)) ss @ cs)"
  using assms by (induction ss) (auto intro: writes_laws)

text \<open>The answers of a proxy method to the reply of a daemon that returned \<open>r\<close>.\<close>

lemma answers_status:
  assumes "ipc_laws d cells" "out_cells u c r = []"
  shows "answers cells (answer_status d) (reply_cells u c r) (Some (outputs [] [] False\<lparr>rp_err := rp_err r\<rparr>))"
  unfolding answer_status_def reply_cells_def sd_fail_def by (rule answers_laws(1)[OF assms(1)], rule answers_const)

lemma answers_with:
  assumes "ipc_laws d cells" "rp_err r = 0 \<Longrightarrow> answers cells k (out_cells u c r) y"
    "rp_err r \<noteq> 0 \<Longrightarrow> y = Some (out\<lparr>rp_err := rp_err r\<rparr>)"
  shows "answers cells (answer_with d out k) (reply_cells u c r) y"
  unfolding answer_with_def reply_cells_def
proof (rule answers_laws(1)[OF assms(1)], cases "rp_err r = 0")
  case True
  then show "answers cells (\<lambda>reply. if rp_err r \<noteq> 0 then sd_fail out (rp_err r) else k reply)
      (if rp_err r \<noteq> 0 then [] else out_cells u c r) y" using assms(2) by simp
next
  case False
  then show "answers cells (\<lambda>reply. if rp_err r \<noteq> 0 then sd_fail out (rp_err r) else k reply)
      (if rp_err r \<noteq> 0 then [] else out_cells u c r) y" using assms(3) by (simp add: sd_fail_def answers_const)
qed

lemma transact_served:
  assumes "ipc_laws d cells" "roomy d" "daemon_serves d cells srv" "request_cells (Str8ToStr16 d) c = Some (k, cs)"
    "writes cells (write_all ws) cs" "succeeds ws" "answers cells answer (reply_cells (Str8ToStr16 d) c (srv c)) y"
  shows "sd_transact d obj k ws out answer = y"
proof -
  obtain q where q: "cells q = CToken SD_DESCRIPTOR # cs" and
    t: "\<forall>out answer. sd_transact d obj k ws out answer =
      (case SendRequest d obj (ipc_code k) q of (rc, reply) \<Rightarrow> if rc \<noteq> 0 then sd_fail out rc else answer reply)"
    using transact_sent[OF assms(1,2,5,6), of obj k] by blast
  obtain reply where r: "SendRequest d obj (ipc_code k) q = (0, reply)" "cells reply = reply_cells (Str8ToStr16 d) c (srv c)"
    using assms(3)[unfolded daemon_serves_def, rule_format, OF assms(4) q, of obj] by blast
  have "answer reply = y" using assms(7)[unfolded answers_def, rule_format, OF r(2)] .
  then show ?thesis using r(1) by (simp add: t)
qed

text \<open>A connected adapter whose connection nobody disturbs hands the call to the proxy.\<close>

lemma with_daemon_connected:
  assumes "ad_storageDaemon s = Some obj" "ae_between env = id"
  shows "with_daemon env out report call s = (call obj, s)"
  using assms by (simp add: with_daemon_def EnsureProxyReady_def Connect_def)

lemmas Sda_defs = Sda_QueryUsbIsInUse_def Sda_CreateBlockDeviceNode_def Sda_DestroyBlockDeviceNode_def Sda_ReadPartitionTable_def
  Sda_QueryCDStatus_def Sda_Mount_def Sda_Unmount_def Sda_FormatVolume_def Sda_Check_def Sda_Repair_def Sda_SetLabel_def
  Sda_ReadMetadata_def Sda_GetCapacity_def Sda_MountFuseDevice_def Sda_Partition_def Sda_GetBlockInfoByType_def
  Sda_GetPartitionTableInfo_def Sda_CreatePartition_def Sda_DeletePartition_def Sda_FormatPartition_def Sda_Erase_def Sda_Eject_def
  Sda_CreateIsoImage_def Sda_Burn_def Sda_GetVolumeOpProcess_def Sda_ExecuteCommand_def Sda_GetDiskSize_def Sda_CreateDmLinear_def

lemmas SdProxy_defs = SdProxy_QueryUsbIsInUse_def SdProxy_CreateBlockDeviceNode_def SdProxy_DestroyBlockDeviceNode_def
  SdProxy_ReadPartitionTable_def SdProxy_QueryCDStatus_def SdProxy_Mount_def SdProxy_Unmount_def SdProxy_FormatVolume_def
  SdProxy_Check_def SdProxy_Repair_def SdProxy_SetLabel_def SdProxy_ReadMetadata_def SdProxy_GetCapacity_def
  SdProxy_MountFuseDevice_def SdProxy_Partition_def SdProxy_GetBlockInfoByType_def SdProxy_GetPartitionTableInfo_def
  SdProxy_CreatePartition_def SdProxy_DeletePartitionInfo_def SdProxy_FormatPartition_def SdProxy_Erase_def SdProxy_Eject_def
  SdProxy_CreateIsoImage_def SdProxy_Burn_def SdProxy_GetVolumeOpProcess_def SdProxy_ExecuteCommand_def SdProxy_GetDiskSize_def
  SdProxy_CreateDmLinear_def

lemma reply_ok_str: "reply_ok d c r \<Longrightarrow> Str16ToStr8 d (Str8ToStr16 d (rp_str i r)) = rp_str i r"
  by (auto simp: reply_ok_def rp_str_def)

text \<open>The four shapes of an answer the proxy reads.\<close>

lemma daemon_step_status:
  assumes "ipc_laws d cells" "roomy d" "daemon_serves d cells srv" "request_cells (Str8ToStr16 d) c = Some (k, cs)"
    "writes cells (write_all ws) cs" "succeeds ws" "\<And>u r. out_cells u c r = []"
  shows "sd_transact d obj k ws out (answer_status d) = Some (outputs [] [] False\<lparr>rp_err := rp_err (srv c)\<rparr>)"
  using transact_served[OF assms(1-6) answers_status[OF assms(1,7)]] .

lemma daemon_step_with:
  assumes "ipc_laws d cells" "roomy d" "daemon_serves d cells srv" "request_cells (Str8ToStr16 d) c = Some (k, cs)"
    "writes cells (write_all ws) cs" "succeeds ws"
    "rp_err (srv c) = 0 \<Longrightarrow> answers cells rest (out_cells (Str8ToStr16 d) c (srv c)) y"
    "rp_err (srv c) \<noteq> 0 \<Longrightarrow> y = Some (out\<lparr>rp_err := rp_err (srv c)\<rparr>)"
  shows "sd_transact d obj k ws out (answer_with d out rest) = y"
  using transact_served[OF assms(1-6) answers_with[OF assms(1,7,8)]] .

lemma daemon_statuses:
  assumes laws: "ipc_laws d cells" and room: "roomy d" and serves: "daemon_serves d cells srv"
  shows
    "SdProxy_CreateBlockDeviceNode d obj p mode a i = Some (outputs [] [] False\<lparr>rp_err := rp_err (srv (Sd_CreateBlockDeviceNode p mode a i))\<rparr>)"
    "SdProxy_DestroyBlockDeviceNode d obj p = Some (outputs [] [] False\<lparr>rp_err := rp_err (srv (Sd_DestroyBlockDeviceNode p))\<rparr>)"
    "SdProxy_Mount d obj p m t f x = Some (outputs [] [] False\<lparr>rp_err := rp_err (srv (Sd_Mount p m t f x))\<rparr>)"
    "SdProxy_Unmount d obj m t q = Some (outputs [] [] False\<lparr>rp_err := rp_err (srv (Sd_Unmount m t q))\<rparr>)"
    "SdProxy_FormatVolume d obj p t k pt n = Some (outputs [] [] False\<lparr>rp_err := rp_err (srv (Sd_FormatVolume p t k pt n))\<rparr>)"
    "SdProxy_Check d obj p t = Some (outputs [] [] False\<lparr>rp_err := rp_err (srv (Sd_Check p t))\<rparr>)"
    "SdProxy_Repair d obj p t = Some (outputs [] [] False\<lparr>rp_err := rp_err (srv (Sd_Repair p t))\<rparr>)"
    "SdProxy_SetLabel d obj p t l = Some (outputs [] [] False\<lparr>rp_err := rp_err (srv (Sd_SetLabel p t l))\<rparr>)"
    "SdProxy_Partition d obj p t = Some (outputs [] [] False\<lparr>rp_err := rp_err (srv (Sd_Partition p t))\<rparr>)"
    "SdProxy_CreatePartition d obj p n a e t = Some (outputs [] [] False\<lparr>rp_err := rp_err (srv (Sd_CreatePartition p n a e t))\<rparr>)"
    "SdProxy_DeletePartitionInfo d obj p k n = Some (outputs [] [] False\<lparr>rp_err := rp_err (srv (Sd_DeletePartition p k n))\<rparr>)"
    "SdProxy_FormatPartition d obj p t v cmd q = Some (outputs [] [] False\<lparr>rp_err := rp_err (srv (Sd_FormatPartition p t v cmd q))\<rparr>)"
    "SdProxy_Erase d obj p = Some (outputs [] [] False\<lparr>rp_err := rp_err (srv (Sd_Erase p))\<rparr>)"
    "SdProxy_Eject d obj p = Some (outputs [] [] False\<lparr>rp_err := rp_err (srv (Sd_Eject p))\<rparr>)"
    "SdProxy_CreateIsoImage d obj p g t m = Some (outputs [] [] False\<lparr>rp_err := rp_err (srv (Sd_CreateIsoImage p g t m))\<rparr>)"
    "SdProxy_Burn d obj p b t = Some (outputs [] [] False\<lparr>rp_err := rp_err (srv (Sd_Burn p b t))\<rparr>)"
  unfolding SdProxy_defs append.simps
  by (rule daemon_step_status[OF assms];
      (simp add: request_cells_def out_cells_def; fail)?; (intro writes_laws[OF laws] writes_strings[OF laws] roomy_succeeds[OF room])?)+

lemma daemon_step_out:
  assumes "ipc_laws d cells" "roomy d" "daemon_serves d cells srv" "request_cells (Str8ToStr16 d) c = Some (k, cs)"
    "writes cells (write_all ws) cs" "succeeds ws"
    "rp_err (srv c) = 0 \<Longrightarrow> answers cells rest (out_cells (Str8ToStr16 d) c (srv c)) (Some (delivered c out0 (srv c)))"
    "rp_err (srv c) \<noteq> 0 \<Longrightarrow> delivered c out0 (srv c) = out\<lparr>rp_err := rp_err (srv c)\<rparr>"
  shows "sd_transact d obj k ws out (answer_with d out rest) = Some (delivered c out0 (srv c))"
  using assms by (intro daemon_step_with[OF assms(1-7)]) auto

lemma daemon_outputs:
  assumes laws: "ipc_laws d cells" and room: "roomy d" and serves: "daemon_serves d cells srv"
  shows
    "reply_ok d (Sd_QueryUsbIsInUse p) (srv (Sd_QueryUsbIsInUse p)) \<Longrightarrow> SdProxy_QueryUsbIsInUse d obj p (rp_flag out) = Some (delivered (Sd_QueryUsbIsInUse p) out (srv (Sd_QueryUsbIsInUse p)))"
    "reply_ok d (Sd_ReadPartitionTable p) (srv (Sd_ReadPartitionTable p)) \<Longrightarrow> SdProxy_ReadPartitionTable d obj p = Some (delivered (Sd_ReadPartitionTable p) out (srv (Sd_ReadPartitionTable p)))"
    "reply_ok d (Sd_QueryCDStatus p) (srv (Sd_QueryCDStatus p)) \<Longrightarrow> SdProxy_QueryCDStatus d obj p = Some (delivered (Sd_QueryCDStatus p) out (srv (Sd_QueryCDStatus p)))"
    "reply_ok d (Sd_ReadMetadata p) (srv (Sd_ReadMetadata p)) \<Longrightarrow> SdProxy_ReadMetadata d obj p = Some (delivered (Sd_ReadMetadata p) out (srv (Sd_ReadMetadata p)))"
    "reply_ok d (Sd_GetCapacity p) (srv (Sd_GetCapacity p)) \<Longrightarrow> SdProxy_GetCapacity d obj p = Some (delivered (Sd_GetCapacity p) out (srv (Sd_GetCapacity p)))"
    "reply_ok d (Sd_GetBlockInfoByType t p) (srv (Sd_GetBlockInfoByType t p)) \<Longrightarrow> SdProxy_GetBlockInfoByType d obj t p = Some (delivered (Sd_GetBlockInfoByType t p) out (srv (Sd_GetBlockInfoByType t p)))"
    "reply_ok d (Sd_GetPartitionTableInfo p) (srv (Sd_GetPartitionTableInfo p)) \<Longrightarrow> SdProxy_GetPartitionTableInfo d obj p (rp_str 0 out) = Some (delivered (Sd_GetPartitionTableInfo p) out (srv (Sd_GetPartitionTableInfo p)))"
    "reply_ok d (Sd_GetVolumeOpProcess p) (srv (Sd_GetVolumeOpProcess p)) \<Longrightarrow> SdProxy_GetVolumeOpProcess d obj p = Some (delivered (Sd_GetVolumeOpProcess p) out (srv (Sd_GetVolumeOpProcess p)))"
    "reply_ok d (Sd_GetDiskSize p) (srv (Sd_GetDiskSize p)) \<Longrightarrow> SdProxy_GetDiskSize d obj p = Some (delivered (Sd_GetDiskSize p) out (srv (Sd_GetDiskSize p)))"
    "reply_ok d (Sd_CreateDmLinear p i j) (srv (Sd_CreateDmLinear p i j)) \<Longrightarrow> SdProxy_CreateDmLinear d obj p i j = Some (delivered (Sd_CreateDmLinear p i j) out (srv (Sd_CreateDmLinear p i j)))"
  unfolding SdProxy_defs Let_def
  by (rule daemon_step_out[OF assms];
      (simp add: request_cells_def delivered_def failed_def cleared_def; fail)?;
      (intro writes_laws[OF laws] roomy_succeeds[OF room])?;
      simp add: out_cells_def delivered_def answers_laws[OF laws] answers_const reply_ok_str)+

lemma daemon_fuse:
  assumes laws: "ipc_laws d cells" and room: "roomy d" and serves: "daemon_serves d cells srv"
    and ok: "reply_ok d (Sd_MountFuseDevice p) (srv (Sd_MountFuseDevice p))"
  shows "SdProxy_MountFuseDevice d obj p = Some (delivered (Sd_MountFuseDevice p) out (srv (Sd_MountFuseDevice p)))"
  unfolding SdProxy_defs Let_def
proof (rule daemon_step_out[OF laws room serves])
  show "writes cells (write_all [wr16 d p]) [CString16 (Str8ToStr16 d p)]" "succeeds [wr16 d p]"
    by (intro writes_laws[OF laws] roomy_succeeds[OF room])+
  have "0 \<le> rp_int 0 (- 1) (srv (Sd_MountFuseDevice p))" using ok by (simp add: reply_ok_def)
  then show "rp_err (srv (Sd_MountFuseDevice p)) = 0 \<Longrightarrow> answers cells
    (get (ReadFileDescriptor d) (\<lambda>fd reply. if fd < 0 then sd_fail (outputs [] [- 1] False) (ERR_INVALID_DATA d) else Some (outputs [] [fd] False)))
    (out_cells (Str8ToStr16 d) (Sd_MountFuseDevice p) (srv (Sd_MountFuseDevice p)))
    (Some (delivered (Sd_MountFuseDevice p) out (srv (Sd_MountFuseDevice p))))"
    by (simp add: out_cells_def delivered_def answers_laws[OF laws] answers_const)
qed (simp_all add: request_cells_def delivered_def failed_def cleared_def)

lemma daemon_command:
  assumes laws: "ipc_laws d cells" and room: "roomy d" and serves: "daemon_serves d cells srv"
    and ok: "reply_ok d (Sd_ExecuteCommand cmd) (srv (Sd_ExecuteCommand cmd))"
  shows "map_option command_result (SdProxy_ExecuteCommand d obj cmd (rp_int 0 0 out) (rp_strs out)) =
    Some (delivered (Sd_ExecuteCommand cmd) out (srv (Sd_ExecuteCommand cmd)))"
proof -
  define r where "r = srv (Sd_ExecuteCommand cmd)"
  let ?out = "outputs (rp_strs out) [rp_int 0 0 out] False"
  let ?y = "if rp_err r \<noteq> 0 then ?out\<lparr>rp_err := rp_err r\<rparr> else outputs (rp_strs r) [rp_int 0 0 r] False"
  have "SdProxy_ExecuteCommand d obj cmd (rp_int 0 0 out) (rp_strs out) = Some ?y"
    unfolding SdProxy_defs Let_def
  proof (rule daemon_step_with[OF laws room serves])
    show "writes cells (write_all (WriteInt32 (di_ops d) (size32 cmd) # map (wr16 d) cmd))
      (CInt32 (size32 cmd) # map (\<lambda>x. CString16 (Str8ToStr16 d x)) cmd)"
      using writes_laws(3)[OF laws writes_strings[OF laws writes_laws(1)[OF laws]], of "size32 cmd" cmd] by simp
    show "succeeds (WriteInt32 (di_ops d) (size32 cmd) # map (wr16 d) cmd)"
      using roomy_succeeds(3)[OF room roomy_succeeds(8)[OF room roomy_succeeds(1)[OF room]], of "size32 cmd" cmd] by simp
    assume "rp_err (srv (Sd_ExecuteCommand cmd)) = 0"
    then show "answers cells (get (ReadInt32 (di_ops d)) (\<lambda>rc. get (ReadInt32 (di_ops d)) (\<lambda>outputSize.
        if outputSize < 0 then (\<lambda>reply. None) else get_strings d (nat outputSize) [] (\<lambda>ss reply. Some (outputs ss [rc] False)))))
      (out_cells (Str8ToStr16 d) (Sd_ExecuteCommand cmd) (srv (Sd_ExecuteCommand cmd))) (Some ?y)"
      using answers_strings[OF laws, of "rp_strs r" "\<lambda>ss reply. Some (outputs ss [rp_int 0 0 r] False)" "[]" "[]"] ok
      by (simp add: out_cells_def r_def[symmetric] answers_laws[OF laws] answers_const reply_ok_def)
  qed (simp_all add: request_cells_def r_def)
  then show ?thesis
    by (simp add: delivered_def failed_def cleared_def command_result_def r_def[symmetric])
qed

text \<open>
  C8: the operations of the adapter refine the daemon. Over a parcel that keeps what is written into it, with a
  connection that nobody resets and a daemon that answers the message of a call \<open>c\<close> with \<open>srv c\<close>, every
  operation returns exactly what the daemon returned for it: the arguments reach the daemon in their order and types
  (the mount flags with \<open>nosuid\<close>, \<open>nodev\<close>, \<open>noexec\<close> and \<open>noatime\<close> added on a car), error code and output
  parameters reach the caller, and on an error the outputs are the cleared ones.
\<close>
theorem daemon_call_refines:
  assumes laws: "ipc_laws d cells" and room: "roomy d" and serves: "daemon_serves d cells srv"
    and conn: "ad_storageDaemon s = Some obj" "ae_between env = id"
    and c: "is_sd c" "reply_ok d (daemon_view (ae_cdc env) c) (srv (daemon_view (ae_cdc env) c))"
  shows "sd_invoke env d c out s = (Some (delivered c out (srv (daemon_view (ae_cdc env) c))), s)"
  using c by (cases c)
    (simp_all add: is_sd_def sd_invoke_def Sda_defs with_daemon_connected[OF conn] daemon_view_def daemon_outputs[OF laws room serves, where out = out]
      daemon_fuse[OF laws room serves, where out = out] daemon_command[OF laws room serves] daemon_statuses[OF laws room serves],
     simp_all add: delivered_def failed_def cleared_def)

section \<open>Losing the daemon\<close>

text \<open>What a call returns when there is no connection: only the listing of block information clears its output.\<close>

definition unconnected :: "call \<Rightarrow> reply \<Rightarrow> reply" where
  "unconnected c out = (case c of Sd_GetBlockInfoByType _ _ \<Rightarrow> outputs [[]] [] False | _ \<Rightarrow> out)"

definition reports_fault :: "call \<Rightarrow> bool" where
  "reports_fault c = (case c of
     Sd_ReadPartitionTable _ \<Rightarrow> True | Sd_Mount _ _ _ _ _ \<Rightarrow> True | Sd_Unmount _ _ _ \<Rightarrow> True | Sd_FormatVolume _ _ _ _ _ \<Rightarrow> True
   | Sd_SetLabel _ _ _ \<Rightarrow> True | Sd_ReadMetadata _ \<Rightarrow> True | Sd_GetPartitionTableInfo _ \<Rightarrow> True | Sd_CreatePartition _ _ _ _ _ \<Rightarrow> True
   | Sd_DeletePartition _ _ _ \<Rightarrow> True | Sd_FormatPartition _ _ _ _ _ \<Rightarrow> True | Sd_Erase _ \<Rightarrow> True | Sd_Eject _ \<Rightarrow> True
   | Sd_CreateIsoImage _ _ _ _ \<Rightarrow> True | Sd_Burn _ _ _ \<Rightarrow> True | _ \<Rightarrow> False)"

text \<open>The course of every operation: connect, report if that failed and the operation reports, call the proxy.\<close>

definition through :: "adapter_env \<Rightarrow> reply \<Rightarrow> bool \<Rightarrow> (adapter \<Rightarrow> reply option \<times> adapter) \<Rightarrow> bool" where
  "through env out rep f \<longleftrightarrow> (\<exists>report call. f = with_daemon env out report call \<and>
     (\<forall>e s. e \<noteq> E_OK \<longrightarrow> ad_storageDaemon (report e s) = ad_storageDaemon s \<and> ad_deathRecipient (report e s) = ad_deathRecipient s \<and>
        ad_watch (report e s) = ad_watch s \<and>
        (if rep then \<exists>ev. ra_events (ad_radar (report e s)) = ev # ra_events (ad_radar s) else report e s = s)))"

lemma through_intros:
  "through env out False (with_daemon env out no_report call)"
  "through env out True (with_daemon env out (\<lambda>err. FinishDaemonOp env n a b err i) call)"
  "through env out True (with_daemon env out (\<lambda>err. FinishMetadataOp env n err i) call)"
  unfolding through_def
  by (rule exI, rule exI, rule conjI, rule refl, simp add: no_report_def FinishDaemonOp_def FinishMetadataOp_def ReportMetadataFault_def
    ReportVolumeFault_def RecordFault_def HiSysEvent_Write_def WriteAuditForFault_def radar_audit_def)+

lemma sd_invoke_through: "is_sd c \<Longrightarrow> through env (unconnected c out) (reports_fault c) (sd_invoke env d c out)"
  by (cases c) (simp_all add: is_sd_def sd_invoke_def Sda_defs unconnected_def reports_fault_def through_intros)

lemma Connect_error:
  assumes "Connect env s = (e, s1)" "e \<noteq> E_OK"
  shows "ad_storageDaemon s = None" "e \<in> {E_SA_IS_NULLPTR, E_REMOTE_IS_NULLPTR, E_SERVICE_IS_NULLPTR, E_DEATH_RECIPIENT_IS_NULLPTR}"
    "e \<noteq> E_DEATH_RECIPIENT_IS_NULLPTR \<Longrightarrow> s1 = s"
    "e = E_DEATH_RECIPIENT_IS_NULLPTR \<Longrightarrow> s1 = s\<lparr>ad_storageDaemon := ae_object env, ad_deathRecipient := None\<rparr> \<and> ae_object env \<noteq> None"
  using assms by (auto simp: Connect_def Let_def split: if_splits option.splits)

lemma Connect_ok: "Connect env s = (E_OK, s1) \<Longrightarrow> ad_storageDaemon s1 \<noteq> None"
  by (auto simp: Connect_def Let_def split: if_splits option.splits)

lemma EnsureProxyReady_Connect: "EnsureProxyReady env s = Connect env s"
  using Connect_ok[of env s] by (auto simp: EnsureProxyReady_def split: prod.splits)

text \<open>
  C28: a daemon that cannot be reached. The operation returns one of the four connection errors without sending
  anything, the output parameters stay as the caller had them (only the block information is cleared), exactly the
  operations that change or read media leave one fault event, and the connection is as before; but when the death
  recipient could not be created, the proxy stays set without one: the next operation goes through as if
  everything were fine, in every environment, and a death of the daemon is not noticed any more.
\<close>
theorem daemon_unreachable:
  assumes "is_sd c" and e: "Connect env s = (e, s1)" "e \<noteq> E_OK"
  shows "\<exists>s'. sd_invoke env d c out s = (Some (unconnected c out\<lparr>rp_err := e\<rparr>), s') \<and>
    e \<in> {E_SA_IS_NULLPTR, E_REMOTE_IS_NULLPTR, E_SERVICE_IS_NULLPTR, E_DEATH_RECIPIENT_IS_NULLPTR} \<and> ad_watch s' = ad_watch s \<and>
    (if reports_fault c then \<exists>ev. ra_events (ad_radar s') = ev # ra_events (ad_radar s) else ra_events (ad_radar s') = ra_events (ad_radar s)) \<and>
    (if e = E_DEATH_RECIPIENT_IS_NULLPTR then ad_deathRecipient s' = None \<and> (\<forall>env'. Connect env' s' = (E_OK, s'))
     else ad_storageDaemon s' = None)"
proof -
  obtain report call where f: "sd_invoke env d c out = with_daemon env (unconnected c out) report call"
    and rep: "\<And>e s. e \<noteq> E_OK \<Longrightarrow> ad_storageDaemon (report e s) = ad_storageDaemon s \<and> ad_deathRecipient (report e s) = ad_deathRecipient s \<and>
      ad_watch (report e s) = ad_watch s \<and>
      (if reports_fault c then \<exists>ev. ra_events (ad_radar (report e s)) = ev # ra_events (ad_radar s) else report e s = s)"
    using sd_invoke_through[OF assms(1)] unfolding through_def by metis
  have "sd_invoke env d c out s = (Some (unconnected c out\<lparr>rp_err := e\<rparr>), report e s1)"
    using e by (simp add: f with_daemon_def EnsureProxyReady_Connect sd_fail_def)
  moreover note rep[OF e(2), of s1] Connect_error[OF e]
  moreover have "ad_radar s1 = ad_radar s" "ad_watch s1 = ad_watch s" using Connect_error(3,4)[OF e] by (cases "e = E_DEATH_RECIPIENT_IS_NULLPTR"; simp)+
  ultimately show ?thesis by (intro exI[of _ "report e s1"]) (auto simp: Connect_def split: if_splits)
qed

text \<open>The proxy methods return; only the output of a command can make one throw.\<close>

definition answered :: "('p \<Rightarrow> reply option) \<Rightarrow> bool" where
  "answered k \<longleftrightarrow> (\<forall>p. k p \<noteq> None)"

lemma answered_intros:
  "answered (\<lambda>p. Some y)" "answered (\<lambda>p. sd_fail out e)" "(\<And>x. answered (k x)) \<Longrightarrow> answered (get r k)"
  "answered f \<Longrightarrow> answered g \<Longrightarrow> answered (\<lambda>p. if b then f p else g p)"
  by (auto simp: answered_def get_def sd_fail_def split: prod.splits)

lemma answered_proxy:
  "answered (answer_status d)" "answered k \<Longrightarrow> answered (answer_with d out k)"
  "(\<And>x. answered (g x)) \<Longrightarrow> answered (\<lambda>p. case t of None \<Rightarrow> sd_fail out e | Some x \<Rightarrow> g x p)"
  unfolding answer_status_def answer_with_def
  by (auto intro!: answered_intros(3)) (auto simp: answered_def sd_fail_def split: option.splits)

lemma transact_Some: "answered answer \<Longrightarrow> sd_transact d obj k ws out answer \<noteq> None"
  by (auto simp: answered_def sd_transact_def sd_fail_def split: prod.splits bool.splits)

definition calls_proxy :: "adapter_env \<Rightarrow> bool \<Rightarrow> (adapter \<Rightarrow> reply option \<times> adapter) \<Rightarrow> bool" where
  "calls_proxy env safe f \<longleftrightarrow> (\<exists>out report call. f = with_daemon env out report call \<and> (safe \<longrightarrow> (\<forall>obj. call obj \<noteq> None)))"

lemma calls_proxyI: "(safe \<Longrightarrow> \<forall>obj. call obj \<noteq> None) \<Longrightarrow> calls_proxy env safe (with_daemon env out report call)"
  unfolding calls_proxy_def by blast

definition is_command :: "call \<Rightarrow> bool" where
  "is_command c = (case c of Sd_ExecuteCommand _ \<Rightarrow> True | _ \<Rightarrow> False)"

lemma sd_invoke_calls:
  assumes "is_sd c"
  shows "calls_proxy env (\<not> is_command c) (sd_invoke env d c out)"
  using assms by (cases c)
    (simp_all add: is_sd_def sd_invoke_def Sda_defs is_command_def del: not_None_eq,
     (intro calls_proxyI allI, simp only: SdProxy_defs Let_def simp_thms not_True_eq_False,
      (intro transact_Some answered_proxy answered_intros)?)+)

text \<open>The number of lines that the answer to a command announces: the second number after a status without an error, if the daemon
  answers at all.\<close>

definition announced_lines :: "'p daemon_ipc \<Rightarrow> nat \<Rightarrow> string list \<Rightarrow> int option" where
  "announced_lines d obj cmd =
     (case WriteInterfaceToken d SD_DESCRIPTOR (di_new d) of (ok, data) \<Rightarrow>
      case write_all (WriteInt32 (di_ops d) (size32 cmd) # map (wr16 d) cmd) data of (ok1, data1) \<Rightarrow>
      case SendRequest d obj (ipc_code ADDON_EXECUTE_COMMAND) data1 of (rc, reply) \<Rightarrow>
      case ReadInt32 (di_ops d) reply of (res, reply1) \<Rightarrow>
      case ReadInt32 (di_ops d) reply1 of (execRet, reply2) \<Rightarrow>
        if ok \<and> ok1 \<and> rc = 0 \<and> res = 0 then Some (fst (ReadInt32 (di_ops d) reply2)) else None)"

definition negative_lines :: "'p daemon_ipc \<Rightarrow> nat \<Rightarrow> call \<Rightarrow> bool" where
  "negative_lines d obj c = (case c of Sd_ExecuteCommand cmd \<Rightarrow>
     (case announced_lines d obj cmd of None \<Rightarrow> False | Some n \<Rightarrow> n < 0) | _ \<Rightarrow> False)"

lemma get_strings_Some: "(\<And>ss. answered (k ss)) \<Longrightarrow> get_strings d n acc k p \<noteq> None"
  by (induction n arbitrary: acc p) (auto simp: answered_def get_def split: prod.splits)

lemma ExecuteCommand_throws:
  "SdProxy_ExecuteCommand d obj cmd execRet output = None \<longleftrightarrow> negative_lines d obj (Sd_ExecuteCommand cmd)"
  using get_strings_Some[OF answered_intros(1), of d]
  by (auto simp: SdProxy_ExecuteCommand_def negative_lines_def announced_lines_def sd_transact_def answer_with_def sd_fail_def get_def Let_def
      simp del: not_None_eq split: prod.splits bool.splits)

lemma sd_invoke_throws:
  assumes "is_sd c"
  shows "\<exists>out1 report call. sd_invoke env d c out = with_daemon env out1 report call \<and> (\<forall>obj. call obj = None \<longleftrightarrow> negative_lines d obj c)"
proof (cases "is_command c")
  case True
  then obtain cmd where "c = Sd_ExecuteCommand cmd" by (auto simp: is_command_def split: call.splits)
  then show ?thesis by (auto simp: sd_invoke_def Sda_ExecuteCommand_def ExecuteCommand_throws intro!: exI)
next
  case False
  then have "\<not> negative_lines d obj c" for obj by (auto simp: negative_lines_def is_command_def split: call.splits)
  with sd_invoke_calls[OF assms, of env d out] False show ?thesis unfolding calls_proxy_def by metis
qed

text \<open>
  C22: when the service crashes on its way to the daemon. The check of the connection releases the lock before
  the proxy is used: an operation ends the process exactly when another thread drops the
  connection in between, so that it dereferences null, or when it is a command, the daemon answers it without an error, and the
  answer announces a negative number of lines. With the death of the daemon just in between, every operation ends it.
\<close>
theorem daemon_death_race:
  assumes "is_sd c" "Connect env s = (E_OK, s1)"
  shows "(fst (sd_invoke env d c out s) = None \<longleftrightarrow>
      (case ad_storageDaemon (ae_between env s1) of None \<Rightarrow> True | Some obj \<Rightarrow> negative_lines d obj c)) \<and>
    (ae_between env = OnRemoteDied \<longrightarrow> fst (sd_invoke env d c out s) = None)"
proof -
  obtain o1 report call where f: "sd_invoke env d c out = with_daemon env o1 report call" and
    call: "call obj = None \<longleftrightarrow> negative_lines d obj c" for obj
    using sd_invoke_throws[OF assms(1)] by metis
  have "fst (sd_invoke env d c out s) = (case ad_storageDaemon (ae_between env s1) of None \<Rightarrow> None | Some obj \<Rightarrow> call obj)"
    using assms(2) by (simp add: f with_daemon_def EnsureProxyReady_Connect Let_def split: option.splits)
  moreover have "ad_storageDaemon (OnRemoteDied s1) = None" by (simp add: OnRemoteDied_def ResetSdProxy_def)
  ultimately show ?thesis using call by (auto split: option.splits simp del: not_None_eq)
qed

section \<open>The watch over the daemon\<close>

text \<open>
  The life of the adapter: operations, each in an environment of its own, and notifications of the death of the
  daemon, which drop the connection.
\<close>

datatype adapter_event = Operation adapter_env call reply | Died

definition adapter_step :: "'p daemon_ipc \<Rightarrow> adapter_event \<Rightarrow> adapter \<Rightarrow> adapter" where
  "adapter_step d ev s = (case ev of Operation env c out \<Rightarrow> snd (sd_invoke env d c out s) | Died \<Rightarrow> OnRemoteDied s)"

definition adapter_start :: "radar \<Rightarrow> adapter" where
  "adapter_start r = \<lparr>ad_storageDaemon = None, ad_deathRecipient = None, ad_watch = {}, ad_radar = r\<rparr>"

definition adapter_link :: "adapter \<Rightarrow> link" where
  "adapter_link s = (ad_storageDaemon s, ad_deathRecipient s, ad_watch s)"

text \<open>Only deaths of the daemon interfere; and a connection registers its recipient.\<close>

definition calm_event :: "adapter_event \<Rightarrow> bool" where
  "calm_event ev = (case ev of Operation env c out \<Rightarrow> is_sd c \<and> (ae_between env = id \<or> ae_between env = OnRemoteDied) | Died \<Rightarrow> True)"

definition registers :: "adapter_env \<Rightarrow> bool" where
  "registers env \<longleftrightarrow> ae_recipient env \<noteq> None \<and> ae_registers env"

definition registers_event :: "adapter_event \<Rightarrow> bool" where
  "registers_event ev = (case ev of Operation env c out \<Rightarrow> registers env | Died \<Rightarrow> True)"

lemma Connect_moves: "(link_step (registers env))\<^sup>*\<^sup>* (adapter_link s) (adapter_link (snd (Connect env s)))"
  by (auto simp: adapter_link_def Connect_def registers_def Let_def intro!: r_into_rtranclp link_connect link_unregistered split: option.splits)

lemma Died_moves: "(link_step full)\<^sup>*\<^sup>* (adapter_link s) (adapter_link (OnRemoteDied s))"
proof (cases "ad_storageDaemon s")
  case (Some obj)
  then have "adapter_link (OnRemoteDied s) = (None, ad_deathRecipient s, ad_watch s - registration (Some obj) (ad_deathRecipient s))"
    by (cases "ad_deathRecipient s") (simp_all add: adapter_link_def OnRemoteDied_def ResetSdProxy_def)
  then show ?thesis using Some link_drop[of full obj "ad_deathRecipient s" "ad_watch s"] by (auto simp: adapter_link_def)
qed (simp add: adapter_link_def OnRemoteDied_def ResetSdProxy_def)

lemma sd_invoke_moves:
  assumes "is_sd c" "ae_between env = id \<or> ae_between env = OnRemoteDied"
  shows "(link_step (registers env))\<^sup>*\<^sup>* (adapter_link s) (adapter_link (snd (sd_invoke env d c out s)))"
proof -
  obtain report call where f: "sd_invoke env d c out = with_daemon env (unconnected c out) report call"
    and rep: "\<forall>e s. e \<noteq> E_OK \<longrightarrow> ad_storageDaemon (report e s) = ad_storageDaemon s \<and> ad_deathRecipient (report e s) = ad_deathRecipient s \<and>
        ad_watch (report e s) = ad_watch s"
    using sd_invoke_through[OF assms(1), of env out d] unfolding through_def by blast
  obtain err s1 where e: "Connect env s = (err, s1)" by fastforce
  then have s1: "(link_step (registers env))\<^sup>*\<^sup>* (adapter_link s) (adapter_link s1)" using Connect_moves[of env s] by simp
  have "(link_step (registers env))\<^sup>*\<^sup>* (adapter_link s1) (adapter_link (ae_between env s1))"
    using assms(2) Died_moves by auto
  with s1 have "(link_step (registers env))\<^sup>*\<^sup>* (adapter_link s) (adapter_link (ae_between env s1))" by (rule rtranclp_trans)
  moreover have "err \<noteq> E_OK \<Longrightarrow> adapter_link (report err s1) = adapter_link s1" using rep by (simp add: adapter_link_def)
  ultimately show ?thesis using s1
    by (simp add: f with_daemon_def EnsureProxyReady_Connect Let_def e split: option.splits)
qed

interpretation daemon_link: remote_link adapter_link "adapter_step d" calm_event registers_event adapter_start for d
proof unfold_locales
  show "adapter_link (adapter_start a) = (None, None, {})" for a by (simp add: adapter_link_def adapter_start_def)
  show "calm_event e \<Longrightarrow> (link_step (registers_event e))\<^sup>*\<^sup>* (adapter_link s) (adapter_link (adapter_step d e s))" for e s
    by (cases e) (simp_all add: adapter_step_def calm_event_def registers_event_def sd_invoke_moves Died_moves)
qed

text \<open>
  C23: the watch over the connection. Through any sequence of operations, failed connections, deaths of the daemon, also between
  the check and the use, and reconnections, with and without memory for death recipients and whether or not they can be registered, no
  registration is left behind: at most the recipient in use is registered, with the proxy in use. As long as every connection
  finds the memory and its registration succeeds, a proxy is set only together with its registered recipient. But when a
  registration fails, the connection succeeds all the same and the proxy is used unwatched.
\<close>
theorem daemon_watched:
  assumes "list_all calm_event evs"
  shows "let s = fold (adapter_step d) evs (adapter_start r) in
    tidy_link (adapter_link s) \<and> (list_all registers_event evs \<longrightarrow> watched_link (adapter_link s)) \<and>
    (\<forall>env obj. ad_storageDaemon s = None \<and> ae_samgr env \<and> ae_object env = Some obj \<and> ae_cast env \<and> ae_recipient env \<noteq> None \<and> \<not> ae_registers env \<longrightarrow>
       (\<exists>s'. Connect env s = (E_OK, s') \<and> ad_storageDaemon s' = Some obj \<and> ad_watch s' = {}))"
proof -
  let ?s = "fold (adapter_step d) evs (adapter_start r)"
  have t: "tidy_link (adapter_link ?s)" by (rule daemon_link.always_tidy[OF assms])
  then have "ad_storageDaemon ?s = None \<Longrightarrow> ad_watch ?s = {}" by (simp add: tidy_link_def adapter_link_def)
  then show ?thesis using t daemon_link.always_watched[OF assms] by (auto simp: Let_def Connect_def)
qed

section \<open>Witnesses\<close>

text \<open>
  A daemon on lists of cells: characters become code units, the metadata of a device is a fixed one, all other
  operations fail with error 5.
\<close>

definition units :: "string \<Rightarrow> 16 word list" where "units = map (\<lambda>c. of_nat (of_char c))"
definition chars :: "16 word list \<Rightarrow> string" where "chars = map (\<lambda>w. char_of (unat w))"

definition demo_metadata :: reply where
  "demo_metadata = outputs [''1A2B-3C4D'', ''vfat'', ''USB''] [] False"

definition demo_srv :: "call \<Rightarrow> reply" where
  "demo_srv c = (case c of Sd_ReadMetadata _ \<Rightarrow> demo_metadata | _ \<Rightarrow> demo_metadata\<lparr>rp_err := 5\<rparr>)"

definition demo_ipc :: "cell list daemon_ipc" where
  "demo_ipc = \<lparr>di_ops = list_ops, di_new = [], WriteInterfaceToken = (\<lambda>t p. (True, p @ [CToken t])),
     WriteString16 = (\<lambda>s p. (True, p @ [CString16 s])),
     ReadString16 = (\<lambda>p. case p of CString16 s # cs \<Rightarrow> (s, cs) | _ \<Rightarrow> ([], p)),
     ReadFileDescriptor = (\<lambda>p. case p of CFd i # cs \<Rightarrow> (i, cs) | _ \<Rightarrow> (- 1, p)),
     TryReadInt32 = (\<lambda>p. case p of CInt32 i # cs \<Rightarrow> (Some i, cs) | _ \<Rightarrow> (None, p)),
     TryReadInt64 = (\<lambda>p. case p of CInt64 i # cs \<Rightarrow> (Some i, cs) | _ \<Rightarrow> (None, p)),
     TryReadUint64 = (\<lambda>p. case p of CUint64 i # cs \<Rightarrow> (Some i, cs) | _ \<Rightarrow> (None, p)),
     Str8ToStr16 = units, Str16ToStr8 = chars,
     SendRequest = (\<lambda>obj code p. (0, if code = ipc_code ADDON_READ_METADATA
       then CInt32 0 # map (\<lambda>s. CString16 (units s)) (rp_strs demo_metadata) else [CInt32 5])),
     ERR_TRANSACTION_FAILED = - 1, ERR_INVALID_DATA = - 2\<rparr>"

lemma units_inverse: "chars (units s) = s"
proof -
  have "unat (of_nat (of_char c) :: 16 word) = of_char c" for c :: char
  proof -
    have "(of_char c :: nat) < 256" by (metis mod_less_divisor of_char_mod_256 zero_less_numeral)
    then have "(of_char c :: nat) < 2 ^ 16" by (rule less_trans) simp
    then show ?thesis by (simp add: unsigned_of_nat take_bit_nat_eq_self)
  qed
  then show ?thesis by (simp add: chars_def units_def o_def)
qed

lemma demo_laws: "ipc_laws demo_ipc id" "roomy demo_ipc"
  by (simp_all add: ipc_laws_def roomy_def demo_ipc_def list_ops_fifo writes_def reads_def) (simp_all add: list_ops_def)

lemma demo_serves: "daemon_serves demo_ipc id demo_srv"
proof -
  have "snd (SendRequest demo_ipc obj (ipc_code k) q) = reply_cells units c (demo_srv c)"
    if "request_cells units c = Some (k, cs)" for obj c k cs q
    using that by (cases c) (auto simp: demo_ipc_def demo_srv_def request_cells_def reply_cells_def out_cells_def rp_str_def demo_metadata_def)
  moreover have "fst (SendRequest demo_ipc obj k q) = 0" "Str8ToStr16 demo_ipc = units" for obj k q by (simp_all add: demo_ipc_def)
  ultimately show ?thesis unfolding daemon_serves_def by (metis id_apply prod.collapse)
qed

definition demo_env :: adapter_env where
  "demo_env = \<lparr>ae_samgr = True, ae_object = Some 7, ae_cast = True, ae_recipient = Some 1, ae_registers = True, ae_between = id, ae_cdc = True,
     ae_radar = \<lparr>re_audit = plain_audit, re_write = (\<lambda>_ _. 0), re_pid = 1, re_dump = (\<lambda>_. []), re_parse = (\<lambda>_. None)\<rparr>\<rparr>"

definition demo_radar :: radar where
  "demo_radar = \<lparr>ra_events = [], ra_audit = \<lparr>ha_open = False, ha_size = 0, ha_dir = [], ha_tick = 0\<rparr>\<rparr>"

definition demo_adapter :: adapter where
  "demo_adapter = \<lparr>ad_storageDaemon = Some 7, ad_deathRecipient = Some 1, ad_watch = {(7, 1)}, ad_radar = demo_radar\<rparr>"

theorem daemon_call_refines_witness:
  "sd_invoke demo_env demo_ipc (Sd_ReadMetadata ''/dev/block/x'') (outputs [[], [], []] [] False) demo_adapter =
     (Some (outputs [''1A2B-3C4D'', ''vfat'', ''USB''] [] False), demo_adapter)"
proof -
  have "ad_storageDaemon demo_adapter = Some 7" "ae_between demo_env = id" by (simp_all add: demo_adapter_def demo_env_def)
  moreover have "is_sd (Sd_ReadMetadata ''/dev/block/x'')"
    "reply_ok demo_ipc (daemon_view (ae_cdc demo_env) (Sd_ReadMetadata ''/dev/block/x'')) (demo_srv (daemon_view (ae_cdc demo_env) (Sd_ReadMetadata ''/dev/block/x'')))"
    by (simp_all add: is_sd_def reply_ok_def daemon_view_def demo_ipc_def units_inverse)
  ultimately show ?thesis
    using daemon_call_refines[OF demo_laws demo_serves, of demo_adapter 7 demo_env "Sd_ReadMetadata ''/dev/block/x''" "outputs [[], [], []] [] False"]
    by (simp add: delivered_def demo_srv_def demo_metadata_def daemon_view_def rp_str_def)
qed

theorem daemon_unreachable_witness:
  "\<exists>s'. sd_invoke (demo_env\<lparr>ae_recipient := None\<rparr>) demo_ipc (Sd_Erase ''x'') (outputs [] [] False) (adapter_start demo_radar) =
     (Some (outputs [] [] False\<lparr>rp_err := 13\<rparr>), s') \<and> Connect demo_env s' = (E_OK, s') \<and> ad_watch s' = {}"
proof -
  have "Connect (demo_env\<lparr>ae_recipient := None\<rparr>) (adapter_start demo_radar) =
    (13, \<lparr>ad_storageDaemon = Some 7, ad_deathRecipient = None, ad_watch = {}, ad_radar = demo_radar\<rparr>)"
    by (simp add: Connect_def demo_env_def adapter_start_def)
  moreover have "is_sd (Sd_Erase ''x'')" "ad_watch (adapter_start demo_radar) = {}" by (simp_all add: is_sd_def adapter_start_def)
  ultimately show ?thesis using daemon_unreachable[of "Sd_Erase ''x''" "demo_env\<lparr>ae_recipient := None\<rparr>" "adapter_start demo_radar" 13 _ demo_ipc
    "outputs [] [] False"] by (fastforce simp: unconnected_def)
qed

theorem daemon_death_race_witness:
  "fst (sd_invoke (demo_env\<lparr>ae_between := OnRemoteDied\<rparr>) demo_ipc (Sd_Eject ''sr0'') (outputs [] [] False) demo_adapter) = None"
  using daemon_death_race[of "Sd_Eject ''sr0''" "demo_env\<lparr>ae_between := OnRemoteDied\<rparr>" demo_adapter demo_adapter demo_ipc "outputs [] [] False"]
  by (simp add: is_sd_def Connect_def demo_env_def demo_adapter_def)

theorem daemon_watched_witness:
  "watched_link (adapter_link (fold (adapter_step demo_ipc) [Operation demo_env (Sd_Eject ''sr0'') (outputs [] [] False), Died,
     Operation (demo_env\<lparr>ae_between := OnRemoteDied\<rparr>) (Sd_Erase ''sr0'') (outputs [] [] False)] (adapter_start demo_radar)))"
proof -
  let ?evs = "[Operation demo_env (Sd_Eject ''sr0'') (outputs [] [] False), Died,
     Operation (demo_env\<lparr>ae_between := OnRemoteDied\<rparr>) (Sd_Erase ''sr0'') (outputs [] [] False)]"
  have "list_all calm_event ?evs" "list_all registers_event ?evs"
    by (simp_all add: calm_event_def registers_event_def registers_def is_sd_def demo_env_def)
  then show ?thesis using daemon_watched[of ?evs demo_ipc demo_radar] unfolding Let_def by blast
qed

end
