(* ===== verification/Dm_Client.thy ===== *)
theory Dm_Client
  imports Dm_Provider Dm_Link
begin

text \<open>
  The client library of the service, \<^verbatim>\<open>interfaces/innerkits/src/disk_manager_client.cpp\<close>: the singleton
  \<open>DiskManagerClient\<close> that connects to the system ability, loads it when it is not running, watches it, and
  forwards every method to the interface \<open>IDiskManager\<close>. The proxy class of that interface is generated from an
  interface description, so it is the record \<open>IDiskManager\<close>, a parameter: \<open>im_send\<close> for the methods that only return
  a code, a field for each method with an output parameter, whose value before the call goes in. \<open>'w\<close> is the state
  of the service behind it. \<open>provider_stub\<close> is the interface with the provider of \<open>Dm_Provider\<close> at its other end.

  Proved: with a service that is not running the queries answer that there is nothing, without loading it, while
  every other method loads it; a connected client returns what the provider returns; the link is watched; and
  the service states a client can bring about are the reachable ones.
\<close>

section \<open>The interface of the service\<close>

record 'w IDiskManager =
  im_send :: "request \<Rightarrow> 'w \<Rightarrow> errno \<times> 'w"
  im_GetAllVolumes :: "VolumeExternal list \<Rightarrow> 'w \<Rightarrow> (errno \<times> VolumeExternal list) \<times> 'w"
  im_GetAllDisks :: "Disk list \<Rightarrow> 'w \<Rightarrow> (errno \<times> Disk list) \<times> 'w"
  im_GetExternalDiskInfos :: "ExternalDiskInfo list \<Rightarrow> 'w \<Rightarrow> (errno \<times> ExternalDiskInfo list) \<times> 'w"
  im_GetExternalVolumeInfos :: "ExternalVolumeInfo list \<Rightarrow> 'w \<Rightarrow> (errno \<times> ExternalVolumeInfo list) \<times> 'w"
  im_GetVolumeByUuid :: "string \<Rightarrow> VolumeExternal \<Rightarrow> 'w \<Rightarrow> (errno \<times> VolumeExternal) \<times> 'w"
  im_GetVolumeById :: "string \<Rightarrow> VolumeExternal \<Rightarrow> 'w \<Rightarrow> (errno \<times> VolumeExternal) \<times> 'w"
  im_GetFreeSizeOfVolume :: "string \<Rightarrow> int \<Rightarrow> 'w \<Rightarrow> (errno \<times> int) \<times> 'w"
  im_GetTotalSizeOfVolume :: "string \<Rightarrow> int \<Rightarrow> 'w \<Rightarrow> (errno \<times> int) \<times> 'w"
  im_GetDiskById :: "string \<Rightarrow> Disk \<Rightarrow> 'w \<Rightarrow> (errno \<times> Disk) \<times> 'w"
  im_GetVolumeOpProcess :: "string \<Rightarrow> int \<Rightarrow> 'w \<Rightarrow> (errno \<times> int) \<times> 'w"
  im_QueryUsbIsInUse :: "string \<Rightarrow> bool \<Rightarrow> 'w \<Rightarrow> (errno \<times> bool) \<times> 'w"
  im_GetPartitionTable :: "string \<Rightarrow> PartitionTableInfo \<Rightarrow> 'w \<Rightarrow> (errno \<times> PartitionTableInfo) \<times> 'w"
  im_BindBlockLoopDev :: "string \<Rightarrow> int \<Rightarrow> int \<Rightarrow> string \<Rightarrow> 'w \<Rightarrow> (errno \<times> string) \<times> 'w"
  im_CreateDmCryptVolume :: "CryptParam \<Rightarrow> string \<Rightarrow> string \<Rightarrow> 'w \<Rightarrow> (errno \<times> string) \<times> 'w"

section \<open>Connecting\<close>

text \<open>
  Objects and recipients are numbers, as in the adapter of the storage daemon; \<open>dc_loads\<close> counts the loads of the
  service that were requested. The environment of a call: the system-ability manager, what it knows of
  the service, the load callback (its allocation, the status of the request, whether it came in time, whether with
  success and with which object), the cast to the interface, the recipient, the remote object of the proxy, and whether the
  registration of the recipient succeeds (the source ignores the result).
\<close>

record 'w client =
  dc_diskManager :: "nat option"
  dc_deathRecipient :: "nat option"
  dc_watch :: "(nat \<times> nat) set"
  dc_loads :: nat
  dc_remote :: 'w

record client_env =
  ce_samgr :: bool
  ce_check :: "nat option"
  ce_callback :: bool
  ce_load :: int
  ce_notified :: bool
  ce_success :: bool
  ce_loaded :: "nat option"
  ce_cast :: bool
  ce_recipient :: "nat option"
  ce_object :: bool
  ce_registers :: bool

text \<open>The numbers of \<^verbatim>\<open>common/include/disk_manager_napi_errno.h\<close>.\<close>

abbreviation (input) E_SA_IS_NULLPTR :: errno where "E_SA_IS_NULLPTR \<equiv> 13600012"
abbreviation (input) E_REMOTE_IS_NULLPTR :: errno where "E_REMOTE_IS_NULLPTR \<equiv> 13600013"
abbreviation (input) E_SERVICE_IS_NULLPTR :: errno where "E_SERVICE_IS_NULLPTR \<equiv> 13600014"

definition InitProxyLocked :: "client_env \<Rightarrow> nat \<Rightarrow> 'w client \<Rightarrow> errno \<times> 'w client" where
  "InitProxyLocked env obj s =
     (if \<not> ce_cast env then (E_SERVICE_IS_NULLPTR, s\<lparr>dc_diskManager := None\<rparr>)
      else let s1 = s\<lparr>dc_diskManager := Some obj, dc_deathRecipient := ce_recipient env\<rparr> in
        case ce_recipient env of
          None \<Rightarrow> (E_SERVICE_IS_NULLPTR, s1\<lparr>dc_diskManager := None\<rparr>)
        | Some r \<Rightarrow> (E_OK, if ce_object env \<and> ce_registers env then s1\<lparr>dc_watch := insert (obj, r) (dc_watch s1)\<rparr> else s1))"

definition DiskManagerClient_ConnectIfPresent :: "client_env \<Rightarrow> 'w client \<Rightarrow> errno \<times> 'w client" where
  "DiskManagerClient_ConnectIfPresent env s =
     (if dc_diskManager s \<noteq> None then (E_OK, s)
      else if \<not> ce_samgr env then (E_SA_IS_NULLPTR, s)
      else case ce_check env of
        None \<Rightarrow> (E_SERVICE_IS_NULLPTR, s)
      | Some obj \<Rightarrow> InitProxyLocked env obj s)"

definition DiskManagerClient_Connect :: "client_env \<Rightarrow> 'w client \<Rightarrow> errno \<times> 'w client" where
  "DiskManagerClient_Connect env s =
     (if dc_diskManager s \<noteq> None then (E_OK, s)
      else if \<not> ce_samgr env then (E_SA_IS_NULLPTR, s)
      else case ce_check env of
        None \<Rightarrow>
          if \<not> ce_callback env then (E_SERVICE_IS_NULLPTR, s)
          else let s1 = s\<lparr>dc_loads := Suc (dc_loads s)\<rparr> in
            if ce_load env \<noteq> 0 then (E_REMOTE_IS_NULLPTR, s1)
            else if \<not> ce_notified env \<or> \<not> ce_success env then (E_REMOTE_IS_NULLPTR, s1)
            else (case ce_loaded env of
                    None \<Rightarrow> (E_REMOTE_IS_NULLPTR, s1)
                  | Some obj \<Rightarrow> InitProxyLocked env obj s1)
      | Some obj \<Rightarrow> InitProxyLocked env obj s)"

definition ResetProxy :: "'w client \<Rightarrow> errno \<times> 'w client" where
  "ResetProxy s =
     (let s1 = (case (dc_diskManager s, dc_deathRecipient s) of
                  (Some obj, Some r) \<Rightarrow> s\<lparr>dc_watch := dc_watch s - {(obj, r)}\<rparr>
                | _ \<Rightarrow> s)
      in (E_OK, s1\<lparr>dc_diskManager := None, dc_deathRecipient := None\<rparr>))"

definition DmDeathRecipient_OnRemoteDied :: "'w client \<Rightarrow> 'w client" where
  "DmDeathRecipient_OnRemoteDied s = snd (ResetProxy s)"

section \<open>The methods\<close>

text \<open>
  The two ways a method uses the connection; the proxy is held by the method itself, so a reset by
  another thread does not touch a call under way.
\<close>

definition call_service :: "errno \<times> 'w client \<Rightarrow> (errno \<Rightarrow> 'r) \<Rightarrow> ('w \<Rightarrow> 'r \<times> 'w) \<Rightarrow> 'r \<times> 'w client" where
  "call_service c fail m = (case c of (err, s1) \<Rightarrow>
     if err \<noteq> E_OK then (fail err, s1)
     else case m (dc_remote s1) of (r, w) \<Rightarrow> (r, s1\<lparr>dc_remote := w\<rparr>))"

definition forward :: "client_env \<Rightarrow> 'w IDiskManager \<Rightarrow> request \<Rightarrow> 'w client \<Rightarrow> errno \<times> 'w client" where
  "forward env dm rq s = call_service (DiskManagerClient_Connect env s) (\<lambda>err. err) (im_send dm rq)"

definition DiskManagerClient_Mount :: "client_env \<Rightarrow> 'w IDiskManager \<Rightarrow> string \<Rightarrow> MountParam \<Rightarrow> 'w client \<Rightarrow> errno \<times> 'w client" where
  "DiskManagerClient_Mount env dm volumeId mountParam = forward env dm (Rq_Mount volumeId mountParam)"

definition DiskManagerClient_Unmount :: "client_env \<Rightarrow> 'w IDiskManager \<Rightarrow> string \<Rightarrow> 'w client \<Rightarrow> errno \<times> 'w client" where
  "DiskManagerClient_Unmount env dm volumeId = forward env dm (Rq_Unmount volumeId)"

definition DiskManagerClient_Format :: "client_env \<Rightarrow> 'w IDiskManager \<Rightarrow> string \<Rightarrow> string \<Rightarrow> 'w client \<Rightarrow> errno \<times> 'w client" where
  "DiskManagerClient_Format env dm volumeId fsType = forward env dm (Rq_Format volumeId fsType)"

definition DiskManagerClient_SetVolumeDescription :: "client_env \<Rightarrow> 'w IDiskManager \<Rightarrow> string \<Rightarrow> string \<Rightarrow> 'w client \<Rightarrow> errno \<times> 'w client" where
  "DiskManagerClient_SetVolumeDescription env dm fsUuid description = forward env dm (Rq_SetVolumeDescription fsUuid description)"

definition DiskManagerClient_Partition :: "client_env \<Rightarrow> 'w IDiskManager \<Rightarrow> string \<Rightarrow> int \<Rightarrow> 'w client \<Rightarrow> errno \<times> 'w client" where
  "DiskManagerClient_Partition env dm diskId type = forward env dm (Rq_Partition diskId type)"

definition DiskManagerClient_Erase :: "client_env \<Rightarrow> 'w IDiskManager \<Rightarrow> string \<Rightarrow> 'w client \<Rightarrow> errno \<times> 'w client" where
  "DiskManagerClient_Erase env dm volumeId = forward env dm (Rq_Erase volumeId)"

definition DiskManagerClient_Eject :: "client_env \<Rightarrow> 'w IDiskManager \<Rightarrow> string \<Rightarrow> 'w client \<Rightarrow> errno \<times> 'w client" where
  "DiskManagerClient_Eject env dm diskId = forward env dm (Rq_Eject diskId)"

definition DiskManagerClient_CreateIsoImage :: "client_env \<Rightarrow> 'w IDiskManager \<Rightarrow> string \<Rightarrow> string \<Rightarrow> 'w client \<Rightarrow> errno \<times> 'w client" where
  "DiskManagerClient_CreateIsoImage env dm volumeId filePath = forward env dm (Rq_CreateIsoImage volumeId filePath)"

definition DiskManagerClient_Burn :: "client_env \<Rightarrow> 'w IDiskManager \<Rightarrow> string \<Rightarrow> string \<Rightarrow> 'w client \<Rightarrow> errno \<times> 'w client" where
  "DiskManagerClient_Burn env dm volumeId burnOptions = forward env dm (Rq_Burn volumeId burnOptions)"

definition DiskManagerClient_TryToFix :: "client_env \<Rightarrow> 'w IDiskManager \<Rightarrow> string \<Rightarrow> 'w client \<Rightarrow> errno \<times> 'w client" where
  "DiskManagerClient_TryToFix env dm volumeId = forward env dm (Rq_TryToFix volumeId)"

definition DiskManagerClient_OnBlockDiskUevent :: "client_env \<Rightarrow> 'w IDiskManager \<Rightarrow> string \<Rightarrow> 'w client \<Rightarrow> errno \<times> 'w client" where
  "DiskManagerClient_OnBlockDiskUevent env dm rawUeventMsg = forward env dm (Rq_OnBlockDiskUevent rawUeventMsg)"

definition DiskManagerClient_CreatePartition :: "client_env \<Rightarrow> 'w IDiskManager \<Rightarrow> string \<Rightarrow> PartitionParams \<Rightarrow> 'w client \<Rightarrow> errno \<times> 'w client" where
  "DiskManagerClient_CreatePartition env dm diskId params = forward env dm (Rq_CreatePartition diskId params)"

definition DiskManagerClient_DeletePartition :: "client_env \<Rightarrow> 'w IDiskManager \<Rightarrow> string \<Rightarrow> int \<Rightarrow> 'w client \<Rightarrow> errno \<times> 'w client" where
  "DiskManagerClient_DeletePartition env dm diskId partitionNum = forward env dm (Rq_DeletePartition diskId partitionNum)"

definition DiskManagerClient_FormatPartition :: "client_env \<Rightarrow> 'w IDiskManager \<Rightarrow> string \<Rightarrow> int \<Rightarrow> FormatParams \<Rightarrow> 'w client \<Rightarrow> errno \<times> 'w client" where
  "DiskManagerClient_FormatPartition env dm diskId partitionNum params = forward env dm (Rq_FormatPartition diskId partitionNum params)"

definition DiskManagerClient_DestroyDmCryptVolume :: "client_env \<Rightarrow> 'w IDiskManager \<Rightarrow> string \<Rightarrow> 'w client \<Rightarrow> errno \<times> 'w client" where
  "DiskManagerClient_DestroyDmCryptVolume env dm mapperName = forward env dm (Rq_DestroyDmCryptVolume mapperName)"

definition DiskManagerClient_UnbindBlockLoopDev :: "client_env \<Rightarrow> 'w IDiskManager \<Rightarrow> string \<Rightarrow> 'w client \<Rightarrow> errno \<times> 'w client" where
  "DiskManagerClient_UnbindBlockLoopDev env dm loopPath = forward env dm (Rq_UnbindBlockLoopDev loopPath)"

definition DiskManagerClient_MountVolumeByPath :: "client_env \<Rightarrow> 'w IDiskManager \<Rightarrow> string \<Rightarrow> string \<Rightarrow> MountParam \<Rightarrow> 'w client \<Rightarrow> errno \<times> 'w client" where
  "DiskManagerClient_MountVolumeByPath env dm diskId volPath mountParam = forward env dm (Rq_MountVolumeByPath diskId volPath mountParam)"

definition DiskManagerClient_UmountVolumeByPath :: "client_env \<Rightarrow> 'w IDiskManager \<Rightarrow> string \<Rightarrow> string \<Rightarrow> 'w client \<Rightarrow> errno \<times> 'w client" where
  "DiskManagerClient_UmountVolumeByPath env dm diskId volPath = forward env dm (Rq_UmountVolumeByPath diskId volPath)"

definition DiskManagerClient_NotifyMtpMounted :: "client_env \<Rightarrow> 'w IDiskManager \<Rightarrow> string \<Rightarrow> string \<Rightarrow> string \<Rightarrow> string \<Rightarrow> string \<Rightarrow> 'w client \<Rightarrow>
    errno \<times> 'w client" where
  "DiskManagerClient_NotifyMtpMounted env dm volId path desc uuid fsType s =
     call_service (DiskManagerClient_Connect env s) (\<lambda>err. err)
       (\<lambda>w. case im_send dm (Rq_NotifyMtpMounted volId path desc uuid fsType) w of (err, w1) \<Rightarrow>
          if err \<noteq> E_OK then (err, w1) else (E_OK, w1))"

definition DiskManagerClient_NotifyMtpUnmounted :: "client_env \<Rightarrow> 'w IDiskManager \<Rightarrow> string \<Rightarrow> bool \<Rightarrow> 'w client \<Rightarrow> errno \<times> 'w client" where
  "DiskManagerClient_NotifyMtpUnmounted env dm volId isBadRemove s =
     call_service (DiskManagerClient_Connect env s) (\<lambda>err. err)
       (\<lambda>w. case im_send dm (Rq_NotifyMtpUnmounted volId isBadRemove) w of (err, w1) \<Rightarrow>
          if err \<noteq> E_OK then (err, w1) else (E_OK, w1))"

definition DiskManagerClient_ReportVolumeOpDiag :: "client_env \<Rightarrow> 'w IDiskManager \<Rightarrow> string \<Rightarrow> 'w client \<Rightarrow> errno \<times> 'w client" where
  "DiskManagerClient_ReportVolumeOpDiag env dm opDiag s =
     call_service (DiskManagerClient_ConnectIfPresent env s) (\<lambda>err. err) (im_send dm (Rq_ReportVolumeOpDiag opDiag))"

definition DiskManagerClient_GetAllVolumes :: "client_env \<Rightarrow> 'w IDiskManager \<Rightarrow> VolumeExternal list \<Rightarrow> 'w client \<Rightarrow> (errno \<times> VolumeExternal list) \<times> 'w client" where
  "DiskManagerClient_GetAllVolumes env dm vecOfVol s =
     call_service (DiskManagerClient_ConnectIfPresent env s)
       (\<lambda>err. if err = E_SERVICE_IS_NULLPTR then (E_OK, []) else (err, vecOfVol)) (im_GetAllVolumes dm vecOfVol)"

definition DiskManagerClient_GetAllDisks :: "client_env \<Rightarrow> 'w IDiskManager \<Rightarrow> Disk list \<Rightarrow> 'w client \<Rightarrow> (errno \<times> Disk list) \<times> 'w client" where
  "DiskManagerClient_GetAllDisks env dm vecOfDisk s =
     call_service (DiskManagerClient_ConnectIfPresent env s)
       (\<lambda>err. if err = E_SERVICE_IS_NULLPTR then (E_OK, []) else (err, vecOfDisk)) (im_GetAllDisks dm vecOfDisk)"

definition DiskManagerClient_GetExternalDiskInfos :: "client_env \<Rightarrow> 'w IDiskManager \<Rightarrow> ExternalDiskInfo list \<Rightarrow> 'w client \<Rightarrow> (errno \<times> ExternalDiskInfo list) \<times> 'w client" where
  "DiskManagerClient_GetExternalDiskInfos env dm vecOfDiskInfo s =
     call_service (DiskManagerClient_ConnectIfPresent env s)
       (\<lambda>err. if err = E_SERVICE_IS_NULLPTR then (E_OK, []) else (err, vecOfDiskInfo)) (im_GetExternalDiskInfos dm vecOfDiskInfo)"

definition DiskManagerClient_GetExternalVolumeInfos :: "client_env \<Rightarrow> 'w IDiskManager \<Rightarrow> ExternalVolumeInfo list \<Rightarrow> 'w client \<Rightarrow> (errno \<times> ExternalVolumeInfo list) \<times> 'w client" where
  "DiskManagerClient_GetExternalVolumeInfos env dm vecOfVolInfo s =
     call_service (DiskManagerClient_ConnectIfPresent env s)
       (\<lambda>err. if err = E_SERVICE_IS_NULLPTR then (E_OK, []) else (err, vecOfVolInfo)) (im_GetExternalVolumeInfos dm vecOfVolInfo)"

definition DiskManagerClient_GetVolumeByUuid :: "client_env \<Rightarrow> 'w IDiskManager \<Rightarrow> string \<Rightarrow> VolumeExternal \<Rightarrow> 'w client \<Rightarrow>
    (errno \<times> VolumeExternal) \<times> 'w client" where
  "DiskManagerClient_GetVolumeByUuid env dm uuid vc s =
     call_service (DiskManagerClient_ConnectIfPresent env s)
       (\<lambda>err. if err = E_SERVICE_IS_NULLPTR then (E_NON_EXIST, vc) else (err, vc)) (im_GetVolumeByUuid dm uuid vc)"

definition DiskManagerClient_GetVolumeById :: "client_env \<Rightarrow> 'w IDiskManager \<Rightarrow> string \<Rightarrow> VolumeExternal \<Rightarrow> 'w client \<Rightarrow>
    (errno \<times> VolumeExternal) \<times> 'w client" where
  "DiskManagerClient_GetVolumeById env dm volumeId vc s =
     call_service (DiskManagerClient_ConnectIfPresent env s)
       (\<lambda>err. if err = E_SERVICE_IS_NULLPTR then (E_NON_EXIST, vc) else (err, vc)) (im_GetVolumeById dm volumeId vc)"

definition DiskManagerClient_GetFreeSizeOfVolume :: "client_env \<Rightarrow> 'w IDiskManager \<Rightarrow> string \<Rightarrow> int \<Rightarrow> 'w client \<Rightarrow>
    (errno \<times> int) \<times> 'w client" where
  "DiskManagerClient_GetFreeSizeOfVolume env dm volumeUuid freeSize s =
     call_service (DiskManagerClient_Connect env s) (\<lambda>err. (err, freeSize)) (im_GetFreeSizeOfVolume dm volumeUuid freeSize)"

definition DiskManagerClient_GetTotalSizeOfVolume :: "client_env \<Rightarrow> 'w IDiskManager \<Rightarrow> string \<Rightarrow> int \<Rightarrow> 'w client \<Rightarrow>
    (errno \<times> int) \<times> 'w client" where
  "DiskManagerClient_GetTotalSizeOfVolume env dm volumeUuid totalSize s =
     call_service (DiskManagerClient_Connect env s) (\<lambda>err. (err, totalSize)) (im_GetTotalSizeOfVolume dm volumeUuid totalSize)"

definition DiskManagerClient_GetDiskById :: "client_env \<Rightarrow> 'w IDiskManager \<Rightarrow> string \<Rightarrow> Disk \<Rightarrow> 'w client \<Rightarrow>
    (errno \<times> Disk) \<times> 'w client" where
  "DiskManagerClient_GetDiskById env dm diskId disk s =
     call_service (DiskManagerClient_Connect env s) (\<lambda>err. (err, disk)) (im_GetDiskById dm diskId disk)"

definition DiskManagerClient_GetVolumeOpProcess :: "client_env \<Rightarrow> 'w IDiskManager \<Rightarrow> string \<Rightarrow> int \<Rightarrow> 'w client \<Rightarrow>
    (errno \<times> int) \<times> 'w client" where
  "DiskManagerClient_GetVolumeOpProcess env dm volumeId progressPct s =
     call_service (DiskManagerClient_Connect env s) (\<lambda>err. (err, progressPct)) (im_GetVolumeOpProcess dm volumeId progressPct)"

definition DiskManagerClient_QueryUsbIsInUse :: "client_env \<Rightarrow> 'w IDiskManager \<Rightarrow> string \<Rightarrow> bool \<Rightarrow> 'w client \<Rightarrow>
    (errno \<times> bool) \<times> 'w client" where
  "DiskManagerClient_QueryUsbIsInUse env dm diskPath isInUse s =
     call_service (DiskManagerClient_Connect env s) (\<lambda>err. (err, isInUse)) (im_QueryUsbIsInUse dm diskPath isInUse)"

definition DiskManagerClient_GetPartitionTable :: "client_env \<Rightarrow> 'w IDiskManager \<Rightarrow> string \<Rightarrow> PartitionTableInfo \<Rightarrow> 'w client \<Rightarrow>
    (errno \<times> PartitionTableInfo) \<times> 'w client" where
  "DiskManagerClient_GetPartitionTable env dm diskId out s =
     call_service (DiskManagerClient_Connect env s) (\<lambda>err. (err, out)) (im_GetPartitionTable dm diskId out)"

definition DiskManagerClient_BindBlockLoopDev :: "client_env \<Rightarrow> 'w IDiskManager \<Rightarrow> string \<Rightarrow> int \<Rightarrow> int \<Rightarrow> string \<Rightarrow> 'w client \<Rightarrow>
    (errno \<times> string) \<times> 'w client" where
  "DiskManagerClient_BindBlockLoopDev env dm sysPath offset sizeLimit loopPath s =
     call_service (DiskManagerClient_Connect env s) (\<lambda>err. (err, loopPath)) (im_BindBlockLoopDev dm sysPath offset sizeLimit loopPath)"

definition DiskManagerClient_CreateDmCryptVolume :: "client_env \<Rightarrow> 'w IDiskManager \<Rightarrow> CryptParam \<Rightarrow> string \<Rightarrow> string \<Rightarrow> 'w client \<Rightarrow>
    (errno \<times> string) \<times> 'w client" where
  "DiskManagerClient_CreateDmCryptVolume env dm param loopPath mapperName s =
     call_service (DiskManagerClient_Connect env s) (\<lambda>err. (err, mapperName)) (im_CreateDmCryptVolume dm param loopPath mapperName)"

section \<open>All methods\<close>

text \<open>A request as the call of its method, with the code it returns.\<close>

definition code :: "('s \<Rightarrow> (errno \<times> 'a) \<times> 's) \<Rightarrow> 's \<Rightarrow> errno \<times> 's" where
  "code f s = (case f s of ((err, x), s1) \<Rightarrow> (err, s1))"

definition client_invoke :: "client_env \<Rightarrow> 'w IDiskManager \<Rightarrow> request \<Rightarrow> 'w client \<Rightarrow> errno \<times> 'w client" where
  "client_invoke env dm rq = (case rq of
     Rq_Mount a b \<Rightarrow> DiskManagerClient_Mount env dm a b
   | Rq_Unmount a \<Rightarrow> DiskManagerClient_Unmount env dm a
   | Rq_Format a b \<Rightarrow> DiskManagerClient_Format env dm a b
   | Rq_SetVolumeDescription a b \<Rightarrow> DiskManagerClient_SetVolumeDescription env dm a b
   | Rq_Partition a b \<Rightarrow> DiskManagerClient_Partition env dm a b
   | Rq_Erase a \<Rightarrow> DiskManagerClient_Erase env dm a
   | Rq_Eject a \<Rightarrow> DiskManagerClient_Eject env dm a
   | Rq_CreateIsoImage a b \<Rightarrow> DiskManagerClient_CreateIsoImage env dm a b
   | Rq_Burn a b \<Rightarrow> DiskManagerClient_Burn env dm a b
   | Rq_TryToFix a \<Rightarrow> DiskManagerClient_TryToFix env dm a
   | Rq_OnBlockDiskUevent a \<Rightarrow> DiskManagerClient_OnBlockDiskUevent env dm a
   | Rq_CreatePartition a b \<Rightarrow> DiskManagerClient_CreatePartition env dm a b
   | Rq_DeletePartition a b \<Rightarrow> DiskManagerClient_DeletePartition env dm a b
   | Rq_FormatPartition a b c \<Rightarrow> DiskManagerClient_FormatPartition env dm a b c
   | Rq_DestroyDmCryptVolume a \<Rightarrow> DiskManagerClient_DestroyDmCryptVolume env dm a
   | Rq_UnbindBlockLoopDev a \<Rightarrow> DiskManagerClient_UnbindBlockLoopDev env dm a
   | Rq_MountVolumeByPath a b c \<Rightarrow> DiskManagerClient_MountVolumeByPath env dm a b c
   | Rq_UmountVolumeByPath a b \<Rightarrow> DiskManagerClient_UmountVolumeByPath env dm a b
   | Rq_NotifyMtpMounted a b c e f \<Rightarrow> DiskManagerClient_NotifyMtpMounted env dm a b c e f
   | Rq_NotifyMtpUnmounted a b \<Rightarrow> DiskManagerClient_NotifyMtpUnmounted env dm a b
   | Rq_ReportVolumeOpDiag a \<Rightarrow> DiskManagerClient_ReportVolumeOpDiag env dm a
   | Rq_GetAllVolumes \<Rightarrow> code (DiskManagerClient_GetAllVolumes env dm [])
   | Rq_GetAllDisks \<Rightarrow> code (DiskManagerClient_GetAllDisks env dm [])
   | Rq_GetExternalDiskInfos \<Rightarrow> code (DiskManagerClient_GetExternalDiskInfos env dm [])
   | Rq_GetExternalVolumeInfos \<Rightarrow> code (DiskManagerClient_GetExternalVolumeInfos env dm [])
   | Rq_GetVolumeByUuid a \<Rightarrow> code (DiskManagerClient_GetVolumeByUuid env dm a VolumeExternal_defaults)
   | Rq_GetVolumeById a \<Rightarrow> code (DiskManagerClient_GetVolumeById env dm a VolumeExternal_defaults)
   | Rq_GetFreeSizeOfVolume a \<Rightarrow> code (DiskManagerClient_GetFreeSizeOfVolume env dm a 0)
   | Rq_GetTotalSizeOfVolume a \<Rightarrow> code (DiskManagerClient_GetTotalSizeOfVolume env dm a 0)
   | Rq_GetDiskById a \<Rightarrow> code (DiskManagerClient_GetDiskById env dm a Disk_ctor0)
   | Rq_GetVolumeOpProcess a \<Rightarrow> code (DiskManagerClient_GetVolumeOpProcess env dm a 0)
   | Rq_QueryUsbIsInUse a \<Rightarrow> code (DiskManagerClient_QueryUsbIsInUse env dm a True)
   | Rq_GetPartitionTable a i \<Rightarrow> code (DiskManagerClient_GetPartitionTable env dm a i)
   | Rq_BindBlockLoopDev a b c \<Rightarrow> code (DiskManagerClient_BindBlockLoopDev env dm a b c [])
   | Rq_CreateDmCryptVolume a b c \<Rightarrow> code (DiskManagerClient_CreateDmCryptVolume env dm a b c))"

text \<open>
  The interface with the provider behind it: the generated code carries arguments and results over, and an output
  parameter only when the code is \<open>E_OK\<close>; \<open>dead\<close> is the code of the transport when the service dies within the call.
\<close>

definition answer_code :: "errno \<Rightarrow> errno option \<Rightarrow> errno" where
  "answer_code dead r = (case r of Some e \<Rightarrow> e | None \<Rightarrow> dead)"

definition out_of :: "'a dmop \<Rightarrow> ('a \<Rightarrow> errno \<times> 'b) \<Rightarrow> dm \<Rightarrow> (errno \<times> 'b) \<times> dm" where
  "out_of m f w = (case run_state m w of (r, w1) \<Rightarrow> (f r, w1))"

definition sum_answer :: "'a \<Rightarrow> errno + 'a \<Rightarrow> errno \<times> 'a" where
  "sum_answer x r = (case r of Inl e \<Rightarrow> (e, x) | Inr y \<Rightarrow> (E_OK, y))"

definition pair_answer :: "'a \<Rightarrow> errno \<times> 'a \<Rightarrow> errno \<times> 'a" where
  "pair_answer x r = (case r of (e, y) \<Rightarrow> if e \<noteq> E_OK then (e, x) else (e, y))"

definition provider_stub :: "env \<Rightarrow> caller \<Rightarrow> errno \<Rightarrow> dm IDiskManager" where
  "provider_stub penv cl dead = \<lparr>
     im_send = (\<lambda>rq w. case run_state (serve penv cl rq) w of (r, w1) \<Rightarrow> (answer_code dead r, w1)),
     im_GetAllVolumes = (\<lambda>xs. out_of (DiskManagerProvider_GetAllVolumes penv cl) (sum_answer xs)),
     im_GetAllDisks = (\<lambda>xs. out_of (DiskManagerProvider_GetAllDisks penv cl) (sum_answer xs)),
     im_GetExternalDiskInfos = (\<lambda>xs. out_of (DiskManagerProvider_GetExternalDiskInfos penv cl) (sum_answer xs)),
     im_GetExternalVolumeInfos = (\<lambda>xs. out_of (DiskManagerProvider_GetExternalVolumeInfos penv cl) (sum_answer xs)),
     im_GetVolumeByUuid = (\<lambda>a x. out_of (DiskManagerProvider_GetVolumeByUuid penv cl a) (sum_answer x)),
     im_GetVolumeById = (\<lambda>a x. out_of (DiskManagerProvider_GetVolumeById penv cl a) (sum_answer x)),
     im_GetFreeSizeOfVolume = (\<lambda>a x. out_of (DiskManagerProvider_GetFreeSizeOfVolume penv cl a) (pair_answer x)),
     im_GetTotalSizeOfVolume = (\<lambda>a x. out_of (DiskManagerProvider_GetTotalSizeOfVolume penv cl a) (pair_answer x)),
     im_GetDiskById = (\<lambda>a x. out_of (DiskManagerProvider_GetDiskById penv cl a) (sum_answer x)),
     im_GetVolumeOpProcess = (\<lambda>a x. out_of (DiskManagerProvider_GetVolumeOpProcess penv cl a) (pair_answer x)),
     im_QueryUsbIsInUse = (\<lambda>a x. out_of (DiskManagerProvider_QueryUsbIsInUse penv cl a) (pair_answer x)),
     im_GetPartitionTable = (\<lambda>a x. out_of (DiskManagerProvider_GetPartitionTable penv cl a x) (sum_answer x)),
     im_BindBlockLoopDev = (\<lambda>a b c x. out_of (DiskManagerProvider_BindBlockLoopDev penv cl a b c) (\<lambda>r. case r of Inl e \<Rightarrow> (answer_code dead e, x) | Inr y \<Rightarrow> (E_OK, y))),
     im_CreateDmCryptVolume = (\<lambda>a b x. out_of (DiskManagerProvider_CreateDmCryptVolume penv cl a b x) (sum_answer x))\<rparr>"

section \<open>Without the service\<close>

text \<open>The methods that do not load the service.\<close>

definition only_if_present :: "request \<Rightarrow> bool" where
  "only_if_present rq = (case rq of Rq_GetAllVolumes \<Rightarrow> True | Rq_GetAllDisks \<Rightarrow> True | Rq_GetExternalDiskInfos \<Rightarrow> True
     | Rq_GetExternalVolumeInfos \<Rightarrow> True | Rq_GetVolumeByUuid _ \<Rightarrow> True | Rq_GetVolumeById _ \<Rightarrow> True | Rq_ReportVolumeOpDiag _ \<Rightarrow> True
     | _ \<Rightarrow> False)"

definition connect_for :: "client_env \<Rightarrow> request \<Rightarrow> 'w client \<Rightarrow> errno \<times> 'w client" where
  "connect_for env rq = (if only_if_present rq then DiskManagerClient_ConnectIfPresent env else DiskManagerClient_Connect env)"

lemmas client_defs = forward_def
  DiskManagerClient_Mount_def
  DiskManagerClient_Unmount_def
  DiskManagerClient_Format_def
  DiskManagerClient_SetVolumeDescription_def
  DiskManagerClient_Partition_def
  DiskManagerClient_Erase_def
  DiskManagerClient_Eject_def
  DiskManagerClient_CreateIsoImage_def
  DiskManagerClient_Burn_def
  DiskManagerClient_TryToFix_def
  DiskManagerClient_OnBlockDiskUevent_def
  DiskManagerClient_CreatePartition_def
  DiskManagerClient_DeletePartition_def
  DiskManagerClient_FormatPartition_def
  DiskManagerClient_DestroyDmCryptVolume_def
  DiskManagerClient_UnbindBlockLoopDev_def
  DiskManagerClient_MountVolumeByPath_def
  DiskManagerClient_UmountVolumeByPath_def
  DiskManagerClient_NotifyMtpMounted_def
  DiskManagerClient_NotifyMtpUnmounted_def
  DiskManagerClient_ReportVolumeOpDiag_def
  DiskManagerClient_GetAllVolumes_def
  DiskManagerClient_GetAllDisks_def
  DiskManagerClient_GetExternalDiskInfos_def
  DiskManagerClient_GetExternalVolumeInfos_def
  DiskManagerClient_GetVolumeByUuid_def
  DiskManagerClient_GetVolumeById_def
  DiskManagerClient_GetFreeSizeOfVolume_def
  DiskManagerClient_GetTotalSizeOfVolume_def
  DiskManagerClient_GetDiskById_def
  DiskManagerClient_GetVolumeOpProcess_def
  DiskManagerClient_QueryUsbIsInUse_def
  DiskManagerClient_GetPartitionTable_def
  DiskManagerClient_BindBlockLoopDev_def
  DiskManagerClient_CreateDmCryptVolume_def

text \<open>Every method connects the one way or the other and leaves the service alone when that fails.\<close>

lemma client_invoke_cases:
  assumes "connect_for env rq s = (err, s1)"
  shows "if err = E_OK then \<exists>r w. client_invoke env dm rq s = (r, s1\<lparr>dc_remote := w\<rparr>)
    else \<exists>r. client_invoke env dm rq s = (r, s1)"
  using assms by (cases rq)
    (auto simp: client_invoke_def client_defs connect_for_def only_if_present_def call_service_def code_def split: prod.splits)

lemma connect_for_remote: "connect_for env rq s = (err, s1) \<Longrightarrow> dc_remote s1 = dc_remote s"
  by (auto simp: connect_for_def DiskManagerClient_ConnectIfPresent_def DiskManagerClient_Connect_def InitProxyLocked_def Let_def
      split: if_splits option.splits)

text \<open>
  C29: the queries without a service. When the service is not running, the listings return an empty list and
  success, a volume is reported as not existing, and the service is neither loaded nor called. The same
  answer comes when the service is running but the proxy or its death recipient could not be made: the caller cannot
  tell a failed connection from an empty system.
\<close>
theorem client_queries_without_service:
  assumes "dc_diskManager s = None" "ce_samgr env" "ce_check env = None \<or> \<not> ce_cast env \<or> ce_recipient env = None"
  shows "\<exists>s'. dc_remote s' = dc_remote s \<and> dc_loads s' = dc_loads s \<and> dc_watch s' = dc_watch s \<and> dc_diskManager s' = None \<and>
    DiskManagerClient_GetAllVolumes env dm vols s = ((E_OK, []), s') \<and> DiskManagerClient_GetAllDisks env dm disks s = ((E_OK, []), s') \<and>
    DiskManagerClient_GetExternalDiskInfos env dm edis s = ((E_OK, []), s') \<and>
    DiskManagerClient_GetExternalVolumeInfos env dm evis s = ((E_OK, []), s') \<and>
    DiskManagerClient_GetVolumeByUuid env dm k vc s = ((E_NON_EXIST, vc), s') \<and>
    DiskManagerClient_GetVolumeById env dm k vc s = ((E_NON_EXIST, vc), s')"
proof -
  define s' where "s' = snd (DiskManagerClient_ConnectIfPresent env s)"
  have "fst (DiskManagerClient_ConnectIfPresent env s) = E_SERVICE_IS_NULLPTR"
    using assms by (auto simp: DiskManagerClient_ConnectIfPresent_def InitProxyLocked_def Let_def split: option.splits)
  then have s': "DiskManagerClient_ConnectIfPresent env s = (E_SERVICE_IS_NULLPTR, s')" by (simp add: s'_def prod_eq_iff)
  then have "dc_remote s' = dc_remote s \<and> dc_loads s' = dc_loads s \<and> dc_watch s' = dc_watch s \<and> dc_diskManager s' = None"
    using assms(1) by (auto simp: DiskManagerClient_ConnectIfPresent_def InitProxyLocked_def Let_def split: option.splits if_splits)
  with s' show ?thesis by (intro exI[of _ s']) (simp add: client_defs call_service_def)
qed

text \<open>
  Who starts the service. With the service absent, the calls that load it are exactly the ones other than the
  queries above and the diagnostic report of the storage daemon; each loads it once.
\<close>
theorem client_loads_service:
  assumes "dc_diskManager s = None" "ce_samgr env" "ce_check env = None" "ce_callback env"
  shows "dc_loads (snd (client_invoke env dm rq s)) = (if only_if_present rq then dc_loads s else Suc (dc_loads s))"
proof -
  obtain err s1 where c: "connect_for env rq s = (err, s1)" by fastforce
  then have "dc_loads s1 = (if only_if_present rq then dc_loads s else Suc (dc_loads s))"
    using assms by (auto simp: connect_for_def DiskManagerClient_ConnectIfPresent_def DiskManagerClient_Connect_def
        InitProxyLocked_def Let_def split: if_splits option.splits)
  then show ?thesis using client_invoke_cases[OF c, of dm] by (auto split: if_splits)
qed

section \<open>With the service\<close>

lemma serve_code:
  "client_invoke env (provider_stub penv cl dead) rq s =
     (case connect_for env rq s of (err, s1) \<Rightarrow>
        if err \<noteq> E_OK then client_invoke env (provider_stub penv cl dead) rq s
        else case run_state (serve penv cl rq) (dc_remote s1) of (r, w) \<Rightarrow> (answer_code dead r, s1\<lparr>dc_remote := w\<rparr>))"
  by (cases rq)
    (auto simp: client_invoke_def client_defs connect_for_def only_if_present_def call_service_def code_def provider_stub_def
      out_of_def sum_answer_def pair_answer_def answer_code_def report_def code_of_def split: prod.splits sum.splits option.splits)

text \<open>
  C9: a connected client is the service. Whichever of the methods is called, with the provider at the other end it
  returns the code the provider returns for this caller and the service is in the state the provider leaves,
  also when the connection was just made or the service just loaded; nothing but the request reaches the service.
\<close>
theorem client_serves:
  assumes "connect_for env rq s = (E_OK, s1)"
  shows "client_invoke env (provider_stub penv cl dead) rq s =
    (answer_code dead (fst (run_state (serve penv cl rq) (dc_remote s))), s1\<lparr>dc_remote := snd (run_state (serve penv cl rq) (dc_remote s))\<rparr>)"
  using assms connect_for_remote[OF assms] serve_code[of env penv cl dead rq s] by (simp split: prod.splits)

text \<open>
  Clients keep the service reachable: no call of any method, whatever the system-ability manager answers and
  whoever calls, brings the service into a state that it does not reach by itself, so that all invariants of the
  reachable states hold behind a client, too.
\<close>
theorem client_keeps_service:
  assumes "reachable (dc_remote s)" "others_keep penv dm_inv"
  shows "reachable (dc_remote (snd (client_invoke env (provider_stub penv cl dead) rq s)))"
proof -
  obtain err s1 where c: "connect_for env rq s = (err, s1)" by fastforce
  show ?thesis
  proof (cases "err = E_OK")
    case True
    then have "dc_remote (snd (client_invoke env (provider_stub penv cl dead) rq s)) = snd (run_state (dispatch penv (Request cl rq)) (dc_remote s))"
      using serve_code[of env penv cl dead rq s] c connect_for_remote[OF c] by (simp split: prod.splits)
    then show ?thesis using reachable_step[OF assms, of "Request cl rq"] by simp
  next
    case False
    then show ?thesis using client_invoke_cases[OF c, of "provider_stub penv cl dead"] connect_for_remote[OF c] assms(1) by auto
  qed
qed

section \<open>The watch over the service\<close>

datatype client_event = Call client_env request | ServiceDied | Reset

definition client_step :: "'w IDiskManager \<Rightarrow> client_event \<Rightarrow> 'w client \<Rightarrow> 'w client" where
  "client_step dm ev s = (case ev of Call env rq \<Rightarrow> snd (client_invoke env dm rq s) | ServiceDied \<Rightarrow> DmDeathRecipient_OnRemoteDied s
     | Reset \<Rightarrow> snd (ResetProxy s))"

definition client_start :: "'w \<Rightarrow> 'w client" where
  "client_start w = \<lparr>dc_diskManager = None, dc_deathRecipient = None, dc_watch = {}, dc_loads = 0, dc_remote = w\<rparr>"

definition client_link :: "'w client \<Rightarrow> link" where
  "client_link s = (dc_diskManager s, dc_deathRecipient s, dc_watch s)"

definition call_registers :: "client_env \<Rightarrow> bool" where
  "call_registers env \<longleftrightarrow> ce_object env \<and> ce_registers env"

definition client_registers :: "client_event \<Rightarrow> bool" where
  "client_registers ev = (case ev of Call env rq \<Rightarrow> call_registers env | _ \<Rightarrow> True)"

lemma connect_for_moves:
  "connect_for env rq s = (err, s1) \<Longrightarrow> (link_step (call_registers env))\<^sup>*\<^sup>* (client_link s) (client_link s1)"
  by (auto simp: client_link_def connect_for_def DiskManagerClient_ConnectIfPresent_def DiskManagerClient_Connect_def call_registers_def
      InitProxyLocked_def Let_def split: if_splits option.splits intro!: r_into_rtranclp link_connect link_unregistered link_idle)

lemma client_invoke_moves: "(link_step (call_registers env))\<^sup>*\<^sup>* (client_link s) (client_link (snd (client_invoke env dm rq s)))"
proof -
  obtain err s1 where c: "connect_for env rq s = (err, s1)" by fastforce
  have "client_link (snd (client_invoke env dm rq s)) = client_link s1"
    using client_invoke_cases[OF c, of dm] by (auto simp: client_link_def split: if_splits)
  then show ?thesis using connect_for_moves[OF c] by simp
qed

lemma ResetProxy_moves: "(link_step full)\<^sup>*\<^sup>* (client_link s) (client_link (snd (ResetProxy s)))"
proof (cases "dc_diskManager s")
  case None
  then show ?thesis using link_idle[of full "dc_deathRecipient s" "dc_watch s" None] by (auto simp: client_link_def ResetProxy_def)
next
  case (Some obj)
  then have "client_link (snd (ResetProxy s)) = (None, None, dc_watch s - registration (Some obj) (dc_deathRecipient s))"
    by (cases "dc_deathRecipient s") (simp_all add: client_link_def ResetProxy_def)
  then show ?thesis using Some link_drop[of full obj "dc_deathRecipient s" "dc_watch s"] by (auto simp: client_link_def)
qed

interpretation service_link: remote_link client_link "client_step dm" "\<lambda>_. True" client_registers client_start for dm
proof unfold_locales
  show "client_link (client_start a) = (None, None, {})" for a by (simp add: client_link_def client_start_def)
  show "(link_step (client_registers e))\<^sup>*\<^sup>* (client_link s) (client_link (client_step dm e s))" for e s
    by (cases e) (simp_all add: client_step_def client_registers_def DmDeathRecipient_OnRemoteDied_def client_invoke_moves ResetProxy_moves)
qed

text \<open>
  The client watches its connection: through any sequence of calls, deaths of the service and resets, with
  failing allocations, too, no registration is left behind, and as long as registrations succeed a proxy is kept only together with its
  one registered death recipient, so that the death of the service is noticed and the next call connects anew.
\<close>
theorem client_watched:
  "tidy_link (client_link (fold (client_step dm) evs (client_start w))) \<and>
   (list_all client_registers evs \<longrightarrow> watched_link (client_link (fold (client_step dm) evs (client_start w))))"
  using service_link.always_tidy[of evs dm w] service_link.always_watched[of evs dm w] by (simp add: list_all_iff)

section \<open>Witnesses\<close>

definition demo_client_env :: client_env where
  "demo_client_env = \<lparr>ce_samgr = True, ce_check = None, ce_callback = True, ce_load = 0, ce_notified = True, ce_success = True,
     ce_loaded = Some 3, ce_cast = True, ce_recipient = Some 1, ce_object = True, ce_registers = True\<rparr>"

definition demo_service :: "dm IDiskManager" where
  "demo_service = provider_stub (calm (\<lambda>h c. ok_reply)) plain_app 29189"

definition no_memory :: client_env where
  "no_memory = demo_client_env\<lparr>ce_check := Some 3, ce_recipient := None\<rparr>"

theorem client_queries_without_service_witness:
  "fst (DiskManagerClient_GetAllVolumes no_memory demo_service [] (client_start init_dm)) = (E_OK, [])"
proof -
  have "dc_diskManager (client_start init_dm) = None" "ce_samgr no_memory"
    "ce_check no_memory = None \<or> \<not> ce_cast no_memory \<or> ce_recipient no_memory = None"
    by (simp_all add: client_start_def no_memory_def demo_client_env_def)
  then show ?thesis
    using client_queries_without_service[of "client_start init_dm" no_memory demo_service "[]" "[]" "[]" "[]" "[]" VolumeExternal_defaults]
    by (metis fst_conv)
qed

theorem client_loads_service_witness:
  "dc_loads (snd (client_invoke demo_client_env demo_service (Rq_Unmount ''vol-8-1'') (client_start init_dm))) = 1"
  using client_loads_service[of "client_start init_dm" demo_client_env demo_service "Rq_Unmount ''vol-8-1''"]
  by (simp add: client_start_def demo_client_env_def only_if_present_def)

theorem client_serves_witness:
  "fst (client_invoke demo_client_env demo_service (Rq_Unmount ''vol-8-1'') (client_start init_dm)) =
     answer_code 29189 (fst (run_state (serve (calm (\<lambda>h c. ok_reply)) plain_app (Rq_Unmount ''vol-8-1'')) init_dm))"
proof -
  let ?s1 = "\<lparr>dc_diskManager = Some 3, dc_deathRecipient = Some 1, dc_watch = {(3, 1)}, dc_loads = 1, dc_remote = init_dm\<rparr>"
  have "connect_for demo_client_env (Rq_Unmount ''vol-8-1'') (client_start init_dm) = (E_OK, ?s1)"
    by (simp add: connect_for_def only_if_present_def DiskManagerClient_Connect_def InitProxyLocked_def client_start_def demo_client_env_def)
  from client_serves[OF this] show ?thesis by (simp add: demo_service_def client_start_def)
qed

theorem client_keeps_service_witness:
  "reachable (dc_remote (snd (client_invoke demo_client_env demo_service (Rq_Unmount ''vol-8-1'') (client_start init_dm))))"
  unfolding demo_service_def
  by (rule client_keeps_service) (simp_all add: client_start_def reachable_init others_keep_quiet[OF quiet_calm])

theorem client_watched_witness:
  "watched_link (client_link (fold (client_step demo_service)
     [Call demo_client_env (Rq_Unmount ''vol-8-1''), ServiceDied, Call no_memory Rq_GetAllDisks, Call demo_client_env Rq_GetAllVolumes, Reset]
     (client_start init_dm)))"
  by (rule mp[OF conjunct2[OF client_watched]]) (simp add: client_registers_def call_registers_def demo_client_env_def no_memory_def)

end
