(* ===== verification/Dm_Taihe.thy ===== *)
theory Dm_Taihe
  imports Dm_Client
begin

text \<open>
  The error numbers applications see (\<^verbatim>\<open>common/include/disk_manager_napi_errno.h\<close> and
  \<^verbatim>\<open>interfaces/kits/js/common/src/disk_manager_napi_utils.cpp\<close>) and the Taihe bindings
  (\<^verbatim>\<open>interfaces/kits/taihe\<close>), which call the client library synchronously, convert its results and raise the
  converted error. What lies outside the repository is the record \<open>taihe_env\<close>: the tokens of the caller, the names of
  negative system errors, the enumeration of disk types, the JSON parser and the reflection that turns the
  parameters of a \<open>Want\<close> into text.
\<close>

section \<open>Error numbers\<close>

datatype (plugins only: code size) DiskManagerNativeErr =
    NE_OK | NE_PERMISSION_DENIED | NE_PARAMS_INVALID | NE_NON_EXIST | NE_PREPARE_DIR | NE_DESTROY_DIR |
    NE_NOT_SUPPORT | NE_SYS_KERNEL_ERR | NE_WRITE_PARCEL_ERR | NE_WRITE_REPLY_ERR | NE_WRITE_DESCRIPTOR_ERR |
    NE_SA_IS_NULLPTR | NE_REMOTE_IS_NULLPTR | NE_SERVICE_IS_NULLPTR | NE_DEATH_RECIPIENT_IS_NULLPTR |
    NE_SYS_APP_PERMISSION_DENIED | NE_SET_POLICY | NE_USERID_RANGE | NE_BUNDLEMGR_ERROR | NE_MEDIALIBRARY_ERROR |
    NE_GET_EXT_BUNDLE_STATS_ERROR | NE_SET_EXT_BUNDLE_STATS_ERROR | NE_GET_ALL_EXT_BUNDLE_STATS_ERROR |
    NE_GET_INODE_ERROR | NE_GET_SYSTEM_DATA_SIZE_ERROR | NE_GET_BUNDLE_INODES_ERROR | NE_VOL_STATE | NE_VOL_MOUNT_ERR |
    NE_VOL_UMOUNT_ERR | NE_UMOUNT_BUSY | NE_NO_CHILD | NE_GET_PARTITION_ERROR | NE_CREATE_PARTITION_NOT_SUPPORT |
    NE_CREATE_PARTITION_ERROR | NE_DELETE_PARTITION_NOT_SUPPORT | NE_DELETE_PARTITION_ERROR |
    NE_FORMAT_PARTITION_NOT_SUPPORT | NE_FORMAT_PARTITION_ERROR | NE_QUERY_VOLUME_IN_USE_ERROR | NE_EMPTY_DISC |
    NE_ISO_WRITE_FAILED | NE_ERASE_FAILED | NE_EJECT_FAILED | NE_BURN_FAILED | NE_BURN_NOSPC | NE_BUSY

primrec nerr :: "DiskManagerNativeErr \<Rightarrow> int" where
  "nerr NE_OK = 0"
| "nerr NE_PERMISSION_DENIED = 13600000 + 1"
| "nerr NE_PARAMS_INVALID = 13600000 + 2"
| "nerr NE_NON_EXIST = 13600000 + 4"
| "nerr NE_PREPARE_DIR = 13600000 + 5"
| "nerr NE_DESTROY_DIR = 13600000 + 6"
| "nerr NE_NOT_SUPPORT = 13600000 + 7"
| "nerr NE_SYS_KERNEL_ERR = 13600000 + 8"
| "nerr NE_WRITE_PARCEL_ERR = 13600000 + 9"
| "nerr NE_WRITE_REPLY_ERR = 13600000 + 10"
| "nerr NE_WRITE_DESCRIPTOR_ERR = 13600000 + 11"
| "nerr NE_SA_IS_NULLPTR = 13600000 + 12"
| "nerr NE_REMOTE_IS_NULLPTR = 13600000 + 13"
| "nerr NE_SERVICE_IS_NULLPTR = 13600000 + 14"
| "nerr NE_DEATH_RECIPIENT_IS_NULLPTR = 13600000 + 16"
| "nerr NE_SYS_APP_PERMISSION_DENIED = 13600000 + 25"
| "nerr NE_SET_POLICY = 13600000 + 201"
| "nerr NE_USERID_RANGE = 13600000 + 202"
| "nerr NE_BUNDLEMGR_ERROR = 13600000 + 1201"
| "nerr NE_MEDIALIBRARY_ERROR = 13600000 + 1202"
| "nerr NE_GET_EXT_BUNDLE_STATS_ERROR = 13600000 + 1223"
| "nerr NE_SET_EXT_BUNDLE_STATS_ERROR = 13600000 + 1224"
| "nerr NE_GET_ALL_EXT_BUNDLE_STATS_ERROR = 13600000 + 1226"
| "nerr NE_GET_INODE_ERROR = 13600000 + 1229"
| "nerr NE_GET_SYSTEM_DATA_SIZE_ERROR = 13600000 + 1232"
| "nerr NE_GET_BUNDLE_INODES_ERROR = 13600000 + 1233"
| "nerr NE_VOL_STATE = 13600000 + 1701"
| "nerr NE_VOL_MOUNT_ERR = 13600000 + 1702"
| "nerr NE_VOL_UMOUNT_ERR = 13600000 + 1703"
| "nerr NE_UMOUNT_BUSY = 13600000 + 1704"
| "nerr NE_NO_CHILD = 13600000 + 1705"
| "nerr NE_GET_PARTITION_ERROR = 13600000 + 1739"
| "nerr NE_CREATE_PARTITION_NOT_SUPPORT = 13600000 + 1740"
| "nerr NE_CREATE_PARTITION_ERROR = 13600000 + 1742"
| "nerr NE_DELETE_PARTITION_NOT_SUPPORT = 13600000 + 1743"
| "nerr NE_DELETE_PARTITION_ERROR = 13600000 + 1745"
| "nerr NE_FORMAT_PARTITION_NOT_SUPPORT = 13600000 + 1748"
| "nerr NE_FORMAT_PARTITION_ERROR = 13600000 + 1750"
| "nerr NE_QUERY_VOLUME_IN_USE_ERROR = 13600000 + 1751"
| "nerr NE_EMPTY_DISC = 13600000 + 1801"
| "nerr NE_ISO_WRITE_FAILED = 13600000 + 1802"
| "nerr NE_ERASE_FAILED = 13600000 + 1803"
| "nerr NE_EJECT_FAILED = 13600000 + 1804"
| "nerr NE_BURN_FAILED = 13600000 + 1805"
| "nerr NE_BURN_NOSPC = 13600000 + 1806"
| "nerr NE_BUSY = 13600000 + 1907"

datatype (plugins only: code size) DiskManagerJsErr =
    JE_PERMISSION | JE_PERMISSION_SYS | JE_PARAMS | JE_DEVICENOTSUPPORT | JE_OSNOTSUPPORT | JE_IPCSS | JE_SUPPORTEDFS |
    JE_MOUNT_ERR | JE_UNMOUNT | JE_VOLUMESTATE | JE_PREPARE | JE_DELETE | JE_NOOBJECT | JE_OUTOFRANGE |
    JE_JS_PARAMS_INVALID | JE_JS_SET_EXT_BUNDLE_STATS_ERROR | JE_JS_GET_EXT_BUNDLE_STATS_ERROR |
    JE_JS_GET_ALL_EXT_BUNDLE_STATS_ERROR | JE_JS_RETRY_ERROR | JE_JS_GET_INODE_ERROR | JE_JS_GET_BUNDLE_INODES_ERROR |
    JE_JS_GET_SYSTEM_DATA_SIZE_ERROR | JE_JS_GET_PARTITION_ERROR | JE_JS_CREATE_PARTITION_ERROR |
    JE_JS_DELETE_PARTITION_ERROR | JE_JS_EMPTY_DISC | JE_JS_ISO_WRITE_FAILED | JE_JS_ERASE_FAILED |
    JE_JS_EJECT_FAILED | JE_JS_BURN_FAILED | JE_JS_BURN_NOSPC | JE_JS_FORMAT_PARTITION_ERROR |
    JE_JS_QUERY_VOLUME_IN_USE_ERROR | JE_JS_BUSY

primrec jerr :: "DiskManagerJsErr \<Rightarrow> int" where
  "jerr JE_PERMISSION = 201"
| "jerr JE_PERMISSION_SYS = 202"
| "jerr JE_PARAMS = 401"
| "jerr JE_DEVICENOTSUPPORT = 801"
| "jerr JE_OSNOTSUPPORT = 901"
| "jerr JE_IPCSS = 13600000 + 1"
| "jerr JE_SUPPORTEDFS = 13600000 + 2"
| "jerr JE_MOUNT_ERR = 13600000 + 3"
| "jerr JE_UNMOUNT = 13600000 + 4"
| "jerr JE_VOLUMESTATE = 13600000 + 5"
| "jerr JE_PREPARE = 13600000 + 6"
| "jerr JE_DELETE = 13600000 + 7"
| "jerr JE_NOOBJECT = 13600000 + 8"
| "jerr JE_OUTOFRANGE = 13600000 + 9"
| "jerr JE_JS_PARAMS_INVALID = 13600000 + 10"
| "jerr JE_JS_SET_EXT_BUNDLE_STATS_ERROR = 13600000 + 11"
| "jerr JE_JS_GET_EXT_BUNDLE_STATS_ERROR = 13600000 + 12"
| "jerr JE_JS_GET_ALL_EXT_BUNDLE_STATS_ERROR = 13600000 + 13"
| "jerr JE_JS_RETRY_ERROR = 13600000 + 14"
| "jerr JE_JS_GET_INODE_ERROR = 13600000 + 16"
| "jerr JE_JS_GET_BUNDLE_INODES_ERROR = 13600000 + 17"
| "jerr JE_JS_GET_SYSTEM_DATA_SIZE_ERROR = 13600000 + 18"
| "jerr JE_JS_GET_PARTITION_ERROR = 13600000 + 21"
| "jerr JE_JS_CREATE_PARTITION_ERROR = 13600000 + 22"
| "jerr JE_JS_DELETE_PARTITION_ERROR = 13600000 + 23"
| "jerr JE_JS_EMPTY_DISC = 13600000 + 24"
| "jerr JE_JS_ISO_WRITE_FAILED = 13600000 + 25"
| "jerr JE_JS_ERASE_FAILED = 13600000 + 26"
| "jerr JE_JS_EJECT_FAILED = 13600000 + 27"
| "jerr JE_JS_BURN_FAILED = 13600000 + 28"
| "jerr JE_JS_BURN_NOSPC = 13900025"
| "jerr JE_JS_FORMAT_PARTITION_ERROR = 13600000 + 32"
| "jerr JE_JS_QUERY_VOLUME_IN_USE_ERROR = 13600000 + 33"
| "jerr JE_JS_BUSY = 13600000 + 34"

definition errCodeTable :: "(int \<times> int) list" where
  "errCodeTable = [
     (nerr NE_PERMISSION_DENIED, jerr JE_PERMISSION), (nerr NE_WRITE_DESCRIPTOR_ERR, jerr JE_IPCSS),
     (nerr NE_NON_EXIST, jerr JE_NOOBJECT), (nerr NE_PREPARE_DIR, jerr JE_PREPARE),
     (nerr NE_DESTROY_DIR, jerr JE_DELETE), (nerr NE_VOL_MOUNT_ERR, jerr JE_MOUNT_ERR),
     (nerr NE_VOL_UMOUNT_ERR, jerr JE_UNMOUNT), (nerr NE_SET_POLICY, nerr NE_SET_POLICY),
     (nerr NE_USERID_RANGE, jerr JE_OUTOFRANGE), (nerr NE_VOL_STATE, jerr JE_VOLUMESTATE),
     (nerr NE_UMOUNT_BUSY, jerr JE_VOLUMESTATE), (nerr NE_NOT_SUPPORT, jerr JE_SUPPORTEDFS),
     (nerr NE_SYS_KERNEL_ERR, jerr JE_UNMOUNT), (nerr NE_NO_CHILD, nerr NE_NO_CHILD),
     (nerr NE_WRITE_PARCEL_ERR, jerr JE_IPCSS), (nerr NE_WRITE_REPLY_ERR, jerr JE_IPCSS),
     (nerr NE_SA_IS_NULLPTR, jerr JE_IPCSS), (nerr NE_REMOTE_IS_NULLPTR, jerr JE_IPCSS),
     (nerr NE_SERVICE_IS_NULLPTR, jerr JE_IPCSS), (nerr NE_BUNDLEMGR_ERROR, jerr JE_IPCSS),
     (nerr NE_MEDIALIBRARY_ERROR, jerr JE_IPCSS), (nerr NE_DEATH_RECIPIENT_IS_NULLPTR, jerr JE_IPCSS),
     (nerr NE_PARAMS_INVALID, jerr JE_JS_PARAMS_INVALID), (nerr NE_SYS_APP_PERMISSION_DENIED, jerr JE_PERMISSION_SYS),
     (nerr NE_SET_EXT_BUNDLE_STATS_ERROR, jerr JE_JS_SET_EXT_BUNDLE_STATS_ERROR),
     (nerr NE_GET_EXT_BUNDLE_STATS_ERROR, jerr JE_JS_GET_EXT_BUNDLE_STATS_ERROR),
     (nerr NE_GET_ALL_EXT_BUNDLE_STATS_ERROR, jerr JE_JS_GET_ALL_EXT_BUNDLE_STATS_ERROR),
     (nerr NE_GET_SYSTEM_DATA_SIZE_ERROR, jerr JE_JS_GET_SYSTEM_DATA_SIZE_ERROR),
     (nerr NE_GET_INODE_ERROR, jerr JE_JS_GET_INODE_ERROR),
     (nerr NE_GET_BUNDLE_INODES_ERROR, jerr JE_JS_GET_BUNDLE_INODES_ERROR),
     (nerr NE_GET_PARTITION_ERROR, jerr JE_JS_GET_PARTITION_ERROR),
     (nerr NE_CREATE_PARTITION_ERROR, jerr JE_JS_CREATE_PARTITION_ERROR),
     (nerr NE_DELETE_PARTITION_ERROR, jerr JE_JS_DELETE_PARTITION_ERROR),
     (nerr NE_FORMAT_PARTITION_ERROR, jerr JE_JS_FORMAT_PARTITION_ERROR),
     (nerr NE_CREATE_PARTITION_NOT_SUPPORT, jerr JE_SUPPORTEDFS),
     (nerr NE_DELETE_PARTITION_NOT_SUPPORT, jerr JE_SUPPORTEDFS),
     (nerr NE_FORMAT_PARTITION_NOT_SUPPORT, jerr JE_SUPPORTEDFS), (nerr NE_EMPTY_DISC, jerr JE_JS_EMPTY_DISC),
     (nerr NE_ISO_WRITE_FAILED, jerr JE_JS_ISO_WRITE_FAILED), (nerr NE_ERASE_FAILED, jerr JE_JS_ERASE_FAILED),
     (nerr NE_EJECT_FAILED, jerr JE_JS_EJECT_FAILED), (nerr NE_BURN_FAILED, jerr JE_JS_BURN_FAILED),
     (nerr NE_BURN_NOSPC, jerr JE_JS_BURN_NOSPC),
     (nerr NE_QUERY_VOLUME_IN_USE_ERROR, jerr JE_JS_QUERY_VOLUME_IN_USE_ERROR)]"

definition Convert2JsErrNum :: "int \<Rightarrow> int" where
  "Convert2JsErrNum errNum = (case map_of errCodeTable errNum of Some e \<Rightarrow> e | None \<Rightarrow> errNum)"

text \<open>\<open>ConvertUVCode2ErrCode\<close>: negative codes are named by the event library and looked up in a table of the file library.\<close>

record taihe_env =
  tn_uv :: "int \<Rightarrow> int option"
  UNKROWN_ERR :: int
  tn_systemApp :: bool
  tn_granted :: "string list"
  tn_diskType :: "int \<Rightarrow> nat"
  tn_client :: client_env
  tn_ani :: bool
  tn_parameters :: bool
  tn_jsonClass :: bool
  tn_jsonMethod :: bool
  tn_stringify :: "string option"
  tn_parse :: "string \<Rightarrow> json option"

definition ConvertUVCode2ErrCode :: "taihe_env \<Rightarrow> int \<Rightarrow> int" where
  "ConvertUVCode2ErrCode te errCode =
     (if errCode \<ge> 0 then errCode else case tn_uv te errCode of Some e \<Rightarrow> e | None \<Rightarrow> UNKROWN_ERR te)"

definition STORAGE_TAIHE_ERR_MAP :: "(int \<times> int \<times> string) list" where
  "STORAGE_TAIHE_ERR_MAP = [
     (jerr JE_PERMISSION, 201, ''Permission verification failed''),
     (jerr JE_PERMISSION_SYS, 202, ''The caller is not a system application''),
     (jerr JE_PARAMS, 401, ''The input parameter is invalid''),
     (jerr JE_DEVICENOTSUPPORT, 801, ''The device doesn'' @ CHR 0x27 # ''t support this api''),
     (jerr JE_OSNOTSUPPORT, 901, ''The os doesn'' @ CHR 0x27 # ''t support this api''),
     (jerr JE_IPCSS, 13600001, ''IPC error. Possible causes: 1.IPC failed or timed out. 2.Failed to load the service''),
     (jerr JE_SUPPORTEDFS, 13600002, ''Not supported filesystem''),
     (jerr JE_MOUNT_ERR, 13600003, ''Failed to mount''),
     (jerr JE_UNMOUNT, 13600004, ''Failed to unmount''),
     (jerr JE_VOLUMESTATE, 13600005, ''Incorrect volume state''),
     (jerr JE_PREPARE, 13600006, ''Prepare directory or node error''),
     (jerr JE_DELETE, 13600007, ''Delete directory or node error''),
     (jerr JE_NOOBJECT, 13600008, ''No such object''),
     (jerr JE_OUTOFRANGE, 13600009, ''User id out of range''),
     (jerr JE_JS_PARAMS_INVALID, 13600010, ''invalid params''),
     (jerr JE_JS_SET_EXT_BUNDLE_STATS_ERROR, 13600011, ''set ext bundle failed''),
     (jerr JE_JS_GET_EXT_BUNDLE_STATS_ERROR, 13600012, ''get ext bundle failed''),
     (jerr JE_JS_GET_ALL_EXT_BUNDLE_STATS_ERROR, 13600013, ''get all ext bundle failed''),
     (jerr JE_JS_RETRY_ERROR, 13600014, ''retry failed''),
     (jerr JE_JS_GET_INODE_ERROR, 13600016, ''Fail to query the inode information of the data partition''),
     (jerr JE_JS_GET_BUNDLE_INODES_ERROR, 13600017, ''Fail to query the inode information of the application''),
     (jerr JE_JS_GET_SYSTEM_DATA_SIZE_ERROR, 13600018, ''Failed to query the system data size''),
     (jerr JE_JS_GET_PARTITION_ERROR, 13600021, ''Failed to get partition table info''),
     (jerr JE_JS_CREATE_PARTITION_ERROR, 13600022, ''Failed to create partition''),
     (jerr JE_JS_DELETE_PARTITION_ERROR, 13600023, ''Failed to delete partition''),
     (jerr JE_JS_FORMAT_PARTITION_ERROR, 13600032, ''Failed to format partition''),
     (jerr JE_JS_QUERY_VOLUME_IN_USE_ERROR, 13600033, ''Failed to query volume is in use'')]"

definition UNKNOWN_MESSAGE :: string where
  "UNKNOWN_MESSAGE = ''Unknown error. Possible causes: 1.Insufficient memory.'' @
     ''2.Memory operation error. 3.Null pointer. 4.Failed to obtain expected resources.''"

definition Convert :: "taihe_env \<Rightarrow> int \<Rightarrow> int" where
  "Convert te errCode =
     (case map_of STORAGE_TAIHE_ERR_MAP (ConvertUVCode2ErrCode te errCode) of Some (c, m) \<Rightarrow> c | None \<Rightarrow> UNKROWN_ERR te)"

definition ToMessage :: "taihe_env \<Rightarrow> int \<Rightarrow> string" where
  "ToMessage te errCode =
     (case map_of STORAGE_TAIHE_ERR_MAP (ConvertUVCode2ErrCode te errCode) of Some (c, m) \<Rightarrow> m | None \<Rightarrow> UNKNOWN_MESSAGE)"

text \<open>The business error the runtime throws when the function returns.\<close>

definition SetStorageTaiheError :: "taihe_env \<Rightarrow> int \<Rightarrow> int \<times> string" where
  "SetStorageTaiheError te error_code =
     (Convert te (Convert2JsErrNum error_code), ToMessage te (Convert2JsErrNum error_code))"

section \<open>The data types of the interface\<close>

record taihe_Volume =
  tv_id :: string
  tv_uuid :: string
  tv_diskId :: string
  tv_description :: string
  tv_removable :: bool
  tv_state :: int
  tv_path :: string
  tv_fsType :: string
  tv_extraInfo :: string
  tv_partitionNum :: int

record taihe_Disk =
  td_diskId :: string
  td_sizeBytes :: int
  td_diskType :: nat
  td_removable :: bool
  td_volumeIds :: "string list"
  td_extraInfo :: string

record taihe_PartitionInfo =
  tp_partitionNum :: int
  tp_diskId :: string
  tp_startSector :: int
  tp_endSector :: int
  tp_sizeBytes :: int
  tp_fsType :: string

record taihe_PartitionTableInfo =
  tt_diskId :: string
  tt_tableType :: string
  tt_partitionCount :: int
  tt_totalSector :: int
  tt_sectorSize :: int
  tt_alignSector :: int
  tt_partitions :: "taihe_PartitionInfo list"

text \<open>The parameters of a format; the two optional fields.\<close>

record taihe_FormatParams =
  tf_fsType :: string
  tf_quickFormat :: "bool option"
  tf_volumeName :: "string option"

definition empty_Volume :: taihe_Volume where
  "empty_Volume = \<lparr>tv_id = [], tv_uuid = [], tv_diskId = [], tv_description = [], tv_removable = True, tv_state = 0, tv_path = [],
     tv_fsType = [], tv_extraInfo = [], tv_partitionNum = 0\<rparr>"

definition to_Volume :: "VolumeExternal \<Rightarrow> taihe_Volume" where
  "to_Volume v = \<lparr>tv_id = vc_id v, tv_uuid = ve_fsUuid v, tv_diskId = vc_diskId v, tv_description = ve_description v, tv_removable = True,
     tv_state = vc_state v, tv_path = ve_path v, tv_fsType = GetFsTypeString v, tv_extraInfo = vc_extraInfo v,
     tv_partitionNum = ve_partitionNum v\<rparr>"

definition MakeEmptyTaiheDisk :: "taihe_env \<Rightarrow> taihe_Disk" where
  "MakeEmptyTaiheDisk te = \<lparr>td_diskId = [], td_sizeBytes = 0, td_diskType = tn_diskType te (dt_code DISK_TYPE_UNKNOWN), td_removable = False,
     td_volumeIds = [], td_extraInfo = []\<rparr>"

definition to_Disk :: "taihe_env \<Rightarrow> Disk \<Rightarrow> taihe_Disk" where
  "to_Disk te d = \<lparr>td_diskId = d_diskId d, td_sizeBytes = d_sizeBytes d, td_diskType = tn_diskType te (d_diskType d),
     td_removable = d_removable d, td_volumeIds = d_volumeIds d, td_extraInfo = d_extraInfo d\<rparr>"

definition to_PartitionInfo :: "PartitionInfo \<Rightarrow> taihe_PartitionInfo" where
  "to_PartitionInfo p = \<lparr>tp_partitionNum = pi_partitionNum p, tp_diskId = pi_diskId p, tp_startSector = pi_startSector p,
     tp_endSector = pi_endSector p, tp_sizeBytes = pi_sizeBytes p, tp_fsType = pi_fsType p\<rparr>"

definition empty_PartitionTableInfo :: taihe_PartitionTableInfo where
  "empty_PartitionTableInfo = \<lparr>tt_diskId = [], tt_tableType = [], tt_partitionCount = 0, tt_totalSector = 0, tt_sectorSize = 0,
     tt_alignSector = 0, tt_partitions = []\<rparr>"

definition to_PartitionTableInfo :: "PartitionTableInfo \<Rightarrow> taihe_PartitionTableInfo" where
  "to_PartitionTableInfo t = \<lparr>tt_diskId = pt_diskId t, tt_tableType = pt_tableType t, tt_partitionCount = pt_partitionCount t,
     tt_totalSector = pt_totalSector t, tt_sectorSize = pt_sectorSize t, tt_alignSector = pt_alignSector t,
     tt_partitions = map to_PartitionInfo (pt_partitions t)\<rparr>"

section \<open>The functions\<close>

text \<open>A function returns its value, the business error it set, and the state of the client.\<close>

type_synonym ('a, 'w) taihe = "'w client \<Rightarrow> ('a \<times> (int \<times> string) option) \<times> 'w client"

definition taihe_raise :: "taihe_env \<Rightarrow> int \<Rightarrow> 'a \<Rightarrow> ('a, 'w) taihe" where
  "taihe_raise te e x s = ((x, Some (SetStorageTaiheError te e)), s)"

definition taihe_void :: "taihe_env \<Rightarrow> ('w client \<Rightarrow> errno \<times> 'w client) \<Rightarrow> (unit, 'w) taihe" where
  "taihe_void te m s = (case m s of (errNum, s1) \<Rightarrow>
     if errNum \<noteq> E_OK then taihe_raise te errNum () s1 else (((), None), s1))"

definition taihe_value :: "taihe_env \<Rightarrow> 'b \<Rightarrow> ('a \<Rightarrow> 'b) \<Rightarrow> ('w client \<Rightarrow> (errno \<times> 'a) \<times> 'w client) \<Rightarrow> ('b, 'w) taihe" where
  "taihe_value te none_val f m s = (case m s of ((errNum, x), s1) \<Rightarrow>
     if errNum \<noteq> E_OK then taihe_raise te errNum none_val s1 else ((f x, None), s1))"

definition GetVolumeByUuidSync :: "taihe_env \<Rightarrow> 'w IDiskManager \<Rightarrow> string \<Rightarrow> (taihe_Volume, 'w) taihe" where
  "GetVolumeByUuidSync te dm uuid =
     taihe_value te empty_Volume to_Volume (DiskManagerClient_GetVolumeByUuid (tn_client te) dm (c_str uuid) VolumeExternal_defaults)"

definition GetAllVolumesSync :: "taihe_env \<Rightarrow> 'w IDiskManager \<Rightarrow> (taihe_Volume list, 'w) taihe" where
  "GetAllVolumesSync te dm = taihe_value te [] (map to_Volume) (DiskManagerClient_GetAllVolumes (tn_client te) dm [])"

definition FormatSync :: "taihe_env \<Rightarrow> 'w IDiskManager \<Rightarrow> string \<Rightarrow> string \<Rightarrow> (unit, 'w) taihe" where
  "FormatSync te dm volumeId fsType =
     (if volumeId = [] \<or> fsType = [] then taihe_raise te (jerr JE_PARAMS) ()
      else taihe_void te (DiskManagerClient_Format (tn_client te) dm volumeId fsType))"

definition GetVolumeByIdSync :: "taihe_env \<Rightarrow> 'w IDiskManager \<Rightarrow> string \<Rightarrow> (taihe_Volume, 'w) taihe" where
  "GetVolumeByIdSync te dm volumeId =
     (if volumeId = [] then taihe_raise te (jerr JE_PARAMS) empty_Volume
      else taihe_value te empty_Volume to_Volume (DiskManagerClient_GetVolumeById (tn_client te) dm volumeId VolumeExternal_defaults))"

definition MountSync :: "taihe_env \<Rightarrow> 'w IDiskManager \<Rightarrow> string \<Rightarrow> (unit, 'w) taihe" where
  "MountSync te dm volumeId =
     (if volumeId = [] then taihe_raise te (jerr JE_PARAMS) ()
      else taihe_void te (DiskManagerClient_Mount (tn_client te) dm volumeId MountParam_default))"

definition UnmountSync :: "taihe_env \<Rightarrow> 'w IDiskManager \<Rightarrow> string \<Rightarrow> (unit, 'w) taihe" where
  "UnmountSync te dm volumeId =
     (if volumeId = [] then taihe_raise te (jerr JE_PARAMS) ()
      else taihe_void te (DiskManagerClient_Unmount (tn_client te) dm volumeId))"

definition PartitionSync :: "taihe_env \<Rightarrow> 'w IDiskManager \<Rightarrow> string \<Rightarrow> int \<Rightarrow> (unit, 'w) taihe" where
  "PartitionSync te dm diskId type =
     (if diskId = [] then taihe_raise te (jerr JE_PARAMS) ()
      else taihe_void te (DiskManagerClient_Partition (tn_client te) dm diskId type))"

definition SetVolumeDescriptionSync :: "taihe_env \<Rightarrow> 'w IDiskManager \<Rightarrow> string \<Rightarrow> string \<Rightarrow> (unit, 'w) taihe" where
  "SetVolumeDescriptionSync te dm uuid description =
     (if uuid = [] \<or> description = [] then taihe_raise te (jerr JE_PARAMS) ()
      else taihe_void te (DiskManagerClient_SetVolumeDescription (tn_client te) dm uuid description))"

definition GetDiskByIdSync :: "taihe_env \<Rightarrow> 'w IDiskManager \<Rightarrow> string \<Rightarrow> (taihe_Disk, 'w) taihe" where
  "GetDiskByIdSync te dm diskId =
     taihe_value te (MakeEmptyTaiheDisk te) (to_Disk te) (DiskManagerClient_GetDiskById (tn_client te) dm diskId Disk_ctor0)"

definition GetAllDisksSync :: "taihe_env \<Rightarrow> 'w IDiskManager \<Rightarrow> (taihe_Disk list, 'w) taihe" where
  "GetAllDisksSync te dm =
     (if \<not> tn_systemApp te then taihe_raise te (jerr JE_PERMISSION_SYS) []
      else if PERMISSION_MOUNT_MANAGER \<notin> set (tn_granted te) then taihe_raise te (jerr JE_PERMISSION) []
      else taihe_value te [] (map (to_Disk te)) (DiskManagerClient_GetAllDisks (tn_client te) dm []))"

definition GetPartitionTableSync :: "taihe_env \<Rightarrow> 'w IDiskManager \<Rightarrow> string \<Rightarrow> (taihe_PartitionTableInfo, 'w) taihe" where
  "GetPartitionTableSync te dm diskId =
     taihe_value te empty_PartitionTableInfo to_PartitionTableInfo
       (DiskManagerClient_GetPartitionTable (tn_client te) dm diskId PartitionTableInfo_default)"

definition CreatePartitionSync :: "taihe_env \<Rightarrow> 'w IDiskManager \<Rightarrow> string \<Rightarrow> PartitionParams \<Rightarrow> (unit, 'w) taihe" where
  "CreatePartitionSync te dm diskId params =
     taihe_void te (DiskManagerClient_CreatePartition (tn_client te) dm diskId
       \<lparr>pp_partitionNum = pp_partitionNum params, pp_startSector = pp_startSector params, pp_endSector = pp_endSector params,
        pp_typeCode = pp_typeCode params\<rparr>)"

definition DeletePartitionSync :: "taihe_env \<Rightarrow> 'w IDiskManager \<Rightarrow> string \<Rightarrow> int \<Rightarrow> (unit, 'w) taihe" where
  "DeletePartitionSync te dm diskId partitionNum =
     taihe_void te (DiskManagerClient_DeletePartition (tn_client te) dm diskId partitionNum)"

definition FormatParams_default :: FormatParams where
  "FormatParams_default = \<lparr>fp_fsType = [], fp_quickFormat = True, fp_volumeName = []\<rparr>"

definition native_FormatParams :: "taihe_FormatParams \<Rightarrow> FormatParams" where
  "native_FormatParams params =
     (let p1 = FormatParams_default\<lparr>fp_fsType := tf_fsType params\<rparr>;
          p2 = (case tf_quickFormat params of Some b \<Rightarrow> p1\<lparr>fp_quickFormat := b\<rparr> | None \<Rightarrow> p1)
      in case tf_volumeName params of Some v \<Rightarrow> p2\<lparr>fp_volumeName := v\<rparr> | None \<Rightarrow> p2)"

definition FormatPartitionSync :: "taihe_env \<Rightarrow> 'w IDiskManager \<Rightarrow> string \<Rightarrow> int \<Rightarrow> taihe_FormatParams \<Rightarrow> (unit, 'w) taihe" where
  "FormatPartitionSync te dm diskId partitionNum params =
     taihe_void te (DiskManagerClient_FormatPartition (tn_client te) dm diskId partitionNum (native_FormatParams params))"

definition EraseSync :: "taihe_env \<Rightarrow> 'w IDiskManager \<Rightarrow> string \<Rightarrow> (unit, 'w) taihe" where
  "EraseSync te dm volumeId =
     (if volumeId = [] then taihe_raise te (jerr JE_PARAMS) ()
      else taihe_void te (DiskManagerClient_Erase (tn_client te) dm volumeId))"

definition EjectSync :: "taihe_env \<Rightarrow> 'w IDiskManager \<Rightarrow> string \<Rightarrow> (unit, 'w) taihe" where
  "EjectSync te dm diskId =
     (if diskId = [] then taihe_raise te (jerr JE_PARAMS) ()
      else taihe_void te (DiskManagerClient_Eject (tn_client te) dm diskId))"

definition CreateIsoImageSync :: "taihe_env \<Rightarrow> 'w IDiskManager \<Rightarrow> string \<Rightarrow> string \<Rightarrow> (unit, 'w) taihe" where
  "CreateIsoImageSync te dm volumeId path =
     (if volumeId = [] \<or> path = [] then taihe_raise te (jerr JE_PARAMS) ()
      else taihe_void te (DiskManagerClient_CreateIsoImage (tn_client te) dm volumeId path))"

text \<open>The options of a burn: the text of the parameters object, its fields as lines \<open>key=value\<close>.\<close>

definition StringifyWantParameters :: "taihe_env \<Rightarrow> string" where
  "StringifyWantParameters te =
     (if \<not> tn_parameters te then []
      else if \<not> tn_jsonClass te then []
      else if \<not> tn_jsonMethod te then []
      else case tn_stringify te of None \<Rightarrow> [] | Some s \<Rightarrow> c_str s)"

definition appendStr :: "(string \<times> json) list \<Rightarrow> string \<Rightarrow> string" where
  "appendStr m key = (case om_get m key of Some (JString v) \<Rightarrow> key @ ''='' @ v @ [NL] | _ \<Rightarrow> [])"

definition appendBool :: "(string \<times> json) list \<Rightarrow> string \<Rightarrow> string" where
  "appendBool m key = (case om_get m key of Some (JBool b) \<Rightarrow> key @ ''='' @ (if b then ''true'' else ''false'') @ [NL] | _ \<Rightarrow> [])"

definition appendInt :: "(string \<times> json) list \<Rightarrow> string \<Rightarrow> string" where
  "appendInt m key = (case om_get m key of Some (JNum n) \<Rightarrow> key @ ''='' @ int_to_string (to_int32 n) @ [NL] | _ \<Rightarrow> [])"

definition burn_option_lines :: "(string \<times> json) list \<Rightarrow> string" where
  "burn_option_lines m = appendStr m ''diskName'' @ appendStr m ''burnPath'' @ appendBool m ''isIsoImage'' @ appendInt m ''burnSpeed'' @
     appendStr m ''fsType'' @ appendBool m ''isIncBurnSupport'' @ appendBool m ''isVerifyBurn''"

definition BuildBurnOptionsFromWant :: "taihe_env \<Rightarrow> string" where
  "BuildBurnOptionsFromWant te =
     (let jsonString = StringifyWantParameters te in
      if jsonString = [] then []
      else case tn_parse te jsonString of Some (JObject m) \<Rightarrow> burn_option_lines m | _ \<Rightarrow> [])"

definition BurnSync :: "taihe_env \<Rightarrow> 'w IDiskManager \<Rightarrow> string \<Rightarrow> (unit, 'w) taihe" where
  "BurnSync te dm volumeId =
     (if volumeId = [] then taihe_raise te (jerr JE_PARAMS) ()
      else if \<not> tn_ani te then taihe_raise te (jerr JE_PARAMS) ()
      else let burnOpts = BuildBurnOptionsFromWant te in
        if burnOpts = [] then taihe_raise te (jerr JE_PARAMS) ()
        else taihe_void te (DiskManagerClient_Burn (tn_client te) dm volumeId burnOpts))"

definition GetOpProcessSync :: "taihe_env \<Rightarrow> 'w IDiskManager \<Rightarrow> string \<Rightarrow> (int, 'w) taihe" where
  "GetOpProcessSync te dm volumeId =
     (if volumeId = [] then taihe_raise te (jerr JE_PARAMS) (- 1)
      else taihe_value te (- 1) (\<lambda>x. x) (DiskManagerClient_GetVolumeOpProcess (tn_client te) dm volumeId 0))"

text \<open>Here the output parameter of the client is returned also with an error.\<close>

definition IsVolumeInUseSync :: "taihe_env \<Rightarrow> 'w IDiskManager \<Rightarrow> string \<Rightarrow> (bool, 'w) taihe" where
  "IsVolumeInUseSync te dm volumePath s =
     (if \<not> tn_systemApp te then taihe_raise te (jerr JE_PERMISSION_SYS) False s
      else if PERMISSION_MOUNT_MANAGER \<notin> set (tn_granted te) then taihe_raise te (jerr JE_PERMISSION) False s
      else if volumePath = [] then taihe_raise te (jerr JE_PARAMS) False s
      else case DiskManagerClient_QueryUsbIsInUse (tn_client te) dm volumePath True s of ((errNum, isInUse), s1) \<Rightarrow>
        if errNum \<noteq> E_OK then taihe_raise te errNum isInUse s1 else ((isInUse, None), s1))"

definition GetExternalDiskInfosSync :: "taihe_env \<Rightarrow> 'w IDiskManager \<Rightarrow> (ExternalDiskInfo list, 'w) taihe" where
  "GetExternalDiskInfosSync te dm =
     (if PERMISSION_GET_STORAGE_VOLUME_INFO \<notin> set (tn_granted te) then taihe_raise te (jerr JE_PERMISSION) []
      else taihe_value te [] (map (\<lambda>d. \<lparr>ed_diskId = ed_diskId d, ed_diskType = ed_diskType d, ed_volumeIds = ed_volumeIds d,
        ed_vendorId = ed_vendorId d, ed_productId = ed_productId d\<rparr>)) (DiskManagerClient_GetExternalDiskInfos (tn_client te) dm []))"

definition GetExternalVolumeInfosSync :: "taihe_env \<Rightarrow> 'w IDiskManager \<Rightarrow> (ExternalVolumeInfo list, 'w) taihe" where
  "GetExternalVolumeInfosSync te dm =
     (if PERMISSION_GET_STORAGE_VOLUME_INFO \<notin> set (tn_granted te) then taihe_raise te (jerr JE_PERMISSION) []
      else taihe_value te [] (map (\<lambda>v. \<lparr>ev_volumeId = ev_volumeId v, ev_uuid = ev_uuid v, ev_diskId = ev_diskId v,
        ev_description = ev_description v, ev_state = ev_state v, ev_totalSize = ev_totalSize v, ev_freeSize = ev_freeSize v,
        ev_path = ev_path v, ev_fsType = ev_fsType v\<rparr>)) (DiskManagerClient_GetExternalVolumeInfos (tn_client te) dm []))"

section \<open>All functions\<close>

text \<open>A call with its arguments (the parameters of a burn are in the runtime), the request it stands for, and the error
  it raises before it turns to the service.\<close>

datatype taihe_api =
    T_GetVolumeByUuid string | T_GetAllVolumes | T_Format string string | T_GetVolumeById string | T_Mount string | T_Unmount string
     | T_Partition string int | T_SetVolumeDescription string string | T_GetDiskById string | T_GetAllDisks
     | T_GetPartitionTable string | T_CreatePartition string PartitionParams | T_DeletePartition string int
     | T_FormatPartition string int taihe_FormatParams | T_Erase string | T_Eject string | T_CreateIsoImage string string
     | T_Burn string | T_GetOpProcess string | T_IsVolumeInUse string | T_GetExternalDiskInfos | T_GetExternalVolumeInfos

definition settle :: "('a, 'w) taihe \<Rightarrow> 'w client \<Rightarrow> (int \<times> string) option \<times> 'w client" where
  "settle m s = (case m s of ((x, err), s1) \<Rightarrow> (err, s1))"

definition taihe_invoke :: "taihe_env \<Rightarrow> 'w IDiskManager \<Rightarrow> taihe_api \<Rightarrow> 'w client \<Rightarrow> (int \<times> string) option \<times> 'w client" where
  "taihe_invoke te dm f = (case f of
     T_GetVolumeByUuid a \<Rightarrow> settle (GetVolumeByUuidSync te dm a)
      | T_GetAllVolumes \<Rightarrow> settle (GetAllVolumesSync te dm) | T_Format a b \<Rightarrow> settle (FormatSync te dm a b)
      | T_GetVolumeById a \<Rightarrow> settle (GetVolumeByIdSync te dm a) | T_Mount a \<Rightarrow> settle (MountSync te dm a)
      | T_Unmount a \<Rightarrow> settle (UnmountSync te dm a) | T_Partition a b \<Rightarrow> settle (PartitionSync te dm a b)
      | T_SetVolumeDescription a b \<Rightarrow> settle (SetVolumeDescriptionSync te dm a b)
      | T_GetDiskById a \<Rightarrow> settle (GetDiskByIdSync te dm a) | T_GetAllDisks \<Rightarrow> settle (GetAllDisksSync te dm)
      | T_GetPartitionTable a \<Rightarrow> settle (GetPartitionTableSync te dm a)
      | T_CreatePartition a b \<Rightarrow> settle (CreatePartitionSync te dm a b)
      | T_DeletePartition a b \<Rightarrow> settle (DeletePartitionSync te dm a b)
      | T_FormatPartition a b c \<Rightarrow> settle (FormatPartitionSync te dm a b c)
      | T_Erase a \<Rightarrow> settle (EraseSync te dm a) | T_Eject a \<Rightarrow> settle (EjectSync te dm a)
      | T_CreateIsoImage a b \<Rightarrow> settle (CreateIsoImageSync te dm a b) | T_Burn a \<Rightarrow> settle (BurnSync te dm a)
      | T_GetOpProcess a \<Rightarrow> settle (GetOpProcessSync te dm a)
      | T_IsVolumeInUse a \<Rightarrow> settle (IsVolumeInUseSync te dm a)
      | T_GetExternalDiskInfos \<Rightarrow> settle (GetExternalDiskInfosSync te dm)
      | T_GetExternalVolumeInfos \<Rightarrow> settle (GetExternalVolumeInfosSync te dm))"

definition taihe_request :: "taihe_env \<Rightarrow> taihe_api \<Rightarrow> request" where
  "taihe_request te f = (case f of
     T_GetVolumeByUuid a \<Rightarrow> Rq_GetVolumeByUuid (c_str a) | T_GetAllVolumes \<Rightarrow> Rq_GetAllVolumes
      | T_Format a b \<Rightarrow> Rq_Format a b | T_GetVolumeById a \<Rightarrow> Rq_GetVolumeById a
      | T_Mount a \<Rightarrow> Rq_Mount a MountParam_default | T_Unmount a \<Rightarrow> Rq_Unmount a
      | T_Partition a b \<Rightarrow> Rq_Partition a b | T_SetVolumeDescription a b \<Rightarrow> Rq_SetVolumeDescription a b
      | T_GetDiskById a \<Rightarrow> Rq_GetDiskById a | T_GetAllDisks \<Rightarrow> Rq_GetAllDisks
      | T_GetPartitionTable a \<Rightarrow> Rq_GetPartitionTable a PartitionTableInfo_default
      | T_CreatePartition a b \<Rightarrow> Rq_CreatePartition a b | T_DeletePartition a b \<Rightarrow> Rq_DeletePartition a b
      | T_FormatPartition a b c \<Rightarrow> Rq_FormatPartition a b (native_FormatParams c) | T_Erase a \<Rightarrow> Rq_Erase a
      | T_Eject a \<Rightarrow> Rq_Eject a | T_CreateIsoImage a b \<Rightarrow> Rq_CreateIsoImage a b
      | T_Burn a \<Rightarrow> Rq_Burn a (BuildBurnOptionsFromWant te) | T_GetOpProcess a \<Rightarrow> Rq_GetVolumeOpProcess a
      | T_IsVolumeInUse a \<Rightarrow> Rq_QueryUsbIsInUse a | T_GetExternalDiskInfos \<Rightarrow> Rq_GetExternalDiskInfos
      | T_GetExternalVolumeInfos \<Rightarrow> Rq_GetExternalVolumeInfos)"

definition taihe_check :: "taihe_env \<Rightarrow> taihe_api \<Rightarrow> DiskManagerJsErr option" where
  "taihe_check te f = (case f of
     T_GetAllDisks \<Rightarrow> (if \<not> tn_systemApp te then Some JE_PERMISSION_SYS
       else if PERMISSION_MOUNT_MANAGER \<notin> set (tn_granted te) then Some JE_PERMISSION else None)
   | T_IsVolumeInUse a \<Rightarrow> (if \<not> tn_systemApp te then Some JE_PERMISSION_SYS
       else if PERMISSION_MOUNT_MANAGER \<notin> set (tn_granted te) then Some JE_PERMISSION else if a = [] then Some JE_PARAMS else None)
   | T_GetExternalDiskInfos \<Rightarrow> (if PERMISSION_GET_STORAGE_VOLUME_INFO \<notin> set (tn_granted te) then Some JE_PERMISSION else None)
   | T_GetExternalVolumeInfos \<Rightarrow> (if PERMISSION_GET_STORAGE_VOLUME_INFO \<notin> set (tn_granted te) then Some JE_PERMISSION else None)
   | T_Format a b \<Rightarrow> (if a = [] \<or> b = [] then Some JE_PARAMS else None)
   | T_SetVolumeDescription a b \<Rightarrow> (if a = [] \<or> b = [] then Some JE_PARAMS else None)
   | T_CreateIsoImage a b \<Rightarrow> (if a = [] \<or> b = [] then Some JE_PARAMS else None)
   | T_Burn a \<Rightarrow> (if a = [] \<or> \<not> tn_ani te \<or> BuildBurnOptionsFromWant te = [] then Some JE_PARAMS else None)
   | T_Partition a b \<Rightarrow> (if a = [] then Some JE_PARAMS else None)
   | T_GetVolumeById a \<Rightarrow> (if a = [] then Some JE_PARAMS else None) | T_Mount a \<Rightarrow> (if a = [] then Some JE_PARAMS else None)
   | T_Unmount a \<Rightarrow> (if a = [] then Some JE_PARAMS else None) | T_Erase a \<Rightarrow> (if a = [] then Some JE_PARAMS else None)
   | T_Eject a \<Rightarrow> (if a = [] then Some JE_PARAMS else None) | T_GetOpProcess a \<Rightarrow> (if a = [] then Some JE_PARAMS else None)
   | _ \<Rightarrow> None)"

definition taihe_outcome :: "taihe_env \<Rightarrow> errno \<times> 'w client \<Rightarrow> (int \<times> string) option \<times> 'w client" where
  "taihe_outcome te r = (case r of (e, s) \<Rightarrow> (if e = E_OK then None else Some (SetStorageTaiheError te e), s))"

lemma settle_raise: "settle (taihe_raise te e x) s = (Some (SetStorageTaiheError te e), s)"
  by (simp add: settle_def taihe_raise_def)

lemma settle_void: "settle (taihe_void te m) s = taihe_outcome te (m s)"
  by (simp add: settle_def taihe_void_def taihe_raise_def taihe_outcome_def split: prod.splits)

lemma settle_value: "settle (taihe_value te x f m) s = taihe_outcome te (code m s)"
  by (simp add: settle_def taihe_value_def taihe_raise_def taihe_outcome_def code_def split: prod.splits)

lemma settle_in_use:
  "settle (IsVolumeInUseSync te dm a) s =
     (case taihe_check te (T_IsVolumeInUse a) of
        Some e \<Rightarrow> (Some (SetStorageTaiheError te (jerr e)), s)
      | None \<Rightarrow> taihe_outcome te (code (DiskManagerClient_QueryUsbIsInUse (tn_client te) dm a True) s))"
  by (simp add: settle_def IsVolumeInUseSync_def taihe_raise_def taihe_outcome_def code_def taihe_check_def split: prod.splits)

lemma PartitionParams_copy:
  "\<lparr>pp_partitionNum = pp_partitionNum p, pp_startSector = pp_startSector p, pp_endSector = pp_endSector p, pp_typeCode = pp_typeCode p\<rparr> = p"
  by (cases p) simp

text \<open>What a Taihe call comes to: the error of its own checks, or the one request it stands for and its converted error.\<close>

theorem taihe_call_spec:
  "taihe_invoke te dm f s =
     (case taihe_check te f of
        Some e \<Rightarrow> (Some (SetStorageTaiheError te (jerr e)), s)
      | None \<Rightarrow> taihe_outcome te (client_invoke (tn_client te) dm (taihe_request te f) s))"
  by (cases f)
    (simp_all add: taihe_invoke_def taihe_request_def client_invoke_def settle_in_use settle_raise settle_void settle_value taihe_check_def PartitionParams_copy
    GetVolumeByUuidSync_def GetAllVolumesSync_def FormatSync_def GetVolumeByIdSync_def MountSync_def UnmountSync_def
    PartitionSync_def SetVolumeDescriptionSync_def GetDiskByIdSync_def GetAllDisksSync_def GetPartitionTableSync_def CreatePartitionSync_def
    DeletePartitionSync_def FormatPartitionSync_def EraseSync_def EjectSync_def CreateIsoImageSync_def BurnSync_def
    GetOpProcessSync_def GetExternalDiskInfosSync_def GetExternalVolumeInfosSync_def Let_def)

section \<open>Errors an application sees\<close>

text \<open>The native errors that have no number of their own for applications, and those the Taihe table does not know.\<close>

definition unconverted :: "DiskManagerNativeErr set" where
  "unconverted = {NE_OK, NE_SET_POLICY, NE_NO_CHILD, NE_BUSY}"

definition taihe_unknown :: "DiskManagerNativeErr set" where
  "taihe_unknown = unconverted \<union> {NE_EMPTY_DISC, NE_ISO_WRITE_FAILED, NE_ERASE_FAILED, NE_EJECT_FAILED, NE_BURN_FAILED, NE_BURN_NOSPC}"

text \<open>All values of the two enumerations, to go through the tables by evaluation.\<close>

definition all_native :: "DiskManagerNativeErr list" where
  "all_native = [
     NE_OK, NE_PERMISSION_DENIED, NE_PARAMS_INVALID, NE_NON_EXIST, NE_PREPARE_DIR, NE_DESTROY_DIR, NE_NOT_SUPPORT,
     NE_SYS_KERNEL_ERR, NE_WRITE_PARCEL_ERR, NE_WRITE_REPLY_ERR, NE_WRITE_DESCRIPTOR_ERR, NE_SA_IS_NULLPTR,
     NE_REMOTE_IS_NULLPTR, NE_SERVICE_IS_NULLPTR, NE_DEATH_RECIPIENT_IS_NULLPTR, NE_SYS_APP_PERMISSION_DENIED,
     NE_SET_POLICY, NE_USERID_RANGE, NE_BUNDLEMGR_ERROR, NE_MEDIALIBRARY_ERROR, NE_GET_EXT_BUNDLE_STATS_ERROR,
     NE_SET_EXT_BUNDLE_STATS_ERROR, NE_GET_ALL_EXT_BUNDLE_STATS_ERROR, NE_GET_INODE_ERROR,
     NE_GET_SYSTEM_DATA_SIZE_ERROR, NE_GET_BUNDLE_INODES_ERROR, NE_VOL_STATE, NE_VOL_MOUNT_ERR, NE_VOL_UMOUNT_ERR,
     NE_UMOUNT_BUSY, NE_NO_CHILD, NE_GET_PARTITION_ERROR, NE_CREATE_PARTITION_NOT_SUPPORT, NE_CREATE_PARTITION_ERROR,
     NE_DELETE_PARTITION_NOT_SUPPORT, NE_DELETE_PARTITION_ERROR, NE_FORMAT_PARTITION_NOT_SUPPORT,
     NE_FORMAT_PARTITION_ERROR, NE_QUERY_VOLUME_IN_USE_ERROR, NE_EMPTY_DISC, NE_ISO_WRITE_FAILED, NE_ERASE_FAILED,
     NE_EJECT_FAILED, NE_BURN_FAILED, NE_BURN_NOSPC, NE_BUSY]"

definition all_js :: "DiskManagerJsErr list" where
  "all_js = [
     JE_PERMISSION, JE_PERMISSION_SYS, JE_PARAMS, JE_DEVICENOTSUPPORT, JE_OSNOTSUPPORT, JE_IPCSS, JE_SUPPORTEDFS,
     JE_MOUNT_ERR, JE_UNMOUNT, JE_VOLUMESTATE, JE_PREPARE, JE_DELETE, JE_NOOBJECT, JE_OUTOFRANGE, JE_JS_PARAMS_INVALID,
     JE_JS_SET_EXT_BUNDLE_STATS_ERROR, JE_JS_GET_EXT_BUNDLE_STATS_ERROR, JE_JS_GET_ALL_EXT_BUNDLE_STATS_ERROR,
     JE_JS_RETRY_ERROR, JE_JS_GET_INODE_ERROR, JE_JS_GET_BUNDLE_INODES_ERROR, JE_JS_GET_SYSTEM_DATA_SIZE_ERROR,
     JE_JS_GET_PARTITION_ERROR, JE_JS_CREATE_PARTITION_ERROR, JE_JS_DELETE_PARTITION_ERROR, JE_JS_EMPTY_DISC,
     JE_JS_ISO_WRITE_FAILED, JE_JS_ERASE_FAILED, JE_JS_EJECT_FAILED, JE_JS_BURN_FAILED, JE_JS_BURN_NOSPC,
     JE_JS_FORMAT_PARTITION_ERROR, JE_JS_QUERY_VOLUME_IN_USE_ERROR, JE_JS_BUSY]"

lemma all_native_complete: "n \<in> set all_native"
  by (cases n) (simp_all add: all_native_def)

lemma all_js_range: "range jerr = set (map jerr all_js)"
proof -
  have "j \<in> set all_js" for j by (cases j) (simp_all add: all_js_def)
  then have "set all_js = UNIV" by auto
  then show ?thesis by (simp add: set_map del: set_map[symmetric])
qed

lemma Convert2JsErrNum_all:
  "list_all (\<lambda>n. if n \<in> unconverted then Convert2JsErrNum (nerr n) = nerr n \<and> nerr n \<notin> set (map jerr all_js)
     else Convert2JsErrNum (nerr n) \<in> set (map jerr all_js)) all_native"
  by code_simp

lemma taihe_all:
  "list_all (\<lambda>n. 0 \<le> Convert2JsErrNum (nerr n) \<and> map_option fst (map_of STORAGE_TAIHE_ERR_MAP (Convert2JsErrNum (nerr n))) =
     (if n \<in> taihe_unknown then None else Some (Convert2JsErrNum (nerr n)))) all_native"
  by code_simp

lemma client_errors_ipc:
  "list_all (\<lambda>e. Convert2JsErrNum e = jerr JE_IPCSS) [E_SA_IS_NULLPTR, E_REMOTE_IS_NULLPTR, E_SERVICE_IS_NULLPTR]"
  by code_simp

lemma Convert2JsErrNum_range: "Convert2JsErrNum (nerr n) \<in> range jerr \<longleftrightarrow> n \<notin> unconverted"
  and Convert2JsErrNum_same: "n \<in> unconverted \<longrightarrow> Convert2JsErrNum (nerr n) = nerr n"
  using Convert2JsErrNum_all all_native_complete[of n] unfolding all_js_range list_all_iff by (metis (mono_tags))+

lemma taihe_lookup:
  "SetStorageTaiheError te (nerr n) = (case map_of STORAGE_TAIHE_ERR_MAP (Convert2JsErrNum (nerr n)) of
     None \<Rightarrow> (UNKROWN_ERR te, UNKNOWN_MESSAGE) | Some (c, m) \<Rightarrow> (c, m))"
  using taihe_all all_native_complete[of n] unfolding list_all_iff
  by (auto simp: SetStorageTaiheError_def Convert_def ToMessage_def ConvertUVCode2ErrCode_def split: option.splits)

lemma taihe_errors:
  "n \<in> taihe_unknown \<longrightarrow> SetStorageTaiheError te (nerr n) = (UNKROWN_ERR te, UNKNOWN_MESSAGE)"
  "n \<notin> taihe_unknown \<longrightarrow> fst (SetStorageTaiheError te (nerr n)) = Convert2JsErrNum (nerr n)"
  using taihe_all all_native_complete[of n] unfolding list_all_iff taihe_lookup by (auto split: option.splits if_splits)

text \<open>
  What becomes of an error of the service. Every native error is converted into a number of the JavaScript
  interface, except the busy error, which has a number there that is never used, and two historical ones; the three
  connection errors of the client all become the IPC error. The Taihe interface raises the same number with its
  message, but for the busy error and all errors of discs and burning it raises the unknown error.
\<close>
lemma error_conversion:
  "(\<forall>n. Convert2JsErrNum (nerr n) \<in> range jerr \<longleftrightarrow> n \<notin> unconverted) \<and>
   (\<forall>n. n \<in> unconverted \<longrightarrow> Convert2JsErrNum (nerr n) = nerr n) \<and>
   (\<forall>n. n \<in> taihe_unknown \<longrightarrow> SetStorageTaiheError te (nerr n) = (UNKROWN_ERR te, UNKNOWN_MESSAGE)) \<and>
   (\<forall>n. n \<notin> taihe_unknown \<longrightarrow> fst (SetStorageTaiheError te (nerr n)) = Convert2JsErrNum (nerr n)) \<and>
   (\<forall>e \<in> {E_SA_IS_NULLPTR, E_REMOTE_IS_NULLPTR, E_SERVICE_IS_NULLPTR}. Convert2JsErrNum e = jerr JE_IPCSS)"
  using Convert2JsErrNum_range Convert2JsErrNum_same taihe_errors client_errors_ipc by simp

section \<open>The options of a burn\<close>

lemma int_to_string_NL: "NL \<notin> set (int_to_string n)"
  using to_string_digits by (auto simp: int_to_string_def c_isdigit_def dest!: to_string_digit)

lemma burn_line:
  assumes "NL \<notin> set k" "NL \<notin> set v" "CHR ''='' \<notin> set k"
  shows "burn_lines_ok (getlines (k @ ''='' @ v @ NL # r)) \<longleftrightarrow>
    \<not> ((k = ''burnPath'' \<or> k = ''diskName'') \<and> IsFilePathInvalid v) \<and> burn_lines_ok (getlines r)"
proof -
  have "getlines ((k @ CHR ''='' # v) @ NL # r) = (k @ CHR ''='' # v) # getlines r" using assms by (intro getlines_append) auto
  moreover have "str_find (k @ CHR ''='' # v) ''='' = Some (length k)" using assms(3) by (rule str_find_char_append)
  ultimately show ?thesis by (auto simp: Let_def)
qed

text \<open>Parameters whose strings fit on a line.\<close>

definition one_line :: "(string \<times> json) list \<Rightarrow> bool" where
  "one_line m \<longleftrightarrow> (\<forall>k v. om_get m k = Some (JString v) \<longrightarrow> NL \<notin> set v)"

lemma burn_append:
  assumes "one_line m" "NL \<notin> set k" "CHR ''='' \<notin> set k"
  shows "burn_lines_ok (getlines (appendStr m k @ r)) \<longleftrightarrow>
      (k = ''burnPath'' \<or> k = ''diskName'' \<longrightarrow> (\<forall>v. om_get m k = Some (JString v) \<longrightarrow> \<not> IsFilePathInvalid v)) \<and> burn_lines_ok (getlines r)"
    and "k \<noteq> ''burnPath'' \<Longrightarrow> k \<noteq> ''diskName'' \<Longrightarrow> burn_lines_ok (getlines (appendBool m k @ r)) = burn_lines_ok (getlines r)"
    and "k \<noteq> ''burnPath'' \<Longrightarrow> k \<noteq> ''diskName'' \<Longrightarrow> burn_lines_ok (getlines (appendInt m k @ r)) = burn_lines_ok (getlines r)"
  using assms burn_line[OF assms(2) _ assms(3)] int_to_string_NL
  by (auto simp: appendStr_def appendBool_def appendInt_def one_line_def split: option.splits json.splits)

text \<open>
  C30: The options the bindings write are the ones the service checks. For parameters whose strings contain no line
  break, the service accepts the text of the options exactly when the text passes the path check as a whole and the
  disc name and the burn path, if given, pass it each; no other field can hide or add a path.
\<close>
theorem burn_options_checked:
  assumes "one_line m"
  shows "ValidateBurnOptionsSubfields (burn_option_lines m) \<longleftrightarrow> \<not> IsFilePathInvalid (burn_option_lines m) \<and>
    (\<forall>k v. k \<in> {''diskName'', ''burnPath''} \<longrightarrow> om_get m k = Some (JString v) \<longrightarrow> \<not> IsFilePathInvalid v)"
proof -
  have "burn_lines_ok (getlines (burn_option_lines m @ [])) \<longleftrightarrow>
    (\<forall>k v. k \<in> {''diskName'', ''burnPath''} \<longrightarrow> om_get m k = Some (JString v) \<longrightarrow> \<not> IsFilePathInvalid v)"
    unfolding burn_option_lines_def append_assoc by (simp add: burn_append[OF assms] del: append_Nil2) blast
  then show ?thesis by (simp add: ValidateBurnOptionsSubfields_def)
qed

text \<open>With a line break in another field a second path gets past the check of the parameters.\<close>

lemma burn_options_injection:
  "burn_option_lines [(''fsType'', JString (''udf'' @ [NL] @ ''burnPath=/data/x''))] = ''fsType=udf'' @ [NL] @ ''burnPath=/data/x'' @ [NL]"
  by (simp add: burn_option_lines_def appendStr_def appendBool_def appendInt_def)

section \<open>Witnesses\<close>

definition demo_taihe :: taihe_env where
  "demo_taihe = \<lparr>tn_uv = (\<lambda>_. None), UNKROWN_ERR = 13900042, tn_systemApp = True, tn_granted = [], tn_diskType = nat, tn_client = demo_client_env,
     tn_ani = True, tn_parameters = True, tn_jsonClass = True, tn_jsonMethod = True, tn_stringify = None, tn_parse = (\<lambda>_. None)\<rparr>"

theorem burn_options_checked_witness:
  "\<not> ValidateBurnOptionsSubfields (burn_option_lines [(''burnPath'', JString []), (''isIsoImage'', JBool True)])"
proof -
  have "one_line [(''burnPath'', JString []), (''isIsoImage'', JBool True)]" by (simp add: one_line_def)
  from burn_options_checked[OF this] show ?thesis by (auto simp: IsFilePathInvalid_def)
qed

end
