(* ===== verification/Dm_Js.thy ===== *)
theory Dm_Js
  imports Dm_Taihe
begin

text \<open>
  The JavaScript bindings \<^verbatim>\<open>interfaces/kits/js/volume_manager/src/volumemanager_n_exporter.cpp\<close>: a function
  checks the caller and its arguments, throwing an error at once when they are wrong, and otherwise schedules
  an asynchronous work whose execution calls the client library and whose completion settles a promise or a
  callback with the converted error or a JavaScript value.

  The engine and the binding library are the record \<open>napi\<close>, a parameter: conversions of argument values of type
  \<open>'v\<close> (\<open>None\<close> when they fail), property access, and the status of array operations. Created values are the type
  \<open>jsval\<close>. A string argument is read into a C string, so \<open>c_str\<close> cuts it at the first zero character.
\<close>

section \<open>Values and the engine\<close>

datatype jsval = JsUndefined | JsBool bool | JsInt int | JsStr string | JsObj "(string \<times> jsval) list" | JsArr "jsval list"

record 'v napi =
  na_systemApp :: bool
  na_granted :: "string list"
  na_client :: client_env
  InitArgs :: "nat \<Rightarrow> 'v list \<Rightarrow> bool"
  InitArgs2 :: "nat \<Rightarrow> nat \<Rightarrow> 'v list \<Rightarrow> bool"
  ToUTF8String :: "'v \<Rightarrow> string option"
  ToInt32 :: "'v \<Rightarrow> int option"
  ToInt64 :: "'v \<Rightarrow> int option"
  ToBool :: "'v \<Rightarrow> bool option"
  GetProp :: "'v \<Rightarrow> string \<Rightarrow> 'v option"
  napi_has_named_property :: "'v \<Rightarrow> string \<Rightarrow> bool option"
  napi_get_named_property :: "'v \<Rightarrow> string \<Rightarrow> 'v option"
  napi_get_value_bool :: "'v \<Rightarrow> bool option"
  napi_typeof_object :: "'v \<Rightarrow> bool"
  napi_create_array :: int
  napi_set_element :: "nat \<Rightarrow> jsval option \<Rightarrow> int"
  napi_generic_failure :: int

text \<open>
  The outcome of calling a function: an exception, nothing at all, or a scheduled work, which later runs on
  the client of that time. \<open>Callback\<close> carries the position of the callback among the arguments.
\<close>

datatype js_result = Rejected int | Resolved jsval
datatype delivery = Promise | Callback nat
datatype 's js_call = Threw int | Nothing | Async delivery string "'s \<Rightarrow> js_result \<times> 's"

definition arg :: "'v list \<Rightarrow> nat \<Rightarrow> 'v option" where
  "arg args i = (if i < length args then Some (args ! i) else None)"

definition string_arg :: "'v napi \<Rightarrow> 'v list \<Rightarrow> nat \<Rightarrow> string option" where
  "string_arg na args i = map_option c_str (Option.bind (arg args i) (ToUTF8String na))"

definition int32_arg :: "'v napi \<Rightarrow> 'v list \<Rightarrow> nat \<Rightarrow> int option" where
  "int32_arg na args i = Option.bind (arg args i) (ToInt32 na)"

section \<open>Works\<close>

definition exec_void :: "(int \<Rightarrow> int) \<Rightarrow> ('w client \<Rightarrow> errno \<times> 'w client) \<Rightarrow> 'w client \<Rightarrow> js_result \<times> 'w client" where
  "exec_void conv ipcCall s = (case ipcCall s of (res, s1) \<Rightarrow>
     (if res \<noteq> E_OK then Rejected (conv res) else Resolved JsUndefined, s1))"

definition exec_value :: "('a \<Rightarrow> js_result) \<Rightarrow> ('w client \<Rightarrow> (errno \<times> 'a) \<times> 'w client) \<Rightarrow> 'w client \<Rightarrow> js_result \<times> 'w client" where
  "exec_value build ipcCall s = (case ipcCall s of ((errNum, x), s1) \<Rightarrow>
     (if errNum \<noteq> E_OK then Rejected (Convert2JsErrNum errNum) else build x, s1))"

definition PromiseVoidOp :: "string \<Rightarrow> ('w client \<Rightarrow> errno \<times> 'w client) \<Rightarrow> 'w client js_call" where
  "PromiseVoidOp procName ipcCall = Async Promise procName (exec_void Convert2JsErrNum ipcCall)"

definition PromiseVoidOpSkipParamsInvalid :: "string \<Rightarrow> ('w client \<Rightarrow> errno \<times> 'w client) \<Rightarrow> 'w client js_call" where
  "PromiseVoidOpSkipParamsInvalid procName ipcCall =
     Async Promise procName (exec_void (\<lambda>res. if res = E_PARAMS_INVALID then res else Convert2JsErrNum res) ipcCall)"

text \<open>A promise when the callback argument is missing.\<close>

definition schedule :: "'v list \<Rightarrow> nat \<Rightarrow> string \<Rightarrow> ('w client \<Rightarrow> js_result \<times> 'w client) \<Rightarrow> 'w client js_call" where
  "schedule args n procName work = (if length args = n then Async Promise procName work else Async (Callback n) procName work)"

section \<open>Building values\<close>

fun set_elements :: "'v napi \<Rightarrow> nat \<Rightarrow> jsval option list \<Rightarrow> int" where
  "set_elements na i [] = 0"
| "set_elements na i (x # xs) =
     (if napi_set_element na i x \<noteq> 0 then napi_set_element na i x else set_elements na (Suc i) xs)"

definition js_array :: "'v napi \<Rightarrow> jsval option list \<Rightarrow> js_result" where
  "js_array na xs =
     (if napi_create_array na \<noteq> 0 then Rejected (napi_create_array na)
      else if set_elements na 0 xs \<noteq> 0 then Rejected (set_elements na 0 xs)
      else Resolved (JsArr (List.map_filter id xs)))"

definition EXTERNAL_VOL_TYPE :: int where "EXTERNAL_VOL_TYPE = VOLUME_TYPE_EXTERNAL"

definition FillVolumeJSObject :: "VolumeExternal \<Rightarrow> jsval" where
  "FillVolumeJSObject v = JsObj ([(''id'', JsStr (vc_id v)), (''uuid'', JsStr (ve_fsUuid v)), (''diskId'', JsStr (vc_diskId v)),
     (''description'', JsStr (ve_description v)), (''removable'', JsBool (vc_type v = EXTERNAL_VOL_TYPE)),
     (''state'', JsInt (vc_state v)), (''path'', JsStr (ve_path v)), (''fsType'', JsStr (GetFsTypeString v)),
     (''partitionNum'', JsInt (ve_partitionNum v))] @
     (if vc_extraInfo v \<noteq> [] then [(''extraInfo'', JsStr (vc_extraInfo v))] else []))"

definition BuildVolumeArrayFromVector :: "'v napi \<Rightarrow> VolumeExternal list \<Rightarrow> js_result" where
  "BuildVolumeArrayFromVector na volumes = js_array na (map (\<lambda>v. Some (FillVolumeJSObject v)) volumes)"

definition BuildDiskJSObject :: "'v napi \<Rightarrow> Disk \<Rightarrow> jsval option" where
  "BuildDiskJSObject na d =
     (if napi_create_array na \<noteq> 0 then None
      else if set_elements na 0 (map (\<lambda>k. Some (JsStr k)) (d_volumeIds d)) \<noteq> 0 then None
      else Some (JsObj ([(''diskId'', JsStr (d_diskId d)), (''sizeBytes'', JsInt (d_sizeBytes d)), (''diskType'', JsInt (d_diskType d)),
        (''removable'', JsBool (d_removable d)), (''volumeIds'', JsArr (map JsStr (d_volumeIds d)))] @
        (if d_extraInfo d \<noteq> [] then [(''extraInfo'', JsStr (d_extraInfo d))] else []))))"

definition MakeDiskJsArrayFromVector :: "'v napi \<Rightarrow> Disk list \<Rightarrow> js_result" where
  "MakeDiskJsArrayFromVector na disks = js_array na (map (BuildDiskJSObject na) disks)"

definition BuildPartitionInfoJSObject :: "PartitionInfo \<Rightarrow> jsval" where
  "BuildPartitionInfoJSObject p = JsObj [(''partitionNum'', JsInt (pi_partitionNum p)), (''diskId'', JsStr (pi_diskId p)),
     (''startSector'', JsInt (pi_startSector p)), (''endSector'', JsInt (pi_endSector p)), (''sizeBytes'', JsInt (pi_sizeBytes p)),
     (''fsType'', JsStr (pi_fsType p))]"

text \<open>The statuses of the array operations are not looked at: an element that could not be set stays undefined.\<close>

definition BuildPartitionTableInfoJSObject :: "'v napi \<Rightarrow> PartitionTableInfo \<Rightarrow> jsval" where
  "BuildPartitionTableInfoJSObject na t = JsObj ([(''diskId'', JsStr (pt_diskId t)), (''tableType'', JsStr (pt_tableType t)),
     (''partitionCount'', JsInt (pt_partitionCount t)), (''totalSector'', JsInt (pt_totalSector t)),
     (''sectorSize'', JsInt (pt_sectorSize t)), (''alignSector'', JsInt (pt_alignSector t))] @
     (if napi_create_array na \<noteq> 0 then []
      else [(''partitions'', JsArr (map (\<lambda>(i, p). let x = BuildPartitionInfoJSObject p in
        if napi_set_element na i (Some x) = 0 then x else JsUndefined) (enumerate 0 (pt_partitions t))))]))"

definition BuildExternalDiskJSObject :: "'v napi \<Rightarrow> ExternalDiskInfo \<Rightarrow> jsval option" where
  "BuildExternalDiskJSObject na d =
     (if napi_create_array na \<noteq> 0 then None
      else if set_elements na 0 (map (\<lambda>k. Some (JsStr k)) (ed_volumeIds d)) \<noteq> 0 then None
      else Some (JsObj [(''diskId'', JsStr (ed_diskId d)), (''diskType'', JsInt (ed_diskType d)),
        (''volumeIds'', JsArr (map JsStr (ed_volumeIds d))), (''vendorId'', JsInt (ed_vendorId d)), (''productId'', JsInt (ed_productId d))]))"

text \<open>An object that could not be built is an error of its own here, before the element is set.\<close>

fun set_objects :: "'v napi \<Rightarrow> nat \<Rightarrow> jsval option list \<Rightarrow> int" where
  "set_objects na i [] = 0"
| "set_objects na i (None # xs) = napi_generic_failure na"
| "set_objects na i (Some x # xs) =
     (if napi_set_element na i (Some x) \<noteq> 0 then napi_set_element na i (Some x) else set_objects na (Suc i) xs)"

definition js_object_array :: "'v napi \<Rightarrow> jsval option list \<Rightarrow> js_result" where
  "js_object_array na xs =
     (if napi_create_array na \<noteq> 0 then Rejected (napi_create_array na)
      else if set_objects na 0 xs \<noteq> 0 then Rejected (set_objects na 0 xs)
      else Resolved (JsArr (List.map_filter id xs)))"

definition MakeExternalDiskJsArray :: "'v napi \<Rightarrow> ExternalDiskInfo list \<Rightarrow> js_result" where
  "MakeExternalDiskJsArray na disks = js_object_array na (map (BuildExternalDiskJSObject na) disks)"

definition BuildExternalVolumeJSObject :: "ExternalVolumeInfo \<Rightarrow> jsval" where
  "BuildExternalVolumeJSObject v = JsObj [(''volumeId'', JsStr (ev_volumeId v)), (''uuid'', JsStr (ev_uuid v)), (''diskId'', JsStr (ev_diskId v)),
     (''description'', JsStr (ev_description v)), (''state'', JsInt (ev_state v)), (''totalSize'', JsInt (ev_totalSize v)),
     (''freeSize'', JsInt (ev_freeSize v)), (''path'', JsStr (ev_path v)), (''fsType'', JsStr (ev_fsType v))]"

definition MakeExternalVolumeJsArray :: "'v napi \<Rightarrow> ExternalVolumeInfo list \<Rightarrow> js_result" where
  "MakeExternalVolumeJsArray na volumes = js_object_array na (map (\<lambda>v. Some (BuildExternalVolumeJSObject v)) volumes)"

section \<open>Reading objects\<close>

definition want_prop :: "'v napi \<Rightarrow> 'v \<Rightarrow> string \<Rightarrow> 'v option" where
  "want_prop na want key =
     (case napi_has_named_property na want key of Some True \<Rightarrow> napi_get_named_property na want key | _ \<Rightarrow> None)"

definition AppendWantLineUtf8 :: "'v napi \<Rightarrow> string \<Rightarrow> 'v \<Rightarrow> string" where
  "AppendWantLineUtf8 na key want =
     (case Option.bind (want_prop na want key) (ToUTF8String na) of Some buf \<Rightarrow> key @ ''='' @ c_str buf @ [NL] | None \<Rightarrow> [])"

definition AppendWantLineBool :: "'v napi \<Rightarrow> string \<Rightarrow> 'v \<Rightarrow> string" where
  "AppendWantLineBool na key want =
     (case Option.bind (want_prop na want key) (napi_get_value_bool na) of
        Some bv \<Rightarrow> key @ ''='' @ (if bv then ''true'' else ''false'') @ [NL] | None \<Rightarrow> [])"

definition AppendWantLineInt32 :: "'v napi \<Rightarrow> string \<Rightarrow> 'v \<Rightarrow> string" where
  "AppendWantLineInt32 na key want =
     (case Option.bind (want_prop na want key) (ToInt32 na) of Some iv \<Rightarrow> key @ ''='' @ int_to_string iv @ [NL] | None \<Rightarrow> [])"

definition BuildBurnOptionsLines :: "'v napi \<Rightarrow> 'v \<Rightarrow> string" where
  "BuildBurnOptionsLines na wantObj =
     AppendWantLineUtf8 na ''diskName'' wantObj @ AppendWantLineUtf8 na ''burnPath'' wantObj @
     AppendWantLineBool na ''isIsoImage'' wantObj @ AppendWantLineInt32 na ''burnSpeed'' wantObj @
     AppendWantLineUtf8 na ''fsType'' wantObj @ AppendWantLineBool na ''isIncBurnSupport'' wantObj @
     AppendWantLineBool na ''isVerifyBurn'' wantObj"

definition ParsePartitionParams :: "'v napi \<Rightarrow> 'v \<Rightarrow> PartitionParams option" where
  "ParsePartitionParams na paramsObj =
     (case Option.bind (GetProp na paramsObj ''partitionNum'') (ToInt32 na) of None \<Rightarrow> None
      | Some partitionNum \<Rightarrow>
     (case Option.bind (GetProp na paramsObj ''startSector'') (ToInt64 na) of None \<Rightarrow> None
      | Some startSector \<Rightarrow>
     (case Option.bind (GetProp na paramsObj ''endSector'') (ToInt64 na) of None \<Rightarrow> None
      | Some endSector \<Rightarrow>
     (case Option.bind (GetProp na paramsObj ''typeCode'') (ToUTF8String na) of None \<Rightarrow> None
      | Some typeCode \<Rightarrow>
          Some \<lparr>pp_partitionNum = partitionNum, pp_startSector = startSector, pp_endSector = endSector, pp_typeCode = c_str typeCode\<rparr>))))"

definition ParseFormatParams :: "'v napi \<Rightarrow> 'v \<Rightarrow> FormatParams option" where
  "ParseFormatParams na paramsObj =
     (case Option.bind (GetProp na paramsObj ''fsType'') (ToUTF8String na) of
        None \<Rightarrow> None
      | Some fsType \<Rightarrow>
          let p1 = FormatParams_default\<lparr>fp_fsType := c_str fsType\<rparr>;
              p2 = (case Option.bind (GetProp na paramsObj ''quickFormat'') (ToBool na) of Some b \<Rightarrow> p1\<lparr>fp_quickFormat := b\<rparr> | None \<Rightarrow> p1)
          in Some (case Option.bind (GetProp na paramsObj ''volumeName'') (ToUTF8String na) of
                     Some v \<Rightarrow> p2\<lparr>fp_volumeName := c_str v\<rparr> | None \<Rightarrow> p2))"

section \<open>The functions\<close>

abbreviation (input) params_error :: "'w client js_call" where "params_error \<equiv> Threw (jerr JE_PARAMS)"

text \<open>\<open>system_call\<close> is the common begin: the caller is a system application and the number of arguments is right.\<close>

definition CheckVolumes :: "'v napi \<Rightarrow> 'v list \<Rightarrow> 'w client js_call \<Rightarrow> 'w client js_call" where
  "CheckVolumes na args k =
     (if \<not> na_systemApp na then Threw (jerr JE_PERMISSION_SYS) else if \<not> InitArgs2 na 0 1 args then params_error else k)"

definition CheckMount :: "'v napi \<Rightarrow> 'v list \<Rightarrow> 'w client js_call \<Rightarrow> 'w client js_call" where
  "CheckMount na args k =
     (if \<not> na_systemApp na then Threw (jerr JE_PERMISSION_SYS) else if \<not> InitArgs2 na 1 2 args then params_error else k)"

definition system_call :: "'v napi \<Rightarrow> nat \<Rightarrow> nat \<Rightarrow> 'v list \<Rightarrow> 'w client js_call \<Rightarrow> 'w client js_call" where
  "system_call na lo hi args k =
     (if \<not> na_systemApp na then Threw (jerr JE_PERMISSION_SYS) else if \<not> InitArgs2 na lo hi args then params_error else k)"

definition with_string :: "'v napi \<Rightarrow> 'v list \<Rightarrow> nat \<Rightarrow> (string \<Rightarrow> 'w client js_call) \<Rightarrow> 'w client js_call" where
  "with_string na args i k = (case string_arg na args i of None \<Rightarrow> params_error | Some s \<Rightarrow> k s)"

definition Js_GetAllVolumes :: "'v napi \<Rightarrow> 'w IDiskManager \<Rightarrow> 'v list \<Rightarrow> 'w client js_call" where
  "Js_GetAllVolumes na dm args = CheckVolumes na args
     (schedule args 0 ''GetAllVolumes'' (exec_value (BuildVolumeArrayFromVector na) (DiskManagerClient_GetAllVolumes (na_client na) dm [])))"

definition Js_Mount :: "'v napi \<Rightarrow> 'w IDiskManager \<Rightarrow> 'v list \<Rightarrow> 'w client js_call" where
  "Js_Mount na dm args = CheckMount na args (with_string na args 0 (\<lambda>volumeId.
     schedule args 1 ''Mount'' (exec_void Convert2JsErrNum (DiskManagerClient_Mount (na_client na) dm volumeId MountParam_default))))"

definition Js_Unmount :: "'v napi \<Rightarrow> 'w IDiskManager \<Rightarrow> 'v list \<Rightarrow> 'w client js_call" where
  "Js_Unmount na dm args = CheckMount na args (with_string na args 0 (\<lambda>volumeId.
     schedule args 1 ''Unmount'' (exec_void Convert2JsErrNum (DiskManagerClient_Unmount (na_client na) dm volumeId))))"

definition Js_GetVolumeByUuid :: "'v napi \<Rightarrow> 'w IDiskManager \<Rightarrow> 'v list \<Rightarrow> 'w client js_call" where
  "Js_GetVolumeByUuid na dm args = CheckMount na args (with_string na args 0 (\<lambda>uuid.
     schedule args 1 ''GetVolumeByUuid'' (exec_value (\<lambda>v. Resolved (FillVolumeJSObject v))
       (DiskManagerClient_GetVolumeByUuid (na_client na) dm uuid VolumeExternal_defaults))))"

definition Js_GetVolumeById :: "'v napi \<Rightarrow> 'w IDiskManager \<Rightarrow> 'v list \<Rightarrow> 'w client js_call" where
  "Js_GetVolumeById na dm args = CheckMount na args (with_string na args 0 (\<lambda>volumeId.
     schedule args 1 ''GetVolumeById'' (exec_value (\<lambda>v. Resolved (FillVolumeJSObject v))
       (DiskManagerClient_GetVolumeById (na_client na) dm volumeId VolumeExternal_defaults))))"

definition ParseTwoStringArgs :: "'v napi \<Rightarrow> 'v list \<Rightarrow> (string \<times> string) option" where
  "ParseTwoStringArgs na args =
     (case string_arg na args 0 of None \<Rightarrow> None
      | Some first \<Rightarrow> (case string_arg na args 1 of None \<Rightarrow> None | Some second \<Rightarrow> Some (first, second)))"

definition Js_SetVolumeDescription :: "'v napi \<Rightarrow> 'w IDiskManager \<Rightarrow> 'v list \<Rightarrow> 'w client js_call" where
  "Js_SetVolumeDescription na dm args = system_call na 2 3 args
     (case ParseTwoStringArgs na args of None \<Rightarrow> params_error
      | Some (uuid, desc) \<Rightarrow> PromiseVoidOp ''SetVolumeDescription'' (DiskManagerClient_SetVolumeDescription (na_client na) dm uuid desc))"

definition Js_Format :: "'v napi \<Rightarrow> 'w IDiskManager \<Rightarrow> 'v list \<Rightarrow> 'w client js_call" where
  "Js_Format na dm args = system_call na 2 3 args
     (case ParseTwoStringArgs na args of None \<Rightarrow> params_error
      | Some (volumeId, fsType) \<Rightarrow> PromiseVoidOp ''Format'' (DiskManagerClient_Format (na_client na) dm volumeId fsType))"

definition ParseStringAndInt32Args :: "'v napi \<Rightarrow> 'v list \<Rightarrow> (string \<times> int) option" where
  "ParseStringAndInt32Args na args =
     (case string_arg na args 0 of None \<Rightarrow> None
      | Some str \<Rightarrow> (case int32_arg na args 1 of None \<Rightarrow> None | Some n \<Rightarrow> Some (str, n)))"

definition Js_Partition :: "'v napi \<Rightarrow> 'w IDiskManager \<Rightarrow> 'v list \<Rightarrow> 'w client js_call" where
  "Js_Partition na dm args = system_call na 2 3 args
     (case ParseStringAndInt32Args na args of None \<Rightarrow> params_error
      | Some (diskId, type) \<Rightarrow> PromiseVoidOp ''Partition'' (DiskManagerClient_Partition (na_client na) dm diskId type))"

definition Js_GetAllDisks :: "'v napi \<Rightarrow> 'w IDiskManager \<Rightarrow> 'v list \<Rightarrow> 'w client js_call" where
  "Js_GetAllDisks na dm args =
     (if \<not> na_systemApp na then Threw (jerr JE_PERMISSION_SYS)
      else if PERMISSION_MOUNT_MANAGER \<notin> set (na_granted na) then Threw (jerr JE_PERMISSION)
      else if \<not> InitArgs na 0 args then params_error
      else Async Promise ''GetAllDisks'' (exec_value (MakeDiskJsArrayFromVector na) (DiskManagerClient_GetAllDisks (na_client na) dm [])))"

definition Js_GetDiskById :: "'v napi \<Rightarrow> 'w IDiskManager \<Rightarrow> 'v list \<Rightarrow> 'w client js_call" where
  "Js_GetDiskById na dm args =
     (if \<not> InitArgs na 1 args then params_error
      else with_string na args 0 (\<lambda>diskId. Async Promise ''GetDiskById''
        (exec_value (\<lambda>d. Resolved (case BuildDiskJSObject na d of Some x \<Rightarrow> x | None \<Rightarrow> JsUndefined))
          (DiskManagerClient_GetDiskById (na_client na) dm diskId Disk_ctor0))))"

definition Js_Erase :: "'v napi \<Rightarrow> 'w IDiskManager \<Rightarrow> 'v list \<Rightarrow> 'w client js_call" where
  "Js_Erase na dm args = system_call na 1 2 args (with_string na args 0 (\<lambda>volumeId.
     PromiseVoidOp ''Erase'' (DiskManagerClient_Erase (na_client na) dm volumeId)))"

definition Js_Eject :: "'v napi \<Rightarrow> 'w IDiskManager \<Rightarrow> 'v list \<Rightarrow> 'w client js_call" where
  "Js_Eject na dm args = system_call na 1 2 args (with_string na args 0 (\<lambda>diskId.
     PromiseVoidOpSkipParamsInvalid ''Eject'' (DiskManagerClient_Eject (na_client na) dm diskId)))"

definition Js_CreateIsoImage :: "'v napi \<Rightarrow> 'w IDiskManager \<Rightarrow> 'v list \<Rightarrow> 'w client js_call" where
  "Js_CreateIsoImage na dm args = system_call na 2 3 args (with_string na args 0 (\<lambda>volId. with_string na args 1 (\<lambda>filePath.
     PromiseVoidOpSkipParamsInvalid ''CreateIsoImage'' (DiskManagerClient_CreateIsoImage (na_client na) dm volId filePath))))"

definition Js_Burn :: "'v napi \<Rightarrow> 'w IDiskManager \<Rightarrow> 'v list \<Rightarrow> 'w client js_call" where
  "Js_Burn na dm args = system_call na 2 3 args (with_string na args 0 (\<lambda>volumeId.
     case arg args 1 of
       None \<Rightarrow> params_error
     | Some want \<Rightarrow>
         if \<not> napi_typeof_object na want then params_error
         else if napi_has_named_property na want ''parameters'' \<noteq> Some True then params_error
         else let burnOpts = (case napi_get_named_property na want ''parameters'' of
                                None \<Rightarrow> [] | Some parameters \<Rightarrow> BuildBurnOptionsLines na parameters)
              in PromiseVoidOp ''Burn'' (DiskManagerClient_Burn (na_client na) dm volumeId burnOpts)))"

definition ScheduleVolumeGetOpProcess :: "'v napi \<Rightarrow> 'w IDiskManager \<Rightarrow> 'v list \<Rightarrow> string \<Rightarrow> 'w client js_call" where
  "ScheduleVolumeGetOpProcess na dm args volumeIdStr =
     schedule args 1 ''getOpProcess'' (exec_value (\<lambda>progress. Resolved (JsInt progress))
       (DiskManagerClient_GetVolumeOpProcess (na_client na) dm volumeIdStr 0))"

definition Js_GetOpProcess :: "'v napi \<Rightarrow> 'w IDiskManager \<Rightarrow> 'v list \<Rightarrow> 'w client js_call" where
  "Js_GetOpProcess na dm args = system_call na 1 2 args (with_string na args 0 (ScheduleVolumeGetOpProcess na dm args))"

definition Js_IsVolumeInUse :: "'v napi \<Rightarrow> 'w IDiskManager \<Rightarrow> 'v list \<Rightarrow> 'w client js_call" where
  "Js_IsVolumeInUse na dm args =
     (if \<not> na_systemApp na then Threw (jerr JE_PERMISSION_SYS)
      else if PERMISSION_MOUNT_MANAGER \<notin> set (na_granted na) then Threw (jerr JE_PERMISSION)
      else if \<not> InitArgs na 1 args then params_error
      else with_string na args 0 (\<lambda>volumePath. Async Promise ''IsVolumeInUse''
        (exec_value (\<lambda>isInUse. Resolved (JsBool isInUse)) (DiskManagerClient_QueryUsbIsInUse (na_client na) dm volumePath True))))"

definition Js_GetPartitionTable :: "'v napi \<Rightarrow> 'w IDiskManager \<Rightarrow> 'v list \<Rightarrow> 'w client js_call" where
  "Js_GetPartitionTable na dm args =
     (if \<not> InitArgs na 1 args then params_error
      else with_string na args 0 (\<lambda>diskId. Async Promise ''GetPartitionTable''
        (exec_value (\<lambda>t. Resolved (BuildPartitionTableInfoJSObject na t))
          (DiskManagerClient_GetPartitionTable (na_client na) dm diskId PartitionTableInfo_default))))"

definition Js_CreatePartition :: "'v napi \<Rightarrow> 'w IDiskManager \<Rightarrow> 'v list \<Rightarrow> 'w client js_call" where
  "Js_CreatePartition na dm args =
     (if \<not> InitArgs na 2 args then params_error
      else if arg args 0 = None then params_error
      else case arg args 1 of
        None \<Rightarrow> params_error
      | Some paramsObj \<Rightarrow> with_string na args 0 (\<lambda>diskId.
          if \<not> napi_typeof_object na paramsObj then params_error
          else case ParsePartitionParams na paramsObj of
            None \<Rightarrow> params_error
          | Some params \<Rightarrow> PromiseVoidOp ''CreatePartition'' (DiskManagerClient_CreatePartition (na_client na) dm diskId params)))"

definition Js_DeletePartition :: "'v napi \<Rightarrow> 'w IDiskManager \<Rightarrow> 'v list \<Rightarrow> 'w client js_call" where
  "Js_DeletePartition na dm args =
     (if \<not> InitArgs na 2 args then params_error
      else if arg args 0 = None then params_error
      else if arg args 1 = None then params_error
      else with_string na args 0 (\<lambda>diskId. case int32_arg na args 1 of
        None \<Rightarrow> params_error
      | Some partitionNum \<Rightarrow> PromiseVoidOp ''DeletePartition'' (DiskManagerClient_DeletePartition (na_client na) dm diskId partitionNum)))"

text \<open>A missing argument makes this helper fail without an exception.\<close>

definition ParseFormatPartitionBasicArgs :: "'v napi \<Rightarrow> 'v list \<Rightarrow> 'w client js_call + string \<times> int" where
  "ParseFormatPartitionBasicArgs na args =
     (if arg args 0 = None then Inl Nothing
      else if arg args 1 = None then Inl Nothing
      else case string_arg na args 0 of
        None \<Rightarrow> Inl params_error
      | Some diskId \<Rightarrow> (case int32_arg na args 1 of None \<Rightarrow> Inl params_error | Some partitionNum \<Rightarrow> Inr (diskId, partitionNum)))"

definition Js_FormatPartition :: "'v napi \<Rightarrow> 'w IDiskManager \<Rightarrow> 'v list \<Rightarrow> 'w client js_call" where
  "Js_FormatPartition na dm args =
     (if \<not> InitArgs na 3 args then params_error
      else case ParseFormatPartitionBasicArgs na args of
        Inl e \<Rightarrow> e
      | Inr (diskId, partitionNum) \<Rightarrow>
          (case Option.bind (arg args 2) (ParseFormatParams na) of
             None \<Rightarrow> params_error
           | Some params \<Rightarrow> PromiseVoidOp ''FormatPartition''
               (DiskManagerClient_FormatPartition (na_client na) dm diskId partitionNum params)))"

definition Js_GetExternalDiskInfos :: "'v napi \<Rightarrow> 'w IDiskManager \<Rightarrow> 'v list \<Rightarrow> 'w client js_call" where
  "Js_GetExternalDiskInfos na dm args =
     (if PERMISSION_GET_STORAGE_VOLUME_INFO \<notin> set (na_granted na) then Threw (jerr JE_PERMISSION)
      else if \<not> InitArgs na 0 args then params_error
      else Async Promise ''GetExternalDiskInfos''
        (exec_value (MakeExternalDiskJsArray na) (DiskManagerClient_GetExternalDiskInfos (na_client na) dm [])))"

definition Js_GetExternalVolumeInfos :: "'v napi \<Rightarrow> 'w IDiskManager \<Rightarrow> 'v list \<Rightarrow> 'w client js_call" where
  "Js_GetExternalVolumeInfos na dm args =
     (if PERMISSION_GET_STORAGE_VOLUME_INFO \<notin> set (na_granted na) then Threw (jerr JE_PERMISSION)
      else if \<not> InitArgs na 0 args then params_error
      else Async Promise ''GetExternalVolumeInfos''
        (exec_value (MakeExternalVolumeJsArray na) (DiskManagerClient_GetExternalVolumeInfos (na_client na) dm [])))"

section \<open>The exports of the module\<close>

datatype js_api = GetAllVolumesApi | MountApi | UnmountApi | GetVolumeByUuidApi | GetVolumeByIdApi | SetVolumeDescriptionApi | FormatApi
  | PartitionApi | GetAllDisksApi | GetDiskByIdApi | EraseApi | EjectApi | CreateIsoImageApi | BurnApi | GetOpProcessApi
  | GetPartitionTableApi | CreatePartitionApi | DeletePartitionApi | FormatPartitionApi | IsVolumeInUseApi
  | GetExternalDiskInfosApi | GetExternalVolumeInfosApi

definition js_invoke :: "'v napi \<Rightarrow> 'w IDiskManager \<Rightarrow> js_api \<Rightarrow> 'v list \<Rightarrow> 'w client js_call" where
  "js_invoke na dm f = (case f of
     GetAllVolumesApi \<Rightarrow> Js_GetAllVolumes na dm | MountApi \<Rightarrow> Js_Mount na dm | UnmountApi \<Rightarrow> Js_Unmount na dm
   | GetVolumeByUuidApi \<Rightarrow> Js_GetVolumeByUuid na dm | GetVolumeByIdApi \<Rightarrow> Js_GetVolumeById na dm
   | SetVolumeDescriptionApi \<Rightarrow> Js_SetVolumeDescription na dm | FormatApi \<Rightarrow> Js_Format na dm | PartitionApi \<Rightarrow> Js_Partition na dm
   | GetAllDisksApi \<Rightarrow> Js_GetAllDisks na dm | GetDiskByIdApi \<Rightarrow> Js_GetDiskById na dm | EraseApi \<Rightarrow> Js_Erase na dm
   | EjectApi \<Rightarrow> Js_Eject na dm | CreateIsoImageApi \<Rightarrow> Js_CreateIsoImage na dm | BurnApi \<Rightarrow> Js_Burn na dm
   | GetOpProcessApi \<Rightarrow> Js_GetOpProcess na dm | GetPartitionTableApi \<Rightarrow> Js_GetPartitionTable na dm
   | CreatePartitionApi \<Rightarrow> Js_CreatePartition na dm | DeletePartitionApi \<Rightarrow> Js_DeletePartition na dm
   | FormatPartitionApi \<Rightarrow> Js_FormatPartition na dm | IsVolumeInUseApi \<Rightarrow> Js_IsVolumeInUse na dm
   | GetExternalDiskInfosApi \<Rightarrow> Js_GetExternalDiskInfos na dm | GetExternalVolumeInfosApi \<Rightarrow> Js_GetExternalVolumeInfos na dm)"

text \<open>
  The properties of the module object: the functions under their JavaScript names, and two enumerations. The
  second table is the one of \<^verbatim>\<open>volumemanager_napi.cpp\<close>, which keeps an older name besides. The functions of the
  distributed file system follow in \<^verbatim>\<open>Dm_Dfs\<close>.
\<close>

definition g_properties :: "(string \<times> js_api) list" where
  "g_properties =
    [(''getAllVolumes'', GetAllVolumesApi), (''mount'', MountApi), (''unmount'', UnmountApi),
     (''getVolumeByUuid'', GetVolumeByUuidApi), (''getVolumeById'', GetVolumeByIdApi),
     (''setVolumeDescription'', SetVolumeDescriptionApi), (''format'', FormatApi), (''partition'', PartitionApi),
     (''getAllDisks'', GetAllDisksApi), (''getDiskById'', GetDiskByIdApi), (''erase'', EraseApi), (''eject'', EjectApi),
     (''createIsoImage'', CreateIsoImageApi), (''burn'', BurnApi), (''getOpProcess'', GetOpProcessApi),
     (''getPartitionTable'', GetPartitionTableApi), (''createPartition'', CreatePartitionApi),
     (''deletePartition'', DeletePartitionApi), (''formatPartition'', FormatPartitionApi),
     (''isVolumeInUse'', IsVolumeInUseApi), (''getExternalDiskInfos'', GetExternalDiskInfosApi),
     (''getExternalVolumeInfos'', GetExternalVolumeInfosApi)]"

definition VolumeManagerExport :: "(string \<times> js_api) list" where
  "VolumeManagerExport =
    [(''getAllVolumes'', GetAllVolumesApi), (''mount'', MountApi), (''unmount'', UnmountApi),
     (''getVolumeByUuid'', GetVolumeByUuidApi), (''getVolumeById'', GetVolumeByIdApi),
     (''setVolumeDescription'', SetVolumeDescriptionApi), (''format'', FormatApi), (''partition'', PartitionApi),
     (''getAllDisks'', GetAllDisksApi), (''getDiskById'', GetDiskByIdApi), (''erase'', EraseApi), (''eject'', EjectApi),
     (''createIsoImage'', CreateIsoImageApi), (''burn'', BurnApi), (''getOpProcess'', GetOpProcessApi),
     (''getOpticalDriveOpsProgress'', GetOpProcessApi), (''getPartitionTable'', GetPartitionTableApi),
     (''createPartition'', CreatePartitionApi), (''deletePartition'', DeletePartitionApi),
     (''formatPartition'', FormatPartitionApi), (''isVolumeInUse'', IsVolumeInUseApi),
     (''getExternalDiskInfos'', GetExternalDiskInfosApi), (''getExternalVolumeInfos'', GetExternalVolumeInfosApi)]"

definition CreateDiskTypeEnum :: jsval where
  "CreateDiskTypeEnum = JsObj [(''SD_CARD'', JsInt (dt_code SD_FLAG)), (''USB_FLASH'', JsInt (dt_code USB_FLAG)),
     (''CD_DVD_BD'', JsInt (dt_code CD_FLAG)), (''DATA_DISK_SSD'', JsInt (dt_code DATA_DISK_SSD)),
     (''DATA_DISK_HDD'', JsInt (dt_code DATA_DISK_HDD)), (''DVR_USB'', JsInt (dt_code DVR_USB)),
     (''UNKNOWN_DISK_TYPE'', JsInt (dt_code DISK_TYPE_UNKNOWN))]"

definition CreateVerifyTypeEnum :: jsval where
  "CreateVerifyTypeEnum = JsObj [(''KEY_DATA'', JsInt 0), (''FULL_DATA'', JsInt 1)]"

definition ExportModuleEnums :: "(string \<times> jsval) list" where
  "ExportModuleEnums = [(''DiskType'', CreateDiskTypeEnum), (''VerifyType'', CreateVerifyTypeEnum)]"

text \<open>
  Every function is exported under one name, the table of the compatibility module only adds a name, and a
  disk object carries a value of the exported enumeration whenever its type is one of the source's.
\<close>

lemma exports_complete:
  shows "distinct (map fst g_properties)" "distinct (map snd g_properties)" "f \<in> set (map snd g_properties)"
    and "filter (\<lambda>p. fst p \<noteq> ''getOpticalDriveOpsProgress'') VolumeManagerExport = g_properties"
  by (simp_all add: g_properties_def VolumeManagerExport_def) (cases f, simp_all)

lemma disk_type_exported: "\<exists>n ps. CreateDiskTypeEnum = JsObj ps \<and> (n, JsInt (dt_code t)) \<in> set ps"
  by (cases t) (auto simp: CreateDiskTypeEnum_def)

section \<open>What a call does\<close>

text \<open>The rights a function checks before it schedules anything, and the request the arguments stand for.\<close>

definition js_allowed :: "'v napi \<Rightarrow> js_api \<Rightarrow> bool" where
  "js_allowed na f = (case f of
     GetDiskByIdApi \<Rightarrow> True | GetPartitionTableApi \<Rightarrow> True | CreatePartitionApi \<Rightarrow> True | DeletePartitionApi \<Rightarrow> True | FormatPartitionApi \<Rightarrow> True
   | GetExternalDiskInfosApi \<Rightarrow> PERMISSION_GET_STORAGE_VOLUME_INFO \<in> set (na_granted na)
   | GetExternalVolumeInfosApi \<Rightarrow> PERMISSION_GET_STORAGE_VOLUME_INFO \<in> set (na_granted na)
   | GetAllDisksApi \<Rightarrow> na_systemApp na \<and> PERMISSION_MOUNT_MANAGER \<in> set (na_granted na)
   | IsVolumeInUseApi \<Rightarrow> na_systemApp na \<and> PERMISSION_MOUNT_MANAGER \<in> set (na_granted na)
   | _ \<Rightarrow> na_systemApp na)"

definition burn_text :: "'v napi \<Rightarrow> 'v \<Rightarrow> string" where
  "burn_text na want = (case napi_get_named_property na want ''parameters'' of None \<Rightarrow> [] | Some p \<Rightarrow> BuildBurnOptionsLines na p)"

definition js_request :: "'v napi \<Rightarrow> js_api \<Rightarrow> 'v list \<Rightarrow> request option" where
  "js_request na f args =
     (let s0 = string_arg na args 0; s1 = string_arg na args 1; n1 = int32_arg na args 1 in
      case f of
        GetAllVolumesApi \<Rightarrow> Some Rq_GetAllVolumes
      | MountApi \<Rightarrow> map_option (\<lambda>k. Rq_Mount k MountParam_default) s0
      | UnmountApi \<Rightarrow> map_option Rq_Unmount s0
      | GetVolumeByUuidApi \<Rightarrow> map_option Rq_GetVolumeByUuid s0
      | GetVolumeByIdApi \<Rightarrow> map_option Rq_GetVolumeById s0
      | SetVolumeDescriptionApi \<Rightarrow> Option.bind s0 (\<lambda>u. map_option (Rq_SetVolumeDescription u) s1)
      | FormatApi \<Rightarrow> Option.bind s0 (\<lambda>k. map_option (Rq_Format k) s1)
      | PartitionApi \<Rightarrow> Option.bind s0 (\<lambda>k. map_option (Rq_Partition k) n1)
      | GetAllDisksApi \<Rightarrow> Some Rq_GetAllDisks
      | GetDiskByIdApi \<Rightarrow> map_option Rq_GetDiskById s0
      | EraseApi \<Rightarrow> map_option Rq_Erase s0
      | EjectApi \<Rightarrow> map_option Rq_Eject s0
      | CreateIsoImageApi \<Rightarrow> Option.bind s0 (\<lambda>k. map_option (Rq_CreateIsoImage k) s1)
      | BurnApi \<Rightarrow> Option.bind s0 (\<lambda>k. map_option (\<lambda>want. Rq_Burn k (burn_text na want)) (arg args 1))
      | GetOpProcessApi \<Rightarrow> map_option Rq_GetVolumeOpProcess s0
      | GetPartitionTableApi \<Rightarrow> map_option (\<lambda>k. Rq_GetPartitionTable k PartitionTableInfo_default) s0
      | CreatePartitionApi \<Rightarrow> Option.bind s0 (\<lambda>k. map_option (Rq_CreatePartition k) (Option.bind (arg args 1) (ParsePartitionParams na)))
      | DeletePartitionApi \<Rightarrow> Option.bind s0 (\<lambda>k. map_option (Rq_DeletePartition k) n1)
      | FormatPartitionApi \<Rightarrow> Option.bind s0 (\<lambda>k. Option.bind n1 (\<lambda>n.
          map_option (Rq_FormatPartition k n) (Option.bind (arg args 2) (ParseFormatParams na))))
      | IsVolumeInUseApi \<Rightarrow> map_option Rq_QueryUsbIsInUse s0
      | GetExternalDiskInfosApi \<Rightarrow> Some Rq_GetExternalDiskInfos
      | GetExternalVolumeInfosApi \<Rightarrow> Some Rq_GetExternalVolumeInfos)"

text \<open>What a function demands of its arguments beyond that: their number, and that a parameter object is one.\<close>

definition js_arguments :: "'v napi \<Rightarrow> js_api \<Rightarrow> 'v list \<Rightarrow> bool" where
  "js_arguments na f args \<longleftrightarrow>
     (if f = GetAllVolumesApi then InitArgs2 na 0 1 args
      else if f \<in> {MountApi, UnmountApi, GetVolumeByUuidApi, GetVolumeByIdApi, EraseApi, EjectApi, GetOpProcessApi} then InitArgs2 na 1 2 args
      else if f \<in> {SetVolumeDescriptionApi, FormatApi, PartitionApi, CreateIsoImageApi, BurnApi} then InitArgs2 na 2 3 args
      else if f \<in> {GetAllDisksApi, GetExternalDiskInfosApi, GetExternalVolumeInfosApi} then InitArgs na 0 args
      else if f \<in> {GetDiskByIdApi, IsVolumeInUseApi, GetPartitionTableApi} then InitArgs na 1 args
      else if f = FormatPartitionApi then InitArgs na 3 args
      else InitArgs na 2 args) \<and>
     (if f = CreatePartitionApi then \<exists>obj. arg args 1 = Some obj \<and> napi_typeof_object na obj
      else f = BurnApi \<longrightarrow> (\<exists>want. arg args 1 = Some want \<and> napi_typeof_object na want \<and>
        napi_has_named_property na want ''parameters'' = Some True))"

definition js_code :: "js_api \<Rightarrow> int \<Rightarrow> int" where
  "js_code f e = (if (f = EjectApi \<or> f = CreateIsoImageApi) \<and> e = E_PARAMS_INVALID then e else Convert2JsErrNum e)"

definition arrays_work :: "'v napi \<Rightarrow> bool" where
  "arrays_work na \<longleftrightarrow> napi_create_array na = 0 \<and> (\<forall>i x. napi_set_element na i x = 0)"

lemma js_code_fun:
  "js_code f = (if f = EjectApi \<or> f = CreateIsoImageApi then \<lambda>res. if res = E_PARAMS_INVALID then res else Convert2JsErrNum res
    else Convert2JsErrNum)"
  by (auto simp: js_code_def)

text \<open>A work that performs this request and settles with its code.\<close>

definition performs :: "bool \<Rightarrow> (int \<Rightarrow> int) \<Rightarrow> ('w client \<Rightarrow> errno \<times> 'w client) \<Rightarrow> ('w client \<Rightarrow> js_result \<times> 'w client) \<Rightarrow> bool" where
  "performs ok conv call work \<longleftrightarrow> (\<forall>s. snd (work s) = snd (call s) \<and>
     (if fst (call s) \<noteq> E_OK then fst (work s) = Rejected (conv (fst (call s))) else ok \<longrightarrow> (\<exists>v. fst (work s) = Resolved v)))"

lemma performs_void: "performs ok conv call (exec_void conv call)"
  by (simp add: performs_def exec_void_def split: prod.splits)

lemma performs_value: "(\<And>x. ok \<Longrightarrow> \<exists>v. build x = Resolved v) \<Longrightarrow> performs ok Convert2JsErrNum (code call) (exec_value build call)"
  by (auto simp: performs_def exec_value_def code_def split: prod.splits)

lemma set_elements_work: "arrays_work na \<Longrightarrow> set_elements na i xs = 0"
  by (induction xs arbitrary: i) (simp_all add: arrays_work_def)

lemma set_objects_work: "arrays_work na \<Longrightarrow> list_all (\<lambda>x. x \<noteq> None) xs \<Longrightarrow> set_objects na i xs = 0"
  by (induction na i xs rule: set_objects.induct) (simp_all add: arrays_work_def)

lemma builds_work:
  assumes "arrays_work na"
  shows "\<exists>v. BuildVolumeArrayFromVector na vs = Resolved v" "\<exists>v. MakeDiskJsArrayFromVector na ds = Resolved v"
    "\<exists>v. MakeExternalDiskJsArray na eds = Resolved v" "\<exists>v. MakeExternalVolumeJsArray na evs = Resolved v"
  using assms set_elements_work[OF assms] set_objects_work[OF assms]
  by (simp_all add: BuildVolumeArrayFromVector_def MakeDiskJsArrayFromVector_def js_array_def MakeExternalDiskJsArray_def
      MakeExternalVolumeJsArray_def js_object_array_def arrays_work_def BuildExternalDiskJSObject_def list_all_iff)

lemmas js_defs = js_invoke_def Js_GetAllVolumes_def Js_Mount_def Js_Unmount_def Js_GetVolumeByUuid_def Js_GetVolumeById_def
  Js_SetVolumeDescription_def Js_Format_def Js_Partition_def Js_GetAllDisks_def Js_GetDiskById_def Js_Erase_def Js_Eject_def
  Js_CreateIsoImage_def Js_Burn_def Js_GetOpProcess_def ScheduleVolumeGetOpProcess_def Js_IsVolumeInUse_def Js_GetPartitionTable_def Js_CreatePartition_def
  Js_DeletePartition_def Js_FormatPartition_def Js_GetExternalDiskInfos_def Js_GetExternalVolumeInfos_def
  CheckVolumes_def CheckMount_def system_call_def with_string_def schedule_def PromiseVoidOp_def PromiseVoidOpSkipParamsInvalid_def
  ParseTwoStringArgs_def ParseStringAndInt32Args_def ParseFormatPartitionBasicArgs_def

lemma js_call_cases:
  "case js_invoke na dm f args of
     Async d n work \<Rightarrow> js_allowed na f \<and> (\<exists>rq. js_request na f args = Some rq \<and>
       performs (arrays_work na) (js_code f) (client_invoke (na_client na) dm rq) work)
   | Threw e \<Rightarrow> e \<in> {jerr JE_PERMISSION, jerr JE_PERMISSION_SYS, jerr JE_PARAMS}
   | Nothing \<Rightarrow> f = FormatPartitionApi \<and> length args < 2"
  by (cases f)
    (auto simp: js_code_fun js_defs js_allowed_def js_request_def client_invoke_def burn_text_def Let_def arg_def
      split: if_splits option.splits intro!: performs_void performs_value builds_work)

lemma js_throws_exact:
  "js_invoke na dm f args = Threw e \<Longrightarrow>
   (if js_allowed na f then e = jerr JE_PARAMS \<and> \<not> (js_arguments na f args \<and> js_request na f args \<noteq> None)
    else e = jerr JE_PERMISSION \<or> e = jerr JE_PERMISSION_SYS)"
  by (cases f)
    (auto simp: js_defs js_allowed_def js_arguments_def js_request_def Let_def arg_def split: if_splits option.splits,
     simp_all add: string_arg_def int32_arg_def arg_def)

lemma js_schedules_arguments: "js_invoke na dm f args = Async d n work \<Longrightarrow> js_arguments na f args"
  by (cases f) (auto simp: js_defs js_arguments_def Let_def arg_def split: if_splits option.splits)

text \<open>
  C10: what a JavaScript call comes to. A function throws one of the two permission errors exactly when the caller
  lacks the rights the function asks for, and the parameter error exactly when the arguments are not in number and
  kind what stands for a request. Otherwise it schedules a work, which performs exactly this one request, leaves the
  client as the request does, and on an error rejects with the converted code; without an error it resolves,
  provided the engine can build arrays. Only the formatting of a partition can return without either, when
  arguments are missing although the library accepted their number.
\<close>
theorem js_call_spec:
  "case js_invoke na dm f args of
     Async d n work \<Rightarrow> js_allowed na f \<and> js_arguments na f args \<and> (\<exists>rq. js_request na f args = Some rq \<and>
       performs (arrays_work na) (js_code f) (client_invoke (na_client na) dm rq) work)
   | Threw e \<Rightarrow> (if js_allowed na f then e = jerr JE_PARAMS \<and> \<not> (js_arguments na f args \<and> js_request na f args \<noteq> None)
       else e = jerr JE_PERMISSION \<or> e = jerr JE_PERMISSION_SYS)
   | Nothing \<Rightarrow> f = FormatPartitionApi \<and> length args < 2"
  using js_call_cases[where na = na and dm = dm and f = f and args = args] js_throws_exact[of na dm f args] js_schedules_arguments[of na dm f args]
  by (cases "js_invoke na dm f args") simp_all

section \<open>The two bindings agree\<close>

text \<open>The engine's view of the parameters of a burn is that of the JSON object \<open>m\<close>, whose strings have no zero character.\<close>

definition same_params :: "'v napi \<Rightarrow> 'v \<Rightarrow> (string \<times> json) list \<Rightarrow> bool" where
  "same_params na want m \<longleftrightarrow> (\<forall>k.
     Option.bind (want_prop na want k) (ToUTF8String na) = (case om_get m k of Some (JString v) \<Rightarrow> Some v | _ \<Rightarrow> None) \<and>
     Option.bind (want_prop na want k) (napi_get_value_bool na) = (case om_get m k of Some (JBool b) \<Rightarrow> Some b | _ \<Rightarrow> None) \<and>
     Option.bind (want_prop na want k) (ToInt32 na) = (case om_get m k of Some (JNum n) \<Rightarrow> Some (to_int32 n) | _ \<Rightarrow> None)) \<and>
     (\<forall>k v. om_get m k = Some (JString v) \<longrightarrow> NUL \<notin> set v)"

lemma c_str_plain: "NUL \<notin> set v \<Longrightarrow> c_str v = v"
  by (auto simp: c_str_def intro: takeWhile_eq_all_conv[THEN iffD2])

lemma append_lines:
  assumes "same_params na want m"
  shows "AppendWantLineUtf8 na k want = appendStr m k" "AppendWantLineBool na k want = appendBool m k" "AppendWantLineInt32 na k want = appendInt m k"
  using assms unfolding same_params_def
  by (auto simp: AppendWantLineUtf8_def AppendWantLineBool_def AppendWantLineInt32_def appendStr_def appendBool_def appendInt_def c_str_plain
      split: option.splits json.splits)

text \<open>
  Both bindings turn the same parameters of a burn into the same text, although one reads the properties of an
  object and the other parses the JSON text of it; so the service checks and the daemon receives the same options.
\<close>
theorem burn_options_agree:
  assumes "same_params na want m"
  shows "BuildBurnOptionsLines na want = burn_option_lines m"
  by (simp add: BuildBurnOptionsLines_def burn_option_lines_def append_lines[OF assms])

text \<open>
  C11: both bindings are the same interface to the service. Whenever a JavaScript function and a Taihe function
  stand for the same request and neither refuses it, they leave the client and the service in the same state and
  both succeed or both fail: with the error code of the service converted by their tables.
\<close>
theorem bindings_agree:
  assumes "js_invoke na dm f args = Async d n work" "js_request na f args = Some rq"
    and "taihe_check te g = None" "taihe_request te g = rq" "tn_client te = na_client na"
  shows "\<exists>e. snd (work s) = snd (taihe_invoke te dm g s) \<and>
    (if e = E_OK then fst (taihe_invoke te dm g s) = None \<and> (arrays_work na \<longrightarrow> (\<exists>v. fst (work s) = Resolved v))
     else fst (work s) = Rejected (js_code f e) \<and> fst (taihe_invoke te dm g s) = Some (SetStorageTaiheError te e))"
proof -
  have "performs (arrays_work na) (js_code f) (client_invoke (na_client na) dm rq) work"
    using js_call_cases[where na = na and dm = dm and f = f and args = args] assms(1,2) by simp
  then show ?thesis using assms(3-5) unfolding performs_def
    by (intro exI[of _ "fst (client_invoke (na_client na) dm rq s)"]) (auto simp: taihe_call_spec taihe_outcome_def split: prod.splits)
qed

text \<open>An engine on JSON values.\<close>

definition json_napi :: "json napi" where
  "json_napi = \<lparr>na_systemApp = True, na_granted = [], na_client = demo_client_env,
     InitArgs = (\<lambda>n args. length args = n), InitArgs2 = (\<lambda>lo hi args. lo \<le> length args \<and> length args \<le> hi),
     ToUTF8String = (\<lambda>v. case v of JString s \<Rightarrow> Some s | _ \<Rightarrow> None), ToInt32 = (\<lambda>v. case v of JNum n \<Rightarrow> Some (to_int32 n) | _ \<Rightarrow> None),
     ToInt64 = (\<lambda>v. case v of JNum n \<Rightarrow> Some n | _ \<Rightarrow> None), ToBool = (\<lambda>v. case v of JBool b \<Rightarrow> Some b | _ \<Rightarrow> None),
     GetProp = (\<lambda>v k. case v of JObject m \<Rightarrow> om_get m k | _ \<Rightarrow> None),
     napi_has_named_property = (\<lambda>v k. case v of JObject m \<Rightarrow> Some (om_get m k \<noteq> None) | _ \<Rightarrow> None),
     napi_get_named_property = (\<lambda>v k. case v of JObject m \<Rightarrow> om_get m k | _ \<Rightarrow> None),
     napi_get_value_bool = (\<lambda>v. case v of JBool b \<Rightarrow> Some b | _ \<Rightarrow> None),
     napi_typeof_object = (\<lambda>v. case v of JObject m \<Rightarrow> True | _ \<Rightarrow> False),
     napi_create_array = 0, napi_set_element = (\<lambda>i x. 0), napi_generic_failure = 9\<rparr>"

lemma json_same_params:
  assumes "\<And>k v. om_get m k = Some (JString v) \<Longrightarrow> NUL \<notin> set v"
  shows "same_params json_napi (JObject m) m"
  using assms by (auto simp: same_params_def want_prop_def json_napi_def split: option.splits json.splits)

theorem burn_options_agree_witness:
  "BuildBurnOptionsLines json_napi (JObject [(''burnPath'', JString ''/a''), (''burnSpeed'', JNum 8)]) =
     ''burnPath=/a'' @ [NL] @ ''burnSpeed=8'' @ [NL]"
proof -
  have "same_params json_napi (JObject [(''burnPath'', JString ''/a''), (''burnSpeed'', JNum 8)]) [(''burnPath'', JString ''/a''), (''burnSpeed'', JNum 8)]"
    by (rule json_same_params) (auto split: if_splits)
  moreover have "int_to_string (to_int32 8) = ''8''" by code_simp
  ultimately show ?thesis using burn_options_agree[of json_napi "JObject [(''burnPath'', JString ''/a''), (''burnSpeed'', JNum 8)]"]
    by (simp add: burn_option_lines_def appendStr_def appendBool_def appendInt_def)
qed

text \<open>Both functions erase a disc with the provider behind the client, as a caller without rights.\<close>

theorem bindings_agree_witness:
  "\<exists>work. js_invoke json_napi demo_service EraseApi [JString ''vol-11-0''] = Async Promise ''Erase'' work \<and>
     snd (work (client_start two_disks)) = snd (taihe_invoke demo_taihe demo_service (T_Erase ''vol-11-0'') (client_start two_disks))"
proof -
  obtain work where w: "js_invoke json_napi demo_service EraseApi [JString ''vol-11-0''] = Async Promise ''Erase'' work"
    by (simp add: js_invoke_def Js_Erase_def system_call_def json_napi_def with_string_def string_arg_def arg_def PromiseVoidOp_def)
  have "js_request json_napi EraseApi [JString ''vol-11-0''] = Some (Rq_Erase ''vol-11-0'')"
    by (simp add: js_request_def json_napi_def string_arg_def arg_def c_str_def)
  moreover have "taihe_check demo_taihe (T_Erase ''vol-11-0'') = None" "taihe_request demo_taihe (T_Erase ''vol-11-0'') = Rq_Erase ''vol-11-0''"
    "tn_client demo_taihe = na_client json_napi"
    by (simp_all add: taihe_check_def taihe_request_def demo_taihe_def json_napi_def)
  ultimately show ?thesis using bindings_agree[OF w] w by blast
qed

end
