(* ===== verification/Dm_Dfs.thy ===== *)
theory Dm_Dfs
  imports Dm_Js
begin

text \<open>
  The bindings for the distributed file system, built with \<open>HMDFS_FILE_MANAGER\<close>:
  \<^verbatim>\<open>interfaces/kits/js/volume_manager/src/napi_module_dfs_service.cpp\<close> and \<^verbatim>\<open>napi_module_dfs_listener.cpp\<close>. They
  call the manager of the distributed file daemon, a library outside the repository: the record \<open>dfs_manager\<close> with
  a state \<open>'w\<close> of its own. The module keeps the listeners it registered there in the map \<open>dfsListeners\<close>, by
  instance identifier. Proved: the map agrees with the registrations, with the one exception of a failed
  second registration, after which the listener can no longer be removed.
\<close>

section \<open>The daemon and the engine\<close>

record DfsDeviceInfo =
  df_networkId :: string
  df_path :: string

record 'w dfs_manager =
  dfs_IsSameAccountDevice :: "string \<Rightarrow> 'w \<Rightarrow> (int \<times> bool) \<times> 'w"
  dfs_GetDfsSwitchStatus :: "string \<Rightarrow> 'w \<Rightarrow> (int \<times> int) \<times> 'w"
  dfs_UpdateDfsSwitchStatus :: "int \<Rightarrow> 'w \<Rightarrow> int \<times> 'w"
  dfs_OpenP2PConnectionEx :: "string \<Rightarrow> 'w \<Rightarrow> int \<times> 'w"
  dfs_CloseP2PConnectionEx :: "string \<Rightarrow> 'w \<Rightarrow> int \<times> 'w"
  dfs_GetConnectedDeviceList :: "'w \<Rightarrow> (int \<times> DfsDeviceInfo list) \<times> 'w"
  dfs_RegisterFileDfsListener :: "string \<Rightarrow> nat \<Rightarrow> 'w \<Rightarrow> int \<times> 'w"
  dfs_UnregisterFileDfsListener :: "string \<Rightarrow> 'w \<Rightarrow> int \<times> 'w"

text \<open>
  What these files use of the engine beyond \<open>napi\<close>: the number conversion with a default, the two steps of reading a
  string, and whether the operations that create the parts of an object succeed (\<open>dn_ok i j\<close>: step \<open>j\<close> for element
  \<open>i\<close>).
\<close>

record 'v dfs_napi = "'v napi" +
  dn_ToInt32 :: "int \<Rightarrow> 'v \<Rightarrow> int option"
  dn_cb_info :: int
  dn_string_size :: "'v \<Rightarrow> int \<times> nat"
  dn_string_value :: "'v \<Rightarrow> int \<times> string"
  dn_ok :: "nat \<Rightarrow> nat \<Rightarrow> bool"

text \<open>The state: the listeners of the module and the daemon. Synchronous functions throw or return a value.\<close>

record 'w dfs =
  dfsListeners :: "string \<rightharpoonup> nat"
  dfs_world :: 'w

datatype sync_result = SyncThrew int | SyncValue jsval | SyncNull

definition EINVAL :: int where "EINVAL = 22"
definition NAPI_NUMBER_SIZE :: int where "NAPI_NUMBER_SIZE = 5"

definition dfs_call :: "('w \<Rightarrow> 'r \<times> 'w) \<Rightarrow> 'w dfs \<Rightarrow> 'r \<times> 'w dfs" where
  "dfs_call m s = (case m (dfs_world s) of (r, w) \<Rightarrow> (r, s\<lparr>dfs_world := w\<rparr>))"

section \<open>The functions\<close>

definition DealNapiStrValue :: "('v, 'x) dfs_napi_scheme \<Rightarrow> 'v \<Rightarrow> string \<Rightarrow> int \<times> string" where
  "DealNapiStrValue na v result =
     (case dn_string_size na v of (status, bufferSize) \<Rightarrow>
      if status \<noteq> 0 then (status, result)
      else if bufferSize = 0 then (0, [])
      else case dn_string_value na v of (status1, buffer) \<Rightarrow>
        if status1 \<noteq> 0 then (status1, result) else (status1, buffer))"

fun device_objects :: "('v, 'x) dfs_napi_scheme \<Rightarrow> nat \<Rightarrow> DfsDeviceInfo list \<Rightarrow> jsval list option" where
  "device_objects na i [] = Some []"
| "device_objects na i (d # ds) =
     (if list_all (dn_ok na i) [0, 1, 2, 3, 4, 5] then
        map_option ((#) (JsObj [(''networkId'', JsStr (c_str (df_networkId d))), (''path'', JsStr (c_str (df_path d)))])) (device_objects na (Suc i) ds)
      else None)"

definition CreateDfsDeviceInfosAsNapiArray :: "('v, 'x) dfs_napi_scheme \<Rightarrow> DfsDeviceInfo list \<Rightarrow> sync_result" where
  "CreateDfsDeviceInfosAsNapiArray na infos =
     (if napi_create_array na \<noteq> 0 then SyncNull
      else case device_objects na 0 infos of None \<Rightarrow> SyncNull | Some xs \<Rightarrow> SyncValue (JsArr xs))"

definition sync_string_call :: "('v, 'x) dfs_napi_scheme \<Rightarrow> 'v list \<Rightarrow> (string \<Rightarrow> 'w dfs \<Rightarrow> sync_result \<times> 'w dfs) \<Rightarrow>
    'w dfs \<Rightarrow> sync_result \<times> 'w dfs" where
  "sync_string_call na args k s =
     (if \<not> InitArgs2 na 1 1 args then (SyncThrew EINVAL, s)
      else case Option.bind (arg args 0) (ToUTF8String na) of
        None \<Rightarrow> (SyncThrew (jerr JE_PARAMS), s)
      | Some networkId \<Rightarrow> k (c_str networkId) s)"

definition Dfs_IsSameAccountDevice :: "('v, 'x) dfs_napi_scheme \<Rightarrow> 'w dfs_manager \<Rightarrow> 'v list \<Rightarrow> 'w dfs \<Rightarrow> sync_result \<times> 'w dfs" where
  "Dfs_IsSameAccountDevice na dfd args = sync_string_call na args (\<lambda>networkId s.
     case dfs_call (dfs_IsSameAccountDevice dfd networkId) s of ((rc, isSameAccount), s1) \<Rightarrow>
       (if rc \<noteq> E_OK then SyncThrew rc else SyncValue (JsBool isSameAccount), s1))"

definition Dfs_GetDfsSwitchStatus :: "('v, 'x) dfs_napi_scheme \<Rightarrow> 'w dfs_manager \<Rightarrow> 'v list \<Rightarrow> 'w dfs \<Rightarrow> sync_result \<times> 'w dfs" where
  "Dfs_GetDfsSwitchStatus na dfd args = sync_string_call na args (\<lambda>networkId s.
     case dfs_call (dfs_GetDfsSwitchStatus dfd networkId) s of ((rc, switchStatus), s1) \<Rightarrow>
       (if rc \<noteq> E_OK then SyncThrew rc else SyncValue (JsInt switchStatus), s1))"

definition dfs_promise :: "string \<Rightarrow> ('w \<Rightarrow> int \<times> 'w) \<Rightarrow> 'w dfs js_call" where
  "dfs_promise procName m = Async Promise procName (\<lambda>s. case dfs_call m s of (errNum, s1) \<Rightarrow>
     (if errNum \<noteq> E_OK then Rejected (Convert2JsErrNum errNum) else Resolved JsUndefined, s1))"

definition Dfs_UpdateDfsSwitchStatus :: "('v, 'x) dfs_napi_scheme \<Rightarrow> 'w dfs_manager \<Rightarrow> 'v list \<Rightarrow> 'w dfs js_call" where
  "Dfs_UpdateDfsSwitchStatus na dfd args =
     (if \<not> InitArgs2 na 1 1 args then Threw EINVAL
      else case Option.bind (arg args 0) (dn_ToInt32 na NAPI_NUMBER_SIZE) of
        None \<Rightarrow> Threw (jerr JE_PARAMS)
      | Some status \<Rightarrow> dfs_promise ''UpdateDfsSwitchStatus'' (dfs_UpdateDfsSwitchStatus dfd status))"

definition dfs_string_promise :: "('v, 'x) dfs_napi_scheme \<Rightarrow> 'v list \<Rightarrow> string \<Rightarrow> (string \<Rightarrow> 'w \<Rightarrow> int \<times> 'w) \<Rightarrow> 'w dfs js_call" where
  "dfs_string_promise na args procName m =
     (if \<not> InitArgs2 na 1 1 args then Threw EINVAL
      else case Option.bind (arg args 0) (ToUTF8String na) of
        None \<Rightarrow> Threw (jerr JE_PARAMS)
      | Some networkId \<Rightarrow> dfs_promise procName (m (c_str networkId)))"

definition Dfs_ConnectDfs :: "('v, 'x) dfs_napi_scheme \<Rightarrow> 'w dfs_manager \<Rightarrow> 'v list \<Rightarrow> 'w dfs js_call" where
  "Dfs_ConnectDfs na dfd args = dfs_string_promise na args ''ConnectDfs'' (dfs_OpenP2PConnectionEx dfd)"

definition Dfs_DisconnectDfs :: "('v, 'x) dfs_napi_scheme \<Rightarrow> 'w dfs_manager \<Rightarrow> 'v list \<Rightarrow> 'w dfs js_call" where
  "Dfs_DisconnectDfs na dfd args = dfs_string_promise na args ''DisconnectDfs'' (dfs_CloseP2PConnectionEx dfd)"

definition Dfs_GetConnectedDeviceList :: "('v, 'x) dfs_napi_scheme \<Rightarrow> 'w dfs_manager \<Rightarrow> 'v list \<Rightarrow> 'w dfs \<Rightarrow> sync_result \<times> 'w dfs" where
  "Dfs_GetConnectedDeviceList na dfd args s =
     (if \<not> InitArgs2 na 0 0 args then (SyncThrew EINVAL, s)
      else case dfs_call (dfs_GetConnectedDeviceList dfd) s of ((rc, infos), s1) \<Rightarrow>
        (if rc \<noteq> E_OK then SyncThrew rc else CreateDfsDeviceInfosAsNapiArray na infos, s1))"

text \<open>
  \<open>on\<close> and \<open>off\<close>: the second argument is the instance identifier, the third the callback; \<open>listener\<close> is the new
  listener object. Neither reports a failure to the application.
\<close>

definition DeviceOnline :: "('v, 'x) dfs_napi_scheme \<Rightarrow> 'w dfs_manager \<Rightarrow> nat \<Rightarrow> 'v list \<Rightarrow> 'w dfs \<Rightarrow> 'w dfs" where
  "DeviceOnline na dfd listener args s =
     (if dn_cb_info na \<noteq> 0 \<or> length args \<noteq> 3 then s
      else case DealNapiStrValue na (args ! 1) [] of (status, instanceId) \<Rightarrow>
        if status \<noteq> 0 then s
        else let s1 = s\<lparr>dfsListeners := (dfsListeners s)(instanceId \<mapsto> listener)\<rparr> in
          case dfs_call (dfs_RegisterFileDfsListener dfd instanceId listener) s1 of (rc, s2) \<Rightarrow>
            if rc \<noteq> 0 then s2\<lparr>dfsListeners := (dfsListeners s2)(instanceId := None)\<rparr> else s2)"

definition DeviceOffline :: "('v, 'x) dfs_napi_scheme \<Rightarrow> 'w dfs_manager \<Rightarrow> 'v list \<Rightarrow> 'w dfs \<Rightarrow> 'w dfs" where
  "DeviceOffline na dfd args s =
     (if dn_cb_info na \<noteq> 0 \<or> length args \<noteq> 2 then s
      else let instanceId = snd (DealNapiStrValue na (args ! 1) []) in
        if dfsListeners s instanceId = None then s
        else case dfs_call (dfs_UnregisterFileDfsListener dfd instanceId) s of (rc, s1) \<Rightarrow>
          if rc \<noteq> 0 then s1 else s1\<lparr>dfsListeners := (dfsListeners s1)(instanceId := None)\<rparr>)"

section \<open>The listener\<close>

record StatusEventInfo =
  se_networkId :: string
  se_status :: int
  se_path :: string
  se_type :: int

definition OnStatus :: "string \<Rightarrow> int \<Rightarrow> string \<Rightarrow> int \<Rightarrow> StatusEventInfo option" where
  "OnStatus networkId status path type =
     (if networkId = [] \<or> path = [] then None
      else Some \<lparr>se_networkId = networkId, se_status = status, se_path = path, se_type = type\<rparr>)"

text \<open>\<open>ok n\<close>: whether the \<open>n\<close>-th call of the engine in the handling of an event succeeds; the result is what the callback gets.\<close>

definition CreateEventDataObject :: "(nat \<Rightarrow> bool) \<Rightarrow> StatusEventInfo \<Rightarrow> jsval option" where
  "CreateEventDataObject ok e =
     (if \<not> ok 1 then None
      else if \<not> ok 2 \<or> \<not> ok 3 then None
      else if \<not> ok 4 \<or> \<not> ok 5 then None
      else if \<not> ok 6 \<or> \<not> ok 7 then None
      else if \<not> ok 8 \<or> \<not> ok 9 then None
      else Some (JsObj [(''networkId'', JsStr (c_str (se_networkId e))), (''path'', JsStr (c_str (se_path e))), (''type'', JsInt (se_type e)),
        (''status'', JsInt (se_status e))]))"

definition HandleStatusEvent :: "(nat \<Rightarrow> bool) \<Rightarrow> StatusEventInfo \<Rightarrow> jsval option" where
  "HandleStatusEvent ok e =
     (if \<not> ok 0 then None
      else case CreateEventDataObject ok e of
        None \<Rightarrow> None
      | Some target \<Rightarrow> if \<not> ok 10 then None else Some target)"

section \<open>The listeners and the daemon\<close>

text \<open>The documented behaviour of the manager: a successful call changes the registration of this identifier, a failed one none.\<close>

definition dfs_laws :: "'w dfs_manager \<Rightarrow> ('w \<Rightarrow> string \<rightharpoonup> nat) \<Rightarrow> bool" where
  "dfs_laws dfd registered \<longleftrightarrow>
     (\<forall>k l w. registered (snd (dfs_RegisterFileDfsListener dfd k l w)) =
        (if fst (dfs_RegisterFileDfsListener dfd k l w) = 0 then (registered w)(k \<mapsto> l) else registered w)) \<and>
     (\<forall>k w. registered (snd (dfs_UnregisterFileDfsListener dfd k w)) =
        (if fst (dfs_UnregisterFileDfsListener dfd k w) = 0 then (registered w)(k := None) else registered w))"

definition listeners_agree :: "('w \<Rightarrow> string \<rightharpoonup> nat) \<Rightarrow> 'w dfs \<Rightarrow> bool" where
  "listeners_agree registered s \<longleftrightarrow> dfsListeners s = registered (dfs_world s)"

lemma Register_laws:
  assumes "dfs_laws dfd registered" "dfs_RegisterFileDfsListener dfd k l w = (rc, w1)"
  shows "registered w1 = (if rc = 0 then (registered w)(k \<mapsto> l) else registered w)"
  using assms(1)[unfolded dfs_laws_def, THEN conjunct1, rule_format, of k l w] by (simp add: assms(2))

lemma Unregister_laws:
  assumes "dfs_laws dfd registered" "dfs_UnregisterFileDfsListener dfd k w = (rc, w1)"
  shows "registered w1 = (if rc = 0 then (registered w)(k := None) else registered w)"
  using assms(1)[unfolded dfs_laws_def, THEN conjunct2, rule_format, of k w] by (simp add: assms(2))

lemma DeviceOffline_agree:
  assumes "dfs_laws dfd registered" "listeners_agree registered s"
  shows "listeners_agree registered (DeviceOffline na dfd args s)"
  using assms by (auto simp: DeviceOffline_def listeners_agree_def dfs_call_def Let_def dest: Unregister_laws[OF assms(1)] split: prod.splits)

text \<open>
  C32: the listeners. Removing a listener keeps the map of the module and the registrations of the daemon
  in agreement. Adding one keeps them in agreement exactly unless the registration fails for an identifier that
  is already registered: then the entry of the old listener is erased, although the daemon still has it, and
  removing it afterwards does nothing, whatever the daemon would answer.
\<close>
theorem dfs_listeners:
  assumes laws: "dfs_laws dfd registered" and listeners_agree: "listeners_agree registered s"
    and args: "dn_cb_info na = 0" "length args = 3" "DealNapiStrValue na (args ! 1) [] = (0, k)"
    and reg: "dfs_RegisterFileDfsListener dfd k listener (dfs_world s) = (rc, w1)"
  shows "listeners_agree registered (DeviceOffline na dfd offargs s) \<and>
    (listeners_agree registered (DeviceOnline na dfd listener args s) \<longleftrightarrow> rc = 0 \<or> dfsListeners s k = None) \<and>
    (rc \<noteq> 0 \<longrightarrow> length offargs = 2 \<longrightarrow> DealNapiStrValue na (offargs ! 1) [] = (0, k) \<longrightarrow>
      DeviceOffline na dfd offargs (DeviceOnline na dfd listener args s) = DeviceOnline na dfd listener args s \<and>
      registered (dfs_world (DeviceOnline na dfd listener args s)) = dfsListeners s)"
proof -
  have on: "DeviceOnline na dfd listener args s =
    (if rc \<noteq> 0 then \<lparr>dfsListeners = (dfsListeners s)(k := None), dfs_world = w1\<rparr> else \<lparr>dfsListeners = (dfsListeners s)(k \<mapsto> listener), dfs_world = w1\<rparr>)"
    using args reg by (simp add: DeviceOnline_def dfs_call_def)
  have w1: "registered w1 = (if rc = 0 then (dfsListeners s)(k \<mapsto> listener) else dfsListeners s)"
    using Register_laws[OF laws reg] listeners_agree by (simp add: listeners_agree_def)
  have "listeners_agree registered (DeviceOnline na dfd listener args s) \<longleftrightarrow> rc = 0 \<or> dfsListeners s k = None"
    using w1 unfolding on listeners_agree_def by (auto simp: fun_upd_idem_iff fun_upd_idem)
  moreover have "rc \<noteq> 0 \<Longrightarrow> length offargs = 2 \<Longrightarrow> DealNapiStrValue na (offargs ! 1) [] = (0, k) \<Longrightarrow>
      DeviceOffline na dfd offargs (DeviceOnline na dfd listener args s) = DeviceOnline na dfd listener args s"
    unfolding on by (simp add: DeviceOffline_def)
  ultimately show ?thesis using DeviceOffline_agree[OF laws listeners_agree] w1 on by simp
qed

text \<open>A daemon that keeps a map and refuses a second registration.\<close>

definition strict_manager :: "(string \<rightharpoonup> nat) dfs_manager" where
  "strict_manager = \<lparr>dfs_IsSameAccountDevice = (\<lambda>k w. ((0, False), w)), dfs_GetDfsSwitchStatus = (\<lambda>k w. ((0, 0), w)),
     dfs_UpdateDfsSwitchStatus = (\<lambda>i w. (0, w)), dfs_OpenP2PConnectionEx = (\<lambda>k w. (0, w)), dfs_CloseP2PConnectionEx = (\<lambda>k w. (0, w)),
     dfs_GetConnectedDeviceList = (\<lambda>w. ((0, []), w)),
     dfs_RegisterFileDfsListener = (\<lambda>k l w. if w k = None then (0, w(k \<mapsto> l)) else (1, w)),
     dfs_UnregisterFileDfsListener = (\<lambda>k w. (0, w(k := None)))\<rparr>"

definition json_dfs_napi :: "json dfs_napi" where
  "json_dfs_napi = napi.extend json_napi (dfs_napi.fields (\<lambda>d v. Some d) 0
     (\<lambda>v. case v of JString s \<Rightarrow> (0, length s) | _ \<Rightarrow> (3, 0)) (\<lambda>v. case v of JString s \<Rightarrow> (0, s) | _ \<Rightarrow> (3, [])) (\<lambda>i j. True))"

theorem dfs_listeners_witness:
  "let s = \<lparr>dfsListeners = [''a'' \<mapsto> 1], dfs_world = [''a'' \<mapsto> 1]\<rparr>;
       s1 = DeviceOnline json_dfs_napi strict_manager 2 [JNull, JString ''a'', JNull] s
   in \<not> listeners_agree id s1 \<and> DeviceOffline json_dfs_napi strict_manager [JNull, JString ''a''] s1 = s1"
proof -
  let ?s = "\<lparr>dfsListeners = [''a'' \<mapsto> 1], dfs_world = [''a'' \<mapsto> 1]\<rparr>"
  have laws: "dfs_laws strict_manager id" by (simp add: dfs_laws_def strict_manager_def)
  have listeners_agree: "listeners_agree id ?s" by (simp add: listeners_agree_def)
  have str: "DealNapiStrValue json_dfs_napi (JString ''a'') [] = (0, ''a'')" "dn_cb_info json_dfs_napi = 0"
    by (simp_all add: DealNapiStrValue_def json_dfs_napi_def napi.defs dfs_napi.defs)
  have reg: "dfs_RegisterFileDfsListener strict_manager ''a'' 2 (dfs_world ?s) = (1, [''a'' \<mapsto> 1])" by (simp add: strict_manager_def)
  from dfs_listeners[OF laws listeners_agree str(2) _ _ reg, of "[JNull, JString ''a'', JNull]" "[JNull, JString ''a'']"] str
  show ?thesis by (simp add: Let_def)
qed

end
