(* ===== verification/Dm_Auth.thy ===== *)
theory Dm_Auth
  imports Dm_Provider
begin

text \<open>
  The wait for the administrator (\<^verbatim>\<open>ipc/disk_manager_provider.cpp\<close>, \<open>AuthState\<close>, \<open>FormatAuthCallback\<close> and the second half of
  \<open>CheckAdminAuthorization\<close>). The account service calls the callback from its own threads, never, once or several
  times, also after the request has given up; the request waits on a condition variable with a time limit. In
  \<open>Dm_Provider\<close> this is one call with one reply. Proved: the request always returns, the first result that arrives while it waits
  decides and later ones change nothing, and the outcome is the one of the single call.
\<close>

record AuthState =
  as_resultCode :: int
  as_completed :: bool

definition AuthState_init :: AuthState where "AuthState_init = \<lparr>as_resultCode = 0, as_completed = False\<rparr>"

definition FormatAuthCallback_OnResult :: "int \<Rightarrow> int \<Rightarrow> AuthState \<Rightarrow> AuthState" where
  "FormatAuthCallback_OnResult resultCode innerCode st =
     (if \<not> as_completed st
      then st\<lparr>as_resultCode := (if resultCode \<noteq> E_OK then resultCode else innerCode), as_completed := True\<rparr> else st)"

text \<open>What the request does when \<open>wait_for\<close> ends: \<open>notified\<close> is the value of its predicate.\<close>

definition auth_verdict :: "int \<Rightarrow> bool \<Rightarrow> AuthState \<Rightarrow> errno" where
  "auth_verdict success notified st =
     (if \<not> notified then E_PERMISSION_DENIED
      else if as_resultCode st \<noteq> success then E_PERMISSION_DENIED else E_OK)"

section \<open>The request and the callbacks\<close>

datatype auth_pc = Auth_Waiting | Auth_Returned errno

datatype auth_label = Result int int | WaitEnds

text \<open>The wait ends when the callback has come, or at the time limit; it then looks at the flag once more.\<close>

inductive auth_step :: "int \<Rightarrow> AuthState \<times> auth_pc \<Rightarrow> auth_label \<Rightarrow> AuthState \<times> auth_pc \<Rightarrow> bool" for success where
  on_result: "auth_step success (st, pc) (Result rc inner) (FormatAuthCallback_OnResult rc inner st, pc)"
| wait_ends: "auth_step success (st, Auth_Waiting) WaitEnds (st, Auth_Returned (auth_verdict success (as_completed st) st))"

inductive_cases auth_stepE: "auth_step success (st, pc) l (st', pc')"

inductive auth_run :: "int \<Rightarrow> auth_label list \<Rightarrow> AuthState \<times> auth_pc \<Rightarrow> bool" for success where
  auth_start: "auth_run success [] (AuthState_init, Auth_Waiting)"
| auth_more: "auth_run success ls p \<Longrightarrow> auth_step success p l q \<Longrightarrow> auth_run success (ls @ [l]) q"

text \<open>The first result that comes before the wait ends, and the reply it stands for.\<close>

fun first_result :: "auth_label list \<Rightarrow> (int \<times> int) option" where
  "first_result [] = None"
| "first_result (Result rc inner # ls) = Some (rc, inner)"
| "first_result (WaitEnds # ls) = None"

definition auth_reply :: "auth_label list \<Rightarrow> reply" where
  "auth_reply ls = \<lparr>rp_err = E_OK, rp_strs = [],
     rp_ints = (case first_result ls of None \<Rightarrow> [] | Some (rc, inner) \<Rightarrow> [rc, inner]), rp_flag = first_result ls \<noteq> None\<rparr>"

lemma first_result_append:
  "first_result (ls @ [l]) = (if first_result ls \<noteq> None \<or> WaitEnds \<in> set ls then first_result ls else first_result [l])"
  by (induction ls rule: first_result.induct) auto

definition result_code :: "int \<times> int \<Rightarrow> int" where "result_code r = (if fst r \<noteq> E_OK then fst r else snd r)"

definition auth_inv :: "int \<Rightarrow> auth_label list \<Rightarrow> AuthState \<times> auth_pc \<Rightarrow> bool" where
  "auth_inv success ls p = (case p of (st, pc) \<Rightarrow>
     (case pc of
        Auth_Waiting \<Rightarrow> WaitEnds \<notin> set ls \<and> as_completed st = (first_result ls \<noteq> None) \<and>
          (case first_result ls of None \<Rightarrow> True | Some r \<Rightarrow> as_resultCode st = result_code r)
      | Auth_Returned e \<Rightarrow> WaitEnds \<in> set ls \<and>
          e = (case first_result ls of None \<Rightarrow> E_PERMISSION_DENIED
               | Some r \<Rightarrow> if result_code r = success then E_OK else E_PERMISSION_DENIED)))"

lemma auth_run_inv: "auth_run success ls p \<Longrightarrow> auth_inv success ls p"
proof (induction rule: auth_run.induct)
  case auth_start
  then show ?case by (simp add: auth_inv_def AuthState_init_def)
next
  case (auth_more ls p l q)
  obtain st pc where p: "p = (st, pc)" by fastforce
  from auth_more.hyps(2) show ?case
  proof cases
    case (on_result st pc rc inner)
    then show ?thesis using auth_more.IH
      by (cases pc) (auto simp: auth_inv_def first_result_append FormatAuthCallback_OnResult_def result_code_def split: option.splits)
  next
    case (wait_ends st)
    then show ?thesis using auth_more.IH by (auto simp: auth_inv_def first_result_append auth_verdict_def split: option.splits)
  qed
qed

text \<open>C21: Whatever the account service calls back, never, once or often, before or after the request has given up: while the request
  waits, its wait can always end, and once it has returned, it has returned the value that the single call
  \<open>CheckAdminAuthorization\<close> computes from the first result that came in time, the permission error when none came; later results change nothing.\<close>

theorem admin_wait_refines:
  assumes "auth_run (en_AUTHORIZATION_SUCCESS env) ls (st, pc)"
    and "en_reply env (trace s) (Acc_AcquireAuthorization FORMAT_DATA_DISK_PRIVILEGE (cl_pid cl) (cl_uid cl)) = auth_reply ls"
  shows "case pc of Auth_Waiting \<Rightarrow> \<exists>e. auth_step (en_AUTHORIZATION_SUCCESS env) (st, pc) WaitEnds (st, Auth_Returned e)
    | Auth_Returned e \<Rightarrow> fst (run_state (CheckAdminAuthorization env cl) s) = e"
  using auth_run_inv [OF assms(1)] assms(2)
  by (cases pc) (auto simp: auth_inv_def CheckAdminAuthorization_def run_invoke auth_reply_def rp_int_def result_code_def Let_def
      intro!: exI auth_step.wait_ends split: option.splits)

text \<open>The administrator agrees after a first refusal, too late.\<close>

theorem admin_wait_refines_witness:
  "fst (run_state (CheckAdminAuthorization (calm (\<lambda>h c. auth_reply [Result 0 3, Result 0 0, WaitEnds])) settings_app) init_dm) =
     E_PERMISSION_DENIED"
proof -
  let ?env = "calm (\<lambda>h c. auth_reply [Result 0 3, Result 0 0, WaitEnds])"
  let ?st = "FormatAuthCallback_OnResult 0 0 (FormatAuthCallback_OnResult 0 3 AuthState_init)"
  have ok: "en_AUTHORIZATION_SUCCESS ?env = 0" by (simp add: calm_def)
  have "auth_run 0 ((([] @ [Result 0 3]) @ [Result 0 0]) @ [WaitEnds]) (?st, Auth_Returned (auth_verdict 0 (as_completed ?st) ?st))"
    by (rule auth_run.intros auth_step.intros)+
  moreover have "auth_verdict 0 (as_completed ?st) ?st = E_PERMISSION_DENIED" by code_simp
  ultimately have "auth_run (en_AUTHORIZATION_SUCCESS ?env) [Result 0 3, Result 0 0, WaitEnds] (?st, Auth_Returned E_PERMISSION_DENIED)"
    using ok by simp
  from admin_wait_refines [OF this, of init_dm settings_app] show ?thesis by (simp add: calm_def)
qed

end
