(* ===== verification/Dm_Report.thy ===== *)
theory Dm_Report
  imports Dm_Mount Dm_Dfx
begin

text \<open>
  What \<open>Mount\<close> reports about itself. The operations of \<^verbatim>\<open>disk/disk_manager.cpp\<close> open a reporting scope (\<open>IpcDfxScope\<close>)
  and hand every return value to it. Here \<open>Mount\<close> and the operation it forwards encrypted containers to are written
  with their scopes, over the state of the service together with the state of the diagnostics; the reports of the
  adapter below them are in \<open>Dm_Daemon\<close>. Proved: without the reports it is the \<open>Mount\<close> of \<open>Dm_Mount\<close>,
  and which result is reported on each way through it.
\<close>

section \<open>Operations that report\<close>

type_synonym 'a dfxop = "(dm \<times> radar, 'a) state"

definition on_world :: "'a dmop \<Rightarrow> 'a dfxop" where
  "on_world m = State (\<lambda>(w, s). case run_state m w of (a, w') \<Rightarrow> (a, (w', s)))"

text \<open>The scope of a function: made at its start, told what \<open>body\<close> tells it at its return, destroyed after it.\<close>

definition scoped :: "radar_env \<Rightarrow> string \<Rightarrow> int \<Rightarrow> int \<Rightarrow> VolumeReportInfo \<Rightarrow> (scope_op list \<times> errno) dfxop \<Rightarrow> errno dfxop" where
  "scoped renv funcName stage opType info body = State (\<lambda>(w, s).
     case IpcDfxScope_ctor renv funcName stage opType info s of (sc, s1) \<Rightarrow>
     case run_state body (w, s1) of ((ops, rc), (w2, s2)) \<Rightarrow>
       (rc, (w2, IpcDfxScope_dtor renv (fold (scope_step renv) ops (sc, s2)))))"

definition return_finish :: "errno \<Rightarrow> (scope_op list \<times> errno) dfxop" where
  "return_finish rc = State_Monad.return ([Op_Finish rc], rc)"

definition MountVolumeByPath_reported :: "radar_env \<Rightarrow> env \<Rightarrow> string \<Rightarrow> string \<Rightarrow> MountParam \<Rightarrow> errno dfxop" where
  "MountVolumeByPath_reported renv env diskId volPath mountParam =
     scoped renv ''DiskManager::MountVolumeByPath'' 54 13 (WithDevPath volPath (WithDiskId diskId VolumeReportInfo_zero))
       (do { rc \<leftarrow> on_world (MountVolumeByPath env diskId volPath mountParam); return_finish rc })"

definition Mount_body :: "radar_env \<Rightarrow> env \<Rightarrow> string \<Rightarrow> MountParam \<Rightarrow> (scope_op list \<times> errno) dfxop" where
  "Mount_body renv env volumeId mountParam = do {
       disabled \<leftarrow> on_world (GetParameter env ''persist.edm.external_storage_card_disable'');
       if disabled = ''true'' then return_finish E_NON_EXIST
       else do {
         vm \<leftarrow> on_world (gets volumeMap);
         case om_get vm volumeId of
           None \<Rightarrow> return_finish E_NON_EXIST
         | Some v \<Rightarrow>
             if \<not> mountable_state (vc_state v) then return_finish E_VOL_MOUNT_ERR
             else do {
               devPath \<leftarrow> on_world (CheckVolId volumeId);
               intercepted \<leftarrow> on_world (if en_edm env then IsEdmControlMountEnabled env v mountParam else ret False);
               if intercepted then return_finish E_OK
               else if devPath \<noteq> [] \<and> starts_with ''vol-crypt-'' volumeId then do {
                 rc \<leftarrow> MountVolumeByPath_reported renv env (vc_diskId v) devPath \<lparr>mp_readOnly = ve_mountFlag v, mp_fromEdmMount = False\<rparr>;
                 State_Monad.return ([], rc) }
               else do {
                 (mountErr, v1) \<leftarrow> on_world (MountVolumeEntry env v volumeId (mp_readOnly mountParam));
                 vm2 \<leftarrow> on_world (gets volumeMap);
                 case om_get vm2 volumeId of
                   None \<Rightarrow> return_finish E_NON_EXIST
                 | Some w \<Rightarrow>
                     if mountErr = E_OK \<and> \<not> mountable_state (vc_state w) then return_finish E_VOL_MOUNT_ERR
                     else do {
                       on_world (modify (volumeMap_update (om_mod volumeId (\<lambda>_. v1))));
                       return_finish mountErr } } } } }"

definition Mount_reported :: "radar_env \<Rightarrow> env \<Rightarrow> string \<Rightarrow> MountParam \<Rightarrow> errno dfxop" where
  "Mount_reported renv env volumeId mountParam =
     scoped renv ''DiskManager::Mount'' DFX_STAGE_MOUNT OP_MOUNT (WithVolumeId volumeId VolumeReportInfo_zero)
       (Mount_body renv env volumeId mountParam)"

section \<open>Without the reports\<close>

text \<open>\<open>reports m m'\<close>: on the service \<open>m'\<close> does what \<open>m\<close> does and its second result is that of \<open>m\<close>.\<close>

definition reports :: "errno dmop \<Rightarrow> (scope_op list \<times> errno) dfxop \<Rightarrow> bool" where
  "reports m m' = (\<forall>w s. snd (fst (run_state m' (w, s))) = fst (run_state m w) \<and> fst (snd (run_state m' (w, s))) = snd (run_state m w))"

lemma run_on_world [simp]: "run_state (on_world m) (w, s) = (fst (run_state m w), (snd (run_state m w), s))"
  by (simp add: on_world_def split: prod.splits)

lemma run_scoped:
  "run_state (scoped renv f stage opType info body) (w, s) =
     (let (sc, s1) = IpcDfxScope_ctor renv f stage opType info s; ((ops, rc), (w2, s2)) = run_state body (w, s1) in
      (rc, (w2, IpcDfxScope_dtor renv (fold (scope_step renv) ops (sc, s2)))))"
  by (simp add: scoped_def Let_def split: prod.splits)

named_theorems reports_rules "operations with and without reports"

lemma reports_finish [reports_rules]: "reports (ret rc) (return_finish rc)"
  by (simp add: reports_def return_finish_def)

lemma reports_world [reports_rules]:
  "(\<And>a. reports (f a) (g a)) \<Longrightarrow> reports (State_Monad.bind m f) (State_Monad.bind (on_world m) g)"
  by (simp add: reports_def split: prod.splits)

lemma reports_if [reports_rules]:
  "reports m m' \<Longrightarrow> reports n n' \<Longrightarrow> reports (if b then m else n) (if b then m' else n')"
  by simp

lemma reports_option [reports_rules]:
  "reports m m' \<Longrightarrow> (\<And>v. reports (f v) (f' v)) \<Longrightarrow>
   reports (case x of None \<Rightarrow> m | Some v \<Rightarrow> f v) (case x of None \<Rightarrow> m' | Some v \<Rightarrow> f' v)"
  by (cases x) auto

lemma reports_prod [reports_rules]:
  "(\<And>a b. reports (f a b) (f' a b)) \<Longrightarrow> reports (case x of (a, b) \<Rightarrow> f a b) (case x of (a, b) \<Rightarrow> f' a b)"
  by (cases x) auto

lemma scoped_world:
  assumes "reports m body"
  shows "fst (run_state (scoped renv f stage opType info body) (w, s)) = fst (run_state m w) \<and>
    fst (snd (run_state (scoped renv f stage opType info body) (w, s))) = snd (run_state m w)"
proof -
  obtain sc s1 where c: "IpcDfxScope_ctor renv f stage opType info s = (sc, s1)" by fastforce
  obtain ops rc w2 s2 where b: "run_state body (w, s1) = ((ops, rc), (w2, s2))" by (metis surj_pair)
  have "snd (fst (run_state body (w, s1))) = fst (run_state m w)" "fst (snd (run_state body (w, s1))) = snd (run_state m w)"
    using assms by (simp_all add: reports_def)
  then show ?thesis by (simp add: run_scoped c b)
qed

lemma reports_nested [reports_rules]:
  assumes "reports m body"
  shows "reports m (do { rc \<leftarrow> scoped renv f stage opType info body; State_Monad.return ([], rc) })"
  using scoped_world [OF assms, of renv f stage opType info] by (simp add: reports_def case_prod_beta)

lemma reports_all [reports_rules]: "reports m (do { rc \<leftarrow> on_world m; return_finish rc })"
  by (simp add: reports_def return_finish_def)

lemma Mount_reported_world:
  "fst (run_state (Mount_reported renv env volumeId mp) (w, s)) = fst (run_state (Mount env volumeId mp) w) \<and>
   fst (snd (run_state (Mount_reported renv env volumeId mp) (w, s))) = snd (run_state (Mount env volumeId mp) w)"
  unfolding Mount_reported_def Mount_body_def Mount_def MountVolumeByPath_reported_def
  by (intro scoped_world reports_rules)

section \<open>What is reported\<close>

text \<open>The calls of \<open>Mount\<close> that it forwards: a container with a device, not forbidden and not intercepted.\<close>

definition mount_forwards :: "env \<Rightarrow> string \<Rightarrow> MountParam \<Rightarrow> dm \<Rightarrow> bool" where
  "mount_forwards env volumeId mp w =
     (case run_state (GetParameter env ''persist.edm.external_storage_card_disable'') w of (disabled, w1) \<Rightarrow>
      disabled \<noteq> ''true'' \<and> (case om_get (volumeMap w1) volumeId of None \<Rightarrow> False | Some v \<Rightarrow> mountable_state (vc_state v) \<and>
        (case run_state (CheckVolId volumeId) w1 of (devPath, w2) \<Rightarrow>
          \<not> fst (run_state (if en_edm env then IsEdmControlMountEnabled env v mp else ret False) w2) \<and>
          devPath \<noteq> [] \<and> starts_with ''vol-crypt-'' volumeId)))"

definition forwarded_events :: "radar_env \<Rightarrow> errno \<Rightarrow> sysevent list \<Rightarrow> bool" where
  "forwarded_events renv rc es = (\<exists>b e. es = [e, b] \<and> behavior_event renv ''DiskManager::MountVolumeByPath'' ''START'' b \<and>
     behavior_event renv ''DiskManager::MountVolumeByPath'' (scope_status rc) e)"

lemma Mount_body_finishes:
  assumes "\<not> mount_forwards env volumeId mp w"
  shows "\<exists>rc w'. run_state (Mount_body renv env volumeId mp) (w, s) = (([Op_Finish rc], rc), (w', s))"
proof (cases "om_get (volumeMap (snd (run_state (GetParameter env ''persist.edm.external_storage_card_disable'') w))) volumeId")
  case None
  then show ?thesis by (simp add: Mount_body_def return_finish_def case_prod_beta)
next
  case (Some v)
  then show ?thesis
    using assms by (auto simp: Mount_body_def mount_forwards_def return_finish_def case_prod_beta split: option.split)
qed

lemma Mount_body_forwards:
  assumes "mount_forwards env volumeId mp w"
  shows "\<exists>d p mp' w1. run_state (Mount_body renv env volumeId mp) (w, s) =
    run_state (do { rc \<leftarrow> MountVolumeByPath_reported renv env d p mp'; State_Monad.return ([], rc) }) (w1, s)"
  using assms by (auto simp: Mount_body_def mount_forwards_def case_prod_beta split: option.splits)

lemma scoped_events:
  assumes "run_state body (w, ReportBehavior renv f stage ''START'' info E_OK s) = ((ops, rc), (w2, s2))"
    and "ra_events s2 = es @ ra_events (ReportBehavior renv f stage ''START'' info E_OK s)"
    and "run_state (scoped renv f stage opType info body) (w, s) = (rc', (w', s'))"
  shows "rc' = rc \<and> w' = w2 \<and> (\<exists>b e. ra_events s' = e # es @ b # ra_events s \<and> behavior_event renv f ''START'' b \<and>
    behavior_event renv f (scope_status (first_finish ops)) e)"
proof -
  let ?sc = "\<lparr>sc_funcName = f, sc_stage = stage, sc_info = info, sc_finished = False\<rparr>"
  have "rc' = rc" "w' = w2" and s': "s' = IpcDfxScope_dtor renv (fold (scope_step renv) ops (?sc, s2))"
    using assms(1,3) by (simp_all add: run_scoped IpcDfxScope_ctor_def)
  moreover obtain e where "ra_events s' = e # ra_events s2" "behavior_event renv f (scope_status (first_finish ops)) e"
    using scope_end [of ?sc renv ops s2] s' by auto
  moreover obtain b where "ra_events (ReportBehavior renv f stage ''START'' info E_OK s) = b # ra_events s" "behavior_event renv f ''START'' b"
    using ReportBehavior_event by blast
  ultimately show ?thesis using assms(2) by auto
qed

lemma MountVolumeByPath_events:
  assumes "run_state (MountVolumeByPath_reported renv env d p mp) (w, s) = (rc, (w', s'))"
  shows "\<exists>es. ra_events s' = es @ ra_events s \<and> forwarded_events renv rc es"
  using scoped_events [OF _ _ assms [unfolded MountVolumeByPath_reported_def], where es = "[]"]
  by (fastforce simp: return_finish_def forwarded_events_def)

text \<open>C20: \<open>Mount\<close> with its reporting scope changes the service and returns the code as \<open>Mount\<close> does, and leaves two behaviour
  events of its own, its start and its end. The end has the status of the code it returns, except where it forwards an
  encrypted container: \<open>Mount\<close> then returns the result of \<open>MountVolumeByPath\<close>, which is reported between the two, without handing it to its own
  scope, and the end of \<open>Mount\<close> is reported as a failure, also when the container was mounted.\<close>

theorem Mount_report:
  assumes "run_state (Mount_reported renv env volumeId mp) (w, s) = (rc, (w', s'))"
  shows "run_state (Mount env volumeId mp) w = (rc, w') \<and>
    (\<exists>b e es. ra_events s' = e # es @ b # ra_events s \<and> behavior_event renv ''DiskManager::Mount'' ''START'' b \<and>
      (if mount_forwards env volumeId mp w
       then forwarded_events renv rc es \<and> behavior_event renv ''DiskManager::Mount'' ''FAIL'' e
       else es = [] \<and> behavior_event renv ''DiskManager::Mount'' (scope_status rc) e))"
proof
  show "run_state (Mount env volumeId mp) w = (rc, w')"
    using Mount_reported_world [of renv env volumeId mp w s] assms by (simp add: prod_eq_iff)
next
  let ?s = "ReportBehavior renv ''DiskManager::Mount'' DFX_STAGE_MOUNT ''START'' (WithVolumeId volumeId VolumeReportInfo_zero) E_OK s"
  note events = scoped_events [OF _ _ assms [unfolded Mount_reported_def]]
  show "\<exists>b e es. ra_events s' = e # es @ b # ra_events s \<and> behavior_event renv ''DiskManager::Mount'' ''START'' b \<and>
      (if mount_forwards env volumeId mp w
       then forwarded_events renv rc es \<and> behavior_event renv ''DiskManager::Mount'' ''FAIL'' e
       else es = [] \<and> behavior_event renv ''DiskManager::Mount'' (scope_status rc) e)"
  proof (cases "mount_forwards env volumeId mp w")
    case False
    obtain rc1 w1 where "run_state (Mount_body renv env volumeId mp) (w, ?s) = (([Op_Finish rc1], rc1), (w1, ?s))"
      using Mount_body_finishes [OF False] by blast
    with events [of "[Op_Finish rc1]" rc1 w1 ?s "[]"] False show ?thesis by fastforce
  next
    case True
    obtain d p mp' w1 where f: "run_state (Mount_body renv env volumeId mp) (w, ?s) =
        run_state (do { rc \<leftarrow> MountVolumeByPath_reported renv env d p mp'; State_Monad.return ([], rc) }) (w1, ?s)"
      using Mount_body_forwards [OF True] by blast
    obtain rc1 w2 s2 where r: "run_state (MountVolumeByPath_reported renv env d p mp') (w1, ?s) = (rc1, (w2, s2))" by (metis surj_pair)
    obtain es where es: "ra_events s2 = es @ ra_events ?s" "forwarded_events renv rc1 es" using MountVolumeByPath_events [OF r] by blast
    have "run_state (Mount_body renv env volumeId mp) (w, ?s) = (([], rc1), (w2, s2))" using f r by simp
    from events [OF this es(1)] es(2) True show ?thesis by (fastforce simp: scope_status_def)
  qed
qed

text \<open>A USB stick with an encrypted container that the daemon mounts.\<close>

definition container_stick :: dm where
  "container_stick = two_disks\<lparr>volumeMap := [(''vol-crypt-loop7'', VolumeExternal_defaults\<lparr>vc_id := ''vol-crypt-loop7'',
     vc_diskId := ''disk-8-0'', ve_loopPath := ''/dev/block/loop7''\<rparr>)]\<rparr>"

definition open_container :: env where
  "open_container = calm (\<lambda>h c. case c of Sd_ReadMetadata _ \<Rightarrow> ok_reply\<lparr>rp_flag := False, rp_strs := [''1A2B-3C4D'', ''exfat'', ''X'']\<rparr>
     | _ \<Rightarrow> ok_reply\<lparr>rp_flag := False\<rparr>)"

abbreviation empty_radar :: radar where "empty_radar \<equiv> \<lparr>ra_events = [], ra_audit = new_audit\<rparr>"

lemma container_mount_run: "fst (run_state (Mount open_container ''vol-crypt-loop7'' read_write) container_stick) = E_OK"
  by code_simp

lemma container_mount_forwards: "mount_forwards open_container ''vol-crypt-loop7'' read_write container_stick"
  by code_simp

theorem Mount_report_witness:
  "\<exists>w' s' b e es. run_state (Mount_reported plain_radar open_container ''vol-crypt-loop7'' read_write) (container_stick, empty_radar) =
      (E_OK, (w', s')) \<and> ra_events s' = e # es @ [b] \<and> forwarded_events plain_radar E_OK es \<and>
      behavior_event plain_radar ''DiskManager::Mount'' ''FAIL'' e"
proof -
  obtain rc w' s' where r: "run_state (Mount_reported plain_radar open_container ''vol-crypt-loop7'' read_write) (container_stick, empty_radar) =
      (rc, (w', s'))" by (metis surj_pair)
  note m = Mount_report [OF r]
  have "rc = E_OK" using m container_mount_run by (metis fst_conv)
  then show ?thesis using m r container_mount_forwards by auto
qed

end
