(* ===== verification/Dm_Locks.thy ===== *)
theory Dm_Locks
  imports Dm_Types
begin

text \<open>
  The locks of the service. Every operation is reduced to the mutexes it takes and the shared variables it accesses, in the order
  and nesting of the source (\<^verbatim>\<open>disk/disk_manager.cpp\<close>, \<^verbatim>\<open>disk/uevent_bootstrap.cpp\<close>, \<^verbatim>\<open>ipc/disk_manager_provider.cpp\<close> and the
  stores), and the threads of the service run such codes in any interleaving. A scoped lock is \<open>Hold\<close>; \<open>Acc\<close> an access, reading or
  writing; \<open>Index\<close> the \<open>operator[]\<close> of a map, which for the rules on data races modifies the map also when it
  only reads an entry that is there; \<open>Outside\<close> a call that leaves the process or sleeps; \<open>Loop\<close> a loop. What a thread has before it may always be
  skipped, except the release of what it holds: this covers every branch and every early return of the source. A report of the
  diagnostics may happen at every point and takes the mutex of the audit log. Atomic variables are left out.

  \<open>std::shared_mutex\<close> leaves open whether a waiting writer keeps new readers out; the parameter \<open>wp\<close> says that
  it does, as libc++ does. Proved: locks are mutually exclusive; the shared variables are free of data races except for the
  connection to the daemon and the \<open>operator[]\<close> of \<open>GetDiskById\<close> under a shared lock, and both races do arise; the only circular waits that can
  arise need \<open>wp\<close> and contain a thread in the check \<open>IsDiskSupported\<close> that \<open>Format\<close> makes under its lock; and
  such a wait does arise.
\<close>

section \<open>Mutexes and codes\<close>

datatype mutex = idleTimerMutex | unloadUeventMutex | cryptVolMutex | partitionLock | diskMapMutex | volumeMapMutex | oddMutex
  | initMutex | dataMutex | blockInfoMutex | diskPartsSnapshotMutex | diskConfigListMutex | sdMutex | auditMutex

primrec rank :: "mutex \<Rightarrow> nat" where
  "rank idleTimerMutex = 0" | "rank unloadUeventMutex = 1" | "rank cryptVolMutex = 2" | "rank partitionLock = 3"
| "rank diskMapMutex = 4" | "rank volumeMapMutex = 5" | "rank oddMutex = 6" | "rank initMutex = 7" | "rank dataMutex = 8"
| "rank blockInfoMutex = 9" | "rank diskPartsSnapshotMutex = 10" | "rank diskConfigListMutex = 11" | "rank sdMutex = 12"
| "rank auditMutex = 13"

datatype lmode = Shared | Exclusive

text \<open>The variables that threads share, and the mutex that guards each of them.\<close>

datatype svar = V_diskMap | V_volumeMap | V_partitionTableMap | V_partitionDoneMap | V_partitioningDiskIds | V_initialized | V_uuidMap
  | V_blockInfoMap | V_diskPartsSnapshot | V_diskConfigList | V_storageDaemon | V_idleTimer | V_auditFile

primrec guard_of :: "svar \<Rightarrow> mutex" where
  "guard_of V_diskMap = diskMapMutex" | "guard_of V_volumeMap = volumeMapMutex" | "guard_of V_partitionTableMap = partitionLock"
| "guard_of V_partitionDoneMap = partitionLock" | "guard_of V_partitioningDiskIds = partitionLock" | "guard_of V_initialized = initMutex"
| "guard_of V_uuidMap = dataMutex" | "guard_of V_blockInfoMap = blockInfoMutex" | "guard_of V_diskPartsSnapshot = diskPartsSnapshotMutex"
| "guard_of V_diskConfigList = diskConfigListMutex" | "guard_of V_storageDaemon = sdMutex" | "guard_of V_idleTimer = idleTimerMutex"
| "guard_of V_auditFile = auditMutex"

datatype lcode = Hold mutex lmode "lcode list" | Acc svar lmode | Index svar | Outside | Loop "lcode list"

abbreviation (input) lock_guard :: "mutex \<Rightarrow> lcode list \<Rightarrow> lcode" where "lock_guard m \<equiv> Hold m Exclusive"
abbreviation (input) unique_lock :: "mutex \<Rightarrow> lcode list \<Rightarrow> lcode" where "unique_lock m \<equiv> Hold m Exclusive"
abbreviation (input) shared_lock :: "mutex \<Rightarrow> lcode list \<Rightarrow> lcode" where "shared_lock m \<equiv> Hold m Shared"
abbreviation (input) rd :: "svar \<Rightarrow> lcode" where "rd x \<equiv> Acc x Shared"
abbreviation (input) wr :: "svar \<Rightarrow> lcode" where "wr x \<equiv> Acc x Exclusive"

section \<open>The operations\<close>

subsection \<open>Adapter, stores and events\<close>

text \<open>A call of the storage daemon: the check of the connection under the mutex of the adapter, then the message.\<close>

definition lk_EnsureProxyReady :: "lcode list" where "lk_EnsureProxyReady = [lock_guard sdMutex [rd V_storageDaemon, Outside, wr V_storageDaemon, Outside]]"
definition lk_ResetSdProxy :: "lcode list" where "lk_ResetSdProxy = [lock_guard sdMutex [rd V_storageDaemon, Outside, wr V_storageDaemon]]"
definition lk_daemon :: "lcode list" where "lk_daemon = lk_EnsureProxyReady @ [rd V_storageDaemon, Outside]"

definition lk_Store_Init :: "lcode list" where
  "lk_Store_Init = [lock_guard initMutex [rd V_initialized, unique_lock dataMutex [Outside, wr V_uuidMap, wr V_initialized]]]"
definition lk_ResolveMountPath :: "lcode list" where
  "lk_ResolveMountPath = lk_Store_Init @ [unique_lock dataMutex [rd V_uuidMap, wr V_uuidMap, Outside, wr V_uuidMap]]"
definition lk_RemoveByFsUuid :: "lcode list" where
  "lk_RemoveByFsUuid = lk_Store_Init @ [unique_lock dataMutex [rd V_uuidMap, wr V_uuidMap, Outside, wr V_uuidMap]]"
definition lk_ReplaceFsUuid :: "lcode list" where
  "lk_ReplaceFsUuid = lk_Store_Init @ [unique_lock dataMutex [rd V_uuidMap, wr V_uuidMap, Outside, wr V_uuidMap]]"
definition lk_TryGetMountPath :: "lcode list" where "lk_TryGetMountPath = [shared_lock dataMutex [rd V_uuidMap]]"

definition lk_TryCopyByDiskId :: "lcode list" where "lk_TryCopyByDiskId = [lock_guard blockInfoMutex [rd V_blockInfoMap]]"
definition lk_ReadExtDiskInfoFromDaemon :: "lcode list" where "lk_ReadExtDiskInfoFromDaemon = lk_daemon"
definition lk_ReloadFromDaemon :: "lcode list" where "lk_ReloadFromDaemon = lk_daemon @ [lock_guard blockInfoMutex [wr V_blockInfoMap]]"

subsection \<open>Sizes and events\<close>

definition lk_GetOddFreeSize :: "lcode list" where "lk_GetOddFreeSize = [unique_lock oddMutex lk_daemon]"
definition lk_GetFreeSizeOfVolume :: "lcode list" where
  "lk_GetFreeSizeOfVolume = [shared_lock volumeMapMutex [rd V_volumeMap], Outside] @ lk_GetOddFreeSize"
definition lk_GetTotalSizeOfVolume :: "lcode list" where
  "lk_GetTotalSizeOfVolume = [shared_lock volumeMapMutex [rd V_volumeMap], Outside, unique_lock oddMutex lk_daemon]"

text \<open>Only the announcement of a mount asks for the free size.\<close>

definition lk_PublishVolumeChange :: "VolumeState \<Rightarrow> lcode list" where
  "lk_PublishVolumeChange notifyCode = (if notifyCode = MOUNTED then lk_GetFreeSizeOfVolume else []) @ [Outside]"
definition lk_PublishVolumeResult :: "lcode list" where "lk_PublishVolumeResult = [Outside]"

subsection \<open>The registry\<close>

definition lk_OnDiskCreated :: "lcode list" where "lk_OnDiskCreated = [unique_lock diskMapMutex [rd V_diskMap, wr V_diskMap]]"
definition lk_HasDisk :: "lcode list" where "lk_HasDisk = [shared_lock diskMapMutex [rd V_diskMap]]"
definition lk_HasManagedResources :: "lcode list" where
  "lk_HasManagedResources = [shared_lock diskMapMutex [shared_lock volumeMapMutex [rd V_diskMap, rd V_volumeMap]]]"
definition lk_OnDiskDestroyed :: "lcode list" where "lk_OnDiskDestroyed = [unique_lock diskMapMutex [rd V_diskMap, wr V_diskMap]]"
definition lk_OnVolumeCreated :: "lcode list" where
  "lk_OnVolumeCreated = [shared_lock diskMapMutex [rd V_diskMap], unique_lock volumeMapMutex [rd V_volumeMap, wr V_volumeMap]]"
definition lk_OnVolumeDestroyed :: "lcode list" where "lk_OnVolumeDestroyed = [unique_lock volumeMapMutex [rd V_volumeMap, wr V_volumeMap]]"
definition lk_QueryAndAppendEncryptionStatusUnlocked :: "lcode list" where
  "lk_QueryAndAppendEncryptionStatusUnlocked = [rd V_volumeMap, Outside] @ lk_TryCopyByDiskId"
definition lk_GetAllDisks :: "lcode list" where
  "lk_GetAllDisks = [shared_lock diskMapMutex [shared_lock volumeMapMutex [Loop ([rd V_diskMap, rd V_volumeMap] @
     lk_QueryAndAppendEncryptionStatusUnlocked)]]]"
definition lk_GetDiskById :: "lcode list" where
  "lk_GetDiskById = [shared_lock diskMapMutex [shared_lock volumeMapMutex ([rd V_diskMap, Index V_diskMap, rd V_volumeMap] @
     lk_QueryAndAppendEncryptionStatusUnlocked)]]"
definition lk_UpdateDisk :: "lcode list" where "lk_UpdateDisk = [unique_lock diskMapMutex [rd V_diskMap, wr V_diskMap]]"
definition lk_GetAllVolumes :: "lcode list" where
  "lk_GetAllVolumes = [shared_lock diskMapMutex [shared_lock volumeMapMutex [rd V_diskMap, rd V_volumeMap]]]"
definition lk_GetExternalDiskInfos :: "lcode list" where
  "lk_GetExternalDiskInfos = [shared_lock diskMapMutex [shared_lock volumeMapMutex [rd V_diskMap, rd V_volumeMap]]]"
definition lk_GetExternalVolumeInfos :: "lcode list" where
  "lk_GetExternalVolumeInfos = [shared_lock diskMapMutex [rd V_diskMap], shared_lock volumeMapMutex [rd V_volumeMap],
     Loop (lk_GetTotalSizeOfVolume @ lk_GetFreeSizeOfVolume)]"
definition lk_GetVolumeById :: "lcode list" where "lk_GetVolumeById = [shared_lock volumeMapMutex [rd V_volumeMap]]"
definition lk_GetVolumeByUuid :: "lcode list" where "lk_GetVolumeByUuid = [shared_lock volumeMapMutex [rd V_volumeMap]]"
definition lk_UpdateVolumeMetadata :: "lcode list" where "lk_UpdateVolumeMetadata = [unique_lock volumeMapMutex [rd V_volumeMap, wr V_volumeMap]]"
definition lk_SetVolumeDiscState :: "lcode list" where "lk_SetVolumeDiscState = [unique_lock volumeMapMutex [rd V_volumeMap, wr V_volumeMap]]"
definition lk_SetVolumeStateLocked :: "lcode list" where "lk_SetVolumeStateLocked = [unique_lock volumeMapMutex [rd V_volumeMap, wr V_volumeMap]]"
definition lk_UpdateVolumeExternal :: "lcode list" where "lk_UpdateVolumeExternal = [unique_lock volumeMapMutex [rd V_volumeMap, wr V_volumeMap]]"
definition lk_LookupVolumeByCryptPath :: "lcode list" where "lk_LookupVolumeByCryptPath = [shared_lock volumeMapMutex [rd V_volumeMap]]"
definition lk_CheckVolId :: "lcode list" where "lk_CheckVolId = lk_GetVolumeById"
definition lk_IsDiskSupported :: "lcode list" where "lk_IsDiskSupported = lk_GetDiskById"

subsection \<open>Mount, unmount and repair\<close>

definition lk_UpdateVoldataMappingAfterFormat :: "lcode list" where
  "lk_UpdateVoldataMappingAfterFormat = [shared_lock diskMapMutex [shared_lock volumeMapMutex
     ([rd V_diskMap] @ lk_RemoveByFsUuid @ lk_TryGetMountPath @ lk_ReplaceFsUuid)]]"
definition lk_ComputeVolumeMountPolicy :: "lcode list" where
  "lk_ComputeVolumeMountPolicy = [shared_lock diskMapMutex [shared_lock volumeMapMutex [rd V_diskMap, Outside]]]"
definition lk_EnsureFsUuidReady :: "lcode list" where
  "lk_EnsureFsUuidReady = lk_daemon @ [unique_lock volumeMapMutex [rd V_volumeMap, wr V_volumeMap]]"
definition lk_MountUsbFuseIfNeeded :: "lcode list" where
  "lk_MountUsbFuseIfNeeded = [Outside] @ lk_daemon @ [Outside] @ lk_daemon"
definition lk_RollbackFuseMount :: "lcode list" where "lk_RollbackFuseMount = [Outside] @ lk_daemon @ [Outside]"
definition lk_UnmountVolumeMountPoints :: "lcode list" where
  "lk_UnmountVolumeMountPoints = lk_daemon @ lk_daemon @ [Outside] @ lk_daemon @ lk_daemon"
definition lk_ResolveUnmountForceFlag :: "lcode list" where
  "lk_ResolveUnmountForceFlag = [shared_lock diskMapMutex ([rd V_diskMap] @ lk_daemon)]"
definition lk_MarkVolumeAbnormal :: "lcode list" where
  "lk_MarkVolumeAbnormal = [unique_lock volumeMapMutex [rd V_volumeMap, wr V_volumeMap], Outside]"
definition lk_MountVolumeSetPath :: "lcode list" where "lk_MountVolumeSetPath = [unique_lock volumeMapMutex [rd V_volumeMap, wr V_volumeMap]]"

definition lk_ExecuteVolumeDataMount :: "lcode list" where
  "lk_ExecuteVolumeDataMount = [Outside] @ lk_daemon @ lk_RemoveByFsUuid @ lk_RollbackFuseMount @ lk_MountVolumeSetPath @
     lk_daemon @ lk_RemoveByFsUuid @ lk_RollbackFuseMount @ [Outside] @ lk_PublishVolumeChange MOUNTED"

definition lk_MountVolumeFilesystem :: "lcode list" where
  "lk_MountVolumeFilesystem = lk_ComputeVolumeMountPolicy @ lk_MountUsbFuseIfNeeded @ lk_ResolveMountPath @ lk_RollbackFuseMount @
     [shared_lock diskMapMutex [rd V_diskMap]] @ lk_ExecuteVolumeDataMount"

definition lk_MountVolumeEntry :: "lcode list" where
  "lk_MountVolumeEntry = lk_EnsureFsUuidReady @ lk_ComputeVolumeMountPolicy @
     lk_SetVolumeStateLocked @ lk_PublishVolumeResult @ lk_daemon @
     lk_SetVolumeStateLocked @ lk_PublishVolumeResult @ lk_SetVolumeStateLocked @ lk_daemon @
     lk_SetVolumeStateLocked @ lk_PublishVolumeResult @ lk_PublishVolumeResult @ lk_SetVolumeStateLocked @
     lk_SetVolumeStateLocked @ lk_PublishVolumeResult @ lk_PublishVolumeResult @ lk_SetVolumeStateLocked @
     lk_MountVolumeFilesystem"

definition lk_IsEdmControlMountEnabled :: "lcode list" where "lk_IsEdmControlMountEnabled = [Outside] @ lk_GetDiskById"
definition lk_IsEdmEnableOddBurn :: "lcode list" where "lk_IsEdmEnableOddBurn = [Outside] @ lk_GetDiskById @ [Outside]"

definition lk_MountVolumeByPath :: "lcode list" where
  "lk_MountVolumeByPath = lk_GetDiskById @ lk_LookupVolumeByCryptPath @ [Outside] @ lk_daemon @ lk_daemon @ lk_UpdateVolumeExternal @
     lk_PublishVolumeChange MOUNTED"

definition lk_Mount :: "lcode list" where
  "lk_Mount = [Outside, unique_lock volumeMapMutex [rd V_volumeMap]] @ lk_CheckVolId @ lk_IsEdmControlMountEnabled @ lk_MountVolumeByPath @
     lk_MountVolumeEntry @ [unique_lock volumeMapMutex [rd V_volumeMap, wr V_volumeMap]]"

definition lk_NotifyVolumeEjecting :: "lcode list" where
  "lk_NotifyVolumeEjecting = [unique_lock volumeMapMutex [rd V_volumeMap, wr V_volumeMap]] @ lk_PublishVolumeChange EJECTING"
definition lk_RestoreVolumeState :: "lcode list" where "lk_RestoreVolumeState = [unique_lock volumeMapMutex [rd V_volumeMap, wr V_volumeMap]]"

definition lk_DoUnmountVolume :: "lcode list" where
  "lk_DoUnmountVolume = lk_GetFreeSizeOfVolume @ lk_NotifyVolumeEjecting @ [shared_lock diskMapMutex [rd V_diskMap], Outside] @
     lk_ResolveUnmountForceFlag @ lk_NotifyVolumeEjecting @ lk_RestoreVolumeState @ lk_UnmountVolumeMountPoints @
     lk_NotifyVolumeEjecting @ lk_RestoreVolumeState @ lk_PublishVolumeChange UNMOUNTED @ [unique_lock volumeMapMutex [rd V_volumeMap, wr V_volumeMap]]"
definition lk_Unmount :: "lcode list" where "lk_Unmount = [shared_lock volumeMapMutex [rd V_volumeMap]] @ lk_DoUnmountVolume"
definition lk_ForceUnmount :: "lcode list" where "lk_ForceUnmount = [shared_lock volumeMapMutex [rd V_volumeMap]] @ lk_DoUnmountVolume"
definition lk_UmountVolumeByPath :: "lcode list" where
  "lk_UmountVolumeByPath = lk_GetDiskById @ lk_LookupVolumeByCryptPath @ lk_DoUnmountVolume"

definition lk_RepairAndCheckVolume :: "lcode list" where
  "lk_RepairAndCheckVolume = lk_SetVolumeStateLocked @ lk_PublishVolumeResult @ lk_daemon @ lk_SetVolumeStateLocked @
     lk_PublishVolumeResult @ lk_ComputeVolumeMountPolicy @ lk_daemon @ lk_SetVolumeStateLocked @ lk_PublishVolumeResult @
     lk_PublishVolumeResult @ lk_SetVolumeStateLocked"
definition lk_TryToFix :: "lcode list" where
  "lk_TryToFix = [shared_lock volumeMapMutex [rd V_volumeMap]] @ lk_NotifyVolumeEjecting @ lk_UnmountVolumeMountPoints @ lk_RestoreVolumeState @
     [unique_lock volumeMapMutex [rd V_volumeMap, wr V_volumeMap]] @ lk_RepairAndCheckVolume @ lk_MountVolumeEntry @ [unique_lock volumeMapMutex [rd V_volumeMap, wr V_volumeMap]]"

subsection \<open>Format, labels and discs\<close>

definition lk_PublishFormatFailEvent :: "lcode list" where
  "lk_PublishFormatFailEvent = lk_SetVolumeStateLocked @ [shared_lock volumeMapMutex ([rd V_volumeMap] @ lk_PublishVolumeResult)]"
definition lk_UpdateVolumeAfterFormat :: "lcode list" where
  "lk_UpdateVolumeAfterFormat = lk_daemon @ [shared_lock volumeMapMutex [rd V_volumeMap]] @ lk_UpdateVoldataMappingAfterFormat @
     [unique_lock volumeMapMutex [rd V_volumeMap, wr V_volumeMap]]"

text \<open>The disk is looked up while the volume map is locked.\<close>

definition lk_Format :: "lcode list" where
  "lk_Format = [shared_lock volumeMapMutex ([rd V_volumeMap] @ lk_IsDiskSupported), shared_lock diskMapMutex [rd V_diskMap]] @ lk_CheckVolId @ lk_daemon @
     lk_PublishFormatFailEvent @ lk_UpdateVolumeAfterFormat"

definition lk_SetVolumeDescription :: "lcode list" where
  "lk_SetVolumeDescription = [shared_lock volumeMapMutex [rd V_volumeMap]] @ lk_IsDiskSupported @ lk_CheckVolId @ lk_daemon @
     [unique_lock volumeMapMutex [rd V_volumeMap, wr V_volumeMap]]"
definition lk_Eject :: "lcode list" where "lk_Eject = lk_GetDiskById @ lk_daemon"
definition lk_Erase :: "lcode list" where "lk_Erase = [shared_lock volumeMapMutex [rd V_volumeMap]] @ lk_daemon @ lk_Eject"
definition lk_CreateIsoImage :: "lcode list" where
  "lk_CreateIsoImage = [shared_lock volumeMapMutex [rd V_volumeMap]] @ lk_GetDiskById @ lk_daemon"
definition lk_PrepareBurn :: "lcode list" where
  "lk_PrepareBurn = [shared_lock volumeMapMutex [rd V_volumeMap]] @ lk_IsEdmEnableOddBurn @ lk_daemon"
definition lk_Burn :: "lcode list" where "lk_Burn = lk_PrepareBurn @ [Outside] @ lk_daemon @ [Outside]"
definition lk_GetVolumeOpProcess :: "lcode list" where "lk_GetVolumeOpProcess = [shared_lock volumeMapMutex [rd V_volumeMap]] @ lk_daemon"
definition lk_NotifyMtpMounted :: "lcode list" where
  "lk_NotifyMtpMounted = [Outside, unique_lock volumeMapMutex [rd V_volumeMap, wr V_volumeMap]] @ lk_PublishVolumeChange MOUNTED"
definition lk_NotifyMtpUnmounted :: "lcode list" where
  "lk_NotifyMtpUnmounted = [unique_lock volumeMapMutex ([rd V_volumeMap] @ lk_PublishVolumeChange UNMOUNTED @
     lk_PublishVolumeChange BAD_REMOVAL @ [wr V_volumeMap])]"

subsection \<open>Partitions\<close>

definition lk_AddPartitioningDisk :: "lcode list" where "lk_AddPartitioningDisk = [lock_guard partitionLock [wr V_partitioningDiskIds]]"
definition lk_RemovePartitioningDisk :: "lcode list" where "lk_RemovePartitioningDisk = [lock_guard partitionLock [wr V_partitioningDiskIds]]"
definition lk_NotifyPartitionDone :: "lcode list" where "lk_NotifyPartitionDone = [lock_guard partitionLock [rd V_partitionDoneMap, Index V_partitionDoneMap, wr V_partitionDoneMap]]"
definition lk_IsPartitioning :: "lcode list" where "lk_IsPartitioning = [lock_guard partitionLock [rd V_partitioningDiskIds]]"

text \<open>Waiting on the condition variable gives the lock up and takes it again.\<close>

definition lk_WaitForPartitionDone :: "lcode list" where
  "lk_WaitForPartitionDone = [unique_lock partitionLock [Index V_partitionDoneMap, wr V_partitionDoneMap, Index V_partitionDoneMap],
     Loop [Outside, unique_lock partitionLock [Index V_partitionDoneMap, wr V_partitionDoneMap]]]"

definition lk_each_volume :: "lcode list" where "lk_each_volume = lk_GetDiskById @ [Loop lk_GetVolumeById]"
definition lk_GetFsTypeByDiskIdAndPartNum :: "lcode list" where "lk_GetFsTypeByDiskIdAndPartNum = lk_each_volume"
definition lk_IsDiskNotReady :: "lcode list" where "lk_IsDiskNotReady = lk_each_volume"
definition lk_IsVolumeMounted :: "lcode list" where "lk_IsVolumeMounted = lk_each_volume"
definition lk_SetPartitions :: "lcode list" where "lk_SetPartitions = [Loop lk_GetFsTypeByDiskIdAndPartNum]"
definition lk_GetPartitionTable :: "lcode list" where
  "lk_GetPartitionTable = lk_HasDisk @ [lock_guard partitionLock (lk_daemon @ lk_SetPartitions @ [wr V_partitionTableMap])]"
definition lk_CreatePartition :: "lcode list" where
  "lk_CreatePartition = lk_GetDiskById @ lk_IsDiskNotReady @ [lock_guard partitionLock ([rd V_partitionTableMap, Index V_partitionTableMap] @ lk_daemon)] @
     lk_WaitForPartitionDone"
definition lk_DestroyVolumeByDiskIdAndPartNum :: "lcode list" where
  "lk_DestroyVolumeByDiskIdAndPartNum = lk_each_volume @ lk_ForceUnmount @ lk_daemon @
     lk_PublishVolumeChange REMOVED @ lk_PublishVolumeChange BAD_REMOVAL @ lk_OnVolumeDestroyed"
definition lk_DeletePartition :: "lcode list" where
  "lk_DeletePartition = lk_GetDiskById @ lk_IsDiskNotReady @
     [lock_guard partitionLock ([rd V_partitionTableMap, Index V_partitionTableMap] @ lk_daemon @ lk_DestroyVolumeByDiskIdAndPartNum)] @ lk_WaitForPartitionDone"
definition lk_FindVolumeForPartition :: "lcode list" where "lk_FindVolumeForPartition = [Loop lk_GetVolumeById]"
definition lk_RefreshVolumeAfterFormatPartition :: "lcode list" where
  "lk_RefreshVolumeAfterFormatPartition = lk_CheckVolId @ lk_UpdateVolumeAfterFormat"
definition lk_FormatPartition :: "lcode list" where
  "lk_FormatPartition = lk_GetDiskById @ lk_IsVolumeMounted @ lk_FindVolumeForPartition @ [lock_guard partitionLock [rd V_partitionTableMap]] @ lk_daemon @
     lk_PublishVolumeResult @ lk_RefreshVolumeAfterFormatPartition"
definition lk_PurgeVolumesForDisk :: "lcode list" where
  "lk_PurgeVolumesForDisk = lk_HasDisk @ [shared_lock volumeMapMutex [rd V_volumeMap], unique_lock volumeMapMutex [rd V_volumeMap, wr V_volumeMap], Loop lk_RemoveByFsUuid]"

subsection \<open>Encrypted containers\<close>

definition lk_IsVolumeBind :: "lcode list" where "lk_IsVolumeBind = [Loop lk_GetVolumeById]"
definition lk_BindBlockLoopDev :: "lcode list" where
  "lk_BindBlockLoopDev = lk_GetDiskById @ lk_IsVolumeBind @ lk_daemon @ lk_OnVolumeCreated"
definition lk_CreateDmCryptVolume :: "lcode list" where
  "lk_CreateDmCryptVolume = lk_GetVolumeById @ lk_daemon @ lk_UpdateVolumeExternal"
definition lk_DestroyDmCryptVolume :: "lcode list" where
  "lk_DestroyDmCryptVolume = lk_daemon @ [unique_lock volumeMapMutex [rd V_volumeMap, wr V_volumeMap]]"
definition lk_UnbindBlockLoopDev :: "lcode list" where "lk_UnbindBlockLoopDev = lk_daemon @ lk_OnVolumeDestroyed"

subsection \<open>Device events\<close>

definition lk_MatchConfig :: "lcode list" where "lk_MatchConfig = [lock_guard diskConfigListMutex [rd V_diskConfigList]]"
definition lk_ParasConfigFile :: "lcode list" where "lk_ParasConfigFile = [Outside, Loop [lock_guard diskConfigListMutex [wr V_diskConfigList]]]"
definition lk_DestroyALLVolume :: "lcode list" where
  "lk_DestroyALLVolume = lk_GetAllVolumes @ [Loop (lk_ForceUnmount @ lk_DestroyDmCryptVolume @ lk_UnbindBlockLoopDev @ lk_daemon @
     lk_PublishVolumeChange REMOVED @ lk_PublishVolumeChange BAD_REMOVAL @ lk_OnVolumeDestroyed)]"
definition lk_DestroyALLDisk :: "lcode list" where
  "lk_DestroyALLDisk = lk_daemon @ lk_GetDiskById @ lk_OnDiskDestroyed @ [Outside]"
definition lk_BuildAndSyncPartitions :: "lcode list" where
  "lk_BuildAndSyncPartitions = lk_daemon @ lk_daemon @ lk_daemon @ lk_daemon @ lk_daemon"
definition lk_UpsertDiskAndPublishEvent :: "lcode list" where
  "lk_UpsertDiskAndPublishEvent = lk_TryCopyByDiskId @ lk_MatchConfig @ [Outside] @ lk_ReadExtDiskInfoFromDaemon @ [Outside] @
     lk_OnDiskCreated"
definition lk_IsInternalDataDiskById :: "lcode list" where "lk_IsInternalDataDiskById = lk_GetDiskById"
definition lk_TryLoadBlockInfoForVolume :: "lcode list" where
  "lk_TryLoadBlockInfoForVolume = lk_TryCopyByDiskId @ lk_ReadExtDiskInfoFromDaemon"
definition lk_CreateAndSetupVolume :: "lcode list" where
  "lk_CreateAndSetupVolume = lk_daemon @ lk_GetDiskById @ lk_TryLoadBlockInfoForVolume @ lk_OnVolumeCreated"
definition lk_ReadAndUpdateMetadata :: "lcode list" where "lk_ReadAndUpdateMetadata = lk_daemon @ lk_UpdateVolumeMetadata"
definition lk_EvaluateVolumeMetadataAbnormal :: "lcode list" where
  "lk_EvaluateVolumeMetadataAbnormal = lk_MarkVolumeAbnormal @ lk_MarkVolumeAbnormal"
definition lk_MountDiscoveredVolume :: "lcode list" where "lk_MountDiscoveredVolume = lk_Mount @ lk_MarkVolumeAbnormal"
definition lk_ResolvePartitionDev :: "lcode list" where
  "lk_ResolvePartitionDev = lk_IsInternalDataDiskById @ lk_daemon @ lk_daemon @ [Outside]"
definition lk_DiscoverSinglePartitionVolume :: "lcode list" where
  "lk_DiscoverSinglePartitionVolume = lk_ResolvePartitionDev @ lk_GetVolumeById @ lk_CreateAndSetupVolume @ lk_ReadAndUpdateMetadata @
     lk_IsPartitioning @ lk_Format @ lk_EvaluateVolumeMetadataAbnormal @ lk_MountDiscoveredVolume"
definition lk_DiscoverWholeDiskVolume :: "lcode list" where
  "lk_DiscoverWholeDiskVolume = lk_IsPartitioning @ lk_daemon @ lk_IsInternalDataDiskById @ [Outside] @ lk_CreateAndSetupVolume @
     lk_Format @ lk_UpdateVolumeMetadata @ lk_EvaluateVolumeMetadataAbnormal @ lk_MountDiscoveredVolume"
definition lk_HandleAddCD :: "lcode list" where
  "lk_HandleAddCD = lk_CreateAndSetupVolume @ [Outside] @ lk_GetVolumeById @ lk_ReadAndUpdateMetadata @ lk_UpdateVolumeMetadata @
     lk_SetVolumeDiscState @ lk_Mount"
definition lk_EjectAndDestroyCdrom :: "lcode list" where "lk_EjectAndDestroyCdrom = lk_Eject @ lk_DestroyALLVolume"
definition lk_FindMountedVolumePath :: "lcode list" where "lk_FindMountedVolumePath = lk_GetAllVolumes"
definition lk_TryEjectCdrom :: "lcode list" where
  "lk_TryEjectCdrom = lk_GetDiskById @ lk_EjectAndDestroyCdrom @ lk_FindMountedVolumePath @ lk_daemon @ lk_daemon @ lk_GetDiskById @
     lk_UpdateDisk @ lk_EjectAndDestroyCdrom"
definition lk_DiscoverSinglePartitionVolume4CD :: "lcode list" where
  "lk_DiscoverSinglePartitionVolume4CD = lk_TryEjectCdrom @ lk_daemon @ lk_DestroyALLVolume @ lk_daemon @ lk_DestroyALLVolume @
     lk_GetDiskById @ lk_UpdateDisk @ lk_HandleAddCD"
definition lk_DiscoverCdromVolumes :: "lcode list" where
  "lk_DiscoverCdromVolumes = lk_daemon @ lk_HasDisk @ lk_UpsertDiskAndPublishEvent @ lk_DiscoverSinglePartitionVolume4CD"
definition lk_ComputePartitionDiff :: "lcode list" where "lk_ComputePartitionDiff = [lock_guard diskPartsSnapshotMutex [rd V_diskPartsSnapshot, wr V_diskPartsSnapshot]]"
definition lk_ClearPartitionSnapshot :: "lcode list" where "lk_ClearPartitionSnapshot = [lock_guard diskPartsSnapshotMutex [wr V_diskPartsSnapshot]]"
definition lk_DiscoverPartitionsAndVolumes :: "lcode list" where
  "lk_DiscoverPartitionsAndVolumes = lk_DiscoverCdromVolumes @ lk_BuildAndSyncPartitions @ lk_UpsertDiskAndPublishEvent @
     lk_IsInternalDataDiskById @ lk_IsPartitioning @ [Outside] @ lk_DestroyALLVolume @ lk_ClearPartitionSnapshot @
     lk_UpsertDiskAndPublishEvent @ lk_IsPartitioning @ lk_IsInternalDataDiskById @ [Loop lk_DiscoverSinglePartitionVolume] @
     lk_ComputePartitionDiff @ [Loop lk_DestroyVolumeByDiskIdAndPartNum, Loop lk_DiscoverSinglePartitionVolume] @
     lk_DiscoverWholeDiskVolume"
definition lk_HandleDiskRemove :: "lcode list" where
  "lk_HandleDiskRemove = lk_DestroyALLVolume @ lk_DestroyALLDisk @ lk_ClearPartitionSnapshot"
definition lk_HandleDiskAdd :: "lcode list" where "lk_HandleDiskAdd = lk_HasDisk @ lk_DiscoverPartitionsAndVolumes"
definition lk_HandleDiskChange :: "lcode list" where
  "lk_HandleDiskChange = lk_IsPartitioning @ lk_IsInternalDataDiskById @ lk_HasDisk @ lk_DiscoverPartitionsAndVolumes @
     lk_NotifyPartitionDone"
definition lk_RediscoverDiskVolumes :: "lcode list" where "lk_RediscoverDiskVolumes = lk_DiscoverPartitionsAndVolumes"
definition lk_BootstrapUevent :: "lcode list" where
  "lk_BootstrapUevent = lk_HandleDiskRemove @ lk_HandleDiskAdd @ lk_HandleDiskChange"
definition lk_Partition :: "lcode list" where
  "lk_Partition = lk_IsDiskSupported @ lk_IsDiskNotReady @ lk_AddPartitioningDisk @ lk_PurgeVolumesForDisk @ lk_RemovePartitioningDisk @
     lk_daemon @ lk_RemovePartitioningDisk @ lk_RediscoverDiskVolumes @ lk_RemovePartitioningDisk"

subsection \<open>The requests of the provider\<close>

definition lk_OnStart :: "lcode list" where
  "lk_OnStart = lk_ParasConfigFile @ lk_ReloadFromDaemon @ lk_Store_Init @ [Outside, lock_guard idleTimerMutex [rd V_idleTimer, Outside,
     wr V_idleTimer]]"
definition lk_StopIdleMonitor :: "lcode list" where "lk_StopIdleMonitor = [lock_guard idleTimerMutex [rd V_idleTimer, Outside, wr V_idleTimer]]"
definition lk_CheckAndUnloadIfIdle :: "lcode list" where
  "lk_CheckAndUnloadIfIdle = [lock_guard unloadUeventMutex (lk_HasManagedResources @ [Outside])]"
definition lk_OnBlockDiskUevent :: "lcode list" where "lk_OnBlockDiskUevent = [lock_guard unloadUeventMutex lk_BootstrapUevent]"
definition lk_IsDataDisk :: "lcode list" where "lk_IsDataDisk = lk_GetVolumeById @ lk_GetDiskById"
definition lk_IsDataDiskByDiskId :: "lcode list" where "lk_IsDataDiskByDiskId = lk_GetDiskById"
definition lk_FormatRequest :: "lcode list" where "lk_FormatRequest = lk_IsDataDisk @ [Outside] @ lk_Format @ [Outside]"
definition lk_PartitionRequest :: "lcode list" where
  "lk_PartitionRequest = lk_IsDataDiskByDiskId @ [Outside] @ lk_Partition @ [Outside]"
definition lk_QueryUsbIsInUse :: "lcode list" where "lk_QueryUsbIsInUse = [Outside] @ lk_daemon"
definition lk_crypt_request :: "lcode list \<Rightarrow> lcode list" where "lk_crypt_request op = [lock_guard cryptVolMutex op]"

text \<open>What a thread of the service can run from its start: the requests, the timer, the start and the stop, and the death of
  the daemon. The requests that reach \<open>Format\<close> stand apart.\<close>

definition format_ops :: "lcode list list" where
  "format_ops = [lk_FormatRequest, lk_PartitionRequest, lk_OnBlockDiskUevent]"

definition plain_ops :: "lcode list list" where
  "plain_ops =
    [lk_Mount, lk_Unmount, lk_TryToFix, lk_SetVolumeDescription, lk_GetAllVolumes, lk_GetVolumeByUuid, lk_GetVolumeById,
     lk_GetFreeSizeOfVolume, lk_GetTotalSizeOfVolume, lk_GetAllDisks, lk_GetDiskById, lk_QueryUsbIsInUse, lk_NotifyMtpMounted,
     lk_NotifyMtpUnmounted, lk_Erase, lk_Eject, lk_CreateIsoImage, lk_Burn, lk_GetVolumeOpProcess, lk_GetPartitionTable,
     lk_CreatePartition, lk_DeletePartition, lk_FormatPartition, lk_GetExternalDiskInfos, lk_GetExternalVolumeInfos,
     lk_crypt_request lk_BindBlockLoopDev, lk_crypt_request lk_CreateDmCryptVolume, lk_crypt_request lk_DestroyDmCryptVolume,
     lk_crypt_request lk_UnbindBlockLoopDev, lk_crypt_request lk_MountVolumeByPath, lk_crypt_request lk_UmountVolumeByPath,
     lk_OnStart, lk_StopIdleMonitor, lk_CheckAndUnloadIfIdle, lk_ResetSdProxy]"

definition service_ops :: "lcode list list" where "service_ops = plain_ops @ format_ops"

section \<open>Threads\<close>

text \<open>A thread is a stack of frames, what it still has to do and what it has to release, and a flag that says that it is
  blocked in the lock operation of its first frame.\<close>

datatype lframe = Do lcode | Rel mutex lmode

type_synonym thread = "bool \<times> lframe list"

fun held_locks :: "lframe list \<Rightarrow> (mutex \<times> lmode) list" where
  "held_locks [] = []"
| "held_locks (Do c # fs) = held_locks fs"
| "held_locks (Rel m md # fs) = (m, md) # held_locks fs"

fun waits_for :: "thread \<Rightarrow> (mutex \<times> lmode) option" where
  "waits_for (True, Do (Hold m md body) # fs) = Some (m, md)"
| "waits_for t = None"

text \<open>The access that a running thread makes next.\<close>

fun accesses :: "thread \<Rightarrow> (svar \<times> lmode) option" where
  "accesses (False, Do (Acc x md) # fs) = Some (x, md)"
| "accesses (False, Do (Index x) # fs) = Some (x, Exclusive)"
| "accesses t = None"

datatype act = StartOp nat | Request | Skip | Iterate | Release | Report | Grant

text \<open>What a report does.\<close>

definition report_code :: lcode where "report_code = lock_guard auditMutex [rd V_auditFile, Outside, wr V_auditFile]"

fun tact :: "lcode list list \<Rightarrow> act \<Rightarrow> thread \<Rightarrow> thread option" where
  "tact ops (StartOp k) (False, []) = (if k < length ops then Some (False, map Do (ops ! k)) else None)"
| "tact ops Request (False, Do (Hold m md body) # fs) = Some (True, Do (Hold m md body) # fs)"
| "tact ops Skip (False, Do c # fs) = Some (False, fs)"
| "tact ops Iterate (False, Do (Loop body) # fs) = Some (False, map Do body @ Do (Loop body) # fs)"
| "tact ops Release (False, Rel m md # fs) = Some (False, fs)"
| "tact ops Report (False, fs) = (if auditMutex \<in> fst ` set (held_locks fs) then None
     else Some (False, Do report_code # fs))"
| "tact ops Grant (True, Do (Hold m md body) # fs) = Some (False, map Do body @ Rel m md # fs)"
| "tact ops a t = None"

text \<open>\<open>conflicts\<close>: a shared request goes with shared holders only. With \<open>wp\<close> it also stays behind the writers
  that wait.\<close>

definition conflicts :: "mutex \<times> lmode \<Rightarrow> (mutex \<times> lmode) list \<Rightarrow> bool" where
  "conflicts r H = list_ex (\<lambda>h. fst h = fst r \<and> (snd h = Exclusive \<or> snd r = Exclusive)) H"

definition blocked_by :: "bool \<Rightarrow> thread list \<Rightarrow> nat \<Rightarrow> nat \<Rightarrow> bool" where
  "blocked_by wp ts i j = (case waits_for (ts ! i) of None \<Rightarrow> False
     | Some r \<Rightarrow> conflicts r (held_locks (snd (ts ! j))) \<or>
         (wp \<and> i \<noteq> j \<and> snd r = Shared \<and> waits_for (ts ! j) = Some (fst r, Exclusive)))"

definition available :: "bool \<Rightarrow> thread list \<Rightarrow> nat \<Rightarrow> bool" where
  "available wp ts i = list_all (\<lambda>j. \<not> blocked_by wp ts i j) [0..<length ts]"

definition lact :: "bool \<Rightarrow> lcode list list \<Rightarrow> nat \<times> act \<Rightarrow> thread list \<Rightarrow> thread list option" where
  "lact wp ops ia ts = (case ia of (i, a) \<Rightarrow>
     if i < length ts \<and> (a = Grant \<longrightarrow> available wp ts i)
     then map_option (\<lambda>t. ts[i := t]) (tact ops a (ts ! i)) else None)"

fun lrun :: "bool \<Rightarrow> lcode list list \<Rightarrow> (nat \<times> act) list \<Rightarrow> thread list \<Rightarrow> thread list option" where
  "lrun wp ops [] ts = Some ts"
| "lrun wp ops (ia # ias) ts = Option.bind (lact wp ops ia ts) (lrun wp ops ias)"

definition idle_threads :: "nat \<Rightarrow> thread list" where "idle_threads n = replicate n (False, [])"

inductive lock_reachable :: "bool \<Rightarrow> lcode list list \<Rightarrow> thread list \<Rightarrow> bool" for wp ops where
  reach_idle: "lock_reachable wp ops (idle_threads n)"
| reach_act: "lock_reachable wp ops ts \<Longrightarrow> lact wp ops ia ts = Some ts' \<Longrightarrow> lock_reachable wp ops ts'"

text \<open>A circular wait: a set of threads each of which is blocked by one of the set.\<close>

definition circular_wait :: "bool \<Rightarrow> thread list \<Rightarrow> nat set \<Rightarrow> bool" where
  "circular_wait wp ts D = (D \<noteq> {} \<and> D \<subseteq> {..<length ts} \<and> (\<forall>i\<in>D. \<exists>j\<in>D. blocked_by wp ts i j))"

text \<open>A data race: two threads are about to access the same variable, one of them to write it.\<close>

definition data_race :: "thread list \<Rightarrow> nat \<Rightarrow> nat \<Rightarrow> svar \<Rightarrow> bool" where
  "data_race ts i j x = (i \<noteq> j \<and> (case (accesses (ts ! i), accesses (ts ! j)) of
     (Some (y, md), Some (z, md')) \<Rightarrow> y = x \<and> z = x \<and> (md = Exclusive \<or> md' = Exclusive) | _ \<Rightarrow> False))"

section \<open>The lock order\<close>

text \<open>\<open>in_order\<close>: the new lock ranks above every lock held, and who writes one of the two maps takes only the lock
  of the audit log. \<open>rechecks\<close>: the second shared lock of the maps in the check of \<open>Format\<close>.\<close>

definition writes_maps :: "(mutex \<times> lmode) list \<Rightarrow> bool" where
  "writes_maps H = ((diskMapMutex, Exclusive) \<in> set H \<or> (volumeMapMutex, Exclusive) \<in> set H)"

definition in_order :: "(mutex \<times> lmode) list \<Rightarrow> mutex \<times> lmode \<Rightarrow> bool" where
  "in_order H r = (list_all (\<lambda>h. rank (fst h) < rank (fst r)) H \<and> (writes_maps H \<longrightarrow> fst r = auditMutex))"

definition rechecks :: "(mutex \<times> lmode) list \<Rightarrow> mutex \<times> lmode \<Rightarrow> bool" where
  "rechecks H r = (snd r = Shared \<and> (fst r = diskMapMutex \<or> fst r = volumeMapMutex) \<and> (volumeMapMutex, Shared) \<in> set H \<and>
     \<not> writes_maps H \<and> auditMutex \<notin> fst ` set H)"

definition tolerated :: "(mutex \<times> lmode) list \<Rightarrow> mutex \<times> lmode \<Rightarrow> bool" where
  "tolerated H r = (in_order H r \<or> rechecks H r)"

text \<open>\<open>protects\<close>: the locks held protect an access. The connection to the daemon may be read without, and the
  \<open>operator[]\<close> of the disk map is tolerated under a shared lock.\<close>

definition protects :: "(mutex \<times> lmode) list \<Rightarrow> svar \<Rightarrow> lmode \<Rightarrow> bool" where
  "protects H x md = (x = V_storageDaemon \<and> md = Shared \<or> (guard_of x, Exclusive) \<in> set H \<or> md = Shared \<and> (guard_of x, Shared) \<in> set H)"

fun obeys :: "((mutex \<times> lmode) list \<Rightarrow> mutex \<times> lmode \<Rightarrow> bool) \<Rightarrow> (mutex \<times> lmode) list \<Rightarrow> lcode \<Rightarrow> bool" where
  "obeys P H (Hold m md body) = (P H (m, md) \<and> list_all (obeys P ((m, md) # H)) body)"
| "obeys P H (Acc x md) = protects H x md"
| "obeys P H (Index x) = (protects H x Exclusive \<or> x = V_diskMap \<and> (guard_of x, Shared) \<in> set H)"
| "obeys P H Outside = True"
| "obeys P H (Loop body) = list_all (obeys P H) body"

lemma plain_ops_in_order: "list_all (list_all (obeys in_order [])) plain_ops"
  by code_simp

lemma format_ops_tolerated: "list_all (list_all (obeys tolerated [])) format_ops"
  by code_simp

lemma obeys_mono: "(\<And>H r. P H r \<Longrightarrow> Q H r) \<Longrightarrow> obeys P H c \<Longrightarrow> obeys Q H c"
  by (induction P H c rule: obeys.induct) (auto simp: list_all_iff)

lemma service_ops_tolerated: "list_all (list_all (obeys tolerated [])) service_ops"
proof -
  have "obeys tolerated [] c" if "obeys in_order [] c" for c using that by (rule obeys_mono [rotated]) (simp add: tolerated_def)
  then have "list_all (list_all (obeys tolerated [])) plain_ops"
    using plain_ops_in_order by (auto simp: list_all_iff)
  then show ?thesis using format_ops_tolerated by (simp add: service_ops_def)
qed

section \<open>Invariants of the threads\<close>

text \<open>A discipline is a policy that the operations follow and that the report of the diagnostics follows too.\<close>

primrec obeys_frames :: "((mutex \<times> lmode) list \<Rightarrow> mutex \<times> lmode \<Rightarrow> bool) \<Rightarrow> lframe list \<Rightarrow> bool" where
  "obeys_frames P [] = True"
| "obeys_frames P (f # fs) = ((case f of Do c \<Rightarrow> obeys P (held_locks fs) c | Rel m md \<Rightarrow> True) \<and> obeys_frames P fs)"

lemma held_locks_map_Do [simp]: "held_locks (map Do cs @ fs) = held_locks fs"
  by (induction cs) auto

lemma obeys_frames_map_Do [simp]:
  "obeys_frames P (map Do cs @ fs) = (list_all (obeys P (held_locks fs)) cs \<and> obeys_frames P fs)"
  by (induction cs) auto

lemma waits_for_SomeD: "waits_for t = Some r \<Longrightarrow> \<exists>body fs. t = (True, Do (Hold (fst r) (snd r) body) # fs)"
  by (cases t rule: waits_for.cases) auto

lemma waits_for_waiting: "waits_for t = Some r \<Longrightarrow> fst t"
  by (auto dest: waits_for_SomeD)

lemma report_code_obeys: "P H (auditMutex, Exclusive) \<Longrightarrow> obeys P H report_code"
  by (simp add: report_code_def protects_def)

text \<open>The thread is at the \<open>operator[]\<close> of the disk map and holds its lock in shared mode.\<close>

definition indexes_shared :: "svar \<Rightarrow> thread \<Rightarrow> bool" where
  "indexes_shared x t \<longleftrightarrow> x = V_diskMap \<and> (\<exists>fs. t = (False, Do (Index x) # fs)) \<and> (diskMapMutex, Shared) \<in> set (held_locks (snd t))"

locale lock_discipline =
  fixes ops :: "lcode list list" and P :: "(mutex \<times> lmode) list \<Rightarrow> mutex \<times> lmode \<Rightarrow> bool"
  assumes ops_obey: "list_all (list_all (obeys P [])) ops"
    and report_obeys: "auditMutex \<notin> fst ` set H \<Longrightarrow> P H (auditMutex, Exclusive)"
begin

lemma tact_obeys: "tact ops a t = Some t' \<Longrightarrow> obeys_frames P (snd t) \<Longrightarrow> obeys_frames P (snd t')"
  using ops_obey
  by (cases "(ops, a, t)" rule: tact.cases)
    (auto split: if_splits simp: report_obeys report_code_obeys list_all_length obeys_frames_map_Do [where fs = "[]", simplified])

lemma tact_waiting: "tact ops a t = Some t' \<Longrightarrow> fst t' \<Longrightarrow> \<exists>r. waits_for t' = Some r"
  by (cases "(ops, a, t)" rule: tact.cases) (auto split: if_splits)

lemma lact_obeys:
  assumes "lact wp ops ia ts = Some ts'" and "\<forall>t\<in>set ts. obeys_frames P (snd t)"
  shows "\<forall>t\<in>set ts'. obeys_frames P (snd t)"
proof -
  obtain i a t' where "i < length ts" and t': "tact ops a (ts ! i) = Some t'" and ts': "ts' = ts[i := t']"
    using assms(1) by (auto simp: lact_def split: prod.splits if_splits)
  then have "obeys_frames P (snd t')" using assms(2) by (intro tact_obeys [OF t']) simp
  then show ?thesis using assms(2) set_update_subset_insert ts' by fastforce
qed

lemma reachable_obeys: "lock_reachable wp ops ts \<Longrightarrow> t \<in> set ts \<Longrightarrow> obeys_frames P (snd t)"
proof (induction arbitrary: t rule: lock_reachable.induct)
  case (reach_act ts ia ts')
  then show ?case using lact_obeys by blast
qed (auto simp: idle_threads_def)

text \<open>Where a thread waits, the policy allows the request.\<close>

lemma waits_allowed:
  assumes "lock_reachable wp ops ts" and "i < length ts" and "waits_for (ts ! i) = Some r"
  shows "P (held_locks (snd (ts ! i))) r"
  using reachable_obeys [OF assms(1), of "ts ! i"] waits_for_SomeD [OF assms(3)] assms(2) by auto

text \<open>Where a thread accesses a variable, its locks protect the access, the \<open>operator[]\<close> of the disk map apart.\<close>

lemma access_protected:
  assumes "lock_reachable wp ops ts" and "i < length ts" and "accesses (ts ! i) = Some (x, md)"
  shows "protects (held_locks (snd (ts ! i))) x md \<or> indexes_shared x (ts ! i)"
  using reachable_obeys [OF assms(1) nth_mem [OF assms(2)]] assms(3)
  by (cases "ts ! i" rule: accesses.cases) (auto simp: indexes_shared_def)

end

subsection \<open>Mutual exclusion\<close>

definition exclusive :: "thread list \<Rightarrow> bool" where
  "exclusive ts = (\<forall>i<length ts. \<forall>j<length ts. i \<noteq> j \<longrightarrow>
     (\<forall>m md. (m, Exclusive) \<in> set (held_locks (snd (ts ! i))) \<longrightarrow> (m, md) \<notin> set (held_locks (snd (ts ! j)))))"

lemma tact_held:
  assumes "tact ops a t = Some t'" and "h \<in> set (held_locks (snd t'))"
  shows "h \<in> set (held_locks (snd t)) \<or> a = Grant \<and> waits_for t = Some h"
  using assms held_locks_map_Do [of "ops ! k" "[]" for k]
  by (cases "(ops, a, t)" rule: tact.cases) (auto split: if_splits)

lemma lact_held:
  assumes "lact wp ops ia ts = Some ts'" and "j < length ts'" and "h \<in> set (held_locks (snd (ts' ! j)))"
  shows "h \<in> set (held_locks (snd (ts ! j))) \<or>
    waits_for (ts ! j) = Some h \<and> available wp ts j \<and> (\<forall>k. k \<noteq> j \<longrightarrow> ts' ! k = ts ! k)"
proof -
  obtain i a t' where i: "i < length ts" and g: "a = Grant \<longrightarrow> available wp ts i" and t': "tact ops a (ts ! i) = Some t'"
    and ts': "ts' = ts[i := t']"
    using assms(1) by (auto simp: lact_def split: prod.splits if_splits)
  show ?thesis using assms(3) tact_held [OF t', of h] i g ts' by (cases "j = i") auto
qed

lemma lact_length: "lact wp ops ia ts = Some ts' \<Longrightarrow> length ts' = length ts"
  by (auto simp: lact_def split: prod.splits if_splits)

lemma available_held:
  assumes "available wp ts i" and "waits_for (ts ! i) = Some (m, md)" and "j < length ts"
    and "(m, md') \<in> set (held_locks (snd (ts ! j)))"
  shows "md = Shared \<and> md' = Shared"
  using assms by (cases md; cases md') (force simp: available_def blocked_by_def conflicts_def list_all_iff list_ex_iff)+

lemma exclusive_step: "exclusive ts \<Longrightarrow> lact wp ops ia ts = Some ts' \<Longrightarrow> exclusive ts'"
  unfolding exclusive_def
proof (intro allI impI notI)
  fix i j m md
  assume ex: "\<forall>i<length ts. \<forall>j<length ts. i \<noteq> j \<longrightarrow> (\<forall>m md. (m, Exclusive) \<in> set (held_locks (snd (ts ! i))) \<longrightarrow>
      (m, md) \<notin> set (held_locks (snd (ts ! j))))"
    and l: "lact wp ops ia ts = Some ts'" and ij: "i < length ts'" "j < length ts'" "i \<noteq> j"
    and hi: "(m, Exclusive) \<in> set (held_locks (snd (ts' ! i)))" and hj: "(m, md) \<in> set (held_locks (snd (ts' ! j)))"
  note len = lact_length [OF l]
  from lact_held [OF l ij(1) hi] lact_held [OF l ij(2) hj] show False
    using ex ij hi hj available_held len by (metis lmode.distinct(1))
qed

lemma reachable_exclusive: "lock_reachable wp ops ts \<Longrightarrow> exclusive ts"
proof (induction rule: lock_reachable.induct)
  case (reach_act ts ia ts')
  then show ?case using exclusive_step by blast
qed (simp add: exclusive_def idle_threads_def)

subsection \<open>Circular waits\<close>

lemma conflicts_held: "conflicts r H \<Longrightarrow> \<exists>md. (fst r, md) \<in> set H \<and> (md = Exclusive \<or> snd r = Exclusive)"
  by (auto simp: conflicts_def list_ex_iff)

lemma blocked_by_cases:
  assumes "blocked_by wp ts i j"
  obtains (holds) m md md' where "waits_for (ts ! i) = Some (m, md)" and "(m, md') \<in> set (held_locks (snd (ts ! j)))"
      and "md' = Exclusive \<or> md = Exclusive"
  | (writer) m where "wp" and "i \<noteq> j" and "waits_for (ts ! i) = Some (m, Shared)" and "waits_for (ts ! j) = Some (m, Exclusive)"
  using assms conflicts_held by (fastforce simp: blocked_by_def split: option.splits)

text \<open>The mutex that a thread waits for, and the thread of a set with the highest one.\<close>

definition wrank :: "thread \<Rightarrow> nat" where "wrank t = (case waits_for t of None \<Rightarrow> 0 | Some r \<Rightarrow> rank (fst r))"

lemma circular_wait_waits: "circular_wait wp ts D \<Longrightarrow> i \<in> D \<Longrightarrow> \<exists>r. waits_for (ts ! i) = Some r"
  by (force simp: circular_wait_def blocked_by_def split: option.splits)

lemma circular_wait_finite: "circular_wait wp ts D \<Longrightarrow> finite D"
  using finite_subset by (auto simp: circular_wait_def)

lemma in_order_rank: "in_order H r \<Longrightarrow> (m, md) \<in> set H \<Longrightarrow> rank m < rank (fst r)"
  by (fastforce simp: in_order_def list_all_iff)

lemma rank_le_audit: "rank m \<le> rank auditMutex"
  by (cases m) auto

lemma in_order_no_circular_wait:
  assumes c: "circular_wait wp ts D"
    and o: "\<And>i r. i \<in> D \<Longrightarrow> waits_for (ts ! i) = Some r \<Longrightarrow> in_order (held_locks (snd (ts ! i))) r"
  shows False
proof -
  let ?f = "\<lambda>i. wrank (ts ! i)"
  have D: "finite D" "D \<noteq> {}" using circular_wait_finite [OF c] c by (auto simp: circular_wait_def)
  then have "Max (?f ` D) \<in> ?f ` D" by simp
  then obtain i where i: "i \<in> D" and m: "Max (?f ` D) = ?f i" by blast
  have top: "?f j \<le> ?f i" if "j \<in> D" for j using D that by (simp flip: m)
  have above: False if j: "j \<in> D" and h: "(m, md) \<in> set (held_locks (snd (ts ! j)))" and m: "wrank (ts ! i) = rank m" for j m md
  proof -
    obtain r where "waits_for (ts ! j) = Some r" using circular_wait_waits [OF c j] by blast
    then show False using in_order_rank [OF o [OF j] h] top [OF j] m by (simp add: wrank_def)
  qed
  obtain j where j: "j \<in> D" and b: "blocked_by wp ts i j" using c i by (auto simp: circular_wait_def)
  from b show False
  proof (cases rule: blocked_by_cases)
    case (holds m md md')
    then show False using above [OF j, of m md'] by (simp add: wrank_def)
  next
    case (writer m)
    obtain k where k: "k \<in> D" and b': "blocked_by wp ts j k" using c j by (auto simp: circular_wait_def)
    obtain md where "(m, md) \<in> set (held_locks (snd (ts ! k)))"
      using b' writer by (cases rule: blocked_by_cases) auto
    then show False using above [OF k, of m md] writer by (simp add: wrank_def)
  qed
qed

text \<open>Who holds the lock of the audit log waits for nothing, so who writes a map is never part of a circular wait.\<close>

lemma audit_holder_free:
  assumes "tolerated H r" shows "auditMutex \<notin> fst ` set H"
proof
  assume "auditMutex \<in> fst ` set H"
  then obtain md where h: "(auditMutex, md) \<in> set H" by auto
  have "\<not> in_order H r" using in_order_rank [OF _ h] rank_le_audit [of "fst r"] by (meson not_le)
  then show False using assms h by (force simp: tolerated_def rechecks_def)
qed

lemma writer_not_in_circle:
  assumes c: "circular_wait wp ts D"
    and t: "\<And>i r. i \<in> D \<Longrightarrow> waits_for (ts ! i) = Some r \<Longrightarrow> tolerated (held_locks (snd (ts ! i))) r"
    and j: "j \<in> D"
  shows "\<not> writes_maps (held_locks (snd (ts ! j)))"
proof
  assume w: "writes_maps (held_locks (snd (ts ! j)))"
  obtain r where r: "waits_for (ts ! j) = Some r" using circular_wait_waits [OF c j] by blast
  have m: "fst r = auditMutex" using t [OF j r] w by (auto simp: tolerated_def rechecks_def in_order_def)
  have noh: "\<And>k md. k \<in> D \<Longrightarrow> (auditMutex, md) \<notin> set (held_locks (snd (ts ! k)))"
    using circular_wait_waits [OF c] t audit_holder_free by force
  have step: "\<exists>k\<in>D. waits_for (ts ! k) = Some (auditMutex, Exclusive)"
    if i: "i \<in> D" and wi: "waits_for (ts ! i) = Some (auditMutex, md)" for i md
  proof -
    obtain k where k: "k \<in> D" and "blocked_by wp ts i k" using c i by (auto simp: circular_wait_def)
    from this(2) show ?thesis
      using wi noh [OF k] k by (cases rule: blocked_by_cases) auto
  qed
  obtain k where k: "k \<in> D" "waits_for (ts ! k) = Some (auditMutex, Exclusive)"
    using step [OF j, of "snd r"] r m by (metis prod.collapse)
  obtain l where l: "l \<in> D" "blocked_by wp ts k l" using c k(1) by (auto simp: circular_wait_def)
  from l(2) show False
    using k(2) noh [OF l(1)] by (cases rule: blocked_by_cases) auto
qed

lemma tolerated_circular_wait:
  assumes c: "circular_wait wp ts D"
    and t: "\<And>i r. i \<in> D \<Longrightarrow> waits_for (ts ! i) = Some r \<Longrightarrow> tolerated (held_locks (snd (ts ! i))) r"
  shows "wp \<and> (\<exists>i\<in>D. \<exists>j\<in>D. \<exists>m. (m = diskMapMutex \<or> m = volumeMapMutex) \<and>
    (volumeMapMutex, Shared) \<in> set (held_locks (snd (ts ! i))) \<and> waits_for (ts ! i) = Some (m, Shared) \<and>
    waits_for (ts ! j) = Some (m, Exclusive))"
proof -
  obtain i r where i: "i \<in> D" and r: "waits_for (ts ! i) = Some r" and n: "\<not> in_order (held_locks (snd (ts ! i))) r"
    using in_order_no_circular_wait [OF c] by blast
  then have re: "rechecks (held_locks (snd (ts ! i))) r" using t [OF i r] by (simp add: tolerated_def)
  obtain j where j: "j \<in> D" and b: "blocked_by wp ts i j" using c i by (auto simp: circular_wait_def)
  from b show ?thesis
  proof (cases rule: blocked_by_cases)
    case (holds m md md')
    then show ?thesis using re r writer_not_in_circle [OF c t j] by (auto simp: rechecks_def writes_maps_def)
  next
    case (writer m)
    then show ?thesis using re r i j by (auto simp: rechecks_def)
  qed
qed

lemma report_in_order:
  assumes "auditMutex \<notin> fst ` set H" shows "in_order H (auditMutex, Exclusive)"
proof -
  have "rank m < rank auditMutex" if "m \<noteq> auditMutex" for m using that by (cases m) auto
  then have "rank (fst h) < rank auditMutex" if "h \<in> set H" for h using assms that by (metis imageI)
  then show ?thesis by (simp add: in_order_def list_all_iff)
qed

interpretation plain: lock_discipline plain_ops in_order
  by unfold_locales (simp_all only: plain_ops_in_order report_in_order not_False_eq_True)

interpretation service: lock_discipline service_ops tolerated
  by unfold_locales (simp_all only: service_ops_tolerated tolerated_def report_in_order simp_thms)

section \<open>Runs\<close>

lemma lrun_reachable: "lock_reachable wp ops ts \<Longrightarrow> lrun wp ops ias ts = Some ts' \<Longrightarrow> lock_reachable wp ops ts'"
proof (induction ias arbitrary: ts)
  case (Cons ia ias)
  then obtain ts1 where "lact wp ops ia ts = Some ts1" "lrun wp ops ias ts1 = Some ts'" by (auto split: bind_splits)
  then show ?case using Cons reach_act by blast
qed simp

text \<open>One thread formats and has taken the lock of the volume map and, in its check of the disk, that of the disk map; the other starts a mount and waits
  to write the volume map; then the first asks for the volume map again.\<close>

definition format_schedule :: "(nat \<times> act) list" where
  "format_schedule = [(0, StartOp (length plain_ops)), (0, Skip), (0, Skip), (0, Skip), (0, Request), (0, Grant), (0, Skip), (0, Request), (0, Grant),
     (1, StartOp 0), (1, Skip), (1, Request), (0, Request)]"

lemma format_schedule_runs:
  "\<exists>ts. lrun True service_ops format_schedule (idle_threads 2) = Some ts \<and> blocked_by True ts 0 1 \<and> blocked_by True ts 1 0 \<and> length ts = 2"
proof -
  have "(case lrun True service_ops format_schedule (idle_threads 2) of None \<Rightarrow> False
    | Some ts \<Rightarrow> blocked_by True ts 0 1 \<and> blocked_by True ts 1 0 \<and> length ts = 2)" by code_simp
  then show ?thesis by (auto split: option.splits)
qed

text \<open>Two mounts, the second waiting to write the volume map that the first one writes.\<close>

definition mount_schedule :: "(nat \<times> act) list" where
  "mount_schedule = [(0, StartOp 0), (0, Skip), (0, Request), (0, Grant), (1, StartOp 0), (1, Skip), (1, Request)]"

definition mount_threads :: "thread list" where "mount_threads = the (lrun False plain_ops mount_schedule (idle_threads 2))"

lemma mount_threads_run: "lrun False plain_ops mount_schedule (idle_threads 2) = Some mount_threads"
proof -
  have "lrun False plain_ops mount_schedule (idle_threads 2) \<noteq> None" by code_simp
  then show ?thesis by (auto simp: mount_threads_def)
qed

lemma mount_threads_blocked: "length mount_threads = 2" "blocked_by False mount_threads 1 0"
  by code_simp+

section \<open>The theorems on the locks\<close>

text \<open>C14: In every state that the threads of the service can reach, a mutex that one thread holds exclusively is held by no
  other thread, and a circular wait among the threads needs a library whose waiting writers keep readers out; it then contains
  a thread that already holds the lock of the volume map in shared mode, asks in shared mode for the lock of the disk map or again
  for that of the volume map, and a thread that waits to write this same map. Of all operations, this is the check of the
  disk by \<open>Format\<close>.\<close>

theorem service_circular_waits:
  assumes "lock_reachable wp service_ops ts"
  shows "exclusive ts \<and> (circular_wait wp ts D \<longrightarrow> wp \<and> (\<exists>i\<in>D. \<exists>j\<in>D. \<exists>m. (m = diskMapMutex \<or> m = volumeMapMutex) \<and>
    (volumeMapMutex, Shared) \<in> set (held_locks (snd (ts ! i))) \<and> waits_for (ts ! i) = Some (m, Shared) \<and>
    waits_for (ts ! j) = Some (m, Exclusive)))"
proof (intro conjI impI)
  show "exclusive ts" using assms by (rule reachable_exclusive)
next
  assume c: "circular_wait wp ts D"
  then have len: "i < length ts" if "i \<in> D" for i using that by (auto simp: circular_wait_def)
  show "wp" and "\<exists>i\<in>D. \<exists>j\<in>D. \<exists>m. (m = diskMapMutex \<or> m = volumeMapMutex) \<and>
    (volumeMapMutex, Shared) \<in> set (held_locks (snd (ts ! i))) \<and> waits_for (ts ! i) = Some (m, Shared) \<and>
    waits_for (ts ! j) = Some (m, Exclusive)"
    using tolerated_circular_wait [OF c service.waits_allowed [OF assms len]] by simp_all
qed

theorem service_circular_waits_witness:
  "\<exists>ts. circular_wait True ts {0, 1} \<and> exclusive ts \<and> (\<exists>i j m. {i, j} \<subseteq> {0, 1} \<and> (m = diskMapMutex \<or> m = volumeMapMutex) \<and>
    (volumeMapMutex, Shared) \<in> set (held_locks (snd (ts ! i))) \<and> waits_for (ts ! i) = Some (m, Shared) \<and>
    waits_for (ts ! j) = Some (m, Exclusive))"
proof -
  obtain ts where ts: "lrun True service_ops format_schedule (idle_threads 2) = Some ts"
    and "blocked_by True ts 0 1" "blocked_by True ts 1 0" "length ts = 2" using format_schedule_runs by blast
  then have c: "circular_wait True ts {0, 1}" by (auto simp: circular_wait_def)
  then show ?thesis
    using service_circular_waits [OF lrun_reachable [OF reach_idle ts], of "{0, 1}"] by (intro exI [of _ ts]) blast
qed

text \<open>A thread that waits does so, through a chain of threads each blocked by the next, for one that is not blocked:
  it runs, or its own request can be granted.\<close>

lemma no_circular_wait_progress:
  assumes n: "\<And>D. \<not> circular_wait wp ts D" and i: "i < length ts"
  shows "\<exists>j<length ts. (\<lambda>i j. j < length ts \<and> blocked_by wp ts i j)\<^sup>*\<^sup>* i j \<and> (waits_for (ts ! j) = None \<or> available wp ts j)"
proof -
  let ?B = "\<lambda>i j. j < length ts \<and> blocked_by wp ts i j"
  let ?D = "{j. ?B\<^sup>*\<^sup>* i j}"
  have len: "j < length ts" if "?B\<^sup>*\<^sup>* i j" for j using that i by (induction rule: rtranclp_induct) auto
  then have "i \<in> ?D" "?D \<subseteq> {..<length ts}" by auto
  then obtain j where j: "?B\<^sup>*\<^sup>* i j" and f: "\<not> (\<exists>k\<in>?D. blocked_by wp ts j k)"
    using n [of ?D] unfolding circular_wait_def by blast
  have "\<not> blocked_by wp ts j k" if "k < length ts" for k
    using f that j rtranclp.rtrancl_into_rtrancl [of ?B i j k] by blast
  then have "available wp ts j" by (simp add: available_def list_all_iff)
  then show ?thesis using j len by blast
qed

lemma plain_no_circular_wait: "lock_reachable wp plain_ops ts \<Longrightarrow> \<not> circular_wait wp ts D"
  using in_order_no_circular_wait plain.waits_allowed by (metis circular_wait_def lessThan_iff subsetD)

text \<open>C16: Every operation but those that reach \<open>Format\<close> takes its mutexes in one order. As long as only these run, in any
  number of threads and any interleaving, whatever the library does with waiting writers, every thread that waits for a mutex waits,
  through a finite chain of threads, for one that runs or whose request can be granted at once.\<close>

theorem plain_ops_progress:
  assumes "lock_reachable wp plain_ops ts" and "i < length ts"
  shows "\<exists>j<length ts. (\<lambda>i j. j < length ts \<and> blocked_by wp ts i j)\<^sup>*\<^sup>* i j \<and> (waits_for (ts ! j) = None \<or> available wp ts j)"
  using no_circular_wait_progress [OF plain_no_circular_wait [OF assms(1)] assms(2)] .

theorem plain_ops_progress_witness:
  "blocked_by False mount_threads 1 0 \<and> (\<exists>j<length mount_threads.
    (\<lambda>i j. j < length mount_threads \<and> blocked_by False mount_threads i j)\<^sup>*\<^sup>* 1 j \<and>
    (waits_for (mount_threads ! j) = None \<or> available False mount_threads j))"
  using plain_ops_progress [OF lrun_reachable [OF reach_idle mount_threads_run], of 1] mount_threads_blocked by simp

subsection \<open>Data races\<close>

lemma exclusiveD:
  "exclusive ts \<Longrightarrow> i < length ts \<Longrightarrow> j < length ts \<Longrightarrow> i \<noteq> j \<Longrightarrow> (m, Exclusive) \<in> set (held_locks (snd (ts ! i))) \<Longrightarrow>
   (m, md) \<notin> set (held_locks (snd (ts ! j)))"
  unfolding exclusive_def by blast

lemma protected_race:
  assumes ex: "exclusive ts" and ij: "i < length ts" "j < length ts" "i \<noteq> j"
    and pi: "protects (held_locks (snd (ts ! i))) x Exclusive \<or> indexes_shared x (ts ! i)"
    and pj: "protects (held_locks (snd (ts ! j))) x md' \<or> indexes_shared x (ts ! j)"
  shows "x = V_storageDaemon \<and> md' = Shared \<and> (sdMutex, Exclusive) \<in> set (held_locks (snd (ts ! i))) \<or>
    indexes_shared x (ts ! i) \<and> (diskMapMutex, Shared) \<in> set (held_locks (snd (ts ! j)))"
proof (cases "protects (held_locks (snd (ts ! i))) x Exclusive")
  case True
  then have h: "(guard_of x, Exclusive) \<in> set (held_locks (snd (ts ! i)))" by (simp add: protects_def)
  from pj exclusiveD [OF ex ij h] have "x = V_storageDaemon \<and> md' = Shared" by (auto simp: protects_def indexes_shared_def)
  with h show ?thesis by simp
next
  case False
  with pi have i: "indexes_shared x (ts ! i)" by simp
  then have "(diskMapMutex, Exclusive) \<notin> set (held_locks (snd (ts ! j)))"
    using exclusiveD [OF ex ij(2,1) ij(3) [symmetric]] by (auto simp: indexes_shared_def)
  with pj i show ?thesis by (auto simp: protects_def indexes_shared_def)
qed

text \<open>The daemon dies while an operation has checked the connection and is about to use it; two threads look up disks.\<close>

definition death_schedule :: "(nat \<times> act) list" where
  "death_schedule = [(0, StartOp 11), (0, Skip), (0, Request), (0, Grant), (0, Skip), (0, Skip), (0, Skip), (0, Skip), (0, Release),
     (1, StartOp 34), (1, Request), (1, Grant), (1, Skip), (1, Skip)]"

definition lookup_schedule :: "(nat \<times> act) list" where
  "lookup_schedule = [(0, StartOp 10), (0, Request), (0, Grant), (0, Request), (0, Grant), (0, Skip),
     (1, StartOp 4), (1, Request), (1, Grant), (1, Request), (1, Grant)]"

lemma death_schedule_runs:
  "\<exists>ts. lrun wp service_ops death_schedule (idle_threads 2) = Some ts \<and> data_race ts 0 1 V_storageDaemon \<and> length ts = 2"
proof -
  have "list_all (\<lambda>wp. case lrun wp service_ops death_schedule (idle_threads 2) of None \<Rightarrow> False
    | Some ts \<Rightarrow> data_race ts 0 1 V_storageDaemon \<and> length ts = 2) [True, False]" by code_simp
  then show ?thesis by (cases wp) (auto split: option.splits)
qed

lemma lookup_schedule_runs:
  "\<exists>ts. lrun wp service_ops lookup_schedule (idle_threads 2) = Some ts \<and> data_race ts 0 1 V_diskMap \<and> length ts = 2"
proof -
  have "list_all (\<lambda>wp. case lrun wp service_ops lookup_schedule (idle_threads 2) of None \<Rightarrow> False
    | Some ts \<Rightarrow> data_race ts 0 1 V_diskMap \<and> length ts = 2) [True, False]" by code_simp
  then show ?thesis by (cases wp) (auto split: option.splits)
qed

text \<open>C15: The data races of the service. In every state that its threads can reach, two threads are about to access the same
  variable, one of them to modify it, only in two cases: it is the connection to the daemon, which one of them resets or makes under the
  mutex of the adapter while the other uses it without; or it is the disk map, one of them is at the \<open>operator[]\<close> of \<open>GetDiskById\<close>, and both hold
  the lock of the map in shared mode. Both races do arise. All other maps, the store, the list of configurations, the timer and the
  audit log are free of data races, and so are the disk map's other accesses among themselves.\<close>

theorem service_data_races:
  "(\<forall>ts i j x. lock_reachable wp service_ops ts \<and> i < length ts \<and> j < length ts \<and> data_race ts i j x \<longrightarrow>
     (\<exists>k l. {k, l} = {i, j} \<and>
       (x = V_storageDaemon \<and> accesses (ts ! k) = Some (x, Exclusive) \<and> accesses (ts ! l) = Some (x, Shared) \<and>
          (sdMutex, Exclusive) \<in> set (held_locks (snd (ts ! k))) \<or>
        x = V_diskMap \<and> (\<exists>fs. ts ! k = (False, Do (Index V_diskMap) # fs)) \<and>
          (diskMapMutex, Shared) \<in> set (held_locks (snd (ts ! k))) \<and> (diskMapMutex, Shared) \<in> set (held_locks (snd (ts ! l)))))) \<and>
   (\<exists>ts. lock_reachable wp service_ops ts \<and> data_race ts 0 1 V_storageDaemon) \<and>
   (\<exists>ts. lock_reachable wp service_ops ts \<and> data_race ts 0 1 V_diskMap)"
proof (intro conjI allI impI)
  fix ts i j x
  assume race: "lock_reachable wp service_ops ts \<and> i < length ts \<and> j < length ts \<and> data_race ts i j x"
  then have re: "lock_reachable wp service_ops ts" and ij: "i < length ts" "j < length ts" by simp_all
  obtain md md' where a: "accesses (ts ! i) = Some (x, md)" "accesses (ts ! j) = Some (x, md')" and ne: "i \<noteq> j"
    and w: "md = Exclusive \<or> md' = Exclusive"
    using race by (auto simp: data_race_def split: option.splits)
  note ex = reachable_exclusive [OF re]
  note p = service.access_protected [OF re ij(1) a(1)] service.access_protected [OF re ij(2) a(2)]
  from w show "\<exists>k l. {k, l} = {i, j} \<and>
       (x = V_storageDaemon \<and> accesses (ts ! k) = Some (x, Exclusive) \<and> accesses (ts ! l) = Some (x, Shared) \<and>
          (sdMutex, Exclusive) \<in> set (held_locks (snd (ts ! k))) \<or>
        x = V_diskMap \<and> (\<exists>fs. ts ! k = (False, Do (Index V_diskMap) # fs)) \<and>
          (diskMapMutex, Shared) \<in> set (held_locks (snd (ts ! k))) \<and> (diskMapMutex, Shared) \<in> set (held_locks (snd (ts ! l))))"
  proof
    assume "md = Exclusive"
    with protected_race [OF ex ij ne _ p(2)] p(1) a show ?thesis
      by (intro exI [of _ i] exI [of _ j]) (auto simp: indexes_shared_def)
  next
    assume "md' = Exclusive"
    with protected_race [OF ex ij(2,1) ne [symmetric] _ p(1)] p(2) a show ?thesis
      by (intro exI [of _ j] exI [of _ i]) (auto simp: indexes_shared_def)
  qed
next
  show "\<exists>ts. lock_reachable wp service_ops ts \<and> data_race ts 0 1 V_storageDaemon"
    using death_schedule_runs [of wp] lrun_reachable [OF reach_idle] by blast
  show "\<exists>ts. lock_reachable wp service_ops ts \<and> data_race ts 0 1 V_diskMap"
    using lookup_schedule_runs [of wp] lrun_reachable [OF reach_idle] by blast
qed

theorem service_data_races_witness:
  "\<exists>ts k l fs. {k, l} = {0, 1} \<and> ts ! k = (False, Do (Index V_diskMap) # fs) \<and>
     (diskMapMutex, Shared) \<in> set (held_locks (snd (ts ! k))) \<and> (diskMapMutex, Shared) \<in> set (held_locks (snd (ts ! l)))"
proof -
  obtain ts where ts: "lrun False service_ops lookup_schedule (idle_threads 2) = Some ts"
    and d: "data_race ts 0 1 V_diskMap" and n: "length ts = 2" using lookup_schedule_runs by blast
  have len: "0 < length ts" "1 < length ts" using n by simp_all
  from service_data_races [of False, THEN conjunct1, rule_format, of ts 0 1 V_diskMap] lrun_reachable [OF reach_idle ts] len d
  show ?thesis by (auto simp del: One_nat_def)
qed

subsection \<open>The circular wait of Format\<close>

definition stuck_forever :: "bool \<Rightarrow> lcode list list \<Rightarrow> thread list \<Rightarrow> nat set \<Rightarrow> bool" where
  "stuck_forever wp ops ts D = (\<forall>ias ts'. lrun wp ops ias ts = Some ts' \<longrightarrow> (\<forall>i\<in>D. ts' ! i = ts ! i))"

lemma tact_waiting_Grant: "tact ops a t = Some t' \<Longrightarrow> waits_for t = Some r \<Longrightarrow> a = Grant"
  by (cases "(ops, a, t)" rule: tact.cases) (auto split: if_splits)

lemma circular_wait_lact:
  assumes c: "circular_wait wp ts D" and "lact wp ops ia ts = Some ts'"
  shows "circular_wait wp ts' D \<and> (\<forall>i\<in>D. ts' ! i = ts ! i)"
proof -
  obtain i a t' where i: "i < length ts" and g: "a = Grant \<longrightarrow> available wp ts i" and t': "tact ops a (ts ! i) = Some t'"
    and ts': "ts' = ts[i := t']"
    using assms(2) by (auto simp: lact_def split: prod.splits if_splits)
  have "i \<notin> D"
  proof
    assume "i \<in> D"
    then obtain r j where "waits_for (ts ! i) = Some r" and "j \<in> D" "blocked_by wp ts i j"
      using circular_wait_waits [OF c \<open>i \<in> D\<close>] c unfolding circular_wait_def by blast
    then have "available wp ts i" and "j < length ts"
      using g tact_waiting_Grant [OF t'] c by (auto simp: circular_wait_def)
    then show False using \<open>blocked_by wp ts i j\<close> by (simp add: available_def list_all_iff)
  qed
  then have same: "\<forall>k\<in>D. ts' ! k = ts ! k" using ts' by (metis nth_list_update_neq)
  then have "blocked_by wp ts' k l = blocked_by wp ts k l" if "k \<in> D" "l \<in> D" for k l
    using that by (simp add: blocked_by_def cong: option.case_cong)
  then show ?thesis using c same ts' by (auto simp: circular_wait_def)
qed

lemma circular_wait_stuck:
  assumes "circular_wait wp ts D" shows "stuck_forever wp ops ts D"
proof -
  have "\<forall>i\<in>D. ts' ! i = ts ! i" if "circular_wait wp ts D" "lrun wp ops ias ts = Some ts'" for ias ts ts'
    using that
  proof (induction ias arbitrary: ts)
    case (Cons ia ias)
    then obtain ts1 where "lact wp ops ia ts = Some ts1" "lrun wp ops ias ts1 = Some ts'" by (auto split: bind_splits)
    then show ?case using Cons circular_wait_lact by metis
  qed simp
  then show ?thesis using assms by (auto simp: stuck_forever_def)
qed

text \<open>C17: With such a library the circular wait arises: there is a run of two threads, one formatting a volume and one mounting any
  volume, that ends with the formatting thread waiting for the lock of the volume map behind the mounting thread, which waits for
  the formatting thread to give it up; and whatever the other threads do, neither ever moves again.\<close>

theorem format_deadlock:
  "\<exists>ts. lock_reachable True service_ops ts \<and> circular_wait True ts {0, 1} \<and> stuck_forever True service_ops ts {0, 1}"
proof -
  obtain ts where ts: "lrun True service_ops format_schedule (idle_threads 2) = Some ts"
    and "blocked_by True ts 0 1" "blocked_by True ts 1 0" "length ts = 2" using format_schedule_runs by blast
  then have "circular_wait True ts {0, 1}" by (auto simp: circular_wait_def)
  then show ?thesis using lrun_reachable [OF reach_idle ts] circular_wait_stuck by blast
qed

end
