(* ===== verification/Spec2Isabelle.thy ===== *)
theory Spec2Isabelle
  imports Dm_Utils Dm_Parcel Dm_PartTable Dm_UeventEnv Dm_VoldataStore Dm_BlockInfo Dm_Provider Dm_Daemon Dm_Dfs
    Dm_Auth Dm_Report Dm_Locks
begin

text \<open>
  A verification development for the disk manager of OpenHarmony (\<^verbatim>\<open>filemanagement_disk_manager\<close>), the
  system service that knows the disks and volumes of a device, mounts, unmounts, checks, repairs, formats,
  partitions, ejects and burns them, and tells the rest of the system about it by common events.

  \<^bold>\<open>The program.\<close> The kernel's block-device events reach the service as text from the storage daemon
  (\<^verbatim>\<open>ipc/disk_manager_provider.cpp\<close>, \<open>OnBlockDiskUevent\<close>). \<^verbatim>\<open>disk/uevent_env_parser.cpp\<close> parses them;
  \<^verbatim>\<open>disk/uevent_bootstrap.cpp\<close> creates device nodes, reads the partition table
  (\<^verbatim>\<open>disk/partition_table_parser.cpp\<close>), the USB attributes (\<^verbatim>\<open>disk/sysfs_reader.cpp\<close>) and the disk
  configuration (\<^verbatim>\<open>disk/disk_config.cpp\<close>), and registers disks and volumes with
  \<^verbatim>\<open>disk/disk_manager.cpp\<close>, which holds the maps of the service and all operations on volumes. Applications
  reach the same operations over IPC, after the permission checks of the provider
  (\<^verbatim>\<open>utils/src/ipc_caller_auth.cpp\<close>) and the validators of \<^verbatim>\<open>utils/src/disk_manager_utils.cpp\<close>; values
  travel in the parcels of \<^verbatim>\<open>interfaces/innerkits/src\<close>. \<^verbatim>\<open>db/voldata_uuid_store.cpp\<close> keeps the mount slot of
  each internal data volume in a file with a backup, \<^verbatim>\<open>db/block_info_table.cpp\<close> the block descriptions the
  daemon sends as JSON, and \<^verbatim>\<open>notification/common_event_publisher.cpp\<close> publishes the changes.

  An operation reaches the storage daemon through \<^verbatim>\<open>adapter/storage_daemon_adapter.cpp\<close>, which keeps the connection,
  and \<^verbatim>\<open>adapter/storage_daemon_proxy.cpp\<close>, which writes the message. An application reaches the service through
  the JavaScript or the Taihe functions of \<^verbatim>\<open>interfaces/kits\<close>, which check and convert arguments and errors, and
  the client library \<^verbatim>\<open>interfaces/innerkits/src/disk_manager_client.cpp\<close>, which connects to the service and loads it
  when it is not running. \<^verbatim>\<open>dfx\<close> keeps an audit log of the operations and reports behaviour and faults.

  \<^bold>\<open>The theories\<close>, each building on the ones above it (paths below \<^verbatim>\<open>src/services/disk_manager/src\<close> unless
  they start with \<^verbatim>\<open>interfaces\<close> or \<^verbatim>\<open>utils\<close>):

  \<^item> \<^verbatim>\<open>Dm_Prelude\<close>, \<^verbatim>\<open>Dm_Text\<close>: error codes, ordered maps (\<open>std::map\<close> as a sorted association list), the C and
    C++ string and number conversions that the service uses, and the locale \<open>dictionary\<close>, the laws of a map.
  \<^item> \<^verbatim>\<open>Dm_Utils\<close>: the validators and the log anonymisation of \<^verbatim>\<open>utils/src/disk_manager_utils.cpp\<close>.
  \<^item> \<^verbatim>\<open>Dm_Types\<close>, \<^verbatim>\<open>Dm_Parcel\<close>: the data model of \<^verbatim>\<open>interfaces/innerkits\<close> as records, disk classification, and
    marshalling; the locale \<open>parcelable\<close> is the contract of a type that can be sent, with an interpretation for
    each of the twelve types.
  \<^item> \<^verbatim>\<open>Dm_PartTable\<close>, \<^verbatim>\<open>Dm_UeventEnv\<close>: the two parsers of kernel and tool output.
  \<^item> \<^verbatim>\<open>Dm_VoldataStore\<close>: the persistent map with its file operations, each of which may fail, restarts and
    power losses (with successful \<open>fsync\<close>) as a step relation.
  \<^item> \<^verbatim>\<open>Dm_BlockInfo\<close>: the JSON descriptions and the bounded table.
  \<^item> \<^verbatim>\<open>Dm_World\<close>: the state \<open>dm\<close> of the service, the calls it makes and the environment that answers them.
  \<^item> \<^verbatim>\<open>Dm_Registry\<close>: the maps of \<^verbatim>\<open>disk/disk_manager.cpp\<close>, look-ups, listings, UUID de-duplication, sizes.
  \<^item> \<^verbatim>\<open>Dm_Events\<close>: the publisher and the adapters for fuse, encryption and enterprise policy.
  \<^item> \<^verbatim>\<open>Dm_Mount\<close>, \<^verbatim>\<open>Dm_Partition\<close>, \<^verbatim>\<open>Dm_Format\<close>: the operations of \<^verbatim>\<open>disk/disk_manager.cpp\<close>: mount, unmount,
    check and repair; partition tables, creating and deleting a partition; formatting, labels, optical discs,
    encrypted containers.
  \<^item> \<^verbatim>\<open>Dm_Sysfs\<close>, \<^verbatim>\<open>Dm_DevId\<close>, \<^verbatim>\<open>Dm_Bootstrap\<close>: the handling of device events, and \<open>Partition\<close>, which rediscovers
    the volumes of a disk by it.
  \<^item> \<^verbatim>\<open>Dm_Provider\<close>: the IPC entry points, permissions, administrator authorisation, unloading when idle, and
    the life of the service as the relation \<open>reachable\<close>.
  \<^item> \<^verbatim>\<open>Dm_Dfx\<close>: \<^verbatim>\<open>dfx/hi_audit.cpp\<close> (\<open>HiAudit_...\<close>, rotation and cleaning), \<^verbatim>\<open>dfx/disk_manager_radar.cpp\<close> (events and
    faults), \<^verbatim>\<open>dfx/disk_manager_dfx_types.cpp\<close> (the text of a report), and the scope object \<open>IpcDfxScope\<close>.
  \<^item> \<^verbatim>\<open>Dm_Link\<close>: what the adapter and the client have in common, a proxy and its death recipient: a step relation, and
    the locale \<open>remote_link\<close> with the theorem that the recipient is always that of the proxy kept, and registered if
    registrations succeed.
  \<^item> \<^verbatim>\<open>Dm_Daemon\<close>: \<^verbatim>\<open>adapter/storage_daemon_proxy.cpp\<close> (\<open>SdProxy_...\<close>), \<^verbatim>\<open>adapter/storage_daemon_adapter.cpp\<close> (\<open>Sda_...\<close>);
    \<open>sd_invoke\<close> performs a call of \<^verbatim>\<open>Dm_World\<close> by them.
  \<^item> \<^verbatim>\<open>Dm_Client\<close>: \<^verbatim>\<open>interfaces/innerkits/src/disk_manager_client.cpp\<close>; \<open>client_invoke\<close> performs a request of
    \<^verbatim>\<open>Dm_Provider\<close> by its methods, and \<open>provider_stub\<close> puts the provider at the other end.
  \<^item> \<^verbatim>\<open>Dm_Taihe\<close>: the error tables of both bindings, and
    \<^verbatim>\<open>interfaces/kits/taihe/volume_manager/src/ohos.file.volumeManager.impl.cpp\<close>.
  \<^item> \<^verbatim>\<open>Dm_Js\<close>, \<^verbatim>\<open>Dm_Dfs\<close>: \<^verbatim>\<open>interfaces/kits/js/volume_manager/src\<close>: \<^verbatim>\<open>volumemanager_n_exporter.cpp\<close> (\<open>Js_...\<close>), and
    \<^verbatim>\<open>napi_module_dfs_service.cpp\<close> with \<^verbatim>\<open>napi_module_dfs_listener.cpp\<close> for distributed devices.
  \<^item> \<^verbatim>\<open>Dm_Auth\<close>: the callback and the wait behind the authorisation by an administrator, which \<^verbatim>\<open>Dm_Provider\<close> has as one call.
  \<^item> \<^verbatim>\<open>Dm_Report\<close>: \<open>Mount\<close> with its reporting scope, over the states of \<^verbatim>\<open>Dm_World\<close> and \<^verbatim>\<open>Dm_Dfx\<close> together.
  \<^item> \<^verbatim>\<open>Dm_Locks\<close>: the mutexes. \<open>lk_f\<close> is what the function \<open>f\<close> of the source locks and accesses, in its order and nesting; threads
    run these codes in any interleaving (\<open>lact\<close>, \<open>lock_reachable\<close>), and the locale \<open>lock_discipline\<close> says what follows when all
    operations obey a policy; it is interpreted for the operations that obey the order and for all of them.

  \<^bold>\<open>How code becomes definitions.\<close> A struct or class is a \<open>record\<close> (constructors and setters as record
  updates), an enumeration a \<open>datatype\<close> with its numeric codes, an error code an \<open>int\<close> and a fallible
  function returns \<open>errno + 'a\<close>. Integers are words where the source relies on their width (flags, device
  numbers, sequence numbers, hashes, sizes in parcels) and \<open>int\<close> with the limits written out elsewhere; each
  theory says where signed overflow, undefined in C++, is given a meaning. A pure function is a \<open>fun\<close> or
  \<open>definition\<close>. A method of the service is a term of the state monad over \<open>dm\<close>, statement by statement. The
  members are the fields of \<open>dm\<close>: \<open>diskMap\<close>, \<open>volumeMap\<close>, \<open>partitionTableMap\<close>, \<open>partitionDoneMap\<close>,
  \<open>partitioningDiskIds\<close>, the singletons \<open>blockInfoMap\<close> and \<open>vstore\<close>, the bootstrap's \<open>diskConfigList\<close> and
  \<open>diskPartsSnapshot\<close>, and the provider's flags \<open>prov\<close>; the ghost field \<open>trace\<close> lists calls with their replies
  and published events.

  \<^bold>\<open>The world outside.\<close> What is not in the repository is the record \<open>env\<close>: \<open>en_reply\<close> answers a call (the
  storage daemon, system parameters, \<open>statvfs\<close>, file reads, vendor libraries, the account service) from the
  history and the call, so that any failure and any answer is possible; \<open>en_others\<close> is what other threads do to
  the state while the operation waits (some locks are held across a call; there the model allows more than the code); \<open>en_store\<close> answers the file
  operations of the store; \<open>en_edm\<close>, \<open>en_cdc\<close> and \<open>en_pc_manager\<close> are build switches; \<open>en_fnmatch\<close>,
  \<open>en_draw\<close> (random numbers) and the two \<open>en_\<close> constants are library functions and values. Theorems are either for
  every environment, or for one that is \<open>quiet\<close> (the operation runs without interference), or for one whose
  other threads keep an invariant (\<open>others_keep\<close>). The caller of a request is the record \<open>caller\<close>. In the outer
  components the record \<open>daemon_ipc\<close> is the message parcel and the transport, \<open>adapter_env\<close> and \<open>client_env\<close> the
  system-ability manager, \<open>audit_env\<close> and \<open>radar_env\<close> clock, files and event service, \<open>napi\<close>, \<open>dfs_napi\<close> and
  \<open>taihe_env\<close> the language runtimes, \<open>IDiskManager\<close> the generated proxy, \<open>dfs_manager\<close> the distributed file
  daemon. What is documented of them and needed is a named hypothesis (\<open>ipc_laws\<close>, \<open>dfs_laws\<close>), and the
  witnesses instantiate them by functions on lists.

  \<^bold>\<open>What the lemmas show.\<close>

  \<^item> Invariants. \<open>ensures I m R\<close> (the operation \<open>m\<close> keeps \<open>I\<close> and its result satisfies \<open>R\<close>) has a rule per
    construct of the monad. The locales \<open>map_invariant\<close>, \<open>handler_invariant\<close>, \<open>service_invariant\<close> and
    \<open>provider_invariant\<close> state what an invariant has to survive; inside them each handler is shown once to keep
    it. They are interpreted for the invariant of the registry and of the service, and the frame conditions
    (an operation changes no other disk or volume) are further instances. \<open>Dm_Provider.reachable_invariant\<close>
    follows by rule induction over the life of the service; \<open>Dm_VoldataStore.voldata_paths_unique\<close> is the
    corresponding invariant of the store over failures and power losses.
  \<^item> Behaviour. \<open>Mount_ok\<close>, \<open>Mount_failure\<close>, \<open>Unmount_spec\<close>, \<open>Format_spec\<close>, \<open>CreatePartition_request\<close>,
    \<open>HandleDiskRemove_spec\<close>, \<open>TryEjectCdrom_in_use\<close>, \<open>ResolveMountPath_spec\<close> and others describe the operations
    on every branch, errors included.
  \<^item> Refinement and equivalence. The path check is equivalent to splitting the path, the walk through sysfs to the nearest
    ancestor with USB attributes; de-duplication chooses the least free sequence number. The adapter refines the
    daemon (\<open>Dm_Daemon.daemon_call_refines\<close>) and the client the provider (\<open>Dm_Client.client_serves\<close>): a call through them
    returns what the other end computes, message, reply and connection included.
  \<^item> Connections. \<open>daemon_watched\<close> and \<open>client_watched\<close> are the two instances of the locale \<open>remote_link\<close>;
    \<open>daemon_unreachable\<close>, \<open>client_queries_without_service\<close> and \<open>client_loads_service\<close> describe a missing peer, and
    \<open>daemon_death_race\<close> the moment in which the death of the daemon ends the service.
  \<^item> Bindings. \<open>js_call_spec\<close> characterises every JavaScript function by the rights it asks for, its arguments, the
    request they stand for and the error it settles with, \<open>taihe_call_spec\<close> every Taihe function likewise, and
    \<open>bindings_agree\<close> compares the two; \<open>error_conversion\<close> is about the error tables,
    \<open>burn_options_checked\<close> and \<open>burn_options_agree\<close> about the one structured text that crosses all layers.
    \<open>js_without_rights\<close> and \<open>js_mount_resolved\<close> below go from JavaScript through the client to the provider and its effects.
  \<^item> Diagnostics. The audit log is bounded under any failure, a rotation whose system calls succeed loses at most an oldest log, and a
    scope reports exactly one end of its operation. \<open>Mount_report\<close> composes the scope with \<open>Mount\<close>.
  \<^item> Access. \<open>unauthorised_denied\<close> compares every request with the table \<open>may_call\<close>; \<open>data_disk_exclusive\<close>
    is about the authorisation and mutual exclusion for internal data disks, \<open>admin_wait_refines\<close> about the callbacks behind it;
    \<open>unload_only_idle\<close> about the end of the process.
  \<^item> Locks. \<open>service_data_races\<close> (the two variables that are raced for, and that nothing else is), \<open>service_circular_waits\<close> (mutual exclusion, and the one way in which threads can wait for each other in a
    circle), \<open>plain_ops_progress\<close> (all operations but those that format are free of it) and \<open>format_deadlock\<close> (it does happen).
  \<^item> Round trips. Parcels, JSON descriptions, partition tables, uevents, the store over a restart, device
    numbers and disk identifiers.
  \<^item> Flaws found on the way are stated as theorems where they are about the model, for instance
    \<open>Dm_Bootstrap.Partition_loses_volume\<close> and the last part of \<open>Dm_Partition.partition_wait\<close>.

  \<^bold>\<open>Loops.\<close> No definition uses fuel. Loops over containers and texts are structural recursions; the search for
  a free sequence number (\<open>dedup_loop\<close>) terminates because the volumes are finitely many and the walk upwards
  in a path because each parent is shorter, both proved with a measure. Waiting for the kernel event is one
  call of the environment in the operation, and a step relation of two threads in the theorem about it.

  \<^bold>\<open>Not modelled.\<close>

  \<^item> Code that is generated at build time (the IDL proxy and stub, the Taihe types) or belongs to the platform: parameters
    of the definitions that use it. The registration of the modules with the runtimes, and log output.
  \<^item> Except for \<open>Mount\<close>, the operations of the service do not carry the reports of \<^verbatim>\<open>dfx\<close> in their state: the reporting scope reads the
    values of an operation and changes no map of the service, and is modelled by itself.
  \<^item> The operations on the maps are atomic between two calls, where the source takes and releases its locks; that they
    hold them, and how threads wait for them, is in \<^verbatim>\<open>Dm_Locks\<close>. What a data race does to memory is not part of the model, and a wait of another
    kind (for the end of the idle timer, for the daemon) is a step that ends.
\<close>

section \<open>From an application to the service\<close>

lemma js_denied:
  assumes "performs ok (js_code f) (client_invoke ce (provider_stub penv cl dead) rq) work" "\<not> may_call cl rq"
  shows "dc_remote (snd (work s)) = dc_remote s \<and> (connect_for ce rq s = (E_OK, s1) \<longrightarrow>
    fst (work s) \<in> {Rejected (jerr JE_PERMISSION), Rejected (jerr JE_PERMISSION_SYS), Rejected (jerr JE_SUPPORTEDFS), Rejected E_SA_IS_UNLOADING})"
proof -
  let ?call = "client_invoke ce (provider_stub penv cl dead) rq s"
  obtain err s2 where c: "connect_for ce rq s = (err, s2)" by fastforce
  obtain r t where r: "run_state (serve penv cl rq) (dc_remote s2) = (r, t)" by fastforce
  have t: "t = dc_remote s2" "r \<in> {Some E_PERMISSION_DENIED, Some E_SYS_APP_PERMISSION_DENIED, Some E_NOT_SUPPORT, Some E_SA_IS_UNLOADING}"
    using denied_unchanged[OF assms(2) r] by simp_all
  have call: "err = E_OK \<Longrightarrow> ?call = (answer_code dead r, s2\<lparr>dc_remote := t\<rparr>)" using serve_code[of ce penv cl dead rq s] c r by simp
  have remote: "dc_remote (snd ?call) = dc_remote s"
    using client_invoke_cases[OF c, of "provider_stub penv cl dead"] call t(1) connect_for_remote[OF c] by (cases "err = E_OK") auto
  have code: "Convert2JsErrNum 13600001 = 201" "Convert2JsErrNum 13600025 = 202" "Convert2JsErrNum 13600007 = 13600002" "Convert2JsErrNum 27 = 27"
    by code_simp+
  have "fst (work s) \<in> {Rejected 201, Rejected 202, Rejected 13600002, Rejected 27}" if "err = E_OK"
    using assms(1) call[OF that] t(2) code unfolding performs_def
    by (auto simp: answer_code_def js_code_def dest!: spec[of _ s])
  with remote show ?thesis using assms(1) c unfolding performs_def by auto
qed

text \<open>
  C4: an application without rights, from end to end. Whatever function of the JavaScript interface it calls, and
  whatever the connection does, the work that is scheduled leaves the service as it was; if it reaches the service,
  the promise is rejected with one of the permission errors, or with the error for a service that is not
  supported or just ending.
\<close>

theorem js_without_rights:
  assumes "js_invoke na (provider_stub penv cl dead) f args = Async d n work" "js_request na f args = Some rq" "\<not> may_call cl rq"
  shows "dc_remote (snd (work s)) = dc_remote s \<and> (connect_for (na_client na) rq s = (E_OK, s1) \<longrightarrow>
    fst (work s) \<in> {Rejected (jerr JE_PERMISSION), Rejected (jerr JE_PERMISSION_SYS), Rejected (jerr JE_SUPPORTEDFS), Rejected E_SA_IS_UNLOADING})"
proof -
  have "performs (arrays_work na) (js_code f) (client_invoke (na_client na) (provider_stub penv cl dead) rq) work"
    using js_call_cases[where na = na and dm = "provider_stub penv cl dead" and f = f and args = args] assms(1,2) by simp
  from js_denied[OF this assms(3)] show ?thesis .
qed

theorem js_without_rights_witness:
  "\<exists>work. js_invoke json_napi demo_service UnmountApi [JString ''vol-8-1''] = Async Promise ''Unmount'' work \<and>
     dc_remote (snd (work (client_start two_disks))) = two_disks"
proof -
  obtain work where w: "js_invoke json_napi demo_service UnmountApi [JString ''vol-8-1''] = Async Promise ''Unmount'' work"
    by (simp add: js_invoke_def Js_Unmount_def CheckMount_def json_napi_def with_string_def string_arg_def arg_def schedule_def)
  have "js_request json_napi UnmountApi [JString ''vol-8-1''] = Some (Rq_Unmount ''vol-8-1'')"
    by (simp add: js_request_def json_napi_def string_arg_def arg_def c_str_def)
  moreover have "\<not> may_call plain_app (Rq_Unmount ''vol-8-1'')" by (simp add: storage_manager_or_def plain_app_def)
  ultimately show ?thesis
    using js_without_rights[OF w[unfolded demo_service_def], of "Rq_Unmount ''vol-8-1''" "client_start two_disks"] w
    by (intro exI[of _ work]) (simp add: client_start_def)
qed

text \<open>A request that the service answers without an error came from a caller with the rights for it, and the service is
  in the state its operation leaves.\<close>

lemma js_resolved_served:
  assumes "performs ok (js_code f) (client_invoke ce (provider_stub penv cl dead) (Rq_Mount k mp)) work"
    and "fst (work s) = Resolved v"
  shows "may_call cl (Rq_Mount k mp) \<and> run_state (Mount penv k mp) (dc_remote s) = (E_OK, dc_remote (snd (work s)))"
proof -
  obtain err s1 where c: "connect_for ce (Rq_Mount k mp) s = (err, s1)" by fastforce
  obtain r t where r: "run_state (serve penv cl (Rq_Mount k mp)) (dc_remote s1) = (r, t)" by fastforce
  have ok: "fst (client_invoke ce (provider_stub penv cl dead) (Rq_Mount k mp) s) = E_OK"
    and w: "snd (work s) = snd (client_invoke ce (provider_stub penv cl dead) (Rq_Mount k mp) s)"
    using assms unfolding performs_def by (metis js_result.distinct(1))+
  have "err = E_OK"
    using ok c by (auto simp: client_invoke_def client_defs connect_for_def only_if_present_def call_service_def split: if_splits prod.splits)
  with ok w c r serve_code[of ce penv cl dead "Rq_Mount k mp" s] have "answer_code dead r = E_OK" "dc_remote (snd (work s)) = t" by auto
  moreover from r have "run_state (DiskManagerProvider_Mount penv cl k mp) (dc_remote s) = (answer_code dead r, t)"
    using connect_for_remote[OF c] by (auto simp: report_def answer_code_def split: prod.splits)
  ultimately have "run_state (Mount penv k mp) (dc_remote s) = (E_OK, dc_remote (snd (work s)))"
    by (auto simp: DiskManagerProvider_Mount_def split: if_splits)
  moreover have "may_call cl (Rq_Mount k mp)"
  proof (rule ccontr)
    assume "\<not> may_call cl (Rq_Mount k mp)"
    from denied_unchanged[OF this r] \<open>answer_code dead r = E_OK\<close> show False by (auto simp: answer_code_def)
  qed
  ultimately show ?thesis by blast
qed

text \<open>
  C5: a mount from end to end. When the promise of the JavaScript function \<open>mount\<close> for a volume that is not an encrypted
  container resolves, through the client and the provider, then the caller had the rights to mount, and in the service
  either the volume is recorded as mounted at a non-empty path at which the daemon mounted its device, and the mount was announced, or the
  enterprise policy intercepted it.
\<close>

theorem js_mount_resolved:
  assumes "js_invoke na (provider_stub penv cl dead) MountApi args = Async d n work" "js_request na MountApi args = Some (Rq_Mount k mp)"
    "fst (work s) = Resolved v" "\<not> starts_with ''vol-crypt-'' k"
  shows "may_call cl (Rq_Mount k mp) \<and> (let t = dc_remote (snd (work s)) in
    (\<exists>w. om_get (volumeMap t) k = Some w \<and> vc_state w = vs_code MOUNTED \<and> ve_path w \<noteq> [] \<and>
       mount_done (vc_id w) (ve_path w) (GetFsTypeString w) t \<and> announces MOUNTED w (hd (trace t))) \<or>
    (en_edm penv \<and> (\<exists>s1 x. run_state (IsEdmControlMountEnabled penv x mp) s1 = (True, t))))"
proof -
  have "performs (arrays_work na) (js_code MountApi) (client_invoke (na_client na) (provider_stub penv cl dead) (Rq_Mount k mp)) work"
    using js_call_cases[where na = na and dm = "provider_stub penv cl dead" and f = MountApi and args = args] assms(1,2) by simp
  note r = js_resolved_served[OF this assms(3)]
  show ?thesis using r Mount_success[OF conjunct2[OF r] assms(4)] unfolding Let_def by blast
qed

text \<open>An application that may mount, and the service that grants everything.\<close>

abbreviation mounting_app :: caller where
  "mounting_app \<equiv> settings_app\<lparr>cl_granted := [''ohos.permission.MOUNT_UNMOUNT_MANAGER'']\<rparr>"

abbreviation stick_service :: "dm IDiskManager" where "stick_service \<equiv> provider_stub (calm agree) mounting_app 29189"

lemma stick_served:
  "fst (client_invoke demo_client_env stick_service (Rq_Mount ''vol-8-1'' MountParam_default) (client_start two_disks)) = E_OK"
proof -
  let ?s1 = "\<lparr>dc_diskManager = Some 3, dc_deathRecipient = Some 1, dc_watch = {(3, 1)}, dc_loads = 1, dc_remote = two_disks\<rparr>"
  have "connect_for demo_client_env (Rq_Mount ''vol-8-1'' MountParam_default) (client_start two_disks) = (E_OK, ?s1)"
    by (simp add: connect_for_def only_if_present_def DiskManagerClient_Connect_def InitProxyLocked_def client_start_def demo_client_env_def)
  moreover have "IsCallingSystemApp mounting_app" "VerifyCallerPermission mounting_app PERMISSION_MOUNT_MANAGER" "IsVolumeIdValid ''vol-8-1''"
    by code_simp+
  moreover have "MountParam_default = read_write" by code_simp
  ultimately show ?thesis
    using mount_stick serve_code[of demo_client_env "calm agree" mounting_app 29189 "Rq_Mount ''vol-8-1'' MountParam_default" "client_start two_disks"]
    by (simp add: report_def DiskManagerProvider_Mount_def answer_code_def case_prod_beta)
qed

theorem js_mount_resolved_witness:
  "\<exists>work w. js_invoke json_napi stick_service MountApi [JString ''vol-8-1''] = Async Promise ''Mount'' work \<and>
     om_get (volumeMap (dc_remote (snd (work (client_start two_disks))))) ''vol-8-1'' = Some w \<and> vc_state w = vs_code MOUNTED"
proof -
  let ?work = "exec_void Convert2JsErrNum (client_invoke demo_client_env stick_service (Rq_Mount ''vol-8-1'' MountParam_default))"
  have w: "js_invoke json_napi stick_service MountApi [JString ''vol-8-1''] = Async Promise ''Mount'' ?work"
    by (simp add: js_invoke_def Js_Mount_def CheckMount_def json_napi_def with_string_def string_arg_def arg_def schedule_def client_invoke_def
        c_str_def)
  have q: "js_request json_napi MountApi [JString ''vol-8-1''] = Some (Rq_Mount ''vol-8-1'' MountParam_default)"
    by (simp add: js_request_def json_napi_def string_arg_def arg_def c_str_def)
  have v: "fst (?work (client_start two_disks)) = Resolved JsUndefined"
    using stick_served by (simp add: exec_void_def case_prod_beta)
  have n: "\<not> starts_with ''vol-crypt-'' ''vol-8-1''" by simp
  have e: "run_state (IsEdmControlMountEnabled (calm agree) x MountParam_default) s1 \<noteq> (True, t)" for x s1 t
    using agree_no_edm[of x MountParam_default s1] by auto
  from js_mount_resolved[OF w q v n] e show ?thesis unfolding Let_def using w by blast
qed

end
